(* ===== verification/Go_Base.thy ===== *)
theory Go_Base
  imports Main "HOL-Library.Word"
begin

text \<open>
  Shared base of the development: the machine types of the Go program, the values of its
  \<^verbatim>\<open>error\<close> type, the result type of a Go call (a value, a returned error or a run-time
  panic), slicing and allocation with the panics the Go runtime raises, and the readers of
  the standard library (\<^verbatim>\<open>bufio.Reader\<close>, \<^verbatim>\<open>io.ReadFull\<close>) over the bytes that are still
  to come on a stream.

  Go strings are byte sequences, so \<^verbatim>\<open>string\<close> and \<^verbatim>\<open>[]byte\<close> are both lists of bytes. A
  nil slice is told apart from an empty one (as \<^term>\<open>None\<close>) only where the code tests it.
\<close>

unbundle bit_operations_syntax

section \<open>Machine types\<close>

type_synonym byte = "8 word"
type_synonym uint64 = "64 word"
type_synonym bytes = "byte list"
type_synonym gostring = "byte list"

lemma unat_of_nat_byte: "unat (of_nat n :: byte) = n mod 256"
  by (simp add: unat_of_nat take_bit_eq_mod)

lemma unat_byte_less: "unat (b :: byte) < 256"
  using unsigned_less [where ?'a = nat, of b] by simp

lemma sint_small: "unat (w :: uint64) < 2 ^ 63 \<Longrightarrow> sint w = int (unat w)"
proof -
  assume "unat w < 2 ^ 63"
  then have "int (unat w) < int (2 ^ 63)" by (simp only: of_nat_less_iff)
  then have *: "uint w < 2 ^ 63" by simp
  have "signed_take_bit 63 (uint w) = uint w"
    by (rule signed_take_bit_int_eq_self) (use * order_trans [OF _ uint_ge_0 [of w]] in \<open>simp_all\<close>)
  then show ?thesis by (simp add: sint_uint)
qed

text \<open>
  The number 2 to the power 48 is \<^verbatim>\<open>maxAlloc\<close> of the Go runtime on 64-bit Linux and
  Darwin: \<^verbatim>\<open>make\<close> panics when the elements do not fit below it.
\<close>

definition maxAlloc :: nat where
  "maxAlloc = 2 ^ 48"

section \<open>Errors and results\<close>

text \<open>
  The error values the modelled code creates or passes on: those of \<^verbatim>\<open>io\<close>, of
  \<^verbatim>\<open>internal/wire/error.go\<close> and \<^verbatim>\<open>object_stream_parser.go\<close>, of the session layer
  (\<^verbatim>\<open>session.go\<close>, \<^verbatim>\<open>session_helpers.go\<close>, \<^verbatim>\<open>request_id.go\<close>, \<^verbatim>\<open>remote_track_map.go\<close>,
  \<^verbatim>\<open>remote_track.go\<close>, \<^verbatim>\<open>local_track.go\<close>), \<^verbatim>\<open>ProtocolError\<close> of \<^verbatim>\<open>errors.go\<close>, and
  \<^verbatim>\<open>OtherError\<close> for an error handed over by code outside the repository; \<^verbatim>\<open>JoinError\<close> is the
  value of \<^verbatim>\<open>errors.Join\<close>.
\<close>

datatype go_error =
    EOF
  | ErrUnexpectedEOF
  | errInvalidMessageType uint64
  | errInvalidFilterType
  | errInvalidContentExistsByte
  | errInvalidGroupOrder
  | errInvalidForwardFlag
  | errLengthMismatch
  | errInvalidFetchType
  | errInvalidStreamType
  | errControlMessageTooLarge
  | errUnknownAnnouncementNamespace
  | errMaxRequestIDViolated
  | errClientReceivedClientSetup
  | errServerReceveidServerSetup
  | errIncompatibleVersions
  | errUnexpectedMessageType
  | errUnexpectedMessageTypeBeforeSetup
  | errUnknownSubscribeAnnouncesPrefix
  | errUnknownTrackAlias
  | errMissingPathParameter
  | errUnexpectedPathParameter
  | errUnknownTrackStatusRequest
  | errUnknownRequestID
  | errDuplicateRequestIDBug
  | errDuplicateTrackAliasBug
  | errRequestIDblocked
  | errTooManyFetchStreams
  | ErrUnsusbcribed
  | ErrSubscriptionDone
  | ErrSubscribeDone uint64 gostring
  | ProtocolError uint64 gostring
  | OtherError nat
  | JoinError go_error go_error

datatype failure = Fail go_error | Panic

type_synonym 'a result = "failure + 'a"

fun bindR :: "'a result \<Rightarrow> ('a \<Rightarrow> 'b result) \<Rightarrow> 'b result" where
  "bindR (Inl e) f = Inl e"
| "bindR (Inr x) f = f x"

lemma bindR_eq_Inr: "bindR r f = Inr y \<longleftrightarrow> (\<exists>x. r = Inr x \<and> f x = Inr y)"
  by (cases r) auto

lemma bindR_eq_Inl:
  "bindR r f = Inl e \<longleftrightarrow> r = Inl e \<or> (\<exists>x. r = Inr x \<and> f x = Inl e)"
  by (cases r) auto

lemma bindR_assoc: "bindR (bindR r f) g = bindR r (\<lambda>x. bindR (f x) g)"
  by (cases r) auto

lemma bindR_cong [fundef_cong]:
  "r = r' \<Longrightarrow> (\<And>x. r' = Inr x \<Longrightarrow> f x = g x) \<Longrightarrow> bindR r f = bindR r' g"
  by (cases r') auto

text \<open>
  A call that may not return at all has a result of type \<^typ>\<open>'a result option\<close>, with
  \<^term>\<open>None\<close> for a loop that runs forever.
\<close>

fun bindO :: "'a result option \<Rightarrow> ('a \<Rightarrow> 'b result option) \<Rightarrow> 'b result option" where
  "bindO None f = None"
| "bindO (Some (Inl e)) f = Some (Inl e)"
| "bindO (Some (Inr x)) f = f x"

lemma bindO_eq_Some_Inr:
  "bindO r f = Some (Inr y) \<longleftrightarrow> (\<exists>x. r = Some (Inr x) \<and> f x = Some (Inr y))"
  by (cases "(r, f)" rule: bindO.cases) auto

lemma bindO_Some: "bindO (Some r) f = (case r of Inl e \<Rightarrow> Some (Inl e) | Inr x \<Rightarrow> f x)"
  by (cases r) auto

text \<open>A check with an early return: \<^verbatim>\<open>if c { return err }\<close>.\<close>

definition guardR :: "bool \<Rightarrow> go_error \<Rightarrow> unit result" where
  "guardR c e = (if c then Inl (Fail e) else Inr ())"

lemma guardR_simps [simp]:
  "guardR True e = Inl (Fail e)" "guardR False e = Inr ()"
  "guardR c e = Inr u \<longleftrightarrow> \<not> c" "guardR c e = Inl x \<longleftrightarrow> c \<and> x = Fail e"
  by (auto simp: guardR_def)

section \<open>Slices\<close>

text \<open>
  \<^verbatim>\<open>data[n:]\<close>, \<^verbatim>\<open>data[:n]\<close> and \<^verbatim>\<open>data[i]\<close>. The slices the code reslices upwards come
  from \<^verbatim>\<open>make\<close> with the length as their capacity, so a bound above the length panics.
\<close>

definition slice_from :: "'a list \<Rightarrow> nat \<Rightarrow> 'a list result" where
  "slice_from xs n = (if n \<le> length xs then Inr (drop n xs) else Inl Panic)"

definition slice_to :: "'a list \<Rightarrow> nat \<Rightarrow> 'a list result" where
  "slice_to xs n = (if n \<le> length xs then Inr (take n xs) else Inl Panic)"

definition index_at :: "'a list \<Rightarrow> nat \<Rightarrow> 'a result" where
  "index_at xs i = (if i < length xs then Inr (xs ! i) else Inl Panic)"

text \<open>\<^verbatim>\<open>make([]T, n)\<close> or \<^verbatim>\<open>make([]T, 0, n)\<close> with elements of \<open>esize\<close> bytes.\<close>

definition make_slice :: "nat \<Rightarrow> nat \<Rightarrow> unit result" where
  "make_slice esize n = (if n * esize \<le> maxAlloc then Inr () else Inl Panic)"

lemma slice_from_append [simp]: "slice_from (xs @ ys) (length xs) = Inr ys"
  by (simp add: slice_from_def)

lemma slice_to_append [simp]: "slice_to (xs @ ys) (length xs) = Inr xs"
  by (simp add: slice_to_def)

lemma index_at_simps [simp]:
  "index_at (x # xs) 0 = Inr x" "index_at (x # xs) (Suc i) = index_at xs i"
  "index_at [] i = Inl Panic"
  by (auto simp: index_at_def)

lemma index_at_numeral [simp]:
  "index_at (x # xs) 1 = index_at xs 0"
  "index_at (x # xs) (numeral k) = index_at xs (pred_numeral k)"
  by (simp_all add: numeral_eq_Suc)

lemma slice_from_simps [simp]:
  "slice_from xs 0 = Inr xs" "slice_from (x # xs) (Suc n) = slice_from xs n"
  "slice_from (x # xs) 1 = Inr xs"
  "slice_from (x # xs) (numeral k) = slice_from xs (pred_numeral k)"
  by (simp_all add: slice_from_def numeral_eq_Suc)

text \<open>
  The idiom \<^verbatim>\<open>x, n, err = p(data); if err != nil { return err }; data = data[n:]\<close>: run a
  parser that reports how many bytes it consumed and drop them.
\<close>

definition advance :: "(bytes \<Rightarrow> ('a \<times> nat) result) \<Rightarrow> bytes \<Rightarrow> ('a \<times> bytes) result" where
  "advance p data =
     bindR (p data) (\<lambda>(x, n). bindR (slice_from data n) (\<lambda>data'. Inr (x, data')))"

lemma advance_enc: "p (e @ rest) = Inr (x, length e) \<Longrightarrow> advance p (e @ rest) = Inr (x, rest)"
  by (simp add: advance_def)

section \<open>Readers\<close>

text \<open>
  A \<^verbatim>\<open>bufio.Reader\<close> over a stream is the list of the bytes that the peer has still to
  deliver before it closes the stream. \<^verbatim>\<open>io.ReadFull\<close> reads exactly \<open>n\<close> bytes; it returns
  \<^verbatim>\<open>io.EOF\<close> when no byte was read and \<^verbatim>\<open>io.ErrUnexpectedEOF\<close> when some were.
\<close>

fun ReadByte :: "bytes \<Rightarrow> (byte \<times> bytes) result" where
  "ReadByte [] = Inl (Fail EOF)"
| "ReadByte (b # bs) = Inr (b, bs)"

definition ReadFull :: "bytes \<Rightarrow> nat \<Rightarrow> (bytes \<times> bytes) result" where
  "ReadFull r n =
     (if n = 0 then Inr ([], r)
      else if r = [] then Inl (Fail EOF)
      else if length r < n then Inl (Fail ErrUnexpectedEOF)
      else Inr (take n r, drop n r))"

lemma ReadFull_append [simp]: "ReadFull (xs @ ys) (length xs) = Inr (xs, ys)"
  by (auto simp: ReadFull_def)

lemma ReadFull_append_conv: "length xs = n \<Longrightarrow> ReadFull (xs @ ys) n = Inr (xs, ys)"
  by auto

lemma ReadFull_no_panic [simp]: "ReadFull r n \<noteq> Inl Panic"
  by (simp add: ReadFull_def)

lemma ReadFull_Inr:
  "ReadFull r n = Inr (x, r') \<Longrightarrow> r = x @ r' \<and> length x = n"
  by (auto simp: ReadFull_def split: if_splits)

section \<open>Words and lists\<close>

text \<open>\<^verbatim>\<open>int(x)\<close> of a \<^verbatim>\<open>uint64\<close>: the same bits read as a signed 64-bit number.\<close>

abbreviation int_of_uint64 :: "uint64 \<Rightarrow> int" where
  "int_of_uint64 x \<equiv> sint x"

lemma unat_of_nat_uint64: "n < 2 ^ 64 \<Longrightarrow> unat (of_nat n :: uint64) = n"
  by (simp add: unat_of_nat take_bit_nat_eq_self)

lemma sint_uint64_small:
  fixes x :: uint64
  assumes "unat x < 2 ^ 63"
  shows "sint x = int (unat x)"
proof -
  from assms have "uint x < 2 ^ 63"
    by (metis of_nat_less_iff of_nat_numeral of_nat_power uint_nat)
  moreover have "- (2 ^ 63) \<le> uint x"
    using uint_ge_0 [of x] by (rule order_trans [rotated]) simp
  ultimately have "signed_take_bit 63 (uint x) = uint x"
    by (intro signed_take_bit_int_eq_self) simp_all
  then show ?thesis
    by (simp add: sint_uint)
qed

section \<open>Collections of rules\<close>

text \<open>
  \<open>codec\<close> holds the encoding laws of the wire format (what an encoder writes and that the
  matching parser reads it back); \<open>no_panic\<close> the facts that a parser returns.
\<close>

named_theorems codec \<open>encoders and the parsers that read them back\<close>
named_theorems no_panic \<open>parsers that never raise a run-time panic\<close>

end
