(* ===== verification/Go_State.thy ===== *)
theory Go_State
  imports Go_Base
begin

text \<open>
  Go code with effects: a computation takes the state and gives a result and the new state. A
  returned error does not undo the changes made before it, so the state is returned on every
  path. \<open>bindS\<close> is sequencing with early return on an error, \<open>tryS\<close> a call whose error is
  looked at, \<open>onS\<close> runs a computation on a part of the state.
\<close>

type_synonym ('s, 'a) st = "'s \<Rightarrow> 'a result \<times> 's"

definition returnS :: "'a \<Rightarrow> ('s, 'a) st" where
  "returnS x s = (Inr x, s)"

definition failS :: "go_error \<Rightarrow> ('s, 'a) st" where
  "failS e s = (Inl (Fail e), s)"

definition bindS :: "('s, 'a) st \<Rightarrow> ('a \<Rightarrow> ('s, 'b) st) \<Rightarrow> ('s, 'b) st" where
  "bindS m f s = (case m s of (Inl e, s') \<Rightarrow> (Inl e, s') | (Inr x, s') \<Rightarrow> f x s')"

abbreviation thenS :: "('s, unit) st \<Rightarrow> ('s, 'b) st \<Rightarrow> ('s, 'b) st" where
  "thenS m k \<equiv> bindS m (\<lambda>_. k)"

definition liftR :: "'a result \<Rightarrow> ('s, 'a) st" where
  "liftR r s = (r, s)"

definition getsS :: "('s \<Rightarrow> 'a) \<Rightarrow> ('s, 'a) st" where
  "getsS f s = (Inr (f s), s)"

definition modifyS :: "('s \<Rightarrow> 's) \<Rightarrow> ('s, unit) st" where
  "modifyS f s = (Inr (), f s)"

text \<open>\<^verbatim>\<open>err := f()\<close>: the error as a value; a panic goes on.\<close>

definition tryS :: "('s, unit) st \<Rightarrow> ('s, go_error option) st" where
  "tryS m s =
     (case m s of
        (Inl Panic, s') \<Rightarrow> (Inl Panic, s')
      | (Inl (Fail e), s') \<Rightarrow> (Inr (Some e), s')
      | (Inr _, s') \<Rightarrow> (Inr None, s'))"

text \<open>A method that returns its error as a value and changes a part of the state.\<close>

definition updS :: "('s \<Rightarrow> 'p) \<Rightarrow> ('p \<Rightarrow> 's \<Rightarrow> 's) \<Rightarrow> ('p \<Rightarrow> 'a \<times> 'p) \<Rightarrow> ('s, 'a) st" where
  "updS get put f s = (case f (get s) of (x, p) \<Rightarrow> (Inr x, put p s))"

definition onS :: "('s \<Rightarrow> 'p) \<Rightarrow> ('p \<Rightarrow> 's \<Rightarrow> 's) \<Rightarrow> ('p, 'a) st \<Rightarrow> ('s, 'a) st" where
  "onS get put m s = (case m (get s) of (r, p) \<Rightarrow> (r, put p s))"

text \<open>\<^verbatim>\<open>if err != nil { return err }\<close>.\<close>

definition throwS :: "go_error option \<Rightarrow> ('s, unit) st" where
  "throwS e = (case e of None \<Rightarrow> returnS () | Some e \<Rightarrow> failS e)"

named_theorems effects \<open>unfolding of effectful computations\<close>

lemmas [effects] = returnS_def failS_def bindS_def liftR_def getsS_def modifyS_def tryS_def
  updS_def onS_def throwS_def

lemma bindS_Inr: "m s = (Inr x, s') \<Longrightarrow> bindS m f s = f x s'"
  by (simp add: bindS_def)

lemma bindS_fst: "fst (m s) = Inr x \<Longrightarrow> bindS m f s = f x (snd (m s))"
  by (cases "m s") (simp add: bindS_def)

lemma bindS_Inl: "m s = (Inl e, s') \<Longrightarrow> bindS m f s = (Inl e, s')"
  by (simp add: bindS_def)

section \<open>Properties that every computation keeps\<close>

text \<open>
  \<open>keeps P m\<close>: when \<open>m\<close> starts in a state with \<open>P\<close> it ends in one, whatever it returns. The
  rules follow the structure of a computation.
\<close>

definition keeps :: "('s \<Rightarrow> bool) \<Rightarrow> ('s, 'a) st \<Rightarrow> bool" where
  "keeps P m \<longleftrightarrow> (\<forall>s. P s \<longrightarrow> P (snd (m s)))"

lemma keepsI: "(\<And>s. P s \<Longrightarrow> P (snd (m s))) \<Longrightarrow> keeps P m"
  by (simp add: keeps_def)

lemma keepsD: "keeps P m \<Longrightarrow> P s \<Longrightarrow> P (snd (m s))"
  by (simp add: keeps_def)

named_theorems keeping \<open>computations that keep a property of the state\<close>

lemma keeps_return [keeping]: "keeps P (returnS x)"
  by (simp add: keeps_def returnS_def)

lemma keeps_fail [keeping]: "keeps P (failS e)"
  by (simp add: keeps_def failS_def)

lemma keeps_lift [keeping]: "keeps P (liftR r)"
  by (simp add: keeps_def liftR_def)

lemma keeps_gets [keeping]: "keeps P (getsS f)"
  by (simp add: keeps_def getsS_def)

lemma keeps_throw [keeping]: "keeps P (throwS e)"
  by (cases e) (simp_all add: throwS_def keeps_return keeps_fail)

lemma keeps_bind [keeping]: "keeps P m \<Longrightarrow> (\<And>x. keeps P (f x)) \<Longrightarrow> keeps P (bindS m f)"
  by (fastforce simp: keeps_def bindS_def split: prod.splits sum.splits)

lemma keeps_try [keeping]: "keeps P m \<Longrightarrow> keeps P (tryS m)"
  by (fastforce simp: keeps_def tryS_def split: prod.splits sum.splits failure.splits)

lemma keeps_modify: "(\<And>s. P s \<Longrightarrow> P (f s)) \<Longrightarrow> keeps P (modifyS f)"
  by (simp add: keeps_def modifyS_def)

lemma keeps_upd: "(\<And>s. P s \<Longrightarrow> P (put (snd (f (get s))) s)) \<Longrightarrow> keeps P (updS get put f)"
  by (simp add: keeps_def updS_def split_beta)

lemma keeps_on: "(\<And>s p. P s \<Longrightarrow> P (put p s)) \<Longrightarrow> keeps P (onS get put m)"
  by (simp add: keeps_def onS_def split_beta)

lemma keeps_if [keeping]: "keeps P m \<Longrightarrow> keeps P n \<Longrightarrow> keeps P (if b then m else n)"
  by simp

lemma keeps_case_option [keeping]:
  "keeps P m \<Longrightarrow> (\<And>x. keeps P (f x)) \<Longrightarrow> keeps P (case v of None \<Rightarrow> m | Some x \<Rightarrow> f x)"
  by (cases v) simp_all

lemma keeps_case_sum [keeping]:
  "(\<And>x. keeps P (f x)) \<Longrightarrow> (\<And>x. keeps P (g x)) \<Longrightarrow> keeps P (case v of Inl x \<Rightarrow> f x | Inr x \<Rightarrow> g x)"
  by (cases v) simp_all

lemma keeps_case_prod [keeping]: "(\<And>x y. keeps P (f x y)) \<Longrightarrow> keeps P (case v of (x, y) \<Rightarrow> f x y)"
  by (cases v) simp

lemma keeps_Let [keeping]: "(\<And>x. keeps P (f x)) \<Longrightarrow> keeps P (let x = v in f x)"
  by simp

section \<open>Triples with an invariant\<close>

text \<open>
  \<open>triple I P m Q\<close>: from a state with \<open>I\<close> and \<open>P\<close>, \<open>m\<close> ends in a state with \<open>I\<close>, also when it
  fails, and with \<open>Q\<close> when it returns a value.
\<close>

definition triple :: "('s \<Rightarrow> bool) \<Rightarrow> ('s \<Rightarrow> bool) \<Rightarrow> ('s, 'a) st \<Rightarrow> ('a \<Rightarrow> 's \<Rightarrow> bool) \<Rightarrow> bool" where
  "triple I P m Q \<longleftrightarrow>
     (\<forall>s. I s \<and> P s \<longrightarrow> I (snd (m s)) \<and> (\<forall>x. fst (m s) = Inr x \<longrightarrow> Q x (snd (m s))))"

lemma tripleI:
  "(\<And>s. I s \<Longrightarrow> P s \<Longrightarrow> I (snd (m s))) \<Longrightarrow>
   (\<And>s x. I s \<Longrightarrow> P s \<Longrightarrow> fst (m s) = Inr x \<Longrightarrow> Q x (snd (m s))) \<Longrightarrow> triple I P m Q"
  by (simp add: triple_def)

lemma triple_bind: "triple I P m R \<Longrightarrow> (\<And>x. triple I (R x) (f x) Q) \<Longrightarrow> triple I P (bindS m f) Q"
  by (fastforce simp: triple_def bindS_def split: prod.splits sum.splits)

lemma triple_keeps: "keeps I m \<Longrightarrow> triple I P m (\<lambda>_ _. True)"
  by (simp add: triple_def keeps_def)

lemma keeps_triple: "triple I (\<lambda>_. True) m Q \<Longrightarrow> keeps I m"
  by (simp add: triple_def keeps_def)

lemma triple_frame: "keeps I m \<Longrightarrow> keeps (\<lambda>s. I s \<and> P s) m \<Longrightarrow> triple I P m (\<lambda>_. P)"
  by (simp add: triple_def keeps_def)

lemma triple_weaken:
  "triple I P' m Q' \<Longrightarrow> (\<And>s. P s \<Longrightarrow> P' s) \<Longrightarrow> (\<And>x s. Q' x s \<Longrightarrow> Q x s) \<Longrightarrow> triple I P m Q"
  by (simp add: triple_def)

lemma triple_gets: "triple I P (getsS f) (\<lambda>x s. P s \<and> x = f s)"
  by (simp add: triple_def getsS_def)

lemma keepsI_bind_triple: "triple I (\<lambda>_. True) m R \<Longrightarrow> (\<And>x. triple I (R x) (f x) (\<lambda>_ _. True)) \<Longrightarrow> keeps I (bindS m f)"
  by (rule keeps_triple) (rule triple_bind)

end
