(* ===== verification/Quic_Varint.thy ===== *)
theory Quic_Varint
  imports Go_Base
begin

text \<open>
  The package \<^verbatim>\<open>quicvarint\<close> of quic-go, which the wire format is built on, is a parameter of
  the development: a record of its four operations that the code calls. The locale
  \<open>varint_codec\<close> states what the code relies on, the documented behaviour of QUIC
  variable-length integers (RFC 9000, section 16). \<open>rfc9000\<close> is a concrete instance, the
  encoding of the RFC written out; its interpretation discharges the laws.
\<close>

section \<open>The parameter\<close>

record quicvarint =
  qv_Append :: "bytes \<Rightarrow> uint64 \<Rightarrow> bytes result"
  qv_Parse :: "bytes \<Rightarrow> (uint64 \<times> nat) result"
  qv_Len :: "uint64 \<Rightarrow> nat result"
  qv_Read :: "bytes \<Rightarrow> (uint64 \<times> bytes) result"

text \<open>\<^verbatim>\<open>quicvarint.Max\<close>, the largest value a variable-length integer holds.\<close>

definition maxVarInt :: nat where
  "maxVarInt = 2 ^ 62 - 1"

definition fits :: "uint64 \<Rightarrow> bool" where
  "fits v \<longleftrightarrow> unat v \<le> maxVarInt"

abbreviation fits_len :: "'a list \<Rightarrow> bool" where
  "fits_len xs \<equiv> length xs \<le> maxVarInt"

text \<open>The bytes that \<^verbatim>\<open>Append\<close> adds for a value.\<close>

definition qv_enc :: "quicvarint \<Rightarrow> uint64 \<Rightarrow> bytes" where
  "qv_enc qv v = (case qv_Append qv [] v of Inr e \<Rightarrow> e | Inl _ \<Rightarrow> [])"

locale varint_codec =
  fixes qv :: quicvarint
  assumes Append_fits: "fits v \<Longrightarrow> qv_Append qv buf v = Inr (buf @ qv_enc qv v)"
    and Append_big: "\<not> fits v \<Longrightarrow> qv_Append qv buf v = Inl Panic"
    and Len_fits: "fits v \<Longrightarrow> qv_Len qv v = Inr (length (qv_enc qv v))"
    and enc_le_8: "length (qv_enc qv v) \<le> 8"
    and Parse_enc: "fits v \<Longrightarrow> qv_Parse qv (qv_enc qv v @ rest) = Inr (v, length (qv_enc qv v))"
    and Parse_empty: "qv_Parse qv [] = Inl (Fail EOF)"
    and Parse_ok: "qv_Parse qv data = Inr (v, n) \<Longrightarrow> 0 < n \<and> n \<le> length data \<and> fits v"
    and Parse_no_panic: "qv_Parse qv data \<noteq> Inl Panic"
    and Read_enc: "fits v \<Longrightarrow> qv_Read qv (qv_enc qv v @ rest) = Inr (v, rest)"
    and Read_empty: "qv_Read qv [] = Inl (Fail EOF)"
    and Read_ok: "qv_Read qv r = Inr (v, r') \<Longrightarrow> length r' < length r \<and> fits v"
    and Read_no_panic: "qv_Read qv r \<noteq> Inl Panic"

context varint_codec
begin

lemmas varint_simps [simp] = Append_fits Len_fits Parse_enc Parse_empty Read_enc Read_empty
  Parse_no_panic Read_no_panic

lemma enc_nonempty [simp]: "fits v \<Longrightarrow> qv_enc qv v \<noteq> []"
  using Parse_ok [of "qv_enc qv v" v "length (qv_enc qv v)"] Parse_enc [of v "[]"] by auto

lemma advance_varint [simp]:
  "fits v \<Longrightarrow> advance (qv_Parse qv) (qv_enc qv v @ rest) = Inr (v, rest)"
  by (rule advance_enc) simp

lemma advance_varint_nil [simp]:
  "fits v \<Longrightarrow> advance (qv_Parse qv) (qv_enc qv v) = Inr (v, [])"
  using advance_varint [of v "[]"] by simp

lemma Parse_enc_nil [simp]: "fits v \<Longrightarrow> qv_Parse qv (qv_enc qv v) = Inr (v, length (qv_enc qv v))"
  using Parse_enc [of v "[]"] by simp

lemma advance_varint_no_panic [simp, no_panic]: "advance (qv_Parse qv) data \<noteq> Inl Panic"
proof
  assume "advance (qv_Parse qv) data = Inl Panic"
  then obtain v n where "qv_Parse qv data = Inr (v, n)" "\<not> n \<le> length data"
    by (auto simp: advance_def bindR_eq_Inl slice_from_def split: if_splits)
  then show False using Parse_ok by blast
qed

lemma advance_varint_shorter:
  "advance (qv_Parse qv) data = Inr (v, data') \<Longrightarrow> length data' < length data \<and> fits v"
proof -
  assume "advance (qv_Parse qv) data = Inr (v, data')"
  then obtain n where p: "qv_Parse qv data = Inr (v, n)" and d: "data' = drop n data"
    by (auto simp: advance_def bindR_eq_Inr slice_from_def split: if_splits)
  from Parse_ok [OF p] d show ?thesis by auto
qed

text \<open>Two values with the same encoding are equal: the encoding is injective.\<close>

lemma enc_inj: "fits v \<Longrightarrow> fits w \<Longrightarrow> qv_enc qv v = qv_enc qv w \<Longrightarrow> v = w"
  by (metis Parse_enc_nil Pair_inject sum.inject(2))

end

section \<open>The encoding of RFC 9000\<close>

text \<open>Big-endian digits to the base 256.\<close>

fun be_encode :: "nat \<Rightarrow> nat \<Rightarrow> bytes" where
  "be_encode 0 n = []"
| "be_encode (Suc k) n = of_nat (n div 256 ^ k) # be_encode k n"

definition be_decode :: "bytes \<Rightarrow> nat" where
  "be_decode bs = foldl (\<lambda>a b. a * 256 + unat b) 0 bs"

lemma length_be_encode [simp]: "length (be_encode k n) = k"
  by (induction k) auto

lemma foldl_be: "foldl (\<lambda>a b. a * 256 + unat (b :: byte)) a bs = a * 256 ^ length bs + be_decode bs"
proof (induction bs arbitrary: a)
  case Nil
  then show ?case by (simp add: be_decode_def)
next
  case (Cons b bs)
  show ?case
    using Cons.IH [of "a * 256 + unat b"] Cons.IH [of "unat b"]
    by (simp add: be_decode_def algebra_simps)
qed

lemma be_decode_Nil [simp]: "be_decode [] = 0"
  by (simp add: be_decode_def)

lemma be_decode_Cons: "be_decode (b # bs) = unat b * 256 ^ length bs + be_decode bs"
  using foldl_be [of "unat b" bs] by (simp add: be_decode_def)

lemma be_decode_encode: "be_decode (be_encode k n) = n mod 256 ^ k"
proof (induction k)
  case 0
  then show ?case by simp
next
  case (Suc k)
  have "n mod (256 ^ k * 256) = 256 ^ k * (n div 256 ^ k mod 256) + n mod 256 ^ k"
    by (rule mod_mult2_eq)
  with Suc show ?case
    by (simp add: be_decode_Cons unat_of_nat_byte mult.commute)
qed

lemma be_decode_less: "be_decode bs < 256 ^ length bs"
proof (induction bs)
  case Nil
  then show ?case by simp
next
  case (Cons b bs)
  have "unat b < 256" by (rule unat_byte_less)
  then have "Suc (unat b) * 256 ^ length bs \<le> 256 * 256 ^ length bs"
    by (intro mult_le_mono1) simp
  then have "unat b * 256 ^ length bs + 256 ^ length bs \<le> 256 ^ Suc (length bs)"
    by simp
  moreover have "be_decode (b # bs) < unat b * 256 ^ length bs + 256 ^ length bs"
    using Cons by (simp add: be_decode_Cons)
  ultimately show ?case by (simp only: length_Cons less_le_trans)
qed

text \<open>
  The two top bits of the first byte give the logarithm of the length; the rest is the
  value in network byte order.
\<close>

definition rfc_len :: "nat \<Rightarrow> nat" where
  "rfc_len n = (if n < 2 ^ 6 then 1 else if n < 2 ^ 14 then 2 else if n < 2 ^ 30 then 4 else 8)"

definition rfc_tag :: "nat \<Rightarrow> nat" where
  "rfc_tag n = (if n < 2 ^ 6 then 0 else if n < 2 ^ 14 then 1 else if n < 2 ^ 30 then 2 else 3)"

definition rfc_enc :: "uint64 \<Rightarrow> bytes" where
  "rfc_enc v = (let n = unat v in be_encode (rfc_len n) (rfc_tag n * 2 ^ (8 * rfc_len n - 2) + n))"

definition rfc_Append :: "bytes \<Rightarrow> uint64 \<Rightarrow> bytes result" where
  "rfc_Append buf v = (if fits v then Inr (buf @ rfc_enc v) else Inl Panic)"

definition rfc_Parse :: "bytes \<Rightarrow> (uint64 \<times> nat) result" where
  "rfc_Parse data =
     (case data of
        [] \<Rightarrow> Inl (Fail EOF)
      | b # _ \<Rightarrow>
          (let l = 2 ^ (unat b div 64)
           in if length data < l then Inl (Fail ErrUnexpectedEOF)
              else Inr (of_nat (be_decode (take l data) mod 2 ^ (8 * l - 2)), l)))"

definition rfc_Len :: "uint64 \<Rightarrow> nat result" where
  "rfc_Len v = (if fits v then Inr (rfc_len (unat v)) else Inl Panic)"

definition rfc_Read :: "bytes \<Rightarrow> (uint64 \<times> bytes) result" where
  "rfc_Read r = bindR (rfc_Parse r) (\<lambda>(v, n). Inr (v, drop n r))"

definition rfc9000 :: quicvarint where
  "rfc9000 = \<lparr>qv_Append = rfc_Append, qv_Parse = rfc_Parse, qv_Len = rfc_Len, qv_Read = rfc_Read\<rparr>"

lemma length_rfc_enc: "length (rfc_enc v) = rfc_len (unat v)"
  by (simp add: rfc_enc_def Let_def)

lemma rfc_len_tag: "rfc_len n = 2 ^ rfc_tag n"
  by (simp add: rfc_len_def rfc_tag_def)

lemma rfc_len_range: "1 \<le> rfc_len n \<and> rfc_len n \<le> 8"
  by (simp add: rfc_len_def)

lemma fits_less: "fits v \<Longrightarrow> unat v < 2 ^ (8 * rfc_len (unat v) - 2)"
  by (auto simp: fits_def maxVarInt_def rfc_len_def)

lemma rfc_total_less:
  assumes "fits v"
  shows "rfc_tag (unat v) * 2 ^ (8 * rfc_len (unat v) - 2) + unat v < 256 ^ rfc_len (unat v)"
  using fits_less [OF assms] by (auto simp: rfc_len_def rfc_tag_def split: if_splits)

lemma rfc_enc_first:
  assumes "fits v"
  shows "\<exists>b bs. rfc_enc v = b # bs \<and> unat b div 64 = rfc_tag (unat v)"
proof -
  define n where "n = unat v"
  define k where "k = rfc_len n"
  define t where "t = rfc_tag n * 2 ^ (8 * k - 2) + n"
  obtain j where k: "k = Suc j"
    using rfc_len_range [of n] unfolding k_def by (metis Suc_le_D One_nat_def)
  have t: "t < 256 ^ Suc j" and n: "n < 2 ^ (8 * k - 2)"
    using rfc_total_less [OF assms] fits_less [OF assms] k by (simp_all add: t_def n_def k_def)
  have p: "(2::nat) ^ (8 * k - 2) = 64 * 256 ^ j"
  proof -
    have "8 * k - 2 = 6 + 8 * j" using k by simp
    then show ?thesis by (simp add: power_add power_mult)
  qed
  have "t div 256 ^ j div 64 = t div (64 * 256 ^ j)"
    by (metis div_mult2_eq mult.commute)
  also have "\<dots> = rfc_tag n"
    using n by (simp add: t_def p)
  finally have *: "t div 256 ^ j div 64 = rfc_tag n" .
  have "t div 256 ^ j < 256"
    using t by (simp add: less_mult_imp_div_less mult.commute)
  then have "unat (of_nat (t div 256 ^ j) :: byte) = t div 256 ^ j"
    by (simp add: unat_of_nat_byte)
  moreover have "rfc_enc v = of_nat (t div 256 ^ j) # be_encode j t"
    by (simp add: rfc_enc_def Let_def t_def n_def [symmetric] k_def [symmetric] k)
  ultimately show ?thesis using * by (auto simp: n_def)
qed

lemma rfc_Parse_enc:
  assumes "fits v"
  shows "rfc_Parse (rfc_enc v @ rest) = Inr (v, length (rfc_enc v))"
proof -
  obtain b bs where e: "rfc_enc v = b # bs" and b: "unat b div 64 = rfc_tag (unat v)"
    using rfc_enc_first [OF assms] by blast
  have l: "2 ^ (unat b div 64) = length (rfc_enc v)"
    by (simp add: b length_rfc_enc rfc_len_tag)
  have "be_decode (rfc_enc v) mod 2 ^ (8 * length (rfc_enc v) - 2) = unat v"
    using rfc_total_less [OF assms] fits_less [OF assms]
    by (simp add: rfc_enc_def Let_def be_decode_encode)
  then show ?thesis
    using l e by (auto simp: rfc_Parse_def Let_def split: list.splits)
qed

lemma rfc_Parse_ok:
  assumes "rfc_Parse data = Inr (v, n)"
  shows "0 < n \<and> n \<le> length data \<and> fits v"
proof -
  obtain b bs where d: "data = b # bs"
    using assms by (cases data) (auto simp: rfc_Parse_def)
  define l where "l = (2 :: nat) ^ (unat b div 64)"
  have n: "n = l" "l \<le> length data" and v: "v = of_nat (be_decode (take l data) mod 2 ^ (8 * l - 2))"
    using assms d by (auto simp: rfc_Parse_def l_def Let_def split: if_splits)
  have "unat b < 256" by (rule unat_byte_less)
  then have "unat b div 64 \<le> 3" by simp
  then have "l \<le> 2 ^ 3" unfolding l_def by (rule power_increasing) simp
  then have "(2::nat) ^ (8 * l - 2) \<le> 2 ^ 62" by (intro power_increasing) auto
  moreover have "be_decode (take l data) mod 2 ^ (8 * l - 2) < 2 ^ (8 * l - 2)" by simp
  ultimately have "be_decode (take l data) mod 2 ^ (8 * l - 2) < 2 ^ 62" by linarith
  then have "fits v" by (simp add: v fits_def maxVarInt_def unat_of_nat_uint64)
  with n show ?thesis by (simp add: l_def)
qed

lemma rfc_enc_fits: "fits v \<Longrightarrow> qv_enc rfc9000 v = rfc_enc v"
  by (simp add: qv_enc_def rfc9000_def rfc_Append_def)

interpretation rfc9000: varint_codec rfc9000
proof
  show "qv_Append rfc9000 buf v = Inr (buf @ qv_enc rfc9000 v)" if "fits v" for buf v
    using that by (simp add: rfc_enc_fits) (simp add: rfc9000_def rfc_Append_def)
  show "qv_Append rfc9000 buf v = Inl Panic" if "\<not> fits v" for buf v
    using that by (simp add: rfc9000_def rfc_Append_def)
  show "qv_Len rfc9000 v = Inr (length (qv_enc rfc9000 v))" if "fits v" for v
    using that by (simp add: rfc_enc_fits) (simp add: rfc9000_def rfc_Len_def length_rfc_enc)
  show "length (qv_enc rfc9000 v) \<le> 8" for v
    using rfc_len_range [of "unat v"]
    by (auto simp: qv_enc_def rfc9000_def rfc_Append_def length_rfc_enc)
  show parse: "qv_Parse rfc9000 (qv_enc rfc9000 v @ rest) = Inr (v, length (qv_enc rfc9000 v))"
    if "fits v" for v rest
    using that by (simp add: rfc_enc_fits) (simp add: rfc9000_def rfc_Parse_enc)
  show "qv_Parse rfc9000 [] = Inl (Fail EOF)"
    by (simp add: rfc9000_def rfc_Parse_def)
  show "0 < n \<and> n \<le> length data \<and> fits v" if "qv_Parse rfc9000 data = Inr (v, n)" for data v n
    using that rfc_Parse_ok by (simp add: rfc9000_def)
  show nopanic: "qv_Parse rfc9000 data \<noteq> Inl Panic" for data
    by (auto simp: rfc9000_def rfc_Parse_def Let_def split: list.splits)
  show "qv_Read rfc9000 (qv_enc rfc9000 v @ rest) = Inr (v, rest)" if "fits v" for v rest
    using that by (simp add: rfc_enc_fits) (simp add: rfc9000_def rfc_Read_def rfc_Parse_enc)
  show "qv_Read rfc9000 [] = Inl (Fail EOF)"
    by (simp add: rfc9000_def rfc_Read_def rfc_Parse_def)
  show "length r' < length r \<and> fits v" if "qv_Read rfc9000 r = Inr (v, r')" for r v r'
    using that rfc_Parse_ok by (fastforce simp: rfc9000_def rfc_Read_def bindR_eq_Inr)
  show "qv_Read rfc9000 r \<noteq> Inl Panic" for r
    using nopanic [of r] by (auto simp: rfc9000_def rfc_Read_def bindR_eq_Inl)
qed

end
