(* ===== verification/Wire_Fields.thy ===== *)
theory Wire_Fields
  imports Quic_Varint
begin

text \<open>
  The fields that the messages of \<^verbatim>\<open>internal/wire\<close> are made of: length-prefixed bytes
  (\<^verbatim>\<open>varint_bytes.go\<close>), locations (\<^verbatim>\<open>location.go\<close>), tuples (\<^verbatim>\<open>tuple.go\<close>), version lists
  (\<^verbatim>\<open>version.go\<close>), key-value pairs and their lists (\<^verbatim>\<open>key_value_pair.go\<close>,
  \<^verbatim>\<open>kvp_list.go\<close>) and tokens (\<^verbatim>\<open>token.go\<close>). Each operation takes the \<^verbatim>\<open>quicvarint\<close>
  parameter \<open>qv\<close>. The functions \<open>enc_\<dots>\<close> are the wire grammar, the specification that the
  Go serialisers are proved to implement and that the Go parsers are proved to read back.
  The byte count that a Go parser returns beside an error is not modelled: no caller reads it.
\<close>

section \<open>Length-prefixed bytes\<close>

definition appendVarIntBytes :: "quicvarint \<Rightarrow> bytes \<Rightarrow> bytes \<Rightarrow> bytes result" where
  "appendVarIntBytes qv buf data =
     bindR (qv_Append qv buf (of_nat (length data))) (\<lambda>buf. Inr (buf @ data))"

definition varIntBytesLen :: "quicvarint \<Rightarrow> gostring \<Rightarrow> uint64 result" where
  "varIntBytesLen qv s =
     bindR (qv_Len qv (of_nat (length s))) (\<lambda>l. Inr (of_nat l + of_nat (length s)))"

definition parseVarIntBytes :: "quicvarint \<Rightarrow> bytes \<Rightarrow> (bytes \<times> nat) result" where
  "parseVarIntBytes qv data =
     bindR (qv_Parse qv data) (\<lambda>(l, n).
       if l = 0 then Inr ([], n)
       else bindR (slice_from data n) (\<lambda>data.
         if int (length data) < int_of_uint64 l then Inl (Fail ErrUnexpectedEOF)
         else bindR (slice_to data (unat l)) (\<lambda>b. Inr (b, n + nat (int_of_uint64 l)))))"

section \<open>Locations\<close>

record Location =
  loc_Group :: uint64
  loc_Object :: uint64

definition Location_append :: "quicvarint \<Rightarrow> Location \<Rightarrow> bytes \<Rightarrow> bytes result" where
  "Location_append qv l buf =
     bindR (qv_Append qv buf (loc_Group l)) (\<lambda>buf. qv_Append qv buf (loc_Object l))"

type_synonym Version = uint64

definition Location_parse :: "quicvarint \<Rightarrow> Version \<Rightarrow> bytes \<Rightarrow> (Location \<times> nat) result" where
  "Location_parse qv v data =
     bindR (qv_Parse qv data) (\<lambda>(g, n).
     bindR (slice_from data n) (\<lambda>data.
     bindR (qv_Parse qv data) (\<lambda>(ob, m).
       Inr (\<lparr>loc_Group = g, loc_Object = ob\<rparr>, n + m))))"

section \<open>Tuples\<close>

type_synonym Tuple = "gostring list"

fun Tuple_append_elems :: "quicvarint \<Rightarrow> Tuple \<Rightarrow> bytes \<Rightarrow> bytes result" where
  "Tuple_append_elems qv [] buf = Inr buf"
| "Tuple_append_elems qv (t # ts) buf =
     bindR (qv_Append qv buf (of_nat (length t))) (\<lambda>buf. Tuple_append_elems qv ts (buf @ t))"

definition Tuple_append :: "quicvarint \<Rightarrow> Tuple \<Rightarrow> bytes \<Rightarrow> bytes result" where
  "Tuple_append qv t buf =
     bindR (qv_Append qv buf (of_nat (length t))) (\<lambda>buf. Tuple_append_elems qv t buf)"

definition Tuple_String :: "Tuple \<Rightarrow> gostring" where
  "Tuple_String t = foldl (@) [] t"

text \<open>
  The loop runs \<open>length - i\<close> more times; a string header takes 16 bytes, so the initial
  \<^verbatim>\<open>make([]string, 0, length)\<close> panics for a length above 2 to the power 44.
\<close>

fun parseTuple_loop ::
  "quicvarint \<Rightarrow> nat \<Rightarrow> bytes \<Rightarrow> Tuple \<Rightarrow> nat \<Rightarrow> (Tuple \<times> nat) result" where
  "parseTuple_loop qv 0 data tuple parsed = Inr (tuple, parsed)"
| "parseTuple_loop qv (Suc k) data tuple parsed =
     bindR (qv_Parse qv data) (\<lambda>(l, n).
     bindR (slice_from data n) (\<lambda>data.
       if length data < unat l then Inl (Fail errLengthMismatch)
       else bindR (slice_to data (unat l)) (\<lambda>s.
            bindR (slice_from data (unat l)) (\<lambda>data.
              parseTuple_loop qv k data (tuple @ [s]) (parsed + n + unat l)))))"

definition parseTuple :: "quicvarint \<Rightarrow> bytes \<Rightarrow> (Tuple \<times> nat) result" where
  "parseTuple qv data =
     bindR (qv_Parse qv data) (\<lambda>(length, parsed).
     bindR (slice_from data parsed) (\<lambda>data.
     bindR (make_slice 16 (unat length)) (\<lambda>_.
       parseTuple_loop qv (unat length) data [] parsed)))"

section \<open>Versions\<close>

definition Draft_ietf_moq_transport_00 :: Version where
  "Draft_ietf_moq_transport_00 = 0xff000000"

definition Draft_ietf_moq_transport_11 :: Version where
  "Draft_ietf_moq_transport_11 = 0xff00000b"

definition CurrentVersion :: Version where
  "CurrentVersion = Draft_ietf_moq_transport_11"

definition SupportedVersions :: "Version list" where
  "SupportedVersions = [CurrentVersion]"

definition Version_Len :: "quicvarint \<Rightarrow> Version \<Rightarrow> uint64 result" where
  "Version_Len qv v = bindR (qv_Len qv v) (\<lambda>l. Inr (of_nat l))"

fun versions_Len_loop :: "quicvarint \<Rightarrow> Version list \<Rightarrow> uint64 \<Rightarrow> uint64 result" where
  "versions_Len_loop qv [] l = Inr l"
| "versions_Len_loop qv (x # xs) l =
     bindR (Version_Len qv x) (\<lambda>n. versions_Len_loop qv xs (l + n))"

definition versions_Len :: "quicvarint \<Rightarrow> Version list \<Rightarrow> uint64 result" where
  "versions_Len qv v = versions_Len_loop qv v 0"

fun versions_append_elems :: "quicvarint \<Rightarrow> Version list \<Rightarrow> bytes \<Rightarrow> bytes result" where
  "versions_append_elems qv [] buf = Inr buf"
| "versions_append_elems qv (v # vs) buf =
     bindR (qv_Append qv buf v) (\<lambda>buf. versions_append_elems qv vs buf)"

definition versions_append :: "quicvarint \<Rightarrow> Version list \<Rightarrow> bytes \<Rightarrow> bytes result" where
  "versions_append qv vs buf =
     bindR (qv_Append qv buf (of_nat (length vs))) (\<lambda>buf. versions_append_elems qv vs buf)"

fun versions_parse_loop ::
  "quicvarint \<Rightarrow> nat \<Rightarrow> bytes \<Rightarrow> Version list \<Rightarrow> nat \<Rightarrow> (Version list \<times> nat) result" where
  "versions_parse_loop qv 0 data vs parsed = Inr (vs, parsed)"
| "versions_parse_loop qv (Suc k) data vs parsed =
     bindR (qv_Parse qv data) (\<lambda>(v, n).
     bindR (slice_from data n) (\<lambda>data.
       versions_parse_loop qv k data (vs @ [v]) (parsed + n)))"

definition versions_parse ::
  "quicvarint \<Rightarrow> Version list \<Rightarrow> bytes \<Rightarrow> (Version list \<times> nat) result" where
  "versions_parse qv vs data =
     bindR (qv_Parse qv data) (\<lambda>(numVersions, parsed).
     bindR (slice_from data parsed) (\<lambda>data.
       versions_parse_loop qv (nat (int_of_uint64 numVersions)) data vs parsed))"

section \<open>Key-value pairs\<close>

record KeyValuePair =
  kvp_Type :: uint64
  kvp_ValueBytes :: bytes
  kvp_ValueVarInt :: uint64

type_synonym KVPList = "KeyValuePair list"

definition KeyValuePair_length :: "quicvarint \<Rightarrow> KeyValuePair \<Rightarrow> uint64 result" where
  "KeyValuePair_length qv p =
     bindR (qv_Len qv (kvp_Type p)) (\<lambda>tl.
       if kvp_Type p mod 2 = 1
       then bindR (qv_Len qv (of_nat (length (kvp_ValueBytes p)))) (\<lambda>ll.
              Inr (of_nat tl + of_nat ll + of_nat (length (kvp_ValueBytes p))))
       else bindR (qv_Len qv (kvp_ValueVarInt p)) (\<lambda>vl. Inr (of_nat tl + of_nat vl)))"

definition KeyValuePair_append :: "quicvarint \<Rightarrow> KeyValuePair \<Rightarrow> bytes \<Rightarrow> bytes result" where
  "KeyValuePair_append qv p buf =
     bindR (qv_Append qv buf (kvp_Type p)) (\<lambda>buf.
       if kvp_Type p mod 2 = 1
       then bindR (qv_Append qv buf (of_nat (length (kvp_ValueBytes p)))) (\<lambda>buf.
              Inr (buf @ kvp_ValueBytes p))
       else qv_Append qv buf (kvp_ValueVarInt p))"

definition KeyValuePair_parse :: "quicvarint \<Rightarrow> bytes \<Rightarrow> (KeyValuePair \<times> nat) result" where
  "KeyValuePair_parse qv data =
     bindR (qv_Parse qv data) (\<lambda>(typ, n).
     bindR (slice_from data n) (\<lambda>data.
       if typ mod 2 = 1
       then bindR (qv_Parse qv data) (\<lambda>(length, m).
            bindR (slice_from data m) (\<lambda>data.
            bindR (make_slice 1 (unat length)) (\<lambda>_.
            bindR (slice_to data (unat length)) (\<lambda>b.
              if List.length b \<noteq> unat length then Inl (Fail errLengthMismatch)
              else Inr (\<lparr>kvp_Type = typ, kvp_ValueBytes = b, kvp_ValueVarInt = 0\<rparr>,
                        n + m + List.length b)))))
       else bindR (qv_Parse qv data) (\<lambda>(v, m).
              Inr (\<lparr>kvp_Type = typ, kvp_ValueBytes = [], kvp_ValueVarInt = v\<rparr>, n + m))))"

definition KeyValuePair_parseReader :: "quicvarint \<Rightarrow> bytes \<Rightarrow> (KeyValuePair \<times> bytes) result" where
  "KeyValuePair_parseReader qv br =
     bindR (qv_Read qv br) (\<lambda>(typ, br).
       if typ mod 2 = 1
       then bindR (qv_Read qv br) (\<lambda>(length, br).
            bindR (make_slice 1 (unat length)) (\<lambda>_.
            bindR (ReadFull br (unat length)) (\<lambda>(b, br).
              if List.length b \<noteq> unat length then Inl (Fail errLengthMismatch)
              else Inr (\<lparr>kvp_Type = typ, kvp_ValueBytes = b, kvp_ValueVarInt = 0\<rparr>, br))))
       else bindR (qv_Read qv br) (\<lambda>(v, br).
              Inr (\<lparr>kvp_Type = typ, kvp_ValueBytes = [], kvp_ValueVarInt = v\<rparr>, br)))"

section \<open>Lists of key-value pairs\<close>

definition PathParameterKey :: uint64 where
  "PathParameterKey = 0x01"

definition MaxRequestIDParameterKey :: uint64 where
  "MaxRequestIDParameterKey = 0x02"

definition DeliveryTimeoutParameterKey :: uint64 where
  "DeliveryTimeoutParameterKey = 0x02"

definition AuthorizationTokenParameterKey :: uint64 where
  "AuthorizationTokenParameterKey = 0x03"

definition MaxCacheDurationParameterKey :: uint64 where
  "MaxCacheDurationParameterKey = 0x04"

fun KVPList_length_loop :: "quicvarint \<Rightarrow> KVPList \<Rightarrow> uint64 \<Rightarrow> uint64 result" where
  "KVPList_length_loop qv [] l = Inr l"
| "KVPList_length_loop qv (p # pp) l =
     bindR (KeyValuePair_length qv p) (\<lambda>n. KVPList_length_loop qv pp (l + n))"

definition KVPList_length :: "quicvarint \<Rightarrow> KVPList \<Rightarrow> uint64 result" where
  "KVPList_length qv pp = KVPList_length_loop qv pp 0"

fun KVPList_append :: "quicvarint \<Rightarrow> KVPList \<Rightarrow> bytes \<Rightarrow> bytes result" where
  "KVPList_append qv [] buf = Inr buf"
| "KVPList_append qv (p # pp) buf =
     bindR (KeyValuePair_append qv p buf) (\<lambda>buf. KVPList_append qv pp buf)"

definition KVPList_appendNum :: "quicvarint \<Rightarrow> KVPList \<Rightarrow> bytes \<Rightarrow> bytes result" where
  "KVPList_appendNum qv pp buf =
     bindR (qv_Append qv buf (of_nat (length pp))) (\<lambda>buf. KVPList_append qv pp buf)"

definition KVPList_appendLength :: "quicvarint \<Rightarrow> KVPList \<Rightarrow> bytes \<Rightarrow> bytes result" where
  "KVPList_appendLength qv pp buf =
     bindR (KVPList_length qv pp) (\<lambda>l.
     bindR (qv_Append qv buf l) (\<lambda>buf. KVPList_append qv pp buf))"

fun parseNum_loop :: "quicvarint \<Rightarrow> nat \<Rightarrow> bytes \<Rightarrow> KVPList \<Rightarrow> KVPList result" where
  "parseNum_loop qv 0 data pp = Inr pp"
| "parseNum_loop qv (Suc k) data pp =
     bindR (KeyValuePair_parse qv data) (\<lambda>(param, n).
     bindR (slice_from data n) (\<lambda>data.
       parseNum_loop qv k data (pp @ [param])))"

definition KVPList_parseNum :: "quicvarint \<Rightarrow> KVPList \<Rightarrow> bytes \<Rightarrow> KVPList result" where
  "KVPList_parseNum qv pp data =
     bindR (qv_Parse qv data) (\<lambda>(numParameters, n).
     bindR (slice_from data n) (\<lambda>data.
       parseNum_loop qv (unat numParameters) data pp))"

text \<open>
  The two loops that read a list prefixed by its length in bytes. \<^term>\<open>None\<close> means that the
  loop does not return. The slice that the loop of \<^verbatim>\<open>parseLength\<close> reads from is never
  advanced in its body.
\<close>

partial_function (option) parseLength_loop ::
  "quicvarint \<Rightarrow> bytes \<Rightarrow> KVPList \<Rightarrow> nat \<Rightarrow> (KVPList \<times> nat) result option" where
  "parseLength_loop qv data pp parsed =
     (if 0 < length data
      then (case KeyValuePair_parse qv data of
              Inl e \<Rightarrow> Some (Inl e)
            | Inr (hdrExt, n) \<Rightarrow> parseLength_loop qv data (pp @ [hdrExt]) (parsed + n))
      else Some (Inr (pp, parsed)))"

definition KVPList_parseLength ::
  "quicvarint \<Rightarrow> KVPList \<Rightarrow> bytes \<Rightarrow> (KVPList \<times> nat) result option" where
  "KVPList_parseLength qv pp data =
     (case bindR (qv_Parse qv data) (\<lambda>(length, n).
           bindR (slice_from data n) (\<lambda>data.
           bindR (slice_to data (unat length)) (\<lambda>data. Inr (data, n)))) of
        Inl e \<Rightarrow> Some (Inl e)
      | Inr (data, n) \<Rightarrow> parseLength_loop qv data pp n)"

partial_function (option) parseLengthReader_loop ::
  "quicvarint \<Rightarrow> bytes \<Rightarrow> KVPList \<Rightarrow> failure option" where
  "parseLengthReader_loop qv lbr pp =
     (case KeyValuePair_parseReader qv lbr of
        Inl e \<Rightarrow> Some e
      | Inr (hdrExt, lbr) \<Rightarrow> parseLengthReader_loop qv lbr (pp @ [hdrExt]))"

text \<open>
  \<^verbatim>\<open>io.LimitReader(br, int64(length))\<close> yields at most \<open>length\<close> bytes of the reader, none
  when the conversion is negative; the loop over it only returns with an error.
\<close>

definition KVPList_parseLengthReader ::
  "quicvarint \<Rightarrow> KVPList \<Rightarrow> bytes \<Rightarrow> (KVPList \<times> bytes) result option" where
  "KVPList_parseLengthReader qv pp br =
     (case qv_Read qv br of
        Inl e \<Rightarrow> Some (Inl e)
      | Inr (len, br) \<Rightarrow>
          if len = 0 then Some (Inr (pp, br))
          else map_option Inl
                 (parseLengthReader_loop qv (take (nat (int_of_uint64 len)) br) pp))"

section \<open>Tokens\<close>

record Token =
  tok_AliasType :: uint64
  tok_Alias :: uint64
  tok_Type :: uint64
  tok_Value :: bytes

definition TokenTypeDelete :: uint64 where "TokenTypeDelete = 0x00"
definition TokenTypeRegister :: uint64 where "TokenTypeRegister = 0x01"
definition TokenTypeUseAlias :: uint64 where "TokenTypeUseAlias = 0x02"
definition TokenTypeUseValue :: uint64 where "TokenTypeUseValue = 0x03"

definition Token_Append :: "quicvarint \<Rightarrow> Token \<Rightarrow> bytes \<Rightarrow> bytes result" where
  "Token_Append qv t buf =
     bindR (qv_Append qv buf (tok_AliasType t)) (\<lambda>buf.
       if tok_AliasType t = TokenTypeDelete \<or> tok_AliasType t = TokenTypeUseAlias
       then qv_Append qv buf (tok_Alias t)
       else if tok_AliasType t = TokenTypeRegister
       then bindR (qv_Append qv buf (tok_Alias t)) (\<lambda>buf.
            bindR (qv_Append qv buf (tok_Type t)) (\<lambda>buf. Inr (buf @ tok_Value t)))
       else if tok_AliasType t = TokenTypeUseValue
       then bindR (qv_Append qv buf (tok_Type t)) (\<lambda>buf. Inr (buf @ tok_Value t))
       else Inr buf)"

text \<open>
  \<^verbatim>\<open>copy\<close> into a fresh slice of the same length copies everything, so the length checks
  after it never fail.
\<close>

definition Token_Parse :: "quicvarint \<Rightarrow> Token \<Rightarrow> bytes \<Rightarrow> (Token \<times> nat) result" where
  "Token_Parse qv t data =
     bindR (qv_Parse qv data) (\<lambda>(at, n).
     bindR (slice_from data n) (\<lambda>data.
       if at = TokenTypeDelete \<or> at = TokenTypeUseAlias
       then bindR (qv_Parse qv data) (\<lambda>(al, m).
              Inr (t\<lparr>tok_AliasType := at, tok_Alias := al\<rparr>, n + m))
       else if at = TokenTypeRegister
       then bindR (qv_Parse qv data) (\<lambda>(al, m).
            bindR (slice_from data m) (\<lambda>data.
            bindR (qv_Parse qv data) (\<lambda>(ty, k).
            bindR (slice_from data k) (\<lambda>data.
              Inr (t\<lparr>tok_AliasType := at, tok_Alias := al, tok_Type := ty, tok_Value := data\<rparr>,
                   n + m + k + length data)))))
       else if at = TokenTypeUseValue
       then bindR (qv_Parse qv data) (\<lambda>(ty, m).
            bindR (slice_from data m) (\<lambda>data.
              Inr (t\<lparr>tok_AliasType := at, tok_Type := ty, tok_Value := data\<rparr>,
                   n + m + length data)))
       else Inr (t\<lparr>tok_AliasType := at\<rparr>, n)))"

section \<open>The wire grammar\<close>

definition enc_vbytes :: "quicvarint \<Rightarrow> bytes \<Rightarrow> bytes" where
  "enc_vbytes qv b = qv_enc qv (of_nat (length b)) @ b"

definition enc_location :: "quicvarint \<Rightarrow> Location \<Rightarrow> bytes" where
  "enc_location qv l = qv_enc qv (loc_Group l) @ qv_enc qv (loc_Object l)"

definition enc_tuple :: "quicvarint \<Rightarrow> Tuple \<Rightarrow> bytes" where
  "enc_tuple qv t = qv_enc qv (of_nat (length t)) @ concat (map (enc_vbytes qv) t)"

definition enc_versions :: "quicvarint \<Rightarrow> Version list \<Rightarrow> bytes" where
  "enc_versions qv vs = qv_enc qv (of_nat (length vs)) @ concat (map (qv_enc qv) vs)"

definition enc_kvp :: "quicvarint \<Rightarrow> KeyValuePair \<Rightarrow> bytes" where
  "enc_kvp qv p = qv_enc qv (kvp_Type p) @
     (if kvp_Type p mod 2 = 1 then enc_vbytes qv (kvp_ValueBytes p)
      else qv_enc qv (kvp_ValueVarInt p))"

definition enc_kvps :: "quicvarint \<Rightarrow> KVPList \<Rightarrow> bytes" where
  "enc_kvps qv pp = qv_enc qv (of_nat (length pp)) @ concat (map (enc_kvp qv) pp)"

text \<open>
  The values that the grammar can carry: integers and lengths below 2 to the power 62,
  tuples that Go can allocate, and key-value pairs with only the value that their type uses.
\<close>

definition wf_location :: "Location \<Rightarrow> bool" where
  "wf_location l \<longleftrightarrow> fits (loc_Group l) \<and> fits (loc_Object l)"

definition wf_tuple :: "Tuple \<Rightarrow> bool" where
  "wf_tuple t \<longleftrightarrow> length t * 16 \<le> maxAlloc \<and> list_all (\<lambda>s. length s \<le> maxVarInt) t"

definition wf_versions :: "Version list \<Rightarrow> bool" where
  "wf_versions vs \<longleftrightarrow> length vs \<le> maxVarInt \<and> list_all fits vs"

definition wf_kvp :: "KeyValuePair \<Rightarrow> bool" where
  "wf_kvp p \<longleftrightarrow> fits (kvp_Type p) \<and>
     (if kvp_Type p mod 2 = 1
      then length (kvp_ValueBytes p) \<le> maxAlloc \<and> kvp_ValueVarInt p = 0
      else fits (kvp_ValueVarInt p) \<and> kvp_ValueBytes p = [])"

definition wf_kvps :: "KVPList \<Rightarrow> bool" where
  "wf_kvps pp \<longleftrightarrow> length pp \<le> maxVarInt \<and> list_all wf_kvp pp"

section \<open>Serialisers implement the grammar, parsers read it back\<close>

lemma fits_of_nat [simp]: "n \<le> maxVarInt \<Longrightarrow> fits (of_nat n)"
  by (simp add: fits_def maxVarInt_def unat_of_nat_uint64)

lemma unat_of_nat_fits [simp]: "n \<le> maxVarInt \<Longrightarrow> unat (of_nat n :: uint64) = n"
  by (simp add: maxVarInt_def unat_of_nat_uint64)

lemma sint_fits: "fits v \<Longrightarrow> sint v = int (unat v)"
  by (rule sint_uint64_small) (simp add: fits_def maxVarInt_def)

lemma of_nat_eq_0_fits [simp]:
  "n \<le> maxVarInt \<Longrightarrow> (of_nat n :: uint64) = 0 \<longleftrightarrow> n = 0"
proof -
  assume n: "n \<le> maxVarInt"
  have "(of_nat n :: uint64) = 0 \<longleftrightarrow> unat (of_nat n :: uint64) = 0"
    by (rule unat_eq_zero [symmetric])
  with n show ?thesis by (simp only: unat_of_nat_fits)
qed

lemma maxAlloc_le: "n \<le> maxAlloc \<Longrightarrow> n \<le> maxVarInt"
  by (simp add: maxAlloc_def maxVarInt_def)

lemma wf_tuple_length: "wf_tuple t \<Longrightarrow> length t \<le> maxVarInt"
  by (simp add: wf_tuple_def maxAlloc_def maxVarInt_def)

context varint_codec
begin

lemma appendVarIntBytes_enc [simp, codec]:
  "length b \<le> maxVarInt \<Longrightarrow> appendVarIntBytes qv buf b = Inr (buf @ enc_vbytes qv b)"
  by (simp add: appendVarIntBytes_def enc_vbytes_def)

lemma varIntBytesLen_enc:
  "length b \<le> maxVarInt \<Longrightarrow> varIntBytesLen qv b = Inr (of_nat (length (enc_vbytes qv b)))"
  by (simp add: varIntBytesLen_def enc_vbytes_def)

lemma parseVarIntBytes_enc [simp, codec]:
  assumes "length b \<le> maxVarInt"
  shows "parseVarIntBytes qv (enc_vbytes qv b @ rest) = Inr (b, length (enc_vbytes qv b))"
  using assms sint_fits [of "of_nat (length b)"]
  by (auto simp: parseVarIntBytes_def enc_vbytes_def)

lemma Location_append_enc [simp, codec]:
  "wf_location l \<Longrightarrow> Location_append qv l buf = Inr (buf @ enc_location qv l)"
  by (simp add: Location_append_def enc_location_def wf_location_def)

lemma Location_parse_enc [simp, codec]:
  "wf_location l \<Longrightarrow>
     Location_parse qv v (enc_location qv l @ rest) = Inr (l, length (enc_location qv l))"
  by (simp add: Location_parse_def enc_location_def wf_location_def)

lemma Tuple_append_elems_enc:
  "list_all (\<lambda>s. length s \<le> maxVarInt) t \<Longrightarrow>
     Tuple_append_elems qv t buf = Inr (buf @ concat (map (enc_vbytes qv) t))"
  by (induction t arbitrary: buf) (auto simp: enc_vbytes_def)

lemma Tuple_append_enc [simp, codec]:
  "wf_tuple t \<Longrightarrow> Tuple_append qv t buf = Inr (buf @ enc_tuple qv t)"
  using wf_tuple_length [of t]
  by (simp add: Tuple_append_def enc_tuple_def wf_tuple_def Tuple_append_elems_enc)

lemma parseTuple_loop_enc:
  "list_all (\<lambda>s. length s \<le> maxVarInt) t \<Longrightarrow>
     parseTuple_loop qv (length t) (concat (map (enc_vbytes qv) t) @ rest) acc parsed
       = Inr (acc @ t, parsed + length (concat (map (enc_vbytes qv) t)))"
proof (induction t arbitrary: acc parsed)
  case Nil
  then show ?case by simp
next
  case (Cons s t)
  then show ?case by (simp add: enc_vbytes_def add.assoc del: length_concat)
qed

lemma parseTuple_enc [simp, codec]:
  "wf_tuple t \<Longrightarrow> parseTuple qv (enc_tuple qv t @ rest) = Inr (t, length (enc_tuple qv t))"
  using wf_tuple_length [of t]
  by (simp add: parseTuple_def enc_tuple_def wf_tuple_def make_slice_def parseTuple_loop_enc
        del: length_concat)

lemma versions_append_elems_enc:
  "list_all fits vs \<Longrightarrow> versions_append_elems qv vs buf = Inr (buf @ concat (map (qv_enc qv) vs))"
  by (induction vs arbitrary: buf) auto

lemma versions_append_enc [simp, codec]:
  "wf_versions vs \<Longrightarrow> versions_append qv vs buf = Inr (buf @ enc_versions qv vs)"
  by (simp add: versions_append_def enc_versions_def wf_versions_def versions_append_elems_enc)

lemma versions_parse_loop_enc:
  "list_all fits vs \<Longrightarrow>
     versions_parse_loop qv (length vs) (concat (map (qv_enc qv) vs) @ rest) acc parsed
       = Inr (acc @ vs, parsed + length (concat (map (qv_enc qv) vs)))"
  by (induction vs arbitrary: acc parsed) (auto simp del: length_concat)

lemma versions_parse_enc [simp, codec]:
  "wf_versions vs \<Longrightarrow>
     versions_parse qv [] (enc_versions qv vs @ rest) = Inr (vs, length (enc_versions qv vs))"
  by (simp add: versions_parse_def enc_versions_def wf_versions_def sint_fits
        versions_parse_loop_enc del: length_concat)

lemma versions_Len_loop_enc:
  "list_all fits vs \<Longrightarrow>
     versions_Len_loop qv vs l = Inr (l + of_nat (length (concat (map (qv_enc qv) vs))))"
  by (induction vs arbitrary: l) (auto simp: Version_Len_def simp del: length_concat)

lemma KeyValuePair_append_enc [simp, codec]:
  "wf_kvp p \<Longrightarrow> KeyValuePair_append qv p buf = Inr (buf @ enc_kvp qv p)"
  by (auto simp: KeyValuePair_append_def enc_kvp_def wf_kvp_def enc_vbytes_def maxAlloc_le)

lemma KeyValuePair_length_enc:
  "wf_kvp p \<Longrightarrow> KeyValuePair_length qv p = Inr (of_nat (length (enc_kvp qv p)))"
  by (auto simp: KeyValuePair_length_def enc_kvp_def wf_kvp_def enc_vbytes_def maxAlloc_le)

lemma KeyValuePair_parse_enc [simp, codec]:
  "wf_kvp p \<Longrightarrow> KeyValuePair_parse qv (enc_kvp qv p @ rest) = Inr (p, length (enc_kvp qv p))"
  by (auto simp: KeyValuePair_parse_def enc_kvp_def wf_kvp_def enc_vbytes_def make_slice_def
        maxAlloc_le)

lemma KeyValuePair_parseReader_enc:
  "wf_kvp p \<Longrightarrow> KeyValuePair_parseReader qv (enc_kvp qv p @ rest) = Inr (p, rest)"
  by (auto simp: KeyValuePair_parseReader_def enc_kvp_def wf_kvp_def enc_vbytes_def
        make_slice_def maxAlloc_le)

lemma KVPList_append_enc [simp, codec]:
  "list_all wf_kvp pp \<Longrightarrow> KVPList_append qv pp buf = Inr (buf @ concat (map (enc_kvp qv) pp))"
  by (induction pp arbitrary: buf) auto

lemma KVPList_appendNum_enc [simp, codec]:
  "wf_kvps pp \<Longrightarrow> KVPList_appendNum qv pp buf = Inr (buf @ enc_kvps qv pp)"
  by (simp add: KVPList_appendNum_def enc_kvps_def wf_kvps_def)

lemma KVPList_length_loop_enc:
  "list_all wf_kvp pp \<Longrightarrow>
     KVPList_length_loop qv pp l = Inr (l + of_nat (length (concat (map (enc_kvp qv) pp))))"
  by (induction pp arbitrary: l) (auto simp: KeyValuePair_length_enc simp del: length_concat)

lemma KVPList_appendLength_enc [codec]:
  "list_all wf_kvp pp \<Longrightarrow> length (concat (map (enc_kvp qv) pp)) \<le> maxVarInt \<Longrightarrow>
     KVPList_appendLength qv pp buf = Inr (buf @ enc_vbytes qv (concat (map (enc_kvp qv) pp)))"
  by (simp add: KVPList_appendLength_def KVPList_length_def KVPList_length_loop_enc
        enc_vbytes_def del: length_concat)

lemma parseNum_loop_enc:
  "list_all wf_kvp pp \<Longrightarrow>
     parseNum_loop qv (length pp) (concat (map (enc_kvp qv) pp) @ rest) acc = Inr (acc @ pp)"
  by (induction pp arbitrary: acc) auto

lemma KVPList_parseNum_enc [simp, codec]:
  "wf_kvps pp \<Longrightarrow> KVPList_parseNum qv [] (enc_kvps qv pp @ rest) = Inr pp"
  by (simp add: KVPList_parseNum_def enc_kvps_def wf_kvps_def parseNum_loop_enc)

lemma KVPList_parseNum_enc_nil [simp, codec]:
  "wf_kvps pp \<Longrightarrow> KVPList_parseNum qv [] (enc_kvps qv pp) = Inr pp"
  using KVPList_parseNum_enc [of pp "[]"] by simp

text \<open>The same laws for the idiom that parses a field and drops its bytes.\<close>

lemma advance_fields [simp, codec]:
  "length b \<le> maxVarInt \<Longrightarrow> advance (parseVarIntBytes qv) (enc_vbytes qv b @ rest) = Inr (b, rest)"
  "wf_tuple t \<Longrightarrow> advance (parseTuple qv) (enc_tuple qv t @ rest) = Inr (t, rest)"
  "wf_location l \<Longrightarrow> advance (Location_parse qv v) (enc_location qv l @ rest) = Inr (l, rest)"
  "wf_versions vs \<Longrightarrow> advance (versions_parse qv []) (enc_versions qv vs @ rest) = Inr (vs, rest)"
  by (rule advance_enc, simp)+

lemma parse_fields_nil [simp, codec]:
  "length b \<le> maxVarInt \<Longrightarrow> parseVarIntBytes qv (enc_vbytes qv b) = Inr (b, length (enc_vbytes qv b))"
  "wf_tuple t \<Longrightarrow> parseTuple qv (enc_tuple qv t) = Inr (t, length (enc_tuple qv t))"
  using parseVarIntBytes_enc [of b "[]"] parseTuple_enc [of t "[]"] by simp_all

end

end
