(* ===== verification/Wire_Subscribe.thy ===== *)
theory Wire_Subscribe
  imports Wire_Fields
begin

text \<open>
  The control messages of session setup and of subscriptions: \<^verbatim>\<open>client_setup_message.go\<close>,
  \<^verbatim>\<open>server_setup_message.go\<close>, \<^verbatim>\<open>go_away_message.go\<close>, \<^verbatim>\<open>max_request_id_message.go\<close>,
  \<^verbatim>\<open>requests_blocked_message.go\<close> and the \<^verbatim>\<open>subscribe\<close> family. For each message there is
  the record, \<^verbatim>\<open>Append\<close>, \<^verbatim>\<open>parse\<close>, the grammar of its body (\<open>enc_\<dots>\<close>), the values the
  grammar can carry (\<open>wf_\<dots>\<close>) and a \<^theory_text>\<open>sublocale\<close> that discharges the contract
  \<open>wire_message\<close> for it.
\<close>

section \<open>The contract of a message\<close>

locale wire_message =
  fixes app :: "'m \<Rightarrow> bytes \<Rightarrow> bytes result"
    and prs :: "bytes \<Rightarrow> 'm result"
    and enc :: "'m \<Rightarrow> bytes"
    and wf :: "'m \<Rightarrow> bool"
  assumes app_enc: "wf m \<Longrightarrow> app m buf = Inr (buf @ enc m)"
    and prs_enc: "wf m \<Longrightarrow> prs (enc m) = Inr m"
begin

lemma roundtrip: "wf m \<Longrightarrow> bindR (app m []) prs = Inr m"
  by (simp add: app_enc prs_enc)

lemma enc_unique: "wf m \<Longrightarrow> wf m' \<Longrightarrow> enc m = enc m' \<Longrightarrow> m = m'"
  by (metis prs_enc sum.inject(2))

end

section \<open>Setup\<close>

record ClientSetupMessage =
  csm_SupportedVersions :: "Version list"
  csm_SetupParameters :: KVPList

definition ClientSetupMessage_Append :: "quicvarint \<Rightarrow> ClientSetupMessage \<Rightarrow> bytes \<Rightarrow> bytes result" where
  "ClientSetupMessage_Append qv m buf =
     bindR (qv_Append qv buf (of_nat (length (csm_SupportedVersions m)))) (\<lambda>buf.
     bindR (versions_append_elems qv (csm_SupportedVersions m) buf) (\<lambda>buf.
     bindR (qv_Append qv buf (of_nat (length (csm_SetupParameters m)))) (\<lambda>buf.
       KVPList_append qv (csm_SetupParameters m) buf)))"

definition ClientSetupMessage_parse :: "quicvarint \<Rightarrow> Version \<Rightarrow> bytes \<Rightarrow> ClientSetupMessage result" where
  "ClientSetupMessage_parse qv v data =
     bindR (advance (versions_parse qv []) data) (\<lambda>(vs, data).
     bindR (KVPList_parseNum qv [] data) (\<lambda>params.
       Inr \<lparr>csm_SupportedVersions = vs, csm_SetupParameters = params\<rparr>))"

record ServerSetupMessage =
  ssm_SelectedVersion :: Version
  ssm_SetupParameters :: KVPList

definition ServerSetupMessage_Append :: "quicvarint \<Rightarrow> ServerSetupMessage \<Rightarrow> bytes \<Rightarrow> bytes result" where
  "ServerSetupMessage_Append qv m buf =
     bindR (qv_Append qv buf (ssm_SelectedVersion m)) (\<lambda>buf.
     bindR (qv_Append qv buf (of_nat (length (ssm_SetupParameters m)))) (\<lambda>buf.
       KVPList_append qv (ssm_SetupParameters m) buf))"

definition ServerSetupMessage_parse :: "quicvarint \<Rightarrow> Version \<Rightarrow> bytes \<Rightarrow> ServerSetupMessage result" where
  "ServerSetupMessage_parse qv v data =
     bindR (advance (qv_Parse qv) data) (\<lambda>(sv, data).
     bindR (KVPList_parseNum qv [] data) (\<lambda>params.
       Inr \<lparr>ssm_SelectedVersion = sv, ssm_SetupParameters = params\<rparr>))"

record GoAwayMessage =
  gam_NewSessionURI :: gostring

definition GoAwayMessage_Append :: "quicvarint \<Rightarrow> GoAwayMessage \<Rightarrow> bytes \<Rightarrow> bytes result" where
  "GoAwayMessage_Append qv m buf = appendVarIntBytes qv buf (gam_NewSessionURI m)"

definition GoAwayMessage_parse :: "quicvarint \<Rightarrow> Version \<Rightarrow> bytes \<Rightarrow> GoAwayMessage result" where
  "GoAwayMessage_parse qv v data =
     bindR (parseVarIntBytes qv data) (\<lambda>(newSessionURI, n).
       Inr \<lparr>gam_NewSessionURI = newSessionURI\<rparr>)"

record MaxRequestIDMessage =
  mrm_RequestID :: uint64

definition MaxRequestIDMessage_Append :: "quicvarint \<Rightarrow> MaxRequestIDMessage \<Rightarrow> bytes \<Rightarrow> bytes result" where
  "MaxRequestIDMessage_Append qv m buf = qv_Append qv buf (mrm_RequestID m)"

definition MaxRequestIDMessage_parse :: "quicvarint \<Rightarrow> Version \<Rightarrow> bytes \<Rightarrow> MaxRequestIDMessage result" where
  "MaxRequestIDMessage_parse qv v data =
     bindR (qv_Parse qv data) (\<lambda>(requestID, n). Inr \<lparr>mrm_RequestID = requestID\<rparr>)"

record RequestsBlockedMessage =
  rbm_MaximumRequestID :: uint64

definition RequestsBlockedMessage_Append ::
  "quicvarint \<Rightarrow> RequestsBlockedMessage \<Rightarrow> bytes \<Rightarrow> bytes result" where
  "RequestsBlockedMessage_Append qv m buf = qv_Append qv buf (rbm_MaximumRequestID m)"

definition RequestsBlockedMessage_parse ::
  "quicvarint \<Rightarrow> Version \<Rightarrow> bytes \<Rightarrow> RequestsBlockedMessage result" where
  "RequestsBlockedMessage_parse qv v data =
     bindR (qv_Parse qv data) (\<lambda>(requestID, n). Inr \<lparr>rbm_MaximumRequestID = requestID\<rparr>)"

section \<open>SUBSCRIBE\<close>

type_synonym FilterType = uint64
type_synonym GroupOrder = byte

definition FilterTypeLatestObject :: FilterType where "FilterTypeLatestObject = 0x02"
definition FilterTypeNextGroupStart :: FilterType where "FilterTypeNextGroupStart = 0x01"
definition FilterTypeAbsoluteStart :: FilterType where "FilterTypeAbsoluteStart = 0x03"
definition FilterTypeAbsoluteRange :: FilterType where "FilterTypeAbsoluteRange = 0x04"

definition GroupOrderNone :: GroupOrder where "GroupOrderNone = 0x0"
definition GroupOrderAscending :: GroupOrder where "GroupOrderAscending = 0x1"
definition GroupOrderDescending :: GroupOrder where "GroupOrderDescending = 0x2"

definition FilterType_append :: "quicvarint \<Rightarrow> FilterType \<Rightarrow> bytes \<Rightarrow> bytes result" where
  "FilterType_append qv f buf =
     (if f = FilterTypeLatestObject \<or> f = FilterTypeNextGroupStart \<or>
         f = FilterTypeAbsoluteStart \<or> f = FilterTypeAbsoluteRange
      then qv_Append qv buf f
      else qv_Append qv buf FilterTypeNextGroupStart)"

record SubscribeMessage =
  sm_RequestID :: uint64
  sm_TrackNamespace :: Tuple
  sm_TrackName :: bytes
  sm_SubscriberPriority :: byte
  sm_GroupOrder :: GroupOrder
  sm_Forward :: byte
  sm_FilterType :: FilterType
  sm_StartLocation :: Location
  sm_EndGroup :: uint64
  sm_Parameters :: KVPList

text \<open>The zero value of a \<^verbatim>\<open>Location\<close>, which a field that is not read keeps.\<close>

definition zeroLocation :: Location where
  "zeroLocation = \<lparr>loc_Group = 0, loc_Object = 0\<rparr>"

definition SubscribeMessage_Append :: "quicvarint \<Rightarrow> SubscribeMessage \<Rightarrow> bytes \<Rightarrow> bytes result" where
  "SubscribeMessage_Append qv m buf =
     bindR (qv_Append qv buf (sm_RequestID m)) (\<lambda>buf.
     bindR (Tuple_append qv (sm_TrackNamespace m) buf) (\<lambda>buf.
     bindR (appendVarIntBytes qv buf (sm_TrackName m)) (\<lambda>buf.
     let buf = buf @ [sm_SubscriberPriority m];
         buf = buf @ [sm_GroupOrder m];
         buf = buf @ [sm_Forward m]
     in bindR (FilterType_append qv (sm_FilterType m) buf) (\<lambda>buf.
        bindR (if sm_FilterType m = FilterTypeAbsoluteStart \<or>
                  sm_FilterType m = FilterTypeAbsoluteRange
               then Location_append qv (sm_StartLocation m) buf else Inr buf) (\<lambda>buf.
        bindR (if sm_FilterType m = FilterTypeAbsoluteRange
               then qv_Append qv buf (sm_EndGroup m) else Inr buf) (\<lambda>buf.
          KVPList_appendNum qv (sm_Parameters m) buf))))))"

definition SubscribeMessage_parse :: "quicvarint \<Rightarrow> Version \<Rightarrow> bytes \<Rightarrow> SubscribeMessage result" where
  "SubscribeMessage_parse qv v data =
     bindR (advance (qv_Parse qv) data) (\<lambda>(requestID, data).
     bindR (advance (parseTuple qv) data) (\<lambda>(trackNamespace, data).
     bindR (advance (parseVarIntBytes qv) data) (\<lambda>(trackName, data).
     bindR (guardR (length data < 3) errLengthMismatch) (\<lambda>_.
     bindR (index_at data 0) (\<lambda>subscriberPriority.
     bindR (index_at data 1) (\<lambda>groupOrder.
     bindR (guardR (groupOrder > 2) errInvalidGroupOrder) (\<lambda>_.
     bindR (index_at data 2) (\<lambda>forward.
     bindR (guardR (forward > 1) errInvalidForwardFlag) (\<lambda>_.
     bindR (slice_from data 3) (\<lambda>data.
     bindR (qv_Parse qv data) (\<lambda>(filterType, n).
     bindR (guardR (filterType = 0 \<or> filterType > 4) errInvalidFilterType) (\<lambda>_.
     bindR (slice_from data n) (\<lambda>data.
     bindR (if filterType = FilterTypeAbsoluteStart \<or> filterType = FilterTypeAbsoluteRange
            then advance (Location_parse qv v) data else Inr (zeroLocation, data))
       (\<lambda>(startLocation, data).
     bindR (if filterType = FilterTypeAbsoluteRange
            then advance (qv_Parse qv) data else Inr (0, data)) (\<lambda>(endGroup, data).
     bindR (KVPList_parseNum qv [] data) (\<lambda>parameters.
       Inr \<lparr>sm_RequestID = requestID, sm_TrackNamespace = trackNamespace,
            sm_TrackName = trackName, sm_SubscriberPriority = subscriberPriority,
            sm_GroupOrder = groupOrder, sm_Forward = forward, sm_FilterType = filterType,
            sm_StartLocation = startLocation, sm_EndGroup = endGroup,
            sm_Parameters = parameters\<rparr>))))))))))))))))"

section \<open>SUBSCRIBE_OK, SUBSCRIBE_ERROR, SUBSCRIBE_UPDATE, UNSUBSCRIBE, SUBSCRIBE_DONE\<close>

text \<open>
  \<^verbatim>\<open>time.Duration\<close> is a signed 64-bit count of nanoseconds, kept here as its bits;
  \<^verbatim>\<open>time.Duration(x) * time.Millisecond\<close> wraps.
\<close>

type_synonym Duration = "64 word"

definition Millisecond :: Duration where
  "Millisecond = 1000000"

record SubscribeOkMessage =
  som_RequestID :: uint64
  som_TrackAlias :: uint64
  som_Expires :: Duration
  som_GroupOrder :: byte
  som_ContentExists :: bool
  som_LargestLocation :: Location
  som_Parameters :: KVPList

definition SubscribeOkMessage_Append :: "quicvarint \<Rightarrow> SubscribeOkMessage \<Rightarrow> bytes \<Rightarrow> bytes result" where
  "SubscribeOkMessage_Append qv m buf =
     bindR (qv_Append qv buf (som_RequestID m)) (\<lambda>buf.
     bindR (qv_Append qv buf (som_TrackAlias m)) (\<lambda>buf.
     bindR (qv_Append qv buf (som_Expires m)) (\<lambda>buf.
     let buf = buf @ [som_GroupOrder m]
     in if som_ContentExists m
        then bindR (Location_append qv (som_LargestLocation m) (buf @ [1])) (\<lambda>buf.
               KVPList_appendNum qv (som_Parameters m) buf)
        else KVPList_appendNum qv (som_Parameters m) (buf @ [0]))))"

definition SubscribeOkMessage_parse :: "quicvarint \<Rightarrow> Version \<Rightarrow> bytes \<Rightarrow> SubscribeOkMessage result" where
  "SubscribeOkMessage_parse qv v data =
     bindR (advance (qv_Parse qv) data) (\<lambda>(requestID, data).
     bindR (advance (qv_Parse qv) data) (\<lambda>(trackAlias, data).
     bindR (advance (qv_Parse qv) data) (\<lambda>(expires, data).
     bindR (guardR (length data < 2) errLengthMismatch) (\<lambda>_.
     bindR (index_at data 0) (\<lambda>groupOrder.
     bindR (guardR (groupOrder > 2) errInvalidGroupOrder) (\<lambda>_.
     bindR (index_at data 1) (\<lambda>ce.
     bindR (guardR (ce \<noteq> 0 \<and> ce \<noteq> 1) errInvalidContentExistsByte) (\<lambda>_.
     bindR (slice_from data 2) (\<lambda>data.
     bindR (if ce = 1 then advance (Location_parse qv v) data else Inr (zeroLocation, data))
       (\<lambda>(largestLocation, data).
     bindR (KVPList_parseNum qv [] data) (\<lambda>parameters.
       Inr \<lparr>som_RequestID = requestID, som_TrackAlias = trackAlias,
            som_Expires = expires * Millisecond, som_GroupOrder = groupOrder,
            som_ContentExists = (ce = 1), som_LargestLocation = largestLocation,
            som_Parameters = parameters\<rparr>)))))))))))"

record SubscribeErrorMessage =
  sem_RequestID :: uint64
  sem_ErrorCode :: uint64
  sem_ReasonPhrase :: gostring

definition SubscribeErrorMessage_Append ::
  "quicvarint \<Rightarrow> SubscribeErrorMessage \<Rightarrow> bytes \<Rightarrow> bytes result" where
  "SubscribeErrorMessage_Append qv m buf =
     bindR (qv_Append qv buf (sem_RequestID m)) (\<lambda>buf.
     bindR (qv_Append qv buf (sem_ErrorCode m)) (\<lambda>buf.
       appendVarIntBytes qv buf (sem_ReasonPhrase m)))"

definition SubscribeErrorMessage_parse ::
  "quicvarint \<Rightarrow> Version \<Rightarrow> bytes \<Rightarrow> SubscribeErrorMessage result" where
  "SubscribeErrorMessage_parse qv v data =
     bindR (advance (qv_Parse qv) data) (\<lambda>(requestID, data).
     bindR (advance (qv_Parse qv) data) (\<lambda>(errorCode, data).
     bindR (parseVarIntBytes qv data) (\<lambda>(reasonPhrase, n).
       Inr \<lparr>sem_RequestID = requestID, sem_ErrorCode = errorCode,
            sem_ReasonPhrase = reasonPhrase\<rparr>)))"

record SubscribeUpdateMessage =
  sum_RequestID :: uint64
  sum_StartLocation :: Location
  sum_EndGroup :: uint64
  sum_SubscriberPriority :: byte
  sum_Forward :: byte
  sum_Parameters :: KVPList

definition SubscribeUpdateMessage_Append ::
  "quicvarint \<Rightarrow> SubscribeUpdateMessage \<Rightarrow> bytes \<Rightarrow> bytes result" where
  "SubscribeUpdateMessage_Append qv m buf =
     bindR (qv_Append qv buf (sum_RequestID m)) (\<lambda>buf.
     bindR (Location_append qv (sum_StartLocation m) buf) (\<lambda>buf.
     bindR (qv_Append qv buf (sum_EndGroup m)) (\<lambda>buf.
     let buf = buf @ [sum_SubscriberPriority m];
         buf = buf @ [sum_Forward m]
     in KVPList_appendNum qv (sum_Parameters m) buf)))"

definition SubscribeUpdateMessage_parse ::
  "quicvarint \<Rightarrow> Version \<Rightarrow> bytes \<Rightarrow> SubscribeUpdateMessage result" where
  "SubscribeUpdateMessage_parse qv v data =
     bindR (advance (qv_Parse qv) data) (\<lambda>(requestID, data).
     bindR (advance (Location_parse qv v) data) (\<lambda>(startLocation, data).
     bindR (advance (qv_Parse qv) data) (\<lambda>(endGroup, data).
     bindR (guardR (length data < 2) errLengthMismatch) (\<lambda>_.
     bindR (index_at data 0) (\<lambda>subscriberPriority.
     bindR (index_at data 1) (\<lambda>forward.
     bindR (guardR (forward > 2) errInvalidForwardFlag) (\<lambda>_.
     bindR (slice_from data 2) (\<lambda>data.
     bindR (KVPList_parseNum qv [] data) (\<lambda>parameters.
       Inr \<lparr>sum_RequestID = requestID, sum_StartLocation = startLocation,
            sum_EndGroup = endGroup, sum_SubscriberPriority = subscriberPriority,
            sum_Forward = forward, sum_Parameters = parameters\<rparr>)))))))))"

record UnsubscribeMessage =
  usm_RequestID :: uint64

definition UnsubscribeMessage_Append :: "quicvarint \<Rightarrow> UnsubscribeMessage \<Rightarrow> bytes \<Rightarrow> bytes result" where
  "UnsubscribeMessage_Append qv m buf = qv_Append qv buf (usm_RequestID m)"

definition UnsubscribeMessage_parse :: "quicvarint \<Rightarrow> Version \<Rightarrow> bytes \<Rightarrow> UnsubscribeMessage result" where
  "UnsubscribeMessage_parse qv v data =
     bindR (qv_Parse qv data) (\<lambda>(requestID, n). Inr \<lparr>usm_RequestID = requestID\<rparr>)"

record SubscribeDoneMessage =
  sdm_RequestID :: uint64
  sdm_StatusCode :: uint64
  sdm_StreamCount :: uint64
  sdm_ReasonPhrase :: gostring

definition SubscribeDoneMessage_Append ::
  "quicvarint \<Rightarrow> SubscribeDoneMessage \<Rightarrow> bytes \<Rightarrow> bytes result" where
  "SubscribeDoneMessage_Append qv m buf =
     bindR (qv_Append qv buf (sdm_RequestID m)) (\<lambda>buf.
     bindR (qv_Append qv buf (sdm_StatusCode m)) (\<lambda>buf.
     bindR (qv_Append qv buf (sdm_StreamCount m)) (\<lambda>buf.
       appendVarIntBytes qv buf (sdm_ReasonPhrase m))))"

definition SubscribeDoneMessage_parse ::
  "quicvarint \<Rightarrow> Version \<Rightarrow> bytes \<Rightarrow> SubscribeDoneMessage result" where
  "SubscribeDoneMessage_parse qv v data =
     bindR (advance (qv_Parse qv) data) (\<lambda>(requestID, data).
     bindR (advance (qv_Parse qv) data) (\<lambda>(statusCode, data).
     bindR (advance (qv_Parse qv) data) (\<lambda>(streamCount, data).
     bindR (parseVarIntBytes qv data) (\<lambda>(reasonPhrase, n).
       Inr \<lparr>sdm_RequestID = requestID, sdm_StatusCode = statusCode,
            sdm_StreamCount = streamCount, sdm_ReasonPhrase = reasonPhrase\<rparr>))))"

section \<open>Grammar\<close>

definition enc_ClientSetup :: "quicvarint \<Rightarrow> ClientSetupMessage \<Rightarrow> bytes" where
  "enc_ClientSetup qv m = enc_versions qv (csm_SupportedVersions m) @ enc_kvps qv (csm_SetupParameters m)"

definition wf_ClientSetup :: "ClientSetupMessage \<Rightarrow> bool" where
  "wf_ClientSetup m \<longleftrightarrow> wf_versions (csm_SupportedVersions m) \<and> wf_kvps (csm_SetupParameters m)"

definition enc_ServerSetup :: "quicvarint \<Rightarrow> ServerSetupMessage \<Rightarrow> bytes" where
  "enc_ServerSetup qv m = qv_enc qv (ssm_SelectedVersion m) @ enc_kvps qv (ssm_SetupParameters m)"

definition wf_ServerSetup :: "ServerSetupMessage \<Rightarrow> bool" where
  "wf_ServerSetup m \<longleftrightarrow> fits (ssm_SelectedVersion m) \<and> wf_kvps (ssm_SetupParameters m)"

definition enc_Subscribe :: "quicvarint \<Rightarrow> SubscribeMessage \<Rightarrow> bytes" where
  "enc_Subscribe qv m =
     qv_enc qv (sm_RequestID m) @ enc_tuple qv (sm_TrackNamespace m) @
     enc_vbytes qv (sm_TrackName m) @
     sm_SubscriberPriority m # sm_GroupOrder m # sm_Forward m #
     qv_enc qv (sm_FilterType m) @
     (if sm_FilterType m \<in> {3, 4} then enc_location qv (sm_StartLocation m) else []) @
     (if sm_FilterType m = 4 then qv_enc qv (sm_EndGroup m) else []) @
     enc_kvps qv (sm_Parameters m)"

definition wf_Subscribe :: "SubscribeMessage \<Rightarrow> bool" where
  "wf_Subscribe m \<longleftrightarrow>
     fits (sm_RequestID m) \<and> wf_tuple (sm_TrackNamespace m) \<and>
     length (sm_TrackName m) \<le> maxVarInt \<and> sm_GroupOrder m \<le> 2 \<and> sm_Forward m \<le> 1 \<and>
     sm_FilterType m \<in> {1, 2, 3, 4} \<and>
     (if sm_FilterType m \<in> {3, 4} then wf_location (sm_StartLocation m)
      else sm_StartLocation m = zeroLocation) \<and>
     (if sm_FilterType m = 4 then fits (sm_EndGroup m) else sm_EndGroup m = 0) \<and>
     wf_kvps (sm_Parameters m)"

definition enc_SubscribeOk :: "quicvarint \<Rightarrow> SubscribeOkMessage \<Rightarrow> bytes" where
  "enc_SubscribeOk qv m =
     qv_enc qv (som_RequestID m) @ qv_enc qv (som_TrackAlias m) @ qv_enc qv (som_Expires m) @
     som_GroupOrder m # (if som_ContentExists m then 1 else 0) #
     (if som_ContentExists m then enc_location qv (som_LargestLocation m) else []) @
     enc_kvps qv (som_Parameters m)"

text \<open>Everything but the expiry, which the two sides measure in different units.\<close>

definition wf_SubscribeOk :: "SubscribeOkMessage \<Rightarrow> bool" where
  "wf_SubscribeOk m \<longleftrightarrow>
     fits (som_RequestID m) \<and> fits (som_TrackAlias m) \<and> fits (som_Expires m) \<and>
     som_GroupOrder m \<le> 2 \<and>
     (if som_ContentExists m then wf_location (som_LargestLocation m)
      else som_LargestLocation m = zeroLocation) \<and>
     wf_kvps (som_Parameters m)"

definition enc_SubscribeError :: "quicvarint \<Rightarrow> SubscribeErrorMessage \<Rightarrow> bytes" where
  "enc_SubscribeError qv m =
     qv_enc qv (sem_RequestID m) @ qv_enc qv (sem_ErrorCode m) @ enc_vbytes qv (sem_ReasonPhrase m)"

definition wf_SubscribeError :: "SubscribeErrorMessage \<Rightarrow> bool" where
  "wf_SubscribeError m \<longleftrightarrow>
     fits (sem_RequestID m) \<and> fits (sem_ErrorCode m) \<and> length (sem_ReasonPhrase m) \<le> maxVarInt"

definition enc_SubscribeUpdate :: "quicvarint \<Rightarrow> SubscribeUpdateMessage \<Rightarrow> bytes" where
  "enc_SubscribeUpdate qv m =
     qv_enc qv (sum_RequestID m) @ enc_location qv (sum_StartLocation m) @
     qv_enc qv (sum_EndGroup m) @ sum_SubscriberPriority m # sum_Forward m #
     enc_kvps qv (sum_Parameters m)"

definition wf_SubscribeUpdate :: "SubscribeUpdateMessage \<Rightarrow> bool" where
  "wf_SubscribeUpdate m \<longleftrightarrow>
     fits (sum_RequestID m) \<and> wf_location (sum_StartLocation m) \<and> fits (sum_EndGroup m) \<and>
     sum_Forward m \<le> 2 \<and> wf_kvps (sum_Parameters m)"

definition enc_SubscribeDone :: "quicvarint \<Rightarrow> SubscribeDoneMessage \<Rightarrow> bytes" where
  "enc_SubscribeDone qv m =
     qv_enc qv (sdm_RequestID m) @ qv_enc qv (sdm_StatusCode m) @ qv_enc qv (sdm_StreamCount m) @
     enc_vbytes qv (sdm_ReasonPhrase m)"

definition wf_SubscribeDone :: "SubscribeDoneMessage \<Rightarrow> bool" where
  "wf_SubscribeDone m \<longleftrightarrow>
     fits (sdm_RequestID m) \<and> fits (sdm_StatusCode m) \<and> fits (sdm_StreamCount m) \<and>
     length (sdm_ReasonPhrase m) \<le> maxVarInt"

lemmas filter_defs = FilterTypeLatestObject_def FilterTypeNextGroupStart_def
  FilterTypeAbsoluteStart_def FilterTypeAbsoluteRange_def

lemma fits_small [simp]:
  "fits 0" "fits 1" "fits 2" "fits 3" "fits 4"
  by (simp_all add: fits_def maxVarInt_def)

section \<open>The messages satisfy the contract\<close>

context varint_codec
begin

lemma ClientSetup_app:
  "wf_ClientSetup m \<Longrightarrow> ClientSetupMessage_Append qv m buf = Inr (buf @ enc_ClientSetup qv m)"
  by (simp add: ClientSetupMessage_Append_def enc_ClientSetup_def wf_ClientSetup_def
      wf_versions_def wf_kvps_def enc_versions_def enc_kvps_def versions_append_elems_enc)

lemma ServerSetup_app:
  "wf_ServerSetup m \<Longrightarrow> ServerSetupMessage_Append qv m buf = Inr (buf @ enc_ServerSetup qv m)"
  by (simp add: ServerSetupMessage_Append_def enc_ServerSetup_def wf_ServerSetup_def
      wf_kvps_def enc_kvps_def)

lemma Subscribe_app:
  "wf_Subscribe m \<Longrightarrow> SubscribeMessage_Append qv m buf = Inr (buf @ enc_Subscribe qv m)"
  by (auto simp: SubscribeMessage_Append_def FilterType_append_def enc_Subscribe_def
      wf_Subscribe_def filter_defs)

lemma Subscribe_prs:
  "wf_Subscribe m \<Longrightarrow> SubscribeMessage_parse qv v (enc_Subscribe qv m) = Inr m"
  by (auto simp: SubscribeMessage_parse_def enc_Subscribe_def wf_Subscribe_def filter_defs
      guardR_def)

lemma SubscribeOk_app:
  "wf_SubscribeOk m \<Longrightarrow> SubscribeOkMessage_Append qv m buf = Inr (buf @ enc_SubscribeOk qv m)"
  by (auto simp: SubscribeOkMessage_Append_def enc_SubscribeOk_def wf_SubscribeOk_def)

text \<open>The receiver of SUBSCRIBE_OK sees the nanoseconds that were sent as milliseconds.\<close>

lemma SubscribeOk_prs:
  "wf_SubscribeOk m \<Longrightarrow>
     SubscribeOkMessage_parse qv v (enc_SubscribeOk qv m)
       = Inr (m\<lparr>som_Expires := som_Expires m * Millisecond\<rparr>)"
  by (auto simp: SubscribeOkMessage_parse_def enc_SubscribeOk_def wf_SubscribeOk_def guardR_def)

lemma SubscribeUpdate_app:
  "wf_SubscribeUpdate m \<Longrightarrow>
     SubscribeUpdateMessage_Append qv m buf = Inr (buf @ enc_SubscribeUpdate qv m)"
  by (auto simp: SubscribeUpdateMessage_Append_def enc_SubscribeUpdate_def wf_SubscribeUpdate_def)

lemma SubscribeUpdate_prs:
  "wf_SubscribeUpdate m \<Longrightarrow>
     SubscribeUpdateMessage_parse qv v (enc_SubscribeUpdate qv m) = Inr m"
  by (auto simp: SubscribeUpdateMessage_parse_def enc_SubscribeUpdate_def wf_SubscribeUpdate_def
      guardR_def)

end

sublocale varint_codec \<subseteq> client_setup: wire_message
  "ClientSetupMessage_Append qv" "ClientSetupMessage_parse qv v" "enc_ClientSetup qv" wf_ClientSetup
  for v
  by unfold_locales
    (simp_all add: ClientSetup_app ClientSetupMessage_parse_def enc_ClientSetup_def wf_ClientSetup_def)

sublocale varint_codec \<subseteq> server_setup: wire_message
  "ServerSetupMessage_Append qv" "ServerSetupMessage_parse qv v" "enc_ServerSetup qv" wf_ServerSetup
  for v
  by unfold_locales
    (simp_all add: ServerSetup_app ServerSetupMessage_parse_def enc_ServerSetup_def wf_ServerSetup_def)

sublocale varint_codec \<subseteq> goaway: wire_message
  "GoAwayMessage_Append qv" "GoAwayMessage_parse qv v"
  "\<lambda>m. enc_vbytes qv (gam_NewSessionURI m)" "\<lambda>m. length (gam_NewSessionURI m) \<le> maxVarInt"
  for v
  by unfold_locales (simp_all add: GoAwayMessage_Append_def GoAwayMessage_parse_def)

sublocale varint_codec \<subseteq> max_request_id: wire_message
  "MaxRequestIDMessage_Append qv" "MaxRequestIDMessage_parse qv v"
  "\<lambda>m. qv_enc qv (mrm_RequestID m)" "\<lambda>m. fits (mrm_RequestID m)"
  for v
  by unfold_locales (simp_all add: MaxRequestIDMessage_Append_def MaxRequestIDMessage_parse_def)

sublocale varint_codec \<subseteq> requests_blocked: wire_message
  "RequestsBlockedMessage_Append qv" "RequestsBlockedMessage_parse qv v"
  "\<lambda>m. qv_enc qv (rbm_MaximumRequestID m)" "\<lambda>m. fits (rbm_MaximumRequestID m)"
  for v
  by unfold_locales (simp_all add: RequestsBlockedMessage_Append_def RequestsBlockedMessage_parse_def)

sublocale varint_codec \<subseteq> subscribe: wire_message
  "SubscribeMessage_Append qv" "SubscribeMessage_parse qv v" "enc_Subscribe qv" wf_Subscribe
  for v
  by unfold_locales (simp_all add: Subscribe_app Subscribe_prs)

sublocale varint_codec \<subseteq> subscribe_ok: wire_message
  "SubscribeOkMessage_Append qv" "SubscribeOkMessage_parse qv v" "enc_SubscribeOk qv"
  "\<lambda>m. wf_SubscribeOk m \<and> som_Expires m = 0"
  for v
  by unfold_locales (simp_all add: SubscribeOk_app SubscribeOk_prs)

sublocale varint_codec \<subseteq> subscribe_error: wire_message
  "SubscribeErrorMessage_Append qv" "SubscribeErrorMessage_parse qv v" "enc_SubscribeError qv"
  wf_SubscribeError
  for v
  by unfold_locales
    (simp_all add: SubscribeErrorMessage_Append_def SubscribeErrorMessage_parse_def
      enc_SubscribeError_def wf_SubscribeError_def)

sublocale varint_codec \<subseteq> subscribe_update: wire_message
  "SubscribeUpdateMessage_Append qv" "SubscribeUpdateMessage_parse qv v" "enc_SubscribeUpdate qv"
  wf_SubscribeUpdate
  for v
  by unfold_locales (simp_all add: SubscribeUpdate_app SubscribeUpdate_prs)

sublocale varint_codec \<subseteq> unsubscribe: wire_message
  "UnsubscribeMessage_Append qv" "UnsubscribeMessage_parse qv v"
  "\<lambda>m. qv_enc qv (usm_RequestID m)" "\<lambda>m. fits (usm_RequestID m)"
  for v
  by unfold_locales (simp_all add: UnsubscribeMessage_Append_def UnsubscribeMessage_parse_def)

sublocale varint_codec \<subseteq> subscribe_done: wire_message
  "SubscribeDoneMessage_Append qv" "SubscribeDoneMessage_parse qv v" "enc_SubscribeDone qv"
  wf_SubscribeDone
  for v
  by unfold_locales
    (simp_all add: SubscribeDoneMessage_Append_def SubscribeDoneMessage_parse_def
      enc_SubscribeDone_def wf_SubscribeDone_def)

end
