(* ===== verification/Wire_Requests.thy ===== *)
theory Wire_Requests
  imports Wire_Subscribe
begin

text \<open>
  The control messages of fetches, track status, announcements, announcement subscriptions
  and the PUBLISH family: \<^verbatim>\<open>fetch_*.go\<close>, \<^verbatim>\<open>track_status_*.go\<close>, \<^verbatim>\<open>announce_*.go\<close>,
  \<^verbatim>\<open>unannounce_message.go\<close>, \<^verbatim>\<open>subscribe_announces_*.go\<close>,
  \<^verbatim>\<open>unsubscribe_announces_message.go\<close> and \<^verbatim>\<open>publish_*.go\<close> of \<^verbatim>\<open>internal/wire\<close>, in the
  same form as the subscription messages. The PUBLISH family is modelled as it is written;
  it satisfies no round trip, which is proved of it instead of the contract.
\<close>

section \<open>FETCH\<close>

definition FetchTypeStandalone :: uint64 where "FetchTypeStandalone = 0x01"
definition FetchTypeRelativeJoining :: uint64 where "FetchTypeRelativeJoining = 0x02"
definition FetchTypeAbsoluteJoining :: uint64 where "FetchTypeAbsoluteJoining = 0x03"

record FetchMessage =
  fm_RequestID :: uint64
  fm_SubscriberPriority :: byte
  fm_GroupOrder :: byte
  fm_FetchType :: uint64
  fm_TrackNamespace :: Tuple
  fm_TrackName :: bytes
  fm_StartGroup :: uint64
  fm_StartObject :: uint64
  fm_EndGroup :: uint64
  fm_EndObject :: uint64
  fm_JoiningSubscribeID :: uint64
  fm_JoiningStart :: uint64
  fm_Parameters :: KVPList

definition FetchMessage_Append :: "quicvarint \<Rightarrow> FetchMessage \<Rightarrow> bytes \<Rightarrow> bytes result" where
  "FetchMessage_Append qv m buf =
     bindR (qv_Append qv buf (fm_RequestID m)) (\<lambda>buf.
     let buf = buf @ [fm_SubscriberPriority m];
         buf = buf @ [fm_GroupOrder m]
     in bindR (qv_Append qv buf (fm_FetchType m)) (\<lambda>buf.
        bindR (if fm_FetchType m = FetchTypeStandalone
               then bindR (Tuple_append qv (fm_TrackNamespace m) buf) (\<lambda>buf.
                    bindR (appendVarIntBytes qv buf (fm_TrackName m)) (\<lambda>buf.
                    bindR (qv_Append qv buf (fm_StartGroup m)) (\<lambda>buf.
                    bindR (qv_Append qv buf (fm_StartObject m)) (\<lambda>buf.
                    bindR (qv_Append qv buf (fm_EndGroup m)) (\<lambda>buf.
                      qv_Append qv buf (fm_EndObject m))))))
               else bindR (qv_Append qv buf (fm_JoiningSubscribeID m)) (\<lambda>buf.
                      qv_Append qv buf (fm_JoiningStart m))) (\<lambda>buf.
          KVPList_appendNum qv (fm_Parameters m) buf)))"

definition FetchMessage_parse :: "quicvarint \<Rightarrow> Version \<Rightarrow> bytes \<Rightarrow> FetchMessage result" where
  "FetchMessage_parse qv v data =
     bindR (advance (qv_Parse qv) data) (\<lambda>(requestID, data).
     bindR (guardR (length data < 2) errLengthMismatch) (\<lambda>_.
     bindR (index_at data 0) (\<lambda>subscriberPriority.
     bindR (index_at data 1) (\<lambda>groupOrder.
     bindR (guardR (groupOrder > 2) errInvalidGroupOrder) (\<lambda>_.
     bindR (slice_from data 2) (\<lambda>data.
     bindR (advance (qv_Parse qv) data) (\<lambda>(fetchType, data).
     bindR (guardR (fetchType < FetchTypeStandalone \<or> fetchType > FetchTypeAbsoluteJoining)
              errInvalidFetchType) (\<lambda>_.
     let m0 = \<lparr>fm_RequestID = requestID, fm_SubscriberPriority = subscriberPriority,
               fm_GroupOrder = groupOrder, fm_FetchType = fetchType, fm_TrackNamespace = [],
               fm_TrackName = [], fm_StartGroup = 0, fm_StartObject = 0, fm_EndGroup = 0,
               fm_EndObject = 0, fm_JoiningSubscribeID = 0, fm_JoiningStart = 0,
               fm_Parameters = []\<rparr>
     in bindR
          (if fetchType = FetchTypeStandalone
           then bindR (advance (parseTuple qv) data) (\<lambda>(trackNamespace, data).
                bindR (advance (parseVarIntBytes qv) data) (\<lambda>(trackName, data).
                bindR (advance (qv_Parse qv) data) (\<lambda>(startGroup, data).
                bindR (advance (qv_Parse qv) data) (\<lambda>(startObject, data).
                bindR (advance (qv_Parse qv) data) (\<lambda>(endGroup, data).
                bindR (advance (qv_Parse qv) data) (\<lambda>(endObject, data).
                  Inr (m0\<lparr>fm_TrackNamespace := trackNamespace, fm_TrackName := trackName,
                          fm_StartGroup := startGroup, fm_StartObject := startObject,
                          fm_EndGroup := endGroup, fm_EndObject := endObject\<rparr>, data)))))))
           else bindR (advance (qv_Parse qv) data) (\<lambda>(joiningSubscribeID, data).
                bindR (advance (qv_Parse qv) data) (\<lambda>(joiningStart, data).
                  Inr (m0\<lparr>fm_JoiningSubscribeID := joiningSubscribeID,
                          fm_JoiningStart := joiningStart\<rparr>, data))))
          (\<lambda>(m, data).
             bindR (KVPList_parseNum qv [] data) (\<lambda>parameters.
               Inr (m\<lparr>fm_Parameters := parameters\<rparr>)))))))))))"

record FetchOkMessage =
  fom_RequestID :: uint64
  fom_GroupOrder :: byte
  fom_EndOfTrack :: byte
  fom_EndLocation :: Location
  fom_SubscribeParameters :: KVPList

definition FetchOkMessage_Append :: "quicvarint \<Rightarrow> FetchOkMessage \<Rightarrow> bytes \<Rightarrow> bytes result" where
  "FetchOkMessage_Append qv m buf =
     bindR (qv_Append qv buf (fom_RequestID m)) (\<lambda>buf.
     let buf = buf @ [fom_GroupOrder m];
         buf = buf @ [fom_EndOfTrack m]
     in bindR (Location_append qv (fom_EndLocation m) buf) (\<lambda>buf.
          KVPList_appendNum qv (fom_SubscribeParameters m) buf))"

definition FetchOkMessage_parse :: "quicvarint \<Rightarrow> Version \<Rightarrow> bytes \<Rightarrow> FetchOkMessage result" where
  "FetchOkMessage_parse qv v data =
     bindR (advance (qv_Parse qv) data) (\<lambda>(requestID, data).
     bindR (guardR (length data < 2) errLengthMismatch) (\<lambda>_.
     bindR (index_at data 0) (\<lambda>groupOrder.
     bindR (guardR (groupOrder > 2) errInvalidGroupOrder) (\<lambda>_.
     bindR (index_at data 1) (\<lambda>endOfTrack.
     bindR (slice_from data 2) (\<lambda>data.
     bindR (advance (Location_parse qv v) data) (\<lambda>(endLocation, data).
     bindR (KVPList_parseNum qv [] data) (\<lambda>parameters.
       Inr \<lparr>fom_RequestID = requestID, fom_GroupOrder = groupOrder,
            fom_EndOfTrack = endOfTrack, fom_EndLocation = endLocation,
            fom_SubscribeParameters = parameters\<rparr>))))))))"

record FetchErrorMessage =
  fem_RequestID :: uint64
  fem_ErrorCode :: uint64
  fem_ReasonPhrase :: gostring

definition FetchErrorMessage_Append ::
  "quicvarint \<Rightarrow> FetchErrorMessage \<Rightarrow> bytes \<Rightarrow> bytes result" where
  "FetchErrorMessage_Append qv m buf =
     bindR (qv_Append qv buf (fem_RequestID m)) (\<lambda>buf.
     bindR (qv_Append qv buf (fem_ErrorCode m)) (\<lambda>buf.
       appendVarIntBytes qv buf (fem_ReasonPhrase m)))"

definition FetchErrorMessage_parse ::
  "quicvarint \<Rightarrow> Version \<Rightarrow> bytes \<Rightarrow> FetchErrorMessage result" where
  "FetchErrorMessage_parse qv v data =
     bindR (advance (qv_Parse qv) data) (\<lambda>(requestID, data).
     bindR (advance (qv_Parse qv) data) (\<lambda>(errorCode, data).
     bindR (parseVarIntBytes qv data) (\<lambda>(reasonPhrase, n).
       Inr \<lparr>fem_RequestID = requestID, fem_ErrorCode = errorCode,
            fem_ReasonPhrase = reasonPhrase\<rparr>)))"

record FetchCancelMessage =
  fcm_RequestID :: uint64

definition FetchCancelMessage_Append :: "quicvarint \<Rightarrow> FetchCancelMessage \<Rightarrow> bytes \<Rightarrow> bytes result" where
  "FetchCancelMessage_Append qv m buf = qv_Append qv buf (fcm_RequestID m)"

definition FetchCancelMessage_parse :: "quicvarint \<Rightarrow> Version \<Rightarrow> bytes \<Rightarrow> FetchCancelMessage result" where
  "FetchCancelMessage_parse qv v data =
     bindR (qv_Parse qv data) (\<lambda>(requestID, n). Inr \<lparr>fcm_RequestID = requestID\<rparr>)"

section \<open>Track status\<close>

record TrackStatusRequestMessage =
  tsrm_RequestID :: uint64
  tsrm_TrackNamespace :: Tuple
  tsrm_TrackName :: bytes
  tsrm_Parameters :: KVPList

definition TrackStatusRequestMessage_Append ::
  "quicvarint \<Rightarrow> TrackStatusRequestMessage \<Rightarrow> bytes \<Rightarrow> bytes result" where
  "TrackStatusRequestMessage_Append qv m buf =
     bindR (qv_Append qv buf (tsrm_RequestID m)) (\<lambda>buf.
     bindR (Tuple_append qv (tsrm_TrackNamespace m) buf) (\<lambda>buf.
     bindR (appendVarIntBytes qv buf (tsrm_TrackName m)) (\<lambda>buf.
       KVPList_appendNum qv (tsrm_Parameters m) buf)))"

definition TrackStatusRequestMessage_parse ::
  "quicvarint \<Rightarrow> Version \<Rightarrow> bytes \<Rightarrow> TrackStatusRequestMessage result" where
  "TrackStatusRequestMessage_parse qv v data =
     bindR (advance (qv_Parse qv) data) (\<lambda>(requestID, data).
     bindR (advance (parseTuple qv) data) (\<lambda>(trackNamespace, data).
     bindR (advance (parseVarIntBytes qv) data) (\<lambda>(trackName, data).
     bindR (KVPList_parseNum qv [] data) (\<lambda>parameters.
       Inr \<lparr>tsrm_RequestID = requestID, tsrm_TrackNamespace = trackNamespace,
            tsrm_TrackName = trackName, tsrm_Parameters = parameters\<rparr>))))"

record TrackStatusMessage =
  tsm_RequestID :: uint64
  tsm_StatusCode :: uint64
  tsm_LargestLocation :: Location
  tsm_Parameters :: KVPList

definition TrackStatusMessage_Append :: "quicvarint \<Rightarrow> TrackStatusMessage \<Rightarrow> bytes \<Rightarrow> bytes result" where
  "TrackStatusMessage_Append qv m buf =
     bindR (qv_Append qv buf (tsm_RequestID m)) (\<lambda>buf.
     bindR (qv_Append qv buf (tsm_StatusCode m)) (\<lambda>buf.
     bindR (Location_append qv (tsm_LargestLocation m) buf) (\<lambda>buf.
       KVPList_appendNum qv (tsm_Parameters m) buf)))"

definition TrackStatusMessage_parse :: "quicvarint \<Rightarrow> Version \<Rightarrow> bytes \<Rightarrow> TrackStatusMessage result" where
  "TrackStatusMessage_parse qv v data =
     bindR (advance (qv_Parse qv) data) (\<lambda>(requestID, data).
     bindR (advance (qv_Parse qv) data) (\<lambda>(statusCode, data).
     bindR (advance (Location_parse qv v) data) (\<lambda>(largestLocation, data).
     bindR (KVPList_parseNum qv [] data) (\<lambda>parameters.
       Inr \<lparr>tsm_RequestID = requestID, tsm_StatusCode = statusCode,
            tsm_LargestLocation = largestLocation, tsm_Parameters = parameters\<rparr>))))"

section \<open>Announcements\<close>

record AnnounceMessage =
  am_RequestID :: uint64
  am_TrackNamespace :: Tuple
  am_Parameters :: KVPList

definition AnnounceMessage_Append :: "quicvarint \<Rightarrow> AnnounceMessage \<Rightarrow> bytes \<Rightarrow> bytes result" where
  "AnnounceMessage_Append qv m buf =
     bindR (qv_Append qv buf (am_RequestID m)) (\<lambda>buf.
     bindR (Tuple_append qv (am_TrackNamespace m) buf) (\<lambda>buf.
       KVPList_appendNum qv (am_Parameters m) buf))"

definition AnnounceMessage_parse :: "quicvarint \<Rightarrow> Version \<Rightarrow> bytes \<Rightarrow> AnnounceMessage result" where
  "AnnounceMessage_parse qv v data =
     bindR (advance (qv_Parse qv) data) (\<lambda>(requestID, data).
     bindR (advance (parseTuple qv) data) (\<lambda>(t, data).
     bindR (KVPList_parseNum qv [] data) (\<lambda>parameters.
       Inr \<lparr>am_RequestID = requestID, am_TrackNamespace = t, am_Parameters = parameters\<rparr>)))"

record AnnounceOkMessage =
  aom_RequestID :: uint64

definition AnnounceOkMessage_Append :: "quicvarint \<Rightarrow> AnnounceOkMessage \<Rightarrow> bytes \<Rightarrow> bytes result" where
  "AnnounceOkMessage_Append qv m buf = qv_Append qv buf (aom_RequestID m)"

definition AnnounceOkMessage_parse :: "quicvarint \<Rightarrow> Version \<Rightarrow> bytes \<Rightarrow> AnnounceOkMessage result" where
  "AnnounceOkMessage_parse qv v data =
     bindR (qv_Parse qv data) (\<lambda>(requestID, n). Inr \<lparr>aom_RequestID = requestID\<rparr>)"

record AnnounceErrorMessage =
  aem_RequestID :: uint64
  aem_ErrorCode :: uint64
  aem_ReasonPhrase :: gostring

definition AnnounceErrorMessage_Append ::
  "quicvarint \<Rightarrow> AnnounceErrorMessage \<Rightarrow> bytes \<Rightarrow> bytes result" where
  "AnnounceErrorMessage_Append qv m buf =
     bindR (qv_Append qv buf (aem_RequestID m)) (\<lambda>buf.
     bindR (qv_Append qv buf (aem_ErrorCode m)) (\<lambda>buf.
       appendVarIntBytes qv buf (aem_ReasonPhrase m)))"

definition AnnounceErrorMessage_parse ::
  "quicvarint \<Rightarrow> Version \<Rightarrow> bytes \<Rightarrow> AnnounceErrorMessage result" where
  "AnnounceErrorMessage_parse qv v data =
     bindR (advance (qv_Parse qv) data) (\<lambda>(requestID, data).
     bindR (advance (qv_Parse qv) data) (\<lambda>(errorCode, data).
     bindR (parseVarIntBytes qv data) (\<lambda>(reasonPhrase, n).
       Inr \<lparr>aem_RequestID = requestID, aem_ErrorCode = errorCode,
            aem_ReasonPhrase = reasonPhrase\<rparr>)))"

record UnannounceMessage =
  uam_TrackNamespace :: Tuple

definition UnannounceMessage_Append :: "quicvarint \<Rightarrow> UnannounceMessage \<Rightarrow> bytes \<Rightarrow> bytes result" where
  "UnannounceMessage_Append qv m buf = Tuple_append qv (uam_TrackNamespace m) buf"

definition UnannounceMessage_parse :: "quicvarint \<Rightarrow> Version \<Rightarrow> bytes \<Rightarrow> UnannounceMessage result" where
  "UnannounceMessage_parse qv v data =
     bindR (parseTuple qv data) (\<lambda>(t, n). Inr \<lparr>uam_TrackNamespace = t\<rparr>)"

record AnnounceCancelMessage =
  acm_TrackNamespace :: Tuple
  acm_ErrorCode :: uint64
  acm_ReasonPhrase :: gostring

definition AnnounceCancelMessage_Append ::
  "quicvarint \<Rightarrow> AnnounceCancelMessage \<Rightarrow> bytes \<Rightarrow> bytes result" where
  "AnnounceCancelMessage_Append qv m buf =
     bindR (Tuple_append qv (acm_TrackNamespace m) buf) (\<lambda>buf.
     bindR (qv_Append qv buf (acm_ErrorCode m)) (\<lambda>buf.
       appendVarIntBytes qv buf (acm_ReasonPhrase m)))"

definition AnnounceCancelMessage_parse ::
  "quicvarint \<Rightarrow> Version \<Rightarrow> bytes \<Rightarrow> AnnounceCancelMessage result" where
  "AnnounceCancelMessage_parse qv v data =
     bindR (advance (parseTuple qv) data) (\<lambda>(trackNamespace, data).
     bindR (advance (qv_Parse qv) data) (\<lambda>(errorCode, data).
     bindR (parseVarIntBytes qv data) (\<lambda>(reasonPhrase, n).
       Inr \<lparr>acm_TrackNamespace = trackNamespace, acm_ErrorCode = errorCode,
            acm_ReasonPhrase = reasonPhrase\<rparr>)))"

section \<open>Announcement subscriptions\<close>

record SubscribeAnnouncesMessage =
  sam_RequestID :: uint64
  sam_TrackNamespacePrefix :: Tuple
  sam_Parameters :: KVPList

definition SubscribeAnnouncesMessage_Append :: "quicvarint \<Rightarrow> SubscribeAnnouncesMessage \<Rightarrow> bytes \<Rightarrow> bytes result" where
  "SubscribeAnnouncesMessage_Append qv m buf =
     bindR (qv_Append qv buf (sam_RequestID m)) (\<lambda>buf.
     bindR (Tuple_append qv (sam_TrackNamespacePrefix m) buf) (\<lambda>buf.
       KVPList_appendNum qv (sam_Parameters m) buf))"

definition SubscribeAnnouncesMessage_parse :: "quicvarint \<Rightarrow> Version \<Rightarrow> bytes \<Rightarrow> SubscribeAnnouncesMessage result" where
  "SubscribeAnnouncesMessage_parse qv v data =
     bindR (advance (qv_Parse qv) data) (\<lambda>(requestID, data).
     bindR (advance (parseTuple qv) data) (\<lambda>(t, data).
     bindR (KVPList_parseNum qv [] data) (\<lambda>parameters.
       Inr \<lparr>sam_RequestID = requestID, sam_TrackNamespacePrefix = t, sam_Parameters = parameters\<rparr>)))"

record SubscribeAnnouncesOkMessage =
  saom_RequestID :: uint64

definition SubscribeAnnouncesOkMessage_Append :: "quicvarint \<Rightarrow> SubscribeAnnouncesOkMessage \<Rightarrow> bytes \<Rightarrow> bytes result" where
  "SubscribeAnnouncesOkMessage_Append qv m buf = qv_Append qv buf (saom_RequestID m)"

definition SubscribeAnnouncesOkMessage_parse :: "quicvarint \<Rightarrow> Version \<Rightarrow> bytes \<Rightarrow> SubscribeAnnouncesOkMessage result" where
  "SubscribeAnnouncesOkMessage_parse qv v data =
     bindR (qv_Parse qv data) (\<lambda>(requestID, n). Inr \<lparr>saom_RequestID = requestID\<rparr>)"

record SubscribeAnnouncesErrorMessage =
  saem_RequestID :: uint64
  saem_ErrorCode :: uint64
  saem_ReasonPhrase :: gostring

definition SubscribeAnnouncesErrorMessage_Append ::
  "quicvarint \<Rightarrow> SubscribeAnnouncesErrorMessage \<Rightarrow> bytes \<Rightarrow> bytes result" where
  "SubscribeAnnouncesErrorMessage_Append qv m buf =
     bindR (qv_Append qv buf (saem_RequestID m)) (\<lambda>buf.
     bindR (qv_Append qv buf (saem_ErrorCode m)) (\<lambda>buf.
       appendVarIntBytes qv buf (saem_ReasonPhrase m)))"

definition SubscribeAnnouncesErrorMessage_parse ::
  "quicvarint \<Rightarrow> Version \<Rightarrow> bytes \<Rightarrow> SubscribeAnnouncesErrorMessage result" where
  "SubscribeAnnouncesErrorMessage_parse qv v data =
     bindR (advance (qv_Parse qv) data) (\<lambda>(requestID, data).
     bindR (advance (qv_Parse qv) data) (\<lambda>(errorCode, data).
     bindR (parseVarIntBytes qv data) (\<lambda>(reasonPhrase, n).
       Inr \<lparr>saem_RequestID = requestID, saem_ErrorCode = errorCode,
            saem_ReasonPhrase = reasonPhrase\<rparr>)))"

record UnsubscribeAnnouncesMessage =
  usam_TrackNamespacePrefix :: Tuple

definition UnsubscribeAnnouncesMessage_Append :: "quicvarint \<Rightarrow> UnsubscribeAnnouncesMessage \<Rightarrow> bytes \<Rightarrow> bytes result" where
  "UnsubscribeAnnouncesMessage_Append qv m buf = Tuple_append qv (usam_TrackNamespacePrefix m) buf"

definition UnsubscribeAnnouncesMessage_parse :: "quicvarint \<Rightarrow> Version \<Rightarrow> bytes \<Rightarrow> UnsubscribeAnnouncesMessage result" where
  "UnsubscribeAnnouncesMessage_parse qv v data =
     bindR (parseTuple qv data) (\<lambda>(t, n). Inr \<lparr>usam_TrackNamespacePrefix = t\<rparr>)"

section \<open>The PUBLISH family\<close>

record PublishMessage =
  pm_RequestID :: uint64
  pm_TrackNamespace :: Tuple
  pm_TrackName :: bytes
  pm_TrackAlias :: uint64
  pm_GroupOrder :: byte
  pm_ContentExists :: byte
  pm_LargestLocation :: Location
  pm_Forward :: byte
  pm_Parameters :: KVPList

definition PublishMessage_Append :: "quicvarint \<Rightarrow> PublishMessage \<Rightarrow> bytes \<Rightarrow> bytes result" where
  "PublishMessage_Append qv m buf =
     bindR (qv_Append qv buf (pm_RequestID m)) (\<lambda>buf.
     bindR (Tuple_append qv (pm_TrackNamespace m) buf) (\<lambda>buf.
     bindR (appendVarIntBytes qv buf (pm_TrackName m)) (\<lambda>buf.
     bindR (qv_Append qv buf (pm_TrackAlias m)) (\<lambda>buf.
     let buf = buf @ [pm_GroupOrder m];
         buf = buf @ [pm_ContentExists m]
     in bindR (if pm_ContentExists m > 0 then Location_append qv (pm_LargestLocation m) buf
               else Inr buf) (\<lambda>buf.
          KVPList_appendNum qv (pm_Parameters m) (buf @ [pm_Forward m]))))))"

text \<open>After the length check of one byte the code reads \<^verbatim>\<open>data[1]\<close> and does not advance.\<close>

definition PublishMessage_parse :: "quicvarint \<Rightarrow> Version \<Rightarrow> bytes \<Rightarrow> PublishMessage result" where
  "PublishMessage_parse qv v data =
     bindR (advance (qv_Parse qv) data) (\<lambda>(requestID, data).
     bindR (advance (parseTuple qv) data) (\<lambda>(trackNamespace, data).
     bindR (advance (parseVarIntBytes qv) data) (\<lambda>(trackName, data).
     bindR (advance (qv_Parse qv) data) (\<lambda>(trackAlias, data).
     bindR (guardR (length data < 2) errLengthMismatch) (\<lambda>_.
     bindR (index_at data 0) (\<lambda>groupOrder.
     bindR (guardR (groupOrder > 2) errInvalidGroupOrder) (\<lambda>_.
     bindR (index_at data 1) (\<lambda>contentExists.
     bindR (guardR (contentExists > 1) errInvalidContentExistsByte) (\<lambda>_.
     bindR (slice_from data 2) (\<lambda>data.
     bindR (if contentExists = 1 then advance (Location_parse qv v) data
            else Inr (zeroLocation, data)) (\<lambda>(largestLocation, data).
     bindR (guardR (length data < 1) errLengthMismatch) (\<lambda>_.
     bindR (index_at data 1) (\<lambda>forward.
     bindR (guardR (forward > 1) errInvalidForwardFlag) (\<lambda>_.
     bindR (KVPList_parseNum qv [] data) (\<lambda>parameters.
       Inr \<lparr>pm_RequestID = requestID, pm_TrackNamespace = trackNamespace,
            pm_TrackName = trackName, pm_TrackAlias = trackAlias, pm_GroupOrder = groupOrder,
            pm_ContentExists = contentExists, pm_LargestLocation = largestLocation,
            pm_Forward = forward, pm_Parameters = parameters\<rparr>)))))))))))))))"

record PublishOkMessage =
  pom_RequestID :: uint64
  pom_Forward :: byte
  pom_SubscriberPriority :: byte
  pom_GroupOrder :: byte
  pom_FilterType :: FilterType
  pom_Start :: Location
  pom_EndGroup :: uint64
  pom_Parameters :: KVPList

definition PublishOkMessage_Append :: "quicvarint \<Rightarrow> PublishOkMessage \<Rightarrow> bytes \<Rightarrow> bytes result" where
  "PublishOkMessage_Append qv m buf =
     bindR (qv_Append qv buf (pom_RequestID m)) (\<lambda>buf.
     let buf = buf @ [pom_Forward m];
         buf = buf @ [pom_SubscriberPriority m];
         buf = buf @ [pom_GroupOrder m]
     in bindR (FilterType_append qv (pom_FilterType m) buf) (\<lambda>buf.
        bindR (if pom_FilterType m = FilterTypeAbsoluteStart \<or>
                  pom_FilterType m = FilterTypeAbsoluteRange
               then Location_append qv (pom_Start m) buf else Inr buf) (\<lambda>buf.
        bindR (if pom_FilterType m = FilterTypeAbsoluteRange
               then qv_Append qv buf (pom_EndGroup m) else Inr buf) (\<lambda>buf.
          KVPList_append qv (pom_Parameters m) buf))))"

definition PublishOkMessage_parse :: "quicvarint \<Rightarrow> Version \<Rightarrow> bytes \<Rightarrow> PublishOkMessage result" where
  "PublishOkMessage_parse qv v data =
     bindR (advance (qv_Parse qv) data) (\<lambda>(requestID, data).
     bindR (guardR (length data < 3) errLengthMismatch) (\<lambda>_.
     bindR (index_at data 0) (\<lambda>forward.
     bindR (guardR (forward > 1) errInvalidForwardFlag) (\<lambda>_.
     bindR (index_at data 1) (\<lambda>subscriberPriority.
     bindR (index_at data 2) (\<lambda>groupOrder.
     bindR (guardR (groupOrder > 2) errInvalidGroupOrder) (\<lambda>_.
     bindR (slice_from data 3) (\<lambda>data.
     bindR (qv_Parse qv data) (\<lambda>(filterType, n).
     bindR (guardR (filterType = 0 \<or> filterType > 4) errInvalidFilterType) (\<lambda>_.
     bindR (slice_from data n) (\<lambda>data.
     bindR (if filterType = FilterTypeAbsoluteStart \<or> filterType = FilterTypeAbsoluteRange
            then advance (Location_parse qv v) data else Inr (zeroLocation, data))
       (\<lambda>(start, data).
     bindR (if filterType = FilterTypeAbsoluteRange
            then advance (qv_Parse qv) data else Inr (0, data)) (\<lambda>(endGroup, data).
     bindR (KVPList_parseNum qv [] data) (\<lambda>parameters.
       Inr \<lparr>pom_RequestID = requestID, pom_Forward = forward,
            pom_SubscriberPriority = subscriberPriority, pom_GroupOrder = groupOrder,
            pom_FilterType = filterType, pom_Start = start, pom_EndGroup = endGroup,
            pom_Parameters = parameters\<rparr>))))))))))))))"

record PublishErrorMessage =
  pem_RequestID :: uint64
  pem_ErrorCode :: uint64
  pem_ReasonPhrase :: gostring

definition PublishErrorMessage_Append ::
  "quicvarint \<Rightarrow> PublishErrorMessage \<Rightarrow> bytes \<Rightarrow> bytes result" where
  "PublishErrorMessage_Append qv m buf =
     bindR (qv_Append qv buf (pem_RequestID m)) (\<lambda>buf.
     bindR (qv_Append qv buf (pem_ErrorCode m)) (\<lambda>buf.
       appendVarIntBytes qv buf (pem_ReasonPhrase m)))"

definition PublishErrorMessage_parse ::
  "quicvarint \<Rightarrow> Version \<Rightarrow> bytes \<Rightarrow> PublishErrorMessage result" where
  "PublishErrorMessage_parse qv v data =
     bindR (advance (qv_Parse qv) data) (\<lambda>(requestID, data).
     bindR (advance (qv_Parse qv) data) (\<lambda>(errorCode, data).
     bindR (parseVarIntBytes qv data) (\<lambda>(reasonPhrase, n).
       Inr \<lparr>pem_RequestID = requestID, pem_ErrorCode = errorCode,
            pem_ReasonPhrase = reasonPhrase\<rparr>)))"

section \<open>Grammar\<close>

definition enc_Fetch :: "quicvarint \<Rightarrow> FetchMessage \<Rightarrow> bytes" where
  "enc_Fetch qv m =
     qv_enc qv (fm_RequestID m) @ fm_SubscriberPriority m # fm_GroupOrder m #
     qv_enc qv (fm_FetchType m) @
     (if fm_FetchType m = 1
      then enc_tuple qv (fm_TrackNamespace m) @ enc_vbytes qv (fm_TrackName m) @
           qv_enc qv (fm_StartGroup m) @ qv_enc qv (fm_StartObject m) @
           qv_enc qv (fm_EndGroup m) @ qv_enc qv (fm_EndObject m)
      else qv_enc qv (fm_JoiningSubscribeID m) @ qv_enc qv (fm_JoiningStart m)) @
     enc_kvps qv (fm_Parameters m)"

definition wf_Fetch :: "FetchMessage \<Rightarrow> bool" where
  "wf_Fetch m \<longleftrightarrow>
     fits (fm_RequestID m) \<and> fm_GroupOrder m \<le> 2 \<and> fm_FetchType m \<in> {1, 2, 3} \<and>
     (if fm_FetchType m = 1
      then wf_tuple (fm_TrackNamespace m) \<and> length (fm_TrackName m) \<le> maxVarInt \<and>
           fits (fm_StartGroup m) \<and> fits (fm_StartObject m) \<and> fits (fm_EndGroup m) \<and>
           fits (fm_EndObject m) \<and> fm_JoiningSubscribeID m = 0 \<and> fm_JoiningStart m = 0
      else fits (fm_JoiningSubscribeID m) \<and> fits (fm_JoiningStart m) \<and>
           fm_TrackNamespace m = [] \<and> fm_TrackName m = [] \<and> fm_StartGroup m = 0 \<and>
           fm_StartObject m = 0 \<and> fm_EndGroup m = 0 \<and> fm_EndObject m = 0) \<and>
     wf_kvps (fm_Parameters m)"

definition enc_FetchOk :: "quicvarint \<Rightarrow> FetchOkMessage \<Rightarrow> bytes" where
  "enc_FetchOk qv m =
     qv_enc qv (fom_RequestID m) @ fom_GroupOrder m # fom_EndOfTrack m #
     enc_location qv (fom_EndLocation m) @ enc_kvps qv (fom_SubscribeParameters m)"

definition wf_FetchOk :: "FetchOkMessage \<Rightarrow> bool" where
  "wf_FetchOk m \<longleftrightarrow>
     fits (fom_RequestID m) \<and> fom_GroupOrder m \<le> 2 \<and> wf_location (fom_EndLocation m) \<and>
     wf_kvps (fom_SubscribeParameters m)"

definition enc_FetchError :: "quicvarint \<Rightarrow> FetchErrorMessage \<Rightarrow> bytes" where
  "enc_FetchError qv m =
     qv_enc qv (fem_RequestID m) @ qv_enc qv (fem_ErrorCode m) @ enc_vbytes qv (fem_ReasonPhrase m)"

definition wf_FetchError :: "FetchErrorMessage \<Rightarrow> bool" where
  "wf_FetchError m \<longleftrightarrow>
     fits (fem_RequestID m) \<and> fits (fem_ErrorCode m) \<and> length (fem_ReasonPhrase m) \<le> maxVarInt"

definition enc_AnnounceError :: "quicvarint \<Rightarrow> AnnounceErrorMessage \<Rightarrow> bytes" where
  "enc_AnnounceError qv m =
     qv_enc qv (aem_RequestID m) @ qv_enc qv (aem_ErrorCode m) @ enc_vbytes qv (aem_ReasonPhrase m)"

definition wf_AnnounceError :: "AnnounceErrorMessage \<Rightarrow> bool" where
  "wf_AnnounceError m \<longleftrightarrow>
     fits (aem_RequestID m) \<and> fits (aem_ErrorCode m) \<and> length (aem_ReasonPhrase m) \<le> maxVarInt"

definition enc_SubscribeAnnouncesError :: "quicvarint \<Rightarrow> SubscribeAnnouncesErrorMessage \<Rightarrow> bytes" where
  "enc_SubscribeAnnouncesError qv m =
     qv_enc qv (saem_RequestID m) @ qv_enc qv (saem_ErrorCode m) @ enc_vbytes qv (saem_ReasonPhrase m)"

definition wf_SubscribeAnnouncesError :: "SubscribeAnnouncesErrorMessage \<Rightarrow> bool" where
  "wf_SubscribeAnnouncesError m \<longleftrightarrow>
     fits (saem_RequestID m) \<and> fits (saem_ErrorCode m) \<and> length (saem_ReasonPhrase m) \<le> maxVarInt"

definition enc_PublishError :: "quicvarint \<Rightarrow> PublishErrorMessage \<Rightarrow> bytes" where
  "enc_PublishError qv m =
     qv_enc qv (pem_RequestID m) @ qv_enc qv (pem_ErrorCode m) @ enc_vbytes qv (pem_ReasonPhrase m)"

definition wf_PublishError :: "PublishErrorMessage \<Rightarrow> bool" where
  "wf_PublishError m \<longleftrightarrow>
     fits (pem_RequestID m) \<and> fits (pem_ErrorCode m) \<and> length (pem_ReasonPhrase m) \<le> maxVarInt"

definition enc_TrackStatusRequest :: "quicvarint \<Rightarrow> TrackStatusRequestMessage \<Rightarrow> bytes" where
  "enc_TrackStatusRequest qv m =
     qv_enc qv (tsrm_RequestID m) @ enc_tuple qv (tsrm_TrackNamespace m) @
     enc_vbytes qv (tsrm_TrackName m) @ enc_kvps qv (tsrm_Parameters m)"

definition wf_TrackStatusRequest :: "TrackStatusRequestMessage \<Rightarrow> bool" where
  "wf_TrackStatusRequest m \<longleftrightarrow>
     fits (tsrm_RequestID m) \<and> wf_tuple (tsrm_TrackNamespace m) \<and>
     length (tsrm_TrackName m) \<le> maxVarInt \<and> wf_kvps (tsrm_Parameters m)"

definition enc_TrackStatus :: "quicvarint \<Rightarrow> TrackStatusMessage \<Rightarrow> bytes" where
  "enc_TrackStatus qv m =
     qv_enc qv (tsm_RequestID m) @ qv_enc qv (tsm_StatusCode m) @
     enc_location qv (tsm_LargestLocation m) @ enc_kvps qv (tsm_Parameters m)"

definition wf_TrackStatus :: "TrackStatusMessage \<Rightarrow> bool" where
  "wf_TrackStatus m \<longleftrightarrow>
     fits (tsm_RequestID m) \<and> fits (tsm_StatusCode m) \<and> wf_location (tsm_LargestLocation m) \<and>
     wf_kvps (tsm_Parameters m)"

definition enc_AnnounceCancel :: "quicvarint \<Rightarrow> AnnounceCancelMessage \<Rightarrow> bytes" where
  "enc_AnnounceCancel qv m =
     enc_tuple qv (acm_TrackNamespace m) @ qv_enc qv (acm_ErrorCode m) @
     enc_vbytes qv (acm_ReasonPhrase m)"

definition wf_AnnounceCancel :: "AnnounceCancelMessage \<Rightarrow> bool" where
  "wf_AnnounceCancel m \<longleftrightarrow>
     wf_tuple (acm_TrackNamespace m) \<and> fits (acm_ErrorCode m) \<and>
     length (acm_ReasonPhrase m) \<le> maxVarInt"

definition enc_Announce :: "quicvarint \<Rightarrow> AnnounceMessage \<Rightarrow> bytes" where
  "enc_Announce qv m =
     qv_enc qv (am_RequestID m) @ enc_tuple qv (am_TrackNamespace m) @ enc_kvps qv (am_Parameters m)"

definition wf_Announce :: "AnnounceMessage \<Rightarrow> bool" where
  "wf_Announce m \<longleftrightarrow>
     fits (am_RequestID m) \<and> wf_tuple (am_TrackNamespace m) \<and> wf_kvps (am_Parameters m)"

definition enc_SubscribeAnnounces :: "quicvarint \<Rightarrow> SubscribeAnnouncesMessage \<Rightarrow> bytes" where
  "enc_SubscribeAnnounces qv m =
     qv_enc qv (sam_RequestID m) @ enc_tuple qv (sam_TrackNamespacePrefix m) @ enc_kvps qv (sam_Parameters m)"

definition wf_SubscribeAnnounces :: "SubscribeAnnouncesMessage \<Rightarrow> bool" where
  "wf_SubscribeAnnounces m \<longleftrightarrow>
     fits (sam_RequestID m) \<and> wf_tuple (sam_TrackNamespacePrefix m) \<and> wf_kvps (sam_Parameters m)"

section \<open>The messages satisfy the contract\<close>

context varint_codec
begin

lemma Fetch_app:
  "wf_Fetch m \<Longrightarrow> FetchMessage_Append qv m buf = Inr (buf @ enc_Fetch qv m)"
  by (auto simp: FetchMessage_Append_def enc_Fetch_def wf_Fetch_def FetchTypeStandalone_def)

lemma Fetch_prs:
  "wf_Fetch m \<Longrightarrow> FetchMessage_parse qv v (enc_Fetch qv m) = Inr m"
  by (auto simp: FetchMessage_parse_def enc_Fetch_def wf_Fetch_def FetchTypeStandalone_def
      FetchTypeAbsoluteJoining_def guardR_def)

lemma FetchOk_app:
  "wf_FetchOk m \<Longrightarrow> FetchOkMessage_Append qv m buf = Inr (buf @ enc_FetchOk qv m)"
  by (auto simp: FetchOkMessage_Append_def enc_FetchOk_def wf_FetchOk_def)

lemma FetchOk_prs:
  "wf_FetchOk m \<Longrightarrow> FetchOkMessage_parse qv v (enc_FetchOk qv m) = Inr m"
  by (auto simp: FetchOkMessage_parse_def enc_FetchOk_def wf_FetchOk_def guardR_def)

end

sublocale varint_codec \<subseteq> fetch: wire_message
  "FetchMessage_Append qv" "FetchMessage_parse qv v" "enc_Fetch qv" wf_Fetch
  for v
  by unfold_locales (simp_all add: Fetch_app Fetch_prs)

sublocale varint_codec \<subseteq> fetch_ok: wire_message
  "FetchOkMessage_Append qv" "FetchOkMessage_parse qv v" "enc_FetchOk qv" wf_FetchOk
  for v
  by unfold_locales (simp_all add: FetchOk_app FetchOk_prs)

sublocale varint_codec \<subseteq> fetch_error: wire_message
  "FetchErrorMessage_Append qv" "FetchErrorMessage_parse qv v"
  "enc_FetchError qv" wf_FetchError
  for v
  by unfold_locales (simp_all add: FetchErrorMessage_Append_def FetchErrorMessage_parse_def
      enc_FetchError_def wf_FetchError_def)

sublocale varint_codec \<subseteq> fetch_cancel: wire_message
  "FetchCancelMessage_Append qv" "FetchCancelMessage_parse qv v"
  "\<lambda>m. qv_enc qv (fcm_RequestID m)" "\<lambda>m. fits (fcm_RequestID m)"
  for v
  by unfold_locales (simp_all add: FetchCancelMessage_Append_def FetchCancelMessage_parse_def)

sublocale varint_codec \<subseteq> track_status_request: wire_message
  "TrackStatusRequestMessage_Append qv" "TrackStatusRequestMessage_parse qv v"
  "enc_TrackStatusRequest qv" wf_TrackStatusRequest
  for v
  by unfold_locales (simp_all add: TrackStatusRequestMessage_Append_def TrackStatusRequestMessage_parse_def
      enc_TrackStatusRequest_def wf_TrackStatusRequest_def)

sublocale varint_codec \<subseteq> track_status: wire_message
  "TrackStatusMessage_Append qv" "TrackStatusMessage_parse qv v"
  "enc_TrackStatus qv" wf_TrackStatus
  for v
  by unfold_locales (simp_all add: TrackStatusMessage_Append_def TrackStatusMessage_parse_def
      enc_TrackStatus_def wf_TrackStatus_def)

sublocale varint_codec \<subseteq> announce: wire_message
  "AnnounceMessage_Append qv" "AnnounceMessage_parse qv v"
  "enc_Announce qv" wf_Announce
  for v
  by unfold_locales (simp_all add: AnnounceMessage_Append_def AnnounceMessage_parse_def
      enc_Announce_def wf_Announce_def)

sublocale varint_codec \<subseteq> announce_ok: wire_message
  "AnnounceOkMessage_Append qv" "AnnounceOkMessage_parse qv v"
  "\<lambda>m. qv_enc qv (aom_RequestID m)" "\<lambda>m. fits (aom_RequestID m)"
  for v
  by unfold_locales (simp_all add: AnnounceOkMessage_Append_def AnnounceOkMessage_parse_def)

sublocale varint_codec \<subseteq> announce_error: wire_message
  "AnnounceErrorMessage_Append qv" "AnnounceErrorMessage_parse qv v"
  "enc_AnnounceError qv" wf_AnnounceError
  for v
  by unfold_locales (simp_all add: AnnounceErrorMessage_Append_def AnnounceErrorMessage_parse_def
      enc_AnnounceError_def wf_AnnounceError_def)

sublocale varint_codec \<subseteq> unannounce: wire_message
  "UnannounceMessage_Append qv" "UnannounceMessage_parse qv v"
  "\<lambda>m. enc_tuple qv (uam_TrackNamespace m)" "\<lambda>m. wf_tuple (uam_TrackNamespace m)"
  for v
  by unfold_locales (simp_all add: UnannounceMessage_Append_def UnannounceMessage_parse_def)

sublocale varint_codec \<subseteq> announce_cancel: wire_message
  "AnnounceCancelMessage_Append qv" "AnnounceCancelMessage_parse qv v"
  "enc_AnnounceCancel qv" wf_AnnounceCancel
  for v
  by unfold_locales (simp_all add: AnnounceCancelMessage_Append_def AnnounceCancelMessage_parse_def
      enc_AnnounceCancel_def wf_AnnounceCancel_def)

sublocale varint_codec \<subseteq> subscribe_announces: wire_message
  "SubscribeAnnouncesMessage_Append qv" "SubscribeAnnouncesMessage_parse qv v"
  "enc_SubscribeAnnounces qv" wf_SubscribeAnnounces
  for v
  by unfold_locales (simp_all add: SubscribeAnnouncesMessage_Append_def SubscribeAnnouncesMessage_parse_def
      enc_SubscribeAnnounces_def wf_SubscribeAnnounces_def)

sublocale varint_codec \<subseteq> subscribe_announces_ok: wire_message
  "SubscribeAnnouncesOkMessage_Append qv" "SubscribeAnnouncesOkMessage_parse qv v"
  "\<lambda>m. qv_enc qv (saom_RequestID m)" "\<lambda>m. fits (saom_RequestID m)"
  for v
  by unfold_locales (simp_all add: SubscribeAnnouncesOkMessage_Append_def SubscribeAnnouncesOkMessage_parse_def)

sublocale varint_codec \<subseteq> subscribe_announces_error: wire_message
  "SubscribeAnnouncesErrorMessage_Append qv" "SubscribeAnnouncesErrorMessage_parse qv v"
  "enc_SubscribeAnnouncesError qv" wf_SubscribeAnnouncesError
  for v
  by unfold_locales (simp_all add: SubscribeAnnouncesErrorMessage_Append_def SubscribeAnnouncesErrorMessage_parse_def
      enc_SubscribeAnnouncesError_def wf_SubscribeAnnouncesError_def)

sublocale varint_codec \<subseteq> unsubscribe_announces: wire_message
  "UnsubscribeAnnouncesMessage_Append qv" "UnsubscribeAnnouncesMessage_parse qv v"
  "\<lambda>m. enc_tuple qv (usam_TrackNamespacePrefix m)" "\<lambda>m. wf_tuple (usam_TrackNamespacePrefix m)"
  for v
  by unfold_locales (simp_all add: UnsubscribeAnnouncesMessage_Append_def UnsubscribeAnnouncesMessage_parse_def)

sublocale varint_codec \<subseteq> publish_error: wire_message
  "PublishErrorMessage_Append qv" "PublishErrorMessage_parse qv v"
  "enc_PublishError qv" wf_PublishError
  for v
  by unfold_locales (simp_all add: PublishErrorMessage_Append_def PublishErrorMessage_parse_def
      enc_PublishError_def wf_PublishError_def)

end
