(* ===== verification/Control_Stream.thy ===== *)
theory Control_Stream
  imports Wire_Requests
begin

text \<open>
  The control stream: the numbers of the message types and their names
  (\<^verbatim>\<open>internal/wire/control_message_type.go\<close>), the methods \<^verbatim>\<open>Type\<close> and \<^verbatim>\<open>Append\<close> of the
  interface \<^verbatim>\<open>ControlMessage\<close> (a datatype with one constructor for each message struct),
  \<^verbatim>\<open>ControlMessageParser.Parse\<close> (\<^verbatim>\<open>control_message_parser.go\<close>), \<^verbatim>\<open>compileMessage\<close>
  (\<^verbatim>\<open>session_helpers.go\<close>) and the sequence of messages that \<^verbatim>\<open>controlStream.read\<close>
  (\<^verbatim>\<open>control_stream.go\<close>) yields up to its first error. The lemmas show that a compiled
  message is parsed back with the rest of the stream untouched, for single messages and for
  whole sequences, and that the sequence always ends.
\<close>

section \<open>Message types\<close>

type_synonym controlMessageType = uint64

definition messageTypeClientSetup :: controlMessageType where "messageTypeClientSetup = 0x20"
definition messageTypeServerSetup :: controlMessageType where "messageTypeServerSetup = 0x21"
definition messageTypeGoAway :: controlMessageType where "messageTypeGoAway = 0x10"
definition messageTypeMaxRequestID :: controlMessageType where "messageTypeMaxRequestID = 0x15"
definition messageTypeRequestsBlocked :: controlMessageType where "messageTypeRequestsBlocked = 0x1a"
definition messageTypeSubscribe :: controlMessageType where "messageTypeSubscribe = 0x03"
definition messageTypeSubscribeOk :: controlMessageType where "messageTypeSubscribeOk = 0x04"
definition messageTypeSubscribeError :: controlMessageType where "messageTypeSubscribeError = 0x05"
definition messageTypeSubscribeUpdate :: controlMessageType where "messageTypeSubscribeUpdate = 0x02"
definition messageTypeUnsubscribe :: controlMessageType where "messageTypeUnsubscribe = 0x0a"
definition messageTypeSubscribeDone :: controlMessageType where "messageTypeSubscribeDone = 0x0b"
definition messageTypePublish :: controlMessageType where "messageTypePublish = 0x1d"
definition messageTypePublishOk :: controlMessageType where "messageTypePublishOk = 0x1e"
definition messageTypePublishError :: controlMessageType where "messageTypePublishError = 0x1f"
definition messageTypeFetch :: controlMessageType where "messageTypeFetch = 0x16"
definition messageTypeFetchOk :: controlMessageType where "messageTypeFetchOk = 0x18"
definition messageTypeFetchError :: controlMessageType where "messageTypeFetchError = 0x19"
definition messageTypeFetchCancel :: controlMessageType where "messageTypeFetchCancel = 0x17"
definition messageTypeTrackStatus :: controlMessageType where "messageTypeTrackStatus = 0x0d"
definition messageTypeTrackStatusOk :: controlMessageType where "messageTypeTrackStatusOk = 0x0e"
definition messageTypeTrackStatusError :: controlMessageType where "messageTypeTrackStatusError = 0x0f"
definition messageTypeAnnounce :: controlMessageType where "messageTypeAnnounce = 0x06"
definition messageTypeAnnounceOk :: controlMessageType where "messageTypeAnnounceOk = 0x07"
definition messageTypeAnnounceError :: controlMessageType where "messageTypeAnnounceError = 0x08"
definition messageTypeUnannounce :: controlMessageType where "messageTypeUnannounce = 0x09"
definition messageTypeAnnounceCancel :: controlMessageType where "messageTypeAnnounceCancel = 0x0c"
definition messageTypeSubscribeNamespace :: controlMessageType where "messageTypeSubscribeNamespace = 0x11"
definition messageTypeSubscribeNamespaceOk :: controlMessageType where "messageTypeSubscribeNamespaceOk = 0x12"
definition messageTypeSubscribeNamespaceError :: controlMessageType where "messageTypeSubscribeNamespaceError = 0x13"
definition messageTypeUnsubscribeNamespace :: controlMessageType where "messageTypeUnsubscribeNamespace = 0x14"

lemmas messageType_defs =
  messageTypeClientSetup_def messageTypeServerSetup_def
  messageTypeGoAway_def messageTypeMaxRequestID_def
  messageTypeRequestsBlocked_def messageTypeSubscribe_def
  messageTypeSubscribeOk_def messageTypeSubscribeError_def
  messageTypeSubscribeUpdate_def messageTypeUnsubscribe_def
  messageTypeSubscribeDone_def messageTypePublish_def
  messageTypePublishOk_def messageTypePublishError_def
  messageTypeFetch_def messageTypeFetchOk_def
  messageTypeFetchError_def messageTypeFetchCancel_def
  messageTypeTrackStatus_def messageTypeTrackStatusOk_def
  messageTypeTrackStatusError_def messageTypeAnnounce_def
  messageTypeAnnounceOk_def messageTypeAnnounceError_def
  messageTypeUnannounce_def messageTypeAnnounceCancel_def
  messageTypeSubscribeNamespace_def messageTypeSubscribeNamespaceOk_def
  messageTypeSubscribeNamespaceError_def messageTypeUnsubscribeNamespace_def

definition controlMessageType_String :: "controlMessageType \<Rightarrow> string" where
  "controlMessageType_String mt =
     (if mt = messageTypeClientSetup then ''ClientSetup''
      else if mt = messageTypeServerSetup then ''ServerSetup''
      else if mt = messageTypeGoAway then ''GoAway''
      else if mt = messageTypeMaxRequestID then ''MaxRequestID''
      else if mt = messageTypeRequestsBlocked then ''RequestsBlocked''
      else if mt = messageTypeSubscribe then ''Subscribe''
      else if mt = messageTypeSubscribeOk then ''SubscribeOk''
      else if mt = messageTypeSubscribeError then ''SubscribeError''
      else if mt = messageTypeUnsubscribe then ''Unsubscribe''
      else if mt = messageTypeSubscribeUpdate then ''SubscribeUpdate''
      else if mt = messageTypeSubscribeDone then ''SubscribeDone''
      else if mt = messageTypePublish then ''Publish''
      else if mt = messageTypePublishOk then ''PublishOk''
      else if mt = messageTypePublishError then ''PublishError''
      else if mt = messageTypeFetch then ''Fetch''
      else if mt = messageTypeFetchOk then ''FetchOk''
      else if mt = messageTypeFetchError then ''FetchError''
      else if mt = messageTypeFetchCancel then ''FetchCancel''
      else if mt = messageTypeTrackStatus then ''TrackStatus''
      else if mt = messageTypeTrackStatusOk then ''TrackStatusOk''
      else if mt = messageTypeTrackStatusError then ''TrackStatusError''
      else if mt = messageTypeAnnounce then ''Announce''
      else if mt = messageTypeAnnounceOk then ''AnnounceOk''
      else if mt = messageTypeAnnounceError then ''AnnounceError''
      else if mt = messageTypeUnannounce then ''Unannounce''
      else if mt = messageTypeAnnounceCancel then ''AnnounceCancel''
      else if mt = messageTypeSubscribeNamespace then ''SubscribeNamespace''
      else if mt = messageTypeSubscribeNamespaceOk then ''SubscribeNamespaceOk''
      else if mt = messageTypeSubscribeNamespaceError then ''SubscribeNamespaceError''
      else if mt = messageTypeUnsubscribeNamespace then ''UnsubscribeNamespace''
      else ''unknown message type'')"

section \<open>The interface ControlMessage\<close>

datatype ControlMessage =
    ClientSetup ClientSetupMessage
  | ServerSetup ServerSetupMessage
  | GoAway GoAwayMessage
  | MaxRequestID MaxRequestIDMessage
  | RequestsBlocked RequestsBlockedMessage
  | Subscribe SubscribeMessage
  | SubscribeOk SubscribeOkMessage
  | SubscribeError SubscribeErrorMessage
  | Unsubscribe UnsubscribeMessage
  | SubscribeUpdate SubscribeUpdateMessage
  | SubscribeDone SubscribeDoneMessage
  | Fetch FetchMessage
  | FetchOk FetchOkMessage
  | FetchError FetchErrorMessage
  | FetchCancel FetchCancelMessage
  | TrackStatusRequest TrackStatusRequestMessage
  | TrackStatus TrackStatusMessage
  | Announce AnnounceMessage
  | AnnounceOk AnnounceOkMessage
  | AnnounceError AnnounceErrorMessage
  | Unannounce UnannounceMessage
  | AnnounceCancel AnnounceCancelMessage
  | SubscribeAnnounces SubscribeAnnouncesMessage
  | SubscribeAnnouncesOk SubscribeAnnouncesOkMessage
  | SubscribeAnnouncesError SubscribeAnnouncesErrorMessage
  | UnsubscribeAnnounces UnsubscribeAnnouncesMessage
  | Publish PublishMessage
  | PublishOk PublishOkMessage
  | PublishError PublishErrorMessage

text \<open>The methods \<^verbatim>\<open>Type\<close>; three of them name the type of another message.\<close>

fun ControlMessage_Type :: "ControlMessage \<Rightarrow> controlMessageType" where
  "ControlMessage_Type (ClientSetup m) = messageTypeClientSetup"
| "ControlMessage_Type (ServerSetup m) = messageTypeServerSetup"
| "ControlMessage_Type (GoAway m) = messageTypeGoAway"
| "ControlMessage_Type (MaxRequestID m) = messageTypeMaxRequestID"
| "ControlMessage_Type (RequestsBlocked m) = messageTypeRequestsBlocked"
| "ControlMessage_Type (Subscribe m) = messageTypeSubscribe"
| "ControlMessage_Type (SubscribeOk m) = messageTypeSubscribeOk"
| "ControlMessage_Type (SubscribeError m) = messageTypeSubscribeError"
| "ControlMessage_Type (Unsubscribe m) = messageTypeUnsubscribe"
| "ControlMessage_Type (SubscribeUpdate m) = messageTypeSubscribeUpdate"
| "ControlMessage_Type (SubscribeDone m) = messageTypeSubscribeDone"
| "ControlMessage_Type (Fetch m) = messageTypeFetch"
| "ControlMessage_Type (FetchOk m) = messageTypeFetchOk"
| "ControlMessage_Type (FetchError m) = messageTypeFetchError"
| "ControlMessage_Type (FetchCancel m) = messageTypeFetchCancel"
| "ControlMessage_Type (TrackStatusRequest m) = messageTypeTrackStatus"
| "ControlMessage_Type (TrackStatus m) = messageTypeTrackStatusOk"
| "ControlMessage_Type (Announce m) = messageTypeAnnounce"
| "ControlMessage_Type (AnnounceOk m) = messageTypeAnnounceOk"
| "ControlMessage_Type (AnnounceError m) = messageTypeAnnounceError"
| "ControlMessage_Type (Unannounce m) = messageTypeUnannounce"
| "ControlMessage_Type (AnnounceCancel m) = messageTypeAnnounce"
| "ControlMessage_Type (SubscribeAnnounces m) = messageTypeSubscribeNamespace"
| "ControlMessage_Type (SubscribeAnnouncesOk m) = messageTypeSubscribeNamespaceOk"
| "ControlMessage_Type (SubscribeAnnouncesError m) = messageTypeSubscribeNamespaceError"
| "ControlMessage_Type (UnsubscribeAnnounces m) = messageTypeUnsubscribeNamespace"
| "ControlMessage_Type (Publish m) = messageTypePublish"
| "ControlMessage_Type (PublishOk m) = messageTypePublish"
| "ControlMessage_Type (PublishError m) = messageTypeSubscribeError"

fun ControlMessage_Append :: "quicvarint \<Rightarrow> ControlMessage \<Rightarrow> bytes \<Rightarrow> bytes result" where
  "ControlMessage_Append qv (ClientSetup m) buf = ClientSetupMessage_Append qv m buf"
| "ControlMessage_Append qv (ServerSetup m) buf = ServerSetupMessage_Append qv m buf"
| "ControlMessage_Append qv (GoAway m) buf = GoAwayMessage_Append qv m buf"
| "ControlMessage_Append qv (MaxRequestID m) buf = MaxRequestIDMessage_Append qv m buf"
| "ControlMessage_Append qv (RequestsBlocked m) buf = RequestsBlockedMessage_Append qv m buf"
| "ControlMessage_Append qv (Subscribe m) buf = SubscribeMessage_Append qv m buf"
| "ControlMessage_Append qv (SubscribeOk m) buf = SubscribeOkMessage_Append qv m buf"
| "ControlMessage_Append qv (SubscribeError m) buf = SubscribeErrorMessage_Append qv m buf"
| "ControlMessage_Append qv (Unsubscribe m) buf = UnsubscribeMessage_Append qv m buf"
| "ControlMessage_Append qv (SubscribeUpdate m) buf = SubscribeUpdateMessage_Append qv m buf"
| "ControlMessage_Append qv (SubscribeDone m) buf = SubscribeDoneMessage_Append qv m buf"
| "ControlMessage_Append qv (Fetch m) buf = FetchMessage_Append qv m buf"
| "ControlMessage_Append qv (FetchOk m) buf = FetchOkMessage_Append qv m buf"
| "ControlMessage_Append qv (FetchError m) buf = FetchErrorMessage_Append qv m buf"
| "ControlMessage_Append qv (FetchCancel m) buf = FetchCancelMessage_Append qv m buf"
| "ControlMessage_Append qv (TrackStatusRequest m) buf = TrackStatusRequestMessage_Append qv m buf"
| "ControlMessage_Append qv (TrackStatus m) buf = TrackStatusMessage_Append qv m buf"
| "ControlMessage_Append qv (Announce m) buf = AnnounceMessage_Append qv m buf"
| "ControlMessage_Append qv (AnnounceOk m) buf = AnnounceOkMessage_Append qv m buf"
| "ControlMessage_Append qv (AnnounceError m) buf = AnnounceErrorMessage_Append qv m buf"
| "ControlMessage_Append qv (Unannounce m) buf = UnannounceMessage_Append qv m buf"
| "ControlMessage_Append qv (AnnounceCancel m) buf = AnnounceCancelMessage_Append qv m buf"
| "ControlMessage_Append qv (SubscribeAnnounces m) buf = SubscribeAnnouncesMessage_Append qv m buf"
| "ControlMessage_Append qv (SubscribeAnnouncesOk m) buf = SubscribeAnnouncesOkMessage_Append qv m buf"
| "ControlMessage_Append qv (SubscribeAnnouncesError m) buf = SubscribeAnnouncesErrorMessage_Append qv m buf"
| "ControlMessage_Append qv (UnsubscribeAnnounces m) buf = UnsubscribeAnnouncesMessage_Append qv m buf"
| "ControlMessage_Append qv (Publish m) buf = PublishMessage_Append qv m buf"
| "ControlMessage_Append qv (PublishOk m) buf = PublishOkMessage_Append qv m buf"
| "ControlMessage_Append qv (PublishError m) buf = PublishErrorMessage_Append qv m buf"

section \<open>ControlMessageParser\<close>

text \<open>The switch over the message type, followed by the call of the message's \<^verbatim>\<open>parse\<close>.\<close>

definition parse_by_type :: "quicvarint \<Rightarrow> uint64 \<Rightarrow> bytes \<Rightarrow> ControlMessage result" where
  "parse_by_type qv mt msg =
     (if mt = messageTypeClientSetup
      then bindR (ClientSetupMessage_parse qv CurrentVersion msg) (\<lambda>m. Inr (ClientSetup m))
      else if mt = messageTypeServerSetup
      then bindR (ServerSetupMessage_parse qv CurrentVersion msg) (\<lambda>m. Inr (ServerSetup m))
      else if mt = messageTypeGoAway
      then bindR (GoAwayMessage_parse qv CurrentVersion msg) (\<lambda>m. Inr (GoAway m))
      else if mt = messageTypeMaxRequestID
      then bindR (MaxRequestIDMessage_parse qv CurrentVersion msg) (\<lambda>m. Inr (MaxRequestID m))
      else if mt = messageTypeRequestsBlocked
      then bindR (RequestsBlockedMessage_parse qv CurrentVersion msg) (\<lambda>m. Inr (RequestsBlocked m))
      else if mt = messageTypeSubscribe
      then bindR (SubscribeMessage_parse qv CurrentVersion msg) (\<lambda>m. Inr (Subscribe m))
      else if mt = messageTypeSubscribeOk
      then bindR (SubscribeOkMessage_parse qv CurrentVersion msg) (\<lambda>m. Inr (SubscribeOk m))
      else if mt = messageTypeSubscribeError
      then bindR (SubscribeErrorMessage_parse qv CurrentVersion msg) (\<lambda>m. Inr (SubscribeError m))
      else if mt = messageTypeUnsubscribe
      then bindR (UnsubscribeMessage_parse qv CurrentVersion msg) (\<lambda>m. Inr (Unsubscribe m))
      else if mt = messageTypeSubscribeUpdate
      then bindR (SubscribeUpdateMessage_parse qv CurrentVersion msg) (\<lambda>m. Inr (SubscribeUpdate m))
      else if mt = messageTypeSubscribeDone
      then bindR (SubscribeDoneMessage_parse qv CurrentVersion msg) (\<lambda>m. Inr (SubscribeDone m))
      else if mt = messageTypeFetch
      then bindR (FetchMessage_parse qv CurrentVersion msg) (\<lambda>m. Inr (Fetch m))
      else if mt = messageTypeFetchOk
      then bindR (FetchOkMessage_parse qv CurrentVersion msg) (\<lambda>m. Inr (FetchOk m))
      else if mt = messageTypeFetchError
      then bindR (FetchErrorMessage_parse qv CurrentVersion msg) (\<lambda>m. Inr (FetchError m))
      else if mt = messageTypeFetchCancel
      then bindR (FetchCancelMessage_parse qv CurrentVersion msg) (\<lambda>m. Inr (FetchCancel m))
      else if mt = messageTypeTrackStatus
      then bindR (TrackStatusRequestMessage_parse qv CurrentVersion msg) (\<lambda>m. Inr (TrackStatusRequest m))
      else if mt = messageTypeTrackStatusOk
      then bindR (TrackStatusMessage_parse qv CurrentVersion msg) (\<lambda>m. Inr (TrackStatus m))
      else if mt = messageTypeAnnounce
      then bindR (AnnounceMessage_parse qv CurrentVersion msg) (\<lambda>m. Inr (Announce m))
      else if mt = messageTypeAnnounceOk
      then bindR (AnnounceOkMessage_parse qv CurrentVersion msg) (\<lambda>m. Inr (AnnounceOk m))
      else if mt = messageTypeAnnounceError
      then bindR (AnnounceErrorMessage_parse qv CurrentVersion msg) (\<lambda>m. Inr (AnnounceError m))
      else if mt = messageTypeUnannounce
      then bindR (UnannounceMessage_parse qv CurrentVersion msg) (\<lambda>m. Inr (Unannounce m))
      else if mt = messageTypeAnnounceCancel
      then bindR (AnnounceCancelMessage_parse qv CurrentVersion msg) (\<lambda>m. Inr (AnnounceCancel m))
      else if mt = messageTypeSubscribeNamespace
      then bindR (SubscribeAnnouncesMessage_parse qv CurrentVersion msg) (\<lambda>m. Inr (SubscribeAnnounces m))
      else if mt = messageTypeSubscribeNamespaceOk
      then bindR (SubscribeAnnouncesOkMessage_parse qv CurrentVersion msg) (\<lambda>m. Inr (SubscribeAnnouncesOk m))
      else if mt = messageTypeSubscribeNamespaceError
      then bindR (SubscribeAnnouncesErrorMessage_parse qv CurrentVersion msg) (\<lambda>m. Inr (SubscribeAnnouncesError m))
      else if mt = messageTypeUnsubscribeNamespace
      then bindR (UnsubscribeAnnouncesMessage_parse qv CurrentVersion msg) (\<lambda>m. Inr (UnsubscribeAnnounces m))
      else Inl (Fail (errInvalidMessageType mt)))"

definition uint16_of_bytes :: "byte \<Rightarrow> byte \<Rightarrow> 16 word" where
  "uint16_of_bytes hi lo = push_bit 8 (ucast hi) OR ucast lo"

definition ControlMessageParser_Parse :: "quicvarint \<Rightarrow> bytes \<Rightarrow> (ControlMessage \<times> bytes) result" where
  "ControlMessageParser_Parse qv reader =
     bindR (qv_Read qv reader) (\<lambda>(mt, reader).
     bindR (ReadByte reader) (\<lambda>(hi, reader).
     bindR (ReadByte reader) (\<lambda>(lo, reader).
     let len = uint16_of_bytes hi lo
     in bindR (ReadFull reader (unat len)) (\<lambda>(msg, reader).
        if length msg \<noteq> unat len then Inl (Fail errLengthMismatch)
        else bindR (parse_by_type qv mt msg) (\<lambda>m. Inr (m, reader))))))"

section \<open>Compiling a message\<close>

definition PutUint16 :: "bytes \<Rightarrow> nat \<Rightarrow> 16 word \<Rightarrow> bytes" where
  "PutUint16 buf i x = buf[i := ucast (drop_bit 8 x), i + 1 := ucast x]"

definition compileMessage :: "quicvarint \<Rightarrow> ControlMessage \<Rightarrow> bytes result" where
  "compileMessage qv msg =
     bindR (qv_Append qv [] (ControlMessage_Type msg)) (\<lambda>buf.
     let tl = length buf
     in bindR (ControlMessage_Append qv msg (buf @ [0x00, 0x00])) (\<lambda>buf.
        bindR (slice_from buf (tl + 2)) (\<lambda>body.
        if length body > 65535 then Inl (Fail errControlMessageTooLarge)
        else Inr (PutUint16 buf tl (of_nat (length body))))))"

text \<open>
  The messages that \<^verbatim>\<open>controlStream.read\<close> yields and the failure that ends the loop: its consumer
  \<^verbatim>\<open>readControlStream\<close> stops at the first error that is yielded. \<^term>\<open>None\<close> would mean that the loop
  yields messages forever.
\<close>

partial_function (option) controlStream_read_loop ::
  "quicvarint \<Rightarrow> bytes \<Rightarrow> ControlMessage list \<Rightarrow> (ControlMessage list \<times> failure) option" where
  "controlStream_read_loop qv reader acc =
     (case ControlMessageParser_Parse qv reader of
        Inl e \<Rightarrow> Some (acc, e)
      | Inr (msg, reader) \<Rightarrow> controlStream_read_loop qv reader (acc @ [msg]))"

definition controlStream_read :: "quicvarint \<Rightarrow> bytes \<Rightarrow> (ControlMessage list \<times> failure) option" where
  "controlStream_read qv reader = controlStream_read_loop qv reader []"

section \<open>Grammar of a frame\<close>

fun enc_body :: "quicvarint \<Rightarrow> ControlMessage \<Rightarrow> bytes" where
  "enc_body qv (ClientSetup m) = enc_ClientSetup qv m"
| "enc_body qv (ServerSetup m) = enc_ServerSetup qv m"
| "enc_body qv (GoAway m) = enc_vbytes qv (gam_NewSessionURI m)"
| "enc_body qv (MaxRequestID m) = qv_enc qv (mrm_RequestID m)"
| "enc_body qv (RequestsBlocked m) = qv_enc qv (rbm_MaximumRequestID m)"
| "enc_body qv (Subscribe m) = enc_Subscribe qv m"
| "enc_body qv (SubscribeOk m) = enc_SubscribeOk qv m"
| "enc_body qv (SubscribeError m) = enc_SubscribeError qv m"
| "enc_body qv (Unsubscribe m) = qv_enc qv (usm_RequestID m)"
| "enc_body qv (SubscribeUpdate m) = enc_SubscribeUpdate qv m"
| "enc_body qv (SubscribeDone m) = enc_SubscribeDone qv m"
| "enc_body qv (Fetch m) = enc_Fetch qv m"
| "enc_body qv (FetchOk m) = enc_FetchOk qv m"
| "enc_body qv (FetchError m) = enc_FetchError qv m"
| "enc_body qv (FetchCancel m) = qv_enc qv (fcm_RequestID m)"
| "enc_body qv (TrackStatusRequest m) = enc_TrackStatusRequest qv m"
| "enc_body qv (TrackStatus m) = enc_TrackStatus qv m"
| "enc_body qv (Announce m) = enc_Announce qv m"
| "enc_body qv (AnnounceOk m) = qv_enc qv (aom_RequestID m)"
| "enc_body qv (AnnounceError m) = enc_AnnounceError qv m"
| "enc_body qv (Unannounce m) = enc_tuple qv (uam_TrackNamespace m)"
| "enc_body qv (AnnounceCancel m) = enc_AnnounceCancel qv m"
| "enc_body qv (SubscribeAnnounces m) = enc_SubscribeAnnounces qv m"
| "enc_body qv (SubscribeAnnouncesOk m) = qv_enc qv (saom_RequestID m)"
| "enc_body qv (SubscribeAnnouncesError m) = enc_SubscribeAnnouncesError qv m"
| "enc_body qv (UnsubscribeAnnounces m) = enc_tuple qv (usam_TrackNamespacePrefix m)"
| "enc_body qv (PublishError m) = enc_PublishError qv m"
| "enc_body qv _ = []"

text \<open>
  The messages that survive the trip: well-formed fields, no expiry in SUBSCRIBE_OK, and none
  of the messages whose \<^verbatim>\<open>Type\<close> is the type of another message or that the parser does not
  know (ANNOUNCE_CANCEL and the PUBLISH family).
\<close>

fun wf_control :: "ControlMessage \<Rightarrow> bool" where
  "wf_control (ClientSetup m) \<longleftrightarrow> wf_ClientSetup m"
| "wf_control (ServerSetup m) \<longleftrightarrow> wf_ServerSetup m"
| "wf_control (GoAway m) \<longleftrightarrow> length (gam_NewSessionURI m) \<le> maxVarInt"
| "wf_control (MaxRequestID m) \<longleftrightarrow> fits (mrm_RequestID m)"
| "wf_control (RequestsBlocked m) \<longleftrightarrow> fits (rbm_MaximumRequestID m)"
| "wf_control (Subscribe m) \<longleftrightarrow> wf_Subscribe m"
| "wf_control (SubscribeOk m) \<longleftrightarrow> wf_SubscribeOk m \<and> som_Expires m = 0"
| "wf_control (SubscribeError m) \<longleftrightarrow> wf_SubscribeError m"
| "wf_control (Unsubscribe m) \<longleftrightarrow> fits (usm_RequestID m)"
| "wf_control (SubscribeUpdate m) \<longleftrightarrow> wf_SubscribeUpdate m"
| "wf_control (SubscribeDone m) \<longleftrightarrow> wf_SubscribeDone m"
| "wf_control (Fetch m) \<longleftrightarrow> wf_Fetch m"
| "wf_control (FetchOk m) \<longleftrightarrow> wf_FetchOk m"
| "wf_control (FetchError m) \<longleftrightarrow> wf_FetchError m"
| "wf_control (FetchCancel m) \<longleftrightarrow> fits (fcm_RequestID m)"
| "wf_control (TrackStatusRequest m) \<longleftrightarrow> wf_TrackStatusRequest m"
| "wf_control (TrackStatus m) \<longleftrightarrow> wf_TrackStatus m"
| "wf_control (Announce m) \<longleftrightarrow> wf_Announce m"
| "wf_control (AnnounceOk m) \<longleftrightarrow> fits (aom_RequestID m)"
| "wf_control (AnnounceError m) \<longleftrightarrow> wf_AnnounceError m"
| "wf_control (Unannounce m) \<longleftrightarrow> wf_tuple (uam_TrackNamespace m)"
| "wf_control (SubscribeAnnounces m) \<longleftrightarrow> wf_SubscribeAnnounces m"
| "wf_control (SubscribeAnnouncesOk m) \<longleftrightarrow> fits (saom_RequestID m)"
| "wf_control (SubscribeAnnouncesError m) \<longleftrightarrow> wf_SubscribeAnnouncesError m"
| "wf_control (UnsubscribeAnnounces m) \<longleftrightarrow> wf_tuple (usam_TrackNamespacePrefix m)"
| "wf_control _ \<longleftrightarrow> False"

definition enc_frame :: "quicvarint \<Rightarrow> ControlMessage \<Rightarrow> bytes" where
  "enc_frame qv m =
     qv_enc qv (ControlMessage_Type m) @
     of_nat (length (enc_body qv m) div 256) # of_nat (length (enc_body qv m)) # enc_body qv m"

section \<open>Framing\<close>

lemma fits_Type [simp]: "fits (ControlMessage_Type m)"
  by (cases m) (simp_all add: messageType_defs fits_def maxVarInt_def)

lemma unat_uint16_of_bytes: "unat (uint16_of_bytes hi lo) = unat hi * 256 + unat lo"
proof -
  have lo: "unat lo < 256" and hi: "unat hi < 256" by (rule unat_byte_less)+
  have "uint16_of_bytes hi lo = push_bit 8 (ucast hi) + ucast lo"
    unfolding uint16_of_bytes_def
    by (rule disjunctive_add [symmetric])
      (auto simp: bit_simps dest: bit_imp_le_length)
  moreover have "unat (push_bit 8 (ucast hi :: 16 word)) = unat hi * 256"
    using hi by (simp add: push_bit_eq_mult unat_word_ariths(2) unsigned_ucast_eq take_bit_nat_eq_self)
  ultimately show ?thesis
    using hi lo by (simp add: unat_word_ariths(1) unsigned_ucast_eq take_bit_nat_eq_self)
qed

lemma PutUint16_frame:
  "PutUint16 (xs @ [0, 0] @ ys) (length xs) x = xs @ ucast (drop_bit 8 x) # ucast x # ys"
  by (simp add: PutUint16_def list_update_append)

lemma ucast_of_nat_16:
  assumes "n \<le> 65535"
  shows "ucast (drop_bit 8 (of_nat n :: 16 word)) = (of_nat (n div 256) :: byte)"
    and "ucast (of_nat n :: 16 word) = (of_nat n :: byte)"
proof -
  have n: "unat (of_nat n :: 16 word) = n"
    using assms by (simp add: unat_of_nat take_bit_nat_eq_self)
  have "n div 256 < 256" using assms by linarith
  moreover have "unat (drop_bit 8 (of_nat n :: 16 word)) = n div 256"
    using unat_drop_bit_eq [of 8 "of_nat n :: 16 word"] by (simp only: n) (simp add: drop_bit_eq_div)
  ultimately show "ucast (drop_bit 8 (of_nat n :: 16 word)) = (of_nat (n div 256) :: byte)"
    by (intro word_unat_eq_iff [THEN iffD2])
      (simp only: unsigned_ucast_eq unat_of_nat_byte take_bit_eq_mod, simp)
  show "ucast (of_nat n :: 16 word) = (of_nat n :: byte)"
    using n by (intro word_unat_eq_iff [THEN iffD2]) (simp add: unsigned_ucast_eq unat_of_nat_byte take_bit_eq_mod)
qed

lemma uint16_of_bytes_of_nat:
  "n \<le> 65535 \<Longrightarrow> unat (uint16_of_bytes (of_nat (n div 256)) (of_nat n)) = n"
  by (simp add: unat_uint16_of_bytes unat_of_nat_byte)

context varint_codec
begin

lemma control_app:
  "wf_control m \<Longrightarrow> ControlMessage_Append qv m buf = Inr (buf @ enc_body qv m)"
  by (cases m)
    (simp_all add: client_setup.app_enc server_setup.app_enc goaway.app_enc max_request_id.app_enc requests_blocked.app_enc subscribe.app_enc subscribe_ok.app_enc subscribe_error.app_enc unsubscribe.app_enc subscribe_update.app_enc subscribe_done.app_enc fetch.app_enc fetch_ok.app_enc fetch_error.app_enc fetch_cancel.app_enc track_status_request.app_enc track_status.app_enc announce.app_enc announce_ok.app_enc announce_error.app_enc unannounce.app_enc announce_cancel.app_enc subscribe_announces.app_enc subscribe_announces_ok.app_enc subscribe_announces_error.app_enc unsubscribe_announces.app_enc)

lemma control_prs:
  "wf_control m \<Longrightarrow> parse_by_type qv (ControlMessage_Type m) (enc_body qv m) = Inr m"
  by (cases m)
    (simp_all add: parse_by_type_def messageType_defs client_setup.prs_enc server_setup.prs_enc goaway.prs_enc max_request_id.prs_enc requests_blocked.prs_enc subscribe.prs_enc subscribe_ok.prs_enc subscribe_error.prs_enc unsubscribe.prs_enc subscribe_update.prs_enc subscribe_done.prs_enc fetch.prs_enc fetch_ok.prs_enc fetch_error.prs_enc fetch_cancel.prs_enc track_status_request.prs_enc track_status.prs_enc announce.prs_enc announce_ok.prs_enc announce_error.prs_enc unannounce.prs_enc announce_cancel.prs_enc subscribe_announces.prs_enc subscribe_announces_ok.prs_enc subscribe_announces_error.prs_enc unsubscribe_announces.prs_enc)

lemma compileMessage_enc:
  assumes "wf_control m" and len: "length (enc_body qv m) \<le> 65535"
  shows "compileMessage qv m = Inr (enc_frame qv m)"
proof -
  have "ControlMessage_Append qv m (qv_enc qv (ControlMessage_Type m) @ [0, 0])
      = Inr (qv_enc qv (ControlMessage_Type m) @ [0, 0] @ enc_body qv m)"
    using assms(1) by (simp add: control_app)
  then show ?thesis
    using len by (simp add: compileMessage_def slice_from_def PutUint16_frame [simplified]
        ucast_of_nat_16 enc_frame_def)
qed

lemma compileMessage_too_large:
  assumes "wf_control m" and "65535 < length (enc_body qv m)"
  shows "compileMessage qv m = Inl (Fail errControlMessageTooLarge)"
  using assms by (simp add: compileMessage_def control_app slice_from_def)

lemma Parse_frame:
  assumes "wf_control m" and "length (enc_body qv m) \<le> 65535"
  shows "ControlMessageParser_Parse qv (enc_frame qv m @ rest) = Inr (m, rest)"
  using assms by (simp add: ControlMessageParser_Parse_def enc_frame_def
      uint16_of_bytes_of_nat control_prs Let_def)

lemma read_loop_frames:
  "list_all (\<lambda>m. wf_control m \<and> length (enc_body qv m) \<le> 65535) ms \<Longrightarrow>
     controlStream_read_loop qv (concat (map (enc_frame qv) ms) @ rest) acc
       = controlStream_read_loop qv rest (acc @ ms)"
proof (induction ms arbitrary: acc)
  case Nil
  then show ?case by simp
next
  case (Cons m ms)
  then show ?case
    by (subst controlStream_read_loop.simps) (simp add: Parse_frame)
qed

text \<open>Every parsed message consumes bytes of the stream, so reading ends.\<close>

lemma Parse_consumes:
  "ControlMessageParser_Parse qv r = Inr (m, r') \<Longrightarrow> length r' < length r"
proof -
  assume "ControlMessageParser_Parse qv r = Inr (m, r')"
  then obtain mt r1 hi r2 lo r3 msg where
    "qv_Read qv r = Inr (mt, r1)" "ReadByte r1 = Inr (hi, r2)" "ReadByte r2 = Inr (lo, r3)"
    "ReadFull r3 (unat (uint16_of_bytes hi lo)) = Inr (msg, r')"
    by (auto simp: ControlMessageParser_Parse_def bindR_eq_Inr Let_def split: if_splits)
  moreover from this have "length r1 < length r" "length r2 < length r1" "length r3 < length r2"
    using Read_ok by (auto elim: ReadByte.elims)
  ultimately show ?thesis using ReadFull_Inr by fastforce
qed

lemma read_loop_returns: "\<exists>y. controlStream_read_loop qv r acc = Some y"
proof (induction r arbitrary: acc rule: length_induct)
  case (1 r)
  show ?case
  proof (cases "ControlMessageParser_Parse qv r")
    case (Inl e)
    then show ?thesis by (subst controlStream_read_loop.simps) simp
  next
    case (Inr p)
    then obtain m r' where p: "ControlMessageParser_Parse qv r = Inr (m, r')" by (cases p) auto
    with "1.IH" Parse_consumes have "\<exists>y. controlStream_read_loop qv r' (acc @ [m]) = Some y"
      by blast
    with p show ?thesis by (subst controlStream_read_loop.simps) simp
  qed
qed

end

end
