(* ===== verification/Connection.thy ===== *)
theory Connection
  imports Go_State Control_Stream
begin

text \<open>
  The connection of a session (the interfaces of \<^verbatim>\<open>connection.go\<close>) and writing control
  messages to it (\<^verbatim>\<open>control_stream.go\<close>). The implementation of the connection is QUIC or
  WebTransport: the model records what was written to it, and the outcome of each of its
  operations is a parameter, a function from the number of the operation to its outcome.
\<close>

datatype Protocol = ProtocolQUIC | ProtocolWebTransport
datatype Perspective = PerspectiveClient | PerspectiveServer

text \<open>
  A network operation succeeds, or fails with an error; a failed write may have sent a part of
  the bytes.
\<close>

datatype net_outcome = NetOk | NetErr go_error nat

type_synonym net = "nat \<Rightarrow> net_outcome"

text \<open>
  \<open>cn_ops\<close> counts the operations, \<open>cn_control\<close> holds the bytes written to the control stream,
  \<open>cn_streams\<close> those written to each unidirectional stream, \<open>cn_finished\<close> the streams that were
  closed. \<open>cn_sent\<close> lists the control messages whose frames were written in full.
\<close>

record Connection =
  cn_Perspective :: Perspective
  cn_Protocol :: Protocol
  cn_ops :: nat
  cn_control :: bytes
  cn_sent :: "ControlMessage list"
  cn_streams :: "bytes list"
  cn_finished :: "nat list"
  cn_datagrams :: "bytes list"

definition newConnection :: "Perspective \<Rightarrow> Protocol \<Rightarrow> Connection" where
  "newConnection persp proto =
     \<lparr>cn_Perspective = persp, cn_Protocol = proto, cn_ops = 0, cn_control = [], cn_sent = [],
      cn_streams = [], cn_finished = [], cn_datagrams = []\<rparr>"

text \<open>An operation of the connection: \<open>f\<close> is its effect, given the bytes that were sent.\<close>

definition net_op :: "net \<Rightarrow> bytes \<Rightarrow> (bytes \<Rightarrow> Connection \<Rightarrow> Connection) \<Rightarrow> (Connection, unit) st" where
  "net_op net bs f c =
     (case net (cn_ops c) of
        NetOk \<Rightarrow> (Inr (), f bs (c\<lparr>cn_ops := Suc (cn_ops c)\<rparr>))
      | NetErr e n \<Rightarrow> (Inl (Fail e), f (take n bs) (c\<lparr>cn_ops := Suc (cn_ops c)\<rparr>)))"

definition write_control :: "net \<Rightarrow> bytes \<Rightarrow> (Connection, unit) st" where
  "write_control net bs = net_op net bs (\<lambda>bs c. c\<lparr>cn_control := cn_control c @ bs\<rparr>)"

definition OpenUniStream :: "net \<Rightarrow> (Connection, nat) st" where
  "OpenUniStream net =
     thenS (net_op net [] (\<lambda>_ c. c))
       (\<lambda>c. (Inr (length (cn_streams c)), c\<lparr>cn_streams := cn_streams c @ [[]]\<rparr>))"

definition write_stream :: "net \<Rightarrow> nat \<Rightarrow> bytes \<Rightarrow> (Connection, unit) st" where
  "write_stream net i bs =
     net_op net bs (\<lambda>bs c. c\<lparr>cn_streams := (cn_streams c)[i := (cn_streams c ! i) @ bs]\<rparr>)"

definition close_stream :: "net \<Rightarrow> nat \<Rightarrow> (Connection, unit) st" where
  "close_stream net i =
     thenS (net_op net [] (\<lambda>_ c. c)) (modifyS (\<lambda>c. c\<lparr>cn_finished := cn_finished c @ [i]\<rparr>))"

definition SendDatagram :: "net \<Rightarrow> bytes \<Rightarrow> (Connection, unit) st" where
  "SendDatagram net bs =
     thenS (net_op net [] (\<lambda>_ c. c)) (modifyS (\<lambda>c. c\<lparr>cn_datagrams := cn_datagrams c @ [bs]\<rparr>))"

section \<open>controlStream\<close>

definition controlStream_write :: "quicvarint \<Rightarrow> net \<Rightarrow> ControlMessage \<Rightarrow> (Connection, unit) st" where
  "controlStream_write qv net msg =
     bindS (liftR (compileMessage qv msg)) (\<lambda>buf.
     thenS (write_control net buf)
       (modifyS (\<lambda>c. c\<lparr>cn_sent := cn_sent c @ [msg]\<rparr>)))"

lemma net_op_ok: "net (cn_ops c) = NetOk \<Longrightarrow> net_op net bs f c = (Inr (), f bs (c\<lparr>cn_ops := Suc (cn_ops c)\<rparr>))"
  by (simp add: net_op_def)

text \<open>Operations of the connection leave its perspective and protocol alone.\<close>

lemma controlStream_write_keeps [simp]:
  "cn_Perspective (snd (controlStream_write qv net m c)) = cn_Perspective c"
  "cn_Protocol (snd (controlStream_write qv net m c)) = cn_Protocol c"
  "cn_streams (snd (controlStream_write qv net m c)) = cn_streams c"
  "cn_datagrams (snd (controlStream_write qv net m c)) = cn_datagrams c"
  by (auto simp: controlStream_write_def write_control_def net_op_def effects
      split: sum.splits net_outcome.splits)

text \<open>
  A message counts as sent exactly when \<^verbatim>\<open>write\<close> returned nil; then its frame is at the end of
  the control stream.
\<close>

lemma controlStream_write_ok:
  assumes "controlStream_write qv net m c = (Inr (), c')"
  shows "\<exists>frame. compileMessage qv m = Inr frame \<and> cn_control c' = cn_control c @ frame \<and>
           cn_sent c' = cn_sent c @ [m]"
  using assms
  by (auto simp: controlStream_write_def write_control_def net_op_def effects
      split: sum.splits net_outcome.splits)

lemma controlStream_write_sent:
  "cn_sent (snd (controlStream_write qv net m c)) =
     (if fst (controlStream_write qv net m c) = Inr () then cn_sent c @ [m] else cn_sent c)"
  by (auto simp: controlStream_write_def write_control_def net_op_def effects
      split: sum.splits net_outcome.splits)

lemma controlStream_write_NetOk:
  assumes "compileMessage qv m = Inr frame" and "net (cn_ops c) = NetOk"
  shows "controlStream_write qv net m c =
    (Inr (), c\<lparr>cn_ops := Suc (cn_ops c), cn_control := cn_control c @ frame,
               cn_sent := cn_sent c @ [m]\<rparr>)"
  using assms
  by (simp add: controlStream_write_def write_control_def net_op_def effects)

text \<open>
  While no write fails, the control stream carries the frames of the sent messages in order.
\<close>

definition sent_frames :: "quicvarint \<Rightarrow> Connection \<Rightarrow> bool" where
  "sent_frames qv c \<longleftrightarrow> (\<exists>frames. map (compileMessage qv) (cn_sent c) = map Inr frames \<and>
     cn_control c = concat frames)"

lemma sent_frames_new: "sent_frames qv (newConnection p q)"
  by (simp add: sent_frames_def newConnection_def)

lemma controlStream_write_frames:
  assumes "sent_frames qv c" and "net (cn_ops c) = NetOk"
  shows "sent_frames qv (snd (controlStream_write qv net m c))"
proof (cases "compileMessage qv m")
  case (Inl e)
  with assms show ?thesis by (simp add: controlStream_write_def effects)
next
  case (Inr frame)
  from assms obtain frames where "map (compileMessage qv) (cn_sent c) = map Inr frames"
    "cn_control c = concat frames"
    by (auto simp: sent_frames_def)
  then have "map (compileMessage qv) (cn_sent c @ [m]) = map Inr (frames @ [frame])"
    "cn_control c @ frame = concat (frames @ [frame])"
    using Inr by simp_all
  then show ?thesis
    unfolding sent_frames_def controlStream_write_NetOk [where net = net and c = c, OF Inr assms(2)]
    by (intro exI [of _ "frames @ [frame]"]) simp
qed

end
