(* ===== verification/Object_Wire.thy ===== *)
theory Object_Wire
  imports Wire_Fields
begin

text \<open>
  Objects on the wire: objects on subgroup and fetch streams (\<^verbatim>\<open>object_message.go\<close>), objects in
  datagrams (\<^verbatim>\<open>object_datagram_message.go\<close>), the stream headers
  (\<^verbatim>\<open>stream_header_subgroup_message.go\<close>, \<^verbatim>\<open>fetch_header_message.go\<close>) and the parser of an
  incoming unidirectional stream (\<^verbatim>\<open>object_stream_parser.go\<close>, less its logging). The
  extension headers of an object are \<^term>\<open>None\<close> where the Go slice is nil. The lemmas show
  the round trips of streams and datagrams without extension headers and what the code does
  with them when they are present.
\<close>

section \<open>Object messages\<close>

type_synonym ObjectStatus = uint64

definition ObjectStatusNormal :: ObjectStatus where "ObjectStatusNormal = 0x00"
definition ObjectStatusObjectDoesNotExist :: ObjectStatus where
  "ObjectStatusObjectDoesNotExist = 0x01"
definition ObjectStatusEndOfGroup :: ObjectStatus where "ObjectStatusEndOfGroup = 0x03"
definition ObjectStatusEndOfTrack :: ObjectStatus where "ObjectStatusEndOfTrack = 0x04"

record ObjectMessage =
  om_TrackAlias :: uint64
  om_GroupID :: uint64
  om_SubgroupID :: uint64
  om_ObjectID :: uint64
  om_PublisherPriority :: byte
  om_ObjectExtensionHeaders :: "KVPList option"
  om_ObjectStatus :: ObjectStatus
  om_ObjectPayload :: bytes

text \<open>Ranging over a nil slice is ranging over an empty one.\<close>

abbreviation elems :: "KVPList option \<Rightarrow> KVPList" where
  "elems h \<equiv> (case h of None \<Rightarrow> [] | Some pp \<Rightarrow> pp)"

definition AppendSubgroup :: "quicvarint \<Rightarrow> ObjectMessage \<Rightarrow> bytes \<Rightarrow> bytes result" where
  "AppendSubgroup qv m buf =
     bindR (qv_Append qv buf (om_ObjectID m)) (\<lambda>buf.
     bindR (KVPList_appendLength qv (elems (om_ObjectExtensionHeaders m)) buf) (\<lambda>buf.
     bindR (qv_Append qv buf (of_nat (length (om_ObjectPayload m)))) (\<lambda>buf.
       if length (om_ObjectPayload m) = 0 then qv_Append qv buf (om_ObjectStatus m)
       else Inr (buf @ om_ObjectPayload m))))"

definition AppendFetch :: "quicvarint \<Rightarrow> ObjectMessage \<Rightarrow> bytes \<Rightarrow> bytes result" where
  "AppendFetch qv m buf =
     bindR (qv_Append qv buf (om_GroupID m)) (\<lambda>buf.
     bindR (qv_Append qv buf (om_SubgroupID m)) (\<lambda>buf.
     bindR (qv_Append qv buf (om_ObjectID m)) (\<lambda>buf.
     bindR (KVPList_appendLength qv (elems (om_ObjectExtensionHeaders m))
              (buf @ [om_PublisherPriority m])) (\<lambda>buf.
     bindR (qv_Append qv buf (of_nat (length (om_ObjectPayload m)))) (\<lambda>buf.
       if length (om_ObjectPayload m) = 0 then qv_Append qv buf (om_ObjectStatus m)
       else Inr (buf @ om_ObjectPayload m))))))"

text \<open>
  The end of both readers: the payload length, then the status or the payload. The
  \<^verbatim>\<open>bufio.NewReader\<close> that they start with returns the parser's own reader, which is
  already buffered, so the payload is read from the same place.
\<close>

definition read_payload :: "quicvarint \<Rightarrow> ObjectMessage \<Rightarrow> bytes \<Rightarrow> (ObjectMessage \<times> bytes) result" where
  "read_payload qv m br =
     bindR (qv_Read qv br) (\<lambda>(len, br).
       if len = 0
       then bindR (qv_Read qv br) (\<lambda>(status, br). Inr (m\<lparr>om_ObjectStatus := status\<rparr>, br))
       else bindR (make_slice 1 (unat len)) (\<lambda>_.
            bindR (ReadFull br (unat len)) (\<lambda>(payload, br).
              Inr (m\<lparr>om_ObjectPayload := payload\<rparr>, br))))"

definition readSubgroup ::
  "quicvarint \<Rightarrow> ObjectMessage \<Rightarrow> bytes \<Rightarrow> (ObjectMessage \<times> bytes) result option" where
  "readSubgroup qv m br =
     bindO (Some (qv_Read qv br)) (\<lambda>(objectID, br).
     let m = m\<lparr>om_ObjectID := objectID\<rparr>
     in bindO (case om_ObjectExtensionHeaders m of
                 None \<Rightarrow> Some (Inr (m, br))
               | Some pp \<Rightarrow>
                   bindO (KVPList_parseLengthReader qv pp br) (\<lambda>(pp, br).
                     Some (Inr (m\<lparr>om_ObjectExtensionHeaders := Some pp\<rparr>, br))))
          (\<lambda>(m, br). Some (read_payload qv m br)))"

definition readFetch ::
  "quicvarint \<Rightarrow> ObjectMessage \<Rightarrow> bytes \<Rightarrow> (ObjectMessage \<times> bytes) result option" where
  "readFetch qv m br =
     bindO (Some (qv_Read qv br)) (\<lambda>(groupID, br).
     bindO (Some (qv_Read qv br)) (\<lambda>(subgroupID, br).
     bindO (Some (qv_Read qv br)) (\<lambda>(objectID, br).
     bindO (Some (ReadByte br)) (\<lambda>(publisherPriority, br).
     bindO (KVPList_parseLengthReader qv (elems (om_ObjectExtensionHeaders m)) br) (\<lambda>(pp, br).
       Some (read_payload qv
         (m\<lparr>om_GroupID := groupID, om_SubgroupID := subgroupID, om_ObjectID := objectID,
            om_PublisherPriority := publisherPriority,
            om_ObjectExtensionHeaders := Some pp\<rparr>) br))))))"

section \<open>Datagrams\<close>

definition objectTypeDatagram :: uint64 where "objectTypeDatagram = 0x00"
definition objectTypeDatagramExtension :: uint64 where "objectTypeDatagramExtension = 0x01"
definition objectTypeDatagramStatus :: uint64 where "objectTypeDatagramStatus = 0x02"
definition objectTypeDatagramStatusExtension :: uint64 where
  "objectTypeDatagramStatusExtension = 0x03"

record ObjectDatagramMessage =
  odm_TrackAlias :: uint64
  odm_GroupID :: uint64
  odm_ObjectID :: uint64
  odm_PublisherPriority :: byte
  odm_ObjectExtensionHeaders :: "KVPList option"
  odm_ObjectPayload :: bytes
  odm_ObjectStatus :: ObjectStatus

text \<open>The zero value that \<^verbatim>\<open>readDatagrams\<close> parses into.\<close>

definition newObjectDatagramMessage :: ObjectDatagramMessage where
  "newObjectDatagramMessage =
     \<lparr>odm_TrackAlias = 0, odm_GroupID = 0, odm_ObjectID = 0, odm_PublisherPriority = 0,
      odm_ObjectExtensionHeaders = None, odm_ObjectPayload = [], odm_ObjectStatus = 0\<rparr>"

definition AppendDatagram :: "quicvarint \<Rightarrow> ObjectDatagramMessage \<Rightarrow> bytes \<Rightarrow> bytes result" where
  "AppendDatagram qv m buf =
     (let typ = (if odm_ObjectExtensionHeaders m \<noteq> None then objectTypeDatagramExtension
                 else objectTypeDatagram)
      in bindR (qv_Append qv buf typ) (\<lambda>buf.
         bindR (qv_Append qv buf (odm_TrackAlias m)) (\<lambda>buf.
         bindR (qv_Append qv buf (odm_GroupID m)) (\<lambda>buf.
         bindR (qv_Append qv buf (odm_ObjectID m)) (\<lambda>buf.
         let buf = buf @ [odm_PublisherPriority m]
         in bindR (if typ = objectTypeDatagramExtension
                   then KVPList_appendLength qv (elems (odm_ObjectExtensionHeaders m)) buf
                   else Inr buf) (\<lambda>buf.
              Inr (buf @ odm_ObjectPayload m)))))))"

definition AppendDatagramStatus :: "quicvarint \<Rightarrow> ObjectDatagramMessage \<Rightarrow> bytes \<Rightarrow> bytes result" where
  "AppendDatagramStatus qv m buf =
     (let typ = (if odm_ObjectExtensionHeaders m \<noteq> None then objectTypeDatagramStatusExtension
                 else objectTypeDatagramStatus)
      in bindR (qv_Append qv buf typ) (\<lambda>buf.
         bindR (qv_Append qv buf (odm_TrackAlias m)) (\<lambda>buf.
         bindR (qv_Append qv buf (odm_GroupID m)) (\<lambda>buf.
         bindR (qv_Append qv buf (odm_ObjectID m)) (\<lambda>buf.
         let buf = buf @ [odm_PublisherPriority m]
         in bindR (if typ = objectTypeDatagramExtension
                   then KVPList_appendLength qv (elems (odm_ObjectExtensionHeaders m)) buf
                   else Inr buf) (\<lambda>buf.
              qv_Append qv buf (odm_ObjectStatus m)))))))"

text \<open>The bytes of the extension headers are not dropped from \<^verbatim>\<open>data\<close> after they are parsed.\<close>

definition ObjectDatagramMessage_Parse ::
  "quicvarint \<Rightarrow> ObjectDatagramMessage \<Rightarrow> bytes \<Rightarrow> (ObjectDatagramMessage \<times> nat) result option" where
  "ObjectDatagramMessage_Parse qv m data =
     bindO (Some (bindR (qv_Parse qv data) (\<lambda>(typ, n1).
                  bindR (slice_from data n1) (\<lambda>data.
                  bindR (qv_Parse qv data) (\<lambda>(trackAlias, n2).
                  bindR (slice_from data n2) (\<lambda>data.
                  bindR (qv_Parse qv data) (\<lambda>(groupID, n3).
                  bindR (slice_from data n3) (\<lambda>data.
                  bindR (qv_Parse qv data) (\<lambda>(objectID, n4).
                  bindR (slice_from data n4) (\<lambda>data.
                  bindR (guardR (length data = 0) ErrUnexpectedEOF) (\<lambda>_.
                  bindR (index_at data 0) (\<lambda>publisherPriority.
                  bindR (slice_from data 1) (\<lambda>data.
                    Inr (typ, m\<lparr>odm_TrackAlias := trackAlias, odm_GroupID := groupID,
                                odm_ObjectID := objectID,
                                odm_PublisherPriority := publisherPriority\<rparr>,
                         data, n1 + n2 + n3 + n4 + 1))))))))))))))
       (\<lambda>(typ, m, data, parsed).
     bindO (if typ AND 0x01 = 1
            then bindO (KVPList_parseLength qv [] data) (\<lambda>(pp, n).
                   Some (Inr (m\<lparr>odm_ObjectExtensionHeaders := Some pp\<rparr>, parsed + n)))
            else Some (Inr (m, parsed)))
       (\<lambda>(m, parsed).
     if typ AND 0x02 = 0
     then Some (Inr (m\<lparr>odm_ObjectPayload := data\<rparr>, parsed + length data))
     else Some (bindR (qv_Parse qv data) (\<lambda>(status, n).
            Inr (m\<lparr>odm_ObjectStatus := status\<rparr>, parsed + n)))))"

section \<open>Stream headers\<close>

type_synonym StreamType = uint64

definition StreamTypeFetch :: StreamType where "StreamTypeFetch = 0x05"
definition StreamTypeSubgroupSIDExt :: StreamType where "StreamTypeSubgroupSIDExt = 0x0d"

record FetchHeaderMessage =
  fhm_RequestID :: uint64

definition FetchHeaderMessage_Append :: "quicvarint \<Rightarrow> FetchHeaderMessage \<Rightarrow> bytes \<Rightarrow> bytes result" where
  "FetchHeaderMessage_Append qv m buf =
     bindR (qv_Append qv buf StreamTypeFetch) (\<lambda>buf. qv_Append qv buf (fhm_RequestID m))"

definition FetchHeaderMessage_parse :: "quicvarint \<Rightarrow> bytes \<Rightarrow> (FetchHeaderMessage \<times> bytes) result" where
  "FetchHeaderMessage_parse qv reader =
     bindR (qv_Read qv reader) (\<lambda>(requestID, reader). Inr (\<lparr>fhm_RequestID = requestID\<rparr>, reader))"

record SubgroupHeaderMessage =
  shm_TrackAlias :: uint64
  shm_GroupID :: uint64
  shm_SubgroupID :: uint64
  shm_PublisherPriority :: byte

definition SubgroupHeaderMessage_Append ::
  "quicvarint \<Rightarrow> SubgroupHeaderMessage \<Rightarrow> bytes \<Rightarrow> bytes result" where
  "SubgroupHeaderMessage_Append qv m buf =
     bindR (qv_Append qv buf StreamTypeSubgroupSIDExt) (\<lambda>buf.
     bindR (qv_Append qv buf (shm_TrackAlias m)) (\<lambda>buf.
     bindR (qv_Append qv buf (shm_GroupID m)) (\<lambda>buf.
     bindR (qv_Append qv buf (shm_SubgroupID m)) (\<lambda>buf.
       Inr (buf @ [shm_PublisherPriority m])))))"

definition SubgroupHeaderMessage_parse ::
  "quicvarint \<Rightarrow> bytes \<Rightarrow> bool \<Rightarrow> (SubgroupHeaderMessage \<times> bytes) result" where
  "SubgroupHeaderMessage_parse qv reader sid =
     bindR (qv_Read qv reader) (\<lambda>(trackAlias, reader).
     bindR (qv_Read qv reader) (\<lambda>(groupID, reader).
     bindR (if sid then qv_Read qv reader else Inr (0, reader)) (\<lambda>(subgroupID, reader).
     bindR (ReadByte reader) (\<lambda>(publisherPriority, reader).
       Inr (\<lparr>shm_TrackAlias = trackAlias, shm_GroupID = groupID, shm_SubgroupID = subgroupID,
             shm_PublisherPriority = publisherPriority\<rparr>, reader)))))"

section \<open>ObjectStreamParser\<close>

record ObjectStreamParser =
  osp_reader :: bytes
  osp_typ :: StreamType
  osp_identifier :: uint64
  osp_hasSubgroupID :: bool
  osp_hasExtensions :: bool
  osp_PublisherPriority :: byte
  osp_GroupID :: uint64
  osp_SubgroupID :: uint64

definition NewObjectStreamParser :: "quicvarint \<Rightarrow> bytes \<Rightarrow> ObjectStreamParser result" where
  "NewObjectStreamParser qv br =
     bindR (qv_Read qv br) (\<lambda>(streamType, br).
       if streamType = StreamTypeFetch
       then bindR (FetchHeaderMessage_parse qv br) (\<lambda>(fhm, br).
              Inr \<lparr>osp_reader = br, osp_typ = streamType, osp_identifier = fhm_RequestID fhm,
                   osp_hasSubgroupID = False, osp_hasExtensions = False,
                   osp_PublisherPriority = 0, osp_GroupID = 0, osp_SubgroupID = 0\<rparr>)
       else if 0x08 \<le> streamType \<and> streamType \<le> 0x0d
       then let ext = (streamType AND 0x01 > 0);
                sid = (streamType = 0x0c \<or> streamType = 0x0d)
            in bindR (SubgroupHeaderMessage_parse qv br sid) (\<lambda>(shsm, br).
                 Inr \<lparr>osp_reader = br, osp_typ = streamType,
                      osp_identifier = shm_TrackAlias shsm,
                      osp_hasSubgroupID = (streamType \<noteq> 0x0a \<and> streamType \<noteq> 0x0b),
                      osp_hasExtensions = ext,
                      osp_PublisherPriority = shm_PublisherPriority shsm,
                      osp_GroupID = shm_GroupID shsm, osp_SubgroupID = shm_SubgroupID shsm\<rparr>)
       else Inl (Fail errInvalidStreamType))"

definition parseSubgroupObject ::
  "quicvarint \<Rightarrow> ObjectStreamParser \<Rightarrow> (ObjectMessage \<times> ObjectStreamParser) result option" where
  "parseSubgroupObject qv p =
     (let m = \<lparr>om_TrackAlias = osp_identifier p, om_GroupID = osp_GroupID p,
               om_SubgroupID = osp_SubgroupID p, om_ObjectID = 0,
               om_PublisherPriority = osp_PublisherPriority p,
               om_ObjectExtensionHeaders = (if osp_hasExtensions p then Some [] else None),
               om_ObjectStatus = 0, om_ObjectPayload = []\<rparr>
      in bindO (readSubgroup qv m (osp_reader p)) (\<lambda>(m, br).
           let p = p\<lparr>osp_reader := br\<rparr>;
               p = (if \<not> osp_hasSubgroupID p
                    then p\<lparr>osp_SubgroupID := om_SubgroupID m, osp_hasSubgroupID := True\<rparr>
                    else p)
           in Some (Inr (m, p))))"

definition parseFetchObject ::
  "quicvarint \<Rightarrow> ObjectStreamParser \<Rightarrow> (ObjectMessage \<times> ObjectStreamParser) result option" where
  "parseFetchObject qv p =
     (let m = \<lparr>om_TrackAlias = 0, om_GroupID = osp_GroupID p, om_SubgroupID = 0,
               om_ObjectID = 0, om_PublisherPriority = osp_PublisherPriority p,
               om_ObjectExtensionHeaders = None, om_ObjectStatus = 0, om_ObjectPayload = []\<rparr>
      in bindO (readFetch qv m (osp_reader p)) (\<lambda>(m, br).
           Some (Inr (m, p\<lparr>osp_reader := br\<rparr>))))"

definition ObjectStreamParser_Parse ::
  "quicvarint \<Rightarrow> ObjectStreamParser \<Rightarrow> (ObjectMessage \<times> ObjectStreamParser) result option" where
  "ObjectStreamParser_Parse qv p =
     (if osp_typ p = StreamTypeFetch then parseFetchObject qv p
      else if 0x08 \<le> osp_typ p \<and> osp_typ p \<le> 0x0d then parseSubgroupObject qv p
      else Some (Inl (Fail errInvalidStreamType)))"

section \<open>Grammar of objects\<close>

definition enc_payload :: "quicvarint \<Rightarrow> bytes \<Rightarrow> ObjectStatus \<Rightarrow> bytes" where
  "enc_payload qv payload status =
     qv_enc qv (of_nat (length payload)) @ (if payload = [] then qv_enc qv status else payload)"

definition enc_subgroup_object :: "quicvarint \<Rightarrow> ObjectMessage \<Rightarrow> bytes" where
  "enc_subgroup_object qv m =
     qv_enc qv (om_ObjectID m) @ qv_enc qv 0 @ enc_payload qv (om_ObjectPayload m) (om_ObjectStatus m)"

definition enc_fetch_object :: "quicvarint \<Rightarrow> ObjectMessage \<Rightarrow> bytes" where
  "enc_fetch_object qv m =
     qv_enc qv (om_GroupID m) @ qv_enc qv (om_SubgroupID m) @ qv_enc qv (om_ObjectID m) @
     om_PublisherPriority m # qv_enc qv 0 @ enc_payload qv (om_ObjectPayload m) (om_ObjectStatus m)"

text \<open>Objects that a stream can carry: no extension headers, a payload that Go can allocate.\<close>

definition wf_object :: "ObjectMessage \<Rightarrow> bool" where
  "wf_object m \<longleftrightarrow>
     fits (om_GroupID m) \<and> fits (om_SubgroupID m) \<and> fits (om_ObjectID m) \<and>
     elems (om_ObjectExtensionHeaders m) = [] \<and> length (om_ObjectPayload m) \<le> maxAlloc \<and>
     fits (om_ObjectStatus m) \<and> (om_ObjectPayload m \<noteq> [] \<longrightarrow> om_ObjectStatus m = 0)"

text \<open>The object that a subgroup stream delivers takes its track and group from the stream.\<close>

definition subgroup_object :: "ObjectStreamParser \<Rightarrow> ObjectMessage \<Rightarrow> ObjectMessage" where
  "subgroup_object p m =
     \<lparr>om_TrackAlias = osp_identifier p, om_GroupID = osp_GroupID p,
      om_SubgroupID = osp_SubgroupID p, om_ObjectID = om_ObjectID m,
      om_PublisherPriority = osp_PublisherPriority p, om_ObjectExtensionHeaders = Some [],
      om_ObjectStatus = om_ObjectStatus m, om_ObjectPayload = om_ObjectPayload m\<rparr>"

definition fetch_object :: "ObjectMessage \<Rightarrow> ObjectMessage" where
  "fetch_object m = m\<lparr>om_TrackAlias := 0, om_ObjectExtensionHeaders := Some []\<rparr>"

definition enc_subgroup_header :: "quicvarint \<Rightarrow> SubgroupHeaderMessage \<Rightarrow> bytes" where
  "enc_subgroup_header qv h =
     qv_enc qv StreamTypeSubgroupSIDExt @ qv_enc qv (shm_TrackAlias h) @
     qv_enc qv (shm_GroupID h) @ qv_enc qv (shm_SubgroupID h) @ [shm_PublisherPriority h]"

definition wf_subgroup_header :: "SubgroupHeaderMessage \<Rightarrow> bool" where
  "wf_subgroup_header h \<longleftrightarrow>
     fits (shm_TrackAlias h) \<and> fits (shm_GroupID h) \<and> fits (shm_SubgroupID h)"

definition enc_fetch_header :: "quicvarint \<Rightarrow> FetchHeaderMessage \<Rightarrow> bytes" where
  "enc_fetch_header qv h = qv_enc qv StreamTypeFetch @ qv_enc qv (fhm_RequestID h)"

text \<open>The parsers that the two headers give, with the bytes that follow them.\<close>

definition subgroup_parser :: "SubgroupHeaderMessage \<Rightarrow> bytes \<Rightarrow> ObjectStreamParser" where
  "subgroup_parser h br =
     \<lparr>osp_reader = br, osp_typ = StreamTypeSubgroupSIDExt, osp_identifier = shm_TrackAlias h,
      osp_hasSubgroupID = True, osp_hasExtensions = True,
      osp_PublisherPriority = shm_PublisherPriority h, osp_GroupID = shm_GroupID h,
      osp_SubgroupID = shm_SubgroupID h\<rparr>"

definition fetch_parser :: "FetchHeaderMessage \<Rightarrow> bytes \<Rightarrow> ObjectStreamParser" where
  "fetch_parser h br =
     \<lparr>osp_reader = br, osp_typ = StreamTypeFetch, osp_identifier = fhm_RequestID h,
      osp_hasSubgroupID = False, osp_hasExtensions = False, osp_PublisherPriority = 0,
      osp_GroupID = 0, osp_SubgroupID = 0\<rparr>"

text \<open>Datagrams: the fields before the extension headers.\<close>

definition enc_datagram_head :: "quicvarint \<Rightarrow> uint64 \<Rightarrow> ObjectDatagramMessage \<Rightarrow> bytes" where
  "enc_datagram_head qv typ m =
     qv_enc qv typ @ qv_enc qv (odm_TrackAlias m) @ qv_enc qv (odm_GroupID m) @
     qv_enc qv (odm_ObjectID m) @ [odm_PublisherPriority m]"

definition wf_datagram :: "ObjectDatagramMessage \<Rightarrow> bool" where
  "wf_datagram m \<longleftrightarrow>
     fits (odm_TrackAlias m) \<and> fits (odm_GroupID m) \<and> fits (odm_ObjectID m) \<and>
     fits (odm_ObjectStatus m) \<and>
     list_all wf_kvp (elems (odm_ObjectExtensionHeaders m))"

section \<open>Lists of extension headers\<close>

text \<open>
  The loop of \<^verbatim>\<open>parseLength\<close> parses the same bytes again and again: once a pair is parsed, the
  function never returns.
\<close>

lemma parseLength_loop_diverges:
  assumes "data \<noteq> []" and "KeyValuePair_parse qv data = Inr x"
  shows "parseLength_loop qv data pp parsed = None"
proof (rule ccontr)
  assume "parseLength_loop qv data pp parsed \<noteq> None"
  then obtain r where ret: "parseLength_loop qv data pp parsed = Some r" by blast
  have "data = [] \<or> (\<exists>e. KeyValuePair_parse qv data = Inl e)"
  proof (rule parseLength_loop.raw_induct
      [where P = "\<lambda>qv data pp parsed r. data = [] \<or> (\<exists>e. KeyValuePair_parse qv data = Inl e)",
        OF _ ret])
    fix f qv data pp parsed r
    assume IH: "\<And>qv data pp parsed r. f qv data pp parsed = Some r \<Longrightarrow>
        data = [] \<or> (\<exists>e. KeyValuePair_parse qv data = Inl e)"
      and eq: "(if 0 < length data
         then case KeyValuePair_parse qv data of Inl e \<Rightarrow> Some (Inl e)
              | Inr (hdrExt, n) \<Rightarrow> f qv data (pp @ [hdrExt]) (parsed + n)
         else Some (Inr (pp, parsed))) = Some r"
    show "data = [] \<or> (\<exists>e. KeyValuePair_parse qv data = Inl e)"
    proof (cases "KeyValuePair_parse qv data")
      case (Inr y)
      then show ?thesis
        using eq IH [of qv data "pp @ [fst y]" "parsed + snd y" r]
        by (cases y) (auto split: if_splits)
    qed simp
  qed
  with assms show False by auto
qed

lemma parseLength_loop_error:
  "data \<noteq> [] \<Longrightarrow> KeyValuePair_parse qv data = Inl e \<Longrightarrow>
     parseLength_loop qv data pp parsed = Some (Inl e)"
  by (subst parseLength_loop.simps) simp

lemma parseLength_loop_nil [simp]: "parseLength_loop qv [] pp parsed = Some (Inr (pp, parsed))"
  by (subst parseLength_loop.simps) simp

lemma bindO_returns:
  "\<exists>r. x = Some r \<Longrightarrow> (\<And>y. \<exists>r. f y = Some r) \<Longrightarrow> \<exists>r. bindO x f = Some r"
  by (cases "(x, f)" rule: bindO.cases) auto

lemma ReadByte_shorter: "ReadByte br = Inr (b, br') \<Longrightarrow> length br' < length br"
  by (cases br) auto

context varint_codec
begin

lemma parseReader_consumes:
  assumes "KeyValuePair_parseReader qv r = Inr (p, r')"
  shows "length r' < length r"
proof -
  from assms obtain t r1 where t: "qv_Read qv r = Inr (t, r1)"
    and rest: "(if t mod 2 = 1
       then bindR (qv_Read qv r1) (\<lambda>(length, br).
            bindR (make_slice 1 (unat length)) (\<lambda>_.
            bindR (ReadFull br (unat length)) (\<lambda>(b, br).
              if List.length b \<noteq> unat length then Inl (Fail errLengthMismatch)
              else Inr (\<lparr>kvp_Type = t, kvp_ValueBytes = b, kvp_ValueVarInt = 0\<rparr>, br))))
       else bindR (qv_Read qv r1) (\<lambda>(v, br).
              Inr (\<lparr>kvp_Type = t, kvp_ValueBytes = [], kvp_ValueVarInt = v\<rparr>, br))) = Inr (p, r')"
    by (auto simp: KeyValuePair_parseReader_def bindR_eq_Inr)
  have "length r1 < length r" using Read_ok [OF t] by simp
  moreover have "length r' \<le> length r1"
  proof (cases "t mod 2 = 1")
    case True
    with rest obtain l r2 b where l: "qv_Read qv r1 = Inr (l, r2)"
      and b: "ReadFull r2 (unat l) = Inr (b, r')"
      by (auto simp: bindR_eq_Inr split: if_splits)
    from Read_ok [OF l] ReadFull_Inr [OF b] show ?thesis by auto
  next
    case False
    with rest obtain v where "qv_Read qv r1 = Inr (v, r')"
      by (auto simp: bindR_eq_Inr)
    from Read_ok [OF this] show ?thesis by simp
  qed
  ultimately show ?thesis by simp
qed

lemma parseLengthReader_loop_returns: "\<exists>e. parseLengthReader_loop qv lbr pp = Some e"
proof (induction lbr arbitrary: pp rule: length_induct)
  case (1 lbr)
  show ?case
  proof (cases "KeyValuePair_parseReader qv lbr")
    case (Inl e)
    then show ?thesis by (subst parseLengthReader_loop.simps) simp
  next
    case (Inr x)
    then obtain p lbr' where p: "KeyValuePair_parseReader qv lbr = Inr (p, lbr')"
      by (cases x) auto
    with "1.IH" parseReader_consumes have "\<exists>e. parseLengthReader_loop qv lbr' (pp @ [p]) = Some e"
      by blast
    with p show ?thesis by (subst parseLengthReader_loop.simps) simp
  qed
qed

lemma parseLengthReader_loop_enc:
  "list_all wf_kvp pps \<Longrightarrow>
     parseLengthReader_loop qv (concat (map (enc_kvp qv) pps)) acc = Some (Fail EOF)"
proof (induction pps arbitrary: acc)
  case Nil
  then show ?case
    by (subst parseLengthReader_loop.simps) (simp add: KeyValuePair_parseReader_def)
next
  case (Cons p pps)
  then show ?case
    by (subst parseLengthReader_loop.simps) (simp add: KeyValuePair_parseReader_enc)
qed

lemma parseLengthReader_zero [simp]:
  "KVPList_parseLengthReader qv pp (qv_enc qv 0 @ rest) = Some (Inr (pp, rest))"
  by (simp add: KVPList_parseLengthReader_def fits_def)

lemma enc_kvp_nonempty [simp]: "wf_kvp p \<Longrightarrow> enc_kvp qv p \<noteq> []"
  by (simp add: enc_kvp_def wf_kvp_def)

lemma parseLengthReader_headers:
  assumes "list_all wf_kvp pps" and "pps \<noteq> []"
    and len: "length (concat (map (enc_kvp qv) pps)) \<le> maxVarInt"
  shows "KVPList_parseLengthReader qv pp (enc_vbytes qv (concat (map (enc_kvp qv) pps)) @ rest)
           = Some (Inl (Fail EOF))"
proof -
  let ?e = "concat (map (enc_kvp qv) pps)"
  have "?e \<noteq> []" using assms by (cases pps) auto
  then have "(of_nat (length ?e) :: uint64) \<noteq> 0" using len by simp
  moreover have "nat (sint (of_nat (length ?e) :: uint64)) = length ?e"
    using len by (simp add: sint_fits del: length_concat)
  ultimately show ?thesis
    using len parseLengthReader_loop_enc [OF assms(1)]
    by (simp add: KVPList_parseLengthReader_def enc_vbytes_def del: length_concat)
qed

lemma parseLength_headers_diverge:
  assumes "list_all wf_kvp pps" and "pps \<noteq> []"
    and len: "length (concat (map (enc_kvp qv) pps)) \<le> maxVarInt"
  shows "KVPList_parseLength qv pp (enc_vbytes qv (concat (map (enc_kvp qv) pps)) @ rest) = None"
proof -
  let ?e = "concat (map (enc_kvp qv) pps)"
  obtain p pps' where p: "pps = p # pps'" "wf_kvp p" using assms by (cases pps) auto
  then have "KeyValuePair_parse qv ?e = Inr (p, length (enc_kvp qv p))" and "?e \<noteq> []"
    by simp_all
  then have "parseLength_loop qv ?e pp n = None" for n
    by (blast intro: parseLength_loop_diverges)
  then show ?thesis
    using len by (simp add: KVPList_parseLength_def enc_vbytes_def del: length_concat)
qed

section \<open>Objects on streams\<close>

lemma read_payload_enc:
  assumes "length payload \<le> maxAlloc" and "fits status"
  shows "read_payload qv m (enc_payload qv payload status @ rest)
    = Inr (if payload = [] then m\<lparr>om_ObjectStatus := status\<rparr>
           else m\<lparr>om_ObjectPayload := payload\<rparr>, rest)"
  using assms by (auto simp: read_payload_def enc_payload_def make_slice_def maxAlloc_le)

lemma appendLength_nil [simp]: "KVPList_appendLength qv [] buf = Inr (buf @ qv_enc qv 0)"
  by (simp add: KVPList_appendLength_def KVPList_length_def fits_def)

lemma AppendSubgroup_enc:
  "wf_object m \<Longrightarrow> AppendSubgroup qv m buf = Inr (buf @ enc_subgroup_object qv m)"
  by (simp add: AppendSubgroup_def wf_object_def enc_subgroup_object_def enc_payload_def maxAlloc_le)

lemma AppendFetch_enc:
  "wf_object m \<Longrightarrow> AppendFetch qv m buf = Inr (buf @ enc_fetch_object qv m)"
  by (simp add: AppendFetch_def wf_object_def enc_fetch_object_def enc_payload_def maxAlloc_le)

lemma SubgroupHeader_Append_enc:
  "wf_subgroup_header h \<Longrightarrow>
     SubgroupHeaderMessage_Append qv h buf = Inr (buf @ enc_subgroup_header qv h)"
  by (simp add: SubgroupHeaderMessage_Append_def enc_subgroup_header_def wf_subgroup_header_def
      StreamTypeSubgroupSIDExt_def fits_def maxVarInt_def)

lemma NewObjectStreamParser_subgroup:
  "wf_subgroup_header h \<Longrightarrow>
     NewObjectStreamParser qv (enc_subgroup_header qv h @ rest) = Inr (subgroup_parser h rest)"
  by (simp add: NewObjectStreamParser_def SubgroupHeaderMessage_parse_def subgroup_parser_def
      enc_subgroup_header_def wf_subgroup_header_def StreamTypeSubgroupSIDExt_def
      StreamTypeFetch_def fits_def maxVarInt_def)

lemma FetchHeader_Append_enc:
  "fits (fhm_RequestID h) \<Longrightarrow>
     FetchHeaderMessage_Append qv h buf = Inr (buf @ enc_fetch_header qv h)"
  by (simp add: FetchHeaderMessage_Append_def enc_fetch_header_def StreamTypeFetch_def fits_def
      maxVarInt_def)

lemma NewObjectStreamParser_fetch:
  "fits (fhm_RequestID h) \<Longrightarrow>
     NewObjectStreamParser qv (enc_fetch_header qv h @ rest) = Inr (fetch_parser h rest)"
  by (simp add: NewObjectStreamParser_def FetchHeaderMessage_parse_def fetch_parser_def
      enc_fetch_header_def StreamTypeFetch_def fits_def maxVarInt_def)

lemma Parse_subgroup_object:
  assumes "wf_object m"
  shows "ObjectStreamParser_Parse qv (subgroup_parser h (enc_subgroup_object qv m @ rest))
     = Some (Inr (subgroup_object (subgroup_parser h rest) m, subgroup_parser h rest))"
  using assms
  by (auto simp: ObjectStreamParser_Parse_def parseSubgroupObject_def readSubgroup_def
      subgroup_parser_def subgroup_object_def enc_subgroup_object_def wf_object_def
      StreamTypeSubgroupSIDExt_def StreamTypeFetch_def read_payload_enc Let_def)

lemma Parse_fetch_object:
  assumes "wf_object m"
  shows "ObjectStreamParser_Parse qv (fetch_parser h (enc_fetch_object qv m @ rest))
     = Some (Inr (fetch_object m, fetch_parser h rest))"
  using assms
  by (cases m)
    (auto simp: ObjectStreamParser_Parse_def parseFetchObject_def readFetch_def fetch_parser_def
      fetch_object_def enc_fetch_object_def wf_object_def StreamTypeFetch_def read_payload_enc
      Let_def)

lemma Parse_subgroup_empty:
  "ObjectStreamParser_Parse qv (subgroup_parser h []) = Some (Inl (Fail EOF))"
  by (simp add: ObjectStreamParser_Parse_def parseSubgroupObject_def readSubgroup_def
      subgroup_parser_def StreamTypeSubgroupSIDExt_def StreamTypeFetch_def)

lemma Parse_fetch_empty:
  "ObjectStreamParser_Parse qv (fetch_parser h []) = Some (Inl (Fail EOF))"
  by (simp add: ObjectStreamParser_Parse_def parseFetchObject_def readFetch_def
      fetch_parser_def StreamTypeFetch_def)

text \<open>Parsing one object of a stream always returns, and consumes at least a byte.\<close>

lemma parseLengthReader_returns: "\<exists>r. KVPList_parseLengthReader qv pp br = Some r"
  using parseLengthReader_loop_returns
  by (fastforce simp: KVPList_parseLengthReader_def split: sum.splits prod.splits)

lemma parseLengthReader_ok:
  "KVPList_parseLengthReader qv pp br = Some (Inr (pp', br')) \<Longrightarrow>
     length br' < length br \<and> pp' = pp"
  using Read_ok by (fastforce simp: KVPList_parseLengthReader_def split: sum.splits if_splits)

lemma read_payload_consumes:
  "read_payload qv m br = Inr (m', br') \<Longrightarrow> length br' < length br"
  by (fastforce simp: read_payload_def bindR_eq_Inr split: if_splits
      dest: Read_ok ReadFull_Inr)

lemma ObjectStreamParser_Parse_returns: "\<exists>r. ObjectStreamParser_Parse qv p = Some r"
  unfolding ObjectStreamParser_Parse_def parseFetchObject_def parseSubgroupObject_def Let_def
    readFetch_def readSubgroup_def
  by (auto intro!: bindO_returns parseLengthReader_returns split: option.splits)

lemma ObjectStreamParser_Parse_consumes:
  assumes "ObjectStreamParser_Parse qv p = Some (Inr (m, p'))"
  shows "length (osp_reader p') < length (osp_reader p)"
  using assms
  by (fastforce simp: ObjectStreamParser_Parse_def parseFetchObject_def parseSubgroupObject_def
      Let_def readFetch_def readSubgroup_def bindO_eq_Some_Inr
      split: option.splits if_splits
      dest: read_payload_consumes parseLengthReader_ok Read_ok ReadByte_shorter)

section \<open>Objects in datagrams\<close>

lemma datagram_head:
  assumes "wf_datagram m" and "fits typ"
  shows "ObjectDatagramMessage_Parse qv m' (enc_datagram_head qv typ m @ rest) =
     (let mh = m'\<lparr>odm_TrackAlias := odm_TrackAlias m, odm_GroupID := odm_GroupID m,
                  odm_ObjectID := odm_ObjectID m,
                  odm_PublisherPriority := odm_PublisherPriority m\<rparr>;
          h = length (enc_datagram_head qv typ m)
      in bindO (if typ AND 0x01 = 1
                then bindO (KVPList_parseLength qv [] rest) (\<lambda>(pp, n).
                       Some (Inr (mh\<lparr>odm_ObjectExtensionHeaders := Some pp\<rparr>, h + n)))
                else Some (Inr (mh, h)))
           (\<lambda>(m, parsed).
              if typ AND 0x02 = 0
              then Some (Inr (m\<lparr>odm_ObjectPayload := rest\<rparr>, parsed + length rest))
              else Some (bindR (qv_Parse qv rest) (\<lambda>(status, n).
                     Inr (m\<lparr>odm_ObjectStatus := status\<rparr>, parsed + n)))))"
  using assms
  by (simp add: ObjectDatagramMessage_Parse_def enc_datagram_head_def wf_datagram_def Let_def
      ac_simps)

lemma AppendDatagram_enc:
  assumes "wf_datagram m" and "odm_ObjectExtensionHeaders m = None"
  shows "AppendDatagram qv m buf =
    Inr (buf @ enc_datagram_head qv objectTypeDatagram m @ odm_ObjectPayload m)"
  using assms
  by (simp add: AppendDatagram_def enc_datagram_head_def wf_datagram_def objectTypeDatagram_def
      objectTypeDatagramExtension_def fits_def maxVarInt_def)

lemma AppendDatagram_ext_enc:
  assumes "wf_datagram m" and "odm_ObjectExtensionHeaders m = Some pp"
    and "length (concat (map (enc_kvp qv) pp)) \<le> maxVarInt"
  shows "AppendDatagram qv m buf =
    Inr (buf @ enc_datagram_head qv objectTypeDatagramExtension m @
         enc_vbytes qv (concat (map (enc_kvp qv) pp)) @ odm_ObjectPayload m)"
  using assms
  by (simp add: AppendDatagram_def enc_datagram_head_def wf_datagram_def objectTypeDatagram_def
      objectTypeDatagramExtension_def fits_def maxVarInt_def KVPList_appendLength_enc
      del: length_concat)

lemma AppendDatagramStatus_enc:
  assumes "wf_datagram m"
  shows "AppendDatagramStatus qv m buf =
    Inr (buf @ enc_datagram_head qv
           (if odm_ObjectExtensionHeaders m = None then objectTypeDatagramStatus
            else objectTypeDatagramStatusExtension) m @ qv_enc qv (odm_ObjectStatus m))"
  using assms
  by (simp add: AppendDatagramStatus_def enc_datagram_head_def wf_datagram_def
      objectTypeDatagramStatus_def objectTypeDatagramStatusExtension_def
      objectTypeDatagramExtension_def fits_def maxVarInt_def)

lemma datagram_roundtrip_payload:
  assumes "wf_datagram m" and "odm_ObjectExtensionHeaders m = None"
  shows "ObjectDatagramMessage_Parse qv newObjectDatagramMessage
           (enc_datagram_head qv objectTypeDatagram m @ odm_ObjectPayload m)
    = Some (Inr (m\<lparr>odm_ObjectStatus := 0\<rparr>,
                 length (enc_datagram_head qv objectTypeDatagram m) + length (odm_ObjectPayload m)))"
  using assms
  by (cases m)
    (simp add: datagram_head objectTypeDatagram_def fits_def newObjectDatagramMessage_def)

lemma datagram_roundtrip_status:
  assumes "wf_datagram m" and "odm_ObjectExtensionHeaders m = None"
  shows "ObjectDatagramMessage_Parse qv newObjectDatagramMessage
           (enc_datagram_head qv objectTypeDatagramStatus m @ qv_enc qv (odm_ObjectStatus m))
    = Some (Inr (m\<lparr>odm_ObjectPayload := []\<rparr>,
                 length (enc_datagram_head qv objectTypeDatagramStatus m)
                   + length (qv_enc qv (odm_ObjectStatus m))))"
  using assms
  by (cases m)
    (simp add: datagram_head objectTypeDatagramStatus_def fits_def maxVarInt_def wf_datagram_def
      newObjectDatagramMessage_def)

lemma datagram_with_headers_diverges:
  assumes "wf_datagram m" and "odm_ObjectExtensionHeaders m = Some pp" and "pp \<noteq> []"
    and "length (concat (map (enc_kvp qv) pp)) \<le> maxVarInt"
  shows "ObjectDatagramMessage_Parse qv m'
           (enc_datagram_head qv objectTypeDatagramExtension m @
            enc_vbytes qv (concat (map (enc_kvp qv) pp)) @ rest) = None"
  using assms parseLength_headers_diverge [of pp "[]" rest]
  by (simp add: datagram_head objectTypeDatagramExtension_def fits_def maxVarInt_def
      wf_datagram_def del: length_concat)

lemma datagram_empty_headers:
  assumes "wf_datagram m"
  shows "ObjectDatagramMessage_Parse qv newObjectDatagramMessage
           (enc_datagram_head qv objectTypeDatagramExtension m @ qv_enc qv 0 @ odm_ObjectPayload m)
    = Some (Inr (m\<lparr>odm_ObjectExtensionHeaders := Some [], odm_ObjectStatus := 0,
                   odm_ObjectPayload := qv_enc qv 0 @ odm_ObjectPayload m\<rparr>,
                 length (enc_datagram_head qv objectTypeDatagramExtension m)
                   + length (qv_enc qv 0) + (length (qv_enc qv 0) + length (odm_ObjectPayload m))))"
  using assms
  by (cases m)
    (simp add: datagram_head objectTypeDatagramExtension_def fits_def maxVarInt_def
      KVPList_parseLength_def slice_to_def newObjectDatagramMessage_def)

end

end
