(* ===== verification/Go_Strings.thy ===== *)
theory Go_Strings
  imports Go_Base
begin

text \<open>
  Strings of Go as the bytes they are: the literals of the source, numbers in decimal and hexadecimal
  as \<^verbatim>\<open>strconv\<close> and \<^verbatim>\<open>fmt\<close> write them, lower case. The lemmas read the numbers back: distinct
  numbers are written differently.
\<close>

section \<open>Literals\<close>

text \<open>ASCII strings of the source as the bytes they are.\<close>

definition ascii :: "string \<Rightarrow> gostring" where
  "ascii s = map of_char s"

lemma unat_of_char: "unat (of_char c :: byte) = (of_char c :: nat)"
proof -
  have "(of_char c :: byte) = of_nat (of_char c)" by (rule of_nat_of_char [symmetric])
  then have "unat (of_char c :: byte) = (of_char c :: nat) mod 256" by (simp only: unat_of_nat_byte)
  then show ?thesis by simp
qed

lemma ascii_inject: "ascii s = ascii t \<longleftrightarrow> s = t"
proof -
  have "inj (of_char :: char \<Rightarrow> byte)" by (rule injI) (metis unat_of_char of_char_eq_iff)
  then show ?thesis by (simp add: ascii_def inj_map_eq_map)
qed

section \<open>Decimal numbers\<close>

text \<open>\<^verbatim>\<open>strconv.FormatUint(x, 10)\<close>, also the format \<^verbatim>\<open>%v\<close> and \<^verbatim>\<open>%d\<close> of unsigned numbers, and reading digits.\<close>

fun decimal :: "nat \<Rightarrow> bytes" where
  "decimal n = (if n < 10 then [of_nat (48 + n)] else decimal (n div 10) @ [of_nat (48 + n mod 10)])"

definition FormatUint :: "uint64 \<Rightarrow> bytes" where
  "FormatUint x = decimal (unat x)"

fun parse_digits :: "nat \<Rightarrow> bytes \<Rightarrow> nat option" where
  "parse_digits acc [] = Some acc"
| "parse_digits acc (c # cs) =
     (if 48 \<le> unat c \<and> unat c \<le> 57 then parse_digits (10 * acc + (unat c - 48)) cs else None)"

lemma parse_digits_append:
  "parse_digits a (xs @ ys) = (case parse_digits a xs of None \<Rightarrow> None | Some b \<Rightarrow> parse_digits b ys)"
  by (induction a xs rule: parse_digits.induct) auto

lemma parse_decimal: "parse_digits 0 (decimal n) = Some n"
proof (induction n rule: decimal.induct)
  case (1 n)
  have d: "unat (48 + of_nat k :: byte) = 48 + k" if "k < 10" for k
    using that unat_of_nat_byte [of "48 + k"] by simp
  show ?case
  proof (cases "n < 10")
    case True
    with d [OF True] show ?thesis by (subst decimal.simps) simp
  next
    case False
    have "n mod 10 < 10" by simp
    from d [OF this] 1 [OF False] False show ?thesis
      by (subst decimal.simps) (simp add: parse_digits_append)
  qed
qed

lemma decimal_nonempty [simp]: "decimal n \<noteq> []"
  by (subst decimal.simps) simp

lemma decimal_inject: "decimal m = decimal n \<longleftrightarrow> m = n"
  using parse_decimal by (metis option.inject)

lemma FormatUint_inject: "FormatUint x = FormatUint y \<longleftrightarrow> x = y"
  by (simp add: FormatUint_def decimal_inject word_unat_eq_iff del: decimal.simps)

lemma decimal_digits: "c \<in> set (decimal n) \<Longrightarrow> 48 \<le> unat c \<and> unat c \<le> 57"
proof (induction n rule: decimal.induct)
  case (1 n)
  then show ?case
    by (subst (asm) decimal.simps) (auto simp: unat_of_nat_byte simp del: decimal.simps of_nat_add split: if_splits)
qed

section \<open>Hexadecimal numbers\<close>

text \<open>The format \<^verbatim>\<open>%x\<close> of an unsigned number.\<close>

definition hex_digit :: "nat \<Rightarrow> byte" where
  "hex_digit d = of_nat (if d < 10 then 48 + d else 87 + d)"

fun hexadecimal :: "nat \<Rightarrow> bytes" where
  "hexadecimal n = (if n < 16 then [hex_digit n] else hexadecimal (n div 16) @ [hex_digit (n mod 16)])"

definition hex_value :: "byte \<Rightarrow> nat" where
  "hex_value c = (if unat c < 58 then unat c - 48 else unat c - 87)"

definition read_hex :: "bytes \<Rightarrow> nat" where
  "read_hex s = foldl (\<lambda>acc c. 16 * acc + hex_value c) 0 s"

lemma hex_value_digit: "d < 16 \<Longrightarrow> hex_value (hex_digit d) = d"
  by (simp add: hex_value_def hex_digit_def unat_of_nat_byte del: of_nat_add)

lemma read_hexadecimal: "read_hex (hexadecimal n) = n"
proof (induction n rule: hexadecimal.induct)
  case (1 n)
  show ?case
  proof (cases "n < 16")
    case True
    then show ?thesis by (subst hexadecimal.simps) (simp add: read_hex_def hex_value_digit del: hexadecimal.simps)
  next
    case False
    with 1 show ?thesis by (subst hexadecimal.simps) (simp add: read_hex_def hex_value_digit del: hexadecimal.simps)
  qed
qed

lemma hexadecimal_inject: "hexadecimal m = hexadecimal n \<longleftrightarrow> m = n"
  using read_hexadecimal by metis

section \<open>Lower case\<close>

text \<open>
  \<^verbatim>\<open>strings.ToLower\<close> maps the bytes of an ASCII string; on other strings it follows the Unicode
  tables, the parameter \<open>unicode\<close>.
\<close>

definition lower_byte :: "byte \<Rightarrow> byte" where
  "lower_byte c = (if 65 \<le> c \<and> c \<le> 90 then c + 32 else c)"

definition ToLower :: "(gostring \<Rightarrow> gostring) \<Rightarrow> gostring \<Rightarrow> gostring" where
  "ToLower unicode s = (if \<forall>c \<in> set s. c < 128 then map lower_byte s else unicode s)"

end
