(* ===== verification/Error_Codes.thy ===== *)
theory Error_Codes
  imports Go_Strings
begin

text \<open>
  The error codes and the protocol errors of \<^verbatim>\<open>errors.go\<close> and the status codes of \<^verbatim>\<open>constants.go\<close>. The
  lemmas show that no two codes of one space are equal, that the text of a protocol error
  determines it, and that the two tables of reasons to end a subscription contradict each other.
\<close>

section \<open>Codes\<close>

text \<open>Ending the session.\<close>

type_synonym ErrorCode = uint64

definition ErrorCodeNoError :: ErrorCode where "ErrorCodeNoError = 0x00"
definition ErrorCodeInternal :: ErrorCode where "ErrorCodeInternal = 0x01"
definition ErrorCodeUnauthorized :: ErrorCode where "ErrorCodeUnauthorized = 0x02"
definition ErrorCodeProtocolViolation :: ErrorCode where "ErrorCodeProtocolViolation = 0x03"
definition ErrorCodeInvalidRequestID :: ErrorCode where "ErrorCodeInvalidRequestID = 0x04"
definition ErrorCodeDuplicateTrackAlias :: ErrorCode where "ErrorCodeDuplicateTrackAlias = 0x05"
definition ErrorCodeKeyValueFormattingError :: ErrorCode where "ErrorCodeKeyValueFormattingError = 0x06"
definition ErrorCodeTooManyRequests :: ErrorCode where "ErrorCodeTooManyRequests = 0x07"
definition ErrorCodeInvalidPath :: ErrorCode where "ErrorCodeInvalidPath = 0x08"
definition ErrorCodeMalformedPath :: ErrorCode where "ErrorCodeMalformedPath = 0x09"
definition ErrorCodeGoAwayTimeout :: ErrorCode where "ErrorCodeGoAwayTimeout = 0x10"
definition ErrorCodeControlMessageTimeout :: ErrorCode where "ErrorCodeControlMessageTimeout = 0x11"
definition ErrorCodeDataStreamTimeout :: ErrorCode where "ErrorCodeDataStreamTimeout = 0x12"
definition ErrorCodeAuthTokenCacheOverflow :: ErrorCode where "ErrorCodeAuthTokenCacheOverflow = 0x13"
definition ErrorCodeDuplicateAuthTokenAlias :: ErrorCode where "ErrorCodeDuplicateAuthTokenAlias = 0x14"
definition ErrorCodeVersionNegotiationFailed :: ErrorCode where "ErrorCodeVersionNegotiationFailed = 0x15"
definition ErrorCodeMalformedAuthToken :: ErrorCode where "ErrorCodeMalformedAuthToken = 0x16"
definition ErrorCodeUnknownAuthTokenAlias :: ErrorCode where "ErrorCodeUnknownAuthTokenAlias = 0x17"
definition ErrorCodeExpiredAuthToken :: ErrorCode where "ErrorCodeExpiredAuthToken = 0x18"

text \<open>Refusing a subscription.\<close>

type_synonym ErrorCodeSubscribe = uint64

definition ErrorCodeSubscribeInternal :: ErrorCodeSubscribe where "ErrorCodeSubscribeInternal = 0x00"
definition ErrorCodeSubscribeUnauthorized :: ErrorCodeSubscribe where "ErrorCodeSubscribeUnauthorized = 0x01"
definition ErrorCodeSubscribeTimeout :: ErrorCodeSubscribe where "ErrorCodeSubscribeTimeout = 0x02"
definition ErrorCodeSubscribeNotSupported :: ErrorCodeSubscribe where "ErrorCodeSubscribeNotSupported = 0x03"
definition ErrorCodeSubscribeTrackDoesNotExist :: ErrorCodeSubscribe where "ErrorCodeSubscribeTrackDoesNotExist = 0x04"
definition ErrorCodeSubscribeInvalidRange :: ErrorCodeSubscribe where "ErrorCodeSubscribeInvalidRange = 0x05"
definition ErrorCodeSubscribeMalformedAuthToken :: ErrorCodeSubscribe where "ErrorCodeSubscribeMalformedAuthToken = 0x10"
definition ErrorCodeSubscribeExpiredAuthToken :: ErrorCodeSubscribe where "ErrorCodeSubscribeExpiredAuthToken = 0x12"

text \<open>Ending a subscription.\<close>

type_synonym ErrorCodeSubscribeDone = uint64

definition ErrorCodeSubscribeDoneInternal :: ErrorCodeSubscribeDone where "ErrorCodeSubscribeDoneInternal = 0x00"
definition ErrorCodeSubscribeDoneUnauthorized :: ErrorCodeSubscribeDone where "ErrorCodeSubscribeDoneUnauthorized = 0x01"
definition ErrorCodeSubscribeDoneTrackEnded :: ErrorCodeSubscribeDone where "ErrorCodeSubscribeDoneTrackEnded = 0x02"
definition ErrorCodeSubscribeDoneSubscriptionEnded :: ErrorCodeSubscribeDone where "ErrorCodeSubscribeDoneSubscriptionEnded = 0x03"
definition ErrorCodeSubscribeDoneGoingAway :: ErrorCodeSubscribeDone where "ErrorCodeSubscribeDoneGoingAway = 0x04"
definition ErrorCodeSubscribeDoneExpired :: ErrorCodeSubscribeDone where "ErrorCodeSubscribeDoneExpired = 0x05"
definition ErrorCodeSubscribeDoneTooFarBehind :: ErrorCodeSubscribeDone where "ErrorCodeSubscribeDoneTooFarBehind = 0x06"
definition ErrorCodeSubscribeDoneMalformedTrack :: ErrorCodeSubscribeDone where "ErrorCodeSubscribeDoneMalformedTrack = 0x07"

text \<open>Refusing a publication.\<close>

type_synonym ErrorCodePublish = uint64

definition ErrorCodePublishInternalError :: ErrorCodePublish where "ErrorCodePublishInternalError = 0x00"
definition ErrorCodePublishUnauthorized :: ErrorCodePublish where "ErrorCodePublishUnauthorized = 0x01"
definition ErrorCodePublishTimeout :: ErrorCodePublish where "ErrorCodePublishTimeout = 0x02"
definition ErrorCodePublishNotSupported :: ErrorCodePublish where "ErrorCodePublishNotSupported = 0x03"
definition ErrorCodePublishUninterested :: ErrorCodePublish where "ErrorCodePublishUninterested = 0x04"

text \<open>Refusing a fetch.\<close>

type_synonym ErrorCodeFetch = uint64

definition ErrorCodeFetchInternal :: ErrorCodeFetch where "ErrorCodeFetchInternal = 0x00"
definition ErrorCodeFetchUnauthorized :: ErrorCodeFetch where "ErrorCodeFetchUnauthorized = 0x01"
definition ErrorCodeFetchTimeout :: ErrorCodeFetch where "ErrorCodeFetchTimeout = 0x02"
definition ErrorCodeFetchNotSupported :: ErrorCodeFetch where "ErrorCodeFetchNotSupported = 0x03"
definition ErrorCodeFetchTrackDoesNotExist :: ErrorCodeFetch where "ErrorCodeFetchTrackDoesNotExist = 0x04"
definition ErrorCodeFetchInvalidRange :: ErrorCodeFetch where "ErrorCodeFetchInvalidRange = 0x05"
definition ErrorCodeFetchNoObjects :: ErrorCodeFetch where "ErrorCodeFetchNoObjects = 0x06"
definition ErrorCodeFetchInvalidJoiningSubscribeID :: ErrorCodeFetch where "ErrorCodeFetchInvalidJoiningSubscribeID = 0x07"
definition ErrorCodeFetchUnknownStatusInRange :: ErrorCodeFetch where "ErrorCodeFetchUnknownStatusInRange = 0x08"
definition ErrorCodeFetchMalformedTrack :: ErrorCodeFetch where "ErrorCodeFetchMalformedTrack = 0x09"
definition ErrorCodeFetchMalformedAuthToken :: ErrorCodeFetch where "ErrorCodeFetchMalformedAuthToken = 0x10"
definition ErrorCodeFetchExpiredAuthToken :: ErrorCodeFetch where "ErrorCodeFetchExpiredAuthToken = 0x12"

text \<open>Refusing an announcement.\<close>

type_synonym ErrorCodeAnnounce = uint64

definition ErrorCodeAnnounceInternal :: ErrorCodeAnnounce where "ErrorCodeAnnounceInternal = 0x00"
definition ErrorCodeAnnounceUnauthorized :: ErrorCodeAnnounce where "ErrorCodeAnnounceUnauthorized = 0x01"
definition ErrorCodeAnnounceTimeout :: ErrorCodeAnnounce where "ErrorCodeAnnounceTimeout = 0x02"
definition ErrorCodeAnnounceNotSupported :: ErrorCodeAnnounce where "ErrorCodeAnnounceNotSupported = 0x03"
definition ErrorCodeAnnounceUninterested :: ErrorCodeAnnounce where "ErrorCodeAnnounceUninterested = 0x04"
definition ErrorCodeAnnounceMalformedAuthToken :: ErrorCodeAnnounce where "ErrorCodeAnnounceMalformedAuthToken = 0x10"
definition ErrorCodeAnnouncementExpiredAuthToken :: ErrorCodeAnnounce where "ErrorCodeAnnouncementExpiredAuthToken = 0x12"

text \<open>Refusing a subscription to announcements.\<close>

type_synonym ErrorCodeSubscribeNamespace = uint64

definition ErrorCodeSubscribeNamespaceInternal :: ErrorCodeSubscribeNamespace where "ErrorCodeSubscribeNamespaceInternal = 0x00"
definition ErrorCodeSubscribeNamespaceUnauthorized :: ErrorCodeSubscribeNamespace where "ErrorCodeSubscribeNamespaceUnauthorized = 0x01"
definition ErrorCodeSubscribeNamespaceTimeout :: ErrorCodeSubscribeNamespace where "ErrorCodeSubscribeNamespaceTimeout = 0x02"
definition ErrorCodeSubscribeNamespaceNotSupported :: ErrorCodeSubscribeNamespace where "ErrorCodeSubscribeNamespaceNotSupported = 0x03"
definition ErrorCodeSubscribeNamespaceNamespacePrefixUnknown :: ErrorCodeSubscribeNamespace where "ErrorCodeSubscribeNamespaceNamespacePrefixUnknown = 0x04"
definition ErrorCodeSubscribeNamespaceNamespacePrefixOverlap :: ErrorCodeSubscribeNamespace where "ErrorCodeSubscribeNamespaceNamespacePrefixOverlap = 0x05"
definition ErrorCodeSubscribeNamespaceMalformedAuthToken :: ErrorCodeSubscribeNamespace where "ErrorCodeSubscribeNamespaceMalformedAuthToken = 0x10"
definition ErrorCodeSubscribeNamespaceExpiredAuthToken :: ErrorCodeSubscribeNamespace where "ErrorCodeSubscribeNamespaceExpiredAuthToken = 0x12"

text \<open>Status codes of a subscription that has ended.\<close>

definition SubscribeStatusUnsubscribed :: uint64 where "SubscribeStatusUnsubscribed = 0x00"
definition SubscribeStatusInternalError :: uint64 where "SubscribeStatusInternalError = 0x01"
definition SubscribeStatusUnauthorized :: uint64 where "SubscribeStatusUnauthorized = 0x02"
definition SubscribeStatusTrackEnded :: uint64 where "SubscribeStatusTrackEnded = 0x03"
definition SubscribeStatusSubscriptionEnded :: uint64 where "SubscribeStatusSubscriptionEnded = 0x04"
definition SubscribeStatusGoingAway :: uint64 where "SubscribeStatusGoingAway = 0x05"
definition SubscribeStatusExpired :: uint64 where "SubscribeStatusExpired = 0x06"

text \<open>Status codes of a track.\<close>

definition TrackStatusInProgress :: uint64 where "TrackStatusInProgress = 0x00"
definition TrackStatusDoesNotExist :: uint64 where "TrackStatusDoesNotExist = 0x01"
definition TrackStatusNotYetBegun :: uint64 where "TrackStatusNotYetBegun = 0x02"
definition TrackStatusFinished :: uint64 where "TrackStatusFinished = 0x03"
definition TrackStatusUnavailable :: uint64 where "TrackStatusUnavailable = 0x04"

section \<open>Protocol errors\<close>

text \<open>\<^verbatim>\<open>%v\<close> of a code is its decimal number.\<close>

definition ProtocolError_Error :: "ErrorCode \<Rightarrow> gostring \<Rightarrow> gostring" where
  "ProtocolError_Error code message = FormatUint code @ ascii '': '' @ message"

definition ProtocolError_String :: "ErrorCode \<Rightarrow> gostring \<Rightarrow> gostring" where
  "ProtocolError_String code message = ProtocolError_Error code message"

definition ProtocolError_Code :: "ErrorCode \<Rightarrow> gostring \<Rightarrow> uint64" where
  "ProtocolError_Code code message = code"

definition errDuplicateRequestID :: go_error where
  "errDuplicateRequestID = ProtocolError ErrorCodeProtocolViolation (ascii ''duplicate request ID'')"

definition errMaxRequestIDDecreased :: go_error where
  "errMaxRequestIDDecreased =
     ProtocolError ErrorCodeProtocolViolation (ascii ''max request ID decreased'')"

definition errUnknownAnnouncement :: go_error where
  "errUnknownAnnouncement = ProtocolError ErrorCodeProtocolViolation (ascii ''unknown announcement'')"

definition errInvalidNamespaceLength :: go_error where
  "errInvalidNamespaceLength =
     ProtocolError ErrorCodeProtocolViolation (ascii ''invalid namespace length'')"

section \<open>Codes are told apart\<close>

lemma ErrorCode_distinct:
  "distinct [ErrorCodeNoError,
     ErrorCodeInternal,
     ErrorCodeUnauthorized,
     ErrorCodeProtocolViolation,
     ErrorCodeInvalidRequestID,
     ErrorCodeDuplicateTrackAlias,
     ErrorCodeKeyValueFormattingError,
     ErrorCodeTooManyRequests,
     ErrorCodeInvalidPath,
     ErrorCodeMalformedPath,
     ErrorCodeGoAwayTimeout,
     ErrorCodeControlMessageTimeout,
     ErrorCodeDataStreamTimeout,
     ErrorCodeAuthTokenCacheOverflow,
     ErrorCodeDuplicateAuthTokenAlias,
     ErrorCodeVersionNegotiationFailed,
     ErrorCodeMalformedAuthToken,
     ErrorCodeUnknownAuthTokenAlias,
     ErrorCodeExpiredAuthToken]"
  by (simp add: ErrorCodeNoError_def ErrorCodeInternal_def ErrorCodeUnauthorized_def ErrorCodeProtocolViolation_def ErrorCodeInvalidRequestID_def ErrorCodeDuplicateTrackAlias_def ErrorCodeKeyValueFormattingError_def ErrorCodeTooManyRequests_def ErrorCodeInvalidPath_def ErrorCodeMalformedPath_def ErrorCodeGoAwayTimeout_def ErrorCodeControlMessageTimeout_def ErrorCodeDataStreamTimeout_def ErrorCodeAuthTokenCacheOverflow_def ErrorCodeDuplicateAuthTokenAlias_def ErrorCodeVersionNegotiationFailed_def ErrorCodeMalformedAuthToken_def ErrorCodeUnknownAuthTokenAlias_def ErrorCodeExpiredAuthToken_def)

lemma ErrorCodeSubscribe_distinct:
  "distinct [ErrorCodeSubscribeInternal,
     ErrorCodeSubscribeUnauthorized,
     ErrorCodeSubscribeTimeout,
     ErrorCodeSubscribeNotSupported,
     ErrorCodeSubscribeTrackDoesNotExist,
     ErrorCodeSubscribeInvalidRange,
     ErrorCodeSubscribeMalformedAuthToken,
     ErrorCodeSubscribeExpiredAuthToken]"
  by (simp add: ErrorCodeSubscribeInternal_def ErrorCodeSubscribeUnauthorized_def ErrorCodeSubscribeTimeout_def ErrorCodeSubscribeNotSupported_def ErrorCodeSubscribeTrackDoesNotExist_def ErrorCodeSubscribeInvalidRange_def ErrorCodeSubscribeMalformedAuthToken_def ErrorCodeSubscribeExpiredAuthToken_def)

lemma ErrorCodeSubscribeDone_distinct:
  "distinct [ErrorCodeSubscribeDoneInternal,
     ErrorCodeSubscribeDoneUnauthorized,
     ErrorCodeSubscribeDoneTrackEnded,
     ErrorCodeSubscribeDoneSubscriptionEnded,
     ErrorCodeSubscribeDoneGoingAway,
     ErrorCodeSubscribeDoneExpired,
     ErrorCodeSubscribeDoneTooFarBehind,
     ErrorCodeSubscribeDoneMalformedTrack]"
  by (simp add: ErrorCodeSubscribeDoneInternal_def ErrorCodeSubscribeDoneUnauthorized_def ErrorCodeSubscribeDoneTrackEnded_def ErrorCodeSubscribeDoneSubscriptionEnded_def ErrorCodeSubscribeDoneGoingAway_def ErrorCodeSubscribeDoneExpired_def ErrorCodeSubscribeDoneTooFarBehind_def ErrorCodeSubscribeDoneMalformedTrack_def)

lemma ErrorCodePublish_distinct:
  "distinct [ErrorCodePublishInternalError,
     ErrorCodePublishUnauthorized,
     ErrorCodePublishTimeout,
     ErrorCodePublishNotSupported,
     ErrorCodePublishUninterested]"
  by (simp add: ErrorCodePublishInternalError_def ErrorCodePublishUnauthorized_def ErrorCodePublishTimeout_def ErrorCodePublishNotSupported_def ErrorCodePublishUninterested_def)

lemma ErrorCodeFetch_distinct:
  "distinct [ErrorCodeFetchInternal,
     ErrorCodeFetchUnauthorized,
     ErrorCodeFetchTimeout,
     ErrorCodeFetchNotSupported,
     ErrorCodeFetchTrackDoesNotExist,
     ErrorCodeFetchInvalidRange,
     ErrorCodeFetchNoObjects,
     ErrorCodeFetchInvalidJoiningSubscribeID,
     ErrorCodeFetchUnknownStatusInRange,
     ErrorCodeFetchMalformedTrack,
     ErrorCodeFetchMalformedAuthToken,
     ErrorCodeFetchExpiredAuthToken]"
  by (simp add: ErrorCodeFetchInternal_def ErrorCodeFetchUnauthorized_def ErrorCodeFetchTimeout_def ErrorCodeFetchNotSupported_def ErrorCodeFetchTrackDoesNotExist_def ErrorCodeFetchInvalidRange_def ErrorCodeFetchNoObjects_def ErrorCodeFetchInvalidJoiningSubscribeID_def ErrorCodeFetchUnknownStatusInRange_def ErrorCodeFetchMalformedTrack_def ErrorCodeFetchMalformedAuthToken_def ErrorCodeFetchExpiredAuthToken_def)

lemma ErrorCodeAnnounce_distinct:
  "distinct [ErrorCodeAnnounceInternal,
     ErrorCodeAnnounceUnauthorized,
     ErrorCodeAnnounceTimeout,
     ErrorCodeAnnounceNotSupported,
     ErrorCodeAnnounceUninterested,
     ErrorCodeAnnounceMalformedAuthToken,
     ErrorCodeAnnouncementExpiredAuthToken]"
  by (simp add: ErrorCodeAnnounceInternal_def ErrorCodeAnnounceUnauthorized_def ErrorCodeAnnounceTimeout_def ErrorCodeAnnounceNotSupported_def ErrorCodeAnnounceUninterested_def ErrorCodeAnnounceMalformedAuthToken_def ErrorCodeAnnouncementExpiredAuthToken_def)

lemma ErrorCodeSubscribeNamespace_distinct:
  "distinct [ErrorCodeSubscribeNamespaceInternal,
     ErrorCodeSubscribeNamespaceUnauthorized,
     ErrorCodeSubscribeNamespaceTimeout,
     ErrorCodeSubscribeNamespaceNotSupported,
     ErrorCodeSubscribeNamespaceNamespacePrefixUnknown,
     ErrorCodeSubscribeNamespaceNamespacePrefixOverlap,
     ErrorCodeSubscribeNamespaceMalformedAuthToken,
     ErrorCodeSubscribeNamespaceExpiredAuthToken]"
  by (simp add: ErrorCodeSubscribeNamespaceInternal_def ErrorCodeSubscribeNamespaceUnauthorized_def ErrorCodeSubscribeNamespaceTimeout_def ErrorCodeSubscribeNamespaceNotSupported_def ErrorCodeSubscribeNamespaceNamespacePrefixUnknown_def ErrorCodeSubscribeNamespaceNamespacePrefixOverlap_def ErrorCodeSubscribeNamespaceMalformedAuthToken_def ErrorCodeSubscribeNamespaceExpiredAuthToken_def)

lemma SubscribeStatus_distinct:
  "distinct [SubscribeStatusUnsubscribed,
     SubscribeStatusInternalError,
     SubscribeStatusUnauthorized,
     SubscribeStatusTrackEnded,
     SubscribeStatusSubscriptionEnded,
     SubscribeStatusGoingAway,
     SubscribeStatusExpired]"
  by (simp add: SubscribeStatusUnsubscribed_def SubscribeStatusInternalError_def SubscribeStatusUnauthorized_def SubscribeStatusTrackEnded_def SubscribeStatusSubscriptionEnded_def SubscribeStatusGoingAway_def SubscribeStatusExpired_def)

lemma TrackStatus_distinct:
  "distinct [TrackStatusInProgress,
     TrackStatusDoesNotExist,
     TrackStatusNotYetBegun,
     TrackStatusFinished,
     TrackStatusUnavailable]"
  by (simp add: TrackStatusInProgress_def TrackStatusDoesNotExist_def TrackStatusNotYetBegun_def TrackStatusFinished_def TrackStatusUnavailable_def)

text \<open>The same reason has different codes in the two tables, and the same code different reasons.\<close>

lemma done_codes_disagree:
  "SubscribeStatusTrackEnded \<noteq> ErrorCodeSubscribeDoneTrackEnded"
  "SubscribeStatusTrackEnded = ErrorCodeSubscribeDoneSubscriptionEnded"
  "SubscribeStatusUnauthorized = ErrorCodeSubscribeDoneTrackEnded"
  by (simp_all add: SubscribeStatusTrackEnded_def ErrorCodeSubscribeDoneTrackEnded_def
      ErrorCodeSubscribeDoneSubscriptionEnded_def SubscribeStatusUnauthorized_def)

text \<open>The text of an error is its code up to the first colon, and then the message.\<close>

lemma ProtocolError_Error_inject:
  "ProtocolError_Error c m = ProtocolError_Error c' m' \<longleftrightarrow> c = c' \<and> m = m'"
proof -
  have d: "takeWhile (\<lambda>b. b \<noteq> 58) (FormatUint x @ 58 # rest) = FormatUint x" for x rest
    using decimal_digits [of 58 "unat x"] by (auto simp: FormatUint_def takeWhile_tail simp del: decimal.simps)
  have "ProtocolError_Error c m = FormatUint c @ 58 # 32 # m" for c m
    by (simp add: ProtocolError_Error_def ascii_def)
  then show ?thesis by (metis d FormatUint_inject list.inject same_append_eq)
qed

end
