(* ===== verification/Request_IDs.thy ===== *)
theory Request_IDs
  imports Error_Codes
begin

text \<open>
  The generator of outgoing request IDs (\<^verbatim>\<open>request_id.go\<close>) and the sequence that numbers
  track aliases (\<^verbatim>\<open>sequence.go\<close>), both over \<^verbatim>\<open>uint64\<close> with its wrap-around. The lemmas
  give the \<open>n\<close>-th ID, its parity and bound, and show that IDs do not repeat.
\<close>

section \<open>requestIDGenerator\<close>

record requestIDGenerator =
  rg_id :: uint64
  rg_max :: uint64
  rg_interval :: uint64

definition newRequestIDGenerator :: "uint64 \<Rightarrow> uint64 \<Rightarrow> uint64 \<Rightarrow> requestIDGenerator" where
  "newRequestIDGenerator initialID maxID interval =
     \<lparr>rg_id = initialID, rg_max = maxID, rg_interval = interval\<rparr>"

text \<open>
  \<^verbatim>\<open>next\<close> returns an ID and an error; when the IDs are used up the error comes together with
  the maximum.
\<close>

definition requestIDGenerator_next ::
  "requestIDGenerator \<Rightarrow> (uint64 \<times> go_error option) \<times> requestIDGenerator" where
  "requestIDGenerator_next g =
     (if rg_id g \<ge> rg_max g then ((rg_max g, Some errRequestIDblocked), g)
      else ((rg_id g, None), g\<lparr>rg_id := rg_id g + rg_interval g\<rparr>))"

definition requestIDGenerator_setMax ::
  "requestIDGenerator \<Rightarrow> uint64 \<Rightarrow> go_error option \<times> requestIDGenerator" where
  "requestIDGenerator_setMax g v =
     (if v < rg_max g then (Some errMaxRequestIDDecreased, g) else (None, g\<lparr>rg_max := v\<rparr>))"

section \<open>sequence\<close>

record sequence =
  seq_last :: uint64
  seq_interval :: uint64

definition newSequence :: "uint64 \<Rightarrow> uint64 \<Rightarrow> sequence" where
  "newSequence initial interval = \<lparr>seq_last = initial, seq_interval = interval\<rparr>"

definition sequence_next :: "sequence \<Rightarrow> uint64 \<times> sequence" where
  "sequence_next s =
     (let v = seq_last s + seq_interval s
      in (v - seq_interval s, s\<lparr>seq_last := v\<rparr>))"

lemma sequence_next_simp [simp]:
  "sequence_next s = (seq_last s, s\<lparr>seq_last := seq_last s + seq_interval s\<rparr>)"
  by (simp add: sequence_next_def)

section \<open>Histories of the generator\<close>

text \<open>
  A history of calls: \<open>None\<close> is a call of \<^verbatim>\<open>next\<close>, \<open>Some v\<close> a call of \<^verbatim>\<open>setMax(v)\<close>.
  \<open>issued\<close> collects the IDs handed out.
\<close>

fun issued :: "requestIDGenerator \<Rightarrow> uint64 option list \<Rightarrow> uint64 list" where
  "issued g [] = []"
| "issued g (Some v # calls) = issued (snd (requestIDGenerator_setMax g v)) calls"
| "issued g (None # calls) =
     (case requestIDGenerator_next g of
        ((i, None), g') \<Rightarrow> i # issued g' calls
      | ((_, Some _), g') \<Rightarrow> issued g' calls)"

fun after :: "requestIDGenerator \<Rightarrow> uint64 option list \<Rightarrow> requestIDGenerator" where
  "after g [] = g"
| "after g (Some v # calls) = after (snd (requestIDGenerator_setMax g v)) calls"
| "after g (None # calls) = after (snd (requestIDGenerator_next g)) calls"

lemma setMax_max_mono: "rg_max g \<le> rg_max (snd (requestIDGenerator_setMax g v))"
  by (auto simp: requestIDGenerator_setMax_def)

lemma setMax_keeps [simp]:
  "rg_id (snd (requestIDGenerator_setMax g v)) = rg_id g"
  "rg_interval (snd (requestIDGenerator_setMax g v)) = rg_interval g"
  by (auto simp: requestIDGenerator_setMax_def)

lemma next_keeps [simp]:
  "rg_max (snd (requestIDGenerator_next g)) = rg_max g"
  "rg_interval (snd (requestIDGenerator_next g)) = rg_interval g"
  by (auto simp: requestIDGenerator_next_def)

lemma after_max_mono: "rg_max g \<le> rg_max (after g calls)"
proof (induction g calls rule: after.induct)
  case (2 g v calls)
  then show ?case using setMax_max_mono [of g v] by simp
qed simp_all

text \<open>The \<open>n\<close>-th issued ID is the initial ID plus \<open>n\<close> intervals, in \<^verbatim>\<open>uint64\<close> arithmetic.\<close>

lemma issued_nth:
  "n < length (issued g calls) \<Longrightarrow> issued g calls ! n = rg_id g + of_nat n * rg_interval g"
proof (induction g calls arbitrary: n rule: issued.induct)
  case (3 g calls)
  show ?case
  proof (cases "rg_id g \<ge> rg_max g")
    case True
    with 3 show ?thesis by (simp add: requestIDGenerator_next_def)
  next
    case False
    with 3 show ?thesis
      by (cases n) (simp_all add: requestIDGenerator_next_def algebra_simps)
  qed
qed simp_all

lemma issued_below_max: "i \<in> set (issued g calls) \<Longrightarrow> i < rg_max (after g calls)"
proof (induction g calls rule: issued.induct)
  case (3 g calls)
  show ?case
  proof (cases "rg_id g \<ge> rg_max g")
    case True
    with 3 show ?thesis by (simp add: requestIDGenerator_next_def)
  next
    case False
    with 3 show ?thesis
      using after_max_mono [of "g\<lparr>rg_id := rg_id g + rg_interval g\<rparr>" calls]
      by (auto simp: requestIDGenerator_next_def)
  qed
qed simp_all

text \<open>
  With the maximum within the 62 bits of a variable-length integer the counter never wraps, so
  the IDs are strictly increasing.
\<close>

lemma unat_add_small:
  fixes x y :: uint64
  assumes "unat x + unat y < 2 ^ 64"
  shows "unat (x + y) = unat x + unat y"
  using assms by (simp add: unat_word_ariths)

lemma issued_sorted:
  assumes "unat (rg_id g) + unat (rg_interval g) \<le> 2 ^ 63 - 1" and "0 < rg_interval g"
    and "unat (rg_interval g) \<le> 2 ^ 61"
    and "unat (rg_max (after g calls)) \<le> 2 ^ 62 - 1"
  shows "sorted_wrt (<) (issued g calls) \<and> (\<forall>i \<in> set (issued g calls). rg_id g \<le> i)"
  using assms
proof (induction g calls rule: issued.induct)
  case (3 g calls)
  let ?g = "g\<lparr>rg_id := rg_id g + rg_interval g\<rparr>"
  show ?case
  proof (cases "rg_id g \<ge> rg_max g")
    case True
    with 3 show ?thesis by (simp add: requestIDGenerator_next_def)
  next
    case False
    have "rg_max g \<le> rg_max (after ?g calls)"
      using after_max_mono [of ?g calls] by simp
    with False "3.prems"(4) have id: "unat (rg_id g) \<le> 2 ^ 62 - 1"
      by (simp add: requestIDGenerator_next_def word_le_nat_alt word_less_nat_alt)
    have sum: "unat (rg_id g + rg_interval g) = unat (rg_id g) + unat (rg_interval g)"
      using "3.prems"(1) by (intro unat_add_small) simp
    have lt: "rg_id g < rg_id g + rg_interval g"
      using sum "3.prems"(2) by (simp add: word_less_nat_alt)
    have IH: "sorted_wrt (<) (issued ?g calls) \<and> (\<forall>i \<in> set (issued ?g calls). rg_id ?g \<le> i)"
      by (rule "3.IH"(1) [of "(rg_id g, None)" ?g "rg_id g"])
        (use False "3.prems" id sum in \<open>auto simp: requestIDGenerator_next_def\<close>)
    with lt False show ?thesis
      by (fastforce simp: requestIDGenerator_next_def intro: order.strict_implies_order)
  qed
qed simp_all

end
