(* ===== verification/Track_Maps.thy ===== *)
theory Track_Maps
  imports Request_IDs Wire_Fields
begin

text \<open>
  The tables of a session: announcements (\<^verbatim>\<open>announcement_map.go\<close>), announcement subscriptions
  (\<^verbatim>\<open>announcement_subscription_map.go\<close>), local and remote tracks (\<^verbatim>\<open>local_track_map.go\<close>,
  \<^verbatim>\<open>remote_track_map.go\<close>) and track status requests (\<^verbatim>\<open>track_status_request_map.go\<close>). A Go
  map is a partial function; every method holds the mutex of its table, so it is one function
  from the table to its result and the new table. Pointers to tracks and channels are
  references (natural numbers) into the store of the session.

  The locale \<open>request_table\<close> states the contract of a table with pending and open requests,
  \<open>request_index\<close> adds checked insertion and lookup; both are interpreted on the tables of
  the code.
\<close>

type_synonym ref = nat
type_synonym 'v gomap = "uint64 \<rightharpoonup> 'v"

text \<open>\<^verbatim>\<open>delete(m, k)\<close>.\<close>

abbreviation map_delete :: "'v gomap \<Rightarrow> uint64 \<Rightarrow> 'v gomap" where
  "map_delete m k \<equiv> m(k := None)"

section \<open>announcementMap\<close>

record announcement =
  an_requestID :: uint64
  an_namespace :: Tuple
  an_parameters :: KVPList
  an_response :: ref

record announcementMap =
  am_pending :: "announcement gomap"
  am_announcements :: "announcement gomap"

text \<open>
  Go visits the entries of a map in an unspecified order: the loop of \<^verbatim>\<open>findAnnouncement\<close>
  takes the order of the keys as an argument.
\<close>

fun findAnnouncement :: "uint64 list \<Rightarrow> announcement gomap \<Rightarrow> Tuple \<Rightarrow> announcement option" where
  "findAnnouncement [] as namespace = None"
| "findAnnouncement (k # ks) as namespace =
     (case as k of
        Some v \<Rightarrow> if namespace = an_namespace v then Some v else findAnnouncement ks as namespace
      | None \<Rightarrow> findAnnouncement ks as namespace)"

definition newAnnouncementMap :: announcementMap where
  "newAnnouncementMap = \<lparr>am_pending = Map.empty, am_announcements = Map.empty\<rparr>"

definition announcementMap_add :: "announcementMap \<Rightarrow> announcement \<Rightarrow> announcementMap" where
  "announcementMap_add m a = m\<lparr>am_pending := (am_pending m)(an_requestID a \<mapsto> a)\<rparr>"

definition announcementMap_confirmAndGet ::
  "announcementMap \<Rightarrow> uint64 \<Rightarrow> (go_error + announcement) \<times> announcementMap" where
  "announcementMap_confirmAndGet m requestID =
     (case am_pending m requestID of
        None \<Rightarrow> (Inl errUnknownAnnouncement, m)
      | Some a \<Rightarrow>
          (Inr a, m\<lparr>am_pending := map_delete (am_pending m) requestID,
                    am_announcements := (am_announcements m)(requestID \<mapsto> a)\<rparr>))"

definition announcementMap_reject ::
  "announcementMap \<Rightarrow> uint64 \<Rightarrow> announcement option \<times> announcementMap" where
  "announcementMap_reject m requestID =
     (case am_pending m requestID of
        None \<Rightarrow> (None, m)
      | Some a \<Rightarrow> (Some a, m\<lparr>am_pending := map_delete (am_pending m) requestID\<rparr>))"

definition announcementMap_delete ::
  "(uint64 set \<Rightarrow> uint64 list) \<Rightarrow> announcementMap \<Rightarrow> Tuple \<Rightarrow> bool \<times> announcementMap" where
  "announcementMap_delete order m namespace =
     (case findAnnouncement (order (dom (am_pending m))) (am_pending m) namespace of
        Some a \<Rightarrow> (True, m\<lparr>am_pending := map_delete (am_pending m) (an_requestID a)\<rparr>)
      | None \<Rightarrow>
          (case findAnnouncement (order (dom (am_announcements m))) (am_announcements m) namespace of
             Some a \<Rightarrow>
               (True, m\<lparr>am_announcements := map_delete (am_announcements m) (an_requestID a)\<rparr>)
           | None \<Rightarrow> (False, m)))"

section \<open>announcementSubscriptionMap\<close>

record announcementSubscription =
  as_requestID :: uint64
  as_namespace :: Tuple
  as_response :: "ref option"

type_synonym announcementSubscriptionMap = "announcementSubscription gomap"

definition newAnnouncementSubscriptionMap :: announcementSubscriptionMap where
  "newAnnouncementSubscriptionMap = Map.empty"

fun findAnnouncementSubscription ::
  "uint64 list \<Rightarrow> announcementSubscriptionMap \<Rightarrow> Tuple \<Rightarrow> announcementSubscription option" where
  "findAnnouncementSubscription [] as namespace = None"
| "findAnnouncementSubscription (k # ks) as namespace =
     (case as k of
        Some v \<Rightarrow> if namespace = as_namespace v then Some v
                  else findAnnouncementSubscription ks as namespace
      | None \<Rightarrow> findAnnouncementSubscription ks as namespace)"

definition announcementSubscriptionMap_add ::
  "announcementSubscriptionMap \<Rightarrow> announcementSubscription \<Rightarrow> announcementSubscriptionMap" where
  "announcementSubscriptionMap_add m a = m(as_requestID a \<mapsto> a)"

definition announcementSubscriptionMap_delete ::
  "(uint64 set \<Rightarrow> uint64 list) \<Rightarrow> announcementSubscriptionMap \<Rightarrow> Tuple \<Rightarrow>
     announcementSubscription option \<times> announcementSubscriptionMap" where
  "announcementSubscriptionMap_delete order m namespace =
     (case findAnnouncementSubscription (order (dom m)) m namespace of
        Some as \<Rightarrow> (Some as, map_delete m (as_requestID as))
      | None \<Rightarrow> (None, m))"

definition announcementSubscriptionMap_deleteByID ::
  "announcementSubscriptionMap \<Rightarrow> uint64 \<Rightarrow>
     announcementSubscription option \<times> announcementSubscriptionMap" where
  "announcementSubscriptionMap_deleteByID m requestID = (m requestID, map_delete m requestID)"

section \<open>localTrackMap\<close>

text \<open>
  The table of local tracks holds pointers; \<^verbatim>\<open>lt.requestID\<close>, which is never changed, is
  passed along with the pointer.
\<close>

record localTrackMap =
  ltm_pending :: "ref gomap"
  ltm_open :: "ref gomap"

definition newLocalTrackMap :: localTrackMap where
  "newLocalTrackMap = \<lparr>ltm_pending = Map.empty, ltm_open = Map.empty\<rparr>"

definition localTrackMap_addPending ::
  "localTrackMap \<Rightarrow> uint64 \<Rightarrow> ref \<Rightarrow> bool \<times> localTrackMap" where
  "localTrackMap_addPending m requestID lt =
     (if ltm_pending m requestID \<noteq> None then (False, m)
      else if ltm_open m requestID \<noteq> None then (False, m)
      else (True, m\<lparr>ltm_pending := (ltm_pending m)(requestID \<mapsto> lt)\<rparr>))"

definition localTrackMap_findByID :: "localTrackMap \<Rightarrow> uint64 \<Rightarrow> ref option" where
  "localTrackMap_findByID m i =
     (case ltm_pending m i of Some sub \<Rightarrow> Some sub | None \<Rightarrow> ltm_open m i)"

definition localTrackMap_delete :: "localTrackMap \<Rightarrow> uint64 \<Rightarrow> ref option \<times> localTrackMap" where
  "localTrackMap_delete m i =
     (case (case ltm_pending m i of Some sub \<Rightarrow> Some sub | None \<Rightarrow> ltm_open m i) of
        None \<Rightarrow> (None, m)
      | Some sub \<Rightarrow>
          (Some sub, m\<lparr>ltm_pending := map_delete (ltm_pending m) i,
                       ltm_open := map_delete (ltm_open m) i\<rparr>))"

definition localTrackMap_confirm :: "localTrackMap \<Rightarrow> uint64 \<Rightarrow> ref option \<times> localTrackMap" where
  "localTrackMap_confirm m i =
     (case ltm_pending m i of
        None \<Rightarrow> (None, m)
      | Some lt \<Rightarrow> (Some lt, m\<lparr>ltm_pending := map_delete (ltm_pending m) i,
                               ltm_open := (ltm_open m)(i \<mapsto> lt)\<rparr>))"

definition localTrackMap_reject :: "localTrackMap \<Rightarrow> uint64 \<Rightarrow> ref option \<times> localTrackMap" where
  "localTrackMap_reject m i =
     (case ltm_pending m i of
        None \<Rightarrow> (None, m)
      | Some lt \<Rightarrow> (Some lt, m\<lparr>ltm_pending := map_delete (ltm_pending m) i\<rparr>))"

section \<open>remoteTrackMap\<close>

record remoteTrackMap =
  rtm_nextTrackAlias :: uint64
  rtm_pending :: "ref gomap"
  rtm_open :: "ref gomap"
  rtm_trackAliasToRequestID :: "uint64 gomap"

definition newRemoteTrackMap :: remoteTrackMap where
  "newRemoteTrackMap =
     \<lparr>rtm_nextTrackAlias = 0, rtm_pending = Map.empty, rtm_open = Map.empty,
      rtm_trackAliasToRequestID = Map.empty\<rparr>"

definition remoteTrackMap_findByRequestID :: "remoteTrackMap \<Rightarrow> uint64 \<Rightarrow> ref option" where
  "remoteTrackMap_findByRequestID m i =
     (case rtm_open m i of Some sub \<Rightarrow> Some sub | None \<Rightarrow> rtm_pending m i)"

definition remoteTrackMap_addPending ::
  "remoteTrackMap \<Rightarrow> uint64 \<Rightarrow> ref \<Rightarrow> go_error option \<times> remoteTrackMap" where
  "remoteTrackMap_addPending m requestID rt =
     (if rtm_pending m requestID \<noteq> None then (Some errDuplicateRequestIDBug, m)
      else if rtm_open m requestID \<noteq> None then (Some errDuplicateRequestIDBug, m)
      else (None, m\<lparr>rtm_pending := (rtm_pending m)(requestID \<mapsto> rt)\<rparr>))"

definition remoteTrackMap_addPendingWithAlias ::
  "remoteTrackMap \<Rightarrow> uint64 \<Rightarrow> ref \<Rightarrow> go_error option \<times> remoteTrackMap" where
  "remoteTrackMap_addPendingWithAlias m requestID rt =
     (if rtm_pending m requestID \<noteq> None then (Some errDuplicateRequestIDBug, m)
      else if rtm_open m requestID \<noteq> None then (Some errDuplicateRequestIDBug, m)
      else (None, m\<lparr>rtm_pending := (rtm_pending m)(requestID \<mapsto> rt)\<rparr>))"

definition remoteTrackMap_setAlias ::
  "remoteTrackMap \<Rightarrow> uint64 \<Rightarrow> uint64 \<Rightarrow> go_error option \<times> remoteTrackMap" where
  "remoteTrackMap_setAlias m i alias =
     (if rtm_trackAliasToRequestID m alias \<noteq> None then (Some errDuplicateTrackAliasBug, m)
      else (None, m\<lparr>rtm_trackAliasToRequestID := (rtm_trackAliasToRequestID m)(alias \<mapsto> i)\<rparr>))"

definition remoteTrackMap_confirm ::
  "remoteTrackMap \<Rightarrow> uint64 \<Rightarrow> (go_error + ref) \<times> remoteTrackMap" where
  "remoteTrackMap_confirm m i =
     (case rtm_pending m i of
        None \<Rightarrow> (Inl errUnknownRequestID, m)
      | Some s \<Rightarrow> (Inr s, m\<lparr>rtm_pending := map_delete (rtm_pending m) i,
                             rtm_open := (rtm_open m)(i \<mapsto> s)\<rparr>))"

definition remoteTrackMap_reject :: "remoteTrackMap \<Rightarrow> uint64 \<Rightarrow> ref option \<times> remoteTrackMap" where
  "remoteTrackMap_reject m i =
     (case rtm_pending m i of
        None \<Rightarrow> (None, m)
      | Some s \<Rightarrow> (Some s, m\<lparr>rtm_pending := map_delete (rtm_pending m) i\<rparr>))"

definition remoteTrackMap_findByTrackAlias :: "remoteTrackMap \<Rightarrow> uint64 \<Rightarrow> ref option" where
  "remoteTrackMap_findByTrackAlias m alias =
     (case rtm_trackAliasToRequestID m alias of
        None \<Rightarrow> None
      | Some i \<Rightarrow> remoteTrackMap_findByRequestID m i)"

section \<open>trackStatusRequestMap\<close>

record TrackStatus =
  ts_Namespace :: Tuple
  ts_Trackname :: gostring
  ts_StatusCode :: uint64
  ts_LastGroupID :: uint64
  ts_LastObjectID :: uint64

record trackStatusRequest =
  tsr_requestID :: uint64
  tsr_namespace :: Tuple
  tsr_trackname :: gostring
  tsr_response :: ref

type_synonym trackStatusRequestMap = "trackStatusRequest gomap"

definition newTrackStatusRequestMap :: trackStatusRequestMap where
  "newTrackStatusRequestMap = Map.empty"

definition trackStatusRequestMap_add ::
  "trackStatusRequestMap \<Rightarrow> trackStatusRequest \<Rightarrow> trackStatusRequestMap" where
  "trackStatusRequestMap_add m tsr = m(tsr_requestID tsr \<mapsto> tsr)"

text \<open>Despite its name, \<^verbatim>\<open>delete\<close> only looks the request up.\<close>

definition trackStatusRequestMap_delete ::
  "trackStatusRequestMap \<Rightarrow> uint64 \<Rightarrow> trackStatusRequest option \<times> trackStatusRequestMap" where
  "trackStatusRequestMap_delete m requestID = (m requestID, m)"

section \<open>The contract of a table of requests\<close>

locale request_table =
  fixes pending :: "'m \<Rightarrow> 't gomap"
    and opened :: "'m \<Rightarrow> 't gomap"
    and confirm :: "'m \<Rightarrow> uint64 \<Rightarrow> 't option \<times> 'm"
    and reject :: "'m \<Rightarrow> uint64 \<Rightarrow> 't option \<times> 'm"
  assumes confirm_result: "fst (confirm m k) = pending m k"
    and confirm_unknown: "pending m k = None \<Longrightarrow> snd (confirm m k) = m"
    and confirm_pending: "pending m k = Some t \<Longrightarrow> pending (snd (confirm m k)) = (pending m)(k := None)"
    and confirm_opened: "pending m k = Some t \<Longrightarrow> opened (snd (confirm m k)) = (opened m)(k \<mapsto> t)"
    and reject_result: "fst (reject m k) = pending m k"
    and reject_pending: "pending (snd (reject m k)) = (pending m)(k := None)"
    and reject_opened: "opened (snd (reject m k)) = opened m"

context request_table
begin

text \<open>A request is never both pending and open.\<close>

definition separated :: "'m \<Rightarrow> bool" where
  "separated m \<longleftrightarrow> dom (pending m) \<inter> dom (opened m) = {}"

lemma separated_iff: "separated m \<longleftrightarrow> (\<forall>k. pending m k = None \<or> opened m k = None)"
  unfolding separated_def disjoint_iff domIff by (simp only: not_not imp_conv_disj)

lemma confirm_separated: "separated m \<Longrightarrow> separated (snd (confirm m k))"
proof (cases "pending m k")
  case None
  then show "separated m \<Longrightarrow> separated (snd (confirm m k))" by (simp add: confirm_unknown)
next
  case (Some t)
  then show "separated m \<Longrightarrow> separated (snd (confirm m k))"
    by (auto simp: separated_iff confirm_pending confirm_opened)
qed

lemma reject_separated: "separated m \<Longrightarrow> separated (snd (reject m k))"
  by (auto simp: separated_iff reject_pending reject_opened)

text \<open>A response settles a request once: a second response to it finds nothing pending.\<close>

lemma confirm_settles: "pending (snd (confirm m k)) k = None"
  by (cases "pending m k") (simp_all add: confirm_unknown confirm_pending)

lemma reject_settles: "pending (snd (reject m k)) k = None"
  by (simp add: reject_pending)

lemma settled_once:
  "fst (confirm (snd (confirm m k)) k) = None" "fst (confirm (snd (reject m k)) k) = None"
  "fst (reject (snd (confirm m k)) k) = None" "fst (reject (snd (reject m k)) k) = None"
  by (simp_all add: confirm_result reject_result confirm_settles reject_settles)

text \<open>Responses to one request do not touch another.\<close>

lemma confirm_other:
  "k' \<noteq> k \<Longrightarrow> pending (snd (confirm m k)) k' = pending m k' \<and> opened (snd (confirm m k)) k' = opened m k'"
  by (cases "pending m k") (simp_all add: confirm_unknown confirm_pending confirm_opened)

lemma confirm_known:
  "dom (pending (snd (confirm m k))) \<union> dom (opened (snd (confirm m k)))
     = dom (pending m) \<union> dom (opened m)"
  by (cases "pending m k") (auto simp: confirm_unknown confirm_pending confirm_opened)

end

locale request_index = request_table pending opened confirm reject
  for pending :: "'m \<Rightarrow> 't gomap" and opened :: "'m \<Rightarrow> 't gomap"
    and confirm :: "'m \<Rightarrow> uint64 \<Rightarrow> 't option \<times> 'm"
    and reject :: "'m \<Rightarrow> uint64 \<Rightarrow> 't option \<times> 'm" +
  fixes add :: "'m \<Rightarrow> uint64 \<Rightarrow> 't \<Rightarrow> bool \<times> 'm"
    and find :: "'m \<Rightarrow> uint64 \<Rightarrow> 't option"
  assumes add_result: "fst (add m k t) \<longleftrightarrow> pending m k = None \<and> opened m k = None"
    and add_known: "\<not> fst (add m k t) \<Longrightarrow> snd (add m k t) = m"
    and add_pending: "fst (add m k t) \<Longrightarrow> pending (snd (add m k t)) = (pending m)(k \<mapsto> t)"
    and add_opened: "opened (snd (add m k t)) = opened m"
    and find_iff: "find m k = Some t \<Longrightarrow> pending m k = Some t \<or> opened m k = Some t"
    and find_known: "find m k = None \<longleftrightarrow> pending m k = None \<and> opened m k = None"

context request_index
begin

lemma add_separated: "separated m \<Longrightarrow> separated (snd (add m k t))"
  by (cases "fst (add m k t)")
    (auto simp: separated_iff add_known add_pending add_opened add_result)

lemma find_separated:
  "separated m \<Longrightarrow> find m k = Some t \<longleftrightarrow> pending m k = Some t \<or> opened m k = Some t"
  by (metis find_iff find_known option.distinct(1) option.exhaust separated_iff)

lemma find_add: "separated m \<Longrightarrow> find m k = None \<Longrightarrow> find (snd (add m k t)) k = Some t"
  by (simp add: find_separated add_separated add_pending add_result find_known)

lemma find_confirm: "separated m \<Longrightarrow> find (snd (confirm m k)) k' = find m k'"
proof -
  assume s: "separated m"
  have "find (snd (confirm m k)) k' = Some t \<longleftrightarrow> find m k' = Some t" for t
    using s
    by (cases "pending m k")
      (auto simp: find_separated confirm_separated confirm_unknown confirm_pending confirm_opened
        separated_iff dest: spec [of _ k])
  then show ?thesis by (metis option.exhaust)
qed

text \<open>A request ID is accepted at most once while it is known.\<close>

lemma add_twice: "\<not> fst (add (snd (add m k t)) k t')"
  by (cases "fst (add m k t)") (auto simp: add_result add_known add_pending add_opened)

lemma add_after_confirm: "pending m k = Some t \<Longrightarrow> \<not> fst (add (snd (confirm m k)) k t')"
  by (simp add: add_result confirm_opened)

end

section \<open>The tables meet the contract\<close>

definition ok_value :: "go_error + 'a \<Rightarrow> 'a option" where
  "ok_value r = (case r of Inl _ \<Rightarrow> None | Inr x \<Rightarrow> Some x)"

lemmas table_defs = announcementMap_confirmAndGet_def announcementMap_reject_def
  localTrackMap_addPending_def localTrackMap_findByID_def localTrackMap_confirm_def
  localTrackMap_reject_def remoteTrackMap_confirm_def remoteTrackMap_reject_def
  remoteTrackMap_addPending_def remoteTrackMap_addPendingWithAlias_def
  remoteTrackMap_findByRequestID_def ok_value_def

interpretation am: request_table am_pending am_announcements
  "\<lambda>m k. map_prod ok_value id (announcementMap_confirmAndGet m k)" announcementMap_reject
  by unfold_locales (auto simp: table_defs split: option.splits)

interpretation ltm: request_index ltm_pending ltm_open localTrackMap_confirm localTrackMap_reject
  localTrackMap_addPending localTrackMap_findByID
  by unfold_locales (auto simp: table_defs split: option.splits if_splits)

interpretation rtm: request_index rtm_pending rtm_open
  "\<lambda>m k. map_prod ok_value id (remoteTrackMap_confirm m k)" remoteTrackMap_reject
  "\<lambda>m k t. map_prod (\<lambda>e. e = None) id (remoteTrackMap_addPending m k t)"
  remoteTrackMap_findByRequestID
  by unfold_locales (auto simp: table_defs split: option.splits if_splits)

lemma addPendingWithAlias_eq: "remoteTrackMap_addPendingWithAlias = remoteTrackMap_addPending"
  by (simp add: fun_eq_iff table_defs)

end
