(* ===== verification/Tracks.thy ===== *)
theory Tracks
  imports Connection Object_Wire Track_Maps
begin

text \<open>
  Tracks and the streams of objects: the receiving side (\<^verbatim>\<open>remote_track.go\<close>), the sending side
  (\<^verbatim>\<open>local_track.go\<close>, \<^verbatim>\<open>subgroup.go\<close>, \<^verbatim>\<open>fetch_stream.go\<close>) and \<^verbatim>\<open>object.go\<close>, less logging. The
  lemmas show that what a publisher writes to a subgroup or fetch stream is what the subscriber's
  \<^verbatim>\<open>readStream\<close> puts in the buffer of the track, in order and up to its capacity.
\<close>

section \<open>Objects\<close>

text \<open>
  The second constant of \<^verbatim>\<open>object.go\<close> repeats the expression of the first, as Go defines for a
  constant without one: both have the value 0.
\<close>

definition ObjectForwardingPreferenceSubgroup :: int where "ObjectForwardingPreferenceSubgroup = 0x00"
definition ObjectForwardingPreferenceDatagram :: int where "ObjectForwardingPreferenceDatagram = 0x00"

record Object =
  obj_GroupID :: uint64
  obj_ObjectID :: uint64
  obj_ForwardingPreference :: int
  obj_SubGroupID :: uint64
  obj_Payload :: bytes

section \<open>Channels and contexts\<close>

text \<open>A send in a \<^verbatim>\<open>select\<close> with a default case: it is dropped when the channel is full.\<close>

definition try_send :: "nat \<Rightarrow> 'a list \<Rightarrow> 'a \<Rightarrow> bool \<times> 'a list" where
  "try_send capacity ch x = (if length ch < capacity then (True, ch @ [x]) else (False, ch))"

text \<open>\<^verbatim>\<open>context.CancelCauseFunc\<close>: the first cause stays.\<close>

definition cancel :: "go_error option \<Rightarrow> go_error \<Rightarrow> go_error option" where
  "cancel cause e = (case cause of None \<Rightarrow> Some e | Some c \<Rightarrow> Some c)"

section \<open>RemoteTrack\<close>

text \<open>
  The functions that a remote track holds are closures over its session: \<^verbatim>\<open>unsubscribeFunc\<close> is
  one of the two the session installs.
\<close>

datatype unsubscribe_func = CallUnsubscribe uint64 | CallFetchCancel uint64

record RemoteTrack =
  rt_requestID :: uint64
  rt_expires :: Duration
  rt_groupOrder :: GroupOrder
  rt_contentExists :: bool
  rt_largestLocation :: "Location option"
  rt_parameters :: KVPList
  rt_unsubscribeFunc :: "unsubscribe_func option"
  rt_updateFunc :: "uint64 option"
  rt_buffer :: "Object list"
  rt_done :: "go_error option"
  rt_subGroupCount :: uint64
  rt_fetchCount :: uint64
  rt_responseChan :: "go_error option list"

definition buffer_capacity :: nat where "buffer_capacity = 100"

definition newRemoteTrack ::
  "uint64 \<Rightarrow> unsubscribe_func option \<Rightarrow> uint64 option \<Rightarrow> RemoteTrack" where
  "newRemoteTrack requestID unsubscribeFunc updateFunc =
     \<lparr>rt_requestID = requestID, rt_expires = 0, rt_groupOrder = 0, rt_contentExists = False,
      rt_largestLocation = None, rt_parameters = [], rt_unsubscribeFunc = unsubscribeFunc,
      rt_updateFunc = updateFunc, rt_buffer = [], rt_done = None, rt_subGroupCount = 0,
      rt_fetchCount = 0, rt_responseChan = []\<rparr>"

definition RemoteTrack_RequestID :: "RemoteTrack \<Rightarrow> uint64" where
  "RemoteTrack_RequestID t = rt_requestID t"

definition RemoteTrack_Expires :: "RemoteTrack \<Rightarrow> Duration" where
  "RemoteTrack_Expires t = rt_expires t"

definition RemoteTrack_GroupOrder :: "RemoteTrack \<Rightarrow> GroupOrder" where
  "RemoteTrack_GroupOrder t = rt_groupOrder t"

definition RemoteTrack_Parameters :: "RemoteTrack \<Rightarrow> KVPList" where
  "RemoteTrack_Parameters t = rt_parameters t"

definition RemoteTrack_LargestLocation :: "RemoteTrack \<Rightarrow> Location \<times> bool" where
  "RemoteTrack_LargestLocation t =
     (case rt_largestLocation t of
        Some l \<Rightarrow> if rt_contentExists t then (l, True) else (\<lparr>loc_Group = 0, loc_Object = 0\<rparr>, False)
      | None \<Rightarrow> (\<lparr>loc_Group = 0, loc_Object = 0\<rparr>, False))"

text \<open>
  The cases of the \<^verbatim>\<open>select\<close> in \<^verbatim>\<open>ReadObject\<close>: which one runs when several are ready is the
  choice of the Go runtime, here the first argument. \<^term>\<open>None\<close> means that the chosen case is
  not ready. An object that is received together with a finished track comes with the error
  \<^verbatim>\<open>context.Canceled\<close>.
\<close>

datatype read_case = CtxDone go_error | TrackDone | FromBuffer

definition Canceled :: go_error where "Canceled = OtherError 0"

definition ReadObject ::
  "read_case \<Rightarrow> RemoteTrack \<Rightarrow> ((Object option \<times> go_error option) \<times> RemoteTrack) option" where
  "ReadObject c t =
     (case c of
        CtxDone e \<Rightarrow> Some ((None, Some e), t)
      | TrackDone \<Rightarrow> map_option (\<lambda>cause. ((None, Some cause), t)) (rt_done t)
      | FromBuffer \<Rightarrow>
          (case rt_buffer t of
             [] \<Rightarrow> None
           | obj # rest \<Rightarrow>
               Some ((Some obj, if rt_done t = None then None else Some Canceled),
                     t\<lparr>rt_buffer := rest\<rparr>)))"

definition RemoteTrack_push :: "RemoteTrack \<Rightarrow> Object \<Rightarrow> RemoteTrack" where
  "RemoteTrack_push t obj = t\<lparr>rt_buffer := snd (try_send buffer_capacity (rt_buffer t) obj)\<rparr>"

definition RemoteTrack_done :: "RemoteTrack \<Rightarrow> uint64 \<Rightarrow> gostring \<Rightarrow> RemoteTrack" where
  "RemoteTrack_done t status reason = t\<lparr>rt_done := cancel (rt_done t) (ErrSubscribeDone status reason)\<rparr>"

text \<open>
  The loop over the messages of the parser. \<^term>\<open>None\<close> would mean that it never ends; a copy
  of a payload into a slice of its length is always complete.
\<close>

partial_function (option) RemoteTrack_readStream ::
  "quicvarint \<Rightarrow> ObjectStreamParser \<Rightarrow> RemoteTrack \<Rightarrow> (unit result \<times> RemoteTrack) option" where
  "RemoteTrack_readStream qv parser t =
     (case ObjectStreamParser_Parse qv parser of
        None \<Rightarrow> None
      | Some (Inl e) \<Rightarrow> Some (if e = Fail EOF then Inr () else Inl e, t)
      | Some (Inr (m, parser)) \<Rightarrow>
          RemoteTrack_readStream qv parser
            (RemoteTrack_push t
               \<lparr>obj_GroupID = om_GroupID m, obj_ObjectID = om_ObjectID m,
                obj_ForwardingPreference = 0, obj_SubGroupID = om_SubgroupID m,
                obj_Payload = om_ObjectPayload m\<rparr>))"

definition RemoteTrack_readFetchStream ::
  "quicvarint \<Rightarrow> ObjectStreamParser \<Rightarrow> RemoteTrack \<Rightarrow> (unit result \<times> RemoteTrack) option" where
  "RemoteTrack_readFetchStream qv parser t =
     (let t = t\<lparr>rt_fetchCount := rt_fetchCount t + 1\<rparr>
      in if rt_fetchCount t > 1 then Some (Inl (Fail errTooManyFetchStreams), t)
         else RemoteTrack_readStream qv parser t)"

definition RemoteTrack_readSubgroupStream ::
  "quicvarint \<Rightarrow> ObjectStreamParser \<Rightarrow> RemoteTrack \<Rightarrow> (unit result \<times> RemoteTrack) option" where
  "RemoteTrack_readSubgroupStream qv parser t =
     RemoteTrack_readStream qv parser (t\<lparr>rt_subGroupCount := rt_subGroupCount t + 1\<rparr>)"

section \<open>Subgroup and FetchStream\<close>

record Subgroup =
  sg_stream :: nat
  sg_groupID :: uint64
  sg_subgroupID :: uint64

definition newSubgroup ::
  "quicvarint \<Rightarrow> net \<Rightarrow> nat \<Rightarrow> uint64 \<Rightarrow> uint64 \<Rightarrow> uint64 \<Rightarrow> byte \<Rightarrow> (Connection, Subgroup) st" where
  "newSubgroup qv net stream trackAlias groupID subgroupID publisherPriority =
     bindS (liftR (SubgroupHeaderMessage_Append qv
              \<lparr>shm_TrackAlias = trackAlias, shm_GroupID = groupID, shm_SubgroupID = subgroupID,
               shm_PublisherPriority = publisherPriority\<rparr> [])) (\<lambda>buf.
     thenS (write_stream net stream buf)
       (returnS \<lparr>sg_stream = stream, sg_groupID = groupID, sg_subgroupID = subgroupID\<rparr>))"

definition Subgroup_WriteObject ::
  "quicvarint \<Rightarrow> net \<Rightarrow> Subgroup \<Rightarrow> uint64 \<Rightarrow> bytes \<Rightarrow> (Connection, nat) st" where
  "Subgroup_WriteObject qv net s objectID payload =
     bindS (liftR (AppendSubgroup qv
              \<lparr>om_TrackAlias = 0, om_GroupID = 0, om_SubgroupID = 0, om_ObjectID = objectID,
               om_PublisherPriority = 0, om_ObjectExtensionHeaders = None, om_ObjectStatus = 0,
               om_ObjectPayload = payload\<rparr> [])) (\<lambda>buf.
     thenS (write_stream net (sg_stream s) buf)
       (returnS (length payload)))"

definition Subgroup_Close :: "net \<Rightarrow> Subgroup \<Rightarrow> (Connection, unit) st" where
  "Subgroup_Close net s = close_stream net (sg_stream s)"

record FetchStream =
  fs_stream :: nat

definition newFetchStream :: "quicvarint \<Rightarrow> net \<Rightarrow> nat \<Rightarrow> uint64 \<Rightarrow> (Connection, FetchStream) st" where
  "newFetchStream qv net stream requestID =
     bindS (liftR (FetchHeaderMessage_Append qv \<lparr>fhm_RequestID = requestID\<rparr> [])) (\<lambda>buf.
     thenS (write_stream net stream buf)
       (returnS \<lparr>fs_stream = stream\<rparr>))"

definition FetchStream_WriteObject ::
  "quicvarint \<Rightarrow> net \<Rightarrow> FetchStream \<Rightarrow> uint64 \<Rightarrow> uint64 \<Rightarrow> uint64 \<Rightarrow> byte \<Rightarrow> bytes \<Rightarrow>
     (Connection, nat) st" where
  "FetchStream_WriteObject qv net f groupID subgroupID objectID priority payload =
     bindS (liftR (AppendFetch qv
              \<lparr>om_TrackAlias = 0, om_GroupID = groupID, om_SubgroupID = subgroupID,
               om_ObjectID = objectID, om_PublisherPriority = priority,
               om_ObjectExtensionHeaders = None, om_ObjectStatus = 0,
               om_ObjectPayload = payload\<rparr> [])) (\<lambda>buf.
     thenS (write_stream net (fs_stream f) buf)
       (returnS (length payload)))"

definition FetchStream_Close :: "net \<Rightarrow> FetchStream \<Rightarrow> (Connection, unit) st" where
  "FetchStream_Close net f = close_stream net (fs_stream f)"

section \<open>localTrack\<close>

text \<open>
  \<open>lt_done\<close> is the cause that the context of the track was cancelled with, \<open>lt_subscribeDone\<close>
  tells whether the session installed the callback that sends SUBSCRIBE\_DONE.
\<close>

record localTrack =
  lt_requestID :: uint64
  lt_trackAlias :: uint64
  lt_subgroupCount :: uint64
  lt_fetchStream :: "FetchStream option"
  lt_done :: "go_error option"
  lt_subscribeDone :: bool

definition newLocalTrack :: "uint64 \<Rightarrow> uint64 \<Rightarrow> bool \<Rightarrow> localTrack" where
  "newLocalTrack requestID trackAlias onSubscribeDone =
     \<lparr>lt_requestID = requestID, lt_trackAlias = trackAlias, lt_subgroupCount = 0,
      lt_fetchStream = None, lt_done = None, lt_subscribeDone = onSubscribeDone\<rparr>"

text \<open>The methods of a local track act on the track and on the connection.\<close>

type_synonym 'a track_op = "(localTrack \<times> Connection, 'a) st"

definition on_conn :: "(Connection, 'a) st \<Rightarrow> 'a track_op" where
  "on_conn = onS snd (\<lambda>c (lt, _). (lt, c))"

definition localTrack_closed :: "unit track_op" where
  "localTrack_closed = (\<lambda>s. throwS (lt_done (fst s)) s)"

definition getFetchStream :: "quicvarint \<Rightarrow> net \<Rightarrow> FetchStream track_op" where
  "getFetchStream qv net =
     thenS localTrack_closed
     (bindS (getsS (\<lambda>s. lt_fetchStream (fst s))) (\<lambda>existing.
      case existing of
        Some f \<Rightarrow> returnS f
      | None \<Rightarrow>
          bindS (on_conn (OpenUniStream net)) (\<lambda>stream.
          bindS (getsS (\<lambda>s. lt_requestID (fst s))) (\<lambda>requestID.
          bindS (on_conn (newFetchStream qv net stream requestID)) (\<lambda>f.
          thenS (modifyS (\<lambda>(lt, c). (lt\<lparr>lt_fetchStream := Some f\<rparr>, c)))
            (returnS f))))))"

definition localTrack_sendDatagram :: "quicvarint \<Rightarrow> net \<Rightarrow> Object \<Rightarrow> unit track_op" where
  "localTrack_sendDatagram qv net obj =
     thenS localTrack_closed
     (bindS (getsS (\<lambda>s. lt_trackAlias (fst s))) (\<lambda>trackAlias.
      bindS (liftR (AppendDatagram qv
               \<lparr>odm_TrackAlias = trackAlias, odm_GroupID = obj_GroupID obj,
                odm_ObjectID = obj_ObjectID obj, odm_PublisherPriority = 0,
                odm_ObjectExtensionHeaders = None, odm_ObjectPayload = obj_Payload obj,
                odm_ObjectStatus = 0\<rparr> [])) (\<lambda>buf.
      on_conn (SendDatagram net buf))))"

definition openSubgroup :: "quicvarint \<Rightarrow> net \<Rightarrow> uint64 \<Rightarrow> uint64 \<Rightarrow> byte \<Rightarrow> Subgroup track_op" where
  "openSubgroup qv net groupID subgroupID priority =
     thenS localTrack_closed
     (bindS (on_conn (OpenUniStream net)) (\<lambda>stream.
      thenS (modifyS (\<lambda>(lt, c). (lt\<lparr>lt_subgroupCount := lt_subgroupCount lt + 1\<rparr>, c)))
      (bindS (getsS (\<lambda>s. lt_trackAlias (fst s))) (\<lambda>trackAlias.
       on_conn (newSubgroup qv net stream trackAlias groupID subgroupID priority)))))"

definition localTrack_unsubscribe :: "localTrack \<Rightarrow> localTrack" where
  "localTrack_unsubscribe lt = lt\<lparr>lt_done := cancel (lt_done lt) ErrUnsusbcribed\<rparr>"

section \<open>The buffer of a remote track\<close>

lemma RemoteTrack_push_buffer:
  "rt_buffer (RemoteTrack_push t ob) =
     (if length (rt_buffer t) < buffer_capacity then rt_buffer t @ [ob] else rt_buffer t)"
  by (simp add: RemoteTrack_push_def try_send_def)

lemma foldl_push:
  "length (rt_buffer t) \<le> buffer_capacity \<Longrightarrow>
     foldl RemoteTrack_push t obs = t\<lparr>rt_buffer := take buffer_capacity (rt_buffer t @ obs)\<rparr>"
proof (induction obs arbitrary: t)
  case (Cons ob obs)
  show ?case
  proof (cases "length (rt_buffer t) < buffer_capacity")
    case True
    with Cons.IH [of "RemoteTrack_push t ob"] show ?thesis
      by (simp add: RemoteTrack_push_buffer) (simp add: RemoteTrack_push_def)
  next
    case False
    with Cons.prems have "length (rt_buffer t) = buffer_capacity" by simp
    with Cons.IH [of "RemoteTrack_push t ob"] show ?thesis
      by (simp add: RemoteTrack_push_buffer) (simp add: RemoteTrack_push_def)
  qed
qed simp

section \<open>Reading a stream\<close>

definition object_of :: "ObjectMessage \<Rightarrow> Object" where
  "object_of m =
     \<lparr>obj_GroupID = om_GroupID m, obj_ObjectID = om_ObjectID m, obj_ForwardingPreference = 0,
      obj_SubGroupID = om_SubgroupID m, obj_Payload = om_ObjectPayload m\<rparr>"

text \<open>An application that writes a list of objects, with their IDs and payloads, to a subgroup.\<close>

fun write_objects :: "quicvarint \<Rightarrow> net \<Rightarrow> Subgroup \<Rightarrow> (uint64 \<times> bytes) list \<Rightarrow> (Connection, unit) st" where
  "write_objects qv net s [] = returnS ()"
| "write_objects qv net s ((i, payload) # objs) =
     bindS (Subgroup_WriteObject qv net s i payload) (\<lambda>_. write_objects qv net s objs)"

definition plain_object :: "uint64 \<times> bytes \<Rightarrow> ObjectMessage" where
  "plain_object ob =
     \<lparr>om_TrackAlias = 0, om_GroupID = 0, om_SubgroupID = 0, om_ObjectID = fst ob,
      om_PublisherPriority = 0, om_ObjectExtensionHeaders = None, om_ObjectStatus = 0,
      om_ObjectPayload = snd ob\<rparr>"

definition sendable :: "uint64 \<times> bytes \<Rightarrow> bool" where
  "sendable ob \<longleftrightarrow> fits (fst ob) \<and> length (snd ob) \<le> maxAlloc"

lemma fits_0 [simp]: "fits 0"
  by (simp add: fits_def)

lemma wf_plain_object [simp]: "wf_object (plain_object ob) \<longleftrightarrow> sendable ob"
  by (auto simp: wf_object_def plain_object_def sendable_def)

lemma write_stream_ok:
  assumes "\<And>n. net n = NetOk" and "i < length (cn_streams c)"
  shows "fst (write_stream net i bs c) = Inr ()"
    and "cn_streams (snd (write_stream net i bs c)) = (cn_streams c)[i := cn_streams c ! i @ bs]"
  using assms by (simp_all add: write_stream_def net_op_def)

context varint_codec
begin

text \<open>Reading a stream always returns.\<close>

lemma readStream_returns: "\<exists>r. RemoteTrack_readStream qv p t = Some r"
proof (induction "length (osp_reader p)" arbitrary: p t rule: less_induct)
  case less
  obtain r where r: "ObjectStreamParser_Parse qv p = Some r"
    using ObjectStreamParser_Parse_returns by blast
  show ?case
  proof (cases r)
    case (Inl e)
    with r show ?thesis by (subst RemoteTrack_readStream.simps) simp
  next
    case (Inr x)
    then obtain m p' where x: "r = Inr (m, p')" by (cases x) auto
    with r have "length (osp_reader p') < length (osp_reader p)"
      by (auto dest: ObjectStreamParser_Parse_consumes)
    from less [OF this] r x show ?thesis
      by (subst RemoteTrack_readStream.simps) simp
  qed
qed

lemma readStream_step:
  "ObjectStreamParser_Parse qv p = Some (Inr (m, p')) \<Longrightarrow>
     RemoteTrack_readStream qv p t = RemoteTrack_readStream qv p' (RemoteTrack_push t (object_of m))"
  by (subst RemoteTrack_readStream.simps) (simp add: object_of_def)

lemma readStream_end:
  "ObjectStreamParser_Parse qv p = Some (Inl e) \<Longrightarrow>
     RemoteTrack_readStream qv p t = Some (if e = Fail EOF then Inr () else Inl e, t)"
  by (subst RemoteTrack_readStream.simps) simp

lemma readStream_subgroup:
  "list_all wf_object ms \<Longrightarrow>
     RemoteTrack_readStream qv (subgroup_parser h (concat (map (enc_subgroup_object qv) ms))) t
       = Some (Inr (), foldl RemoteTrack_push t
                  (map (\<lambda>m. object_of (subgroup_object (subgroup_parser h []) m)) ms))"
proof (induction ms arbitrary: t)
  case Nil
  then show ?case by (simp add: readStream_end [OF Parse_subgroup_empty])
next
  case (Cons m ms)
  have eq: "object_of (subgroup_object (subgroup_parser h r) m)
      = object_of (subgroup_object (subgroup_parser h []) m)" for r
    by (simp add: object_of_def subgroup_object_def subgroup_parser_def)
  from Cons show ?case
    by (simp add: readStream_step [OF Parse_subgroup_object] eq [of "concat (map (enc_subgroup_object qv) ms)"])
qed

lemma readStream_fetch:
  "list_all wf_object ms \<Longrightarrow>
     RemoteTrack_readStream qv (fetch_parser h (concat (map (enc_fetch_object qv) ms))) t
       = Some (Inr (), foldl RemoteTrack_push t (map (\<lambda>m. object_of (fetch_object m)) ms))"
proof (induction ms arbitrary: t)
  case Nil
  then show ?case by (simp add: readStream_end [OF Parse_fetch_empty])
next
  case (Cons m ms)
  then show ?case by (simp add: readStream_step [OF Parse_fetch_object])
qed

section \<open>Writing a stream\<close>

lemma WriteObject_ok:
  assumes "\<And>n. net n = NetOk" and "sg_stream s < length (cn_streams c)" and "sendable (i, payload)"
  shows "fst (Subgroup_WriteObject qv net s i payload c) = Inr (length payload)"
    and "cn_streams (snd (Subgroup_WriteObject qv net s i payload c)) =
      (cn_streams c)[sg_stream s :=
         cn_streams c ! sg_stream s @ enc_subgroup_object qv (plain_object (i, payload))]"
proof -
  have "AppendSubgroup qv (plain_object (i, payload)) []
      = Inr ([] @ enc_subgroup_object qv (plain_object (i, payload)))"
    by (rule AppendSubgroup_enc) (simp add: assms(3))
  then show "fst (Subgroup_WriteObject qv net s i payload c) = Inr (length payload)"
    and "cn_streams (snd (Subgroup_WriteObject qv net s i payload c)) =
      (cn_streams c)[sg_stream s :=
         cn_streams c ! sg_stream s @ enc_subgroup_object qv (plain_object (i, payload))]"
    using assms(1,2)
    by (simp_all add: Subgroup_WriteObject_def plain_object_def write_stream_def net_op_def effects)
qed

lemma write_objects_ok:
  assumes "\<And>n. net n = NetOk" and "sg_stream s < length (cn_streams c)" and "list_all sendable obs"
  shows "fst (write_objects qv net s obs c) = Inr () \<and>
    cn_streams (snd (write_objects qv net s obs c)) = (cn_streams c)[sg_stream s :=
       cn_streams c ! sg_stream s @ concat (map (enc_subgroup_object qv \<circ> plain_object) obs)]"
  using assms(2,3)
proof (induction obs arbitrary: c)
  case Nil
  then show ?case by (simp add: returnS_def)
next
  case (Cons ob obs)
  obtain i payload where ob: "ob = (i, payload)" by (cases ob)
  let ?c = "snd (Subgroup_WriteObject qv net s i payload c)"
  have w: "fst (Subgroup_WriteObject qv net s i payload c) = Inr (length payload)"
    "cn_streams ?c = (cn_streams c)[sg_stream s :=
       cn_streams c ! sg_stream s @ enc_subgroup_object qv (plain_object ob)]"
    using WriteObject_ok [where net = net, OF assms(1)] Cons.prems ob by simp_all
  have "write_objects qv net s (ob # obs) c = write_objects qv net s obs ?c"
    by (simp add: ob bindS_fst w(1))
  with Cons.IH [of ?c] Cons.prems w(2) show ?case
    by simp
qed

lemma openSubgroup_ok:
  assumes "\<And>n. net n = NetOk" and "lt_done lt = None"
    and "wf_subgroup_header h" and "shm_TrackAlias h = lt_trackAlias lt"
  shows "\<exists>c'. openSubgroup qv net (shm_GroupID h) (shm_SubgroupID h) (shm_PublisherPriority h) (lt, c)
    = (Inr \<lparr>sg_stream = length (cn_streams c), sg_groupID = shm_GroupID h,
            sg_subgroupID = shm_SubgroupID h\<rparr>,
       (lt\<lparr>lt_subgroupCount := lt_subgroupCount lt + 1\<rparr>, c')) \<and>
       cn_streams c' = cn_streams c @ [enc_subgroup_header qv h]"
  using assms SubgroupHeader_Append_enc [OF assms(3), of "[]"]
  by (cases h)
    (simp add: openSubgroup_def localTrack_closed_def on_conn_def newSubgroup_def OpenUniStream_def
      write_stream_def net_op_def effects)

end

end
