(* ===== verification/Session_Messages.thy ===== *)
theory Session_Messages
  imports Tracks
begin

text \<open>
  The data that passes between a session and the application: parameter lists and options
  (\<^verbatim>\<open>messages.go\<close>, the functional options of \<^verbatim>\<open>session.go\<close> and \<^verbatim>\<open>subscribe_response_writer.go\<close>),
  messages (\<^verbatim>\<open>handler.go\<close>), and the parameter checks of \<^verbatim>\<open>session_helpers.go\<close>.
\<close>

section \<open>Parameter lists\<close>

text \<open>The two deep copies. The values of the model are immutable, so a copy has the same value.\<close>

definition ToWire :: "KVPList \<Rightarrow> KVPList" where
  "ToWire kvpl =
     map (\<lambda>param. \<lparr>kvp_Type = kvp_Type param, kvp_ValueBytes = [] @ kvp_ValueBytes param,
                   kvp_ValueVarInt = kvp_ValueVarInt param\<rparr>) kvpl"

definition FromWire :: "KVPList \<Rightarrow> KVPList" where
  "FromWire wireKVP =
     map (\<lambda>param. \<lparr>kvp_Type = kvp_Type param, kvp_ValueBytes = [] @ kvp_ValueBytes param,
                   kvp_ValueVarInt = kvp_ValueVarInt param\<rparr>) wireKVP"

definition zeroKVP :: KeyValuePair where
  "zeroKVP = \<lparr>kvp_Type = 0, kvp_ValueBytes = [], kvp_ValueVarInt = 0\<rparr>"

fun GetParameter :: "KVPList \<Rightarrow> uint64 \<Rightarrow> KeyValuePair \<times> bool" where
  "GetParameter [] key = (zeroKVP, False)"
| "GetParameter (param # kvpl) key =
     (if kvp_Type param = key then (param, True) else GetParameter kvpl key)"

fun GetDeliveryTimeout :: "KVPList \<Rightarrow> Duration \<times> bool" where
  "GetDeliveryTimeout [] = (0, False)"
| "GetDeliveryTimeout (param # kvpl) =
     (if kvp_Type param = DeliveryTimeoutParameterKey
      then (kvp_ValueVarInt param * Millisecond, True)
      else GetDeliveryTimeout kvpl)"

fun GetMaxCacheDuration :: "KVPList \<Rightarrow> Duration \<times> bool" where
  "GetMaxCacheDuration [] = (0, False)"
| "GetMaxCacheDuration (param # kvpl) =
     (if kvp_Type param = MaxCacheDurationParameterKey
      then if 0 < length (kvp_ValueBytes param) then (0, True)
           else (kvp_ValueVarInt param * Millisecond, True)
      else GetMaxCacheDuration kvpl)"

fun GetAuthorizationToken :: "KVPList \<Rightarrow> bytes \<times> bool" where
  "GetAuthorizationToken [] = ([], False)"
| "GetAuthorizationToken (param # kvpl) =
     (if kvp_Type param = AuthorizationTokenParameterKey \<and> 0 < length (kvp_ValueBytes param)
      then (kvp_ValueBytes param, True)
      else GetAuthorizationToken kvpl)"

section \<open>Options\<close>

record SubscribeOptions =
  so_SubscriberPriority :: byte
  so_GroupOrder :: GroupOrder
  so_Forward :: bool
  so_FilterType :: FilterType
  so_StartLocation :: Location
  so_EndGroup :: uint64
  so_Parameters :: KVPList

record SubscribeOkOptions =
  soo_Expires :: Duration
  soo_GroupOrder :: GroupOrder
  soo_ContentExists :: bool
  soo_LargestLocation :: "Location option"
  soo_Parameters :: KVPList

record SubscribeUpdateOptions =
  suo_StartLocation :: Location
  suo_EndGroup :: uint64
  suo_SubscriberPriority :: byte
  suo_Forward :: bool
  suo_Parameters :: KVPList

type_synonym SubscribeOption = "SubscribeOptions \<Rightarrow> SubscribeOptions"
type_synonym SubscribeOKOption = "SubscribeOkOptions \<Rightarrow> SubscribeOkOptions"
type_synonym SubscribeUpdateOption = "SubscribeUpdateOptions \<Rightarrow> SubscribeUpdateOptions"

definition WithSubscriberPriority :: "byte \<Rightarrow> SubscribeOption" where
  "WithSubscriberPriority priority opts = opts\<lparr>so_SubscriberPriority := priority\<rparr>"

definition WithSubscribeGroupOrder :: "GroupOrder \<Rightarrow> SubscribeOption" where
  "WithSubscribeGroupOrder groupOrder opts = opts\<lparr>so_GroupOrder := groupOrder\<rparr>"

definition WithForward :: "bool \<Rightarrow> SubscribeOption" where
  "WithForward forward opts = opts\<lparr>so_Forward := forward\<rparr>"

definition WithFilterType :: "FilterType \<Rightarrow> SubscribeOption" where
  "WithFilterType filterType opts = opts\<lparr>so_FilterType := filterType\<rparr>"

definition WithStartLocation :: "Location \<Rightarrow> SubscribeOption" where
  "WithStartLocation location opts = opts\<lparr>so_StartLocation := location\<rparr>"

definition WithEndGroup :: "uint64 \<Rightarrow> SubscribeOption" where
  "WithEndGroup endGroup opts = opts\<lparr>so_EndGroup := endGroup\<rparr>"

text \<open>The loop that replaces the token in place, \<^term>\<open>None\<close> when there is none to replace.\<close>

fun replace_token :: "bytes \<Rightarrow> KVPList \<Rightarrow> KVPList option" where
  "replace_token token [] = None"
| "replace_token token (param # params) =
     (if kvp_Type param = AuthorizationTokenParameterKey
      then Some (param\<lparr>kvp_ValueBytes := token\<rparr> # params)
      else map_option ((#) param) (replace_token token params))"

definition WithAuthorizationToken :: "gostring \<Rightarrow> SubscribeOption" where
  "WithAuthorizationToken token opts =
     (if length token > 0
      then (case replace_token token (so_Parameters opts) of
              Some params \<Rightarrow> opts\<lparr>so_Parameters := params\<rparr>
            | None \<Rightarrow>
                opts\<lparr>so_Parameters := so_Parameters opts @
                       [zeroKVP\<lparr>kvp_Type := AuthorizationTokenParameterKey,
                                kvp_ValueBytes := token\<rparr>]\<rparr>)
      else opts)"

definition WithSubscribeParameters :: "KVPList \<Rightarrow> SubscribeOption" where
  "WithSubscribeParameters parameters opts = opts\<lparr>so_Parameters := parameters\<rparr>"

definition WithUpdateStartLocation :: "Location \<Rightarrow> SubscribeUpdateOption" where
  "WithUpdateStartLocation location opts = opts\<lparr>suo_StartLocation := location\<rparr>"

definition WithUpdateEndGroup :: "uint64 \<Rightarrow> SubscribeUpdateOption" where
  "WithUpdateEndGroup endGroup opts = opts\<lparr>suo_EndGroup := endGroup\<rparr>"

definition WithUpdateSubscriberPriority :: "byte \<Rightarrow> SubscribeUpdateOption" where
  "WithUpdateSubscriberPriority priority opts = opts\<lparr>suo_SubscriberPriority := priority\<rparr>"

definition WithUpdateForward :: "bool \<Rightarrow> SubscribeUpdateOption" where
  "WithUpdateForward forward opts = opts\<lparr>suo_Forward := forward\<rparr>"

definition WithUpdateParameters :: "KVPList \<Rightarrow> SubscribeUpdateOption" where
  "WithUpdateParameters parameters opts = opts\<lparr>suo_Parameters := parameters\<rparr>"

definition WithExpires :: "Duration \<Rightarrow> SubscribeOKOption" where
  "WithExpires expires opts = opts\<lparr>soo_Expires := expires\<rparr>"

definition WithGroupOrder :: "GroupOrder \<Rightarrow> SubscribeOKOption" where
  "WithGroupOrder groupOrder opts = opts\<lparr>soo_GroupOrder := groupOrder\<rparr>"

definition WithLargestLocation :: "Location option \<Rightarrow> SubscribeOKOption" where
  "WithLargestLocation location opts =
     opts\<lparr>soo_LargestLocation := location, soo_ContentExists := (location \<noteq> None)\<rparr>"

definition WithParameters :: "KVPList \<Rightarrow> SubscribeOKOption" where
  "WithParameters parameters opts = opts\<lparr>soo_Parameters := parameters\<rparr>"

text \<open>\<^verbatim>\<open>for _, option := range options { option(opts) }\<close>.\<close>

definition apply_options :: "('o \<Rightarrow> 'o) list \<Rightarrow> 'o \<Rightarrow> 'o" where
  "apply_options options opts = foldl (\<lambda>opts option. option opts) opts options"

definition defaultSubscribeOptions :: SubscribeOptions where
  "defaultSubscribeOptions =
     \<lparr>so_SubscriberPriority = 128, so_GroupOrder = GroupOrderAscending, so_Forward = True,
      so_FilterType = FilterTypeLatestObject, so_StartLocation = zeroLocation, so_EndGroup = 0,
      so_Parameters = []\<rparr>"

definition defaultSubscribeUpdateOptions :: SubscribeUpdateOptions where
  "defaultSubscribeUpdateOptions =
     \<lparr>suo_StartLocation = zeroLocation, suo_EndGroup = 0, suo_SubscriberPriority = 128,
      suo_Forward = True, suo_Parameters = []\<rparr>"

definition defaultSubscribeOkOptions :: SubscribeOkOptions where
  "defaultSubscribeOkOptions =
     \<lparr>soo_Expires = 0, soo_GroupOrder = GroupOrderAscending, soo_ContentExists = False,
      soo_LargestLocation = None, soo_Parameters = []\<rparr>"

definition boolToUint8 :: "bool \<Rightarrow> byte" where
  "boolToUint8 b = (if b then 1 else 0)"

section \<open>Messages to the application\<close>

text \<open>\<^verbatim>\<open>SubscribeMessage\<close> and \<^verbatim>\<open>SubscribeUpdateMessage\<close> of \<^verbatim>\<open>messages.go\<close>, and \<^verbatim>\<open>Message\<close>.\<close>

record AppSubscribeMessage =
  asm_RequestID :: uint64
  asm_TrackAlias :: uint64
  asm_Namespace :: Tuple
  asm_Track :: gostring
  asm_Authorization :: gostring
  asm_SubscriberPriority :: byte
  asm_GroupOrder :: GroupOrder
  asm_Forward :: byte
  asm_FilterType :: FilterType
  asm_StartLocation :: "Location option"
  asm_EndGroup :: "uint64 option"
  asm_Parameters :: KVPList

record AppSubscribeUpdateMessage =
  aum_RequestID :: uint64
  aum_StartLocation :: Location
  aum_EndGroup :: uint64
  aum_SubscriberPriority :: byte
  aum_Forward :: byte
  aum_Parameters :: KVPList

datatype Method =
    MessageFetch
  | MessageAnnounce
  | MessageAnnounceCancel
  | MessageUnannounce
  | MessageTrackStatusRequest
  | MessageGoAway
  | MessageSubscribeAnnounces
  | MessageUnsubscribeAnnounces

record Message =
  msg_Method :: Method
  msg_RequestID :: uint64
  msg_Namespace :: Tuple
  msg_Track :: gostring
  msg_Authorization :: gostring
  msg_NewSessionURI :: gostring
  msg_ErrorCode :: uint64
  msg_ReasonPhrase :: gostring

text \<open>A message with the fields that a composite literal leaves out set to zero.\<close>

definition newMessage :: "Method \<Rightarrow> Message" where
  "newMessage method =
     \<lparr>msg_Method = method, msg_RequestID = 0, msg_Namespace = [], msg_Track = [],
      msg_Authorization = [], msg_NewSessionURI = [], msg_ErrorCode = 0, msg_ReasonPhrase = []\<rparr>"

section \<open>Parameter checks\<close>

text \<open>\<^verbatim>\<open>slices.IndexFunc\<close>, with \<^term>\<open>None\<close> for -1.\<close>

fun IndexFunc :: "('a \<Rightarrow> bool) \<Rightarrow> 'a list \<Rightarrow> nat option" where
  "IndexFunc f [] = None"
| "IndexFunc f (x # xs) = (if f x then Some 0 else map_option Suc (IndexFunc f xs))"

definition validatePathParameter :: "KVPList \<Rightarrow> bool \<Rightarrow> gostring result" where
  "validatePathParameter setupParameters protocolIsQUIC =
     (case IndexFunc (\<lambda>p. kvp_Type p = PathParameterKey) setupParameters of
        None \<Rightarrow> if protocolIsQUIC then Inl (Fail errMissingPathParameter) else Inr []
      | Some index \<Rightarrow>
          if index > 0 \<and> \<not> protocolIsQUIC then Inl (Fail errUnexpectedPathParameter)
          else Inr (kvp_ValueBytes (setupParameters ! index)))"

definition getMaxRequestIDParameter :: "KVPList \<Rightarrow> uint64" where
  "getMaxRequestIDParameter setupParameters =
     (case IndexFunc (\<lambda>p. kvp_Type p = MaxRequestIDParameterKey) setupParameters of
        None \<Rightarrow> 0
      | Some index \<Rightarrow> kvp_ValueVarInt (setupParameters ! index))"

definition validateAuthParameter :: "KVPList \<Rightarrow> gostring result" where
  "validateAuthParameter subscribeParameters =
     (case IndexFunc (\<lambda>p. kvp_Type p = AuthorizationTokenParameterKey) subscribeParameters of
        None \<Rightarrow> Inr []
      | Some index \<Rightarrow> Inr (kvp_ValueBytes (subscribeParameters ! index)))"

section \<open>Laws of lists of parameters and of options\<close>

lemma ToWire_id [simp]: "ToWire kvpl = kvpl"
  by (simp add: ToWire_def map_idI)

lemma FromWire_id [simp]: "FromWire kvpl = kvpl"
  by (simp add: FromWire_def map_idI)

lemma IndexFunc_None: "IndexFunc f xs = None \<longleftrightarrow> (\<forall>x \<in> set xs. \<not> f x)"
  by (induction xs) auto

lemma IndexFunc_Some:
  "IndexFunc f xs = Some i \<Longrightarrow> i < length xs \<and> f (xs ! i) \<and> (\<forall>j < i. \<not> f (xs ! j))"
proof (induction xs arbitrary: i)
  case (Cons x xs)
  then show ?case
    by (auto split: if_splits simp: nth_Cons split: nat.splits)
qed simp

text \<open>\<^verbatim>\<open>GetParameter\<close> returns the first parameter with the key, as \<^verbatim>\<open>IndexFunc\<close> finds it.\<close>

lemma GetParameter_IndexFunc:
  "GetParameter kvpl key =
     (case IndexFunc (\<lambda>p. kvp_Type p = key) kvpl of None \<Rightarrow> (zeroKVP, False) | Some i \<Rightarrow> (kvpl ! i, True))"
  by (induction kvpl) (auto split: option.splits)

text \<open>A token that was set is the token that is read back.\<close>

lemma replace_token_get:
  "replace_token token kvpl = Some params \<Longrightarrow> token \<noteq> [] \<Longrightarrow>
     GetAuthorizationToken params = (token, True)"
  by (induction kvpl arbitrary: params) (auto split: if_splits)

lemma replace_token_None:
  "replace_token token kvpl = None \<longleftrightarrow> (\<forall>p \<in> set kvpl. kvp_Type p \<noteq> AuthorizationTokenParameterKey)"
  by (induction kvpl) auto

lemma GetAuthorizationToken_append:
  "\<forall>p \<in> set kvpl. kvp_Type p \<noteq> AuthorizationTokenParameterKey \<Longrightarrow>
     GetAuthorizationToken (kvpl @ rest) = GetAuthorizationToken rest"
  by (induction kvpl) auto

lemma WithAuthorizationToken_get:
  assumes "token \<noteq> []"
  shows "GetAuthorizationToken (so_Parameters (WithAuthorizationToken token opts)) = (token, True)"
proof (cases "replace_token token (so_Parameters opts)")
  case None
  then have "\<forall>p \<in> set (so_Parameters opts). kvp_Type p \<noteq> AuthorizationTokenParameterKey"
    by (simp add: replace_token_None)
  with None assms show ?thesis
    by (simp add: WithAuthorizationToken_def GetAuthorizationToken_append zeroKVP_def)
next
  case (Some params)
  then show ?thesis
    using assms by (simp add: WithAuthorizationToken_def replace_token_get)
qed

text \<open>
  The peer's view of a token: \<^verbatim>\<open>validateAuthParameter\<close> of the subscriber's parameters gives
  the token, provided that no earlier parameter of that type was left in place.
\<close>

lemma replace_token_validate:
  "replace_token token kvpl = Some params \<Longrightarrow> validateAuthParameter params = Inr token"
proof (induction kvpl arbitrary: params)
  case (Cons p kvpl)
  then show ?case
    by (auto simp: validateAuthParameter_def split: if_splits option.splits)
qed simp

lemma IndexFunc_append_None:
  "IndexFunc f xs = None \<Longrightarrow>
     IndexFunc f (xs @ ys) = map_option (\<lambda>i. length xs + i) (IndexFunc f ys)"
  by (induction xs; cases "IndexFunc f ys") (auto split: if_splits)

lemma WithAuthorizationToken_validate:
  assumes "token \<noteq> []"
  shows "validateAuthParameter (so_Parameters (WithAuthorizationToken token opts)) = Inr token"
proof (cases "replace_token token (so_Parameters opts)")
  case None
  then have "IndexFunc (\<lambda>p. kvp_Type p = AuthorizationTokenParameterKey) (so_Parameters opts) = None"
    by (simp add: replace_token_None IndexFunc_None)
  with None assms show ?thesis
    by (simp add: WithAuthorizationToken_def validateAuthParameter_def IndexFunc_append_None zeroKVP_def)
next
  case (Some params)
  then show ?thesis
    using assms replace_token_validate by (simp add: WithAuthorizationToken_def)
qed

end
