(* ===== verification/Session.thy ===== *)
theory Session
  imports Session_Messages
begin

text \<open>
  The state of a session and the operations that send messages (\<^verbatim>\<open>session.go\<close>, "Session message
  senders", \<^verbatim>\<open>Run\<close>, the helpers for tracks and request IDs). A session is a record with the
  fields of the Go struct and a store for what the code shares by pointer: remote tracks, local
  tracks, response channels.

  A method that blocks in a \<^verbatim>\<open>select\<close> is two functions: the part up to the wait, and the part
  after it, which takes the case of the \<^verbatim>\<open>select\<close> that ran. The parts are atomic: the
  interleavings of the model switch between operations there.
\<close>

section \<open>State\<close>

datatype app_event =
    Handled Message
  | HandledSubscribe AppSubscribeMessage
  | HandledSubscribeUpdate AppSubscribeUpdateMessage

record Session =
  ses_handshakeDoneCh :: bool
  ses_handshakeDone :: bool
  ses_conn :: Connection
  ses_version :: Version
  ses_path :: gostring
  ses_localMaxRequestID :: uint64
  ses_requestIDs :: requestIDGenerator
  ses_highestRequestsBlocked :: uint64
  ses_outgoingAnnouncements :: announcementMap
  ses_incomingAnnouncements :: announcementMap
  ses_pendingOutgointAnnouncementSubscriptions :: announcementSubscriptionMap
  ses_pendingIncomingAnnouncementSubscriptions :: announcementSubscriptionMap
  ses_trackAliases :: sequence
  ses_remoteTracks :: remoteTrackMap
  ses_localTracks :: localTrackMap
  ses_outgoingTrackStatusRequests :: trackStatusRequestMap
  ses_next :: ref
  ses_rt :: "ref \<Rightarrow> RemoteTrack"
  ses_lt :: "ref \<Rightarrow> localTrack"
  ses_errCh :: "ref \<Rightarrow> go_error option list"
  ses_statusCh :: "ref \<Rightarrow> TrackStatus list"
  ses_app :: "app_event list"

text \<open>
  \<open>ses_handshakeDoneCh\<close> is whether that channel is closed. \<open>ses_next\<close> is the next free
  reference of the store, \<open>ses_rt\<close>, \<open>ses_lt\<close>, \<open>ses_errCh\<close> and \<open>ses_statusCh\<close> its contents.
  \<open>ses_app\<close> lists the calls of the application's handlers.

  The application's handlers are outside the repository: they are parameters. A handler is a
  function from the message to a script, the calls it makes on the response writer it was given,
  each choosing how to go on by the error the call returned.
\<close>

datatype 'c script = Done | Call 'c "go_error option \<Rightarrow> 'c script"

datatype rw_call =
    Accept
  | Reject uint64 gostring
  | OpenFetchStream
  | SetStatus uint64 uint64 uint64

datatype srw_call =
    SubscribeAccept "SubscribeOKOption list"
  | SubscribeReject uint64 gostring
  | PublishDatagram Object
  | PublishSubgroup uint64 uint64 byte
  | PublishClose uint64 gostring

text \<open>
  The parameters of a session: the varint library, the outcomes of network operations, the order
  in which Go visits the keys of a map, and the handlers, \<^term>\<open>None\<close> where the field is nil.
\<close>

record Env =
  env_qv :: quicvarint
  env_net :: net
  env_order :: "uint64 set \<Rightarrow> uint64 list"
  env_Handler :: "(Message \<Rightarrow> rw_call script) option"
  env_SubscribeHandler :: "(AppSubscribeMessage \<Rightarrow> srw_call script) option"
  env_SubscribeUpdateHandler :: bool

section \<open>Running on parts of a session\<close>

abbreviation put_conn :: "Connection \<Rightarrow> Session \<Rightarrow> Session" where
  "put_conn c s \<equiv> s\<lparr>ses_conn := c\<rparr>"

definition ses_write :: "Env \<Rightarrow> ControlMessage \<Rightarrow> (Session, unit) st" where
  "ses_write env msg = onS ses_conn put_conn (controlStream_write (env_qv env) (env_net env) msg)"

definition upd_requestIDs :: "(requestIDGenerator \<Rightarrow> 'a \<times> requestIDGenerator) \<Rightarrow> (Session, 'a) st" where
  "upd_requestIDs = updS ses_requestIDs (\<lambda>x s. s\<lparr>ses_requestIDs := x\<rparr>)"

definition upd_remoteTracks :: "(remoteTrackMap \<Rightarrow> 'a \<times> remoteTrackMap) \<Rightarrow> (Session, 'a) st" where
  "upd_remoteTracks = updS ses_remoteTracks (\<lambda>x s. s\<lparr>ses_remoteTracks := x\<rparr>)"

definition upd_localTracks :: "(localTrackMap \<Rightarrow> 'a \<times> localTrackMap) \<Rightarrow> (Session, 'a) st" where
  "upd_localTracks = updS ses_localTracks (\<lambda>x s. s\<lparr>ses_localTracks := x\<rparr>)"

definition upd_outgoingAnnouncements :: "(announcementMap \<Rightarrow> 'a \<times> announcementMap) \<Rightarrow> (Session, 'a) st" where
  "upd_outgoingAnnouncements = updS ses_outgoingAnnouncements (\<lambda>x s. s\<lparr>ses_outgoingAnnouncements := x\<rparr>)"

definition upd_incomingAnnouncements :: "(announcementMap \<Rightarrow> 'a \<times> announcementMap) \<Rightarrow> (Session, 'a) st" where
  "upd_incomingAnnouncements = updS ses_incomingAnnouncements (\<lambda>x s. s\<lparr>ses_incomingAnnouncements := x\<rparr>)"

definition upd_outgoingSubscriptions ::
  "(announcementSubscriptionMap \<Rightarrow> 'a \<times> announcementSubscriptionMap) \<Rightarrow> (Session, 'a) st" where
  "upd_outgoingSubscriptions =
     updS ses_pendingOutgointAnnouncementSubscriptions
       (\<lambda>x s. s\<lparr>ses_pendingOutgointAnnouncementSubscriptions := x\<rparr>)"

definition upd_trackStatusRequests ::
  "(trackStatusRequestMap \<Rightarrow> 'a \<times> trackStatusRequestMap) \<Rightarrow> (Session, 'a) st" where
  "upd_trackStatusRequests =
     updS ses_outgoingTrackStatusRequests (\<lambda>x s. s\<lparr>ses_outgoingTrackStatusRequests := x\<rparr>)"

text \<open>Allocation in the store, and methods of the objects there.\<close>

definition alloc_rt :: "RemoteTrack \<Rightarrow> (Session, ref) st" where
  "alloc_rt t s = (Inr (ses_next s), s\<lparr>ses_next := Suc (ses_next s), ses_rt := (ses_rt s)(ses_next s := t)\<rparr>)"

definition alloc_lt :: "localTrack \<Rightarrow> (Session, ref) st" where
  "alloc_lt t s = (Inr (ses_next s), s\<lparr>ses_next := Suc (ses_next s), ses_lt := (ses_lt s)(ses_next s := t)\<rparr>)"

definition alloc_errCh :: "(Session, ref) st" where
  "alloc_errCh s =
     (Inr (ses_next s), s\<lparr>ses_next := Suc (ses_next s), ses_errCh := (ses_errCh s)(ses_next s := [])\<rparr>)"

definition alloc_statusCh :: "(Session, ref) st" where
  "alloc_statusCh s =
     (Inr (ses_next s),
      s\<lparr>ses_next := Suc (ses_next s), ses_statusCh := (ses_statusCh s)(ses_next s := [])\<rparr>)"

definition modify_rt :: "ref \<Rightarrow> (RemoteTrack \<Rightarrow> RemoteTrack) \<Rightarrow> (Session, unit) st" where
  "modify_rt r f = modifyS (\<lambda>s. s\<lparr>ses_rt := (ses_rt s)(r := f (ses_rt s r))\<rparr>)"

definition modify_lt :: "ref \<Rightarrow> (localTrack \<Rightarrow> localTrack) \<Rightarrow> (Session, unit) st" where
  "modify_lt r f = modifyS (\<lambda>s. s\<lparr>ses_lt := (ses_lt s)(r := f (ses_lt s r))\<rparr>)"

definition on_track :: "ref \<Rightarrow> 'a track_op \<Rightarrow> (Session, 'a) st" where
  "on_track r =
     onS (\<lambda>s. (ses_lt s r, ses_conn s)) (\<lambda>(lt, c) s. s\<lparr>ses_lt := (ses_lt s)(r := lt), ses_conn := c\<rparr>)"

text \<open>
  The sends on response channels, all in a \<^verbatim>\<open>select\<close> with a default case and on channels of
  capacity 1. The result tells whether the value was sent.
\<close>

definition send_rt_response :: "ref \<Rightarrow> go_error option \<Rightarrow> (Session, bool) st" where
  "send_rt_response r e s =
     (let (ok, ch) = try_send 1 (rt_responseChan (ses_rt s r)) e
      in (Inr ok, s\<lparr>ses_rt := (ses_rt s)(r := (ses_rt s r)\<lparr>rt_responseChan := ch\<rparr>)\<rparr>))"

definition send_errCh :: "ref \<Rightarrow> go_error option \<Rightarrow> (Session, bool) st" where
  "send_errCh r e s =
     (let (ok, ch) = try_send 1 (ses_errCh s r) e
      in (Inr ok, s\<lparr>ses_errCh := (ses_errCh s)(r := ch)\<rparr>))"

definition send_statusCh :: "ref \<Rightarrow> TrackStatus \<Rightarrow> (Session, bool) st" where
  "send_statusCh r x s =
     (let (ok, ch) = try_send 1 (ses_statusCh s r) x
      in (Inr ok, s\<lparr>ses_statusCh := (ses_statusCh s)(r := ch)\<rparr>))"

text \<open>The waits: the context of the caller is done, or a response can be received.\<close>

datatype wait_case = ContextDone go_error | Response

definition wait_rt_response :: "wait_case \<Rightarrow> ref \<Rightarrow> Session \<Rightarrow> (go_error option \<times> Session) option" where
  "wait_rt_response w r s =
     (case w of
        ContextDone e \<Rightarrow> Some (Some e, s)
      | Response \<Rightarrow>
          (case rt_responseChan (ses_rt s r) of
             [] \<Rightarrow> None
           | e # ch \<Rightarrow>
               Some (e, s\<lparr>ses_rt := (ses_rt s)(r := (ses_rt s r)\<lparr>rt_responseChan := ch\<rparr>)\<rparr>)))"

definition wait_errCh :: "wait_case \<Rightarrow> ref \<Rightarrow> Session \<Rightarrow> (go_error option \<times> Session) option" where
  "wait_errCh w r s =
     (case w of
        ContextDone e \<Rightarrow> Some (Some e, s)
      | Response \<Rightarrow>
          (case ses_errCh s r of
             [] \<Rightarrow> None
           | e # ch \<Rightarrow> Some (e, s\<lparr>ses_errCh := (ses_errCh s)(r := ch)\<rparr>)))"

section \<open>Setting up\<close>

text \<open>
  The session as \<^verbatim>\<open>Run\<close> initialises it, before it starts its goroutines. \<^verbatim>\<open>PerspectiveClient\<close>
  is 0 and \<^verbatim>\<open>PerspectiveServer\<close> is 1. The reader goroutines are the operations of the theory of
  handlers.
\<close>

definition perspective_id :: "Perspective \<Rightarrow> uint64" where
  "perspective_id p = (case p of PerspectiveClient \<Rightarrow> 0 | PerspectiveServer \<Rightarrow> 1)"

definition newSession :: "uint64 \<Rightarrow> Connection \<Rightarrow> Session" where
  "newSession InitialMaxRequestID conn =
     \<lparr>ses_handshakeDoneCh = False, ses_handshakeDone = False, ses_conn = conn, ses_version = 0,
      ses_path = [], ses_localMaxRequestID = InitialMaxRequestID,
      ses_requestIDs = newRequestIDGenerator (perspective_id (cn_Perspective conn)) 0 2,
      ses_highestRequestsBlocked = 0,
      ses_outgoingAnnouncements = newAnnouncementMap,
      ses_incomingAnnouncements = newAnnouncementMap,
      ses_pendingOutgointAnnouncementSubscriptions = newAnnouncementSubscriptionMap,
      ses_pendingIncomingAnnouncementSubscriptions = newAnnouncementSubscriptionMap,
      ses_trackAliases = newSequence 0 1,
      ses_remoteTracks = newRemoteTrackMap, ses_localTracks = newLocalTrackMap,
      ses_outgoingTrackStatusRequests = newTrackStatusRequestMap,
      ses_next = 0, ses_rt = (\<lambda>_. newRemoteTrack 0 None None),
      ses_lt = (\<lambda>_. newLocalTrack 0 0 False), ses_errCh = (\<lambda>_. []), ses_statusCh = (\<lambda>_. []),
      ses_app = []\<rparr>"

definition sendClientSetup :: "Env \<Rightarrow> (Session, unit) st" where
  "sendClientSetup env =
     bindS (getsS (\<lambda>s. s)) (\<lambda>s.
       let params = [zeroKVP\<lparr>kvp_Type := MaxRequestIDParameterKey,
                             kvp_ValueVarInt := ses_localMaxRequestID s\<rparr>];
           params = (if cn_Protocol (ses_conn s) = ProtocolQUIC
                     then params @ [zeroKVP\<lparr>kvp_Type := PathParameterKey,
                                            kvp_ValueBytes := ses_path s\<rparr>]
                     else params)
       in ses_write env (ClientSetup \<lparr>csm_SupportedVersions = SupportedVersions,
                                      csm_SetupParameters = params\<rparr>))"

definition Session_Run :: "Env \<Rightarrow> uint64 \<Rightarrow> Connection \<Rightarrow> unit result \<times> Session" where
  "Session_Run env InitialMaxRequestID conn =
     (let s = newSession InitialMaxRequestID conn
      in if cn_Perspective conn = PerspectiveClient then sendClientSetup env s else (Inr (), s))"

section \<open>Tracks and request IDs\<close>

definition addLocalTrack :: "Env \<Rightarrow> ref \<Rightarrow> (Session, unit) st" where
  "addLocalTrack env lt =
     bindS (getsS (\<lambda>s. (lt_requestID (ses_lt s lt), ses_localMaxRequestID s))) (\<lambda>(requestID, oldMax).
       if requestID \<ge> oldMax then failS errMaxRequestIDViolated
       else thenS (if requestID \<ge> oldMax div 2
                   then let newMax = 2 * oldMax
                        in thenS (modifyS (\<lambda>s. s\<lparr>ses_localMaxRequestID := newMax\<rparr>))
                           (bindS (tryS (ses_write env (MaxRequestID \<lparr>mrm_RequestID = newMax\<rparr>)))
                              (\<lambda>_. returnS ()))
                   else returnS ())
            (bindS (upd_localTracks (\<lambda>m. localTrackMap_addPending m requestID lt)) (\<lambda>ok.
               if \<not> ok then failS errDuplicateRequestID else returnS ())))"

definition remoteTrackByRequestID :: "uint64 \<Rightarrow> (Session, ref option) st" where
  "remoteTrackByRequestID i = getsS (\<lambda>s. remoteTrackMap_findByRequestID (ses_remoteTracks s) i)"

definition remoteTrackByTrackAlias :: "uint64 \<Rightarrow> (Session, ref option) st" where
  "remoteTrackByTrackAlias alias = getsS (\<lambda>s. remoteTrackMap_findByTrackAlias (ses_remoteTracks s) alias)"

definition getRequestID :: "Env \<Rightarrow> (Session, uint64 \<times> go_error option) st" where
  "getRequestID env =
     bindS (upd_requestIDs requestIDGenerator_next) (\<lambda>(requestID, err).
       if err = Some errRequestIDblocked
       then bindS (tryS (ses_write env (RequestsBlocked \<lparr>rbm_MaximumRequestID = requestID\<rparr>)))
              (\<lambda>_. returnS (requestID, err))
       else returnS (requestID, err))"

text \<open>\<^verbatim>\<open>requestID, err := s.getRequestID(); if err != nil { return err }\<close>.\<close>

definition newRequestID :: "Env \<Rightarrow> (Session, uint64) st" where
  "newRequestID env =
     bindS (getRequestID env) (\<lambda>(requestID, err). thenS (throwS err) (returnS requestID))"

section \<open>Subscriptions\<close>

definition Session_unsubscribe :: "Env \<Rightarrow> uint64 \<Rightarrow> (Session, unit) st" where
  "Session_unsubscribe env i = ses_write env (Unsubscribe \<lparr>usm_RequestID = i\<rparr>)"

definition fetchCancel :: "Env \<Rightarrow> uint64 \<Rightarrow> (Session, unit) st" where
  "fetchCancel env i = ses_write env (FetchCancel \<lparr>fcm_RequestID = i\<rparr>)"

definition RemoteTrack_Close :: "Env \<Rightarrow> ref \<Rightarrow> (Session, unit) st" where
  "RemoteTrack_Close env rt =
     bindS (getsS (\<lambda>s. rt_unsubscribeFunc (ses_rt s rt))) (\<lambda>f.
       case f of
         None \<Rightarrow> returnS ()
       | Some g \<Rightarrow> (case g of CallUnsubscribe i \<Rightarrow> Session_unsubscribe env i
                             | CallFetchCancel i \<Rightarrow> fetchCancel env i))"

definition Subscribe_send ::
  "Env \<Rightarrow> Tuple \<Rightarrow> gostring \<Rightarrow> SubscribeOption list \<Rightarrow> (Session, ref) st" where
  "Subscribe_send env namespace name options =
     bindS (newRequestID env) (\<lambda>requestID.
     bindS (alloc_rt (newRemoteTrack requestID (Some (CallUnsubscribe requestID)) (Some requestID))) (\<lambda>rt.
     bindS (upd_remoteTracks (\<lambda>m. remoteTrackMap_addPendingWithAlias m requestID rt)) (\<lambda>err.
     thenS (throwS err)
     (let opts = apply_options options defaultSubscribeOptions
      in thenS (ses_write env (Subscribe
                  \<lparr>sm_RequestID = requestID, sm_TrackNamespace = namespace, sm_TrackName = name,
                   sm_SubscriberPriority = so_SubscriberPriority opts,
                   sm_GroupOrder = so_GroupOrder opts, sm_Forward = boolToUint8 (so_Forward opts),
                   sm_FilterType = so_FilterType opts, sm_StartLocation = so_StartLocation opts,
                   sm_EndGroup = so_EndGroup opts, sm_Parameters = ToWire (so_Parameters opts)\<rparr>))
           (returnS rt)))))"

text \<open>
  After the wait: on an error the pending track is removed. \<^term>\<open>None\<close> means that the chosen
  case of the \<^verbatim>\<open>select\<close> is not ready.
\<close>

definition Subscribe_wait :: "wait_case \<Rightarrow> ref \<Rightarrow> Session \<Rightarrow> (ref result \<times> Session) option" where
  "Subscribe_wait w rt s =
     (case wait_rt_response w rt s of
        None \<Rightarrow> None
      | Some (err, s) \<Rightarrow> Some
          ((case err of
              None \<Rightarrow> returnS rt
            | Some e \<Rightarrow>
                bindS (upd_remoteTracks (\<lambda>m. remoteTrackMap_reject m (rt_requestID (ses_rt s rt))))
                  (\<lambda>_. failS e)) s))"

definition UpdateSubscription ::
  "Env \<Rightarrow> uint64 \<Rightarrow> SubscribeUpdateOption list \<Rightarrow> (Session, unit) st" where
  "UpdateSubscription env requestID options =
     bindS (remoteTrackByRequestID requestID) (\<lambda>found.
       if found = None then failS errUnknownRequestID
       else let opts = apply_options options defaultSubscribeUpdateOptions
            in ses_write env (SubscribeUpdate
                 \<lparr>sum_RequestID = requestID, sum_StartLocation = suo_StartLocation opts,
                  sum_EndGroup = suo_EndGroup opts,
                  sum_SubscriberPriority = suo_SubscriberPriority opts,
                  sum_Forward = boolToUint8 (suo_Forward opts),
                  sum_Parameters = ToWire (suo_Parameters opts)\<rparr>))"

text \<open>The error of a track without an update function (a fetch) is created in place.\<close>

definition RemoteTrack_UpdateSubscription ::
  "Env \<Rightarrow> ref \<Rightarrow> SubscribeUpdateOption list \<Rightarrow> (Session, unit) st" where
  "RemoteTrack_UpdateSubscription env rt options =
     bindS (getsS (\<lambda>s. rt_updateFunc (ses_rt s rt))) (\<lambda>f.
       case f of None \<Rightarrow> failS (OtherError 1) | Some i \<Rightarrow> UpdateSubscription env i options)"

text \<open>The composite literal of the SUBSCRIBE\_OK leaves out \<^verbatim>\<open>TrackAlias\<close>, so it is 0.\<close>

definition acceptSubscriptionWithOptions ::
  "Env \<Rightarrow> uint64 \<Rightarrow> SubscribeOkOptions option \<Rightarrow> (Session, unit) st" where
  "acceptSubscriptionWithOptions env i opts =
     bindS (upd_localTracks (\<lambda>m. localTrackMap_confirm m i)) (\<lambda>found.
       if found = None then failS errUnknownRequestID
       else let opts = (case opts of None \<Rightarrow> defaultSubscribeOkOptions | Some opts \<Rightarrow> opts);
                msg = \<lparr>som_RequestID = i, som_TrackAlias = 0, som_Expires = soo_Expires opts,
                       som_GroupOrder = soo_GroupOrder opts,
                       som_ContentExists = soo_ContentExists opts,
                       som_LargestLocation = zeroLocation,
                       som_Parameters = ToWire (soo_Parameters opts)\<rparr>;
                msg = (case soo_LargestLocation opts of
                         Some l \<Rightarrow> if soo_ContentExists opts then msg\<lparr>som_LargestLocation := l\<rparr> else msg
                       | None \<Rightarrow> msg)
            in ses_write env (SubscribeOk msg))"

definition rejectSubscription :: "Env \<Rightarrow> uint64 \<Rightarrow> uint64 \<Rightarrow> gostring \<Rightarrow> (Session, unit) st" where
  "rejectSubscription env i errorCode reason =
     bindS (upd_localTracks (\<lambda>m. localTrackMap_reject m i)) (\<lambda>found.
       case found of
         None \<Rightarrow> failS errUnknownRequestID
       | Some lt \<Rightarrow>
           bindS (getsS (\<lambda>s. lt_requestID (ses_lt s lt))) (\<lambda>requestID.
           ses_write env (SubscribeError
             \<lparr>sem_RequestID = requestID, sem_ErrorCode = errorCode, sem_ReasonPhrase = reason\<rparr>)))"

definition subscriptionDone ::
  "Env \<Rightarrow> uint64 \<Rightarrow> uint64 \<Rightarrow> uint64 \<Rightarrow> gostring \<Rightarrow> (Session, unit) st" where
  "subscriptionDone env i code count reason =
     bindS (upd_localTracks (\<lambda>m. localTrackMap_delete m i)) (\<lambda>found.
       case found of
         None \<Rightarrow> failS errUnknownRequestID
       | Some lt \<Rightarrow>
           bindS (getsS (\<lambda>s. lt_requestID (ses_lt s lt))) (\<lambda>requestID.
           ses_write env (SubscribeDone
             \<lparr>sdm_RequestID = requestID, sdm_StatusCode = code, sdm_StreamCount = count,
              sdm_ReasonPhrase = reason\<rparr>)))"

text \<open>The callback of a local track, when there is one, is \<^verbatim>\<open>subscriptionDone\<close> for its request.\<close>

definition localTrack_close :: "Env \<Rightarrow> ref \<Rightarrow> uint64 \<Rightarrow> gostring \<Rightarrow> (Session, unit) st" where
  "localTrack_close env lt code reason =
     thenS (modify_lt lt (\<lambda>t. t\<lparr>lt_done := cancel (lt_done t) ErrSubscriptionDone\<rparr>))
     (bindS (getsS (\<lambda>s. ses_lt s lt)) (\<lambda>t.
        if lt_subscribeDone t
        then subscriptionDone env (lt_requestID t) code (lt_subgroupCount t) reason
        else returnS ()))"

section \<open>Fetches\<close>

text \<open>
  \<^verbatim>\<open>addPending\<close> never returns an \<^verbatim>\<open>errRequestsBlocked\<close>, so the branch for it is dead and its
  error is returned as it is.
\<close>

definition Fetch_send :: "Env \<Rightarrow> Tuple \<Rightarrow> gostring \<Rightarrow> (Session, ref) st" where
  "Fetch_send env namespace track =
     bindS (newRequestID env) (\<lambda>requestID.
     bindS (alloc_rt (newRemoteTrack requestID (Some (CallFetchCancel requestID)) None)) (\<lambda>rt.
     bindS (upd_remoteTracks (\<lambda>m. remoteTrackMap_addPending m requestID rt)) (\<lambda>err.
     thenS (throwS err)
     (bindS (tryS (ses_write env (Fetch
               \<lparr>fm_RequestID = requestID, fm_SubscriberPriority = 0, fm_GroupOrder = 0,
                fm_FetchType = FetchTypeStandalone, fm_TrackNamespace = namespace,
                fm_TrackName = track, fm_StartGroup = 0, fm_StartObject = 0, fm_EndGroup = 0,
                fm_EndObject = 0, fm_JoiningSubscribeID = 0, fm_JoiningStart = 0,
                fm_Parameters = []\<rparr>))) (\<lambda>err.
        case err of
          None \<Rightarrow> returnS rt
        | Some e \<Rightarrow>
            bindS (upd_remoteTracks (\<lambda>m. remoteTrackMap_reject m requestID)) (\<lambda>_. failS e))))))"

definition Fetch_wait :: "Env \<Rightarrow> wait_case \<Rightarrow> ref \<Rightarrow> Session \<Rightarrow> (ref result \<times> Session) option" where
  "Fetch_wait env w rt s =
     (case wait_rt_response w rt s of
        None \<Rightarrow> None
      | Some (err, s) \<Rightarrow> Some
          ((case err of
              None \<Rightarrow> returnS rt
            | Some e \<Rightarrow>
                bindS (upd_remoteTracks (\<lambda>m. remoteTrackMap_reject m (rt_requestID (ses_rt s rt)))) (\<lambda>_.
                bindS (tryS (RemoteTrack_Close env rt)) (\<lambda>closeErr.
                  case closeErr of
                    None \<Rightarrow> failS e
                  | Some e' \<Rightarrow> failS (JoinError e e')))) s))"

definition acceptFetch :: "Env \<Rightarrow> uint64 \<Rightarrow> (Session, unit) st" where
  "acceptFetch env requestID =
     bindS (upd_localTracks (\<lambda>m. localTrackMap_confirm m requestID)) (\<lambda>found.
       if found = None then failS errUnknownRequestID
       else ses_write env (FetchOk
              \<lparr>fom_RequestID = requestID, fom_GroupOrder = 1, fom_EndOfTrack = 0,
               fom_EndLocation = zeroLocation, fom_SubscribeParameters = []\<rparr>))"

definition rejectFetch :: "Env \<Rightarrow> uint64 \<Rightarrow> uint64 \<Rightarrow> gostring \<Rightarrow> (Session, unit) st" where
  "rejectFetch env i errorCode reason =
     bindS (upd_localTracks (\<lambda>m. localTrackMap_reject m i)) (\<lambda>found.
       case found of
         None \<Rightarrow> failS errUnknownRequestID
       | Some lt \<Rightarrow>
           bindS (getsS (\<lambda>s. lt_requestID (ses_lt s lt))) (\<lambda>requestID.
           ses_write env (FetchError
             \<lparr>fem_RequestID = requestID, fem_ErrorCode = errorCode, fem_ReasonPhrase = reason\<rparr>)))"

section \<open>Track status\<close>

text \<open>
  The message that is sent leaves \<^verbatim>\<open>RequestID\<close> out, so it is 0. On a failed write, \<^verbatim>\<open>delete\<close> is
  called with that 0.
\<close>

definition RequestTrackStatus_send :: "Env \<Rightarrow> Tuple \<Rightarrow> gostring \<Rightarrow> (Session, ref) st" where
  "RequestTrackStatus_send env namespace track =
     bindS (newRequestID env) (\<lambda>requestID.
     bindS alloc_statusCh (\<lambda>ch.
     thenS (upd_trackStatusRequests (\<lambda>m. ((), trackStatusRequestMap_add m
              \<lparr>tsr_requestID = requestID, tsr_namespace = namespace, tsr_trackname = track,
               tsr_response = ch\<rparr>)))
     (bindS (tryS (ses_write env (TrackStatusRequest
               \<lparr>tsrm_RequestID = 0, tsrm_TrackNamespace = namespace, tsrm_TrackName = track,
                tsrm_Parameters = []\<rparr>))) (\<lambda>err.
        case err of
          None \<Rightarrow> returnS ch
        | Some e \<Rightarrow>
            bindS (upd_trackStatusRequests (\<lambda>m. trackStatusRequestMap_delete m 0)) (\<lambda>_. failS e)))))"

definition RequestTrackStatus_wait ::
  "wait_case \<Rightarrow> ref \<Rightarrow> Session \<Rightarrow> (TrackStatus result \<times> Session) option" where
  "RequestTrackStatus_wait w ch s =
     (case w of
        ContextDone e \<Rightarrow> Some (Inl (Fail e), s)
      | Response \<Rightarrow>
          (case ses_statusCh s ch of
             [] \<Rightarrow> None
           | x # rest \<Rightarrow> Some (Inr x, s\<lparr>ses_statusCh := (ses_statusCh s)(ch := rest)\<rparr>)))"

definition sendTrackStatus :: "Env \<Rightarrow> TrackStatus \<Rightarrow> (Session, unit) st" where
  "sendTrackStatus env ts =
     ses_write env (TrackStatus
       \<lparr>tsm_RequestID = 0, tsm_StatusCode = ts_StatusCode ts, tsm_LargestLocation = zeroLocation,
        tsm_Parameters = []\<rparr>)"

section \<open>Announcements\<close>

definition Announce_send :: "Env \<Rightarrow> Tuple \<Rightarrow> (Session, ref) st" where
  "Announce_send env namespace =
     bindS (newRequestID env) (\<lambda>requestID.
     bindS alloc_errCh (\<lambda>ch.
     let a = \<lparr>an_requestID = requestID, an_namespace = namespace, an_parameters = [],
              an_response = ch\<rparr>
     in thenS (upd_outgoingAnnouncements (\<lambda>m. ((), announcementMap_add m a)))
        (bindS (tryS (ses_write env (Announce
                  \<lparr>am_RequestID = an_requestID a, am_TrackNamespace = an_namespace a,
                   am_Parameters = an_parameters a\<rparr>))) (\<lambda>err.
           case err of
             None \<Rightarrow> returnS ch
           | Some e \<Rightarrow>
               bindS (upd_outgoingAnnouncements (\<lambda>m. announcementMap_reject m (an_requestID a)))
                 (\<lambda>_. failS e)))))"

definition Announce_wait :: "wait_case \<Rightarrow> ref \<Rightarrow> Session \<Rightarrow> (unit result \<times> Session) option" where
  "Announce_wait w ch s =
     map_option (\<lambda>(err, s). throwS err s) (wait_errCh w ch s)"

definition acceptAnnouncement :: "Env \<Rightarrow> uint64 \<Rightarrow> (Session, unit) st" where
  "acceptAnnouncement env requestID =
     bindS (upd_incomingAnnouncements (\<lambda>m. announcementMap_confirmAndGet m requestID)) (\<lambda>res.
       case res of
         Inl e \<Rightarrow> failS e
       | Inr _ \<Rightarrow> ses_write env (AnnounceOk \<lparr>aom_RequestID = requestID\<rparr>))"

definition rejectAnnouncement :: "Env \<Rightarrow> uint64 \<Rightarrow> uint64 \<Rightarrow> gostring \<Rightarrow> (Session, unit) st" where
  "rejectAnnouncement env requestID c r =
     ses_write env (AnnounceError
       \<lparr>aem_RequestID = requestID, aem_ErrorCode = c, aem_ReasonPhrase = r\<rparr>)"

definition Session_Unannounce :: "Env \<Rightarrow> Tuple \<Rightarrow> (Session, unit) st" where
  "Session_Unannounce env namespace =
     bindS (upd_outgoingAnnouncements (\<lambda>m. announcementMap_delete (env_order env) m namespace)) (\<lambda>ok.
       if ok then failS errUnknownAnnouncementNamespace
       else ses_write env (Unannounce \<lparr>uam_TrackNamespace = namespace\<rparr>))"

definition Session_AnnounceCancel :: "Env \<Rightarrow> Tuple \<Rightarrow> uint64 \<Rightarrow> gostring \<Rightarrow> (Session, unit) st" where
  "Session_AnnounceCancel env namespace errorCode reason =
     bindS (upd_incomingAnnouncements (\<lambda>m. announcementMap_delete (env_order env) m namespace)) (\<lambda>ok.
       if \<not> ok then failS errUnknownAnnouncementNamespace
       else ses_write env (AnnounceCancel
              \<lparr>acm_TrackNamespace = namespace, acm_ErrorCode = errorCode, acm_ReasonPhrase = reason\<rparr>))"

definition SubscribeAnnouncements_send :: "Env \<Rightarrow> Tuple \<Rightarrow> (Session, ref) st" where
  "SubscribeAnnouncements_send env prefix =
     bindS (newRequestID env) (\<lambda>requestID.
     bindS alloc_errCh (\<lambda>ch.
     let as = \<lparr>as_requestID = requestID, as_namespace = prefix, as_response = Some ch\<rparr>
     in thenS (upd_outgoingSubscriptions (\<lambda>m. ((), announcementSubscriptionMap_add m as)))
        (bindS (tryS (ses_write env (SubscribeAnnounces
                  \<lparr>sam_RequestID = as_requestID as, sam_TrackNamespacePrefix = as_namespace as,
                   sam_Parameters = []\<rparr>))) (\<lambda>err.
           case err of
             None \<Rightarrow> returnS ch
           | Some e \<Rightarrow>
               bindS (upd_outgoingSubscriptions
                        (\<lambda>m. announcementSubscriptionMap_deleteByID m (as_requestID as)))
                 (\<lambda>_. failS e)))))"

definition SubscribeAnnouncements_wait ::
  "wait_case \<Rightarrow> ref \<Rightarrow> Session \<Rightarrow> (unit result \<times> Session) option" where
  "SubscribeAnnouncements_wait w ch s =
     map_option (\<lambda>(err, s). throwS err s) (wait_errCh w ch s)"

definition acceptAnnouncementSubscription :: "Env \<Rightarrow> uint64 \<Rightarrow> (Session, unit) st" where
  "acceptAnnouncementSubscription env requestID =
     ses_write env (SubscribeAnnouncesOk \<lparr>saom_RequestID = requestID\<rparr>)"

definition rejectAnnouncementSubscription ::
  "Env \<Rightarrow> uint64 \<Rightarrow> uint64 \<Rightarrow> gostring \<Rightarrow> (Session, unit) st" where
  "rejectAnnouncementSubscription env requestID c r =
     ses_write env (SubscribeAnnouncesError
       \<lparr>saem_RequestID = requestID, saem_ErrorCode = c, saem_ReasonPhrase = r\<rparr>)"

definition UnsubscribeAnnouncements :: "Env \<Rightarrow> Tuple \<Rightarrow> (Session, unit) st" where
  "UnsubscribeAnnouncements env namespace =
     bindS (upd_outgoingSubscriptions
              (\<lambda>m. announcementSubscriptionMap_delete (env_order env) m namespace)) (\<lambda>_.
     ses_write env (UnsubscribeAnnounces \<lparr>usam_TrackNamespacePrefix = namespace\<rparr>))"

end
