(* ===== verification/Session_Handlers.thy ===== *)
theory Session_Handlers
  imports Session
begin

text \<open>
  What a session does with what it receives: the response writers handed to the application
  (\<^verbatim>\<open>*_response_writer.go\<close>), the handlers of control messages (\<^verbatim>\<open>session.go\<close>, "Session message
  handlers"), and the loops that read the control stream, unidirectional streams and datagrams.
\<close>

section \<open>Response writers\<close>

text \<open>
  A writer is a record with its \<^verbatim>\<open>handled\<close> flag; its methods change the writer and the session.
  Calling a method that the writer does not have is a failed type assertion in the application,
  which panics.
\<close>

definition on_session :: "(Session, 'a) st \<Rightarrow> ('w \<times> Session, 'a) st" where
  "on_session = onS snd (\<lambda>s (w, _). (w, s))"

definition set_writer :: "('w \<Rightarrow> 'w) \<Rightarrow> ('w \<times> Session, unit) st" where
  "set_writer f = modifyS (\<lambda>(w, s). (f w, s))"

record announcementResponseWriter =
  arw_requestID :: uint64
  arw_handled :: bool

definition announcementResponseWriter_Accept :: "Env \<Rightarrow> (announcementResponseWriter \<times> Session, unit) st" where
  "announcementResponseWriter_Accept env =
     thenS (set_writer (\<lambda>w. w\<lparr>arw_handled := True\<rparr>))
     (bindS (getsS fst) (\<lambda>w. on_session (acceptAnnouncement env (arw_requestID w))))"

definition announcementResponseWriter_Reject ::
  "Env \<Rightarrow> uint64 \<Rightarrow> gostring \<Rightarrow> (announcementResponseWriter \<times> Session, unit) st" where
  "announcementResponseWriter_Reject env code reason =
     thenS (set_writer (\<lambda>w. w\<lparr>arw_handled := True\<rparr>))
     (bindS (getsS fst) (\<lambda>w. on_session (rejectAnnouncement env (arw_requestID w) code reason)))"

record announcementSubscriptionResponseWriter =
  asrw_requestID :: uint64
  asrw_handled :: bool

definition announcementSubscriptionResponseWriter_Accept ::
  "Env \<Rightarrow> (announcementSubscriptionResponseWriter \<times> Session, unit) st" where
  "announcementSubscriptionResponseWriter_Accept env =
     thenS (set_writer (\<lambda>w. w\<lparr>asrw_handled := True\<rparr>))
     (bindS (getsS fst) (\<lambda>w. on_session (acceptAnnouncementSubscription env (asrw_requestID w))))"

definition announcementSubscriptionResponseWriter_Reject ::
  "Env \<Rightarrow> uint64 \<Rightarrow> gostring \<Rightarrow> (announcementSubscriptionResponseWriter \<times> Session, unit) st" where
  "announcementSubscriptionResponseWriter_Reject env code reason =
     thenS (set_writer (\<lambda>w. w\<lparr>asrw_handled := True\<rparr>))
     (bindS (getsS fst) (\<lambda>w.
        on_session (rejectAnnouncementSubscription env (asrw_requestID w) code reason)))"

record fetchResponseWriter =
  frw_id :: uint64
  frw_localTrack :: ref
  frw_handled :: bool

definition fetchResponseWriter_Accept :: "Env \<Rightarrow> (fetchResponseWriter \<times> Session, unit) st" where
  "fetchResponseWriter_Accept env =
     thenS (set_writer (\<lambda>w. w\<lparr>frw_handled := True\<rparr>))
     (bindS (getsS fst) (\<lambda>w. on_session (acceptFetch env (frw_id w))))"

definition fetchResponseWriter_Reject ::
  "Env \<Rightarrow> uint64 \<Rightarrow> gostring \<Rightarrow> (fetchResponseWriter \<times> Session, unit) st" where
  "fetchResponseWriter_Reject env code reason =
     thenS (set_writer (\<lambda>w. w\<lparr>frw_handled := True\<rparr>))
     (bindS (getsS fst) (\<lambda>w. on_session (rejectFetch env (frw_id w) code reason)))"

definition fetchResponseWriter_FetchStream :: "Env \<Rightarrow> (fetchResponseWriter \<times> Session, FetchStream) st" where
  "fetchResponseWriter_FetchStream env =
     bindS (getsS fst) (\<lambda>w.
       on_session (on_track (frw_localTrack w) (getFetchStream (env_qv env) (env_net env))))"

record trackStatusResponseWriter =
  tsrw_handled :: bool
  tsrw_status :: TrackStatus

definition trackStatusResponseWriter_Accept :: "Env \<Rightarrow> (trackStatusResponseWriter \<times> Session, unit) st" where
  "trackStatusResponseWriter_Accept env =
     thenS (set_writer (\<lambda>w. w\<lparr>tsrw_handled := True\<rparr>))
     (bindS (getsS fst) (\<lambda>w. on_session (sendTrackStatus env (tsrw_status w))))"

definition trackStatusResponseWriter_Reject :: "Env \<Rightarrow> (trackStatusResponseWriter \<times> Session, unit) st" where
  "trackStatusResponseWriter_Reject env =
     thenS (set_writer (\<lambda>w. w\<lparr>tsrw_handled := True,
              tsrw_status := (tsrw_status w)\<lparr>ts_StatusCode := TrackStatusDoesNotExist,
                                             ts_LastGroupID := 0, ts_LastObjectID := 0\<rparr>\<rparr>))
     (trackStatusResponseWriter_Accept env)"

definition trackStatusResponseWriter_SetStatus ::
  "uint64 \<Rightarrow> uint64 \<Rightarrow> uint64 \<Rightarrow> (trackStatusResponseWriter \<times> Session, unit) st" where
  "trackStatusResponseWriter_SetStatus statusCode lastGroupID lastObjectID =
     set_writer (\<lambda>w. w\<lparr>tsrw_status := (tsrw_status w)\<lparr>ts_StatusCode := statusCode,
                         ts_LastGroupID := lastGroupID, ts_LastObjectID := lastObjectID\<rparr>\<rparr>)"

record SubscribeResponseWriter =
  srw_id :: uint64
  srw_trackAlias :: uint64
  srw_localTrack :: ref
  srw_handled :: bool

definition SubscribeResponseWriter_Accept ::
  "Env \<Rightarrow> SubscribeOKOption list \<Rightarrow> (SubscribeResponseWriter \<times> Session, unit) st" where
  "SubscribeResponseWriter_Accept env options =
     thenS (set_writer (\<lambda>w. w\<lparr>srw_handled := True\<rparr>))
     (let opts = apply_options options defaultSubscribeOkOptions
      in bindS (getsS fst) (\<lambda>w.
           on_session (acceptSubscriptionWithOptions env (srw_id w) (Some opts))))"

definition SubscribeResponseWriter_Reject ::
  "Env \<Rightarrow> uint64 \<Rightarrow> gostring \<Rightarrow> (SubscribeResponseWriter \<times> Session, unit) st" where
  "SubscribeResponseWriter_Reject env code reason =
     thenS (set_writer (\<lambda>w. w\<lparr>srw_handled := True\<rparr>))
     (bindS (getsS fst) (\<lambda>w. on_session (rejectSubscription env (srw_id w) code reason)))"

definition SubscribeResponseWriter_SendDatagram ::
  "Env \<Rightarrow> Object \<Rightarrow> (SubscribeResponseWriter \<times> Session, unit) st" where
  "SubscribeResponseWriter_SendDatagram env ob =
     bindS (getsS fst) (\<lambda>w.
       on_session (on_track (srw_localTrack w) (localTrack_sendDatagram (env_qv env) (env_net env) ob)))"

definition SubscribeResponseWriter_OpenSubgroup ::
  "Env \<Rightarrow> uint64 \<Rightarrow> uint64 \<Rightarrow> byte \<Rightarrow> (SubscribeResponseWriter \<times> Session, Subgroup) st" where
  "SubscribeResponseWriter_OpenSubgroup env groupID subgroupID priority =
     bindS (getsS fst) (\<lambda>w.
       on_session (on_track (srw_localTrack w)
         (openSubgroup (env_qv env) (env_net env) groupID subgroupID priority)))"

definition SubscribeResponseWriter_CloseWithError ::
  "Env \<Rightarrow> uint64 \<Rightarrow> gostring \<Rightarrow> (SubscribeResponseWriter \<times> Session, unit) st" where
  "SubscribeResponseWriter_CloseWithError env code reason =
     bindS (getsS fst) (\<lambda>w. on_session (localTrack_close env (srw_localTrack w) code reason))"

section \<open>Calling the application\<close>

definition panicS :: "('s, 'a) st" where
  "panicS = liftR (Inl Panic)"

text \<open>The calls of a script on each kind of writer.\<close>

definition ignore :: "('s, 'a) st \<Rightarrow> ('s, unit) st" where
  "ignore m = bindS m (\<lambda>_. returnS ())"

fun exec_arw :: "Env \<Rightarrow> rw_call \<Rightarrow> (announcementResponseWriter \<times> Session, unit) st" where
  "exec_arw env Accept = announcementResponseWriter_Accept env"
| "exec_arw env (Reject code reason) = announcementResponseWriter_Reject env code reason"
| "exec_arw env _ = panicS"

fun exec_asrw :: "Env \<Rightarrow> rw_call \<Rightarrow> (announcementSubscriptionResponseWriter \<times> Session, unit) st" where
  "exec_asrw env Accept = announcementSubscriptionResponseWriter_Accept env"
| "exec_asrw env (Reject code reason) = announcementSubscriptionResponseWriter_Reject env code reason"
| "exec_asrw env _ = panicS"

fun exec_frw :: "Env \<Rightarrow> rw_call \<Rightarrow> (fetchResponseWriter \<times> Session, unit) st" where
  "exec_frw env Accept = fetchResponseWriter_Accept env"
| "exec_frw env (Reject code reason) = fetchResponseWriter_Reject env code reason"
| "exec_frw env OpenFetchStream = ignore (fetchResponseWriter_FetchStream env)"
| "exec_frw env _ = panicS"

fun exec_tsrw :: "Env \<Rightarrow> rw_call \<Rightarrow> (trackStatusResponseWriter \<times> Session, unit) st" where
  "exec_tsrw env Accept = trackStatusResponseWriter_Accept env"
| "exec_tsrw env (Reject _ _) = trackStatusResponseWriter_Reject env"
| "exec_tsrw env (SetStatus c g i) = trackStatusResponseWriter_SetStatus c g i"
| "exec_tsrw env _ = panicS"

fun exec_srw :: "Env \<Rightarrow> srw_call \<Rightarrow> (SubscribeResponseWriter \<times> Session, unit) st" where
  "exec_srw env (SubscribeAccept options) = SubscribeResponseWriter_Accept env options"
| "exec_srw env (SubscribeReject code reason) = SubscribeResponseWriter_Reject env code reason"
| "exec_srw env (PublishDatagram ob) = SubscribeResponseWriter_SendDatagram env ob"
| "exec_srw env (PublishSubgroup g sg p) = ignore (SubscribeResponseWriter_OpenSubgroup env g sg p)"
| "exec_srw env (PublishClose code reason) = SubscribeResponseWriter_CloseWithError env code reason"

primrec run_script :: "('c \<Rightarrow> ('s, unit) st) \<Rightarrow> 'c script \<Rightarrow> ('s, unit) st" where
  "run_script exec Done = returnS ()"
| "run_script exec (Call c k) = bindS (tryS (exec c)) (\<lambda>err. run_script exec (k err))"

text \<open>Running a computation with a writer of its own; the result is the writer at its end.\<close>

definition with_writer :: "'w \<Rightarrow> ('w \<times> Session, unit) st \<Rightarrow> (Session, 'w) st" where
  "with_writer w m s =
     (case m (w, s) of (Inl e, (_, s')) \<Rightarrow> (Inl e, s') | (Inr _, (w', s')) \<Rightarrow> (Inr w', s'))"

definition log_app :: "app_event \<Rightarrow> (Session, unit) st" where
  "log_app ev = modifyS (\<lambda>s. s\<lparr>ses_app := ses_app s @ [ev]\<rparr>)"

text \<open>
  \<^verbatim>\<open>s.Handler.Handle(rw, m)\<close>: a nil handler panics. With a nil response writer, any call on
  it panics.
\<close>

definition Handle :: "Env \<Rightarrow> (rw_call \<Rightarrow> ('w \<times> Session, unit) st) \<Rightarrow> 'w \<Rightarrow> Message \<Rightarrow> (Session, 'w) st" where
  "Handle env exec w m =
     (case env_Handler env of
        None \<Rightarrow> panicS
      | Some h \<Rightarrow> thenS (log_app (Handled m)) (with_writer w (run_script exec (h m))))"

definition Handle_nil :: "Env \<Rightarrow> Message \<Rightarrow> (Session, unit) st" where
  "Handle_nil env m =
     (case env_Handler env of
        None \<Rightarrow> panicS
      | Some h \<Rightarrow> thenS (log_app (Handled m))
          (case h m of Done \<Rightarrow> returnS () | Call _ _ \<Rightarrow> panicS))"

section \<open>Handshake\<close>

text \<open>
  The loop over the supported versions, from the last to the first; \<open>int(v)\<close> of a version is the
  version. Closing \<^verbatim>\<open>handshakeDoneCh\<close> twice would panic.
\<close>

fun select_version :: "Version list \<Rightarrow> Version list \<Rightarrow> Version option" where
  "select_version [] offered = None"
| "select_version (v # vs) offered = (if v \<in> set offered then Some v else select_version vs offered)"

definition close_handshakeDoneCh :: "(Session, unit) st" where
  "close_handshakeDoneCh s =
     (if ses_handshakeDoneCh s then (Inl Panic, s) else (Inr (), s\<lparr>ses_handshakeDoneCh := True\<rparr>))"

definition finish_handshake :: "(Session, unit) st" where
  "finish_handshake =
     thenS close_handshakeDoneCh (modifyS (\<lambda>s. s\<lparr>ses_handshakeDone := True\<rparr>))"

definition onClientSetup :: "Env \<Rightarrow> ClientSetupMessage \<Rightarrow> (Session, unit) st" where
  "onClientSetup env m =
     bindS (getsS ses_conn) (\<lambda>conn.
       if cn_Perspective conn \<noteq> PerspectiveServer then failS errClientReceivedClientSetup
       else (case select_version (rev SupportedVersions) (csm_SupportedVersions m) of
               None \<Rightarrow> failS errIncompatibleVersions
             | Some selectedVersion \<Rightarrow>
                 thenS (modifyS (\<lambda>s. s\<lparr>ses_version := selectedVersion\<rparr>))
                 (bindS (liftR (validatePathParameter (csm_SetupParameters m)
                          (cn_Protocol conn = ProtocolQUIC))) (\<lambda>path.
                  thenS (modifyS (\<lambda>s. s\<lparr>ses_path := path\<rparr>))
                  (let remoteMaxRequestID = getMaxRequestIDParameter (csm_SetupParameters m)
                   in thenS (if remoteMaxRequestID > 0
                             then bindS (upd_requestIDs (\<lambda>g. requestIDGenerator_setMax g remoteMaxRequestID))
                                    throwS
                             else returnS ())
                      (thenS (ses_write env (ServerSetup
                                \<lparr>ssm_SelectedVersion = selectedVersion,
                                 ssm_SetupParameters =
                                   [zeroKVP\<lparr>kvp_Type := MaxRequestIDParameterKey,
                                            kvp_ValueVarInt := 100\<rparr>]\<rparr>))
                      finish_handshake))))))"

definition onServerSetup :: "ServerSetupMessage \<Rightarrow> (Session, unit) st" where
  "onServerSetup m =
     bindS (getsS ses_conn) (\<lambda>conn.
       if cn_Perspective conn \<noteq> PerspectiveClient then failS errServerReceveidServerSetup
       else if ssm_SelectedVersion m \<notin> set SupportedVersions then failS errIncompatibleVersions
       else thenS (modifyS (\<lambda>s. s\<lparr>ses_version := ssm_SelectedVersion m\<rparr>))
            (bindS (upd_requestIDs (\<lambda>g. requestIDGenerator_setMax g
                     (getMaxRequestIDParameter (ssm_SetupParameters m)))) (\<lambda>err.
             thenS (throwS err)
             finish_handshake)))"

section \<open>Handlers of control messages\<close>

definition onGoAway :: "Env \<Rightarrow> GoAwayMessage \<Rightarrow> (Session, unit) st" where
  "onGoAway env msg =
     Handle_nil env ((newMessage MessageGoAway)\<lparr>msg_NewSessionURI := gam_NewSessionURI msg\<rparr>)"

definition onMaxRequestID :: "MaxRequestIDMessage \<Rightarrow> (Session, unit) st" where
  "onMaxRequestID msg =
     bindS (upd_requestIDs (\<lambda>g. requestIDGenerator_setMax g (mrm_RequestID msg))) throwS"

definition onRequestsBlocked :: "RequestsBlockedMessage \<Rightarrow> (Session, unit) st" where
  "onRequestsBlocked msg = returnS ()"

definition bad_namespace :: "Tuple \<Rightarrow> bool" where
  "bad_namespace ns \<longleftrightarrow> length ns = 0 \<or> length ns > 32"

definition onSubscribe :: "Env \<Rightarrow> SubscribeMessage \<Rightarrow> (Session, unit) st" where
  "onSubscribe env msg =
     bindS (liftR (validateAuthParameter (sm_Parameters msg))) (\<lambda>auth.
     if bad_namespace (sm_TrackNamespace msg) then failS errInvalidNamespaceLength
     else
       let m = \<lparr>asm_RequestID = sm_RequestID msg, asm_TrackAlias = 0,
                asm_Namespace = sm_TrackNamespace msg, asm_Track = sm_TrackName msg,
                asm_Authorization = auth, asm_SubscriberPriority = sm_SubscriberPriority msg,
                asm_GroupOrder = sm_GroupOrder msg, asm_Forward = sm_Forward msg,
                asm_FilterType = sm_FilterType msg, asm_StartLocation = None,
                asm_EndGroup = None, asm_Parameters = FromWire (sm_Parameters msg)\<rparr>
       in bindS (updS ses_trackAliases (\<lambda>x s. s\<lparr>ses_trackAliases := x\<rparr>) sequence_next) (\<lambda>trackAlias.
          bindS (alloc_lt (newLocalTrack (asm_RequestID m) trackAlias True)) (\<lambda>lt.
          bindS (tryS (addLocalTrack env lt)) (\<lambda>err.
            case err of
              Some e \<Rightarrow>
                ses_write env (SubscribeError
                  \<lparr>sem_RequestID = sm_RequestID msg,
                   sem_ErrorCode = (if e = errMaxRequestIDViolated then ErrorCodeTooManyRequests
                                    else ErrorCodeInternal),
                   sem_ReasonPhrase = (if e = errMaxRequestIDViolated then ascii ''too many subscribes''
                                       else ascii ''internal'')\<rparr>)
            | None \<Rightarrow>
                let srw = \<lparr>srw_id = asm_RequestID m, srw_trackAlias = trackAlias,
                           srw_localTrack = lt, srw_handled = False\<rparr>
                in bindS (case env_SubscribeHandler env of
                            None \<Rightarrow> returnS srw
                          | Some h \<Rightarrow> thenS (log_app (HandledSubscribe m))
                              (with_writer srw (run_script (exec_srw env) (h m)))) (\<lambda>srw.
                     if \<not> srw_handled srw
                     then ignore (with_writer srw
                            (SubscribeResponseWriter_Reject env 0 (ascii ''unhandled subscription'')))
                     else returnS ())))))"

definition onSubscribeOk :: "Env \<Rightarrow> SubscribeOkMessage \<Rightarrow> (Session, unit) st" where
  "onSubscribeOk env msg =
     bindS (upd_remoteTracks (\<lambda>m. remoteTrackMap_confirm m (som_RequestID msg))) (\<lambda>res.
       case res of
         Inl e \<Rightarrow> failS e
       | Inr rt \<Rightarrow>
           bindS (upd_remoteTracks (\<lambda>m. remoteTrackMap_setAlias m (som_RequestID msg) (som_TrackAlias msg))) (\<lambda>err.
           thenS (throwS err)
           (thenS (modify_rt rt (\<lambda>t. t\<lparr>rt_expires := som_Expires msg,
                     rt_groupOrder := som_GroupOrder msg, rt_contentExists := som_ContentExists msg,
                     rt_largestLocation := (if som_ContentExists msg then Some (som_LargestLocation msg)
                                            else None),
                     rt_parameters := FromWire (som_Parameters msg)\<rparr>))
            (bindS (send_rt_response rt None) (\<lambda>ok.
               if ok then returnS ()
               else bindS (tryS (RemoteTrack_Close env rt)) (\<lambda>_. returnS ()))))))"

definition onSubscribeError :: "SubscribeErrorMessage \<Rightarrow> (Session, unit) st" where
  "onSubscribeError msg =
     bindS (upd_remoteTracks (\<lambda>m. remoteTrackMap_reject m (sem_RequestID msg))) (\<lambda>found.
       case found of
         None \<Rightarrow> failS errUnknownRequestID
       | Some sub \<Rightarrow>
           bindS (send_rt_response sub (Some (ProtocolError (sem_ErrorCode msg) (sem_ReasonPhrase msg))))
             (\<lambda>_. returnS ()))"

definition onSubscribeUpdate :: "Env \<Rightarrow> SubscribeUpdateMessage \<Rightarrow> (Session, unit) st" where
  "onSubscribeUpdate env msg =
     bindS (getsS (\<lambda>s. localTrackMap_findByID (ses_localTracks s) (sum_RequestID msg))) (\<lambda>found.
       if found = None then failS errUnknownRequestID
       else let publicMsg = \<lparr>aum_RequestID = sum_RequestID msg,
                             aum_StartLocation = sum_StartLocation msg,
                             aum_EndGroup = sum_EndGroup msg,
                             aum_SubscriberPriority = sum_SubscriberPriority msg,
                             aum_Forward = sum_Forward msg,
                             aum_Parameters = FromWire (sum_Parameters msg)\<rparr>
            in if env_SubscribeUpdateHandler env then log_app (HandledSubscribeUpdate publicMsg)
               else returnS ())"

definition onUnsubscribe :: "UnsubscribeMessage \<Rightarrow> (Session, unit) st" where
  "onUnsubscribe msg =
     bindS (getsS (\<lambda>s. localTrackMap_findByID (ses_localTracks s) (usm_RequestID msg))) (\<lambda>found.
       case found of
         None \<Rightarrow> failS errUnknownRequestID
       | Some lt \<Rightarrow> modify_lt lt localTrack_unsubscribe)"

definition onSubscribeDone :: "SubscribeDoneMessage \<Rightarrow> (Session, unit) st" where
  "onSubscribeDone msg =
     bindS (remoteTrackByRequestID (sdm_RequestID msg)) (\<lambda>found.
       case found of
         None \<Rightarrow> failS errUnknownRequestID
       | Some sub \<Rightarrow> modify_rt sub (\<lambda>t. RemoteTrack_done t (sdm_StatusCode msg) (sdm_ReasonPhrase msg)))"

definition onFetch :: "Env \<Rightarrow> FetchMessage \<Rightarrow> (Session, unit) st" where
  "onFetch env msg =
     (if bad_namespace (fm_TrackNamespace msg) then failS errInvalidNamespaceLength
      else
        let m = (newMessage MessageFetch)\<lparr>msg_Namespace := fm_TrackNamespace msg,
                  msg_Track := fm_TrackName msg, msg_RequestID := fm_RequestID msg\<rparr>
        in bindS (updS ses_trackAliases (\<lambda>x s. s\<lparr>ses_trackAliases := x\<rparr>) sequence_next) (\<lambda>trackAlias.
           bindS (alloc_lt (newLocalTrack (msg_RequestID m) trackAlias False)) (\<lambda>lt.
           bindS (tryS (addLocalTrack env lt)) (\<lambda>err.
             case err of
               Some e \<Rightarrow>
                 thenS (rejectFetch env (msg_RequestID m) ErrorCodeSubscribeInternal [])
                   (failS e)
             | None \<Rightarrow>
                 bindS (Handle env (exec_frw env)
                          \<lparr>frw_id = msg_RequestID m, frw_localTrack = lt, frw_handled = False\<rparr> m) (\<lambda>frw.
                   if \<not> frw_handled frw
                   then ignore (with_writer frw
                          (fetchResponseWriter_Reject env 0 (ascii ''unhandled fetch'')))
                   else returnS ())))))"

definition onFetchOk :: "Env \<Rightarrow> FetchOkMessage \<Rightarrow> (Session, unit) st" where
  "onFetchOk env msg =
     bindS (upd_remoteTracks (\<lambda>m. remoteTrackMap_confirm m (fom_RequestID msg))) (\<lambda>res.
       case res of
         Inl e \<Rightarrow> failS e
       | Inr rt \<Rightarrow>
           bindS (send_rt_response rt None) (\<lambda>ok.
             if ok then returnS ()
             else bindS (tryS (RemoteTrack_Close env rt)) (\<lambda>_. returnS ())))"

definition onFetchError :: "FetchErrorMessage \<Rightarrow> (Session, unit) st" where
  "onFetchError msg =
     bindS (upd_remoteTracks (\<lambda>m. remoteTrackMap_reject m (fem_RequestID msg))) (\<lambda>found.
       case found of
         None \<Rightarrow> failS errUnknownRequestID
       | Some rt \<Rightarrow>
           bindS (send_rt_response rt (Some (ProtocolError (fem_ErrorCode msg) (fem_ReasonPhrase msg))))
             (\<lambda>_. returnS ()))"

definition onFetchCancel :: "FetchCancelMessage \<Rightarrow> (Session, unit) st" where
  "onFetchCancel msg =
     bindS (upd_localTracks (\<lambda>m. localTrackMap_delete m (fcm_RequestID msg))) (\<lambda>found.
       case found of
         None \<Rightarrow> failS errUnknownRequestID
       | Some lt \<Rightarrow> modify_lt lt localTrack_unsubscribe)"

definition onTrackStatusRequest :: "Env \<Rightarrow> TrackStatusRequestMessage \<Rightarrow> (Session, unit) st" where
  "onTrackStatusRequest env msg =
     (if bad_namespace (tsrm_TrackNamespace msg) then failS errInvalidNamespaceLength
      else bindS (Handle env (exec_tsrw env)
                    \<lparr>tsrw_handled = False,
                     tsrw_status = \<lparr>ts_Namespace = tsrm_TrackNamespace msg,
                                    ts_Trackname = tsrm_TrackName msg, ts_StatusCode = 0,
                                    ts_LastGroupID = 0, ts_LastObjectID = 0\<rparr>\<rparr>
                    ((newMessage MessageTrackStatusRequest)\<lparr>
                       msg_Namespace := tsrm_TrackNamespace msg, msg_Track := tsrm_TrackName msg\<rparr>)) (\<lambda>tsrw.
             if \<not> tsrw_handled tsrw
             then ignore (with_writer tsrw (trackStatusResponseWriter_Reject env))
             else returnS ()))"

definition onTrackStatus :: "TrackStatusMessage \<Rightarrow> (Session, unit) st" where
  "onTrackStatus msg =
     bindS (upd_trackStatusRequests (\<lambda>m. trackStatusRequestMap_delete m (tsm_RequestID msg))) (\<lambda>found.
       case found of
         None \<Rightarrow> failS errUnknownTrackStatusRequest
       | Some tsr \<Rightarrow>
           bindS (send_statusCh (tsr_response tsr)
                    \<lparr>ts_Namespace = tsr_namespace tsr, ts_Trackname = tsr_trackname tsr,
                     ts_StatusCode = tsm_StatusCode msg,
                     ts_LastGroupID = loc_Group (tsm_LargestLocation msg),
                     ts_LastObjectID = loc_Object (tsm_LargestLocation msg)\<rparr>)
             (\<lambda>_. returnS ()))"

definition onAnnounce :: "Env \<Rightarrow> AnnounceMessage \<Rightarrow> (Session, unit) st" where
  "onAnnounce env msg =
     (if bad_namespace (am_TrackNamespace msg) then failS errInvalidNamespaceLength
      else bindS alloc_errCh (\<lambda>ch.
           let a = \<lparr>an_requestID = am_RequestID msg, an_namespace = am_TrackNamespace msg,
                    an_parameters = am_Parameters msg, an_response = ch\<rparr>;
               message = (newMessage MessageAnnounce)\<lparr>msg_RequestID := am_RequestID msg,
                            msg_Namespace := an_namespace a\<rparr>
           in thenS (upd_incomingAnnouncements (\<lambda>m. ((), announcementMap_add m a)))
              (bindS (Handle env (exec_arw env)
                       \<lparr>arw_requestID = msg_RequestID message, arw_handled = False\<rparr> message) (\<lambda>arw.
                 if \<not> arw_handled arw
                 then ignore (with_writer arw
                        (announcementResponseWriter_Reject env 0 (ascii ''unhandlded announcement'')))
                 else returnS ()))))"

definition onAnnounceOk :: "AnnounceOkMessage \<Rightarrow> (Session, unit) st" where
  "onAnnounceOk msg =
     bindS (upd_outgoingAnnouncements (\<lambda>m. announcementMap_confirmAndGet m (aom_RequestID msg))) (\<lambda>res.
       case res of
         Inl _ \<Rightarrow> failS errUnknownAnnouncement
       | Inr a \<Rightarrow> bindS (send_errCh (an_response a) None) (\<lambda>_. returnS ()))"

definition onAnnounceError :: "AnnounceErrorMessage \<Rightarrow> (Session, unit) st" where
  "onAnnounceError msg =
     bindS (upd_outgoingAnnouncements (\<lambda>m. announcementMap_reject m (aem_RequestID msg))) (\<lambda>found.
       case found of
         None \<Rightarrow> failS errUnknownAnnouncement
       | Some a \<Rightarrow>
           bindS (send_errCh (an_response a)
                    (Some (ProtocolError (aem_ErrorCode msg) (aem_ReasonPhrase msg)))) (\<lambda>_. returnS ()))"

definition onUnannounce :: "Env \<Rightarrow> UnannounceMessage \<Rightarrow> (Session, unit) st" where
  "onUnannounce env msg =
     (if bad_namespace (uam_TrackNamespace msg) then failS errInvalidNamespaceLength
      else bindS (upd_incomingAnnouncements
                    (\<lambda>m. announcementMap_delete (env_order env) m (uam_TrackNamespace msg))) (\<lambda>ok.
             if \<not> ok then failS errUnknownAnnouncement
             else Handle_nil env
                    ((newMessage MessageUnannounce)\<lparr>msg_Namespace := uam_TrackNamespace msg\<rparr>)))"

definition onAnnounceCancel :: "Env \<Rightarrow> AnnounceCancelMessage \<Rightarrow> (Session, unit) st" where
  "onAnnounceCancel env msg =
     (if bad_namespace (acm_TrackNamespace msg) then failS errInvalidNamespaceLength
      else Handle_nil env
             ((newMessage MessageAnnounceCancel)\<lparr>msg_Namespace := acm_TrackNamespace msg,
                msg_ErrorCode := acm_ErrorCode msg, msg_ReasonPhrase := acm_ReasonPhrase msg\<rparr>))"

definition onSubscribeAnnounces :: "Env \<Rightarrow> SubscribeAnnouncesMessage \<Rightarrow> (Session, unit) st" where
  "onSubscribeAnnounces env msg =
     thenS (modifyS (\<lambda>s. s\<lparr>ses_pendingIncomingAnnouncementSubscriptions :=
              announcementSubscriptionMap_add (ses_pendingIncomingAnnouncementSubscriptions s)
                \<lparr>as_requestID = sam_RequestID msg, as_namespace = sam_TrackNamespacePrefix msg,
                 as_response = None\<rparr>\<rparr>))
     (bindS (Handle env (exec_asrw env)
               \<lparr>asrw_requestID = sam_RequestID msg, asrw_handled = False\<rparr>
               ((newMessage MessageSubscribeAnnounces)\<lparr>msg_RequestID := sam_RequestID msg,
                  msg_Namespace := sam_TrackNamespacePrefix msg\<rparr>)) (\<lambda>asrw.
        if \<not> asrw_handled asrw
        then ignore (with_writer asrw (announcementSubscriptionResponseWriter_Reject env 0
                       (ascii ''unhandled announcement subscription'')))
        else returnS ()))"

text \<open>The channel of an outgoing subscription is always there; a send on a nil channel is dropped.\<close>

definition send_subscription :: "announcementSubscription \<Rightarrow> go_error option \<Rightarrow> (Session, unit) st" where
  "send_subscription as e =
     (case as_response as of None \<Rightarrow> returnS () | Some ch \<Rightarrow> ignore (send_errCh ch e))"

definition onSubscribeAnnouncesOk :: "SubscribeAnnouncesOkMessage \<Rightarrow> (Session, unit) st" where
  "onSubscribeAnnouncesOk msg =
     bindS (upd_outgoingSubscriptions
              (\<lambda>m. announcementSubscriptionMap_deleteByID m (saom_RequestID msg))) (\<lambda>found.
       case found of
         None \<Rightarrow> failS errUnknownSubscribeAnnouncesPrefix
       | Some as \<Rightarrow> send_subscription as None)"

definition onSubscribeAnnouncesError :: "SubscribeAnnouncesErrorMessage \<Rightarrow> (Session, unit) st" where
  "onSubscribeAnnouncesError msg =
     bindS (upd_outgoingSubscriptions
              (\<lambda>m. announcementSubscriptionMap_deleteByID m (saem_RequestID msg))) (\<lambda>found.
       case found of
         None \<Rightarrow> failS errUnknownSubscribeAnnouncesPrefix
       | Some as \<Rightarrow>
           send_subscription as (Some (ProtocolError (saem_ErrorCode msg) (saem_ReasonPhrase msg))))"

definition onUnsubscribeAnnounces :: "Env \<Rightarrow> UnsubscribeAnnouncesMessage \<Rightarrow> (Session, unit) st" where
  "onUnsubscribeAnnounces env msg =
     Handle_nil env ((newMessage MessageUnsubscribeAnnounces)\<lparr>
       msg_Namespace := usam_TrackNamespacePrefix msg\<rparr>)"

section \<open>Dispatch\<close>

fun receive_setup :: "Env \<Rightarrow> ControlMessage \<Rightarrow> (Session, unit) st" where
  "receive_setup env (ClientSetup m) = onClientSetup env m"
| "receive_setup env (ServerSetup m) = onServerSetup m"
| "receive_setup env _ = failS errUnexpectedMessageTypeBeforeSetup"

fun receive_message :: "Env \<Rightarrow> ControlMessage \<Rightarrow> (Session, unit) st" where
  "receive_message env (GoAway m) = onGoAway env m"
| "receive_message env (MaxRequestID m) = onMaxRequestID m"
| "receive_message env (RequestsBlocked m) = onRequestsBlocked m"
| "receive_message env (Subscribe m) = onSubscribe env m"
| "receive_message env (SubscribeOk m) = onSubscribeOk env m"
| "receive_message env (SubscribeError m) = onSubscribeError m"
| "receive_message env (SubscribeUpdate m) = onSubscribeUpdate env m"
| "receive_message env (Unsubscribe m) = onUnsubscribe m"
| "receive_message env (SubscribeDone m) = onSubscribeDone m"
| "receive_message env (Fetch m) = onFetch env m"
| "receive_message env (FetchOk m) = onFetchOk env m"
| "receive_message env (FetchError m) = onFetchError m"
| "receive_message env (FetchCancel m) = onFetchCancel m"
| "receive_message env (TrackStatusRequest m) = onTrackStatusRequest env m"
| "receive_message env (TrackStatus m) = onTrackStatus m"
| "receive_message env (Announce m) = onAnnounce env m"
| "receive_message env (AnnounceOk m) = onAnnounceOk m"
| "receive_message env (AnnounceError m) = onAnnounceError m"
| "receive_message env (Unannounce m) = onUnannounce env m"
| "receive_message env (AnnounceCancel m) = onAnnounceCancel env m"
| "receive_message env (SubscribeAnnounces m) = onSubscribeAnnounces env m"
| "receive_message env (SubscribeAnnouncesOk m) = onSubscribeAnnouncesOk m"
| "receive_message env (SubscribeAnnouncesError m) = onSubscribeAnnouncesError m"
| "receive_message env (UnsubscribeAnnounces m) = onUnsubscribeAnnounces env m"
| "receive_message env _ = failS errUnexpectedMessageType"

definition receive :: "Env \<Rightarrow> ControlMessage \<Rightarrow> (Session, unit) st" where
  "receive env msg =
     bindS (getsS ses_handshakeDone) (\<lambda>isDone.
       if \<not> isDone then receive_setup env msg else receive_message env msg)"

section \<open>The reading loops\<close>

text \<open>
  \<^verbatim>\<open>readControlStream\<close> handles the messages that the stream delivers until a handler or the
  parser fails, and returns that failure.
\<close>

fun receive_all :: "Env \<Rightarrow> ControlMessage list \<Rightarrow> (Session, unit) st" where
  "receive_all env [] = returnS ()"
| "receive_all env (msg # msgs) = thenS (receive env msg) (receive_all env msgs)"

definition readControlStream :: "Env \<Rightarrow> bytes \<Rightarrow> Session \<Rightarrow> (unit result \<times> Session) option" where
  "readControlStream env input s =
     (case controlStream_read (env_qv env) input of
        None \<Rightarrow> None
      | Some (msgs, e) \<Rightarrow> Some (thenS (receive_all env msgs) (liftR (Inl e)) s))"

text \<open>A computation on one remote track of the store, which may not return.\<close>

definition on_rt ::
  "ref \<Rightarrow> (RemoteTrack \<Rightarrow> (unit result \<times> RemoteTrack) option) \<Rightarrow> Session \<Rightarrow> (unit result \<times> Session) option" where
  "on_rt r f s = map_option (\<lambda>(res, t). (res, s\<lparr>ses_rt := (ses_rt s)(r := t)\<rparr>)) (f (ses_rt s r))"

definition Session_readFetchStream ::
  "Env \<Rightarrow> ObjectStreamParser \<Rightarrow> Session \<Rightarrow> (unit result \<times> Session) option" where
  "Session_readFetchStream env parser s =
     (case remoteTrackMap_findByRequestID (ses_remoteTracks s) (osp_identifier parser) of
        None \<Rightarrow> Some (Inl (Fail errUnknownRequestID), s)
      | Some rt \<Rightarrow> on_rt rt (RemoteTrack_readFetchStream (env_qv env) parser) s)"

definition Session_readSubgroupStream ::
  "Env \<Rightarrow> ObjectStreamParser \<Rightarrow> Session \<Rightarrow> (unit result \<times> Session) option" where
  "Session_readSubgroupStream env parser s =
     (case remoteTrackMap_findByTrackAlias (ses_remoteTracks s) (osp_identifier parser) of
        None \<Rightarrow> Some (Inl (Fail errUnknownRequestID), s)
      | Some rt \<Rightarrow> on_rt rt (RemoteTrack_readSubgroupStream (env_qv env) parser) s)"

definition handleUniStream ::
  "Env \<Rightarrow> ObjectStreamParser \<Rightarrow> Session \<Rightarrow> (unit result \<times> Session) option" where
  "handleUniStream env parser s =
     (if osp_typ parser = StreamTypeFetch then Session_readFetchStream env parser s
      else Session_readSubgroupStream env parser s)"

text \<open>
  The goroutine that \<^verbatim>\<open>readStreams\<close> starts for a stream drops every error; a panic in it ends
  the process.
\<close>

definition readStreams_stream :: "Env \<Rightarrow> bytes \<Rightarrow> Session \<Rightarrow> (unit result \<times> Session) option" where
  "readStreams_stream env input s =
     (case NewObjectStreamParser (env_qv env) input of
        Inl Panic \<Rightarrow> Some (Inl Panic, s)
      | Inl (Fail _) \<Rightarrow> Some (Inr (), s)
      | Inr parser \<Rightarrow>
          map_option (\<lambda>(res, s). (if res = Inl Panic then Inl Panic else Inr (), s))
            (handleUniStream env parser s))"

definition receiveDatagram :: "ObjectDatagramMessage \<Rightarrow> (Session, unit) st" where
  "receiveDatagram msg =
     bindS (remoteTrackByTrackAlias (odm_TrackAlias msg)) (\<lambda>found.
       case found of
         None \<Rightarrow> failS errUnknownTrackAlias
       | Some subscription \<Rightarrow>
           modify_rt subscription (\<lambda>t. RemoteTrack_push t
             \<lparr>obj_GroupID = odm_GroupID msg, obj_ObjectID = odm_ObjectID msg,
              obj_ForwardingPreference = ObjectForwardingPreferenceDatagram,
              obj_SubGroupID = 0, obj_Payload = odm_ObjectPayload msg\<rparr>))"

text \<open>One turn of \<^verbatim>\<open>readDatagrams\<close>; \<^term>\<open>None\<close> when parsing the datagram never ends.\<close>

definition readDatagrams_datagram :: "Env \<Rightarrow> bytes \<Rightarrow> Session \<Rightarrow> (unit result \<times> Session) option" where
  "readDatagrams_datagram env dgram s =
     (case ObjectDatagramMessage_Parse (env_qv env) newObjectDatagramMessage dgram of
        None \<Rightarrow> None
      | Some (Inl e) \<Rightarrow> Some (Inl e, s)
      | Some (Inr (msg, _)) \<Rightarrow> Some (receiveDatagram msg s))"

end
