(* ===== verification/Session_Invariants.thy ===== *)
theory Session_Invariants
  imports Session_Handlers
begin

text \<open>
  The invariant of a session and that every operation keeps it, whatever it returns: the tables of
  tracks are consistent with the store, request IDs are fresh, the channels stay within their
  capacity, the handshake is finished once. The operations are the steps of a transition relation;
  every reachable state has the invariant.
\<close>

section \<open>The invariant\<close>

definition inv_local :: "Session \<Rightarrow> bool" where
  "inv_local s \<longleftrightarrow>
     (\<forall>k. ltm_pending (ses_localTracks s) k = None \<or> ltm_open (ses_localTracks s) k = None) \<and>
     (\<forall>k r. ltm_pending (ses_localTracks s) k = Some r \<or> ltm_open (ses_localTracks s) k = Some r \<longrightarrow>
        r < ses_next s \<and> lt_requestID (ses_lt s r) = k)"

definition inv_remote :: "Session \<Rightarrow> bool" where
  "inv_remote s \<longleftrightarrow>
     (\<forall>k. rtm_pending (ses_remoteTracks s) k = None \<or> rtm_open (ses_remoteTracks s) k = None) \<and>
     (\<forall>k r. rtm_pending (ses_remoteTracks s) k = Some r \<or> rtm_open (ses_remoteTracks s) k = Some r \<longrightarrow>
        r < ses_next s \<and> rt_requestID (ses_rt s r) = k \<and> k < rg_id (ses_requestIDs s))"

definition within_capacity :: "RemoteTrack \<Rightarrow> bool" where
  "within_capacity t \<longleftrightarrow> length (rt_buffer t) \<le> buffer_capacity \<and> length (rt_responseChan t) \<le> 1"

definition inv_channels :: "Session \<Rightarrow> bool" where
  "inv_channels s \<longleftrightarrow>
     (\<forall>r. within_capacity (ses_rt s r) \<and> length (ses_errCh s r) \<le> 1 \<and> length (ses_statusCh s r) \<le> 1)"

definition inv_handshake :: "Session \<Rightarrow> bool" where
  "inv_handshake s \<longleftrightarrow> (ses_handshakeDone s \<longleftrightarrow> ses_handshakeDoneCh s)"

text \<open>The client numbers its requests with even IDs, the server with odd ones.\<close>

definition inv_ids :: "Session \<Rightarrow> bool" where
  "inv_ids s \<longleftrightarrow>
     rg_interval (ses_requestIDs s) = 2 \<and>
     (odd (rg_id (ses_requestIDs s)) \<longleftrightarrow> cn_Perspective (ses_conn s) = PerspectiveServer) \<and>
     unat (rg_id (ses_requestIDs s)) < 2 ^ 62 + 2 \<and> unat (rg_max (ses_requestIDs s)) < 2 ^ 62"

definition inv_session :: "Session \<Rightarrow> bool" where
  "inv_session s \<longleftrightarrow>
     inv_local s \<and> inv_remote s \<and> inv_channels s \<and> inv_handshake s \<and> inv_ids s"

lemmas inv_defs = inv_session_def inv_local_def inv_remote_def inv_channels_def inv_handshake_def
  inv_ids_def

lemma inv_newSession: "inv_session (newSession i conn)"
  by (cases "cn_Perspective conn")
    (simp_all add: inv_defs newSession_def newLocalTrackMap_def newRemoteTrackMap_def
      newRequestIDGenerator_def perspective_id_def within_capacity_def newRemoteTrack_def)

section \<open>Primitive operations\<close>

lemma conn_update_inv:
  "inv_session s \<Longrightarrow> cn_Perspective c = cn_Perspective (ses_conn s) \<Longrightarrow> inv_session (s\<lparr>ses_conn := c\<rparr>)"
  by (simp add: inv_defs)

lemma ses_write_keeps [keeping]: "keeps inv_session (ses_write env m)"
  by (rule keepsI) (simp add: ses_write_def onS_def split_beta conn_update_inv)

lemma local_tables_inv:
  assumes "inv_session s"
  shows "inv_session (s\<lparr>ses_localTracks := snd (localTrackMap_confirm (ses_localTracks s) k)\<rparr>)"
    and "inv_session (s\<lparr>ses_localTracks := snd (localTrackMap_reject (ses_localTracks s) k)\<rparr>)"
    and "inv_session (s\<lparr>ses_localTracks := snd (localTrackMap_delete (ses_localTracks s) k)\<rparr>)"
  using assms
  by (auto simp: inv_defs localTrackMap_confirm_def localTrackMap_reject_def localTrackMap_delete_def
      split: option.splits)

lemma upd_localTracks_keeps [keeping]:
  "keeps inv_session (upd_localTracks (\<lambda>m. localTrackMap_confirm m k))"
  "keeps inv_session (upd_localTracks (\<lambda>m. localTrackMap_reject m k))"
  "keeps inv_session (upd_localTracks (\<lambda>m. localTrackMap_delete m k))"
  unfolding upd_localTracks_def by (rule keeps_upd, simp add: local_tables_inv)+

lemma remote_tables_inv:
  assumes "inv_session s"
  shows "inv_session (s\<lparr>ses_remoteTracks := snd (remoteTrackMap_confirm (ses_remoteTracks s) k)\<rparr>)"
    and "inv_session (s\<lparr>ses_remoteTracks := snd (remoteTrackMap_reject (ses_remoteTracks s) k)\<rparr>)"
    and "inv_session (s\<lparr>ses_remoteTracks := snd (remoteTrackMap_setAlias (ses_remoteTracks s) k a)\<rparr>)"
  using assms
  by (auto simp: inv_defs remoteTrackMap_confirm_def remoteTrackMap_reject_def
      remoteTrackMap_setAlias_def split: option.splits)

lemma upd_remoteTracks_keeps [keeping]:
  "keeps inv_session (upd_remoteTracks (\<lambda>m. remoteTrackMap_confirm m k))"
  "keeps inv_session (upd_remoteTracks (\<lambda>m. remoteTrackMap_reject m k))"
  "keeps inv_session (upd_remoteTracks (\<lambda>m. remoteTrackMap_setAlias m k a))"
  unfolding upd_remoteTracks_def by (rule keeps_upd, simp add: remote_tables_inv)+

text \<open>Parts of the state that the invariant does not mention.\<close>

lemma other_tables_keeps [keeping]:
  "keeps inv_session (upd_outgoingAnnouncements f)"
  "keeps inv_session (upd_incomingAnnouncements f')"
  "keeps inv_session (upd_outgoingSubscriptions g)"
  "keeps inv_session (upd_trackStatusRequests h)"
  "keeps inv_session (log_app ev)"
  "keeps inv_session (updS ses_trackAliases (\<lambda>x s. s\<lparr>ses_trackAliases := x\<rparr>) q)"
  "keeps inv_session (modifyS (\<lambda>s. s\<lparr>ses_version := v\<rparr>))"
  "keeps inv_session (modifyS (\<lambda>s. s\<lparr>ses_path := p\<rparr>))"
  "keeps inv_session (modifyS (\<lambda>s. s\<lparr>ses_localMaxRequestID := mx\<rparr>))"
  "keeps inv_session (modifyS (\<lambda>s. s\<lparr>ses_pendingIncomingAnnouncementSubscriptions := f'' s\<rparr>))"
  by (auto simp: upd_outgoingAnnouncements_def upd_incomingAnnouncements_def
      upd_outgoingSubscriptions_def upd_trackStatusRequests_def log_app_def keeps_def updS_def
      modifyS_def inv_defs split: prod.splits)

lemma alloc_chan_keeps [keeping]:
  "keeps inv_session alloc_errCh" "keeps inv_session alloc_statusCh"
  by (fastforce simp: keeps_def alloc_errCh_def alloc_statusCh_def inv_defs)+

lemma send_keeps [keeping]:
  "keeps inv_session (send_errCh r e)" "keeps inv_session (send_statusCh r x)"
  "keeps inv_session (send_rt_response r e)"
  by (auto simp: keeps_def send_errCh_def send_statusCh_def send_rt_response_def try_send_def
      inv_defs within_capacity_def)

lemma modify_rt_keeps:
  assumes "\<And>t. rt_requestID (f t) = rt_requestID t" and "\<And>t. within_capacity t \<Longrightarrow> within_capacity (f t)"
  shows "keeps inv_session (modify_rt r f)"
  using assms by (auto simp: keeps_def modify_rt_def modifyS_def inv_defs)

lemma modify_lt_keeps:
  assumes "\<And>t. lt_requestID (f t) = lt_requestID t"
  shows "keeps inv_session (modify_lt r f)"
  using assms by (auto simp: keeps_def modify_lt_def modifyS_def inv_defs)

section \<open>Operations of local tracks\<close>

text \<open>The operations of a local track keep its request ID and the perspective of the connection.\<close>

definition track_frame :: "uint64 \<Rightarrow> Perspective \<Rightarrow> localTrack \<times> Connection \<Rightarrow> bool" where
  "track_frame i p = (\<lambda>(lt, c). lt_requestID lt = i \<and> cn_Perspective c = p)"

lemma net_op_perspective:
  "(\<And>bs c. cn_Perspective (f bs c) = cn_Perspective c) \<Longrightarrow>
     cn_Perspective (snd (net_op net bs f c)) = cn_Perspective c"
  by (simp add: net_op_def split: net_outcome.split)

lemma on_conn_keeps:
  assumes "keeps (\<lambda>c. cn_Perspective c = p) m"
  shows "keeps (track_frame i p) (on_conn m)"
  using assms by (auto simp: keeps_def track_frame_def on_conn_def onS_def split: prod.splits)

lemma net_ops_keep [keeping]:
  "keeps (\<lambda>c. cn_Perspective c = p) (write_stream net j bs)"
  "keeps (\<lambda>c. cn_Perspective c = p) (OpenUniStream net)"
  "keeps (\<lambda>c. cn_Perspective c = p) (SendDatagram net bs)"
  by (auto simp: keeps_def write_stream_def OpenUniStream_def SendDatagram_def net_op_def effects
      split: net_outcome.splits)

lemma track_ops_keep:
  "keeps (track_frame i p) (getFetchStream qv net)"
  "keeps (track_frame i p) (localTrack_sendDatagram qv net ob)"
  "keeps (track_frame i p) (openSubgroup qv net g sg prio)"
  unfolding getFetchStream_def localTrack_sendDatagram_def openSubgroup_def localTrack_closed_def
    newFetchStream_def newSubgroup_def
  by (intro keeping on_conn_keeps; auto simp: keeps_def track_frame_def throwS_def effects
      split: option.splits)+

lemma on_track_keeps:
  assumes "\<And>i p. keeps (track_frame i p) m"
  shows "keeps inv_session (on_track r m)"
proof (rule keepsI)
  fix s
  assume inv: "inv_session s"
  obtain res lt c where m: "m (ses_lt s r, ses_conn s) = (res, (lt, c))" by (metis prod.exhaust)
  from assms have "track_frame (lt_requestID (ses_lt s r)) (cn_Perspective (ses_conn s))
      (snd (m (ses_lt s r, ses_conn s)))"
    by (rule keepsD) (simp add: track_frame_def)
  with m inv show "inv_session (snd (on_track r m s))"
    by (auto simp: track_frame_def on_track_def onS_def inv_defs)
qed

lemmas track_calls [keeping] = track_ops_keep [THEN on_track_keeps]

section \<open>Request IDs\<close>

lemma setMax_keeps_inv [keeping]:
  assumes "fits v"
  shows "keeps inv_session (upd_requestIDs (\<lambda>g. requestIDGenerator_setMax g v))"
  using assms
  by (auto simp: keeps_def upd_requestIDs_def updS_def requestIDGenerator_setMax_def inv_defs
      fits_def maxVarInt_def)

text \<open>A new ID belongs to no remote track yet, and stays below the counter.\<close>

definition fresh_id :: "uint64 \<Rightarrow> Session \<Rightarrow> bool" where
  "fresh_id k s \<longleftrightarrow> k < rg_id (ses_requestIDs s) \<and>
     rtm_pending (ses_remoteTracks s) k = None \<and> rtm_open (ses_remoteTracks s) k = None"

lemma id_advances:
  fixes i :: uint64
  assumes "unat i < 2 ^ 62"
  shows "i < i + 2" and "unat (i + 2) < 2 ^ 62 + 2" and "odd (i + 2) \<longleftrightarrow> odd i"
proof -
  have "unat (i + 2) = unat i + 2"
    using assms by (subst unat_add_small) simp_all
  then show "i < i + 2" and "unat (i + 2) < 2 ^ 62 + 2"
    using assms by (simp_all add: word_less_nat_alt)
  show "odd (i + 2) \<longleftrightarrow> odd i" by simp
qed

lemma next_inv:
  assumes "inv_session s" and "rg_id (ses_requestIDs s) < rg_max (ses_requestIDs s)"
  shows "inv_session (s\<lparr>ses_requestIDs := (ses_requestIDs s)\<lparr>
             rg_id := rg_id (ses_requestIDs s) + rg_interval (ses_requestIDs s)\<rparr>\<rparr>)"
    and "rg_id (ses_requestIDs s) < rg_id (ses_requestIDs s) + rg_interval (ses_requestIDs s)"
proof -
  let ?i = "rg_id (ses_requestIDs s)"
  have "unat ?i < 2 ^ 62" and two: "rg_interval (ses_requestIDs s) = 2"
    using assms by (simp_all add: inv_defs word_less_nat_alt)
  note adv = id_advances [OF this(1)]
  then show lt: "?i < ?i + rg_interval (ses_requestIDs s)" by (simp add: two)
  have "k < ?i \<Longrightarrow> k < ?i + 2" for k by (rule order.strict_trans [OF _ adv(1)])
  with assms(1) adv two show "inv_session (s\<lparr>ses_requestIDs := (ses_requestIDs s)\<lparr>
             rg_id := ?i + rg_interval (ses_requestIDs s)\<rparr>\<rparr>)"
    by (auto simp: inv_session_def inv_local_def inv_remote_def inv_channels_def inv_handshake_def
        inv_ids_def)
qed

lemma fresh_next:
  assumes "inv_session s"
  shows "rtm_pending (ses_remoteTracks s) (rg_id (ses_requestIDs s)) = None \<and>
         rtm_open (ses_remoteTracks s) (rg_id (ses_requestIDs s)) = None"
proof -
  have "rtm_pending (ses_remoteTracks s) k = Some r \<Longrightarrow> k < rg_id (ses_requestIDs s)"
    "rtm_open (ses_remoteTracks s) k = Some r \<Longrightarrow> k < rg_id (ses_requestIDs s)" for k r
    using assms by (auto simp: inv_defs)
  from this [of "rg_id (ses_requestIDs s)"] show ?thesis
    by (metis less_irrefl option.exhaust)
qed

lemma newRequestID_ok:
  "rg_id (ses_requestIDs s) < rg_max (ses_requestIDs s) \<Longrightarrow>
   newRequestID env s = (Inr (rg_id (ses_requestIDs s)), s\<lparr>ses_requestIDs := (ses_requestIDs s)\<lparr>
      rg_id := rg_id (ses_requestIDs s) + rg_interval (ses_requestIDs s)\<rparr>\<rparr>)"
  by (auto simp: newRequestID_def getRequestID_def upd_requestIDs_def requestIDGenerator_next_def
      effects not_le)

lemma newRequestID_blocked:
  "\<not> rg_id (ses_requestIDs s) < rg_max (ses_requestIDs s) \<Longrightarrow>
   newRequestID env s = bindS (tryS (ses_write env (RequestsBlocked
       \<lparr>rbm_MaximumRequestID = rg_max (ses_requestIDs s)\<rparr>))) (\<lambda>_. failS errRequestIDblocked) s"
  by (simp add: newRequestID_def getRequestID_def upd_requestIDs_def requestIDGenerator_next_def
      bindS_def updS_def throwS_def failS_def returnS_def not_less split: prod.splits sum.splits)

lemma newRequestID_triple: "triple inv_session (\<lambda>_. True) (newRequestID env) fresh_id"
proof (rule tripleI)
  fix s
  assume inv: "inv_session s"
  show "inv_session (snd (newRequestID env s))"
  proof (cases "rg_id (ses_requestIDs s) < rg_max (ses_requestIDs s)")
    case True
    then show ?thesis by (simp add: newRequestID_ok next_inv(1) [OF inv])
  next
    case False
    have "keeps inv_session (bindS (tryS (ses_write env (RequestsBlocked
        \<lparr>rbm_MaximumRequestID = rg_max (ses_requestIDs s)\<rparr>))) (\<lambda>_. failS errRequestIDblocked))"
      by (intro keeping)
    from keepsD [OF this inv] False show ?thesis by (simp add: newRequestID_blocked)
  qed
next
  fix s k
  assume inv: "inv_session s" and k: "fst (newRequestID env s) = Inr k"
  have lt: "rg_id (ses_requestIDs s) < rg_max (ses_requestIDs s)"
    using k by (rule contrapos_pp)
      (auto simp: newRequestID_blocked bindS_def failS_def split: prod.splits sum.splits)
  with k next_inv(2) [OF inv lt] fresh_next [OF inv] show "fresh_id k (snd (newRequestID env s))"
    by (auto simp: newRequestID_ok fresh_id_def)
qed

lemma newRequestID_keeps [keeping]: "keeps inv_session (newRequestID env)"
  using newRequestID_triple by (rule keeps_triple)

section \<open>Adding tracks\<close>

definition new_rt :: "uint64 \<Rightarrow> ref \<Rightarrow> Session \<Rightarrow> bool" where
  "new_rt k r s \<longleftrightarrow> fresh_id k s \<and> r < ses_next s \<and> rt_requestID (ses_rt s r) = k"

lemma alloc_rt_triple:
  assumes "rt_requestID t = k" and "within_capacity t"
  shows "triple inv_session (fresh_id k) (alloc_rt t) (new_rt k)"
proof (rule tripleI)
  fix s
  assume "inv_session s" "fresh_id k s"
  then show "inv_session (snd (alloc_rt t s))"
    using assms by (fastforce simp: alloc_rt_def inv_defs)
next
  fix s r
  assume "fresh_id k s" "fst (alloc_rt t s) = Inr r"
  with assms show "new_rt k r (snd (alloc_rt t s))"
    by (auto simp: alloc_rt_def new_rt_def fresh_id_def)
qed

text \<open>Since the ID is fresh, adding the track never reports a duplicate.\<close>

lemma addPending_triple:
  "triple inv_session (new_rt k r) (upd_remoteTracks (\<lambda>m. remoteTrackMap_addPending m k r))
     (\<lambda>err _. err = None)"
proof (rule tripleI)
  fix s
  assume "inv_session s" "new_rt k r s"
  then show "inv_session (snd (upd_remoteTracks (\<lambda>m. remoteTrackMap_addPending m k r) s))"
    by (auto simp: upd_remoteTracks_def updS_def remoteTrackMap_addPending_def new_rt_def fresh_id_def
        inv_defs)
next
  fix s err
  assume "new_rt k r s" "fst (upd_remoteTracks (\<lambda>m. remoteTrackMap_addPending m k r) s) = Inr err"
  then show "err = None"
    by (auto simp: upd_remoteTracks_def updS_def remoteTrackMap_addPending_def new_rt_def fresh_id_def)
qed

lemma newRemoteTrack_ok:
  "rt_requestID (newRemoteTrack k f g) = k" "within_capacity (newRemoteTrack k f g)"
  by (simp_all add: newRemoteTrack_def within_capacity_def)

lemma add_remote_keeps:
  assumes "\<And>k r err. keeps inv_session (cont k r err)"
  shows "keeps inv_session
    (bindS (newRequestID env) (\<lambda>k.
     bindS (alloc_rt (newRemoteTrack k (f k) (g k))) (\<lambda>r.
     bindS (upd_remoteTracks (\<lambda>m. remoteTrackMap_addPending m k r)) (cont k r))))"
  by (rule keepsI_bind_triple [OF newRequestID_triple])
    (rule triple_bind [OF alloc_rt_triple [OF newRemoteTrack_ok]],
      rule triple_bind [OF addPending_triple], rule triple_keeps, rule assms)

definition known_lt :: "ref \<Rightarrow> Session \<Rightarrow> bool" where
  "known_lt r s \<longleftrightarrow> r < ses_next s"

lemma alloc_lt_triple: "triple inv_session (\<lambda>_. True) (alloc_lt t) known_lt"
  by (rule tripleI) (fastforce simp: alloc_lt_def inv_defs known_lt_def)+

lemma add_local_inv:
  assumes "inv_session s" and "r < ses_next s" and "lt_requestID (ses_lt s r) = k"
  shows "inv_session (s\<lparr>ses_localTracks := snd (localTrackMap_addPending (ses_localTracks s) k r)\<rparr>)"
  using assms by (auto simp: inv_defs localTrackMap_addPending_def)

lemma add_known_triple:
  "triple inv_session (\<lambda>s. known_lt r s \<and> lt_requestID (ses_lt s r) = k)
     (upd_localTracks (\<lambda>m. localTrackMap_addPending m k r)) (\<lambda>_ _. True)"
  by (rule tripleI)
    (simp_all add: upd_localTracks_def updS_def split_beta add_local_inv known_lt_def)

lemma ses_write_frame: "keeps (\<lambda>s. inv_session s \<and> known_lt r s \<and> lt_requestID (ses_lt s r) = k) (ses_write env m)"
  using ses_write_keeps [of env m]
  by (auto simp: keeps_def known_lt_def ses_write_def onS_def split_beta)

lemma addLocalTrack_triple: "triple inv_session (known_lt r) (addLocalTrack env r) (\<lambda>_ _. True)"
proof -
  let ?P = "\<lambda>k s. known_lt r s \<and> lt_requestID (ses_lt s r) = k"
  have mod: "triple inv_session (?P k) (modifyS (\<lambda>s. s\<lparr>ses_localMaxRequestID := mx\<rparr>)) (\<lambda>_. ?P k)" for k mx
    by (rule triple_frame) (auto simp: keeps_def modifyS_def inv_defs known_lt_def)
  have wr: "triple inv_session (?P k) (tryS (ses_write env m)) (\<lambda>_. ?P k)" for k m
    by (intro triple_frame keeping ses_write_frame)
  have ret: "triple inv_session (?P k) (returnS x) (\<lambda>_. ?P k)" for k x
    by (simp add: triple_def returnS_def)
  have add: "triple inv_session (?P k) (bindS (upd_localTracks (\<lambda>m. localTrackMap_addPending m k r))
      (\<lambda>ok. if \<not> ok then failS errDuplicateRequestID else returnS ())) (\<lambda>_ _. True)" for k
    by (rule triple_bind [OF add_known_triple]) (rule triple_keeps, intro keeping)
  have bump: "triple inv_session (?P k)
      (if b then let newMax = 2 * mx
                 in thenS (modifyS (\<lambda>s. s\<lparr>ses_localMaxRequestID := newMax\<rparr>))
                    (bindS (tryS (ses_write env (MaxRequestID \<lparr>mrm_RequestID = newMax\<rparr>))) (\<lambda>_. returnS ()))
       else returnS ()) (\<lambda>_. ?P k)" for k b mx
  proof (cases b)
    case True
    have "triple inv_session (?P k) (thenS (modifyS (\<lambda>s. s\<lparr>ses_localMaxRequestID := 2 * mx\<rparr>))
        (bindS (tryS (ses_write env (MaxRequestID \<lparr>mrm_RequestID = 2 * mx\<rparr>))) (\<lambda>_. returnS ()))) (\<lambda>_. ?P k)"
      by (rule triple_bind [OF mod], rule triple_bind [OF wr], rule ret)
    with True show ?thesis by (simp add: Let_def)
  qed (simp add: ret)
  have body: "triple inv_session (?P k)
      (if k \<ge> mx then failS errMaxRequestIDViolated
       else thenS (if k \<ge> mx div 2
                   then let newMax = 2 * mx
                        in thenS (modifyS (\<lambda>s. s\<lparr>ses_localMaxRequestID := newMax\<rparr>))
                           (bindS (tryS (ses_write env (MaxRequestID \<lparr>mrm_RequestID = newMax\<rparr>)))
                              (\<lambda>_. returnS ()))
                   else returnS ())
            (bindS (upd_localTracks (\<lambda>m. localTrackMap_addPending m k r)) (\<lambda>ok.
               if \<not> ok then failS errDuplicateRequestID else returnS ()))) (\<lambda>_ _. True)" for k mx
    using triple_bind [OF bump add] by (simp add: triple_def failS_def)
  show ?thesis
    unfolding addLocalTrack_def
    by (rule triple_bind [OF triple_gets]) (auto intro!: triple_weaken [OF body])
qed

lemma try_addLocalTrack_triple: "triple inv_session (known_lt r) (tryS (addLocalTrack env r)) (\<lambda>_ _. True)"
  using addLocalTrack_triple [of r env]
  by (fastforce simp: triple_def tryS_def split: prod.splits sum.splits failure.splits)

lemma add_local_keeps:
  assumes "\<And>r err. keeps inv_session (cont r err)"
  shows "keeps inv_session
    (bindS (alloc_lt t) (\<lambda>r. bindS (tryS (addLocalTrack env r)) (cont r)))"
  by (rule keepsI_bind_triple [OF alloc_lt_triple])
    (rule triple_bind [OF try_addLocalTrack_triple], rule triple_keeps, rule assms)

section \<open>Properties kept by the primitive operations\<close>

lemma ignore_keeps [keeping]: "keeps P m \<Longrightarrow> keeps P (ignore m)"
  unfolding ignore_def by (intro keeping)

lemma panic_keeps [keeping]: "keeps P panicS"
  unfolding panicS_def by (rule keeps_lift)

lemma run_script_keeps [keeping]: "(\<And>c. keeps P (exec c)) \<Longrightarrow> keeps P (run_script exec sc)"
  by (induction sc) (auto intro!: keeps_return keeps_bind keeps_try)

text \<open>
  What the operations of the API and the response writers keep follows from what the primitive
  operations keep: the locale states the latter, its lemmas give the former. The invariant is one
  instance, the fate of the response channels is another.
\<close>

locale session_property =
  fixes P :: "Session \<Rightarrow> bool"
  assumes write_keeps: "keeps P (ses_write env m)"
    and requestID_keeps: "keeps P (newRequestID env)"
    and local_confirm_keeps: "keeps P (upd_localTracks (\<lambda>m. localTrackMap_confirm m k))"
    and local_reject_keeps: "keeps P (upd_localTracks (\<lambda>m. localTrackMap_reject m k))"
    and local_delete_keeps: "keeps P (upd_localTracks (\<lambda>m. localTrackMap_delete m k))"
    and outgoing: "P s \<Longrightarrow> P (s\<lparr>ses_outgoingAnnouncements := am\<rparr>)"
    and incoming: "P s \<Longrightarrow> P (s\<lparr>ses_incomingAnnouncements := am\<rparr>)"
    and subscriptions: "P s \<Longrightarrow> P (s\<lparr>ses_pendingOutgointAnnouncementSubscriptions := sm\<rparr>)"
    and statusRequests: "P s \<Longrightarrow> P (s\<lparr>ses_outgoingTrackStatusRequests := tm\<rparr>)"
    and alloc_errCh_keeps: "keeps P alloc_errCh"
    and alloc_statusCh_keeps: "keeps P alloc_statusCh"
    and fetchStream_keeps: "keeps P (on_track r (getFetchStream qv net))"
    and datagram_keeps: "keeps P (on_track r (localTrack_sendDatagram qv net ob))"
    and subgroup_keeps: "keeps P (on_track r (openSubgroup qv net g sg prio))"
    and lt_done_keeps: "keeps P (modify_lt r (\<lambda>t. t\<lparr>lt_done := cancel (lt_done t) e\<rparr>))"
begin

lemma tables_keep [keeping]:
  "keeps P (upd_outgoingAnnouncements f1)" "keeps P (upd_incomingAnnouncements f2)"
  "keeps P (upd_outgoingSubscriptions f3)" "keeps P (upd_trackStatusRequests f4)"
  unfolding upd_outgoingAnnouncements_def upd_incomingAnnouncements_def upd_outgoingSubscriptions_def
    upd_trackStatusRequests_def
  by (rule keeps_upd, simp add: outgoing incoming subscriptions statusRequests)+

lemmas primitives [keeping] = write_keeps requestID_keeps local_confirm_keeps local_reject_keeps
  local_delete_keeps
  alloc_errCh_keeps alloc_statusCh_keeps fetchStream_keeps datagram_keeps subgroup_keeps lt_done_keeps

lemma close_keeps [keeping]: "keeps P (RemoteTrack_Close env rt)"
proof -
  have "keeps P (case g of CallUnsubscribe i \<Rightarrow> Session_unsubscribe env i
          | CallFetchCancel i \<Rightarrow> fetchCancel env i)" for g
    by (cases g) (simp_all add: Session_unsubscribe_def fetchCancel_def write_keeps)
  then show ?thesis unfolding RemoteTrack_Close_def by (intro keeping)
qed

lemma senders_keep [keeping]:
  "keeps P (sendClientSetup env)"
  "keeps P (UpdateSubscription env k updates)"
  "keeps P (acceptSubscriptionWithOptions env k opts)"
  "keeps P (rejectSubscription env k code reason)"
  "keeps P (subscriptionDone env k code count reason)"
  "keeps P (acceptFetch env k)"
  "keeps P (rejectFetch env k code reason)"
  "keeps P (RequestTrackStatus_send env ns name)"
  "keeps P (sendTrackStatus env ts)"
  "keeps P (Announce_send env ns)"
  "keeps P (acceptAnnouncement env k)"
  "keeps P (rejectAnnouncement env k code reason)"
  "keeps P (Session_Unannounce env ns)"
  "keeps P (Session_AnnounceCancel env ns code reason)"
  "keeps P (SubscribeAnnouncements_send env ns)"
  "keeps P (acceptAnnouncementSubscription env k)"
  "keeps P (rejectAnnouncementSubscription env k code reason)"
  "keeps P (UnsubscribeAnnouncements env ns)"
  unfolding sendClientSetup_def UpdateSubscription_def remoteTrackByRequestID_def
    acceptSubscriptionWithOptions_def rejectSubscription_def subscriptionDone_def acceptFetch_def
    rejectFetch_def RequestTrackStatus_send_def sendTrackStatus_def Announce_send_def
    acceptAnnouncement_def rejectAnnouncement_def Session_Unannounce_def Session_AnnounceCancel_def
    SubscribeAnnouncements_send_def acceptAnnouncementSubscription_def
    rejectAnnouncementSubscription_def UnsubscribeAnnouncements_def
  by (intro keeping)+

lemma update_keeps [keeping]: "keeps P (RemoteTrack_UpdateSubscription env rt updates)"
  unfolding RemoteTrack_UpdateSubscription_def by (intro keeping)

lemma close_track_keeps [keeping]: "keeps P (localTrack_close env lt code reason)"
  unfolding localTrack_close_def by (intro keeping)

abbreviation writer_P :: "'w \<times> Session \<Rightarrow> bool" where
  "writer_P \<equiv> (\<lambda>ws. P (snd ws))"

lemma session_part_keeps [keeping]: "keeps P m \<Longrightarrow> keeps writer_P (on_session m)"
  by (auto simp: keeps_def on_session_def onS_def split: prod.splits)

lemma writer_part_keeps [keeping]: "keeps writer_P (set_writer f)"
  by (auto simp: keeps_def set_writer_def modifyS_def split: prod.splits)

lemma writer_run_keeps [keeping]:
  assumes "keeps writer_P m"
  shows "keeps P (with_writer w m)"
proof (rule keepsI)
  fix s
  assume "P s"
  with assms have "P (snd (snd (m (w, s))))" by (simp add: keeps_def)
  then show "P (snd (with_writer w m s))"
    by (cases "m (w, s)") (auto simp: with_writer_def split: prod.splits sum.splits)
qed

lemma writers_keep [keeping]:
  "keeps writer_P (announcementResponseWriter_Accept env)"
  "keeps writer_P (announcementResponseWriter_Reject env code reason)"
  "keeps writer_P (announcementSubscriptionResponseWriter_Accept env)"
  "keeps writer_P (announcementSubscriptionResponseWriter_Reject env code reason)"
  "keeps writer_P (fetchResponseWriter_Accept env)"
  "keeps writer_P (fetchResponseWriter_Reject env code reason)"
  "keeps writer_P (fetchResponseWriter_FetchStream env)"
  "keeps writer_P (trackStatusResponseWriter_Accept env)"
  "keeps writer_P (trackStatusResponseWriter_Reject env)"
  "keeps writer_P (trackStatusResponseWriter_SetStatus c g i)"
  "keeps writer_P (SubscribeResponseWriter_Accept env opts)"
  "keeps writer_P (SubscribeResponseWriter_Reject env code reason)"
  "keeps writer_P (SubscribeResponseWriter_SendDatagram env ob)"
  "keeps writer_P (SubscribeResponseWriter_OpenSubgroup env g sg p)"
  "keeps writer_P (SubscribeResponseWriter_CloseWithError env code reason)"
  unfolding announcementResponseWriter_Accept_def announcementResponseWriter_Reject_def
    announcementSubscriptionResponseWriter_Accept_def announcementSubscriptionResponseWriter_Reject_def
    fetchResponseWriter_Accept_def fetchResponseWriter_Reject_def fetchResponseWriter_FetchStream_def
    trackStatusResponseWriter_Accept_def trackStatusResponseWriter_Reject_def
    trackStatusResponseWriter_SetStatus_def SubscribeResponseWriter_Accept_def
    SubscribeResponseWriter_Reject_def SubscribeResponseWriter_SendDatagram_def
    SubscribeResponseWriter_OpenSubgroup_def SubscribeResponseWriter_CloseWithError_def
  by (intro keeping)+

lemma calls_keep [keeping]:
  "keeps writer_P (exec_arw env c)" "keeps writer_P (exec_asrw env c)"
  "keeps writer_P (exec_frw env c)" "keeps writer_P (exec_tsrw env c)"
  "keeps writer_P (exec_srw env sc)"
  by (cases c; simp; intro keeping)+ (cases sc; simp; intro keeping)

end

interpretation ses_inv: session_property inv_session
  by unfold_locales ((intro keeping modify_lt_keeps; simp) | simp add: inv_defs)+

section \<open>Operations of the API\<close>

lemma Subscribe_send_keeps: "keeps inv_session (Subscribe_send env ns name opts)"
  unfolding Subscribe_send_def addPendingWithAlias_eq by (rule add_remote_keeps) (intro keeping)

lemma Fetch_send_keeps: "keeps inv_session (Fetch_send env ns track)"
  unfolding Fetch_send_def by (rule add_remote_keeps) (intro keeping)

lemma channel_update_inv:
  assumes "inv_session s"
  shows "rt_requestID t = rt_requestID (ses_rt s r) \<Longrightarrow>
           (within_capacity (ses_rt s r) \<Longrightarrow> within_capacity t) \<Longrightarrow>
           inv_session (s\<lparr>ses_rt := (ses_rt s)(r := t)\<rparr>)"
    and "length ch \<le> length (ses_errCh s r) \<Longrightarrow> inv_session (s\<lparr>ses_errCh := (ses_errCh s)(r := ch)\<rparr>)"
    and "length sch \<le> length (ses_statusCh s r) \<Longrightarrow>
           inv_session (s\<lparr>ses_statusCh := (ses_statusCh s)(r := sch)\<rparr>)"
proof -
  have "length (ses_errCh s r) \<le> 1" "length (ses_statusCh s r) \<le> 1"
    using assms by (simp_all add: inv_defs)
  have "length ch \<le> 1" if "length ch \<le> length (ses_errCh s r)"
    using that \<open>length (ses_errCh s r) \<le> 1\<close> by (rule order.trans)
  with assms show "length ch \<le> length (ses_errCh s r) \<Longrightarrow>
      inv_session (s\<lparr>ses_errCh := (ses_errCh s)(r := ch)\<rparr>)"
    by (simp add: inv_defs)
  have "length sch \<le> 1" if "length sch \<le> length (ses_statusCh s r)"
    using that \<open>length (ses_statusCh s r) \<le> 1\<close> by (rule order.trans)
  with assms show "length sch \<le> length (ses_statusCh s r) \<Longrightarrow>
      inv_session (s\<lparr>ses_statusCh := (ses_statusCh s)(r := sch)\<rparr>)"
    by (simp add: inv_defs)
qed (use assms in \<open>simp add: inv_defs\<close>)

section \<open>Handlers\<close>

text \<open>The request IDs in a message that limit the session's own requests fit a varint.\<close>

fun ids_fit :: "ControlMessage \<Rightarrow> bool" where
  "ids_fit (MaxRequestID m) = fits (mrm_RequestID m)"
| "ids_fit (ClientSetup m) = list_all (\<lambda>p. fits (kvp_ValueVarInt p)) (csm_SetupParameters m)"
| "ids_fit (ServerSetup m) = list_all (\<lambda>p. fits (kvp_ValueVarInt p)) (ssm_SetupParameters m)"
| "ids_fit _ = True"

lemma getMaxRequestID_fits: "list_all (\<lambda>p. fits (kvp_ValueVarInt p)) pp \<Longrightarrow> fits (getMaxRequestIDParameter pp)"
  by (auto simp: getMaxRequestIDParameter_def list_all_length split: option.splits dest: IndexFunc_Some)

lemma done_within: "within_capacity t \<Longrightarrow> within_capacity (RemoteTrack_done t code reason)"
  by (simp add: within_capacity_def RemoteTrack_done_def)

text \<open>
  The same for the messages of the peer: a property that the primitive operations of the handlers
  keep as well is kept by receiving any message.
\<close>

locale handler_property = session_property +
  assumes remote_confirm_keeps: "keeps P (upd_remoteTracks (\<lambda>m. remoteTrackMap_confirm m k))"
    and remote_reject_keeps: "keeps P (upd_remoteTracks (\<lambda>m. remoteTrackMap_reject m k))"
    and remote_alias_keeps: "keeps P (upd_remoteTracks (\<lambda>m. remoteTrackMap_setAlias m k a))"
    and setMax_keeps_P: "fits v \<Longrightarrow> keeps P (upd_requestIDs (\<lambda>g. requestIDGenerator_setMax g v))"
    and send_errCh_keeps: "keeps P (send_errCh r err)"
    and send_statusCh_keeps: "keeps P (send_statusCh r st)"
    and send_response_keeps: "keeps P (send_rt_response r err)"
    and remote_track_keeps: "(\<And>t. rt_requestID (f t) = rt_requestID t) \<Longrightarrow>
      (\<And>t. within_capacity t \<Longrightarrow> within_capacity (f t)) \<Longrightarrow> keeps P (modify_rt r f)"
    and local_track_keeps: "(\<And>t. lt_requestID (h t) = lt_requestID t) \<Longrightarrow> keeps P (modify_lt r h)"
    and add_local_track_keeps: "(\<And>r err. keeps P (cont r err :: (Session, unit) st)) \<Longrightarrow>
      keeps P (bindS (alloc_lt t) (\<lambda>r. bindS (tryS (addLocalTrack env r)) (cont r)))"
    and finish_keeps: "keeps P finish_handshake"
    and log_app_keeps: "keeps P (log_app ev)"
    and aliases_keeps: "keeps P (updS ses_trackAliases (\<lambda>x s. s\<lparr>ses_trackAliases := x\<rparr>) sequence_next)"
    and version_keeps: "keeps P (modifyS (\<lambda>s. s\<lparr>ses_version := v\<rparr>))"
    and path_keeps: "keeps P (modifyS (\<lambda>s. s\<lparr>ses_path := pth\<rparr>))"
    and incoming_subscriptions_keeps:
      "keeps P (modifyS (\<lambda>s. s\<lparr>ses_pendingIncomingAnnouncementSubscriptions := sub s\<rparr>))"
begin

lemmas handler_primitives [keeping] = remote_confirm_keeps remote_reject_keeps remote_alias_keeps
  send_errCh_keeps send_statusCh_keeps send_response_keeps finish_keeps log_app_keeps aliases_keeps
  version_keeps path_keeps incoming_subscriptions_keeps

lemma Handle_keeps [keeping]:
  "(\<And>c. keeps (\<lambda>ws. P (snd ws)) (exec c)) \<Longrightarrow> keeps P (Handle env exec w m)"
  unfolding Handle_def by (intro keeping)

lemma Handle_nil_keeps [keeping]: "keeps P (Handle_nil env m)"
proof -
  have "keeps P (case sc of Done \<Rightarrow> returnS () | Call a b \<Rightarrow> panicS)" for sc :: "rw_call script"
    by (cases sc) (simp_all add: keeps_return panic_keeps)
  then show ?thesis unfolding Handle_nil_def by (intro keeping)
qed

lemma onClientSetup_keeps: "ids_fit (ClientSetup m) \<Longrightarrow> keeps P (onClientSetup env m)"
  unfolding onClientSetup_def Let_def by (intro keeping setMax_keeps_P getMaxRequestID_fits) simp

lemma onServerSetup_keeps: "ids_fit (ServerSetup m) \<Longrightarrow> keeps P (onServerSetup m)"
  unfolding onServerSetup_def by (intro keeping setMax_keeps_P getMaxRequestID_fits) simp

lemma handlers_keep [keeping]:
  "keeps P (onGoAway env m1)"
  "keeps P (onRequestsBlocked m3)"
  "keeps P (onSubscribeOk env m4)"
  "keeps P (onSubscribeError m5)"
  "keeps P (onSubscribeUpdate env m6)"
  "keeps P (onUnsubscribe m7)"
  "keeps P (onSubscribeDone m8)"
  "keeps P (onFetchOk env m10)"
  "keeps P (onFetchError m11)"
  "keeps P (onFetchCancel m12)"
  "keeps P (onTrackStatusRequest env m13)"
  "keeps P (onTrackStatus m14)"
  "keeps P (onAnnounce env m15)"
  "keeps P (onAnnounceOk m16)"
  "keeps P (onAnnounceError m17)"
  "keeps P (onUnannounce env m18)"
  "keeps P (onAnnounceCancel env m19)"
  "keeps P (onSubscribeAnnounces env m20)"
  "keeps P (onSubscribeAnnouncesOk m21)"
  "keeps P (onSubscribeAnnouncesError m22)"
  "keeps P (onUnsubscribeAnnounces env m23)"
  unfolding onGoAway_def onRequestsBlocked_def onSubscribeOk_def onSubscribeError_def
    onSubscribeUpdate_def onUnsubscribe_def onSubscribeDone_def remoteTrackByRequestID_def
    onFetchOk_def onFetchError_def
    onFetchCancel_def onTrackStatusRequest_def onTrackStatus_def onAnnounce_def onAnnounceOk_def
    onAnnounceError_def onUnannounce_def onAnnounceCancel_def onSubscribeAnnounces_def
    onSubscribeAnnouncesOk_def onSubscribeAnnouncesError_def onUnsubscribeAnnounces_def
    send_subscription_def
  by (intro keeping remote_track_keeps local_track_keeps done_within;
      simp add: within_capacity_def RemoteTrack_done_def localTrack_unsubscribe_def)+

lemma onMaxRequestID_keeps: "fits (mrm_RequestID m) \<Longrightarrow> keeps P (onMaxRequestID m)"
  unfolding onMaxRequestID_def by (intro keeping setMax_keeps_P)

lemma onSubscribe_keeps [keeping]: "keeps P (onSubscribe env m)"
  unfolding onSubscribe_def by (intro keeping add_local_track_keeps)

lemma onFetch_keeps [keeping]: "keeps P (onFetch env m)"
  unfolding onFetch_def by (intro keeping add_local_track_keeps)

lemma receive_keeps:
  assumes "ids_fit m"
  shows "keeps P (receive env m)"
proof -
  have "keeps P (receive_setup env m)"
    using assms by (cases m) (simp_all add: onClientSetup_keeps onServerSetup_keeps keeps_fail)
  moreover have "keeps P (receive_message env m)"
    using assms by (cases m) (simp_all add: keeping onMaxRequestID_keeps)
  ultimately show ?thesis unfolding receive_def by (intro keeping)
qed

end

lemma finish_handshake_keeps [keeping]:
  "keeps inv_session finish_handshake"
  by (auto simp: keeps_def finish_handshake_def bindS_def close_handshakeDoneCh_def modifyS_def inv_defs)

interpretation ses_handlers: handler_property inv_session
  by unfold_locales ((intro keeping modify_rt_keeps modify_lt_keeps add_local_keeps setMax_keeps_inv; assumption)
      | (intro keeping))+

end
