(* ===== verification/Session_Steps.thy ===== *)
theory Session_Steps
  imports Session_Invariants
begin

text \<open>
  A session as a transition system. A step is one call of the API up to or after its wait, a call
  on a response writer, a control message, a stream or a datagram from the peer, or an object read
  by the application; steps come in any order. Every reachable state has the invariant.
\<close>

section \<open>What the parser delivers\<close>

context varint_codec
begin

lemma KeyValuePair_parse_fits: "KeyValuePair_parse qv data = Inr (p, n) \<Longrightarrow> fits (kvp_ValueVarInt p)"
  by (auto simp: KeyValuePair_parse_def bindR_eq_Inr split: if_splits
      dest: Parse_ok odd_iff_mod_2_eq_one [THEN iffD2])

lemma parseNum_loop_fits:
  "parseNum_loop qv k data pp = Inr pp' \<Longrightarrow> list_all (\<lambda>p. fits (kvp_ValueVarInt p)) pp \<Longrightarrow>
     list_all (\<lambda>p. fits (kvp_ValueVarInt p)) pp'"
proof (induction k arbitrary: data pp)
  case (Suc k)
  then obtain p n where p: "KeyValuePair_parse qv data = Inr (p, n)"
    and "parseNum_loop qv k (drop n data) (pp @ [p]) = Inr pp'"
    by (auto simp: bindR_eq_Inr slice_from_def split: if_splits)
  with Suc KeyValuePair_parse_fits [OF p] show ?case by simp
qed simp

lemma KVPList_parseNum_fits:
  "KVPList_parseNum qv [] data = Inr pp \<Longrightarrow> list_all (\<lambda>p. fits (kvp_ValueVarInt p)) pp"
  by (auto simp: KVPList_parseNum_def bindR_eq_Inr intro: parseNum_loop_fits)

lemma parse_by_type_ids_fit: "parse_by_type qv mt msg = Inr m \<Longrightarrow> ids_fit m"
  using Parse_ok
  by (fastforce simp: parse_by_type_def bindR_eq_Inr MaxRequestIDMessage_parse_def
      ClientSetupMessage_parse_def ServerSetupMessage_parse_def split: if_splits
      dest!: KVPList_parseNum_fits)

lemma Parse_ids_fit: "ControlMessageParser_Parse qv r = Inr (m, r') \<Longrightarrow> ids_fit m"
  by (auto simp: ControlMessageParser_Parse_def bindR_eq_Inr Let_def split: if_splits
      dest: parse_by_type_ids_fit)

end

section \<open>Receiving\<close>

text \<open>What reading a stream keeps of a track.\<close>

definition same_track :: "RemoteTrack \<Rightarrow> RemoteTrack \<Rightarrow> bool" where
  "same_track t t' \<longleftrightarrow>
     rt_requestID t' = rt_requestID t \<and> rt_responseChan t' = rt_responseChan t \<and>
     (within_capacity t \<longrightarrow> within_capacity t')"

lemma push_same_track: "same_track t (RemoteTrack_push t ob)"
  by (simp add: same_track_def within_capacity_def RemoteTrack_push_def try_send_def)

lemma same_track_trans: "same_track t u \<Longrightarrow> same_track u v \<Longrightarrow> same_track t v"
  by (simp add: same_track_def)

lemma readStream_same_track:
  "RemoteTrack_readStream qv p t = Some (res, t') \<Longrightarrow> same_track t t'"
proof -
  assume ret: "RemoteTrack_readStream qv p t = Some (res, t')"
  have "same_track t (snd (res, t'))"
  proof (rule RemoteTrack_readStream.raw_induct [where P = "\<lambda>qv p t r. same_track t (snd r)", OF _ ret])
    fix f qv parser t r
    assume IH: "\<And>qv parser t r. f qv parser t = Some r \<Longrightarrow> same_track t (snd r)"
      and eq: "(case ObjectStreamParser_Parse qv parser of None \<Rightarrow> None
         | Some (Inl e) \<Rightarrow> Some (if e = Fail EOF then Inr () else Inl e, t)
         | Some (Inr (m, parser)) \<Rightarrow> f qv parser (RemoteTrack_push t
               \<lparr>obj_GroupID = om_GroupID m, obj_ObjectID = om_ObjectID m,
                obj_ForwardingPreference = 0, obj_SubGroupID = om_SubgroupID m,
                obj_Payload = om_ObjectPayload m\<rparr>)) = Some r"
    show "same_track t (snd r)"
      using eq by (auto split: option.splits sum.splits prod.splits simp: same_track_def [of t t]
          intro: same_track_trans [OF push_same_track] dest: IH)
  qed
  then show ?thesis by simp
qed

lemma stream_reads_same_track:
  "RemoteTrack_readFetchStream qv p t = Some (res, t') \<Longrightarrow> same_track t t'"
  "RemoteTrack_readSubgroupStream qv p t = Some (res, t') \<Longrightarrow> same_track t t'"
  by (auto simp: RemoteTrack_readFetchStream_def RemoteTrack_readSubgroupStream_def Let_def
      same_track_def within_capacity_def split: if_splits dest: readStream_same_track)

lemma ReadObject_same_track: "ReadObject c t = Some (x, t') \<Longrightarrow> same_track t t'"
  by (auto simp: ReadObject_def same_track_def within_capacity_def split: read_case.splits list.splits)

section \<open>The transition system\<close>

text \<open>The steps other than the handling of a control message.\<close>

inductive other_step :: "Env \<Rightarrow> Session \<Rightarrow> Session \<Rightarrow> bool" for env :: Env where
  step_stream: "readStreams_stream env input s = Some (res, s') \<Longrightarrow> other_step env s s'"
| step_datagram: "readDatagrams_datagram env dgram s = Some (res, s') \<Longrightarrow> other_step env s s'"
| step_Subscribe: "other_step env s (snd (Subscribe_send env ns name options s))"
| step_Subscribe_wait: "Subscribe_wait w rt s = Some (res, s') \<Longrightarrow> other_step env s s'"
| step_UpdateSubscription: "other_step env s (snd (RemoteTrack_UpdateSubscription env rt updates s))"
| step_Close: "other_step env s (snd (RemoteTrack_Close env rt s))"
| step_ReadObject: "ReadObject c (ses_rt s rt) = Some (x, t) \<Longrightarrow>
    other_step env s (s\<lparr>ses_rt := (ses_rt s)(rt := t)\<rparr>)"
| step_Fetch: "other_step env s (snd (Fetch_send env ns name s))"
| step_Fetch_wait: "Fetch_wait env w rt s = Some (res', s') \<Longrightarrow> other_step env s s'"
| step_RequestTrackStatus: "other_step env s (snd (RequestTrackStatus_send env ns name s))"
| step_RequestTrackStatus_wait: "RequestTrackStatus_wait w ch s = Some (st, s') \<Longrightarrow> other_step env s s'"
| step_Announce: "other_step env s (snd (Announce_send env ns s))"
| step_Announce_wait: "Announce_wait w ch s = Some (res, s') \<Longrightarrow> other_step env s s'"
| step_Unannounce: "other_step env s (snd (Session_Unannounce env ns s))"
| step_AnnounceCancel: "other_step env s (snd (Session_AnnounceCancel env ns code reason s))"
| step_SubscribeAnnouncements: "other_step env s (snd (SubscribeAnnouncements_send env ns s))"
| step_SubscribeAnnouncements_wait:
    "SubscribeAnnouncements_wait w ch s = Some (res, s') \<Longrightarrow> other_step env s s'"
| step_UnsubscribeAnnouncements: "other_step env s (snd (UnsubscribeAnnouncements env ns s))"
| step_announcement_writer: "other_step env s (snd (with_writer aw (exec_arw env call) s))"
| step_announcementSubscription_writer: "other_step env s (snd (with_writer asw (exec_asrw env call) s))"
| step_fetch_writer: "other_step env s (snd (with_writer fw (exec_frw env call) s))"
| step_trackStatus_writer: "other_step env s (snd (with_writer tw (exec_tsrw env call) s))"
| step_subscribe_writer: "other_step env s (snd (with_writer sw (exec_srw env scall) s))"

inductive step :: "Env \<Rightarrow> Session \<Rightarrow> Session \<Rightarrow> bool" for env :: Env where
  step_receive: "ControlMessageParser_Parse (env_qv env) input = Inr (m, rest) \<Longrightarrow>
    step env s (snd (receive env m s))"
| step_other: "other_step env s s' \<Longrightarrow> step env s s'"

inductive reachable :: "Env \<Rightarrow> Session \<Rightarrow> bool" for env :: Env where
  reach_Run: "reachable env (snd (Session_Run env i (newConnection persp proto)))"
| reach_step: "reachable env s \<Longrightarrow> step env s s' \<Longrightarrow> reachable env s'"

inductive_cases stepE: "step env s s'"
inductive_cases other_stepE: "other_step env s s'"

section \<open>Properties kept by every step\<close>

text \<open>
  A property that the primitive operations of the API and of the handlers keep, that survives the
  removal of an element from a channel and the operations on the track of a request, is kept by every
  step.
\<close>

locale step_property = handler_property +
  assumes subscribe_keeps: "keeps P (Subscribe_send env ns name opts)"
    and fetch_keeps: "keeps P (Fetch_send env ns name)"
    and track_update: "P s \<Longrightarrow> rt_requestID t = rt_requestID (ses_rt s r) \<Longrightarrow>
      (within_capacity (ses_rt s r) \<Longrightarrow> within_capacity t) \<Longrightarrow> P (s\<lparr>ses_rt := (ses_rt s)(r := t)\<rparr>)"
    and errCh_update: "P s \<Longrightarrow> length ch \<le> length (ses_errCh s r) \<Longrightarrow>
      P (s\<lparr>ses_errCh := (ses_errCh s)(r := ch)\<rparr>)"
    and statusCh_update: "P s \<Longrightarrow> length sch \<le> length (ses_statusCh s r) \<Longrightarrow>
      P (s\<lparr>ses_statusCh := (ses_statusCh s)(r := sch)\<rparr>)"
begin

lemma same_track_update:
  "P s \<Longrightarrow> same_track (ses_rt s r) t \<Longrightarrow> P (s\<lparr>ses_rt := (ses_rt s)(r := t)\<rparr>)"
  by (rule track_update) (simp_all add: same_track_def)

lemma wait_rt_step: "P s \<Longrightarrow> wait_rt_response w r s = Some (e, s') \<Longrightarrow> P s'"
  by (auto simp: wait_rt_response_def within_capacity_def intro!: track_update
      split: wait_case.splits list.splits)

lemma wait_errCh_step: "P s \<Longrightarrow> wait_errCh w r s = Some (e, s') \<Longrightarrow> P s'"
  by (auto simp: wait_errCh_def intro!: errCh_update split: wait_case.splits list.splits)

lemma Subscribe_wait_step:
  assumes "P s" and "Subscribe_wait w r s = Some (res, s')"
  shows "P s'"
proof -
  let ?m = "\<lambda>e t. case e of None \<Rightarrow> returnS r
            | Some e \<Rightarrow> bindS (upd_remoteTracks (\<lambda>m. remoteTrackMap_reject m (rt_requestID (ses_rt t r))))
                         (\<lambda>_. failS e)"
  from assms(2) obtain e t where w: "wait_rt_response w r s = Some (e, t)" and t: "(res, s') = ?m e t t"
    by (auto simp: Subscribe_wait_def split: option.splits)
  have "keeps P (?m e t)" by (intro keeping)
  from keepsD [OF this wait_rt_step [OF assms(1) w]] t show ?thesis by (metis snd_conv)
qed

lemma Fetch_wait_step:
  assumes "P s" and "Fetch_wait env w r s = Some (res, s')"
  shows "P s'"
proof -
  let ?m = "\<lambda>e t. case e of None \<Rightarrow> returnS r
            | Some e \<Rightarrow>
                bindS (upd_remoteTracks (\<lambda>m. remoteTrackMap_reject m (rt_requestID (ses_rt t r)))) (\<lambda>_.
                bindS (tryS (RemoteTrack_Close env r)) (\<lambda>closeErr.
                  case closeErr of None \<Rightarrow> failS e | Some e' \<Rightarrow> failS (JoinError e e')))"
  from assms(2) obtain e t where w: "wait_rt_response w r s = Some (e, t)" and t: "(res, s') = ?m e t t"
    by (auto simp: Fetch_wait_def split: option.splits)
  have "keeps P (?m e t)" by (intro keeping)
  from keepsD [OF this wait_rt_step [OF assms(1) w]] t show ?thesis by (metis snd_conv)
qed

lemma err_waits_step:
  "P s \<Longrightarrow> Announce_wait w ch s = Some (res, s') \<Longrightarrow> P s'"
  "P s \<Longrightarrow> SubscribeAnnouncements_wait w ch s = Some (res, s') \<Longrightarrow> P s'"
  using wait_errCh_step [of s w ch]
  by (auto simp: Announce_wait_def SubscribeAnnouncements_wait_def effects split: option.splits)

lemma status_wait_step: "P s \<Longrightarrow> RequestTrackStatus_wait w ch s = Some (res, s') \<Longrightarrow> P s'"
  by (auto simp: RequestTrackStatus_wait_def intro!: statusCh_update split: wait_case.splits list.splits)

lemma stream_step: "P s \<Longrightarrow> readStreams_stream env input s = Some (res, s') \<Longrightarrow> P s'"
  by (auto simp: readStreams_stream_def handleUniStream_def Session_readFetchStream_def
      Session_readSubgroupStream_def on_rt_def
      split: sum.splits failure.splits option.splits if_splits
      intro!: same_track_update dest: stream_reads_same_track)

lemma receiveDatagram_keeps: "keeps P (receiveDatagram m)"
  unfolding receiveDatagram_def remoteTrackByTrackAlias_def modify_rt_def
  by (intro keeping keeps_modify same_track_update push_same_track)

lemma datagram_step:
  assumes "P s" and "readDatagrams_datagram env d s = Some (res, s')"
  shows "P s'"
proof -
  have "P (snd (receiveDatagram m s))" for m
    using receiveDatagram_keeps assms(1) by (rule keepsD)
  with assms show ?thesis
    by (auto simp: readDatagrams_datagram_def split: option.splits sum.splits) (metis snd_conv)
qed

lemmas step_calls = keepsD [OF subscribe_keeps] keepsD [OF fetch_keeps] senders_keep [THEN keepsD]
  keepsD [OF update_keeps] keepsD [OF close_keeps] calls_keep [THEN writer_run_keeps, THEN keepsD]

lemmas step_waits = stream_step datagram_step Subscribe_wait_step Fetch_wait_step status_wait_step
  err_waits_step

lemma other_step_keeps:
  assumes "other_step env s s'" and "P s"
  shows "P s'"
  using assms
proof (induction rule: other_step.induct)
  case (step_ReadObject c s rt x t)
  then show ?case by (blast intro: same_track_update ReadObject_same_track)
qed ((rule step_calls, assumption) | (rule step_waits, assumption, assumption))+

lemma step_keeps:
  assumes "varint_codec (env_qv env)" and "step env s s'" and "P s"
  shows "P s'"
  using assms(2)
proof cases
  case (step_receive input m rest)
  then have "ids_fit m" using varint_codec.Parse_ids_fit [OF assms(1)] by blast
  from keepsD [OF receive_keeps [OF this] assms(3)] step_receive show ?thesis by simp
next
  case step_other
  from this assms(3) show ?thesis by (rule other_step_keeps)
qed

lemma steps_keep:
  assumes "varint_codec (env_qv env)" and "(step env)\<^sup>*\<^sup>* s s'" and "P s"
  shows "P s'"
  using assms(2,3) by induction (auto intro: step_keeps [OF assms(1)])

end

section \<open>The invariant holds in every reachable state\<close>

interpretation ses_steps: step_property inv_session
  by unfold_locales (fact Subscribe_send_keeps Fetch_send_keeps channel_update_inv)+

lemma Run_inv: "inv_session (snd (Session_Run env i conn))"
  using keepsD [OF ses_inv.senders_keep(1) inv_newSession]
  by (simp add: Session_Run_def Let_def inv_newSession)

lemma reachable_inv: "varint_codec (env_qv env) \<Longrightarrow> reachable env s \<Longrightarrow> inv_session s"
  by (rotate_tac, induction rule: reachable.induct) (auto intro: Run_inv ses_steps.step_keeps)

lemma reachable_steps: "(step env)\<^sup>*\<^sup>* s s' \<Longrightarrow> reachable env s \<Longrightarrow> reachable env s'"
  by (induction rule: rtranclp_induct) (auto intro: reach_step)

end
