(* ===== verification/Session_Behaviour.thy ===== *)
theory Session_Behaviour
  imports Session_Steps
begin

text \<open>
  What the operations of a session do, on the wire and at the peer: the handshake, accepting and
  rejecting subscriptions, responses and the calls that wait for them, objects from a publisher's
  stream to a subscriber's track.
\<close>

section \<open>Writes that succeed\<close>

text \<open>A message that the wire format can carry.\<close>

definition wire_ok :: "quicvarint \<Rightarrow> ControlMessage \<Rightarrow> bool" where
  "wire_ok qv m \<longleftrightarrow> wf_control m \<and> length (enc_body qv m) \<le> 65535"

definition conn_sent :: "quicvarint \<Rightarrow> ControlMessage \<Rightarrow> Connection \<Rightarrow> Connection" where
  "conn_sent qv m c =
     c\<lparr>cn_ops := Suc (cn_ops c), cn_control := cn_control c @ enc_frame qv m,
       cn_sent := cn_sent c @ [m]\<rparr>"

lemma conn_sent_simps [simp]:
  "cn_Perspective (conn_sent qv m c) = cn_Perspective c"
  "cn_Protocol (conn_sent qv m c) = cn_Protocol c"
  "cn_sent (conn_sent qv m c) = cn_sent c @ [m]"
  "cn_control (conn_sent qv m c) = cn_control c @ enc_frame qv m"
  by (simp_all add: conn_sent_def)

text \<open>The message with which a subscription is accepted; its alias is always 0.\<close>

definition subscribe_ok_with :: "uint64 \<Rightarrow> SubscribeOkOptions \<Rightarrow> SubscribeOkMessage" where
  "subscribe_ok_with k opts =
     \<lparr>som_RequestID = k, som_TrackAlias = 0, som_Expires = soo_Expires opts, som_GroupOrder = soo_GroupOrder opts,
      som_ContentExists = soo_ContentExists opts,
      som_LargestLocation =
        (case soo_LargestLocation opts of
           Some l \<Rightarrow> if soo_ContentExists opts then l else zeroLocation
         | None \<Rightarrow> zeroLocation),
      som_Parameters = soo_Parameters opts\<rparr>"

abbreviation ok_options :: "SubscribeOKOption list \<Rightarrow> SubscribeOkOptions" where
  "ok_options options \<equiv> apply_options options defaultSubscribeOkOptions"

text \<open>A network without failures, and the parameters of a session over it.\<close>

definition reliable :: "quicvarint \<Rightarrow> Env \<Rightarrow> bool" where
  "reliable qv env \<longleftrightarrow> env_qv env = qv \<and> (\<forall>n. env_net env n = NetOk)"

definition client_setup_message :: "uint64 \<Rightarrow> Protocol \<Rightarrow> ClientSetupMessage" where
  "client_setup_message i proto =
     \<lparr>csm_SupportedVersions = [CurrentVersion],
      csm_SetupParameters =
        \<lparr>kvp_Type = MaxRequestIDParameterKey, kvp_ValueBytes = [], kvp_ValueVarInt = i\<rparr> #
        (if proto = ProtocolQUIC
         then [\<lparr>kvp_Type = PathParameterKey, kvp_ValueBytes = [], kvp_ValueVarInt = 0\<rparr>] else [])\<rparr>"

definition server_setup_message :: ServerSetupMessage where
  "server_setup_message =
     \<lparr>ssm_SelectedVersion = CurrentVersion,
      ssm_SetupParameters =
        [\<lparr>kvp_Type = MaxRequestIDParameterKey, kvp_ValueBytes = [], kvp_ValueVarInt = 100\<rparr>]\<rparr>"

context varint_codec
begin

lemma ses_write_ok:
  assumes "reliable qv env" and "wire_ok qv m"
  shows "ses_write env m s = (Inr (), s\<lparr>ses_conn := conn_sent qv m (ses_conn s)\<rparr>)"
proof -
  have "compileMessage qv m = Inr (enc_frame qv m)"
    using assms(2) by (simp add: wire_ok_def compileMessage_enc)
  then have "controlStream_write qv (env_net env) m (ses_conn s) = (Inr (), conn_sent qv m (ses_conn s))"
    using assms(1) by (simp add: controlStream_write_NetOk reliable_def conn_sent_def)
  then show ?thesis
    using assms(1) by (simp add: ses_write_def onS_def reliable_def)
qed

lemma Parse_sent: "wire_ok qv m \<Longrightarrow> ControlMessageParser_Parse qv (enc_frame qv m @ rest) = Inr (m, rest)"
  by (simp add: wire_ok_def Parse_frame)

lemma enc_len: "length (qv_enc qv v) \<le> 8"
  by (rule enc_le_8)

lemma wire_ok_ids:
  "fits k \<Longrightarrow> wire_ok qv (MaxRequestID \<lparr>mrm_RequestID = k\<rparr>)"
  "fits k \<Longrightarrow> wire_ok qv (RequestsBlocked \<lparr>rbm_MaximumRequestID = k\<rparr>)"
  "fits k \<Longrightarrow> wire_ok qv (Unsubscribe \<lparr>usm_RequestID = k\<rparr>)"
  "fits k \<Longrightarrow> wire_ok qv (FetchCancel \<lparr>fcm_RequestID = k\<rparr>)"
  "fits k \<Longrightarrow> wire_ok qv (AnnounceOk \<lparr>aom_RequestID = k\<rparr>)"
  "fits k \<Longrightarrow> wire_ok qv (SubscribeAnnouncesOk \<lparr>saom_RequestID = k\<rparr>)"
  using order_trans [OF enc_len [of k], of 65535] by (simp_all add: wire_ok_def)

section \<open>The handshake\<close>

lemma fits_CurrentVersion: "fits CurrentVersion"
  by (simp add: fits_def maxVarInt_def CurrentVersion_def Draft_ietf_moq_transport_11_def)

lemma wire_ok_client_setup:
  assumes "fits i"
  shows "wire_ok qv (ClientSetup (client_setup_message i proto))"
proof -
  have "length (enc_body qv (ClientSetup (client_setup_message i proto))) \<le> 8 * 8"
    using enc_len [of 1] enc_len [of 2] enc_len [of 0] enc_len [of CurrentVersion] enc_len [of i]
    by (simp add: client_setup_message_def enc_ClientSetup_def enc_versions_def enc_kvps_def
        enc_kvp_def enc_vbytes_def MaxRequestIDParameterKey_def PathParameterKey_def)
  moreover have "wf_control (ClientSetup (client_setup_message i proto))"
    using assms fits_CurrentVersion
    by (simp add: client_setup_message_def wf_ClientSetup_def wf_versions_def wf_kvps_def wf_kvp_def
        MaxRequestIDParameterKey_def PathParameterKey_def maxVarInt_def maxAlloc_def fits_def)
  ultimately show ?thesis by (simp add: wire_ok_def)
qed

lemma wire_ok_server_setup: "wire_ok qv (ServerSetup server_setup_message)"
proof -
  have "length (enc_body qv (ServerSetup server_setup_message)) \<le> 8 * 8"
    using enc_len [of 1] enc_len [of 2] enc_len [of 100] enc_len [of CurrentVersion]
    by (simp add: server_setup_message_def enc_ServerSetup_def enc_kvps_def
        enc_kvp_def enc_vbytes_def MaxRequestIDParameterKey_def)
  moreover have "wf_control (ServerSetup server_setup_message)"
    using fits_CurrentVersion
    by (simp add: server_setup_message_def wf_ServerSetup_def wf_kvps_def wf_kvp_def
        MaxRequestIDParameterKey_def maxVarInt_def maxAlloc_def fits_def)
  ultimately show ?thesis by (simp add: wire_ok_def)
qed

lemma Run_client:
  assumes "reliable qv env" and "fits i"
  shows "Session_Run env i (newConnection PerspectiveClient proto) =
    (Inr (), (newSession i (newConnection PerspectiveClient proto))\<lparr>ses_conn :=
       conn_sent qv (ClientSetup (client_setup_message i proto)) (newConnection PerspectiveClient proto)\<rparr>)"
  using ses_write_ok [OF assms(1) wire_ok_client_setup [OF assms(2), of proto]]
  by (cases proto) (simp_all add: Session_Run_def sendClientSetup_def bindS_def getsS_def Let_def newSession_def
      newConnection_def client_setup_message_def zeroKVP_def SupportedVersions_def)

lemma receive_client_setup:
  assumes "reliable qv env" and "\<not> ses_handshakeDone s" and "\<not> ses_handshakeDoneCh s"
    and "cn_Perspective (ses_conn s) = PerspectiveServer" and "cn_Protocol (ses_conn s) = proto"
    and "rg_max (ses_requestIDs s) = 0"
  shows "receive env (ClientSetup (client_setup_message i proto)) s =
    (Inr (), s\<lparr>ses_version := CurrentVersion, ses_path := [],
               ses_requestIDs := (ses_requestIDs s)\<lparr>rg_max := i\<rparr>,
               ses_conn := conn_sent qv (ServerSetup server_setup_message) (ses_conn s),
               ses_handshakeDoneCh := True, ses_handshakeDone := True\<rparr>)"
proof -
  have w: "ses_write env (ServerSetup server_setup_message) t
      = (Inr (), t\<lparr>ses_conn := conn_sent qv (ServerSetup server_setup_message) (ses_conn t)\<rparr>)" for t
    by (rule ses_write_ok [OF assms(1) wire_ok_server_setup])
  have i: "getMaxRequestIDParameter (csm_SetupParameters (client_setup_message i proto)) = i" for i
    by (simp add: getMaxRequestIDParameter_def client_setup_message_def)
  have p: "validatePathParameter (csm_SetupParameters (client_setup_message i proto))
      (proto = ProtocolQUIC) = Inr []" for i
    by (simp add: validatePathParameter_def client_setup_message_def PathParameterKey_def
        MaxRequestIDParameterKey_def)
  have v: "select_version (rev SupportedVersions) (csm_SupportedVersions (client_setup_message i proto))
      = Some CurrentVersion" for i
    by (simp add: SupportedVersions_def client_setup_message_def)
  have same: "rg_max g = 0 \<Longrightarrow> g\<lparr>rg_max := 0\<rparr> = g" for g :: requestIDGenerator
    by (cases g) simp
  show ?thesis
    using assms(2-) w
    by (cases "i = 0"; cases s)
      (simp_all add: same receive_def onClientSetup_def effects i p v Let_def upd_requestIDs_def
        requestIDGenerator_setMax_def finish_handshake_def close_handshakeDoneCh_def word_gt_0
        server_setup_message_def zeroKVP_def)
qed

lemma receive_server_setup:
  assumes "\<not> ses_handshakeDone s" and "\<not> ses_handshakeDoneCh s"
    and "cn_Perspective (ses_conn s) = PerspectiveClient" and "rg_max (ses_requestIDs s) = 0"
  shows "receive env (ServerSetup server_setup_message) s =
    (Inr (), s\<lparr>ses_version := CurrentVersion, ses_requestIDs := (ses_requestIDs s)\<lparr>rg_max := 100\<rparr>,
               ses_handshakeDoneCh := True, ses_handshakeDone := True\<rparr>)"
  using assms
  by (simp add: receive_def onServerSetup_def effects server_setup_message_def SupportedVersions_def
      getMaxRequestIDParameter_def upd_requestIDs_def requestIDGenerator_setMax_def
      finish_handshake_def close_handshakeDoneCh_def)

section \<open>Accepting a subscription\<close>

lemma wire_ok_subscribe_ok:
  assumes "fits k"
  shows "wire_ok qv (SubscribeOk (subscribe_ok_with k defaultSubscribeOkOptions))"
proof -
  have "length (enc_SubscribeOk qv (subscribe_ok_with k defaultSubscribeOkOptions)) \<le> 8 * 8"
    using enc_len [of k] enc_len [of 0]
    by (simp add: enc_SubscribeOk_def enc_kvps_def subscribe_ok_with_def defaultSubscribeOkOptions_def)
  then show ?thesis
    using assms
    by (simp add: wire_ok_def wf_SubscribeOk_def wf_kvps_def GroupOrderAscending_def subscribe_ok_with_def
        defaultSubscribeOkOptions_def)
qed

lemma addLocalTrack_ok:
  assumes "reliable qv env" and "lt_requestID (ses_lt s lt) = k" and "k < ses_localMaxRequestID s"
    and "fits (2 * ses_localMaxRequestID s)"
    and "ltm_pending (ses_localTracks s) k = None" and "ltm_open (ses_localTracks s) k = None"
  shows "\<exists>conn mx. addLocalTrack env lt s =
    (Inr (), s\<lparr>ses_localMaxRequestID := mx, ses_conn := conn,
               ses_localTracks := (ses_localTracks s)\<lparr>ltm_pending :=
                  (ltm_pending (ses_localTracks s))(k \<mapsto> lt)\<rparr>\<rparr>) \<and>
    cn_Perspective conn = cn_Perspective (ses_conn s) \<and> cn_Protocol conn = cn_Protocol (ses_conn s) \<and>
    cn_streams conn = cn_streams (ses_conn s) \<and>
    (k < ses_localMaxRequestID s div 2 \<longrightarrow> conn = ses_conn s)"
proof (cases "k \<ge> ses_localMaxRequestID s div 2")
  case True
  note w = ses_write_ok [OF assms(1) wire_ok_ids(1) [OF assms(4)]]
  show ?thesis
    by (intro exI [of _ "conn_sent qv (MaxRequestID \<lparr>mrm_RequestID = 2 * ses_localMaxRequestID s\<rparr>) (ses_conn s)"]
        exI [of _ "2 * ses_localMaxRequestID s"])
      (use True assms(2-) w in \<open>simp add: addLocalTrack_def effects Let_def upd_localTracks_def
        localTrackMap_addPending_def conn_sent_def\<close>)
next
  case False
  then show ?thesis
    using assms(2-)
    by (intro exI [of _ "ses_conn s"] exI [of _ "ses_localMaxRequestID s"], cases s)
      (simp add: addLocalTrack_def effects Let_def upd_localTracks_def localTrackMap_addPending_def)
qed

lemma accept_ok:
  assumes "reliable qv env" and "wire_ok qv (SubscribeOk (subscribe_ok_with k opts))"
    and "ltm_pending (ses_localTracks s) k = Some lt"
  shows "acceptSubscriptionWithOptions env k (Some opts) s =
    (Inr (), s\<lparr>ses_localTracks := (ses_localTracks s)\<lparr>
                  ltm_pending := (ltm_pending (ses_localTracks s))(k := None),
                  ltm_open := (ltm_open (ses_localTracks s))(k \<mapsto> lt)\<rparr>,
               ses_conn := conn_sent qv (SubscribeOk (subscribe_ok_with k opts)) (ses_conn s)\<rparr>)"
  using assms(3) ses_write_ok [OF assms(1,2), unfolded subscribe_ok_with_def]
  by (cases "soo_LargestLocation opts"; cases "soo_ContentExists opts")
    (simp_all add: acceptSubscriptionWithOptions_def effects upd_localTracks_def localTrackMap_confirm_def
      subscribe_ok_with_def)

lemma onSubscribe_accept:
  assumes rel: "reliable qv env" and hnd: "env_SubscribeHandler env = Some h"
    and acc: "\<And>a. asm_Namespace a = sm_TrackNamespace m \<Longrightarrow> asm_Track a = sm_TrackName m \<Longrightarrow>
      h a = Call (SubscribeAccept options) (\<lambda>_. Done)"
    and ns: "\<not> bad_namespace (sm_TrackNamespace m)"
    and wire: "wire_ok qv (SubscribeOk (subscribe_ok_with (sm_RequestID m) (ok_options options)))"
    and max: "sm_RequestID m < ses_localMaxRequestID s" "fits (2 * ses_localMaxRequestID s)"
    and new: "ltm_pending (ses_localTracks s) (sm_RequestID m) = None"
      "ltm_open (ses_localTracks s) (sm_RequestID m) = None"
  shows "\<exists>s'. onSubscribe env m s = (Inr (), s') \<and>
    ltm_open (ses_localTracks s') (sm_RequestID m) = Some (ses_next s) \<and>
    ses_lt s' (ses_next s) = newLocalTrack (sm_RequestID m) (seq_last (ses_trackAliases s)) True \<and>
    (\<exists>sent. cn_sent (ses_conn s') =
       sent @ [SubscribeOk (subscribe_ok_with (sm_RequestID m) (ok_options options))]) \<and>
    (sm_RequestID m < ses_localMaxRequestID s div 2 \<longrightarrow>
       ses_conn s' = conn_sent qv (SubscribeOk (subscribe_ok_with (sm_RequestID m) (ok_options options))) (ses_conn s))"
proof -
  let ?k = "sm_RequestID m" and ?r = "ses_next s"
  let ?t = "s\<lparr>ses_trackAliases := snd (sequence_next (ses_trackAliases s)), ses_next := Suc ?r,
      ses_lt := (ses_lt s)(?r := newLocalTrack ?k (seq_last (ses_trackAliases s)) True)\<rparr>"
  obtain conn mx where add: "addLocalTrack env ?r ?t =
    (Inr (), ?t\<lparr>ses_localMaxRequestID := mx, ses_conn := conn,
       ses_localTracks := (ses_localTracks ?t)\<lparr>ltm_pending :=
          (ltm_pending (ses_localTracks ?t))(?k \<mapsto> ?r)\<rparr>\<rparr>)"
    "?k < ses_localMaxRequestID s div 2 \<longrightarrow> conn = ses_conn s"
    using addLocalTrack_ok [OF rel, of ?t ?r ?k] max new by (auto simp: newLocalTrack_def)
  obtain auth where auth: "validateAuthParameter (sm_Parameters m) = Inr auth"
    by (cases "IndexFunc (\<lambda>p. kvp_Type p = AuthorizationTokenParameterKey) (sm_Parameters m)")
      (auto simp: validateAuthParameter_def)
  note acc_ok = accept_ok [OF rel wire]
  show ?thesis
    using add ns
    by (simp add: onSubscribe_def auth effects alloc_lt_def newLocalTrack_def Let_def hnd acc log_app_def
        with_writer_def SubscribeResponseWriter_Accept_def set_writer_def on_session_def acc_ok)
qed

text \<open>A handler that rejects leaves no track behind, and the answer has its code and reason.\<close>

lemma onSubscribe_reject:
  assumes rel: "reliable qv env" and hnd: "env_SubscribeHandler env = Some h"
    and rej: "\<And>a. asm_Namespace a = sm_TrackNamespace m \<Longrightarrow> asm_Track a = sm_TrackName m \<Longrightarrow>
      h a = Call (SubscribeReject code reason) (\<lambda>_. Done)"
    and ns: "\<not> bad_namespace (sm_TrackNamespace m)"
    and wire: "wire_ok qv (SubscribeError \<lparr>sem_RequestID = sm_RequestID m, sem_ErrorCode = code, sem_ReasonPhrase = reason\<rparr>)"
    and max: "sm_RequestID m < ses_localMaxRequestID s div 2" "fits (2 * ses_localMaxRequestID s)"
      "sm_RequestID m < ses_localMaxRequestID s"
    and new: "ltm_pending (ses_localTracks s) (sm_RequestID m) = None"
      "ltm_open (ses_localTracks s) (sm_RequestID m) = None"
  shows "\<exists>s'. onSubscribe env m s = (Inr (), s') \<and>
    localTrackMap_findByID (ses_localTracks s') (sm_RequestID m) = None \<and>
    ses_conn s' = conn_sent qv (SubscribeError \<lparr>sem_RequestID = sm_RequestID m, sem_ErrorCode = code,
      sem_ReasonPhrase = reason\<rparr>) (ses_conn s)"
proof -
  let ?k = "sm_RequestID m" and ?r = "ses_next s"
  let ?t = "s\<lparr>ses_trackAliases := snd (sequence_next (ses_trackAliases s)), ses_next := Suc ?r,
      ses_lt := (ses_lt s)(?r := newLocalTrack ?k (seq_last (ses_trackAliases s)) True)\<rparr>"
  obtain conn mx where add: "addLocalTrack env ?r ?t =
    (Inr (), ?t\<lparr>ses_localMaxRequestID := mx, ses_conn := conn,
       ses_localTracks := (ses_localTracks ?t)\<lparr>ltm_pending :=
          (ltm_pending (ses_localTracks ?t))(?k \<mapsto> ?r)\<rparr>\<rparr>)" "conn = ses_conn s"
    using addLocalTrack_ok [OF rel, of ?t ?r ?k] max new by (auto simp: newLocalTrack_def)
  obtain auth where auth: "validateAuthParameter (sm_Parameters m) = Inr auth"
    by (cases "IndexFunc (\<lambda>p. kvp_Type p = AuthorizationTokenParameterKey) (sm_Parameters m)")
      (auto simp: validateAuthParameter_def)
  show ?thesis
    using add ns new ses_write_ok [OF rel wire]
    by (simp add: onSubscribe_def auth effects alloc_lt_def newLocalTrack_def Let_def hnd rej log_app_def
        with_writer_def SubscribeResponseWriter_Reject_def set_writer_def on_session_def
        rejectSubscription_def upd_localTracks_def localTrackMap_reject_def localTrackMap_findByID_def)
qed

section \<open>The response to a subscription\<close>

lemma onSubscribeOk_delivers:
  assumes "rtm_pending (ses_remoteTracks s) (som_RequestID m) = Some rt"
    and "rtm_trackAliasToRequestID (ses_remoteTracks s) (som_TrackAlias m) = None"
    and "rt_responseChan (ses_rt s rt) = []"
  shows "\<exists>s'. onSubscribeOk env m s = (Inr (), s') \<and>
    rtm_open (ses_remoteTracks s') (som_RequestID m) = Some rt \<and>
    rtm_pending (ses_remoteTracks s') (som_RequestID m) = None \<and>
    remoteTrackMap_findByTrackAlias (ses_remoteTracks s') (som_TrackAlias m) = Some rt \<and>
    ses_rt s' rt = (ses_rt s rt)\<lparr>rt_expires := som_Expires m, rt_groupOrder := som_GroupOrder m,
       rt_contentExists := som_ContentExists m,
       rt_largestLocation := (if som_ContentExists m then Some (som_LargestLocation m) else None),
       rt_parameters := som_Parameters m, rt_responseChan := [None]\<rparr> \<and>
    (\<exists>t. Subscribe_wait Response rt s' = Some (Inr rt, t))"
  using assms
  by (simp add: onSubscribeOk_def effects upd_remoteTracks_def remoteTrackMap_confirm_def
      remoteTrackMap_setAlias_def modify_rt_def send_rt_response_def try_send_def
      remoteTrackMap_findByTrackAlias_def remoteTrackMap_findByRequestID_def Subscribe_wait_def
      wait_rt_response_def)

lemma onSubscribeOk_duplicate:
  assumes "rtm_pending (ses_remoteTracks s) (som_RequestID m) = Some rt"
    and "rtm_trackAliasToRequestID (ses_remoteTracks s) (som_TrackAlias m) = Some k"
  shows "\<exists>s'. onSubscribeOk env m s = (Inl (Fail errDuplicateTrackAliasBug), s') \<and>
    rtm_open (ses_remoteTracks s') (som_RequestID m) = Some rt \<and> ses_rt s' = ses_rt s"
  using assms
  by (simp add: onSubscribeOk_def effects upd_remoteTracks_def remoteTrackMap_confirm_def
      remoteTrackMap_setAlias_def)

lemma onSubscribeError_delivers:
  assumes "rtm_pending (ses_remoteTracks s) (sem_RequestID m) = Some rt"
    and "rt_responseChan (ses_rt s rt) = []" and "rt_requestID (ses_rt s rt) = sem_RequestID m"
    and "rtm_open (ses_remoteTracks s) (sem_RequestID m) = None"
  shows "\<exists>s' t. onSubscribeError m s = (Inr (), s') \<and>
    Subscribe_wait Response rt s' =
      Some (Inl (Fail (ProtocolError (sem_ErrorCode m) (sem_ReasonPhrase m))), t) \<and>
    remoteTrackMap_findByRequestID (ses_remoteTracks t) (sem_RequestID m) = None"
  using assms
  by (simp add: onSubscribeError_def effects upd_remoteTracks_def remoteTrackMap_reject_def
      send_rt_response_def try_send_def Subscribe_wait_def wait_rt_response_def
      remoteTrackMap_findByRequestID_def)

section \<open>Objects at the subscriber\<close>

lemma stream_delivers:
  assumes "env_qv env = qv" and "wf_subgroup_header h" and "list_all wf_object ms"
    and "remoteTrackMap_findByTrackAlias (ses_remoteTracks s) (shm_TrackAlias h) = Some rt"
    and "length (rt_buffer (ses_rt s rt)) \<le> buffer_capacity"
  shows "readStreams_stream env (enc_subgroup_header qv h @ concat (map (enc_subgroup_object qv) ms)) s =
    Some (Inr (), s\<lparr>ses_rt := (ses_rt s)(rt := (ses_rt s rt)\<lparr>
      rt_subGroupCount := rt_subGroupCount (ses_rt s rt) + 1,
      rt_buffer := take buffer_capacity (rt_buffer (ses_rt s rt) @
        map (\<lambda>m. object_of (subgroup_object (subgroup_parser h []) m)) ms)\<rparr>)\<rparr>)"
proof -
  let ?t = "(ses_rt s rt)\<lparr>rt_subGroupCount := rt_subGroupCount (ses_rt s rt) + 1\<rparr>"
  have "RemoteTrack_readSubgroupStream qv (subgroup_parser h (concat (map (enc_subgroup_object qv) ms)))
      (ses_rt s rt) = Some (Inr (), foldl RemoteTrack_push ?t
          (map (\<lambda>m. object_of (subgroup_object (subgroup_parser h []) m)) ms))"
    using readStream_subgroup [OF assms(3)] by (simp add: RemoteTrack_readSubgroupStream_def)
  moreover have "osp_typ (subgroup_parser h r) \<noteq> StreamTypeFetch"
    "osp_identifier (subgroup_parser h r) = shm_TrackAlias h" for r
    by (simp_all add: subgroup_parser_def StreamTypeSubgroupSIDExt_def StreamTypeFetch_def)
  ultimately show ?thesis
    using assms(1,4,5) foldl_push [of ?t]
    by (simp add: readStreams_stream_def NewObjectStreamParser_subgroup [OF assms(2)]
        handleUniStream_def Session_readSubgroupStream_def on_rt_def)
qed

lemma datagram_delivers:
  assumes "env_qv env = qv" and "wf_datagram m" and "odm_ObjectExtensionHeaders m = None"
    and "remoteTrackMap_findByTrackAlias (ses_remoteTracks s) (odm_TrackAlias m) = Some rt"
  shows "readDatagrams_datagram env (enc_datagram_head qv objectTypeDatagram m @ odm_ObjectPayload m) s =
    Some (Inr (), s\<lparr>ses_rt := (ses_rt s)(rt := RemoteTrack_push (ses_rt s rt)
      \<lparr>obj_GroupID = odm_GroupID m, obj_ObjectID = odm_ObjectID m,
       obj_ForwardingPreference = ObjectForwardingPreferenceDatagram, obj_SubGroupID = 0,
       obj_Payload = odm_ObjectPayload m\<rparr>)\<rparr>)"
  using assms datagram_roundtrip_payload [OF assms(2,3)]
  by (simp add: readDatagrams_datagram_def receiveDatagram_def remoteTrackByTrackAlias_def effects
      modify_rt_def)

section \<open>Requests that exceed the limits\<close>

lemma Subscribe_blocked:
  assumes "reliable qv env" and "fits (rg_max (ses_requestIDs s))"
    and "rg_max (ses_requestIDs s) \<le> rg_id (ses_requestIDs s)"
  shows "Subscribe_send env ns name opts s = (Inl (Fail errRequestIDblocked),
    s\<lparr>ses_conn := conn_sent qv (RequestsBlocked \<lparr>rbm_MaximumRequestID = rg_max (ses_requestIDs s)\<rparr>)
                   (ses_conn s)\<rparr>)"
proof -
  have "newRequestID env s = (Inl (Fail errRequestIDblocked),
    s\<lparr>ses_conn := conn_sent qv (RequestsBlocked \<lparr>rbm_MaximumRequestID = rg_max (ses_requestIDs s)\<rparr>)
                   (ses_conn s)\<rparr>)"
    using assms ses_write_ok [OF assms(1) wire_ok_ids(2) [OF assms(2)]]
    by (simp add: newRequestID_blocked not_less bindS_def tryS_def failS_def)
  then show ?thesis by (simp add: Subscribe_send_def bindS_def)
qed

lemma onSubscribe_too_many:
  assumes "reliable qv env" and "\<not> bad_namespace (sm_TrackNamespace m)" and "fits (sm_RequestID m)"
    and "ses_localMaxRequestID s \<le> sm_RequestID m"
  shows "\<exists>s'. onSubscribe env m s = (Inr (), s') \<and> ses_localTracks s' = ses_localTracks s \<and>
    ses_app s' = ses_app s \<and>
    cn_sent (ses_conn s') = cn_sent (ses_conn s) @ [SubscribeError
      \<lparr>sem_RequestID = sm_RequestID m, sem_ErrorCode = ErrorCodeTooManyRequests,
       sem_ReasonPhrase = ascii ''too many subscribes''\<rparr>]"
proof -
  let ?e = "SubscribeError \<lparr>sem_RequestID = sm_RequestID m, sem_ErrorCode = ErrorCodeTooManyRequests,
       sem_ReasonPhrase = ascii ''too many subscribes''\<rparr>"
  have "length (enc_body qv ?e) \<le> 100"
    using enc_len [of "sm_RequestID m"] enc_len [of ErrorCodeTooManyRequests] enc_len [of 19]
    by (simp add: enc_SubscribeError_def enc_vbytes_def ascii_def)
  then have "wire_ok qv ?e"
    using assms(3)
    by (simp add: wire_ok_def wf_SubscribeError_def ErrorCodeTooManyRequests_def fits_def ascii_def
        maxVarInt_def)
  note w = ses_write_ok [OF assms(1) this]
  obtain auth where auth: "validateAuthParameter (sm_Parameters m) = Inr auth"
    by (cases "IndexFunc (\<lambda>p. kvp_Type p = AuthorizationTokenParameterKey) (sm_Parameters m)")
      (auto simp: validateAuthParameter_def)
  show ?thesis
    using assms(2,4) w
    by (simp add: onSubscribe_def auth effects alloc_lt_def newLocalTrack_def Let_def addLocalTrack_def)
qed

end

section \<open>Requests that the code answers in an unintended way\<close>

text \<open>
  A FETCH above the limit is not answered with a FETCH\_ERROR: the track was never added, so
  \<^verbatim>\<open>rejectFetch\<close> does not find it, and its error ends the session.
\<close>

lemma onFetch_too_many:
  assumes "\<not> bad_namespace (fm_TrackNamespace m)" and "ses_localMaxRequestID s \<le> fm_RequestID m"
    and "ltm_pending (ses_localTracks s) (fm_RequestID m) = None"
  shows "\<exists>s'. onFetch env m s = (Inl (Fail errUnknownRequestID), s') \<and>
    ses_conn s' = ses_conn s \<and> ses_app s' = ses_app s"
  using assms
  by (simp add: onFetch_def effects alloc_lt_def newLocalTrack_def newMessage_def Let_def addLocalTrack_def
      rejectFetch_def upd_localTracks_def localTrackMap_reject_def)

text \<open>
  The limit for the peer's request IDs doubles without a bound. Once twice the limit does not fit
  62 bits, the next request in its upper half makes \<^verbatim>\<open>quicvarint.Append\<close> panic.
\<close>

lemma addLocalTrack_panics:
  assumes "varint_codec (env_qv env)" and "lt_requestID (ses_lt s lt) < ses_localMaxRequestID s"
    and "ses_localMaxRequestID s div 2 \<le> lt_requestID (ses_lt s lt)"
    and "\<not> fits (2 * ses_localMaxRequestID s)"
  shows "fst (addLocalTrack env lt s) = Inl Panic"
proof -
  have "qv_Append (env_qv env) buf (2 * ses_localMaxRequestID s) = Inl Panic" for buf
    using varint_codec.Append_big [OF assms(1,4)] .
  moreover have "qv_Append (env_qv env) [] messageTypeMaxRequestID = Inr (qv_enc (env_qv env) messageTypeMaxRequestID)"
    using varint_codec.Append_fits [OF assms(1), of messageTypeMaxRequestID "[]"]
    by (simp add: messageTypeMaxRequestID_def fits_def maxVarInt_def)
  ultimately have "compileMessage (env_qv env) (MaxRequestID \<lparr>mrm_RequestID = 2 * ses_localMaxRequestID s\<rparr>)
      = Inl Panic"
    by (simp add: compileMessage_def MaxRequestIDMessage_Append_def)
  with assms(2,3) show ?thesis
    by (simp add: addLocalTrack_def effects Let_def ses_write_def controlStream_write_def)
qed

text \<open>Requests whose handler is not set end the process, except SUBSCRIBE.\<close>

lemma nil_handler_panics:
  assumes "ses_handshakeDone s" and "env_Handler env = None"
  shows "fst (receive env (GoAway g) s) = Inl Panic"
  using assms by (simp add: receive_def onGoAway_def Handle_nil_def panicS_def effects)

text \<open>
  \<^verbatim>\<open>Unannounce\<close> has its test inverted: for a namespace that is announced it returns an error and
  sends nothing.
\<close>

lemma Unannounce_announced:
  assumes "findAnnouncement (env_order env (dom (am_announcements (ses_outgoingAnnouncements s))))
             (am_announcements (ses_outgoingAnnouncements s)) ns = Some a \<or>
           findAnnouncement (env_order env (dom (am_pending (ses_outgoingAnnouncements s))))
             (am_pending (ses_outgoingAnnouncements s)) ns = Some a"
  shows "\<exists>s'. Session_Unannounce env ns s = (Inl (Fail errUnknownAnnouncementNamespace), s') \<and>
    ses_conn s' = ses_conn s"
  using assms
  by (auto simp: Session_Unannounce_def effects upd_outgoingAnnouncements_def announcementMap_delete_def
      split: option.splits)

lemma findAnnouncement_iff:
  "(\<exists>a. findAnnouncement ks m ns = Some a) \<longleftrightarrow> (\<exists>k \<in> set ks. \<exists>a. m k = Some a \<and> an_namespace a = ns)"
  by (induction ks) (auto split: option.splits)

end
