(* ===== verification/End_To_End.thy ===== *)
theory End_To_End
  imports Session_Behaviour
begin

text \<open>
  Two sessions over one connection: what one endpoint writes is what the other reads. The lemmas
  follow the bytes of the handshake, of a subscription and its answer, and of objects on subgroup
  streams, fetch streams and datagrams, from the calls of the sender to the state of the receiver.
\<close>

section \<open>Messages of a subscription\<close>

text \<open>The SUBSCRIBE of a call of \<^verbatim>\<open>Subscribe\<close> and the SUBSCRIBE\_OK of an \<^verbatim>\<open>Accept\<close> without options.\<close>

definition subscribe_message :: "uint64 \<Rightarrow> Tuple \<Rightarrow> gostring \<Rightarrow> SubscribeOption list \<Rightarrow> SubscribeMessage" where
  "subscribe_message k ns name options =
     (let opts = apply_options options defaultSubscribeOptions
      in \<lparr>sm_RequestID = k, sm_TrackNamespace = ns, sm_TrackName = name,
          sm_SubscriberPriority = so_SubscriberPriority opts, sm_GroupOrder = so_GroupOrder opts,
          sm_Forward = boolToUint8 (so_Forward opts), sm_FilterType = so_FilterType opts,
          sm_StartLocation = so_StartLocation opts, sm_EndGroup = so_EndGroup opts,
          sm_Parameters = so_Parameters opts\<rparr>)"

definition subscribe_ok_message :: "uint64 \<Rightarrow> SubscribeOkMessage" where
  "subscribe_ok_message k = subscribe_ok_with k defaultSubscribeOkOptions"

lemma subscribe_ok_simps [simp]:
  "som_RequestID (subscribe_ok_with k opts) = k" "som_TrackAlias (subscribe_ok_with k opts) = 0"
  "som_RequestID (subscribe_ok_message k) = k" "som_TrackAlias (subscribe_ok_message k) = 0"
  by (simp_all add: subscribe_ok_with_def subscribe_ok_message_def)

text \<open>The next request ID of a session is in none of its tables of remote tracks.\<close>

lemma next_id_free:
  assumes "inv_session c" and "rg_id (ses_requestIDs c) = k"
  shows "rtm_pending (ses_remoteTracks c) k = None" "rtm_open (ses_remoteTracks c) k = None"
  using assms unfolding inv_session_def inv_remote_def by (metis option.exhaust order_less_irrefl)+

text \<open>A handler that accepts the subscriptions to a track, with the options it passes to \<^verbatim>\<open>Accept\<close>.\<close>

definition accepts_with :: "SubscribeOKOption list \<Rightarrow> Env \<Rightarrow> Tuple \<Rightarrow> gostring \<Rightarrow> bool" where
  "accepts_with oks env ns name \<longleftrightarrow> (\<exists>h. env_SubscribeHandler env = Some h \<and>
     (\<forall>a. asm_Namespace a = ns \<longrightarrow> asm_Track a = name \<longrightarrow> h a = Call (SubscribeAccept oks) (\<lambda>_. Done)))"

abbreviation accepts :: "Env \<Rightarrow> Tuple \<Rightarrow> gostring \<Rightarrow> bool" where
  "accepts \<equiv> accepts_with []"

text \<open>
  What the subscriber reads from its track is what the publisher has passed to \<^verbatim>\<open>Accept\<close>. A location
  is there when content exists.
\<close>

definition shows_options :: "SubscribeOkOptions \<Rightarrow> RemoteTrack \<Rightarrow> bool" where
  "shows_options opts t \<longleftrightarrow>
     RemoteTrack_Expires t = soo_Expires opts \<and> RemoteTrack_GroupOrder t = soo_GroupOrder opts \<and>
     RemoteTrack_Parameters t = soo_Parameters opts \<and>
     RemoteTrack_LargestLocation t =
       (if soo_ContentExists opts
        then (case soo_LargestLocation opts of Some l \<Rightarrow> l | None \<Rightarrow> zeroLocation, True)
        else (zeroLocation, False))"

lemma shows_options_ok:
  assumes "m = subscribe_ok_with k opts"
  shows "shows_options opts (t\<lparr>rt_expires := som_Expires m, rt_groupOrder := som_GroupOrder m,
    rt_contentExists := som_ContentExists m,
    rt_largestLocation := (if som_ContentExists m then Some (som_LargestLocation m) else None),
    rt_parameters := som_Parameters m, rt_responseChan := r\<rparr>)"
  by (simp add: assms shows_options_def subscribe_ok_with_def RemoteTrack_Expires_def RemoteTrack_GroupOrder_def
      RemoteTrack_Parameters_def RemoteTrack_LargestLocation_def zeroLocation_def split: option.split)

lemma ok_options_Nil: "ok_options [] = defaultSubscribeOkOptions"
  by (simp add: apply_options_def)

section \<open>The control stream\<close>

fun write_messages :: "quicvarint \<Rightarrow> net \<Rightarrow> ControlMessage list \<Rightarrow> (Connection, unit) st" where
  "write_messages qv net [] = returnS ()"
| "write_messages qv net (m # ms) = thenS (controlStream_write qv net m) (write_messages qv net ms)"

text \<open>
  A message as the peer reads it: an expiry is written in nanoseconds and read as milliseconds. The
  well-formed messages that fit the length field are carried, with any expiry; ANNOUNCE\_CANCEL is not
  one of them.
\<close>

fun as_read :: "ControlMessage \<Rightarrow> ControlMessage" where
  "as_read (SubscribeOk m) = SubscribeOk (m\<lparr>som_Expires := som_Expires m * Millisecond\<rparr>)"
| "as_read m = m"

definition carried :: "quicvarint \<Rightarrow> ControlMessage \<Rightarrow> bool" where
  "carried qv m \<longleftrightarrow> (wf_control m \<or> (\<exists>k. m = SubscribeOk k \<and> wf_SubscribeOk k)) \<and> length (enc_body qv m) \<le> 65535"

lemma as_read_wf: "wf_control m \<Longrightarrow> as_read m = m"
  by (cases m) simp_all

context varint_codec
begin

lemma carried_frame:
  assumes "carried qv m"
  shows "compileMessage qv m = Inr (enc_frame qv m)"
    and "ControlMessageParser_Parse qv (enc_frame qv m @ rest) = Inr (as_read m, rest)"
proof -
  have len: "length (enc_body qv m) \<le> 65535" using assms by (simp add: carried_def)
  from assms consider (wf) "wf_control m" | (ok) k where "m = SubscribeOk k" "wf_SubscribeOk k"
    by (auto simp: carried_def)
  note kind = this
  then show "compileMessage qv m = Inr (enc_frame qv m)"
  proof cases
    case ok
    then show ?thesis
      using len by (simp add: compileMessage_def SubscribeOk_app slice_from_def PutUint16_frame [simplified]
          ucast_of_nat_16 enc_frame_def messageType_defs fits_def maxVarInt_def)
  qed (simp add: compileMessage_enc len)
  from kind show "ControlMessageParser_Parse qv (enc_frame qv m @ rest) = Inr (as_read m, rest)"
  proof cases
    case ok
    then show ?thesis
      using len by (simp add: ControlMessageParser_Parse_def enc_frame_def uint16_of_bytes_of_nat Let_def
          parse_by_type_def messageType_defs SubscribeOk_prs fits_def maxVarInt_def)
  qed (simp add: Parse_frame len as_read_wf)
qed

lemma write_messages_ok:
  assumes "\<And>n. net n = NetOk" and "list_all (carried qv) ms"
  shows "fst (write_messages qv net ms c) = Inr () \<and>
    cn_control (snd (write_messages qv net ms c)) = cn_control c @ concat (map (enc_frame qv) ms)"
  using assms(2)
  by (induction ms arbitrary: c) (simp_all add: assms(1) carried_frame(1) controlStream_write_NetOk bindS_def returnS_def)

lemma read_loop_carried:
  "list_all (carried qv) ms \<Longrightarrow>
     controlStream_read_loop qv (concat (map (enc_frame qv) ms)) acc = Some (acc @ map as_read ms, Fail EOF)"
proof (induction ms arbitrary: acc)
  case Nil
  then show ?case by (subst controlStream_read_loop.simps) (simp add: ControlMessageParser_Parse_def)
next
  case (Cons m ms)
  then show ?case by (subst controlStream_read_loop.simps) (simp add: carried_frame(2))
qed

lemma stream_carried:
  assumes "list_all (carried qv) ms"
  shows "\<exists>c. write_messages qv (\<lambda>_. NetOk) ms (newConnection p proto) = (Inr (), c) \<and>
    controlStream_read qv (cn_control c) = Some (map as_read ms, Fail EOF)"
proof -
  have "cn_control (newConnection p proto) = []" by (simp add: newConnection_def)
  with write_messages_ok [OF _ assms, of "\<lambda>_. NetOk" "newConnection p proto"] read_loop_carried [OF assms, of "[]"]
  show ?thesis unfolding controlStream_read_def by (metis append_Nil prod.collapse)
qed

section \<open>The handshake\<close>

lemma handshake:
  assumes rel: "reliable qv envc" "reliable qv envs" and i: "fits i"
    and cl: "Session_Run envc i (newConnection PerspectiveClient proto) = (rc, cl)"
    and sv: "Session_Run envs j (newConnection PerspectiveServer proto) = (rs, sv)"
  shows "\<exists>m sv' m' cl'. rc = Inr () \<and> rs = Inr () \<and>
    ControlMessageParser_Parse qv (cn_control (ses_conn cl)) = Inr (m, []) \<and>
    receive envs m sv = (Inr (), sv') \<and>
    ControlMessageParser_Parse qv (cn_control (ses_conn sv')) = Inr (m', []) \<and>
    receive envc m' cl = (Inr (), cl') \<and>
    ses_handshakeDone sv' \<and> ses_handshakeDone cl' \<and>
    ses_version sv' = CurrentVersion \<and> ses_version cl' = CurrentVersion \<and>
    rg_max (ses_requestIDs sv') = i \<and> rg_max (ses_requestIDs cl') = 100 \<and> ses_localMaxRequestID sv' = j"
proof -
  let ?m = "ClientSetup (client_setup_message i proto)"
  have new: "\<not> ses_handshakeDone (newSession i c)" "\<not> ses_handshakeDoneCh (newSession i c)"
    "ses_conn (newSession i c) = c" "rg_max (ses_requestIDs (newSession i c)) = 0"
    "ses_localMaxRequestID (newSession i c) = i" for i c
    by (simp_all add: newSession_def newRequestIDGenerator_def)
  have conn: "cn_control (newConnection q proto) = []" "cn_Perspective (newConnection q proto) = q"
    "cn_Protocol (newConnection q proto) = proto" for q
    by (simp_all add: newConnection_def)
  have c: "rc = Inr ()" "ses_conn cl = conn_sent qv ?m (newConnection PerspectiveClient proto)"
    "\<not> ses_handshakeDone cl" "\<not> ses_handshakeDoneCh cl" "rg_max (ses_requestIDs cl) = 0"
    using cl unfolding Run_client [OF rel(1) i] by (auto simp: new)
  have s: "rs = Inr ()" "sv = newSession j (newConnection PerspectiveServer proto)"
    using sv by (simp_all add: Session_Run_def conn)
  define sv' where "sv' = snd (receive envs ?m sv)"
  define cl' where "cl' = snd (receive envc (ServerSetup server_setup_message) cl)"
  have r1: "receive envs ?m sv = (Inr (), sv')" "ses_handshakeDone sv'" "ses_version sv' = CurrentVersion"
    "rg_max (ses_requestIDs sv') = i" "ses_localMaxRequestID sv' = j"
    "ses_conn sv' = conn_sent qv (ServerSetup server_setup_message) (newConnection PerspectiveServer proto)"
    unfolding sv'_def using receive_client_setup [of envs sv proto i] rel(2) by (simp_all add: s new conn)
  have r2: "receive envc (ServerSetup server_setup_message) cl = (Inr (), cl')" "ses_handshakeDone cl'"
    "ses_version cl' = CurrentVersion" "rg_max (ses_requestIDs cl') = 100"
    unfolding cl'_def using receive_server_setup [of cl envc] by (simp_all add: c conn)
  have "ControlMessageParser_Parse qv (cn_control (ses_conn cl)) = Inr (?m, [])"
    "ControlMessageParser_Parse qv (cn_control (ses_conn sv')) = Inr (ServerSetup server_setup_message, [])"
    by (simp_all add: c r1 conn Parse_sent [where rest = "[]", simplified] wire_ok_client_setup i wire_ok_server_setup)
  then show ?thesis using c(1) s(1) r1 r2 by blast
qed

section \<open>A subscription\<close>

lemma Subscribe_send_ok:
  assumes "reliable qv env" and "rg_id (ses_requestIDs s) = k" and "k < rg_max (ses_requestIDs s)"
    and "wire_ok qv (Subscribe (subscribe_message k ns name options))"
    and "rtm_pending (ses_remoteTracks s) k = None" and "rtm_open (ses_remoteTracks s) k = None"
  shows "\<exists>s'. Subscribe_send env ns name options s = (Inr (ses_next s), s') \<and>
    rtm_pending (ses_remoteTracks s') k = Some (ses_next s) \<and>
    rtm_open (ses_remoteTracks s') = rtm_open (ses_remoteTracks s) \<and>
    rtm_trackAliasToRequestID (ses_remoteTracks s') = rtm_trackAliasToRequestID (ses_remoteTracks s) \<and>
    ses_rt s' (ses_next s) = newRemoteTrack k (Some (CallUnsubscribe k)) (Some k) \<and>
    ses_handshakeDone s' = ses_handshakeDone s \<and>
    ses_conn s' = conn_sent qv (Subscribe (subscribe_message k ns name options)) (ses_conn s)"
proof -
  note w = ses_write_ok [OF assms(1,4), unfolded subscribe_message_def Let_def]
  show ?thesis
    using assms(2,3,5,6)
    by (simp add: Subscribe_send_def bindS_def newRequestID_ok alloc_rt_def upd_remoteTracks_def updS_def
        remoteTrackMap_addPendingWithAlias_def throwS_def returnS_def Let_def w subscribe_message_def)
qed

lemma subscription_with:
  assumes rel: "reliable qv envc" "reliable qv envs" and acc: "accepts_with oks envs ns name"
    and answer: "wire_ok qv (SubscribeOk (subscribe_ok_with k (ok_options oks)))"
    and inv: "inv_session c" and k: "rg_id (ses_requestIDs c) = k" "k < rg_max (ses_requestIDs c)"
    and wire: "wire_ok qv (Subscribe (subscribe_message k ns name options))" and ns: "\<not> bad_namespace ns"
    and noalias: "rtm_trackAliasToRequestID (ses_remoteTracks c) 0 = None"
    and ready: "ses_handshakeDone c" "ses_handshakeDone s"
    and max: "k < ses_localMaxRequestID s" "fits (2 * ses_localMaxRequestID s)"
    and new: "ltm_pending (ses_localTracks s) k = None" "ltm_open (ses_localTracks s) k = None"
  shows "\<exists>rt lt c' s' c'' c3. Subscribe_send envc ns name options c = (Inr rt, c') \<and>
    cn_sent (ses_conn c') = cn_sent (ses_conn c) @ [Subscribe (subscribe_message k ns name options)] \<and>
    receive envs (Subscribe (subscribe_message k ns name options)) s = (Inr (), s') \<and>
    ltm_open (ses_localTracks s') k = Some lt \<and> lt_done (ses_lt s' lt) = None \<and>
    lt_trackAlias (ses_lt s' lt) = seq_last (ses_trackAliases s) \<and>
    last (cn_sent (ses_conn s')) = SubscribeOk (subscribe_ok_with k (ok_options oks)) \<and>
    receive envc (SubscribeOk (subscribe_ok_with k (ok_options oks))) c' = (Inr (), c'') \<and>
    Subscribe_wait Response rt c'' = Some (Inr rt, c3) \<and>
    remoteTrackMap_findByTrackAlias (ses_remoteTracks c'') 0 = Some rt \<and>
    rt_buffer (ses_rt c'' rt) = [] \<and> rt_done (ses_rt c'' rt) = None \<and>
    RemoteTrack_RequestID (ses_rt c'' rt) = k \<and> shows_options (ok_options oks) (ses_rt c'' rt)"
proof -
  let ?m = "subscribe_message k ns name options"
  from Subscribe_send_ok [OF rel(1) k wire next_id_free [OF inv k(1)]]
  obtain c' where c': "Subscribe_send envc ns name options c = (Inr (ses_next c), c')"
    "rtm_pending (ses_remoteTracks c') k = Some (ses_next c)"
    "rtm_trackAliasToRequestID (ses_remoteTracks c') 0 = None"
    "rt_responseChan (ses_rt c' (ses_next c)) = []" "ses_handshakeDone c'"
    "ses_conn c' = conn_sent qv (Subscribe ?m) (ses_conn c)"
    "rt_buffer (ses_rt c' (ses_next c)) = []" "rt_done (ses_rt c' (ses_next c)) = None"
    "rt_requestID (ses_rt c' (ses_next c)) = k"
    using noalias ready by (auto simp: newRemoteTrack_def)
  have m: "sm_RequestID ?m = k" "sm_TrackNamespace ?m = ns" "sm_TrackName ?m = name" by (simp_all add: subscribe_message_def Let_def)
  from onSubscribe_accept [OF rel(2), where m = ?m and s = s and options = oks, unfolded m] acc ns max new answer
  obtain s' sent where s': "onSubscribe envs ?m s = (Inr (), s')"
    "ltm_open (ses_localTracks s') k = Some (ses_next s)"
    "ses_lt s' (ses_next s) = newLocalTrack k (seq_last (ses_trackAliases s)) True"
    "cn_sent (ses_conn s') = sent @ [SubscribeOk (subscribe_ok_with k (ok_options oks))]"
    unfolding accepts_with_def by auto
  from onSubscribeOk_delivers [where s = c' and m = "subscribe_ok_with k (ok_options oks)" and env = envc] c'
  obtain c'' c3 where c'': "onSubscribeOk envc (subscribe_ok_with k (ok_options oks)) c' = (Inr (), c'')"
    "Subscribe_wait Response (ses_next c) c'' = Some (Inr (ses_next c), c3)"
    "remoteTrackMap_findByTrackAlias (ses_remoteTracks c'') 0 = Some (ses_next c)"
    "rt_buffer (ses_rt c'' (ses_next c)) = []" "rt_done (ses_rt c'' (ses_next c)) = None"
    "RemoteTrack_RequestID (ses_rt c'' (ses_next c)) = k" "shows_options (ok_options oks) (ses_rt c'' (ses_next c))"
    by (auto simp: shows_options_ok RemoteTrack_RequestID_def)
  have "receive envs (Subscribe ?m) s = (Inr (), s')"
    "receive envc (SubscribeOk (subscribe_ok_with k (ok_options oks))) c' = (Inr (), c'')"
    using ready s'(1) c''(1) c'(5) by (simp_all add: receive_def bindS_def getsS_def)
  moreover have "cn_sent (ses_conn c') = cn_sent (ses_conn c) @ [Subscribe ?m]"
    "lt_done (ses_lt s' (ses_next s)) = None"
    "lt_trackAlias (ses_lt s' (ses_next s)) = seq_last (ses_trackAliases s)"
    "last (cn_sent (ses_conn s')) = SubscribeOk (subscribe_ok_with k (ok_options oks))"
    by (simp_all add: c'(6) s'(3,4) newLocalTrack_def)
  ultimately show ?thesis using c'(1) s'(2) c''(2-7) by blast
qed

text \<open>A handler that accepts without options.\<close>

lemmas subscription = subscription_with [where oks = "[]", unfolded ok_options_Nil, folded subscribe_ok_message_def]

text \<open>
  The server answers a second subscription in the same way, with the alias 0 again; the message ends
  the session of the client.
\<close>

lemma second_subscription:
  assumes rel: "reliable qv envc" "reliable qv envs" and acc: "accepts_with oks envs ns name"
    and answer: "wire_ok qv (SubscribeOk (subscribe_ok_with k (ok_options oks)))"
    and inv: "inv_session c" and k: "rg_id (ses_requestIDs c) = k" "k < rg_max (ses_requestIDs c)"
    and wire: "wire_ok qv (Subscribe (subscribe_message k ns name options))" and ns: "\<not> bad_namespace ns"
    and known: "rtm_trackAliasToRequestID (ses_remoteTracks c) 0 = Some j"
    and ready: "ses_handshakeDone c" "ses_handshakeDone s"
    and max: "k < ses_localMaxRequestID s" "fits (2 * ses_localMaxRequestID s)"
    and new: "ltm_pending (ses_localTracks s) k = None" "ltm_open (ses_localTracks s) k = None"
  shows "\<exists>rt lt c' s' m c''. Subscribe_send envc ns name options c = (Inr rt, c') \<and>
    receive envs (Subscribe (subscribe_message k ns name options)) s = (Inr (), s') \<and>
    ltm_open (ses_localTracks s') k = Some lt \<and>
    lt_trackAlias (ses_lt s' lt) = seq_last (ses_trackAliases s) \<and>
    last (cn_sent (ses_conn s')) = SubscribeOk m \<and> som_RequestID m = k \<and> som_TrackAlias m = 0 \<and>
    receive envc (SubscribeOk m) c' = (Inl (Fail errDuplicateTrackAliasBug), c'') \<and>
    Subscribe_wait Response rt c'' = None"
proof -
  let ?m = "subscribe_message k ns name options" and ?ok = "subscribe_ok_with k (ok_options oks)"
  from Subscribe_send_ok [OF rel(1) k wire next_id_free [OF inv k(1)]]
  obtain c' where c': "Subscribe_send envc ns name options c = (Inr (ses_next c), c')"
    "rtm_pending (ses_remoteTracks c') k = Some (ses_next c)"
    "rtm_trackAliasToRequestID (ses_remoteTracks c') 0 = Some j"
    "rt_responseChan (ses_rt c' (ses_next c)) = []" "ses_handshakeDone c'"
    using known ready(1) by (auto simp: newRemoteTrack_def)
  have m: "sm_RequestID ?m = k" "sm_TrackNamespace ?m = ns" "sm_TrackName ?m = name"
    by (simp_all add: subscribe_message_def Let_def)
  from onSubscribe_accept [OF rel(2), where m = ?m and s = s and options = oks, unfolded m] acc ns max new answer
  obtain s' sent where s': "onSubscribe envs ?m s = (Inr (), s')"
    "ltm_open (ses_localTracks s') k = Some (ses_next s)"
    "ses_lt s' (ses_next s) = newLocalTrack k (seq_last (ses_trackAliases s)) True"
    "cn_sent (ses_conn s') = sent @ [SubscribeOk ?ok]"
    unfolding accepts_with_def by auto
  from onSubscribeOk_duplicate [where s = c' and m = ?ok and env = envc, unfolded subscribe_ok_simps] c'
  obtain c'' where c'': "onSubscribeOk envc ?ok c' = (Inl (Fail errDuplicateTrackAliasBug), c'')" "ses_rt c'' = ses_rt c'"
    by blast
  have "receive envs (Subscribe ?m) s = (Inr (), s')"
    "receive envc (SubscribeOk ?ok) c' = (Inl (Fail errDuplicateTrackAliasBug), c'')"
    "Subscribe_wait Response (ses_next c) c'' = None"
    using ready(2) s'(1) c'' c'(4,5)
    by (simp_all add: receive_def bindS_def getsS_def Subscribe_wait_def wait_rt_response_def)
  moreover have "lt_trackAlias (ses_lt s' (ses_next s)) = seq_last (ses_trackAliases s)"
    "last (cn_sent (ses_conn s')) = SubscribeOk ?ok"
    by (simp_all add: s'(3,4) newLocalTrack_def)
  ultimately show ?thesis using c'(1) s'(2) subscribe_ok_simps(1,2) by blast
qed

section \<open>Objects\<close>

lemma subgroup_delivered:
  assumes net: "\<And>n. net n = NetOk" and env: "env_qv env = qv"
    and lt: "lt_done lt = None" "lt_trackAlias lt = a" and fit: "fits a" "fits g" "fits sg"
    and objs: "list_all sendable objs"
    and opened: "openSubgroup qv net g sg prio (lt, conn) = (Inr sub, (lt', conn'))"
    and writes: "write_objects qv net sub objs conn' = (res, conn'')"
    and track: "remoteTrackMap_findByTrackAlias (ses_remoteTracks s) a = Some rt"
      "length (rt_buffer (ses_rt s rt)) \<le> buffer_capacity"
  shows "res = Inr () \<and> readStreams_stream env (cn_streams conn'' ! sg_stream sub) s =
    Some (Inr (), s\<lparr>ses_rt := (ses_rt s)(rt := (ses_rt s rt)\<lparr>
      rt_subGroupCount := rt_subGroupCount (ses_rt s rt) + 1,
      rt_buffer := take buffer_capacity (rt_buffer (ses_rt s rt) @
        map (\<lambda>(i, payload). \<lparr>obj_GroupID = g, obj_ObjectID = i, obj_ForwardingPreference = 0,
                              obj_SubGroupID = sg, obj_Payload = payload\<rparr>) objs)\<rparr>)\<rparr>)"
proof -
  let ?h = "\<lparr>shm_TrackAlias = a, shm_GroupID = g, shm_SubgroupID = sg, shm_PublisherPriority = prio\<rparr>"
  have h: "wf_subgroup_header ?h" using fit by (simp add: wf_subgroup_header_def)
  from openSubgroup_ok [where h = ?h and lt = lt and net = net and c = conn, OF net lt(1) h] lt(2) opened
  have o: "sg_stream sub = length (cn_streams conn)" "cn_streams conn' = cn_streams conn @ [enc_subgroup_header qv ?h]"
    by auto
  from write_objects_ok [where net = net and s = sub and c = conn' and obs = objs, OF net] o objs writes
  have w: "res = Inr ()" "cn_streams conn'' ! sg_stream sub =
      enc_subgroup_header qv ?h @ concat (map (enc_subgroup_object qv) (map plain_object objs))"
    by (simp_all add: nth_append)
  have wf: "list_all wf_object (map plain_object objs)" using objs by (simp add: list_all_iff)
  have eq: "map (\<lambda>m. object_of (subgroup_object (subgroup_parser ?h []) m)) (map plain_object objs) =
      map (\<lambda>(i, payload). \<lparr>obj_GroupID = g, obj_ObjectID = i, obj_ForwardingPreference = 0,
                           obj_SubGroupID = sg, obj_Payload = payload\<rparr>) objs"
    by (auto simp: object_of_def subgroup_object_def subgroup_parser_def plain_object_def)
  from stream_delivers [OF env h wf, of s rt, unfolded eq] w track show ?thesis by simp
qed

lemma datagram_delivered:
  assumes net: "\<And>n. net n = NetOk" and env: "env_qv env = qv"
    and lt: "lt_done lt = None" and fit: "fits (lt_trackAlias lt)" "fits (obj_GroupID ob)" "fits (obj_ObjectID ob)"
    and track: "remoteTrackMap_findByTrackAlias (ses_remoteTracks s) (lt_trackAlias lt) = Some rt"
  shows "\<exists>d conn'. localTrack_sendDatagram qv net ob (lt, conn) = (Inr (), (lt, conn')) \<and>
    cn_datagrams conn' = cn_datagrams conn @ [d] \<and>
    readDatagrams_datagram env d s = Some (Inr (), s\<lparr>ses_rt := (ses_rt s)(rt := RemoteTrack_push (ses_rt s rt)
      \<lparr>obj_GroupID = obj_GroupID ob, obj_ObjectID = obj_ObjectID ob,
       obj_ForwardingPreference = ObjectForwardingPreferenceDatagram, obj_SubGroupID = 0,
       obj_Payload = obj_Payload ob\<rparr>)\<rparr>)"
proof -
  let ?m = "\<lparr>odm_TrackAlias = lt_trackAlias lt, odm_GroupID = obj_GroupID ob, odm_ObjectID = obj_ObjectID ob,
      odm_PublisherPriority = 0, odm_ObjectExtensionHeaders = None, odm_ObjectPayload = obj_Payload ob,
      odm_ObjectStatus = 0\<rparr>"
  have wf: "wf_datagram ?m" using fit by (simp add: wf_datagram_def)
  then have "AppendDatagram qv ?m [] = Inr (enc_datagram_head qv objectTypeDatagram ?m @ obj_Payload ob)"
    using AppendDatagram_enc [of ?m "[]"] by simp
  then show ?thesis
    using datagram_delivers [OF env wf, of s rt] net lt track
    by (simp add: localTrack_sendDatagram_def localTrack_closed_def on_conn_def SendDatagram_def net_op_def effects)
qed

section \<open>Fetches\<close>

text \<open>An application that writes objects to a fetch stream, with group, subgroup, ID and payload.\<close>

end

fun write_fetched :: "quicvarint \<Rightarrow> net \<Rightarrow> FetchStream \<Rightarrow> (uint64 \<times> uint64 \<times> uint64 \<times> byte \<times> bytes) list \<Rightarrow>
  (Connection, unit) st" where
  "write_fetched qv net f [] = returnS ()"
| "write_fetched qv net f ((g, sg, i, prio, payload) # objs) =
     bindS (FetchStream_WriteObject qv net f g sg i prio payload) (\<lambda>_. write_fetched qv net f objs)"

fun fetched_message :: "uint64 \<times> uint64 \<times> uint64 \<times> byte \<times> bytes \<Rightarrow> ObjectMessage" where
  "fetched_message (g, sg, i, prio, payload) =
     \<lparr>om_TrackAlias = 0, om_GroupID = g, om_SubgroupID = sg, om_ObjectID = i, om_PublisherPriority = prio,
      om_ObjectExtensionHeaders = None, om_ObjectStatus = 0, om_ObjectPayload = payload\<rparr>"

context varint_codec
begin

lemma write_fetched_ok:
  assumes net: "\<And>n. net n = NetOk" and "fs_stream f < length (cn_streams c)"
    and "list_all (wf_object \<circ> fetched_message) objs"
  shows "fst (write_fetched qv net f objs c) = Inr () \<and>
    cn_streams (snd (write_fetched qv net f objs c)) = (cn_streams c)[fs_stream f :=
       cn_streams c ! fs_stream f @ concat (map (enc_fetch_object qv \<circ> fetched_message) objs)]"
  using assms(2,3)
proof (induction objs arbitrary: c)
  case (Cons ob objs)
  obtain g sg i prio payload where ob: "ob = (g, sg, i, prio, payload)" by (cases ob)
  let ?c = "snd (FetchStream_WriteObject qv net f g sg i prio payload c)"
  have "AppendFetch qv (fetched_message ob) [] = Inr (enc_fetch_object qv (fetched_message ob))"
    using AppendFetch_enc [of "fetched_message ob" "[]"] Cons.prems(2) by simp
  then have w: "fst (FetchStream_WriteObject qv net f g sg i prio payload c) = Inr (length payload)"
    "cn_streams ?c = (cn_streams c)[fs_stream f := cn_streams c ! fs_stream f @ enc_fetch_object qv (fetched_message ob)]"
    using net Cons.prems(1)
    by (simp_all add: FetchStream_WriteObject_def ob write_stream_def net_op_def effects)
  have "write_fetched qv net f (ob # objs) c = write_fetched qv net f objs ?c"
    by (simp add: ob bindS_fst w(1))
  with Cons.IH [of ?c] Cons.prems w(2) show ?case by simp
qed (simp add: returnS_def)

lemma fetch_delivered:
  assumes net: "\<And>n. net n = NetOk" and env: "env_qv env = qv"
    and lt: "lt_done lt = None" "lt_fetchStream lt = None" and fit: "fits (lt_requestID lt)"
    and objs: "list_all (wf_object \<circ> fetched_message) objs"
    and opened: "getFetchStream qv net (lt, conn) = (r, (lt', conn'))"
    and track: "remoteTrackMap_findByRequestID (ses_remoteTracks s) (lt_requestID lt) = Some rt"
      "length (rt_buffer (ses_rt s rt)) \<le> buffer_capacity" "rt_fetchCount (ses_rt s rt) = 0"
  shows "\<exists>f conn''. r = Inr f \<and> lt' = lt\<lparr>lt_fetchStream := Some f\<rparr> \<and>
    length (cn_streams conn') = Suc (length (cn_streams conn)) \<and>
    (\<forall>c. getFetchStream qv net (lt', c) = (Inr f, (lt', c))) \<and>
    write_fetched qv net f objs conn' = (Inr (), conn'') \<and>
    readStreams_stream env (cn_streams conn'' ! fs_stream f) s =
    Some (Inr (), s\<lparr>ses_rt := (ses_rt s)(rt := (ses_rt s rt)\<lparr>rt_fetchCount := 1,
      rt_buffer := take buffer_capacity (rt_buffer (ses_rt s rt) @ map (object_of \<circ> fetched_message) objs)\<rparr>)\<rparr>)"
proof -
  let ?h = "\<lparr>fhm_RequestID = lt_requestID lt\<rparr>"
  let ?f = "\<lparr>fs_stream = length (cn_streams conn)\<rparr>"
  let ?ms = "map fetched_message objs"
  have "FetchHeaderMessage_Append qv ?h [] = Inr (enc_fetch_header qv ?h)"
    using FetchHeader_Append_enc [of ?h "[]"] fit by simp
  then have o: "r = Inr ?f" "lt' = lt\<lparr>lt_fetchStream := Some ?f\<rparr>"
    "cn_streams conn' = cn_streams conn @ [enc_fetch_header qv ?h]"
    using opened net lt
    by (auto simp: getFetchStream_def localTrack_closed_def on_conn_def newFetchStream_def OpenUniStream_def
        write_stream_def net_op_def effects)
  define conn'' where "conn'' = snd (write_fetched qv net ?f objs conn')"
  have w: "write_fetched qv net ?f objs conn' = (Inr (), conn'')"
    "cn_streams conn'' ! fs_stream ?f = enc_fetch_header qv ?h @ concat (map (enc_fetch_object qv) ?ms)"
    using write_fetched_ok [where net = net and f = ?f and c = conn' and objs = objs, OF net] o(3) objs
    by (simp_all add: conn''_def nth_append prod_eq_iff)
  let ?t = "(ses_rt s rt)\<lparr>rt_fetchCount := 1\<rparr>"
  have wf: "list_all wf_object ?ms" using objs by (simp add: list_all_iff)
  have eq: "map (\<lambda>m. object_of (fetch_object m)) ?ms = map (object_of \<circ> fetched_message) objs"
    by (simp add: object_of_def fetch_object_def)
  have "RemoteTrack_readFetchStream qv (fetch_parser ?h (concat (map (enc_fetch_object qv) ?ms))) (ses_rt s rt)
      = Some (Inr (), foldl RemoteTrack_push ?t (map (object_of \<circ> fetched_message) objs))"
    using readStream_fetch [OF wf, of ?h ?t, unfolded eq] track(3)
    by (simp add: RemoteTrack_readFetchStream_def)
  moreover have "osp_typ (fetch_parser ?h r) = StreamTypeFetch" "osp_identifier (fetch_parser ?h r) = lt_requestID lt" for r
    by (simp_all add: fetch_parser_def)
  moreover have "NewObjectStreamParser qv (enc_fetch_header qv ?h @ concat (map (enc_fetch_object qv) ?ms))
      = Inr (fetch_parser ?h (concat (map (enc_fetch_object qv) ?ms)))"
    by (rule NewObjectStreamParser_fetch) (simp add: fit)
  ultimately have "readStreams_stream env (cn_streams conn'' ! fs_stream ?f) s =
    Some (Inr (), s\<lparr>ses_rt := (ses_rt s)(rt := (ses_rt s rt)\<lparr>rt_fetchCount := 1,
      rt_buffer := take buffer_capacity (rt_buffer (ses_rt s rt) @ map (object_of \<circ> fetched_message) objs)\<rparr>)\<rparr>)"
    using env track(1,2) foldl_push [of ?t "map (object_of \<circ> fetched_message) objs"]
    unfolding w(2) by (simp add: readStreams_stream_def handleUniStream_def Session_readFetchStream_def on_rt_def)
  moreover have "\<forall>c. getFetchStream qv net (lt', c) = (Inr ?f, (lt', c))"
    using lt(1) by (simp add: o(2) getFetchStream_def localTrack_closed_def effects)
  ultimately show ?thesis using o w(1) by auto
qed

section \<open>Objects with extension headers\<close>

text \<open>
  An object with extension headers on a subgroup stream ends the reading of the stream as if the
  stream had ended there: the object and all after it are lost and no error is reported.
\<close>

lemma headers_end_stream:
  assumes "fits i" and "list_all wf_kvp headers" and "headers \<noteq> []"
    and "length (concat (map (enc_kvp qv) headers)) \<le> maxVarInt"
  shows "RemoteTrack_readStream qv (subgroup_parser h
      (qv_enc qv i @ enc_vbytes qv (concat (map (enc_kvp qv) headers)) @ rest)) t = Some (Inr (), t)"
proof -
  have "ObjectStreamParser_Parse qv (subgroup_parser h
      (qv_enc qv i @ enc_vbytes qv (concat (map (enc_kvp qv) headers)) @ rest)) = Some (Inl (Fail EOF))"
    using assms parseLengthReader_headers [OF assms(2-4), of "[]" rest]
    by (simp add: ObjectStreamParser_Parse_def parseSubgroupObject_def subgroup_parser_def readSubgroup_def
        StreamTypeSubgroupSIDExt_def StreamTypeFetch_def)
  then show ?thesis by (simp add: readStream_end)
qed

section \<open>Track status\<close>

text \<open>
  Request and response of a track status carry the request ID 0, whatever ID the requester took:
  the response to a request that was not numbered 0 finds no request and ends the session.
\<close>

lemma track_status_unanswered:
  assumes rel: "reliable qv envc" "reliable qv envs"
    and k: "rg_id (ses_requestIDs c) = k" "k < rg_max (ses_requestIDs c)" "k \<noteq> 0"
    and none: "ses_outgoingTrackStatusRequests c 0 = None" and code: "fits (ts_StatusCode ts)"
    and wire: "wire_ok qv (TrackStatusRequest \<lparr>tsrm_RequestID = 0, tsrm_TrackNamespace = ns,
      tsrm_TrackName = name, tsrm_Parameters = []\<rparr>)"
  shows "\<exists>ch c' s' m c''. RequestTrackStatus_send envc ns name c = (Inr ch, c') \<and>
    sendTrackStatus envs ts s = (Inr (), s') \<and> last (cn_sent (ses_conn s')) = TrackStatus m \<and>
    onTrackStatus m c' = (Inl (Fail errUnknownTrackStatusRequest), c'')"
proof -
  let ?m = "\<lparr>tsm_RequestID = 0, tsm_StatusCode = ts_StatusCode ts, tsm_LargestLocation = zeroLocation,
        tsm_Parameters = []\<rparr>"
  have "length (enc_TrackStatus qv ?m) \<le> 8 * 8"
    using enc_len [of 0] enc_len [of "ts_StatusCode ts"]
    by (simp add: enc_TrackStatus_def enc_location_def zeroLocation_def enc_kvps_def)
  then have "wire_ok qv (TrackStatus ?m)"
    using code by (simp add: wire_ok_def wf_TrackStatus_def wf_location_def zeroLocation_def wf_kvps_def)
  from ses_write_ok [OF rel(2) this] obtain s' where "sendTrackStatus envs ts s = (Inr (), s')"
    "last (cn_sent (ses_conn s')) = TrackStatus ?m"
    by (simp add: sendTrackStatus_def)
  moreover obtain ch c' where "RequestTrackStatus_send envc ns name c = (Inr ch, c')"
    "ses_outgoingTrackStatusRequests c' 0 = None"
    using k none ses_write_ok [OF rel(1) wire]
    by (simp add: RequestTrackStatus_send_def bindS_def newRequestID_ok alloc_statusCh_def
        upd_trackStatusRequests_def updS_def trackStatusRequestMap_add_def tryS_def returnS_def)
  moreover from this(2) have "onTrackStatus ?m c' = (Inl (Fail errUnknownTrackStatusRequest), c')"
    by (simp add: onTrackStatus_def bindS_def upd_trackStatusRequests_def updS_def failS_def
        trackStatusRequestMap_delete_def)
  ultimately show ?thesis by blast
qed

end

text \<open>
  A WebTransport client must not send a path. The check compares the index with \<^verbatim>\<open>> 0\<close>, so a path
  in the first place is accepted.
\<close>

lemma path_first_accepted:
  "kvp_Type p = PathParameterKey \<Longrightarrow> validatePathParameter (p # ps) quic = Inr (kvp_ValueBytes p)"
  by (simp add: validatePathParameter_def)

lemma path_later_rejected:
  assumes "kvp_Type p \<noteq> PathParameterKey" and "q \<in> set ps" and "kvp_Type q = PathParameterKey"
  shows "validatePathParameter (p # ps) False = Inl (Fail errUnexpectedPathParameter)"
proof -
  have "IndexFunc (\<lambda>p. kvp_Type p = PathParameterKey) ps \<noteq> None"
    using assms(2,3) by (auto simp: IndexFunc_None)
  then show ?thesis using assms(1) by (auto simp: validatePathParameter_def)
qed

end
