(* ===== verification/Fec_Xor.thy ===== *)
theory Fec_Xor
  imports Go_Base "HOL-Library.Multiset"
begin

text \<open>
  Forward error correction with one XOR parity packet per block (\<^verbatim>\<open>fec/xor/xor.go\<close>): the encoder
  that collects a block and emits its parity, and the decoder that rebuilds one missing packet.
  Sequence numbers and block IDs are Go \<^verbatim>\<open>int\<close>s, modelled as integers. The lemmas give the state
  and the output of the encoder after any number of payloads and show that a block of which one
  packet is lost is rebuilt, in whatever order the others arrive.
\<close>

section \<open>Encoder\<close>

record Config =
  cfg_BlockSize :: int

record Encoder =
  enc_config :: Config
  enc_blockID :: int
  enc_seqID :: int
  enc_buffer :: "bytes list"

definition NewEncoder :: "Config \<Rightarrow> Encoder" where
  "NewEncoder config = \<lparr>enc_config = config, enc_blockID = 0, enc_seqID = 0, enc_buffer = []\<rparr>"

text \<open>The inner loop \<^verbatim>\<open>parity[i] ^= packet[i]\<close>, for the indices of both slices.\<close>

fun xor_into :: "bytes \<Rightarrow> bytes \<Rightarrow> bytes" where
  "xor_into (a # as) (b # bs) = (a XOR b) # xor_into as bs"
| "xor_into as [] = as"
| "xor_into [] bs = []"

fun max_len :: "bytes list \<Rightarrow> nat \<Rightarrow> nat" where
  "max_len [] m = m"
| "max_len (packet # packets) m = max_len packets (if length packet > m then length packet else m)"

definition generateParity :: "bytes list \<Rightarrow> bytes option" where
  "generateParity packets =
     (if length packets = 0 then None
      else Some (foldl xor_into (replicate (max_len packets 0) 0) packets))"

definition flushEncoder :: "Encoder \<Rightarrow> Encoder" where
  "flushEncoder e = e\<lparr>enc_buffer := [], enc_blockID := enc_blockID e + 1, enc_seqID := 0\<rparr>"

definition TryEncode :: "Encoder \<Rightarrow> bytes \<Rightarrow> (bytes option \<times> int \<times> int) \<times> Encoder" where
  "TryEncode e payload =
     (let e = e\<lparr>enc_buffer := enc_buffer e @ [payload], enc_seqID := enc_seqID e + 1\<rparr>;
          blockID = enc_blockID e;
          seqID = enc_seqID e
      in if seqID < cfg_BlockSize (enc_config e) then ((None, blockID, seqID), e)
         else ((generateParity (enc_buffer e), blockID, seqID), flushEncoder e))"

section \<open>Decoder\<close>

record Block =
  blk_dataPackets :: "int \<rightharpoonup> bytes"
  blk_parityPacket :: bytes
  blk_receivedData :: int
  blk_hasParity :: bool
  blk_size :: int

record Decoder =
  dec_config :: Config
  dec_blocks :: "int \<rightharpoonup> Block"

definition NewDecoder :: "Config \<Rightarrow> Decoder" where
  "NewDecoder config = \<lparr>dec_config = config, dec_blocks = Map.empty\<rparr>"

definition newBlock :: "int \<Rightarrow> Block" where
  "newBlock sz =
     \<lparr>blk_dataPackets = Map.empty, blk_parityPacket = [], blk_receivedData = 0,
      blk_hasParity = False, blk_size = sz\<rparr>"

text \<open>The search for the first sequence number below the size that has no packet.\<close>

fun find_missing :: "(int \<rightharpoonup> bytes) \<Rightarrow> int list \<Rightarrow> int option" where
  "find_missing packets [] = None"
| "find_missing packets (i # is) = (if packets i = None then Some i else find_missing packets is)"

text \<open>
  The loop over the map of packets visits its keys in an order that Go leaves open, the first
  argument. Copying the parity packet first makes the result independent of it in the source.
\<close>

fun xor_packets :: "int list \<Rightarrow> (int \<rightharpoonup> bytes) \<Rightarrow> bytes \<Rightarrow> bytes" where
  "xor_packets [] packets recovered = recovered"
| "xor_packets (k # ks) packets recovered =
     xor_packets ks packets
       (case packets k of None \<Rightarrow> recovered | Some packet \<Rightarrow> xor_into recovered packet)"

definition recoverMissingPacket :: "(int set \<Rightarrow> int list) \<Rightarrow> Block \<Rightarrow> bytes option" where
  "recoverMissingPacket order block =
     (if \<not> blk_hasParity block \<or> blk_receivedData block \<noteq> blk_size block - 1 then None
      else if find_missing (blk_dataPackets block) [0..blk_size block - 1] = None then None
      else Some (xor_packets (order (dom (blk_dataPackets block))) (blk_dataPackets block)
                   (blk_parityPacket block)))"

definition TryDecode ::
  "(int set \<Rightarrow> int list) \<Rightarrow> Decoder \<Rightarrow> int \<Rightarrow> int \<Rightarrow> bytes \<Rightarrow> bool \<Rightarrow> (bytes option \<times> bool) \<times> Decoder" where
  "TryDecode order d blockID seqInBlock payload isParity =
     (let block = (case dec_blocks d blockID of
                     Some b \<Rightarrow> b | None \<Rightarrow> newBlock (cfg_BlockSize (dec_config d)));
          block = (if isParity then block\<lparr>blk_parityPacket := payload, blk_hasParity := True\<rparr>
                   else if blk_dataPackets block seqInBlock = None
                   then block\<lparr>blk_dataPackets := (blk_dataPackets block)(seqInBlock \<mapsto> payload),
                              blk_receivedData := blk_receivedData block + 1\<rparr>
                   else block);
          d = d\<lparr>dec_blocks := (dec_blocks d)(blockID \<mapsto> block)\<rparr>;
          removed = d\<lparr>dec_blocks := (dec_blocks d)(blockID := None)\<rparr>
      in if blk_receivedData block = blk_size block then ((Some payload, False), removed)
         else case (if blk_hasParity block \<and> blk_receivedData block = blk_size block - 1
                    then recoverMissingPacket order block else None) of
                Some recovered \<Rightarrow> ((Some recovered, True), removed)
              | None \<Rightarrow> if \<not> isParity then ((Some payload, False), d) else ((None, False), d))"

definition CleanupOldBlocks :: "Decoder \<Rightarrow> int \<Rightarrow> Decoder" where
  "CleanupOldBlocks d currentBlockID =
     d\<lparr>dec_blocks := (\<lambda>blockID. if blockID < currentBlockID - 10 then None else dec_blocks d blockID)\<rparr>"

section \<open>Algebra of XOR\<close>

lemma length_xor_into [simp]: "length (xor_into a b) = length a"
  by (induction a b rule: xor_into.induct) auto

lemma nth_xor_into:
  "i < length a \<Longrightarrow> xor_into a b ! i = (if i < length b then a ! i XOR b ! i else a ! i)"
proof (induction a b arbitrary: i rule: xor_into.induct)
  case (1 a as b bs)
  then show ?case by (cases i) auto
qed auto

lemma xor_into_commute: "xor_into (xor_into a b) c = xor_into (xor_into a c) b"
  by (rule nth_equalityI) (auto simp: nth_xor_into xor.assoc xor.commute xor.left_commute)

lemma xor_into_cancel [simp]: "xor_into (xor_into a b) b = a"
  by (rule nth_equalityI) (auto simp: nth_xor_into xor.assoc)

lemma length_foldl_xor [simp]: "length (foldl xor_into a ps) = length a"
  by (induction ps arbitrary: a) auto

lemma foldl_xor_step: "foldl xor_into (xor_into a p) ps = xor_into (foldl xor_into a ps) p"
  by (induction ps arbitrary: a) (auto simp: xor_into_commute)

lemma foldl_xor_cancel: "foldl xor_into (foldl xor_into a ps) ps = a"
proof (induction ps arbitrary: a)
  case (Cons p ps)
  show ?case using Cons by (simp add: foldl_xor_step)
qed simp

text \<open>The order of the packets does not matter.\<close>

lemma foldl_xor_mset:
  assumes "mset ps = mset qs"
  shows "foldl xor_into a ps = foldl xor_into a qs"
proof -
  have "fold (\<lambda>p a. xor_into a p) ps = fold (\<lambda>p a. xor_into a p) qs"
    by (rule fold_multiset_equiv) (auto simp: fun_eq_iff xor_into_commute assms)
  then show ?thesis by (simp add: foldl_conv_fold)
qed

lemma xor_zeros: "length p \<le> n \<Longrightarrow> xor_into (replicate n 0) p = p @ replicate (n - length p) 0"
  by (rule nth_equalityI) (auto simp: nth_xor_into nth_append)

lemma max_len_start: "m \<le> max_len ps m"
proof (induction ps arbitrary: m)
  case (Cons p ps)
  show ?case using Cons [of m] Cons [of "length p"] by auto
qed simp

lemma max_len_ge: "p \<in> set ps \<Longrightarrow> length p \<le> max_len ps m"
proof -
  show "p \<in> set ps \<Longrightarrow> length p \<le> max_len ps m"
  proof (induction ps arbitrary: m)
    case (Cons q ps)
    have "length q \<le> (if length q > m then length q else m)" by simp
    also have "\<dots> \<le> max_len ps (if length q > m then length q else m)" by (rule max_len_start)
    finally have "length q \<le> max_len (q # ps) m" by simp
    with Cons show ?case by auto
  qed simp
qed

text \<open>
  From the parity of a block and all of its packets but one, the missing packet comes back,
  padded with zeros to the length of the longest packet.
\<close>

lemma parity_recovers:
  assumes "mset all = mset (p # rest)"
  shows "foldl xor_into (foldl xor_into (replicate (max_len all 0) 0) all) rest
       = p @ replicate (max_len all 0 - length p) 0"
proof -
  have "p \<in> set all" using assms by (metis list.set_intros(1) set_mset_mset)
  then have len: "length p \<le> max_len all 0" by (rule max_len_ge)
  have "foldl xor_into (foldl xor_into (replicate (max_len all 0) 0) all) rest
      = foldl xor_into (foldl xor_into (replicate (max_len all 0) 0) (p # rest)) rest"
    by (simp only: foldl_xor_mset [OF assms])
  also have "\<dots> = xor_into (replicate (max_len all 0) 0) p"
    by (simp add: foldl_xor_cancel)
  finally show ?thesis using len by (simp add: xor_zeros)
qed

text \<open>
  The parity of a block without reference to the loops of the code: as long as the longest packet, and
  at each place the XOR of the bytes that the packets have there.
\<close>

definition byte_at :: "nat \<Rightarrow> bytes \<Rightarrow> byte" where
  "byte_at i p = (if i < length p then p ! i else 0)"

definition parity_of :: "bytes list \<Rightarrow> bytes" where
  "parity_of packets =
     map (\<lambda>i. foldr (\<lambda>p x. byte_at i p XOR x) packets 0) [0..<Max (insert 0 (length ` set packets))]"

lemma max_len_Max: "max_len ps m = Max (insert m (length ` set ps))"
proof (induction ps arbitrary: m)
  case (Cons p ps)
  then show ?case by (cases "ps = []") (simp_all add: max_def)
qed simp

lemma nth_foldl_xor:
  "i < length a \<Longrightarrow> foldl xor_into a ps ! i = foldr (\<lambda>p x. byte_at i p XOR x) ps (a ! i)"
proof (induction ps arbitrary: a)
  case (Cons p ps)
  have step: "foldr (\<lambda>p x. byte_at i p XOR x) ps (x XOR y) = foldr (\<lambda>p x. byte_at i p XOR x) ps x XOR y" for x y
    by (induction ps) (simp_all add: xor.assoc)
  show ?case
    using Cons by (simp add: nth_xor_into byte_at_def [of i p] step xor.commute [of "p ! i"])
qed simp

lemma generateParity_eq:
  assumes "packets \<noteq> []"
  shows "generateParity packets = Some (parity_of packets)"
proof -
  have "generateParity packets = Some (foldl xor_into (replicate (max_len packets 0) 0) packets)"
    using assms by (simp add: generateParity_def)
  moreover have "foldl xor_into (replicate (max_len packets 0) 0) packets = parity_of packets"
    by (auto simp: parity_of_def max_len_Max nth_foldl_xor simp del: Max_insert intro!: nth_equalityI)
  ultimately show ?thesis by simp
qed

lemma xor_packets_foldl:
  "(\<And>k. k \<in> set ks \<Longrightarrow> packets k \<noteq> None) \<Longrightarrow>
     xor_packets ks packets a = foldl xor_into a (map (the \<circ> packets) ks)"
proof (induction ks arbitrary: a)
  case (Cons k ks)
  from Cons.prems obtain p where "packets k = Some p" by fastforce
  with Cons show ?case by simp
qed simp

section \<open>The encoder over a sequence of payloads\<close>

fun encode_all :: "Encoder \<Rightarrow> bytes list \<Rightarrow> Encoder" where
  "encode_all e [] = e"
| "encode_all e (p # ps) = encode_all (snd (TryEncode e p)) ps"

definition enc_state :: "nat \<Rightarrow> bytes list \<Rightarrow> Encoder" where
  "enc_state b ps =
     \<lparr>enc_config = \<lparr>cfg_BlockSize = int b\<rparr>, enc_blockID = int (length ps div b),
      enc_seqID = int (length ps mod b), enc_buffer = drop (length ps div b * b) ps\<rparr>"

text \<open>The packets of the block that the last of a list of payloads belongs to.\<close>

definition last_block :: "nat \<Rightarrow> bytes list \<Rightarrow> bytes list" where
  "last_block b ps = drop ((length ps - 1) div b * b) ps"

lemma TryEncode_state:
  assumes "0 < b"
  shows "TryEncode (enc_state b ps) p =
    ((if Suc (length ps) mod b = 0 then generateParity (last_block b (ps @ [p])) else None,
      int (length ps div b), int (length ps mod b) + 1), enc_state b (ps @ [p]))"
proof (cases "Suc (length ps mod b) < b")
  case True
  then have "Suc (length ps) mod b = Suc (length ps mod b)" "Suc (length ps) div b = length ps div b"
    by (simp_all add: mod_Suc div_Suc)
  moreover have "length ps div b * b \<le> length ps" by (simp add: div_times_less_eq_dividend)
  ultimately show ?thesis
    using True by (simp add: TryEncode_def enc_state_def Let_def)
next
  case False
  then have eq: "Suc (length ps mod b) = b" using mod_less_divisor [OF assms, of "length ps"] by simp
  then have m: "Suc (length ps) mod b = 0" "Suc (length ps) div b = Suc (length ps div b)"
    by (simp_all add: mod_Suc div_Suc)
  have "length ps div b * b \<le> length ps" by (simp add: div_times_less_eq_dividend)
  moreover have "Suc (length ps) div b * b = Suc (length ps)"
    using m(1) by (simp add: mod_eq_0_iff_dvd dvd_div_mult_self)
  ultimately show ?thesis
    using eq m by (simp add: TryEncode_def enc_state_def Let_def flushEncoder_def last_block_def)
qed

lemma encode_all_state:
  assumes "0 < b"
  shows "encode_all (enc_state b qs) ps = enc_state b (qs @ ps)"
proof (induction ps arbitrary: qs)
  case (Cons p ps)
  show ?case using Cons [of "qs @ [p]"] by (simp add: TryEncode_state [OF assms])
qed simp

lemma NewEncoder_state: "NewEncoder \<lparr>cfg_BlockSize = int b\<rparr> = enc_state b []"
  by (simp add: NewEncoder_def enc_state_def)

section \<open>The decoder over the packets of a block\<close>

fun feed :: "(int set \<Rightarrow> int list) \<Rightarrow> Decoder \<Rightarrow> int \<Rightarrow> (int \<times> bytes) list \<Rightarrow> Decoder" where
  "feed order d b [] = d"
| "feed order d b ((s, p) # rs) = feed order (snd (TryDecode order d b s p False)) b rs"

definition current_block :: "Decoder \<Rightarrow> int \<Rightarrow> Block" where
  "current_block d b = (case dec_blocks d b of Some blk \<Rightarrow> blk | None \<Rightarrow> newBlock (cfg_BlockSize (dec_config d)))"

lemma feed_block:
  assumes "current_block d b = \<lparr>blk_dataPackets = m, blk_parityPacket = [], blk_receivedData = int c,
      blk_hasParity = False, blk_size = n\<rparr>"
    and "distinct (map fst rs)" and "\<And>s. s \<in> fst ` set rs \<Longrightarrow> m s = None"
    and "int (c + length rs) < n" and "dec_config d = cfg"
  shows "current_block (feed order d b rs) b = \<lparr>blk_dataPackets = m ++ map_of rs, blk_parityPacket = [],
      blk_receivedData = int (c + length rs), blk_hasParity = False, blk_size = n\<rparr> \<and>
    dec_config (feed order d b rs) = cfg"
  using assms
proof (induction rs arbitrary: d m c)
  case (Cons r rs)
  obtain s p where r: "r = (s, p)" by (cases r)
  let ?d = "snd (TryDecode order d b s p False)"
  have new: "m s = None" using Cons.prems(3) r by simp
  have "current_block ?d b = \<lparr>blk_dataPackets = m(s \<mapsto> p), blk_parityPacket = [],
      blk_receivedData = int (Suc c), blk_hasParity = False, blk_size = n\<rparr>"
    and cfg: "dec_config ?d = cfg"
    using Cons.prems(1,4,5) new
    by (auto simp: TryDecode_def Let_def current_block_def [symmetric])
      (simp add: current_block_def)
  moreover have "(m(s \<mapsto> p)) t = None" if "t \<in> fst ` set rs" for t
    using that Cons.prems(2,3) r by auto
  ultimately have "current_block (feed order ?d b rs) b = \<lparr>blk_dataPackets = m(s \<mapsto> p) ++ map_of rs,
      blk_parityPacket = [], blk_receivedData = int (Suc c + length rs), blk_hasParity = False, blk_size = n\<rparr> \<and>
    dec_config (feed order ?d b rs) = cfg"
    using Cons.prems(2,4) r cfg by (intro Cons.IH) (simp_all add: fun_upd_def)
  moreover have "m(s \<mapsto> p) ++ map_of rs = m ++ map_of ((s, p) # rs)"
  proof -
    have "map_of rs s = None" using Cons.prems(2) r by (simp add: map_of_eq_None_iff)
    then show ?thesis by (auto simp: fun_eq_iff map_add_def split: option.splits)
  qed
  moreover have "int (Suc c + length rs) = int (c + length ((s, p) # rs))" by simp
  ultimately show ?case unfolding r feed.simps by (simp only:)
qed simp

text \<open>What Go guarantees of the order in which a loop visits the keys of a map.\<close>

definition visits_all :: "(int set \<Rightarrow> int list) \<Rightarrow> bool" where
  "visits_all order \<longleftrightarrow> (\<forall>S. finite S \<longrightarrow> distinct (order S) \<and> set (order S) = S)"

lemma find_missing_iff: "find_missing m is = None \<longleftrightarrow> (\<forall>i \<in> set is. m i \<noteq> None)"
  by (induction "is") auto

lemma missing_exists:
  assumes "card (dom m) < n" and "finite (dom m)"
  shows "find_missing m [0..int n - 1] \<noteq> None"
proof
  assume "find_missing m [0..int n - 1] = None"
  then have "{0..int n - 1} \<subseteq> dom m" by (auto simp: find_missing_iff)
  from card_mono [OF assms(2) this] assms(1) show False by simp
qed

lemma map_values_mset:
  assumes "distinct (map fst rs)" and "distinct ks" and "set ks = fst ` set rs"
  shows "mset (map (the \<circ> map_of rs) ks) = mset (map snd rs)"
proof -
  have "mset ks = mset (map fst rs)"
    using assms by (intro set_eq_iff_mset_eq_distinct [THEN iffD1]) auto
  then have "mset (map (the \<circ> map_of rs) ks) = mset (map (the \<circ> map_of rs) (map fst rs))"
    by (simp only: mset_map)
  also have "map (the \<circ> map_of rs) (map fst rs) = map snd rs"
    using assms(1) by (auto intro!: map_cong simp: comp_def)
  finally show ?thesis .
qed

lemma recovers_from:
  assumes "visits_all order" and "n = Suc (length rs)"
    and blk: "current_block d b = \<lparr>blk_dataPackets = map_of rs, blk_parityPacket = [],
      blk_receivedData = int (length rs), blk_hasParity = False, blk_size = int n\<rparr>"
    and dist: "distinct (map fst rs)"
    and all: "mset all = mset (p # map snd rs)" and par: "generateParity all = Some parity"
  shows "\<exists>d'. TryDecode order d b s parity True =
    ((Some (p @ replicate (max_len all 0 - length p) 0), True), d') \<and> dec_blocks d' b = None"
proof -
  let ?m = "map_of rs"
  have dom: "dom ?m = fst ` set rs" by (simp add: dom_map_of_conv_image_fst)
  have "find_missing ?m [0..int n - 1] \<noteq> None"
    using assms(2) card_length [of "map fst rs"] by (intro missing_exists) (simp_all add: dom)
  moreover have "xor_packets (order (dom ?m)) ?m parity = p @ replicate (max_len all 0 - length p) 0"
  proof -
    have ord: "distinct (order (dom ?m))" "set (order (dom ?m)) = fst ` set rs"
      using assms(1) by (simp_all add: visits_all_def dom)
    have "xor_packets (order (dom ?m)) ?m parity = foldl xor_into parity (map (the \<circ> ?m) (order (dom ?m)))"
      using ord(2) by (intro xor_packets_foldl) (auto simp: map_of_eq_None_iff)
    also have "\<dots> = foldl xor_into parity (map snd rs)"
      by (rule foldl_xor_mset) (rule map_values_mset [OF dist ord])
    also have "\<dots> = p @ replicate (max_len all 0 - length p) 0"
      using parity_recovers [OF all] par by (simp add: generateParity_def split: if_splits)
    finally show ?thesis .
  qed
  ultimately show ?thesis
    using blk assms(2)
    by (simp add: TryDecode_def Let_def current_block_def [symmetric] recoverMissingPacket_def)
qed

lemma block_recovered:
  assumes "visits_all order" and cfg: "dec_config d = \<lparr>cfg_BlockSize = int n\<rparr>"
    and none: "dec_blocks d b = None"
    and pkts: "length pkts = n" "distinct (map fst pkts)" "mset pkts = add_mset (k, p) (mset rs)"
    and par: "generateParity (map snd pkts) = Some parity"
  shows "\<exists>d'. TryDecode order (feed order d b rs) b s parity True =
    ((Some (p @ replicate (max_len (map snd pkts) 0 - length p) 0), True), d') \<and> dec_blocks d' b = None"
proof -
  have perm: "mset pkts = mset ((k, p) # rs)" using pkts(3) by simp
  then have len: "length pkts = Suc (length rs)" by (metis length_Cons size_mset)
  have "mset (map fst pkts) = mset (map fst ((k, p) # rs))" using perm by (simp only: mset_map)
  with pkts(2) have "distinct (map fst ((k, p) # rs))" using mset_eq_imp_distinct_iff by blast
  then have dist: "distinct (map fst rs)" by simp
  have blk: "current_block (feed order d b rs) b = \<lparr>blk_dataPackets = map_of rs, blk_parityPacket = [],
      blk_receivedData = int (length rs), blk_hasParity = False, blk_size = int n\<rparr>"
    using feed_block [of d b Map.empty 0 "int n" rs "\<lparr>cfg_BlockSize = int n\<rparr>" order] dist len pkts(1) none cfg
    by (simp add: current_block_def newBlock_def)
  have all: "mset (map snd pkts) = mset (p # map snd rs)" using perm by simp
  have "n = Suc (length rs)" using len pkts(1) by simp
  from recovers_from [OF assms(1) this blk dist all par] show ?thesis .
qed

end
