(* ===== verification/Fec_Counter.thy ===== *)
theory Fec_Counter
  imports Fec_Xor Tracks
begin

text \<open>
  The counter application that uses the XOR code over datagrams (\<^verbatim>\<open>fec/xor/example/publisher.go\<close>
  and \<^verbatim>\<open>subscriber.go\<close>, less logging and the ticker): the publisher encodes a counter in each
  datagram and adds a parity datagram per block of four, the subscriber decodes. The lemmas show
  that the metadata and the decimal counter survive the trip and what becomes of a lost datagram.
\<close>

section \<open>Metadata\<close>

text \<open>\<^verbatim>\<open>byte(x >> k)\<close> of an \<^verbatim>\<open>int\<close>: the shift is arithmetic, the conversion keeps the low 8 bits.\<close>

definition byte_at :: "int \<Rightarrow> nat \<Rightarrow> byte" where
  "byte_at x k = of_int (x div 2 ^ k)"

definition wrapWithMetadata :: "bytes \<Rightarrow> int \<Rightarrow> int \<Rightarrow> bool \<Rightarrow> bytes" where
  "wrapWithMetadata payload blockID seqInBlock isParity =
     [byte_at blockID 24, byte_at blockID 16, byte_at blockID 8, byte_at blockID 0,
      byte_at seqInBlock 24, byte_at seqInBlock 16, byte_at seqInBlock 8, byte_at seqInBlock 0,
      if isParity then 1 else 0] @ payload"

text \<open>\<^verbatim>\<open>int(int32(a)<<24 | int32(b)<<16 | int32(c)<<8 | int32(d))\<close>, a signed 32-bit number.\<close>

definition int32_of_bytes :: "byte \<Rightarrow> byte \<Rightarrow> byte \<Rightarrow> byte \<Rightarrow> int" where
  "int32_of_bytes a b c d =
     sint (push_bit 24 (ucast a) OR push_bit 16 (ucast b) OR push_bit 8 (ucast c) OR (ucast d :: 32 word))"

definition unwrapMetadata :: "bytes \<Rightarrow> (int \<times> int \<times> bool \<times> bytes) result" where
  "unwrapMetadata wrappedPayload =
     (if length wrappedPayload < 9 then Inl (Fail (OtherError 2))
      else Inr (int32_of_bytes (wrappedPayload ! 0) (wrappedPayload ! 1) (wrappedPayload ! 2) (wrappedPayload ! 3),
                int32_of_bytes (wrappedPayload ! 4) (wrappedPayload ! 5) (wrappedPayload ! 6) (wrappedPayload ! 7),
                wrappedPayload ! 8 = 1, drop 9 wrappedPayload))"

section \<open>Decimal counters\<close>

text \<open>\<^verbatim>\<open>strconv.ParseUint(s, 10, 64)\<close>.\<close>

definition ParseUint :: "bytes \<Rightarrow> uint64 result" where
  "ParseUint s =
     (if s = [] then Inl (Fail (OtherError 3))
      else case parse_digits 0 s of
             None \<Rightarrow> Inl (Fail (OtherError 3))
           | Some n \<Rightarrow> if n < 2 ^ 64 then Inr (of_nat n) else Inl (Fail (OtherError 3)))"

definition parseCounterValue :: "bytes \<Rightarrow> uint64 result" where
  "parseCounterValue payload =
     (if length payload = 0 then Inl (Fail (OtherError 4)) else ParseUint payload)"

section \<open>Publisher\<close>

record XORCounterPublisher =
  fcp_encoder :: Encoder
  fcp_counter :: uint64
  fcp_groupID :: uint64
  fcp_isRunning :: bool
  fcp_stopped :: bool

definition NewXORPublisher :: XORCounterPublisher where
  "NewXORPublisher =
     \<lparr>fcp_encoder = NewEncoder \<lparr>cfg_BlockSize = 4\<rparr>, fcp_counter = 0, fcp_groupID = 0,
      fcp_isRunning = False, fcp_stopped = False\<rparr>"

text \<open>
  \<^verbatim>\<open>fcp.publisher.SendDatagram\<close> is a parameter: the error that sending an object returns. The
  objects that were sent are returned with the result.
\<close>

definition publishNext ::
  "(Object \<Rightarrow> go_error option) \<Rightarrow> XORCounterPublisher \<Rightarrow> (unit result \<times> Object list) \<times> XORCounterPublisher" where
  "publishNext send fcp =
     (let currentCounter = fcp_counter fcp;
          currentGroupID = fcp_groupID fcp;
          payload = FormatUint currentCounter;
          ((parityPacket, blockID, seqID), encoder) = TryEncode (fcp_encoder fcp) payload;
          fcp = fcp\<lparr>fcp_counter := fcp_counter fcp + 1, fcp_groupID := fcp_groupID fcp + 1,
                    fcp_encoder := encoder\<rparr>;
          ob = \<lparr>obj_GroupID = currentGroupID, obj_ObjectID = 0,
                obj_ForwardingPreference = ObjectForwardingPreferenceDatagram,
                obj_SubGroupID = currentGroupID,
                obj_Payload = wrapWithMetadata payload blockID seqID False\<rparr>
      in case send ob of
           Some e \<Rightarrow> ((Inl (Fail e), []), fcp)
         | None \<Rightarrow>
             (case parityPacket of
                None \<Rightarrow> ((Inr (), [ob]), fcp)
              | Some parity \<Rightarrow>
                  let parityObj = \<lparr>obj_GroupID = currentGroupID + 1000, obj_ObjectID = 0,
                        obj_ForwardingPreference = ObjectForwardingPreferenceDatagram,
                        obj_SubGroupID = currentGroupID + 1000,
                        obj_Payload = wrapWithMetadata parity blockID (-1) True\<rparr>
                  in (case send parityObj of
                        Some e \<Rightarrow> ((Inl (Fail e), [ob]), fcp)
                      | None \<Rightarrow> ((Inr (), [ob, parityObj]), fcp))))"

definition XORCounterPublisher_Stop :: "XORCounterPublisher \<Rightarrow> unit result \<times> XORCounterPublisher" where
  "XORCounterPublisher_Stop fcp =
     (if \<not> fcp_isRunning fcp then (Inr (), fcp)
      else if fcp_stopped fcp then (Inl Panic, fcp\<lparr>fcp_isRunning := False\<rparr>)
      else (Inr (), fcp\<lparr>fcp_isRunning := False, fcp_stopped := True\<rparr>))"

section \<open>Subscriber\<close>

record XORCounterSubscriber =
  fcs_decoder :: Decoder
  fcs_lastReceived :: uint64
  fcs_totalReceived :: uint64
  fcs_recoveredCount :: uint64

definition NewXORSubscriber :: XORCounterSubscriber where
  "NewXORSubscriber =
     \<lparr>fcs_decoder = NewDecoder \<lparr>cfg_BlockSize = 4\<rparr>, fcs_lastReceived = 0, fcs_totalReceived = 0,
      fcs_recoveredCount = 0\<rparr>"

definition processObject ::
  "(int set \<Rightarrow> int list) \<Rightarrow> Object \<Rightarrow> XORCounterSubscriber \<Rightarrow> unit result \<times> XORCounterSubscriber" where
  "processObject order ob fcs =
     (case unwrapMetadata (obj_Payload ob) of
        Inl e \<Rightarrow> (Inl e, fcs)
      | Inr (blockID, seqInBlock, isParity, payload) \<Rightarrow>
          let ((decodedPayload, wasRecovered), decoder) =
                TryDecode order (fcs_decoder fcs) blockID seqInBlock payload isParity;
              fcs = fcs\<lparr>fcs_decoder := decoder\<rparr>
          in case decodedPayload of
               None \<Rightarrow> (Inr (), fcs)
             | Some decoded \<Rightarrow>
                 (case parseCounterValue decoded of
                    Inl e \<Rightarrow> (Inl e, fcs)
                  | Inr counterValue \<Rightarrow>
                      let fcs = fcs\<lparr>fcs_lastReceived := counterValue,
                                    fcs_totalReceived := fcs_totalReceived fcs + 1,
                                    fcs_recoveredCount := (if wasRecovered then fcs_recoveredCount fcs + 1
                                                           else fcs_recoveredCount fcs)\<rparr>
                      in (Inr (), if fcs_totalReceived fcs mod 10 = 0
                                  then fcs\<lparr>fcs_decoder := CleanupOldBlocks (fcs_decoder fcs) blockID\<rparr>
                                  else fcs)))"

section \<open>Round trips\<close>

lemma byte_at_word:
  assumes "k \<le> 24"
  shows "byte_at x k = ucast (drop_bit k (of_int x :: 32 word))"
  using assms
  by (intro bit_word_eqI) (auto simp: byte_at_def bit_simps simp flip: drop_bit_eq_div)

lemma bytes_to_word:
  fixes w :: "32 word"
  shows "push_bit 24 (ucast (ucast (drop_bit 24 w) :: byte)) OR push_bit 16 (ucast (ucast (drop_bit 16 w) :: byte))
       OR push_bit 8 (ucast (ucast (drop_bit 8 w) :: byte)) OR ucast (ucast (drop_bit 0 w) :: byte) = w"
proof (rule bit_word_eqI)
  fix n
  assume "n < LENGTH(32)"
  then consider "n < 8" | "8 \<le> n" "n < 16" | "16 \<le> n" "n < 24" | "24 \<le> n" "n < 32" by fastforce
  then show "bit (push_bit 24 (ucast (ucast (drop_bit 24 w) :: byte)) OR push_bit 16 (ucast (ucast (drop_bit 16 w) :: byte))
       OR push_bit 8 (ucast (ucast (drop_bit 8 w) :: byte)) OR (ucast (ucast (drop_bit 0 w) :: byte) :: 32 word)) n = bit w n"
    by cases (auto simp: bit_simps)
qed

lemma int32_roundtrip:
  assumes "- (2 ^ 31) \<le> x" and "x < 2 ^ 31"
  shows "int32_of_bytes (byte_at x 24) (byte_at x 16) (byte_at x 8) (byte_at x 0) = x"
proof -
  have "int32_of_bytes (byte_at x 24) (byte_at x 16) (byte_at x 8) (byte_at x 0) = sint (of_int x :: 32 word)"
    unfolding int32_of_bytes_def by (simp only: byte_at_word bytes_to_word)
  also have "\<dots> = x"
    using assms
    by (simp add: sint_uint uint_word_of_int_eq signed_take_bit_take_bit signed_take_bit_int_eq_self)
  finally show ?thesis .
qed

lemma unwrap_wrap:
  assumes "- (2 ^ 31) \<le> b" "b < 2 ^ 31" "- (2 ^ 31) \<le> s" "s < 2 ^ 31"
  shows "unwrapMetadata (wrapWithMetadata payload b s isParity) = Inr (b, s, isParity, payload)"
  using int32_roundtrip assms
  by (simp add: unwrapMetadata_def wrapWithMetadata_def)

lemma counter_roundtrip: "parseCounterValue (FormatUint x) = Inr x"
proof -
  have "unat x < 2 ^ 64" using unsigned_less [where ?'a = nat, of x] by simp
  then show ?thesis
    by (simp add: parseCounterValue_def ParseUint_def FormatUint_def parse_decimal del: decimal.simps)
qed

text \<open>A zero byte of padding is not a digit: a padded counter does not parse.\<close>

lemma parse_zero: "parse_digits a (xs @ 0 # ys) = None"
  by (induction a xs rule: parse_digits.induct) auto

lemma padded_counter_fails:
  assumes "0 < k"
  shows "parseCounterValue (FormatUint x @ replicate k 0) = Inl (Fail (OtherError 3))"
proof -
  obtain j where "k = Suc j" using assms by (cases k) auto
  then show ?thesis
    by (simp add: parseCounterValue_def ParseUint_def FormatUint_def parse_zero del: decimal.simps)
qed

section \<open>A block of counters at the subscriber\<close>

text \<open>The objects that the publisher sends: a counter with its place in a block, and a parity.\<close>

definition carries :: "bytes \<Rightarrow> int \<Rightarrow> int \<Rightarrow> bool \<Rightarrow> Object \<Rightarrow> bool" where
  "carries payload b s isParity ob \<longleftrightarrow> obj_Payload ob = wrapWithMetadata payload b s isParity"

definition int32 :: "int \<Rightarrow> bool" where
  "int32 x \<longleftrightarrow> - (2 ^ 31) \<le> x \<and> x < 2 ^ 31"

fun process_all :: "(int set \<Rightarrow> int list) \<Rightarrow> Object list \<Rightarrow> XORCounterSubscriber \<Rightarrow> XORCounterSubscriber" where
  "process_all order [] fcs = fcs"
| "process_all order (ob # obs) fcs = process_all order obs (snd (processObject order ob fcs))"

definition collecting :: "int \<Rightarrow> (int \<rightharpoonup> bytes) \<Rightarrow> nat \<Rightarrow> int \<Rightarrow> XORCounterSubscriber \<Rightarrow> bool" where
  "collecting b m c n fcs \<longleftrightarrow> current_block (fcs_decoder fcs) b =
     \<lparr>blk_dataPackets = m, blk_parityPacket = [], blk_receivedData = int c, blk_hasParity = False,
      blk_size = n\<rparr>"

lemma Cleanup_current [simp]: "current_block (CleanupOldBlocks d b) b = current_block d b"
  by (simp add: CleanupOldBlocks_def current_block_def split: option.split)

lemma process_data:
  assumes "collecting b m c n fcs" and "m s = None" and "int (Suc c) < n"
    and "carries (FormatUint x) b s False ob" and "int32 b" "int32 s"
  shows "collecting b (m(s \<mapsto> FormatUint x)) (Suc c) n (snd (processObject order ob fcs))"
    and "fcs_recoveredCount (snd (processObject order ob fcs)) = fcs_recoveredCount fcs"
proof -
  have u: "unwrapMetadata (obj_Payload ob) = Inr (b, s, False, FormatUint x)"
    using assms(4-6) by (simp add: carries_def int32_def unwrap_wrap)
  let ?d = "snd (TryDecode order (fcs_decoder fcs) b s (FormatUint x) False)"
  have t: "fst (TryDecode order (fcs_decoder fcs) b s (FormatUint x) False) = (Some (FormatUint x), False)"
    and blk: "current_block ?d b = \<lparr>blk_dataPackets = m(s \<mapsto> FormatUint x), blk_parityPacket = [],
      blk_receivedData = int (Suc c), blk_hasParity = False, blk_size = n\<rparr>"
    using assms(1-3)
    by (auto simp: collecting_def TryDecode_def Let_def current_block_def [symmetric])
      (simp add: current_block_def)
  from t obtain d where d: "TryDecode order (fcs_decoder fcs) b s (FormatUint x) False = ((Some (FormatUint x), False), d)"
    by (metis prod.collapse)
  with blk have blk': "current_block d b = \<lparr>blk_dataPackets = m(s \<mapsto> FormatUint x), blk_parityPacket = [],
      blk_receivedData = int (Suc c), blk_hasParity = False, blk_size = n\<rparr>" by simp
  show "collecting b (m(s \<mapsto> FormatUint x)) (Suc c) n (snd (processObject order ob fcs))"
    and "fcs_recoveredCount (snd (processObject order ob fcs)) = fcs_recoveredCount fcs"
    using blk' by (simp_all add: processObject_def u d counter_roundtrip Let_def collecting_def)
qed

lemma process_block:
  assumes "collecting b m c n fcs" and "list_all2 (\<lambda>(s, x) ob. carries (FormatUint x) b s False ob \<and> int32 s) rs obs"
    and "distinct (map fst rs)" and "\<And>s. s \<in> fst ` set rs \<Longrightarrow> m s = None"
    and "int (c + length rs) < n" and "int32 b"
  shows "collecting b (m ++ map_of (map (\<lambda>(s, x). (s, FormatUint x)) rs)) (c + length rs) n (process_all order obs fcs)
    \<and> fcs_recoveredCount (process_all order obs fcs) = fcs_recoveredCount fcs"
  using assms
proof (induction rs arbitrary: obs fcs m c)
  case (Cons r rs)
  obtain s x where r: "r = (s, x)" by (cases r)
  from Cons.prems(2) r obtain ob obs' where obs: "obs = ob # obs'" and ob: "carries (FormatUint x) b s False ob" "int32 s"
    and rest: "list_all2 (\<lambda>(s, x) ob. carries (FormatUint x) b s False ob \<and> int32 s) rs obs'"
    by (cases obs) auto
  let ?f = "snd (processObject order ob fcs)"
  have new: "m s = None" using Cons.prems(4) r by simp
  have lt: "int (Suc c) < n" using Cons.prems(5) by simp
  note one = process_data [OF Cons.prems(1) new lt ob(1) Cons.prems(6) ob(2), of order]
  have "collecting b (m(s \<mapsto> FormatUint x) ++ map_of (map (\<lambda>(s, x). (s, FormatUint x)) rs)) (Suc c + length rs) n
      (process_all order obs' ?f) \<and> fcs_recoveredCount (process_all order obs' ?f) = fcs_recoveredCount ?f"
    using Cons.prems(3-6) r one(1) rest by (intro Cons.IH) (auto simp: fun_upd_def)
  moreover have "m(s \<mapsto> FormatUint x) ++ map_of (map (\<lambda>(s, x). (s, FormatUint x)) rs)
      = m ++ map_of (map (\<lambda>(s, x). (s, FormatUint x)) ((s, x) # rs))"
  proof -
    have "map_of (map (\<lambda>(s, x). (s, FormatUint x)) rs) s = None"
      using Cons.prems(3) r by (force simp: map_of_eq_None_iff image_iff)
    then show ?thesis by (auto simp: fun_eq_iff map_add_def split: option.splits)
  qed
  moreover have "Suc c + length rs = c + length ((s, x) # rs)" by simp
  ultimately show ?case unfolding r obs process_all.simps using one(2) by (simp only:)
qed simp

lemma parity_processed:
  assumes "visits_all order" and "int32 b"
    and "collecting b (map_of (map (\<lambda>(s, x). (s, FormatUint x)) rs)) (length rs) (int (Suc (length rs))) fcs"
    and "distinct (map fst rs)" and "mset all = mset (x # map snd rs)"
    and "generateParity (map FormatUint all) = Some parity" and "carries parity b (-1) True ob"
  shows "fst (processObject order ob fcs) = map_sum id (\<lambda>_. ())
      (parseCounterValue (FormatUint x @ replicate (max_len (map FormatUint all) 0 - length (FormatUint x)) 0)) \<and>
    (length (FormatUint x) = max_len (map FormatUint all) 0 \<longrightarrow>
       fcs_lastReceived (snd (processObject order ob fcs)) = x \<and>
       fcs_recoveredCount (snd (processObject order ob fcs)) = fcs_recoveredCount fcs + 1)"
proof -
  have u: "unwrapMetadata (obj_Payload ob) = Inr (b, -1, True, parity)"
    using assms(2,7) by (simp add: carries_def int32_def unwrap_wrap)
  let ?rs = "map (\<lambda>(s, x). (s, FormatUint x)) rs"
  have fst: "map fst ?rs = map fst rs" and snd: "map snd ?rs = map FormatUint (map snd rs)"
    by (induction rs) auto
  have "mset (map FormatUint all) = mset (FormatUint x # map snd ?rs)"
    unfolding snd using assms(5) by (simp add: multiset.map_comp del: map_map)
  note recovers = recovers_from [OF assms(1) _ _ _ this assms(6), of "Suc (length rs)" "fcs_decoder fcs" b "-1"]
  have "distinct (map fst ?rs)" using assms(4) by (simp only: fst)
  from recovers [OF _ _ this] assms(3)
  obtain d' where t: "TryDecode order (fcs_decoder fcs) b (-1) parity True =
    ((Some (FormatUint x @ replicate (max_len (map FormatUint all) 0 - length (FormatUint x)) 0), True), d')"
    by (auto simp: collecting_def)
  show ?thesis
    by (auto simp: processObject_def u t Let_def counter_roundtrip split: sum.splits)
qed

section \<open>A block from the publisher to the subscriber\<close>

text \<open>The publisher after \<open>n\<close> ticks, and the objects it sends at the next one.\<close>

definition counters :: "nat \<Rightarrow> nat \<Rightarrow> bytes list" where
  "counters a b = map (\<lambda>i. FormatUint (of_nat i)) [a..<b]"

definition publisher_state :: "nat \<Rightarrow> XORCounterPublisher \<Rightarrow> bool" where
  "publisher_state n fcp \<longleftrightarrow>
     fcp_encoder fcp = enc_state 4 (counters 0 n) \<and> fcp_counter fcp = of_nat n \<and> fcp_groupID fcp = of_nat n"

definition data_object :: "nat \<Rightarrow> Object" where
  "data_object n =
     \<lparr>obj_GroupID = of_nat n, obj_ObjectID = 0, obj_ForwardingPreference = ObjectForwardingPreferenceDatagram,
      obj_SubGroupID = of_nat n,
      obj_Payload = wrapWithMetadata (FormatUint (of_nat n)) (int (n div 4)) (int (n mod 4) + 1) False\<rparr>"

definition parity_object :: "nat \<Rightarrow> bytes \<Rightarrow> Object" where
  "parity_object n parity =
     \<lparr>obj_GroupID = of_nat n + 1000, obj_ObjectID = 0,
      obj_ForwardingPreference = ObjectForwardingPreferenceDatagram, obj_SubGroupID = of_nat n + 1000,
      obj_Payload = wrapWithMetadata parity (int (n div 4)) (-1) True\<rparr>"

lemma counters_Suc: "counters 0 (Suc n) = counters 0 n @ [FormatUint (of_nat n)]"
  by (simp add: counters_def)

lemma last_block_counters: "last_block 4 (counters 0 (4 * q + 4)) = counters (4 * q) (4 * q + 4)"
proof -
  have "(length (counters 0 (4 * q + 4)) - 1) div 4 * 4 = 4 * q" by (simp add: counters_def)
  then show ?thesis by (simp add: last_block_def counters_def drop_map mult.commute)
qed

lemma NewXORPublisher_state: "publisher_state 0 NewXORPublisher"
  using NewEncoder_state [of 4] by (simp add: publisher_state_def NewXORPublisher_def counters_def)

lemma publishNext_state:
  assumes "publisher_state n fcp"
  shows "fst (publishNext (\<lambda>_. None) fcp) = (Inr (), data_object n #
      (if Suc n mod 4 = 0
       then [parity_object n (the (generateParity (last_block 4 (counters 0 (Suc n)))))] else []))"
    and "publisher_state (Suc n) (snd (publishNext (\<lambda>_. None) fcp))"
proof -
  have len: "length (counters 0 n) = n" by (simp add: counters_def)
  have t: "TryEncode (enc_state 4 (counters 0 n)) (FormatUint (of_nat n)) =
    ((if Suc n mod 4 = 0 then generateParity (last_block 4 (counters 0 (Suc n))) else None,
      int (n div 4), int (n mod 4) + 1), enc_state 4 (counters 0 (Suc n)))"
    using TryEncode_state [of 4 "counters 0 n" "FormatUint (of_nat n)"] by (simp add: len counters_Suc)
  have "\<exists>y. generateParity (last_block 4 (counters 0 (Suc n))) = Some y" if "Suc n mod 4 = 0"
  proof -
    from that obtain r where r: "Suc n = 4 * r" by (auto simp: mod_eq_0_iff_dvd elim: dvdE)
    then obtain q where "r = Suc q" by (cases r) auto
    with r have "Suc n = 4 * q + 4" by simp
    then show ?thesis by (simp only: last_block_counters) (simp add: generateParity_def counters_def)
  qed
  then show "fst (publishNext (\<lambda>_. None) fcp) = (Inr (), data_object n #
      (if Suc n mod 4 = 0
       then [parity_object n (the (generateParity (last_block 4 (counters 0 (Suc n)))))] else []))"
    and "publisher_state (Suc n) (snd (publishNext (\<lambda>_. None) fcp))"
    using assms
    by (auto simp: publishNext_def publisher_state_def t Let_def data_object_def parity_object_def
        split: if_splits)
qed

text \<open>The subscriber gets three of the four datagrams of a block, in any order, and the parity.\<close>

lemma counter_block:
  assumes order: "visits_all order" and q: "q < 2 ^ 29"
    and start: "collecting (int q) Map.empty 0 4 fcs"
    and others: "distinct (j # is)" "set (j # is) = {0..<4}"
    and parity: "generateParity (counters (4 * q) (4 * q + 4)) = Some parity"
  defines "final \<equiv> processObject order (parity_object (4 * q + 3) parity)
    (process_all order (map (\<lambda>i. data_object (4 * q + i)) is) fcs)"
    and "x \<equiv> of_nat (4 * q + j)"
    and "width \<equiv> max_len (counters (4 * q) (4 * q + 4)) 0"
  shows "(length (FormatUint x) = width \<longrightarrow> fst final = Inr () \<and> fcs_lastReceived (snd final) = x \<and>
       fcs_recoveredCount (snd final) = fcs_recoveredCount fcs + 1) \<and>
    (length (FormatUint x) \<noteq> width \<longrightarrow> fst final = Inl (Fail (OtherError 3)))"
proof -
  let ?rs = "map (\<lambda>i. (int i + 1, of_nat (4 * q + i) :: uint64)) is"
  let ?all = "map (\<lambda>i. of_nat i :: uint64) [4 * q..<4 * q + 4]"
  have all: "map FormatUint ?all = counters (4 * q) (4 * q + 4)" by (simp add: counters_def)
  have b: "int32 (int q)" using q by (simp add: int32_def)
  have "length (j # is) = 4" using distinct_card [OF others(1)] others(2) by simp
  then have len: "length is = 3" by simp
  have lt: "i < 4" if "i \<in> set is" for i using that others(2) by auto
  have dist: "distinct (map fst ?rs)" using others(1) by (simp add: distinct_map inj_on_def comp_def)
  have obs: "list_all2 (\<lambda>(s, x) ob. carries (FormatUint x) (int q) s False ob \<and> int32 s) ?rs
      (map (\<lambda>i. data_object (4 * q + i)) is)"
    by (auto simp: list.rel_map carries_def data_object_def int32_def dest: lt intro!: list.rel_refl_strong)
  have c: "collecting (int q) (map_of (map (\<lambda>(s, x). (s, FormatUint x)) ?rs)) (length ?rs)
      (int (Suc (length ?rs))) (process_all order (map (\<lambda>i. data_object (4 * q + i)) is) fcs)"
    "fcs_recoveredCount (process_all order (map (\<lambda>i. data_object (4 * q + i)) is) fcs) = fcs_recoveredCount fcs"
    using process_block [OF start obs dist, of order] b len by simp_all
  have "mset (j # is) = mset [0..<4]"
    using others by (intro set_eq_iff_mset_eq_distinct [THEN iffD1]) auto
  then have "mset (map (\<lambda>i. of_nat (4 * q + i)) (j # is)) = mset (map (\<lambda>i. of_nat (4 * q + i) :: uint64) [0..<4])"
    by (simp only: mset_map)
  also have "map (\<lambda>i. of_nat (4 * q + i) :: uint64) [0..<4] = ?all"
    by (simp add: upt_conv_Cons numeral_eq_Suc)
  finally have m: "mset ?all = mset (x # map snd ?rs)" by (simp add: x_def comp_def)
  have p: "carries parity (int q) (-1) True (parity_object (4 * q + 3) parity)"
    by (simp add: carries_def parity_object_def)
  note processed = parity_processed [OF order b c(1) dist m parity [folded all] p, unfolded all c(2),
      folded final_def width_def]
  have "4 * q + j \<in> set [4 * q..<4 * q + 4]" using others(2) by auto
  then have "FormatUint x \<in> set (counters (4 * q) (4 * q + 4))"
    unfolding counters_def x_def set_map by (rule imageI)
  then have "length (FormatUint x) \<le> width" unfolding width_def by (rule max_len_ge)
  with processed padded_counter_fails [of "width - length (FormatUint x)" x] show ?thesis
    by (auto simp: counter_roundtrip)
qed

end
