(* ===== verification/Counter_App.thy ===== *)
theory Counter_App
  imports End_To_End Fec_Counter
begin

text \<open>
  The counter application (\<^verbatim>\<open>examples/counter\<close>): the handlers it gives to a session
  (\<^verbatim>\<open>main.go\<close>), the publisher that sends a counter in a datagram at each tick (\<^verbatim>\<open>publisher.go\<close>) and
  the subscriber that reads them (\<^verbatim>\<open>subscriber.go\<close>). The life of publisher and subscriber is a step
  relation between the goroutines that run \<^verbatim>\<open>Start\<close>, the receiving loop and whoever calls
  \<^verbatim>\<open>Stop\<close>; the same relation describes the subscriber of \<^verbatim>\<open>fec/xor/example\<close>, whose code differs
  only in what it does with an object. Logging, flags, certificates and dialling are left out.
\<close>

section \<open>Publisher\<close>

text \<open>
  The publisher sends through the response writer that accepted the subscription. \<open>cp_stopped\<close>
  says whether \<^verbatim>\<open>stopChan\<close> is closed.
\<close>

record CounterPublisher =
  cp_publisher :: SubscribeResponseWriter
  cp_sessionID :: uint64
  cp_requestID :: uint64
  cp_counter :: uint64
  cp_groupID :: uint64
  cp_isRunning :: bool
  cp_stopped :: bool

definition NewCounterPublisher :: "SubscribeResponseWriter \<Rightarrow> uint64 \<Rightarrow> uint64 \<Rightarrow> CounterPublisher" where
  "NewCounterPublisher publisher sessionID requestID =
     \<lparr>cp_publisher = publisher, cp_sessionID = sessionID, cp_requestID = requestID, cp_counter = 0,
      cp_groupID = 0, cp_isRunning = False, cp_stopped = False\<rparr>"

definition CounterPublisher_SendDatagram :: "Env \<Rightarrow> Object \<Rightarrow> (CounterPublisher \<times> Session, unit) st" where
  "CounterPublisher_SendDatagram env obj =
     (\<lambda>(cp, s). case SubscribeResponseWriter_SendDatagram env obj (cp_publisher cp, s) of
        (r, (w, s)) \<Rightarrow> (r, (cp\<lparr>cp_publisher := w\<rparr>, s)))"

definition CounterPublisher_OpenSubgroup ::
  "Env \<Rightarrow> uint64 \<Rightarrow> uint64 \<Rightarrow> byte \<Rightarrow> (CounterPublisher \<times> Session, Subgroup) st" where
  "CounterPublisher_OpenSubgroup env groupID subgroupID priority =
     (\<lambda>(cp, s). case SubscribeResponseWriter_OpenSubgroup env groupID subgroupID priority (cp_publisher cp, s) of
        (r, (w, s)) \<Rightarrow> (r, (cp\<lparr>cp_publisher := w\<rparr>, s)))"

text \<open>The error of a failed send is wrapped into another; the model keeps the cause.\<close>

definition CounterPublisher_publishNext :: "Env \<Rightarrow> (CounterPublisher \<times> Session, unit) st" where
  "CounterPublisher_publishNext env =
     (\<lambda>(cp, s).
       let currentCounter = cp_counter cp;
           currentGroupID = cp_groupID cp;
           cp = cp\<lparr>cp_counter := cp_counter cp + 1, cp_groupID := cp_groupID cp + 1\<rparr>;
           payload = FormatUint currentCounter;
           obj = \<lparr>obj_GroupID = currentGroupID, obj_ObjectID = 0,
                  obj_ForwardingPreference = ObjectForwardingPreferenceDatagram,
                  obj_SubGroupID = currentGroupID, obj_Payload = payload\<rparr>
       in CounterPublisher_SendDatagram env obj (cp, s))"

definition CounterPublisher_Stop :: "CounterPublisher \<Rightarrow> unit result \<times> CounterPublisher" where
  "CounterPublisher_Stop cp =
     (if \<not> cp_isRunning cp then (Inr (), cp)
      else if cp_stopped cp then (Inl Panic, cp\<lparr>cp_isRunning := False\<rparr>)
      else (Inr (), cp\<lparr>cp_isRunning := False, cp_stopped := True\<rparr>))"

definition CounterPublisher_CloseWithError ::
  "Env \<Rightarrow> uint64 \<Rightarrow> gostring \<Rightarrow> (CounterPublisher \<times> Session, unit) st" where
  "CounterPublisher_CloseWithError env code reason =
     (\<lambda>(cp, s). case CounterPublisher_Stop cp of
        (Inl e, cp) \<Rightarrow> (Inl e, (cp, s))
      | (Inr _, cp) \<Rightarrow>
          (case SubscribeResponseWriter_CloseWithError env code reason (cp_publisher cp, s) of
             (r, (w, s)) \<Rightarrow> (r, (cp\<lparr>cp_publisher := w\<rparr>, s))))"

definition GetCurrentCounter :: "CounterPublisher \<Rightarrow> uint64" where
  "GetCurrentCounter cp = cp_counter cp"

definition CounterPublisher_IsRunning :: "CounterPublisher \<Rightarrow> bool" where
  "CounterPublisher_IsRunning cp = cp_isRunning cp"

text \<open>
  \<^verbatim>\<open>Start\<close> up to its loop, and the loop as a function of the cases that its \<^verbatim>\<open>select\<close> takes:
  \<^term>\<open>None\<close> when it still runs after them, else what \<^verbatim>\<open>Start\<close> returns. The channel case is
  ready only when \<^verbatim>\<open>stopChan\<close> is closed; a case that is not ready is not taken.
\<close>

datatype publisher_select = ContextCase go_error | StopCase | TickCase

definition CounterPublisher_Start_begin :: "CounterPublisher \<Rightarrow> unit result \<times> CounterPublisher" where
  "CounterPublisher_Start_begin cp =
     (if cp_isRunning cp then (Inl (Fail (OtherError 5)), cp) else (Inr (), cp\<lparr>cp_isRunning := True\<rparr>))"

fun CounterPublisher_Start_loop ::
  "Env \<Rightarrow> publisher_select list \<Rightarrow> CounterPublisher \<times> Session \<Rightarrow> unit result option \<times> (CounterPublisher \<times> Session)" where
  "CounterPublisher_Start_loop env [] st = (None, st)"
| "CounterPublisher_Start_loop env (ContextCase e # cs) st = (Some (Inl (Fail e)), st)"
| "CounterPublisher_Start_loop env (StopCase # cs) st =
     (if cp_stopped (fst st) then (Some (Inr ()), st) else CounterPublisher_Start_loop env cs st)"
| "CounterPublisher_Start_loop env (TickCase # cs) st =
     (case CounterPublisher_publishNext env st of
        (Inl e, st) \<Rightarrow> (Some (Inl e), st)
      | (Inr _, st) \<Rightarrow> CounterPublisher_Start_loop env cs st)"

section \<open>Subscriber\<close>

record CounterSubscriber =
  cs_lastReceived :: uint64
  cs_totalReceived :: uint64

definition NewCounterSubscriber :: CounterSubscriber where
  "NewCounterSubscriber = \<lparr>cs_lastReceived = 0, cs_totalReceived = 0\<rparr>"

definition CounterSubscriber_parseCounterValue :: "bytes \<Rightarrow> uint64 result" where
  "CounterSubscriber_parseCounterValue payload =
     (if length payload = 0 then Inl (Fail (OtherError 4)) else ParseUint payload)"

definition CounterSubscriber_processObject :: "Object \<Rightarrow> CounterSubscriber \<Rightarrow> unit result \<times> CounterSubscriber" where
  "CounterSubscriber_processObject obj cs =
     (case CounterSubscriber_parseCounterValue (obj_Payload obj) of
        Inl e \<Rightarrow> (Inl e, cs)
      | Inr counterValue \<Rightarrow>
          (Inr (), cs\<lparr>cs_lastReceived := counterValue, cs_totalReceived := cs_totalReceived cs + 1\<rparr>))"

text \<open>
  The goroutines of a subscriber: those in a call of \<^verbatim>\<open>Start\<close>, which wait for the context or for
  \<^verbatim>\<open>stopChan\<close>, and the receiving loops they have started, which are at their \<^verbatim>\<open>select\<close>, in
  \<^verbatim>\<open>ReadObject\<close>, or at their end. \<^verbatim>\<open>Start\<close> can be called any number of times; a call that finds the
  subscriber running returns an error at once. The state of the concrete subscriber and its method
  \<^verbatim>\<open>processObject\<close> are parameters.
\<close>

datatype start_state = StartWaiting | StartReturned "go_error option"
datatype loop_state = LoopSelect | LoopReading | LoopEnded

record 'c subscriber =
  su_state :: 'c
  su_isRunning :: bool
  su_stopped :: bool
  su_starts :: "start_state list"
  su_loops :: "loop_state list"
  su_processed :: "Object list"

definition CounterSubscriber_GetLastReceived :: "CounterSubscriber subscriber \<Rightarrow> uint64" where
  "CounterSubscriber_GetLastReceived su = cs_lastReceived (su_state su)"

definition CounterSubscriber_GetTotalReceived :: "CounterSubscriber subscriber \<Rightarrow> uint64" where
  "CounterSubscriber_GetTotalReceived su = cs_totalReceived (su_state su)"

definition CounterSubscriber_IsRunning :: "CounterSubscriber subscriber \<Rightarrow> bool" where
  "CounterSubscriber_IsRunning su = su_isRunning su"

definition new_subscriber :: "'c \<Rightarrow> 'c subscriber" where
  "new_subscriber c = \<lparr>su_state = c, su_isRunning = False, su_stopped = False, su_starts = [],
     su_loops = [], su_processed = []\<rparr>"

definition Subscriber_Start :: "'c subscriber \<Rightarrow> 'c subscriber" where
  "Subscriber_Start su =
     (if su_isRunning su then su\<lparr>su_starts := su_starts su @ [StartReturned (Some (OtherError 5))]\<rparr>
      else su\<lparr>su_isRunning := True, su_starts := su_starts su @ [StartWaiting],
              su_loops := su_loops su @ [LoopSelect]\<rparr>)"

text \<open>Closing \<^verbatim>\<open>stopChan\<close> a second time panics; the result is then \<^term>\<open>None\<close>.\<close>

definition Subscriber_Stop :: "'c subscriber \<Rightarrow> 'c subscriber option" where
  "Subscriber_Stop su =
     (if \<not> su_isRunning su then Some su
      else if su_stopped su then None
      else Some (su\<lparr>su_isRunning := False, su_stopped := True\<rparr>))"

text \<open>The end of a loop, with its deferred function.\<close>

definition receiveLoop_end :: "nat \<Rightarrow> 'c subscriber \<Rightarrow> 'c subscriber" where
  "receiveLoop_end j su = su\<lparr>su_loops := (su_loops su)[j := LoopEnded], su_isRunning := False\<rparr>"

text \<open>
  What follows \<^verbatim>\<open>ReadObject\<close> in a loop: an error ends the loop, whatever came with it; without object
  and error \<^verbatim>\<open>processObject\<close> would panic.
\<close>

definition receiveLoop_read ::
  "(Object \<Rightarrow> 'c \<Rightarrow> unit result \<times> 'c) \<Rightarrow> nat \<Rightarrow> Object option \<times> go_error option \<Rightarrow> 'c subscriber \<Rightarrow> 'c subscriber option" where
  "receiveLoop_read process j res su =
     (case res of
        (_, Some e) \<Rightarrow> Some (receiveLoop_end j su)
      | (Some obj, None) \<Rightarrow>
          Some (su\<lparr>su_state := snd (process obj (su_state su)), su_loops := (su_loops su)[j := LoopSelect],
                   su_processed := su_processed su @ [obj]\<rparr>)
      | (None, None) \<Rightarrow> None)"

text \<open>The calls of \<^verbatim>\<open>Start\<close> have one context, which is either never done or done with an error.\<close>

inductive subscriber_step ::
  "(Object \<Rightarrow> 'c \<Rightarrow> unit result \<times> 'c) \<Rightarrow> go_error option \<Rightarrow> 'c subscriber \<Rightarrow> 'c subscriber \<Rightarrow> bool"
  for process ctx where
  start: "subscriber_step process ctx su (Subscriber_Start su)"
| start_context: "i < length (su_starts su) \<Longrightarrow> su_starts su ! i = StartWaiting \<Longrightarrow> ctx = Some e \<Longrightarrow>
    subscriber_step process ctx su (su\<lparr>su_starts := (su_starts su)[i := StartReturned (Some e)]\<rparr>)"
| start_stopped: "i < length (su_starts su) \<Longrightarrow> su_starts su ! i = StartWaiting \<Longrightarrow> su_stopped su \<Longrightarrow>
    subscriber_step process ctx su (su\<lparr>su_starts := (su_starts su)[i := StartReturned None]\<rparr>)"
| loop_done: "j < length (su_loops su) \<Longrightarrow> su_loops su ! j = LoopSelect \<Longrightarrow> ctx \<noteq> None \<or> su_stopped su \<Longrightarrow>
    subscriber_step process ctx su (receiveLoop_end j su)"
| loop_default: "j < length (su_loops su) \<Longrightarrow> su_loops su ! j = LoopSelect \<Longrightarrow> ctx = None \<Longrightarrow> \<not> su_stopped su \<Longrightarrow>
    subscriber_step process ctx su (su\<lparr>su_loops := (su_loops su)[j := LoopReading]\<rparr>)"
| loop_read: "j < length (su_loops su) \<Longrightarrow> su_loops su ! j = LoopReading \<Longrightarrow>
    receiveLoop_read process j res su = Some su' \<Longrightarrow> subscriber_step process ctx su su'"
| stop: "Subscriber_Stop su = Some su' \<Longrightarrow> subscriber_step process ctx su su'"

inductive_cases subscriber_stepE: "subscriber_step process ctx su su'"

definition CounterSubscriber_step :: "go_error option \<Rightarrow> CounterSubscriber subscriber \<Rightarrow> CounterSubscriber subscriber \<Rightarrow> bool" where
  "CounterSubscriber_step = subscriber_step CounterSubscriber_processObject"

definition XORCounterSubscriber_step :: "(int set \<Rightarrow> int list) \<Rightarrow> go_error option \<Rightarrow>
    XORCounterSubscriber subscriber \<Rightarrow> XORCounterSubscriber subscriber \<Rightarrow> bool" where
  "XORCounterSubscriber_step order = subscriber_step (processObject order)"

lemmas subscriber_defs = Subscriber_Start_def Subscriber_Stop_def receiveLoop_end_def receiveLoop_read_def

section \<open>Handlers\<close>

fun tupleEqual_loop :: "gostring list \<Rightarrow> gostring list \<Rightarrow> bool result" where
  "tupleEqual_loop [] b = Inr True"
| "tupleEqual_loop (t # a) b =
     bindR (index_at b 0) (\<lambda>u. if t \<noteq> u then Inr False else tupleEqual_loop a (drop 1 b))"

definition tupleEqual :: "gostring list \<Rightarrow> gostring list \<Rightarrow> bool result" where
  "tupleEqual a b = (if length a \<noteq> length b then Inr False else tupleEqual_loop a b)"

lemma tupleEqual_loop_eq: "length a = length b \<Longrightarrow> tupleEqual_loop a b = Inr (a = b)"
  by (induction a b rule: list_induct2) auto

text \<open>The loop never reads beyond the second slice.\<close>

lemma tupleEqual_eq: "tupleEqual a b = Inr (a = b)"
  by (auto simp: tupleEqual_def tupleEqual_loop_eq)

record counterHandler =
  ch_namespace :: Tuple
  ch_trackname :: gostring
  ch_publish :: bool
  ch_subscribe :: bool
  ch_nextSessionID :: uint64
  ch_publishers :: "CounterPublisher list"

definition getHandler :: "counterHandler \<Rightarrow> Message \<Rightarrow> rw_call script" where
  "getHandler h r =
     (if msg_Method r = MessageAnnounce
      then if \<not> ch_subscribe h
           then Call (Reject 0 (ascii ''counter doesn't take announcements'')) (\<lambda>_. Done)
           else if tupleEqual (msg_Namespace r) (ch_namespace h) \<noteq> Inr True
           then Call (Reject 0 (ascii ''non-matching namespace'')) (\<lambda>_. Done)
           else Call Accept (\<lambda>_. Done)
      else Done)"

definition getSubscribeHandler :: "counterHandler \<Rightarrow> AppSubscribeMessage \<Rightarrow> srw_call script" where
  "getSubscribeHandler h m =
     (if \<not> ch_publish h
      then Call (SubscribeReject ErrorCodeSubscribeTrackDoesNotExist (ascii ''endpoint does not publish any tracks''))
             (\<lambda>_. Done)
      else if tupleEqual (asm_Namespace m) (ch_namespace h) \<noteq> Inr True \<or> asm_Track m \<noteq> ch_trackname h
      then Call (SubscribeReject ErrorCodeSubscribeTrackDoesNotExist (ascii ''unknown track'')) (\<lambda>_. Done)
      else Call (SubscribeAccept []) (\<lambda>_. Done))"

text \<open>After the subscription is accepted, a publisher is registered and its \<^verbatim>\<open>Start\<close> runs.\<close>

definition getSubscribeHandler_accepted ::
  "uint64 \<Rightarrow> SubscribeResponseWriter \<Rightarrow> AppSubscribeMessage \<Rightarrow> counterHandler \<Rightarrow> CounterPublisher \<times> counterHandler" where
  "getSubscribeHandler_accepted sessionID w m h =
     (let counterPublisher = NewCounterPublisher w sessionID (asm_RequestID m)
      in (snd (CounterPublisher_Start_begin counterPublisher),
          h\<lparr>ch_publishers := ch_publishers h @ [counterPublisher]\<rparr>))"

text \<open>The session that \<^verbatim>\<open>handle\<close> runs has these handlers and an initial limit of 100 requests.\<close>

definition handle_env :: "counterHandler \<Rightarrow> Env \<Rightarrow> Env" where
  "handle_env h env = env\<lparr>env_Handler := Some (getHandler h), env_SubscribeHandler := Some (getSubscribeHandler h)\<rparr>"

definition handle_Run :: "Env \<Rightarrow> Connection \<Rightarrow> counterHandler \<Rightarrow> (unit result \<times> Session) \<times> counterHandler" where
  "handle_Run env conn h =
     (let h = h\<lparr>ch_nextSessionID := ch_nextSessionID h + 1\<rparr> in (Session_Run (handle_env h env) 100 conn, h))"

text \<open>
  The rest of \<^verbatim>\<open>handle\<close>, up to the point where it waits for the response to the announcement, and
  from there up to the one where it waits for the response to the subscription. An announcement
  that fails is only logged.
\<close>

definition handle_announce :: "Env \<Rightarrow> counterHandler \<Rightarrow> (Session, ref option) st" where
  "handle_announce env h s =
     (if ch_publish h
      then (case Announce_send (handle_env h env) (ch_namespace h) s of
              (Inl Panic, s) \<Rightarrow> (Inl Panic, s)
            | (Inl (Fail e), s) \<Rightarrow> (Inr None, s)
            | (Inr ch, s) \<Rightarrow> (Inr (Some ch), s))
      else (Inr None, s))"

definition handle_subscribe :: "Env \<Rightarrow> counterHandler \<Rightarrow> (Session, ref option) st" where
  "handle_subscribe env h =
     (if ch_subscribe h
      then bindS (Subscribe_send (handle_env h env) (ch_namespace h) (ch_trackname h) []) (\<lambda>rs. returnS (Some rs))
      else returnS None)"

definition subscribeAndRead :: "wait_case \<Rightarrow> ref \<Rightarrow> Session \<Rightarrow> ((ref \<times> CounterSubscriber subscriber) result \<times> Session) option" where
  "subscribeAndRead w rt s =
     (case Subscribe_wait w rt s of
        None \<Rightarrow> None
      | Some (Inl e, s) \<Rightarrow> Some (Inl e, s)
      | Some (Inr rs, s) \<Rightarrow> Some (Inr (rs, Subscriber_Start (new_subscriber NewCounterSubscriber)), s))"

lemma handle_accepts:
  "ch_publish h \<Longrightarrow> accepts (handle_env h env) (ch_namespace h) (ch_trackname h)"
  by (simp add: accepts_with_def handle_env_def getSubscribeHandler_def tupleEqual_eq)

lemma handle_accepts_iff:
  "accepts (handle_env h env) (ch_namespace h) (ch_trackname h) \<longleftrightarrow> ch_publish h"
proof
  let ?m = "(undefined :: AppSubscribeMessage)\<lparr>asm_Namespace := ch_namespace h, asm_Track := ch_trackname h\<rparr>"
  assume "accepts (handle_env h env) (ch_namespace h) (ch_trackname h)"
  then have "getSubscribeHandler h ?m = Call (SubscribeAccept []) (\<lambda>_. Done)"
    by (simp add: accepts_with_def handle_env_def)
  then show "ch_publish h" by (simp add: getSubscribeHandler_def split: if_splits)
qed (rule handle_accepts)

section \<open>Stopping a subscriber\<close>

text \<open>After a stop each loop finishes at most the object it is waiting for.\<close>

definition reading_loops :: "'c subscriber \<Rightarrow> nat" where
  "reading_loops su = count_list (su_loops su) LoopReading"

lemma count_list_update:
  "j < length xs \<Longrightarrow>
     count_list (xs[j := y]) x + (if xs ! j = x then 1 else 0) = count_list xs x + (if y = x then 1 else 0)"
proof (induction xs arbitrary: j)
  case (Cons a xs)
  show ?case
  proof (cases j)
    case (Suc k)
    with Cons.prems Cons.IH [of k] show ?thesis by (auto split: if_splits)
  qed simp
qed simp

lemma stopped_step:
  assumes "subscriber_step process ctx su su'" "su_stopped su"
  shows "su_stopped su' \<and> length (su_processed su') + reading_loops su' \<le> length (su_processed su) + reading_loops su"
  using assms
proof cases
  case (loop_done j)
  then show ?thesis
    using assms(2) count_list_update [of j "su_loops su" LoopEnded LoopReading]
    by (simp add: reading_loops_def subscriber_defs)
next
  case (loop_read j res)
  then show ?thesis
    using assms(2) count_list_update [of j "su_loops su" LoopEnded LoopReading]
      count_list_update [of j "su_loops su" LoopSelect LoopReading]
    by (auto simp: reading_loops_def subscriber_defs split: prod.splits option.splits)
qed (auto simp: reading_loops_def subscriber_defs split: if_splits)

lemma stopped_processes_one:
  assumes "(subscriber_step process ctx)\<^sup>*\<^sup>* su su'" "su_stopped su"
  shows "length (su_processed su') \<le> length (su_processed su) + reading_loops su"
proof -
  have "su_stopped su' \<and> length (su_processed su') + reading_loops su' \<le> length (su_processed su) + reading_loops su"
    using assms(1) by (induction rule: rtranclp_induct) (use assms(2) stopped_step in fastforce)+
  then show ?thesis by simp
qed

text \<open>
  When the last loop has ended by itself, because the track is done, \<^verbatim>\<open>Stop\<close> does nothing: the
  goroutine in \<^verbatim>\<open>Start\<close> waits for a channel that nobody closes, as long as nobody calls \<^verbatim>\<open>Start\<close>
  again. Every call of \<^verbatim>\<open>Start\<close> adds to the list of calls.
\<close>

definition abandoned :: "'c subscriber \<Rightarrow> bool" where
  "abandoned su \<longleftrightarrow> set (su_loops su) \<subseteq> {LoopEnded} \<and> \<not> su_isRunning su \<and> \<not> su_stopped su"

lemma calls_grow: "subscriber_step process ctx su su' \<Longrightarrow> length (su_starts su) \<le> length (su_starts su')"
  by (erule subscriber_stepE) (auto simp: subscriber_defs split: if_splits prod.splits option.splits)

lemma abandoned_step:
  assumes "subscriber_step process None su su'" "abandoned su" "length (su_starts su') = length (su_starts su)"
  shows "abandoned su' \<and> su_starts su' = su_starts su"
proof -
  have "su_loops su ! j = LoopEnded" if "j < length (su_loops su)" for j
    using assms(2) nth_mem [OF that] by (auto simp: abandoned_def)
  with assms show ?thesis
    by (elim subscriber_stepE) (auto simp: abandoned_def subscriber_defs split: if_splits)
qed

lemma abandoned_forever:
  assumes "(subscriber_step process None)\<^sup>*\<^sup>* su su'" "abandoned su" "length (su_starts su') = length (su_starts su)"
  shows "su_starts su' = su_starts su"
proof -
  have "length (su_starts su) \<le> length (su_starts su') \<and>
      (length (su_starts su') = length (su_starts su) \<longrightarrow> abandoned su' \<and> su_starts su' = su_starts su)"
    using assms(1)
  proof (induction rule: rtranclp_induct)
    case (step y z)
    then show ?case using calls_grow [OF step.hyps(2)] abandoned_step [OF step.hyps(2)] by auto
  qed (simp add: assms(2))
  with assms(3) show ?thesis by blast
qed

text \<open>Another call of \<^verbatim>\<open>Start\<close> followed by \<^verbatim>\<open>Stop\<close> releases both calls.\<close>

lemma abandoned_released:
  assumes "abandoned su" "i < length (su_starts su)" "su_starts su ! i = StartWaiting"
  shows "\<exists>u. (subscriber_step process None)\<^sup>*\<^sup>* su u \<and> su_starts u ! i = StartReturned None"
proof -
  let ?u1 = "Subscriber_Start su"
  let ?u2 = "?u1\<lparr>su_isRunning := False, su_stopped := True\<rparr>"
  have u1: "su_isRunning ?u1" "\<not> su_stopped ?u1" "i < length (su_starts ?u1)" "su_starts ?u1 ! i = StartWaiting"
    using assms by (simp_all add: abandoned_def Subscriber_Start_def nth_append)
  then have "Subscriber_Stop ?u1 = Some ?u2" by (simp add: Subscriber_Stop_def)
  then have "subscriber_step process None ?u1 ?u2" by (rule subscriber_step.stop)
  have "subscriber_step process None su ?u1" by (rule subscriber_step.start)
  define u3 where "u3 = ?u2\<lparr>su_starts := (su_starts ?u2)[i := StartReturned None]\<rparr>"
  have "subscriber_step process None ?u2 u3"
    unfolding u3_def by (rule subscriber_step.start_stopped) (use u1 in simp_all)
  with \<open>subscriber_step process None ?u1 ?u2\<close> \<open>subscriber_step process None su ?u1\<close>
  have "(subscriber_step process None)\<^sup>*\<^sup>* su u3"
    by (blast intro: converse_rtranclp_into_rtranclp)
  moreover have "su_starts u3 ! i = StartReturned None" using u1(3) by (simp add: u3_def)
  ultimately show ?thesis by blast
qed

lemma track_done_abandons:
  assumes "set (take j (su_loops su) @ drop (Suc j) (su_loops su)) \<subseteq> {LoopEnded}" and "j < length (su_loops su)"
    and "\<not> su_stopped su" and "receiveLoop_read process j (obj, Some e) su = Some su'"
  shows "abandoned su' \<and> su_starts su' = su_starts su"
  using assms
  by (cases obj) (auto simp: abandoned_def receiveLoop_read_def receiveLoop_end_def upd_conv_take_nth_drop)

text \<open>A publisher that is started again after a stop returns at once, and a second stop panics.\<close>

lemma second_stop_panics:
  assumes "cp_isRunning cp" "\<not> cp_stopped cp" "CounterPublisher_Stop cp = (r, cp1)"
    and "CounterPublisher_Start_begin cp1 = (r', cp2)"
  shows "r = Inr ()" "r' = Inr ()" "fst (CounterPublisher_Stop cp2) = Inl Panic"
  using assms by (auto simp: CounterPublisher_Stop_def CounterPublisher_Start_begin_def)

section \<open>From publisher to subscriber\<close>

definition counter_object :: "nat \<Rightarrow> Object" where
  "counter_object n = \<lparr>obj_GroupID = of_nat n, obj_ObjectID = 0,
     obj_ForwardingPreference = ObjectForwardingPreferenceDatagram, obj_SubGroupID = of_nat n,
     obj_Payload = FormatUint (of_nat n)\<rparr>"

text \<open>The bytes of the datagram for an object, by the grammar of datagrams.\<close>

definition datagram_of :: "uint64 \<Rightarrow> Object \<Rightarrow> ObjectDatagramMessage" where
  "datagram_of a ob = \<lparr>odm_TrackAlias = a, odm_GroupID = obj_GroupID ob, odm_ObjectID = obj_ObjectID ob,
     odm_PublisherPriority = 0, odm_ObjectExtensionHeaders = None, odm_ObjectPayload = obj_Payload ob,
     odm_ObjectStatus = 0\<rparr>"

definition datagram_bytes :: "quicvarint \<Rightarrow> uint64 \<Rightarrow> Object \<Rightarrow> bytes" where
  "datagram_bytes qv a ob = enc_datagram_head qv objectTypeDatagram (datagram_of a ob) @ obj_Payload ob"

text \<open>
  One datagram at the client: it arrives at the session, \<^verbatim>\<open>ReadObject\<close> hands its object to the
  receiving loop, which processes it. \<^term>\<open>None\<close> when one of them does not return an object.
\<close>

definition receive_datagram ::
  "Env \<Rightarrow> (Object \<Rightarrow> 'c \<Rightarrow> unit result \<times> 'c) \<Rightarrow> ref \<Rightarrow> bytes \<Rightarrow> Session \<times> 'c \<Rightarrow> (Session \<times> 'c) option" where
  "receive_datagram env process rt dgram = (\<lambda>(s, c).
     (case readDatagrams_datagram env dgram s of
        Some (Inr _, s) \<Rightarrow>
          (case ReadObject FromBuffer (ses_rt s rt) of
             Some ((Some obj, None), t) \<Rightarrow>
               Some (s\<lparr>ses_rt := (ses_rt s)(rt := t)\<rparr>, snd (process obj c))
           | _ \<Rightarrow> None)
      | _ \<Rightarrow> None))"

fun receive_datagrams ::
  "Env \<Rightarrow> (Object \<Rightarrow> 'c \<Rightarrow> unit result \<times> 'c) \<Rightarrow> ref \<Rightarrow> bytes list \<Rightarrow> Session \<times> 'c \<Rightarrow> (Session \<times> 'c) option" where
  "receive_datagrams env process rt [] st = Some st"
| "receive_datagrams env process rt (d # ds) st =
     Option.bind (receive_datagram env process rt d st) (receive_datagrams env process rt ds)"

text \<open>A track without buffered objects that is known by its alias.\<close>

definition reading :: "Session \<Rightarrow> uint64 \<Rightarrow> ref \<Rightarrow> bool" where
  "reading s a rt \<longleftrightarrow> remoteTrackMap_findByTrackAlias (ses_remoteTracks s) a = Some rt \<and>
     rt_buffer (ses_rt s rt) = [] \<and> rt_done (ses_rt s rt) = None"

text \<open>A subscriber that looks only at the payload of an object.\<close>

definition by_payload :: "(Object \<Rightarrow> 'c \<Rightarrow> unit result \<times> 'c) \<Rightarrow> bool" where
  "by_payload process \<longleftrightarrow> (\<forall>ob ob' c. obj_Payload ob = obj_Payload ob' \<longrightarrow> process ob c = process ob' c)"

definition publishing :: "nat \<Rightarrow> CounterPublisher \<Rightarrow> bool" where
  "publishing n cp \<longleftrightarrow> cp_counter cp = of_nat n \<and> cp_groupID cp = of_nat n"

lemma publishing_new: "publishing 0 (NewCounterPublisher w sid rid)"
  by (simp add: publishing_def NewCounterPublisher_def)

text \<open>What a subscriber has after the first \<open>n\<close> counters.\<close>

definition received_counters :: "nat \<Rightarrow> CounterSubscriber \<Rightarrow> CounterSubscriber" where
  "received_counters n cs =
     (if n = 0 then cs
      else cs\<lparr>cs_lastReceived := of_nat (n - 1), cs_totalReceived := cs_totalReceived cs + of_nat n\<rparr>)"

lemma by_payload_counter: "by_payload CounterSubscriber_processObject"
  by (simp add: by_payload_def CounterSubscriber_processObject_def)

lemma counters_processed:
  "foldl (\<lambda>cs ob. snd (CounterSubscriber_processObject ob cs)) cs (map counter_object [0..<n]) =
     received_counters n cs"
proof (induction n)
  case (Suc n)
  have "CounterSubscriber_parseCounterValue (FormatUint (of_nat n)) = Inr (of_nat n)"
    using counter_roundtrip by (simp add: CounterSubscriber_parseCounterValue_def parseCounterValue_def)
  with Suc show ?case
    by (simp add: CounterSubscriber_processObject_def counter_object_def received_counters_def algebra_simps)
qed (simp add: received_counters_def)

context varint_codec
begin

lemma writer_sends:
  assumes "reliable qv env" and "wf_datagram (datagram_of a ob)"
    and "lt_done (ses_lt s (srw_localTrack w)) = None" and "lt_trackAlias (ses_lt s (srw_localTrack w)) = a"
  shows "\<exists>s'. SubscribeResponseWriter_SendDatagram env ob (w, s) = (Inr (), (w, s')) \<and> ses_lt s' = ses_lt s \<and>
    cn_datagrams (ses_conn s') = cn_datagrams (ses_conn s) @ [datagram_bytes qv a ob]"
proof -
  have "AppendDatagram qv (datagram_of a ob) [] = Inr (datagram_bytes qv a ob)"
    using AppendDatagram_enc [OF assms(2), of "[]"] by (simp add: datagram_bytes_def datagram_of_def)
  then show ?thesis
    using assms(1,3,4)
    by (simp add: reliable_def SubscribeResponseWriter_SendDatagram_def on_session_def on_track_def
        localTrack_sendDatagram_def localTrack_closed_def on_conn_def SendDatagram_def net_op_def effects
        datagram_of_def)
qed

lemma publishNext_sends:
  assumes rel: "reliable qv env" and cp: "publishing n cp" and n: "n \<le> maxVarInt"
    and lt: "lt_done (ses_lt s (srw_localTrack (cp_publisher cp))) = None"
    and a: "lt_trackAlias (ses_lt s (srw_localTrack (cp_publisher cp))) = a" "fits a"
  shows "\<exists>cp' s'. CounterPublisher_publishNext env (cp, s) = (Inr (), (cp', s')) \<and> publishing (Suc n) cp' \<and>
    cp_publisher cp' = cp_publisher cp \<and> ses_lt s' = ses_lt s \<and>
    cn_datagrams (ses_conn s') = cn_datagrams (ses_conn s) @ [datagram_bytes qv a (counter_object n)]"
proof -
  have "wf_datagram (datagram_of a (counter_object n))"
    using a(2) n by (simp add: wf_datagram_def datagram_of_def counter_object_def)
  from writer_sends [OF rel this lt a(1)] show ?thesis
    using cp
    by (auto simp: CounterPublisher_publishNext_def CounterPublisher_SendDatagram_def publishing_def
        counter_object_def Let_def add.commute)
qed

lemma ticks_publish:
  assumes rel: "reliable qv env" and "publishing n cp" and "n + k \<le> maxVarInt + 1"
    and "lt_done (ses_lt s (srw_localTrack (cp_publisher cp))) = None"
    and "lt_trackAlias (ses_lt s (srw_localTrack (cp_publisher cp))) = a" and "fits a"
  shows "\<exists>cp' s'. CounterPublisher_Start_loop env (replicate k TickCase) (cp, s) = (None, (cp', s')) \<and>
    publishing (n + k) cp' \<and>
    cn_datagrams (ses_conn s') =
      cn_datagrams (ses_conn s) @ map (\<lambda>i. datagram_bytes qv a (counter_object i)) [n..<n + k]"
  using assms(2-5)
proof (induction k arbitrary: n cp s)
  case (Suc k)
  then have "n \<le> maxVarInt" by simp
  from publishNext_sends [OF rel Suc.prems(1) this Suc.prems(3,4) assms(6)]
  obtain cp1 s1 where step: "CounterPublisher_publishNext env (cp, s) = (Inr (), (cp1, s1))"
    "publishing (Suc n) cp1" "cp_publisher cp1 = cp_publisher cp" "ses_lt s1 = ses_lt s"
    "cn_datagrams (ses_conn s1) = cn_datagrams (ses_conn s) @ [datagram_bytes qv a (counter_object n)]" by blast
  have "[n..<n + Suc k] = n # [Suc n..<Suc n + k]"
    by (simp add: upt_conv_Cons del: upt_Suc)
  with Suc.IH [of "Suc n" cp1 s1] step Suc.prems show ?case
    by (simp del: upt_Suc)
qed simp

text \<open>Datagrams of a publisher at a subscribed session, from the network to the application.\<close>

lemma datagram_received:
  assumes "env_qv env = qv" and "by_payload process" and "wf_datagram (datagram_of a ob)" and "reading s a rt"
  shows "\<exists>s'. receive_datagram env process rt (datagram_bytes qv a ob) (s, c) =
      Some (s', snd (process ob c)) \<and> reading s' a rt"
proof -
  let ?m = "datagram_of a ob"
  let ?ob = "\<lparr>obj_GroupID = odm_GroupID ?m, obj_ObjectID = odm_ObjectID ?m,
       obj_ForwardingPreference = ObjectForwardingPreferenceDatagram, obj_SubGroupID = 0,
       obj_Payload = odm_ObjectPayload ?m\<rparr>"
  have "datagram_bytes qv a ob = enc_datagram_head qv objectTypeDatagram ?m @ odm_ObjectPayload ?m"
    by (simp add: datagram_bytes_def datagram_of_def)
  moreover have "odm_ObjectExtensionHeaders ?m = None" "odm_TrackAlias ?m = a" by (simp_all add: datagram_of_def)
  moreover have "obj_Payload ?ob = obj_Payload ob" by (simp add: datagram_of_def)
  with assms(2) have "process ?ob c = process ob c" unfolding by_payload_def by blast
  ultimately show ?thesis
    using datagram_delivers [OF assms(1,3), of s rt] assms(4)
    by (simp add: receive_datagram_def reading_def ReadObject_def RemoteTrack_push_def try_send_def buffer_capacity_def)
qed

lemma datagrams_received:
  assumes "env_qv env = qv" and "by_payload process"
    and "\<And>ob. ob \<in> set obs \<Longrightarrow> wf_datagram (datagram_of a ob)" and "reading s a rt"
  shows "\<exists>s'. receive_datagrams env process rt (map (datagram_bytes qv a) obs) (s, c) =
      Some (s', foldl (\<lambda>c ob. snd (process ob c)) c obs) \<and> reading s' a rt"
  using assms(3,4)
proof (induction obs arbitrary: s c)
  case (Cons ob obs)
  then obtain s1 where "receive_datagram env process rt (datagram_bytes qv a ob) (s, c) =
      Some (s1, snd (process ob c))" "reading s1 a rt"
    using datagram_received [OF assms(1,2), of a ob s rt c] by auto
  with Cons.IH [of s1 "snd (process ob c)"] Cons.prems(1) show ?case by simp
qed simp

lemma counters_received:
  assumes "env_qv env = qv" and "fits a" and "n \<le> maxVarInt + 1" and "reading s a rt"
  shows "\<exists>s'. receive_datagrams env CounterSubscriber_processObject rt
      (map (\<lambda>i. datagram_bytes qv a (counter_object i)) [0..<n]) (s, cs) =
      Some (s', received_counters n cs) \<and> reading s' a rt"
proof -
  have "wf_datagram (datagram_of a ob)" if "ob \<in> set (map counter_object [0..<n])" for ob
    using that assms(2,3) by (auto simp: wf_datagram_def datagram_of_def counter_object_def)
  from datagrams_received [OF assms(1) by_payload_counter this assms(4), of "map counter_object [0..<n]" cs]
  show ?thesis by (simp only: counters_processed map_map o_def)
qed

text \<open>A publisher with an open track, and a subscriber that reads from the track with its alias.\<close>

lemma publisher_delivers:
  assumes "reliable qv env" and "env_qv envc = qv" and "publishing 0 cp" and "cp_publisher cp = w"
    and "lt_done (ses_lt s (srw_localTrack w)) = None" and "lt_trackAlias (ses_lt s (srw_localTrack w)) = a"
    and "reading c a rt" and "fits a" and "n \<le> maxVarInt"
  shows "\<exists>cp' s2 ds c4. CounterPublisher_Start_loop env (replicate n TickCase) (cp, s) = (None, (cp', s2)) \<and>
    cn_datagrams (ses_conn s2) = cn_datagrams (ses_conn s) @ ds \<and> length ds = n \<and>
    receive_datagrams envc CounterSubscriber_processObject rt ds (c, cs) = Some (c4, received_counters n cs)"
proof -
  let ?ds = "map (\<lambda>i. datagram_bytes qv a (counter_object i)) [0..<n]"
  from ticks_publish [OF assms(1,3), of n s a] assms(4-6,8,9)
  obtain cp' s2 where "CounterPublisher_Start_loop env (replicate n TickCase) (cp, s) = (None, (cp', s2))"
    "cn_datagrams (ses_conn s2) = cn_datagrams (ses_conn s) @ ?ds" by auto
  moreover obtain c4 where
    "receive_datagrams envc CounterSubscriber_processObject rt ?ds (c, cs) = Some (c4, received_counters n cs)"
    using counters_received [OF assms(2,8) _ assms(7), of n cs] assms(9) by auto
  ultimately show ?thesis by (intro exI [where x = cp'] exI [where x = s2] exI [where x = ?ds] exI [where x = c4]) simp
qed

text \<open>
  The whole application over a network without failures: the client subscribes to the first track
  of a server that publishes, and every counter that the publisher sends at a tick reaches the
  subscriber.
\<close>

lemma application_delivers:
  assumes "reliable qv envc" and "reliable qv env" and "ch_publish h" and "seq_last (ses_trackAliases s) = 0"
    and "n \<le> maxVarInt"
    and "inv_session c" and "rg_id (ses_requestIDs c) = k" and "k < rg_max (ses_requestIDs c)"
    and "wire_ok qv (Subscribe (subscribe_message k (ch_namespace h) (ch_trackname h) options))"
    and "\<not> bad_namespace (ch_namespace h)"
    and "rtm_trackAliasToRequestID (ses_remoteTracks c) 0 = None"
    and "ses_handshakeDone c" and "ses_handshakeDone s"
    and "k < ses_localMaxRequestID s" and "fits (2 * ses_localMaxRequestID s)"
    and "ltm_pending (ses_localTracks s) k = None" and "ltm_open (ses_localTracks s) k = None"
  shows "\<exists>rt lt c' s' c''. Subscribe_send envc (ch_namespace h) (ch_trackname h) options c = (Inr rt, c') \<and>
    receive (handle_env h env) (Subscribe (subscribe_message k (ch_namespace h) (ch_trackname h) options)) s = (Inr (), s') \<and>
    receive envc (SubscribeOk (subscribe_ok_message k)) c' = (Inr (), c'') \<and>
    (\<forall>w sid cs. srw_localTrack w = lt \<longrightarrow>
      (\<exists>cp s2 ds c4. CounterPublisher_Start_loop (handle_env h env) (replicate n TickCase)
          (NewCounterPublisher w sid k, s') = (None, (cp, s2)) \<and>
        cn_datagrams (ses_conn s2) = cn_datagrams (ses_conn s') @ ds \<and> length ds = n \<and>
        receive_datagrams envc CounterSubscriber_processObject rt ds (c'', cs) = Some (c4, received_counters n cs)))"
proof -
  have rel: "reliable qv (handle_env h env)" "env_qv envc = qv"
    using assms(1,2) by (simp_all add: reliable_def handle_env_def)
  have fits: "fits k" using assms(9) by (simp add: wire_ok_def wf_Subscribe_def subscribe_message_def Let_def)
  obtain rt lt c' s' c'' where sub:
    "Subscribe_send envc (ch_namespace h) (ch_trackname h) options c = (Inr rt, c')"
    "receive (handle_env h env) (Subscribe (subscribe_message k (ch_namespace h) (ch_trackname h) options)) s = (Inr (), s')"
    "lt_done (ses_lt s' lt) = None" "lt_trackAlias (ses_lt s' lt) = 0"
    "receive envc (SubscribeOk (subscribe_ok_message k)) c' = (Inr (), c'')" and rd: "reading c'' 0 rt"
    using subscription [OF assms(1) rel(1) handle_accepts [OF assms(3)] wire_ok_subscribe_ok [OF fits, folded subscribe_ok_message_def] assms(6-17)] assms(4)
    unfolding reading_def by auto
  have "\<exists>cp s2 ds c4. CounterPublisher_Start_loop (handle_env h env) (replicate n TickCase)
        (NewCounterPublisher w sid k, s') = (None, (cp, s2)) \<and>
      cn_datagrams (ses_conn s2) = cn_datagrams (ses_conn s') @ ds \<and> length ds = n \<and>
      receive_datagrams envc CounterSubscriber_processObject rt ds (c'', cs) = Some (c4, received_counters n cs)"
    if w: "srw_localTrack w = lt" for w sid cs
    by (rule publisher_delivers [where w = w, OF rel publishing_new _ _ _ rd]) (simp_all add: NewCounterPublisher_def w sub(3,4) assms(5))
  with sub(1,2,5) show ?thesis by blast
qed

end

end
