(* ===== verification/Fec_App.thy ===== *)
theory Fec_App
  imports Counter_App
begin

text \<open>
  The application of \<^verbatim>\<open>fec/xor/example\<close> over sessions: the handlers it gives to a session
  (\<^verbatim>\<open>main.go\<close>) and the publisher with the response writer it sends through (\<^verbatim>\<open>publisher.go\<close>). The
  encoder, the metadata and the subscriber are those of the theory \<^verbatim>\<open>Fec_Counter\<close>, \<^verbatim>\<open>tupleEqual\<close> and
  the life of a subscriber are the same code as in \<^verbatim>\<open>examples/counter\<close>. The lemmas lead from the
  ticks of the publisher through datagrams, the session of the client and its remote track to the
  decoder of the subscriber, with one datagram of a block lost on the way. Logging, flags,
  certificates and dialling are left out.
\<close>

section \<open>The publisher\<close>

text \<open>A publisher is the response writer it sends through and its own state.\<close>

type_synonym xor_publisher = "SubscribeResponseWriter \<times> XORCounterPublisher"

definition XORCounterPublisher_SendDatagram :: "Env \<Rightarrow> Object \<Rightarrow> (xor_publisher \<times> Session, unit) st" where
  "XORCounterPublisher_SendDatagram env obj =
     (\<lambda>((w, fcp), s). case SubscribeResponseWriter_SendDatagram env obj (w, s) of
        (r, (w, s)) \<Rightarrow> (r, ((w, fcp), s)))"

definition XORCounterPublisher_OpenSubgroup ::
  "Env \<Rightarrow> uint64 \<Rightarrow> uint64 \<Rightarrow> byte \<Rightarrow> (xor_publisher \<times> Session, Subgroup) st" where
  "XORCounterPublisher_OpenSubgroup env groupID subgroupID priority =
     (\<lambda>((w, fcp), s). case SubscribeResponseWriter_OpenSubgroup env groupID subgroupID priority (w, s) of
        (r, (w, s)) \<Rightarrow> (r, ((w, fcp), s)))"

definition XORCounterPublisher_CloseWithError ::
  "Env \<Rightarrow> uint64 \<Rightarrow> gostring \<Rightarrow> (xor_publisher \<times> Session, unit) st" where
  "XORCounterPublisher_CloseWithError env code reason =
     (\<lambda>((w, fcp), s). case XORCounterPublisher_Stop fcp of
        (Inl e, fcp) \<Rightarrow> (Inl e, ((w, fcp), s))
      | (Inr _, fcp) \<Rightarrow>
          (case SubscribeResponseWriter_CloseWithError env code reason (w, s) of
             (r, (w, s)) \<Rightarrow> (r, ((w, fcp), s))))"

text \<open>The method \<^verbatim>\<open>publishNext\<close> with the writer's \<^verbatim>\<open>SendDatagram\<close> in the place of the parameter.\<close>

definition XORCounterPublisher_publishNext :: "Env \<Rightarrow> (xor_publisher \<times> Session, unit) st" where
  "XORCounterPublisher_publishNext env =
     (\<lambda>((w, fcp), s).
       let currentCounter = fcp_counter fcp;
           currentGroupID = fcp_groupID fcp;
           fcp = fcp\<lparr>fcp_counter := fcp_counter fcp + 1, fcp_groupID := fcp_groupID fcp + 1\<rparr>;
           payload = FormatUint currentCounter;
           ((parityPacket, blockID, seqID), encoder) = TryEncode (fcp_encoder fcp) payload;
           fcp = fcp\<lparr>fcp_encoder := encoder\<rparr>;
           obj = \<lparr>obj_GroupID = currentGroupID, obj_ObjectID = 0,
                  obj_ForwardingPreference = ObjectForwardingPreferenceDatagram,
                  obj_SubGroupID = currentGroupID,
                  obj_Payload = wrapWithMetadata payload blockID seqID False\<rparr>
       in thenS (XORCounterPublisher_SendDatagram env obj)
            (case parityPacket of
               None \<Rightarrow> returnS ()
             | Some parity \<Rightarrow> XORCounterPublisher_SendDatagram env
                 \<lparr>obj_GroupID = currentGroupID + 1000, obj_ObjectID = 0,
                  obj_ForwardingPreference = ObjectForwardingPreferenceDatagram,
                  obj_SubGroupID = currentGroupID + 1000,
                  obj_Payload = wrapWithMetadata parity blockID (-1) True\<rparr>)
            ((w, fcp), s))"

definition XORCounterPublisher_Start_begin :: "XORCounterPublisher \<Rightarrow> unit result \<times> XORCounterPublisher" where
  "XORCounterPublisher_Start_begin fcp =
     (if fcp_isRunning fcp then (Inl (Fail (OtherError 5)), fcp) else (Inr (), fcp\<lparr>fcp_isRunning := True\<rparr>))"

fun XORCounterPublisher_Start_loop ::
  "Env \<Rightarrow> publisher_select list \<Rightarrow> xor_publisher \<times> Session \<Rightarrow> unit result option \<times> (xor_publisher \<times> Session)" where
  "XORCounterPublisher_Start_loop env [] st = (None, st)"
| "XORCounterPublisher_Start_loop env (ContextCase e # cs) st = (Some (Inl (Fail e)), st)"
| "XORCounterPublisher_Start_loop env (StopCase # cs) st =
     (if fcp_stopped (snd (fst st)) then (Some (Inr ()), st) else XORCounterPublisher_Start_loop env cs st)"
| "XORCounterPublisher_Start_loop env (TickCase # cs) st =
     (case XORCounterPublisher_publishNext env st of
        (Inl e, st) \<Rightarrow> (Some (Inl e), st)
      | (Inr _, st) \<Rightarrow> XORCounterPublisher_Start_loop env cs st)"

section \<open>What a subscriber reports\<close>

definition XORCounterSubscriber_GetLastReceived :: "XORCounterSubscriber subscriber \<Rightarrow> uint64" where
  "XORCounterSubscriber_GetLastReceived su = fcs_lastReceived (su_state su)"

definition XORCounterSubscriber_GetTotalReceived :: "XORCounterSubscriber subscriber \<Rightarrow> uint64" where
  "XORCounterSubscriber_GetTotalReceived su = fcs_totalReceived (su_state su)"

definition XORCounterSubscriber_GetRecoveredCount :: "XORCounterSubscriber subscriber \<Rightarrow> uint64" where
  "XORCounterSubscriber_GetRecoveredCount su = fcs_recoveredCount (su_state su)"

definition XORCounterSubscriber_IsRunning :: "XORCounterSubscriber subscriber \<Rightarrow> bool" where
  "XORCounterSubscriber_IsRunning su = su_isRunning su"

section \<open>Handlers\<close>

record xorHandler =
  xh_namespace :: Tuple
  xh_trackname :: gostring
  xh_publish :: bool
  xh_subscribe :: bool
  xh_nextSessionID :: uint64
  xh_publishers :: "xor_publisher list"

definition xor_getHandler :: "xorHandler \<Rightarrow> Message \<Rightarrow> rw_call script" where
  "xor_getHandler h r =
     (if msg_Method r = MessageAnnounce
      then if \<not> xh_subscribe h
           then Call (Reject 0 (ascii ''counter doesn't take announcements'')) (\<lambda>_. Done)
           else if tupleEqual (msg_Namespace r) (xh_namespace h) \<noteq> Inr True
           then Call (Reject 0 (ascii ''non-matching namespace'')) (\<lambda>_. Done)
           else Call Accept (\<lambda>_. Done)
      else Done)"

definition xor_getSubscribeHandler :: "xorHandler \<Rightarrow> AppSubscribeMessage \<Rightarrow> srw_call script" where
  "xor_getSubscribeHandler h m =
     (if \<not> xh_publish h
      then Call (SubscribeReject ErrorCodeSubscribeTrackDoesNotExist (ascii ''endpoint does not publish any tracks''))
             (\<lambda>_. Done)
      else if tupleEqual (asm_Namespace m) (xh_namespace h) \<noteq> Inr True \<or> asm_Track m \<noteq> xh_trackname h
      then Call (SubscribeReject ErrorCodeSubscribeTrackDoesNotExist (ascii ''unknown track'')) (\<lambda>_. Done)
      else Call (SubscribeAccept []) (\<lambda>_. Done))"

definition xor_getSubscribeHandler_accepted ::
  "SubscribeResponseWriter \<Rightarrow> xorHandler \<Rightarrow> xor_publisher \<times> xorHandler" where
  "xor_getSubscribeHandler_accepted w h =
     (let counterPublisher = NewXORPublisher
      in ((w, snd (XORCounterPublisher_Start_begin counterPublisher)),
          h\<lparr>xh_publishers := xh_publishers h @ [(w, counterPublisher)]\<rparr>))"

definition xor_handle_env :: "xorHandler \<Rightarrow> Env \<Rightarrow> Env" where
  "xor_handle_env h env =
     env\<lparr>env_Handler := Some (xor_getHandler h), env_SubscribeHandler := Some (xor_getSubscribeHandler h)\<rparr>"

definition xor_handle_Run :: "Env \<Rightarrow> Connection \<Rightarrow> xorHandler \<Rightarrow> (unit result \<times> Session) \<times> xorHandler" where
  "xor_handle_Run env conn h =
     (let h = h\<lparr>xh_nextSessionID := xh_nextSessionID h + 1\<rparr> in (Session_Run (xor_handle_env h env) 100 conn, h))"

text \<open>
  The rest of \<^verbatim>\<open>handle\<close>, up to the point where it waits for the response to the announcement, and
  from there up to the one where it waits for the response to the subscription.
\<close>

definition xor_handle_announce :: "Env \<Rightarrow> xorHandler \<Rightarrow> (Session, ref option) st" where
  "xor_handle_announce env h s =
     (if xh_publish h
      then (case Announce_send (xor_handle_env h env) (xh_namespace h) s of
              (Inl Panic, s) \<Rightarrow> (Inl Panic, s)
            | (Inl (Fail e), s) \<Rightarrow> (Inr None, s)
            | (Inr ch, s) \<Rightarrow> (Inr (Some ch), s))
      else (Inr None, s))"

definition xor_handle_subscribe :: "Env \<Rightarrow> xorHandler \<Rightarrow> (Session, ref option) st" where
  "xor_handle_subscribe env h =
     (if xh_subscribe h
      then bindS (Subscribe_send (xor_handle_env h env) (xh_namespace h) (xh_trackname h) []) (\<lambda>rs. returnS (Some rs))
      else returnS None)"

definition xor_subscribeAndRead ::
  "wait_case \<Rightarrow> ref \<Rightarrow> Session \<Rightarrow> ((ref \<times> XORCounterSubscriber subscriber) result \<times> Session) option" where
  "xor_subscribeAndRead w rt s =
     (case Subscribe_wait w rt s of
        None \<Rightarrow> None
      | Some (Inl e, s) \<Rightarrow> Some (Inl e, s)
      | Some (Inr rs, s) \<Rightarrow> Some (Inr (rs, Subscriber_Start (new_subscriber NewXORSubscriber)), s))"

lemma xor_handle_accepts:
  "xh_publish h \<Longrightarrow> accepts (xor_handle_env h env) (xh_namespace h) (xh_trackname h)"
  by (simp add: accepts_with_def xor_handle_env_def xor_getSubscribeHandler_def tupleEqual_eq)

section \<open>What the ticks send\<close>

definition tick_objects :: "nat \<Rightarrow> Object list" where
  "tick_objects n = data_object n # (if Suc n mod 4 = 0
     then [parity_object n (the (generateParity (last_block 4 (counters 0 (Suc n)))))] else [])"

text \<open>The method agrees with the function of \<^verbatim>\<open>Fec_Counter\<close> when nothing fails.\<close>

lemma publishNext_method:
  assumes "\<And>ob s. ob \<in> set (snd (fst (publishNext (\<lambda>_. None) fcp))) \<Longrightarrow> P s \<Longrightarrow>
      XORCounterPublisher_SendDatagram env ob ((w, f), s) = (Inr (), ((w, f), send ob s)) \<and> P (send ob s)"
    and "P s" and "f = snd (publishNext (\<lambda>_. None) fcp)"
  shows "XORCounterPublisher_publishNext env ((w, fcp), s) =
    (Inr (), ((w, f), fold send (snd (fst (publishNext (\<lambda>_. None) fcp))) s))"
proof -
  obtain parity b i e where t: "TryEncode (fcp_encoder fcp) (FormatUint (fcp_counter fcp)) = ((parity, b, i), e)"
    by (metis prod.collapse)
  show ?thesis
    using assms
    by (cases parity)
      (simp_all add: XORCounterPublisher_publishNext_def publishNext_def t Let_def bindS_def returnS_def)
qed

context varint_codec
begin

lemma wf_tick_objects:
  assumes "n \<le> 2 ^ 31" and "fits a" and "ob \<in> set (tick_objects n)"
  shows "wf_datagram (datagram_of a ob)"
proof -
  have "n \<le> maxVarInt" "n + 1000 \<le> maxVarInt" using assms(1) by (simp_all add: maxVarInt_def)
  then have "fits (of_nat n)" "fits (of_nat (n + 1000))" by (simp_all del: of_nat_add)
  then show ?thesis
    using assms(2,3)
    by (auto simp: tick_objects_def wf_datagram_def datagram_of_def data_object_def parity_object_def split: if_splits)
qed

lemma tick_sends:
  assumes rel: "reliable qv env" and st: "publisher_state n fcp" and n: "n \<le> 2 ^ 31" and a: "fits a"
    and lt: "lt_done (ses_lt s (srw_localTrack w)) = None" "lt_trackAlias (ses_lt s (srw_localTrack w)) = a"
  shows "\<exists>fcp' s'. XORCounterPublisher_publishNext env ((w, fcp), s) = (Inr (), ((w, fcp'), s')) \<and>
    publisher_state (Suc n) fcp' \<and> ses_lt s' = ses_lt s \<and>
    cn_datagrams (ses_conn s') = cn_datagrams (ses_conn s) @ map (datagram_bytes qv a) (tick_objects n)"
proof -
  define send where "send = (\<lambda>ob t. snd (snd (SubscribeResponseWriter_SendDatagram env ob (w, t))))"
  let ?P = "\<lambda>t. ses_lt t = ses_lt s"
  have objs: "snd (fst (publishNext (\<lambda>_. None) fcp)) = tick_objects n"
    using publishNext_state(1) [OF st] by (simp add: tick_objects_def)
  have sends: "SubscribeResponseWriter_SendDatagram env ob (w, t) = (Inr (), (w, send ob t)) \<and> ?P (send ob t) \<and>
      cn_datagrams (ses_conn (send ob t)) = cn_datagrams (ses_conn t) @ [datagram_bytes qv a ob]"
    if "ob \<in> set (tick_objects n)" "?P t" for ob t
    using writer_sends [OF rel wf_tick_objects [OF n a that(1)], of t w] lt that(2) by (auto simp: send_def)
  have "XORCounterPublisher_publishNext env ((w, fcp), s) =
    (Inr (), ((w, snd (publishNext (\<lambda>_. None) fcp)), fold send (tick_objects n) s))"
    using publishNext_method [where P = ?P and send = send and fcp = fcp, OF _ refl refl] sends
    unfolding objs by (simp add: XORCounterPublisher_SendDatagram_def)
  moreover have "?P (fold send obs t) \<and> cn_datagrams (ses_conn (fold send obs t)) =
      cn_datagrams (ses_conn t) @ map (datagram_bytes qv a) obs"
    if "set obs \<subseteq> set (tick_objects n)" "?P t" for obs t
    using that by (induction obs arbitrary: t) (use sends in auto)
  ultimately show ?thesis using publishNext_state(2) [OF st] by blast
qed

lemma ticks_send:
  assumes rel: "reliable qv env" and a: "fits a" and "publisher_state n fcp" and "n + k \<le> 2 ^ 31"
    and "lt_done (ses_lt s (srw_localTrack w)) = None" "lt_trackAlias (ses_lt s (srw_localTrack w)) = a"
  shows "\<exists>fcp' s'. XORCounterPublisher_Start_loop env (replicate k TickCase) ((w, fcp), s) = (None, ((w, fcp'), s')) \<and>
    publisher_state (n + k) fcp' \<and>
    cn_datagrams (ses_conn s') =
      cn_datagrams (ses_conn s) @ map (datagram_bytes qv a) (concat (map tick_objects [n..<n + k]))"
  using assms(3-)
proof (induction k arbitrary: n fcp s)
  case (Suc k)
  then have "n \<le> 2 ^ 31" by simp
  from tick_sends [OF rel Suc.prems(1) this a Suc.prems(3,4)]
  obtain fcp1 s1 where step: "XORCounterPublisher_publishNext env ((w, fcp), s) = (Inr (), ((w, fcp1), s1))"
    "publisher_state (Suc n) fcp1" "ses_lt s1 = ses_lt s"
    "cn_datagrams (ses_conn s1) = cn_datagrams (ses_conn s) @ map (datagram_bytes qv a) (tick_objects n)" by blast
  have "[n..<n + Suc k] = n # [Suc n..<Suc n + k]" by (simp add: upt_conv_Cons del: upt_Suc)
  with Suc.IH [of "Suc n" fcp1 s1] step Suc.prems show ?case by (simp del: upt_Suc)
qed simp

section \<open>What arrives\<close>

lemma by_payload_xor: "by_payload (processObject order)"
  by (simp add: by_payload_def processObject_def)

lemma process_all_foldl: "process_all order obs fcs = foldl (\<lambda>fcs ob. snd (processObject order ob fcs)) fcs obs"
  by (induction order obs fcs rule: process_all.induct) simp_all

section \<open>A block over the network\<close>

text \<open>The objects of the last four ticks, and a block of which one datagram is lost.\<close>

lemma block_objects:
  assumes "generateParity (counters (4 * q) (4 * q + 4)) = Some parity"
  shows "concat (map tick_objects [4 * q..<4 * q + 4]) =
    map (\<lambda>i. data_object (4 * q + i)) [0..<4] @ [parity_object (4 * q + 3) parity]"
proof -
  have "[4 * q..<4 * q + 4] = map (\<lambda>i. 4 * q + i) [0..<4]" by (simp add: upt_conv_Cons numeral_eq_Suc)
  moreover have "[0..<4] = [0, 1, 2, 3 :: nat]" by (simp add: upt_conv_Cons numeral_eq_Suc)
  moreover have "Suc (4 * q) mod 4 = 1" "Suc (Suc (4 * q)) mod 4 = 2" "Suc (4 * q + 2) mod 4 = 3" "Suc (4 * q + 3) mod 4 = 0"
    by presburger+
  moreover have "Suc (4 * q + 3) = 4 * q + 4" by simp
  ultimately show ?thesis
    using assms last_block_counters [of q] by (simp add: tick_objects_def add.commute del: upt_Suc)
qed

lemma process_all_append: "process_all order (xs @ ys) fcs = process_all order ys (process_all order xs fcs)"
  by (induction order xs fcs rule: process_all.induct) simp_all

lemma block_received:
  assumes env: "env_qv env = qv" and order: "visits_all order" and q: "q < 2 ^ 29" and a: "fits a"
    and rd: "reading s a rt" and start: "collecting (int q) Map.empty 0 4 fcs"
    and others: "distinct (j # is)" "set (j # is) = {0..<4}"
    and parity: "generateParity (counters (4 * q) (4 * q + 4)) = Some parity"
    and ds: "ds = map (datagram_bytes qv a) (concat (map tick_objects [4 * q..<4 * q + 4]))"
    and width: "length (FormatUint (of_nat (4 * q + j))) = max_len (counters (4 * q) (4 * q + 4)) 0"
  shows "\<exists>s' fcs'. receive_datagrams env (processObject order) rt (map ((!) ds) (is @ [4])) (s, fcs) = Some (s', fcs') \<and>
    fcs_lastReceived fcs' = of_nat (4 * q + j) \<and> fcs_recoveredCount fcs' = fcs_recoveredCount fcs + 1"
proof -
  let ?obs = "map (\<lambda>i. data_object (4 * q + i)) [0..<4] @ [parity_object (4 * q + 3) parity]"
  let ?recv = "map (\<lambda>i. data_object (4 * q + i)) is @ [parity_object (4 * q + 3) parity]"
  have lt: "i < 4" if "i \<in> set is" for i using that others(2) by auto
  have dso: "ds = map (datagram_bytes qv a) ?obs" unfolding ds block_objects [OF parity] ..
  then have nth: "map ((!) ds) (is @ [4]) = map (datagram_bytes qv a) ?recv"
    using lt by (auto simp: nth_append simp del: upt_Suc)
  have wf: "wf_datagram (datagram_of a ob)" if "ob \<in> set ?recv" for ob
  proof -
    have "set ?recv \<subseteq> set ?obs" using lt by (auto simp del: upt_Suc)
    then have "ob \<in> set (concat (map tick_objects [4 * q..<4 * q + 4]))"
      using that unfolding block_objects [OF parity] by blast
    then obtain n where "n < 4 * q + 4" "ob \<in> set (tick_objects n)" by auto
    then show ?thesis using wf_tick_objects [of n a ob] a q by simp
  qed
  obtain s' where
    "receive_datagrams env (processObject order) rt (map ((!) ds) (is @ [4])) (s, fcs) = Some (s', process_all order ?recv fcs)"
    using datagrams_received [OF env by_payload_xor [of order] wf rd, of ?recv fcs]
    unfolding nth process_all_foldl by blast
  then show ?thesis
    using counter_block [OF order q start others parity] width by (simp add: process_all_append)
qed

text \<open>
  The whole application: the client subscribes to the first track of a server that publishes, the
  publisher runs up to the end of block \<open>q\<close>, and of the five datagrams of that block any one of the
  counters is lost.
\<close>

lemma xor_application_recovers:
  assumes "reliable qv envc" and "reliable qv env" and "xh_publish h" and "seq_last (ses_trackAliases s) = 0"
    and q: "q < 2 ^ 29" and order: "visits_all order"
    and "inv_session c" and "rg_id (ses_requestIDs c) = k" and "k < rg_max (ses_requestIDs c)"
    and "wire_ok qv (Subscribe (subscribe_message k (xh_namespace h) (xh_trackname h) options))"
    and "\<not> bad_namespace (xh_namespace h)"
    and "rtm_trackAliasToRequestID (ses_remoteTracks c) 0 = None"
    and "ses_handshakeDone c" and "ses_handshakeDone s"
    and "k < ses_localMaxRequestID s" and "fits (2 * ses_localMaxRequestID s)"
    and "ltm_pending (ses_localTracks s) k = None" and "ltm_open (ses_localTracks s) k = None"
  shows "\<exists>rt lt c' s' c''. Subscribe_send envc (xh_namespace h) (xh_trackname h) options c = (Inr rt, c') \<and>
    receive (xor_handle_env h env) (Subscribe (subscribe_message k (xh_namespace h) (xh_trackname h) options)) s = (Inr (), s') \<and>
    receive envc (SubscribeOk (subscribe_ok_message k)) c' = (Inr (), c'') \<and>
    (\<forall>w. srw_localTrack w = lt \<longrightarrow>
      (\<exists>p s2 before ds. XORCounterPublisher_Start_loop (xor_handle_env h env) (replicate (4 * q + 4) TickCase)
          ((w, NewXORPublisher), s') = (None, (p, s2)) \<and>
        cn_datagrams (ses_conn s2) = cn_datagrams (ses_conn s') @ before @ ds \<and> length ds = 5 \<and>
        (\<forall>j is fcs. distinct (j # is) \<and> set (j # is) = {0..<4} \<and> collecting (int q) Map.empty 0 4 fcs \<and>
            length (FormatUint (of_nat (4 * q + j))) = max_len (counters (4 * q) (4 * q + 4)) 0 \<longrightarrow>
          (\<exists>c4 fcs'. receive_datagrams envc (processObject order) rt (map ((!) ds) (is @ [4])) (c'', fcs) = Some (c4, fcs') \<and>
            fcs_lastReceived fcs' = of_nat (4 * q + j) \<and>
            fcs_recoveredCount fcs' = fcs_recoveredCount fcs + 1))))"
proof -
  have rel: "reliable qv (xor_handle_env h env)" "env_qv envc = qv"
    using assms(1,2) by (simp_all add: reliable_def xor_handle_env_def)
  have fits: "fits k" using assms(10) by (simp add: wire_ok_def wf_Subscribe_def subscribe_message_def Let_def)
  obtain rt lt c' s' c'' where sub:
    "Subscribe_send envc (xh_namespace h) (xh_trackname h) options c = (Inr rt, c')"
    "receive (xor_handle_env h env) (Subscribe (subscribe_message k (xh_namespace h) (xh_trackname h) options)) s = (Inr (), s')"
    "receive envc (SubscribeOk (subscribe_ok_message k)) c' = (Inr (), c'')"
    "lt_done (ses_lt s' lt) = None" "lt_trackAlias (ses_lt s' lt) = 0"
    "remoteTrackMap_findByTrackAlias (ses_remoteTracks c'') 0 = Some rt"
    "rt_buffer (ses_rt c'' rt) = []" "rt_done (ses_rt c'' rt) = None"
    using subscription [OF assms(1) rel(1) xor_handle_accepts [OF assms(3)] wire_ok_subscribe_ok [OF fits, folded subscribe_ok_message_def]
      assms(7-18)] assms(4) by auto
  have rd: "reading c'' 0 rt" using sub(6-8) by (simp add: reading_def)
  obtain parity where parity: "generateParity (counters (4 * q) (4 * q + 4)) = Some parity"
    by (simp add: generateParity_def counters_def)
  define before where "before = map (datagram_bytes qv 0) (concat (map tick_objects [0..<4 * q]))"
  define ds where "ds = map (datagram_bytes qv 0) (concat (map tick_objects [4 * q..<4 * q + 4]))"
  have split: "[0..<4 * q + 4] = [0..<4 * q] @ [4 * q..<4 * q + 4]" by (rule upt_add_eq_append) simp
  have "length ds = 5" unfolding ds_def block_objects [OF parity] by simp
  note recovers = this block_received [OF rel(2) order q fits_small(1) rd _ _ _ parity ds_def]
  have "\<exists>p s2 before ds. XORCounterPublisher_Start_loop (xor_handle_env h env) (replicate (4 * q + 4) TickCase)
        ((w, NewXORPublisher), s') = (None, (p, s2)) \<and>
      cn_datagrams (ses_conn s2) = cn_datagrams (ses_conn s') @ before @ ds \<and> length ds = 5 \<and>
      (\<forall>j is fcs. distinct (j # is) \<and> set (j # is) = {0..<4} \<and> collecting (int q) Map.empty 0 4 fcs \<and>
          length (FormatUint (of_nat (4 * q + j))) = max_len (counters (4 * q) (4 * q + 4)) 0 \<longrightarrow>
        (\<exists>c4 fcs'. receive_datagrams envc (processObject order) rt (map ((!) ds) (is @ [4])) (c'', fcs) = Some (c4, fcs') \<and>
          fcs_lastReceived fcs' = of_nat (4 * q + j) \<and> fcs_recoveredCount fcs' = fcs_recoveredCount fcs + 1))"
    if w: "srw_localTrack w = lt" for w
  proof -
    obtain p s2 where "XORCounterPublisher_Start_loop (xor_handle_env h env) (replicate (4 * q + 4) TickCase)
        ((w, NewXORPublisher), s') = (None, (p, s2))"
      "cn_datagrams (ses_conn s2) = cn_datagrams (ses_conn s') @ before @ ds"
      using ticks_send [OF rel(1) fits_small(1) NewXORPublisher_state, of "4 * q + 4" s' w] sub(4,5) q w
      unfolding before_def ds_def plus_nat.add_0 split map_append concat_append by auto
    with recovers show ?thesis by (intro exI [of _ p] exI [of _ s2] exI [of _ before] exI [of _ ds]) blast
  qed
  with sub(1-3) show ?thesis by blast
qed

end

end
