(* ===== verification/Date_App.thy ===== *)
theory Date_App
  imports Counter_App
begin

text \<open>
  The date application (\<^verbatim>\<open>examples/date\<close>): the handlers it gives to a session and the loop that
  sends the time to all subscribers of all sessions, one subgroup with one object per tick
  (\<^verbatim>\<open>handler.go\<close>, \<^verbatim>\<open>publisher.go\<close>). The lemmas say what a tick does to each session: a subscription
  that is open gets one more stream, one that has ended is dropped. \<^verbatim>\<open>tupleEqual\<close> is the function
  of \<^verbatim>\<open>examples/counter\<close>. Logging, the reading of objects, listening, dialling and certificates are
  left out.
\<close>

section \<open>Publishers and handlers\<close>

record date_publisher =
  dp_p :: SubscribeResponseWriter
  dp_sessionID :: uint64
  dp_requestID :: uint64

definition publisher_SendDatagram :: "Env \<Rightarrow> Object \<Rightarrow> date_publisher \<Rightarrow> (Session, unit) st" where
  "publisher_SendDatagram env ob p s =
     (case SubscribeResponseWriter_SendDatagram env ob (dp_p p, s) of (r, (_, s)) \<Rightarrow> (r, s))"

definition publisher_OpenSubgroup ::
  "Env \<Rightarrow> uint64 \<Rightarrow> uint64 \<Rightarrow> byte \<Rightarrow> date_publisher \<Rightarrow> (Session, Subgroup) st" where
  "publisher_OpenSubgroup env groupID subgroupID priority p s =
     (case SubscribeResponseWriter_OpenSubgroup env groupID subgroupID priority (dp_p p, s) of (r, (_, s)) \<Rightarrow> (r, s))"

definition publisher_CloseWithError :: "Env \<Rightarrow> uint64 \<Rightarrow> gostring \<Rightarrow> date_publisher \<Rightarrow> (Session, unit) st" where
  "publisher_CloseWithError env code reason p s =
     (case SubscribeResponseWriter_CloseWithError env code reason (dp_p p, s) of (r, (_, s)) \<Rightarrow> (r, s))"

text \<open>
  The set of publishers holds pointers; it is a map from references to publishers, with the next
  free reference.
\<close>

record moqHandler =
  mh_namespace :: Tuple
  mh_trackname :: gostring
  mh_publish :: bool
  mh_subscribe :: bool
  mh_nextSessionID :: uint64
  mh_publishers :: "ref \<rightharpoonup> date_publisher"
  mh_next :: ref
  mh_largestGroup :: uint64

definition date_getHandler :: "moqHandler \<Rightarrow> Message \<Rightarrow> rw_call script" where
  "date_getHandler h r =
     (if msg_Method r = MessageAnnounce
      then if \<not> mh_subscribe h
           then Call (Reject 0 (ascii ''date doesn't take announcements'')) (\<lambda>_. Done)
           else if tupleEqual (msg_Namespace r) (mh_namespace h) \<noteq> Inr True
           then Call (Reject 0 (ascii ''non-matching namespace'')) (\<lambda>_. Done)
           else Call Accept (\<lambda>_. Done)
      else Done)"

definition date_getSubscribeHandler :: "moqHandler \<Rightarrow> AppSubscribeMessage \<Rightarrow> srw_call script" where
  "date_getSubscribeHandler h m =
     (if \<not> mh_publish h
      then Call (SubscribeReject ErrorCodeSubscribeTrackDoesNotExist (ascii ''endpoint does not publish any tracks''))
             (\<lambda>_. Done)
      else if tupleEqual (asm_Namespace m) (mh_namespace h) \<noteq> Inr True \<or> asm_Track m \<noteq> mh_trackname h
      then Call (SubscribeReject ErrorCodeSubscribeTrackDoesNotExist (ascii ''unknown track'')) (\<lambda>_. Done)
      else Call (SubscribeAccept [WithLargestLocation
             (Some \<lparr>loc_Group = mh_largestGroup h, loc_Object = 0\<rparr>)]) (\<lambda>_. Done))"

definition date_getSubscribeHandler_accepted ::
  "uint64 \<Rightarrow> SubscribeResponseWriter \<Rightarrow> AppSubscribeMessage \<Rightarrow> moqHandler \<Rightarrow> moqHandler" where
  "date_getSubscribeHandler_accepted sessionID w m h =
     h\<lparr>mh_publishers := (mh_publishers h)(mh_next h \<mapsto>
           \<lparr>dp_p = w, dp_sessionID = sessionID, dp_requestID = asm_RequestID m\<rparr>),
       mh_next := Suc (mh_next h)\<rparr>"

definition date_handle_env :: "moqHandler \<Rightarrow> Env \<Rightarrow> Env" where
  "date_handle_env h env =
     env\<lparr>env_Handler := Some (date_getHandler h), env_SubscribeHandler := Some (date_getSubscribeHandler h),
         env_SubscribeUpdateHandler := True\<rparr>"

definition date_handle_Run :: "Env \<Rightarrow> Connection \<Rightarrow> moqHandler \<Rightarrow> (unit result \<times> Session) \<times> moqHandler" where
  "date_handle_Run env conn h =
     (let h = h\<lparr>mh_nextSessionID := mh_nextSessionID h + 1\<rparr> in (Session_Run (date_handle_env h env) 100 conn, h))"

definition date_handle_announce :: "Env \<Rightarrow> moqHandler \<Rightarrow> (Session, ref option) st" where
  "date_handle_announce env h s =
     (if mh_publish h
      then (case Announce_send (date_handle_env h env) (mh_namespace h) s of
              (Inl Panic, s) \<Rightarrow> (Inl Panic, s)
            | (Inl (Fail e), s) \<Rightarrow> (Inr None, s)
            | (Inr ch, s) \<Rightarrow> (Inr (Some ch), s))
      else (Inr None, s))"

definition date_handle_subscribe :: "Env \<Rightarrow> moqHandler \<Rightarrow> (Session, ref option) st" where
  "date_handle_subscribe env h =
     (if mh_subscribe h
      then bindS (Subscribe_send (date_handle_env h env) (mh_namespace h) (mh_trackname h) []) (\<lambda>rs. returnS (Some rs))
      else returnS None)"

section \<open>Reading\<close>

text \<open>
  The goroutine of \<^verbatim>\<open>subscribeAndRead\<close>, over the cases that its calls of \<^verbatim>\<open>ReadObject\<close> take: the objects
  it prints, and whether it is still running. A call with no case to take waits: the list ends there. A call
  never returns neither an object nor an error.
\<close>

fun date_read :: "read_case list \<Rightarrow> RemoteTrack \<Rightarrow> Object list \<times> bool \<times> RemoteTrack" where
  "date_read [] t = ([], True, t)"
| "date_read (c # cs) t =
     (case ReadObject c t of
        None \<Rightarrow> ([], True, t)
      | Some ((obj, Some err), t) \<Rightarrow> ([], False, t)
      | Some ((None, None), t) \<Rightarrow> ([], False, t)
      | Some ((Some obj, None), t) \<Rightarrow>
          (case date_read cs t of (printed, running, t) \<Rightarrow> (obj # printed, running, t)))"

text \<open>An open track is read to the end of its buffer; the reader of a track that has ended drops what is left.\<close>

lemma date_read_all:
  "rt_done t = None \<Longrightarrow>
     date_read (replicate (length (rt_buffer t)) FromBuffer) t = (rt_buffer t, True, t\<lparr>rt_buffer := []\<rparr>)"
proof (induction "rt_buffer t" arbitrary: t)
  case Nil
  then show ?case by (cases t) simp
next
  case (Cons obj rest)
  have "date_read (replicate (length rest) FromBuffer) (t\<lparr>rt_buffer := rest\<rparr>) = (rest, True, t\<lparr>rt_buffer := []\<rparr>)"
    using Cons.hyps(1) [of "t\<lparr>rt_buffer := rest\<rparr>"] Cons.prems by simp
  then show ?case using Cons.hyps(2) [symmetric] Cons.prems by (simp add: ReadObject_def)
qed

lemma date_read_ended:
  assumes "rt_done t \<noteq> None"
  shows "fst (date_read cs t) = []"
  using assms by (cases cs) (auto simp: ReadObject_def split: read_case.splits list.splits)

section \<open>The loop of the track\<close>

text \<open>
  What a tick does for one publisher. The result is whether the publisher stays in the set. The
  errors of writing and of closing are only logged or dropped; a panic goes on. The time stamp is
  given as the bytes it is printed as.
\<close>

definition date_publish :: "Env \<Rightarrow> uint64 \<Rightarrow> bytes \<Rightarrow> date_publisher \<Rightarrow> (Session, bool) st" where
  "date_publish env groupID ts p s =
     (case publisher_OpenSubgroup env groupID 0 0 p s of
        (Inl Panic, s) \<Rightarrow> (Inl Panic, s)
      | (Inl (Fail _), s) \<Rightarrow>
          bindS (tryS (publisher_CloseWithError env ErrorCodeSubscribeDoneSubscriptionEnded [] p))
            (\<lambda>_. returnS False) s
      | (Inr sg, s) \<Rightarrow>
          bindS (tryS (onS ses_conn put_conn (ignore (Subgroup_WriteObject (env_qv env) (env_net env) sg 0 ts)))) (\<lambda>_.
          bindS (tryS (onS ses_conn put_conn (Subgroup_Close (env_net env) sg))) (\<lambda>_.
          returnS True)) s)"

text \<open>
  The loop over the publishers, in the order in which Go visits them; each publisher belongs to
  one of the sessions, which have parameters of their own.
\<close>

fun date_tick_loop ::
  "(uint64 \<Rightarrow> Env) \<Rightarrow> uint64 \<Rightarrow> bytes \<Rightarrow> ref list \<Rightarrow> (ref \<rightharpoonup> date_publisher) \<times> (uint64 \<Rightarrow> Session) \<Rightarrow>
     unit result \<times> ((ref \<rightharpoonup> date_publisher) \<times> (uint64 \<Rightarrow> Session))" where
  "date_tick_loop envs groupID ts [] st = (Inr (), st)"
| "date_tick_loop envs groupID ts (r # rs) (pubs, ses) =
     (case pubs r of
        None \<Rightarrow> date_tick_loop envs groupID ts rs (pubs, ses)
      | Some p \<Rightarrow>
          (case date_publish (envs (dp_sessionID p)) groupID ts p (ses (dp_sessionID p)) of
             (Inl e, s) \<Rightarrow> (Inl e, (pubs, ses(dp_sessionID p := s)))
           | (Inr keep, s) \<Rightarrow>
               date_tick_loop envs groupID ts rs
                 (if keep then pubs else pubs(r := None), ses(dp_sessionID p := s))))"

definition setupDateTrack_tick ::
  "(uint64 \<Rightarrow> Env) \<Rightarrow> (ref set \<Rightarrow> ref list) \<Rightarrow> uint64 \<Rightarrow> bytes \<Rightarrow> moqHandler \<times> (uint64 \<Rightarrow> Session) \<Rightarrow>
     unit result \<times> (moqHandler \<times> (uint64 \<Rightarrow> Session))" where
  "setupDateTrack_tick envs order groupID ts = (\<lambda>(h, ses).
     (case date_tick_loop envs groupID ts (order (dom (mh_publishers h))) (mh_publishers h, ses) of
        (Inl e, (pubs, ses)) \<Rightarrow> (Inl e, (h\<lparr>mh_publishers := pubs\<rparr>, ses))
      | (Inr _, (pubs, ses)) \<Rightarrow>
          (Inr (), (h\<lparr>mh_publishers := pubs, mh_largestGroup := groupID\<rparr>, ses))))"

fun setupDateTrack ::
  "(uint64 \<Rightarrow> Env) \<Rightarrow> (ref set \<Rightarrow> ref list) \<Rightarrow> uint64 \<Rightarrow> bytes list \<Rightarrow> moqHandler \<times> (uint64 \<Rightarrow> Session) \<Rightarrow>
     unit result \<times> (moqHandler \<times> (uint64 \<Rightarrow> Session))" where
  "setupDateTrack envs order groupID [] st = (Inr (), st)"
| "setupDateTrack envs order groupID (ts # ticks) st =
     (case setupDateTrack_tick envs order groupID ts st of
        (Inl e, st) \<Rightarrow> (Inl e, st)
      | (Inr _, st) \<Rightarrow> setupDateTrack envs order (groupID + 1) ticks st)"

section \<open>A tick for one publisher\<close>

text \<open>The stream of a tick, by the grammar of streams, and the tracks a publisher sends on.\<close>

definition date_stream :: "quicvarint \<Rightarrow> uint64 \<Rightarrow> uint64 \<Rightarrow> bytes \<Rightarrow> bytes" where
  "date_stream qv a groupID ts =
     enc_subgroup_header qv \<lparr>shm_TrackAlias = a, shm_GroupID = groupID, shm_SubgroupID = 0, shm_PublisherPriority = 0\<rparr> @
     enc_subgroup_object qv (plain_object (0, ts))"

definition track_of :: "(uint64 \<Rightarrow> Session) \<Rightarrow> date_publisher \<Rightarrow> localTrack" where
  "track_of ses p = ses_lt (ses (dp_sessionID p)) (srw_localTrack (dp_p p))"

text \<open>Numbers of the track that the wire format can hold.\<close>

definition track_fits :: "localTrack \<Rightarrow> bool" where
  "track_fits lt \<longleftrightarrow> fits (lt_trackAlias lt) \<and> fits (lt_requestID lt) \<and> fits (lt_subgroupCount lt)"

text \<open>The entry for the request of a publisher, if there is one, is its own track.\<close>

definition own_track :: "Session \<Rightarrow> date_publisher \<Rightarrow> bool" where
  "own_track s p \<longleftrightarrow>
     localTrackMap_findByID (ses_localTracks s) (lt_requestID (ses_lt s (srw_localTrack (dp_p p))))
       \<in> {None, Some (srw_localTrack (dp_p p))}"

definition fewer_tracks :: "Session \<Rightarrow> Session \<Rightarrow> bool" where
  "fewer_tracks s s' \<longleftrightarrow> (\<forall>k. localTrackMap_findByID (ses_localTracks s') k \<in>
     {None, localTrackMap_findByID (ses_localTracks s) k})"

text \<open>Different publishers of the handler send on different tracks, and the tracks are theirs.\<close>

definition registered :: "(uint64 \<Rightarrow> Session) \<Rightarrow> moqHandler \<Rightarrow> bool" where
  "registered ses h \<longleftrightarrow>
     (\<forall>r p. mh_publishers h r = Some p \<longrightarrow> track_fits (track_of ses p) \<and> own_track (ses (dp_sessionID p)) p) \<and>
     (\<forall>r r' p p'. mh_publishers h r = Some p \<longrightarrow> mh_publishers h r' = Some p' \<longrightarrow>
        dp_sessionID p = dp_sessionID p' \<longrightarrow> srw_localTrack (dp_p p) = srw_localTrack (dp_p p') \<longrightarrow> r = r')"

context varint_codec
begin

lemma date_publish_open:
  assumes rel: "reliable qv env" and g: "fits groupID" and ts: "length ts \<le> maxAlloc"
    and lt: "lt_done (ses_lt s (srw_localTrack (dp_p p))) = None" "track_fits (ses_lt s (srw_localTrack (dp_p p)))"
  shows "\<exists>s'. date_publish env groupID ts p s = (Inr True, s') \<and>
    cn_streams (ses_conn s') = cn_streams (ses_conn s) @
      [date_stream qv (lt_trackAlias (ses_lt s (srw_localTrack (dp_p p)))) groupID ts] \<and>
    (\<forall>r. r \<noteq> srw_localTrack (dp_p p) \<longrightarrow> ses_lt s' r = ses_lt s r) \<and> fewer_tracks s s'"
proof -
  let ?r = "srw_localTrack (dp_p p)"
  let ?h = "\<lparr>shm_TrackAlias = lt_trackAlias (ses_lt s ?r), shm_GroupID = groupID, shm_SubgroupID = 0, shm_PublisherPriority = 0\<rparr>"
  have net: "\<And>n. env_net env n = NetOk" "env_qv env = qv" using rel by (simp_all add: reliable_def)
  have "wf_subgroup_header ?h" using g lt(2) by (simp add: wf_subgroup_header_def track_fits_def)
  from openSubgroup_ok [where h = ?h and lt = "ses_lt s ?r" and net = "env_net env" and c = "ses_conn s", OF net(1) lt(1) this]
  obtain c' where o: "openSubgroup qv (env_net env) groupID 0 0 (ses_lt s ?r, ses_conn s) =
      (Inr \<lparr>sg_stream = length (cn_streams (ses_conn s)), sg_groupID = groupID, sg_subgroupID = 0\<rparr>,
       ((ses_lt s ?r)\<lparr>lt_subgroupCount := lt_subgroupCount (ses_lt s ?r) + 1\<rparr>, c'))"
    "cn_streams c' = cn_streams (ses_conn s) @ [enc_subgroup_header qv ?h]" by auto
  define sg where "sg = \<lparr>sg_stream = length (cn_streams (ses_conn s)), sg_groupID = groupID, sg_subgroupID = 0\<rparr>"
  have sg: "sg_stream sg = length (cn_streams (ses_conn s))" by (simp add: sg_def)
  have "sendable (0, ts)" using ts by (simp add: sendable_def)
  then obtain c'' where w: "Subgroup_WriteObject qv (env_net env) sg 0 ts c' = (Inr (length ts), c'')"
    "cn_streams c'' = cn_streams (ses_conn s) @
      [date_stream qv (lt_trackAlias (ses_lt s ?r)) groupID ts]"
    using WriteObject_ok [where net = "env_net env" and s = sg and c = c' and i = 0 and payload = ts, OF net(1)] o(2)
    by (cases "Subgroup_WriteObject qv (env_net env) sg 0 ts c'") (auto simp: sg date_stream_def nth_append)
  show ?thesis
    using o(1) w net
    by (simp add: date_publish_def publisher_OpenSubgroup_def SubscribeResponseWriter_OpenSubgroup_def on_session_def
        on_track_def effects ignore_def Subgroup_Close_def close_stream_def net_op_def fewer_tracks_def flip: sg_def)
qed

lemma wire_ok_subscribe_done:
  assumes "fits k" and "fits n"
  shows "wire_ok qv (SubscribeDone \<lparr>sdm_RequestID = k, sdm_StatusCode = ErrorCodeSubscribeDoneSubscriptionEnded,
    sdm_StreamCount = n, sdm_ReasonPhrase = []\<rparr>)" (is "wire_ok qv (SubscribeDone ?m)")
proof -
  have "length (enc_SubscribeDone qv ?m) \<le> 8 * 4"
    using enc_len [of k] enc_len [of n] enc_len [of 0] enc_len [of 3]
    by (simp add: enc_SubscribeDone_def enc_vbytes_def ErrorCodeSubscribeDoneSubscriptionEnded_def)
  then show ?thesis
    using assms by (simp add: wire_ok_def wf_SubscribeDone_def ErrorCodeSubscribeDoneSubscriptionEnded_def)
qed

lemma date_publish_closed:
  assumes rel: "reliable qv env"
    and lt: "lt_done (ses_lt s (srw_localTrack (dp_p p))) = Some e" "track_fits (ses_lt s (srw_localTrack (dp_p p)))"
    and own: "own_track s p"
  shows "\<exists>s'. date_publish env groupID ts p s = (Inr False, s') \<and>
    cn_streams (ses_conn s') = cn_streams (ses_conn s) \<and>
    (\<forall>r. r \<noteq> srw_localTrack (dp_p p) \<longrightarrow> ses_lt s' r = ses_lt s r) \<and> fewer_tracks s s'"
proof -
  let ?r = "srw_localTrack (dp_p p)"
  have "fits (lt_requestID (ses_lt s ?r))" "fits (lt_subgroupCount (ses_lt s ?r))"
    using lt(2) by (simp_all add: track_fits_def)
  note w = ses_write_ok [OF rel wire_ok_subscribe_done [OF this]]
  have cancelled: "cancel (lt_done (ses_lt s ?r)) ErrSubscriptionDone = lt_done (ses_lt s ?r)"
    using lt(1) by (simp add: cancel_def)
  show ?thesis
    using lt(1) own w
    by (auto simp: date_publish_def publisher_OpenSubgroup_def SubscribeResponseWriter_OpenSubgroup_def on_session_def
        on_track_def effects openSubgroup_def localTrack_closed_def publisher_CloseWithError_def
        SubscribeResponseWriter_CloseWithError_def localTrack_close_def modify_lt_def subscriptionDone_def
        upd_localTracks_def localTrackMap_delete_def localTrackMap_findByID_def own_track_def fewer_tracks_def
        conn_sent_def cancelled
        split: option.splits)
qed

section \<open>A tick for all publishers\<close>

text \<open>Both cases of a publisher in one: what is written, and what stays of the other tracks.\<close>

lemma date_publish_step:
  assumes "reliable qv env" and "fits groupID" and "length ts \<le> maxAlloc"
    and "track_fits (ses_lt s (srw_localTrack (dp_p p)))" and "own_track s p"
  shows "\<exists>s'. date_publish env groupID ts p s = (Inr (lt_done (ses_lt s (srw_localTrack (dp_p p))) = None), s') \<and>
    cn_streams (ses_conn s') = cn_streams (ses_conn s) @
      (if lt_done (ses_lt s (srw_localTrack (dp_p p))) = None
       then [date_stream qv (lt_trackAlias (ses_lt s (srw_localTrack (dp_p p)))) groupID ts] else []) \<and>
    (\<forall>r. r \<noteq> srw_localTrack (dp_p p) \<longrightarrow> ses_lt s' r = ses_lt s r) \<and> fewer_tracks s s'"
  using date_publish_open [OF assms(1-3), of s p] date_publish_closed [OF assms(1), of s p _ groupID ts] assms(4,5)
  by (cases "lt_done (ses_lt s (srw_localTrack (dp_p p)))") auto

lemma others_kept:
  assumes "\<forall>r. r \<noteq> srw_localTrack (dp_p p) \<longrightarrow> ses_lt s' r = ses_lt (ses (dp_sessionID p)) r"
    and "fewer_tracks (ses (dp_sessionID p)) s'"
    and "(dp_sessionID p', srw_localTrack (dp_p p')) \<noteq> (dp_sessionID p, srw_localTrack (dp_p p))"
  shows "track_of (ses(dp_sessionID p := s')) p' = track_of ses p'"
    and "own_track (ses (dp_sessionID p')) p' \<Longrightarrow> own_track ((ses(dp_sessionID p := s')) (dp_sessionID p')) p'"
  using assms by (auto simp: track_of_def own_track_def fewer_tracks_def)

lemma date_tick_loop_ok:
  assumes rel: "\<And>i. reliable qv (envs i)" and g: "fits groupID" and ts: "length ts \<le> maxAlloc"
    and "distinct rs" and "\<And>r. r \<in> set rs \<Longrightarrow> pubs r = Some (pub r)"
    and "inj_on (\<lambda>r. (dp_sessionID (pub r), srw_localTrack (dp_p (pub r)))) (set rs)"
    and "\<And>r. r \<in> set rs \<Longrightarrow> track_fits (track_of ses (pub r)) \<and> own_track (ses (dp_sessionID (pub r))) (pub r)"
  shows "\<exists>ses'. date_tick_loop envs groupID ts rs (pubs, ses) =
      (Inr (), (\<lambda>r. if r \<in> set rs \<and> lt_done (track_of ses (pub r)) \<noteq> None then None else pubs r, ses')) \<and>
    (\<forall>i. cn_streams (ses_conn (ses' i)) = cn_streams (ses_conn (ses i)) @
       map (\<lambda>r. date_stream qv (lt_trackAlias (track_of ses (pub r))) groupID ts)
         (filter (\<lambda>r. dp_sessionID (pub r) = i \<and> lt_done (track_of ses (pub r)) = None) rs))"
  using assms(4-)
proof (induction rs arbitrary: pubs ses)
  case (Cons r rs)
  define p where "p = pub r"
  have p: "pubs r = Some p" "track_fits (track_of ses p)" "own_track (ses (dp_sessionID p)) p"
    using Cons.prems(2,4) [of r] by (simp_all add: p_def)
  let ?keep = "lt_done (track_of ses p) = None"
  obtain s' where s': "date_publish (envs (dp_sessionID p)) groupID ts p (ses (dp_sessionID p)) = (Inr ?keep, s')"
    "cn_streams (ses_conn s') = cn_streams (ses_conn (ses (dp_sessionID p))) @
      (if ?keep then [date_stream qv (lt_trackAlias (track_of ses p)) groupID ts] else [])"
    "\<forall>r. r \<noteq> srw_localTrack (dp_p p) \<longrightarrow> ses_lt s' r = ses_lt (ses (dp_sessionID p)) r"
    "fewer_tracks (ses (dp_sessionID p)) s'"
    using date_publish_step [OF rel g ts, of "ses (dp_sessionID p)" p] p(2,3) unfolding track_of_def by blast
  let ?ses = "ses(dp_sessionID p := s')" and ?pubs = "if ?keep then pubs else pubs(r := None)"
  have kept: "track_of ?ses (pub r') = track_of ses (pub r')" "own_track (?ses (dp_sessionID (pub r'))) (pub r')"
    if r': "r' \<in> set rs" for r'
  proof -
    have "r' \<noteq> r" using Cons.prems(1) r' by auto
    then have "(dp_sessionID (pub r'), srw_localTrack (dp_p (pub r'))) \<noteq> (dp_sessionID p, srw_localTrack (dp_p p))"
      using inj_onD [OF Cons.prems(3), of r' r] r' by (auto simp: p_def)
    note others = others_kept [where ses = ses, OF s'(3,4) this]
    show "track_of ?ses (pub r') = track_of ses (pub r')" by (rule others(1))
    show "own_track (?ses (dp_sessionID (pub r'))) (pub r')"
      by (rule others(2)) (use Cons.prems(4) [of r'] r' in simp)
  qed
  have rest: "distinct rs" "inj_on (\<lambda>r. (dp_sessionID (pub r), srw_localTrack (dp_p (pub r)))) (set rs)"
    using Cons.prems(1,3) by auto
  have pubs: "?pubs r' = Some (pub r')" if "r' \<in> set rs" for r'
    using Cons.prems(1,2) that by auto
  have tracks: "track_fits (track_of ?ses (pub r')) \<and> own_track (?ses (dp_sessionID (pub r'))) (pub r')"
    if "r' \<in> set rs" for r'
    using kept [OF that] Cons.prems(4) [of r'] that by simp
  obtain ses' where ih: "date_tick_loop envs groupID ts rs (?pubs, ?ses) =
      (Inr (), (\<lambda>r. if r \<in> set rs \<and> lt_done (track_of ?ses (pub r)) \<noteq> None then None else ?pubs r, ses'))"
    "\<And>i. cn_streams (ses_conn (ses' i)) = cn_streams (ses_conn (?ses i)) @
       map (\<lambda>r. date_stream qv (lt_trackAlias (track_of ?ses (pub r))) groupID ts)
         (filter (\<lambda>r. dp_sessionID (pub r) = i \<and> lt_done (track_of ?ses (pub r)) = None) rs)"
    using Cons.IH [OF rest(1) pubs rest(2) tracks] by blast
  have "(\<lambda>x. if x \<in> set rs \<and> lt_done (track_of ?ses (pub x)) \<noteq> None then None else ?pubs x) =
      (\<lambda>x. if x \<in> set (r # rs) \<and> lt_done (track_of ses (pub x)) \<noteq> None then None else pubs x)"
    using kept(1) Cons.prems(1) by (auto simp: fun_eq_iff p_def)
  then have "date_tick_loop envs groupID ts (r # rs) (pubs, ses) =
      (Inr (), (\<lambda>x. if x \<in> set (r # rs) \<and> lt_done (track_of ses (pub x)) \<noteq> None then None else pubs x, ses'))"
    using ih(1) by (simp only: date_tick_loop.simps p(1) option.case s'(1) prod.case sum.case)
  moreover have "cn_streams (ses_conn (ses' i)) = cn_streams (ses_conn (ses i)) @
       map (\<lambda>r. date_stream qv (lt_trackAlias (track_of ses (pub r))) groupID ts)
         (filter (\<lambda>r. dp_sessionID (pub r) = i \<and> lt_done (track_of ses (pub r)) = None) (r # rs))" for i
    using ih(2) [of i] s'(2) kept(1) by (auto simp: p_def cong: filter_cong)
  ultimately show ?case by blast
qed simp

text \<open>The whole tick, and its stream at a subscriber.\<close>

lemma date_tick:
  assumes "\<And>i. reliable qv (envs i)" and "fits groupID" and "length ts \<le> maxAlloc"
    and order: "distinct (order (dom (mh_publishers h)))" "set (order (dom (mh_publishers h))) = dom (mh_publishers h)"
    and reg: "registered ses h"
  shows "\<exists>ses'. setupDateTrack_tick envs order groupID ts (h, ses) =
      (Inr (), (h\<lparr>mh_publishers := (\<lambda>r. case mh_publishers h r of None \<Rightarrow> None
          | Some p \<Rightarrow> if lt_done (track_of ses p) = None then Some p else None), mh_largestGroup := groupID\<rparr>, ses')) \<and>
    (\<forall>i. cn_streams (ses_conn (ses' i)) = cn_streams (ses_conn (ses i)) @
       map (\<lambda>p. date_stream qv (lt_trackAlias (track_of ses p)) groupID ts)
         (filter (\<lambda>p. dp_sessionID p = i \<and> lt_done (track_of ses p) = None)
           (map (\<lambda>r. the (mh_publishers h r)) (order (dom (mh_publishers h))))))"
proof -
  let ?rs = "order (dom (mh_publishers h))" and ?pub = "\<lambda>r. the (mh_publishers h r)"
  have pubs: "mh_publishers h r = Some (?pub r)" if "r \<in> set ?rs" for r using that order(2) by auto
  have dist: "inj_on (\<lambda>r. (dp_sessionID (?pub r), srw_localTrack (dp_p (?pub r)))) (set ?rs)"
    by (rule inj_onI) (use pubs reg in \<open>unfold registered_def, blast\<close>)
  have own: "track_fits (track_of ses (?pub r)) \<and> own_track (ses (dp_sessionID (?pub r))) (?pub r)"
    if "r \<in> set ?rs" for r
    using pubs [OF that] reg unfolding registered_def by blast
  obtain ses' where loop: "date_tick_loop envs groupID ts ?rs (mh_publishers h, ses) =
      (Inr (), (\<lambda>r. if r \<in> set ?rs \<and> lt_done (track_of ses (?pub r)) \<noteq> None then None else mh_publishers h r, ses'))"
    "\<And>i. cn_streams (ses_conn (ses' i)) = cn_streams (ses_conn (ses i)) @
       map (\<lambda>r. date_stream qv (lt_trackAlias (track_of ses (?pub r))) groupID ts)
         (filter (\<lambda>r. dp_sessionID (?pub r) = i \<and> lt_done (track_of ses (?pub r)) = None) ?rs)"
    using date_tick_loop_ok [where envs = envs, OF assms(1-3) order(1) pubs dist own] by auto
  have "(\<lambda>r. if r \<in> set ?rs \<and> lt_done (track_of ses (?pub r)) \<noteq> None then None else mh_publishers h r) =
      (\<lambda>r. case mh_publishers h r of None \<Rightarrow> None | Some p \<Rightarrow> if lt_done (track_of ses p) = None then Some p else None)"
    using order(2) by (auto simp: fun_eq_iff split: option.splits)
  then show ?thesis
    using loop by (auto simp: setupDateTrack_tick_def filter_map comp_def)
qed

lemma date_stream_delivered:
  assumes "env_qv env = qv" and "fits a" and "fits groupID" and "length ts \<le> maxAlloc"
    and "remoteTrackMap_findByTrackAlias (ses_remoteTracks s) a = Some rt"
    and "length (rt_buffer (ses_rt s rt)) < buffer_capacity"
  shows "\<exists>s'. readStreams_stream env (date_stream qv a groupID ts) s = Some (Inr (), s') \<and>
    rt_buffer (ses_rt s' rt) = rt_buffer (ses_rt s rt) @ [\<lparr>obj_GroupID = groupID, obj_ObjectID = 0,
      obj_ForwardingPreference = 0, obj_SubGroupID = 0, obj_Payload = ts\<rparr>]"
proof -
  let ?h = "\<lparr>shm_TrackAlias = a, shm_GroupID = groupID, shm_SubgroupID = 0, shm_PublisherPriority = 0\<rparr>"
  have "wf_subgroup_header ?h" "list_all wf_object [plain_object (0, ts)]"
    using assms(2-4) by (simp_all add: wf_subgroup_header_def sendable_def)
  from stream_delivers [OF assms(1) this, of s rt] assms(5,6) show ?thesis
    by (simp add: date_stream_def object_of_def subgroup_object_def subgroup_parser_def plain_object_def)
qed

end

text \<open>
  A subscriber is told that content exists from the start: the largest group is 0 also when
  nothing has been published.
\<close>

lemma date_claims_content:
  assumes "mh_publish h" and "asm_Namespace m = mh_namespace h" and "asm_Track m = mh_trackname h"
  shows "\<exists>options. date_getSubscribeHandler h m = Call (SubscribeAccept options) (\<lambda>_. Done) \<and>
    soo_ContentExists (apply_options options defaultSubscribeOkOptions)"
  using assms
  by (auto simp: date_getSubscribeHandler_def tupleEqual_eq apply_options_def WithLargestLocation_def)

end
