(* ===== verification/Adapters.thy ===== *)
theory Adapters
  imports Connection
begin

text \<open>
  The adapters of \<^verbatim>\<open>quicmoq\<close> and \<^verbatim>\<open>webtransportmoq\<close>, which give a connection of quic-go or a session of
  webtransport-go the interfaces of \<^verbatim>\<open>connection.go\<close>. The two libraries are parameters: records of
  the functions that the adapters call, over an abstract state of the network. Both adapters meet
  the same contract, a locale: what the library returns is passed on, with its handles wrapped one
  to one and its errors as they are, and the codes of errors are converted to the types of the
  library. Only the session error code of WebTransport is narrower than the code it is made from.
\<close>

section \<open>Names of protocols and perspectives\<close>

definition Protocol_String :: "Protocol \<Rightarrow> string" where
  "Protocol_String p = (case p of ProtocolQUIC \<Rightarrow> ''quic'' | ProtocolWebTransport \<Rightarrow> ''webtransport'')"

definition Perspective_String :: "Perspective \<Rightarrow> string" where
  "Perspective_String p = (case p of PerspectiveServer \<Rightarrow> ''server'' | PerspectiveClient \<Rightarrow> ''client'')"

section \<open>The libraries\<close>

text \<open>
  Handles of streams are of type \<open>'h\<close>, error codes of streams and of sessions of types \<open>'e\<close> and \<open>'q\<close>,
  stream IDs of type \<open>'i\<close>. A read returns the bytes it got, which may come with an error, a write
  the number of bytes it took.
\<close>

record ('w, 'h, 'e, 'i) stream_lib =
  lib_Read :: "'h \<Rightarrow> nat \<Rightarrow> 'w \<Rightarrow> (bytes \<times> go_error option) \<times> 'w"
  lib_Write :: "'h \<Rightarrow> bytes \<Rightarrow> 'w \<Rightarrow> (nat \<times> go_error option) \<times> 'w"
  lib_CloseStream :: "'h \<Rightarrow> ('w, unit) st"
  lib_CancelRead :: "'h \<Rightarrow> 'e \<Rightarrow> 'w \<Rightarrow> 'w"
  lib_CancelWrite :: "'h \<Rightarrow> 'e \<Rightarrow> 'w \<Rightarrow> 'w"
  lib_StreamID :: "'h \<Rightarrow> 'i"

record ('w, 'h, 'q, 'ctx) conn_lib =
  lib_AcceptStream :: "'ctx \<Rightarrow> ('w, 'h) st"
  lib_AcceptUniStream :: "'ctx \<Rightarrow> ('w, 'h) st"
  lib_OpenStream :: "('w, 'h) st"
  lib_OpenStreamSync :: "'ctx \<Rightarrow> ('w, 'h) st"
  lib_OpenUniStream :: "('w, 'h) st"
  lib_OpenUniStreamSync :: "'ctx \<Rightarrow> ('w, 'h) st"
  lib_SendDatagram :: "bytes \<Rightarrow> ('w, unit) st"
  lib_ReceiveDatagram :: "'ctx \<Rightarrow> ('w, bytes) st"
  lib_CloseWithError :: "'q \<Rightarrow> gostring \<Rightarrow> ('w, unit) st"
  lib_Context :: 'ctx

text \<open>
  In quic-go, the codes of streams and of applications are 64 bits wide and a stream ID is an
  \<^verbatim>\<open>int64\<close>; in webtransport-go, both codes are 32 bits wide and the stream ID is that of quic-go.
\<close>

type_synonym ('w, 'h) quic_stream_lib = "('w, 'h, 64 word, 64 word) stream_lib"
type_synonym ('w, 'h) wt_stream_lib = "('w, 'h, 32 word, 64 word) stream_lib"
type_synonym ('w, 'h, 'ctx) quic_lib = "('w, 'h, 64 word, 'ctx) conn_lib"
type_synonym ('w, 'h, 'ctx) wt_lib = "('w, 'h, 32 word, 'ctx) conn_lib"

section \<open>Streams\<close>

text \<open>The three wrappers of a stream hold its handle; \<^verbatim>\<open>Stream\<close> has the methods of the other two.\<close>

record 'h Stream =
  st_stream :: 'h

record 'h ReceiveStream =
  rs_stream :: 'h

record 'h SendStream =
  ss_stream :: 'h

definition Stream_Read :: "('w, 'h, 'e, 'i) stream_lib \<Rightarrow> 'h Stream \<Rightarrow> nat \<Rightarrow> 'w \<Rightarrow> (bytes \<times> go_error option) \<times> 'w" where
  "Stream_Read lib s p = lib_Read lib (st_stream s) p"

definition Stream_Write :: "('w, 'h, 'e, 'i) stream_lib \<Rightarrow> 'h Stream \<Rightarrow> bytes \<Rightarrow> 'w \<Rightarrow> (nat \<times> go_error option) \<times> 'w" where
  "Stream_Write lib s p = lib_Write lib (st_stream s) p"

definition Stream_Close :: "('w, 'h, 'e, 'i) stream_lib \<Rightarrow> 'h Stream \<Rightarrow> ('w, unit) st" where
  "Stream_Close lib s = lib_CloseStream lib (st_stream s)"

definition quic_Stream_Reset :: "('w, 'h) quic_stream_lib \<Rightarrow> 'h Stream \<Rightarrow> 32 word \<Rightarrow> 'w \<Rightarrow> 'w" where
  "quic_Stream_Reset lib s code = lib_CancelWrite lib (st_stream s) (ucast code)"

definition quic_Stream_Stop :: "('w, 'h) quic_stream_lib \<Rightarrow> 'h Stream \<Rightarrow> 32 word \<Rightarrow> 'w \<Rightarrow> 'w" where
  "quic_Stream_Stop lib s code = lib_CancelRead lib (st_stream s) (ucast code)"

definition wt_Stream_Reset :: "('w, 'h) wt_stream_lib \<Rightarrow> 'h Stream \<Rightarrow> 32 word \<Rightarrow> 'w \<Rightarrow> 'w" where
  "wt_Stream_Reset lib s code = lib_CancelWrite lib (st_stream s) code"

definition wt_Stream_Stop :: "('w, 'h) wt_stream_lib \<Rightarrow> 'h Stream \<Rightarrow> 32 word \<Rightarrow> 'w \<Rightarrow> 'w" where
  "wt_Stream_Stop lib s code = lib_CancelRead lib (st_stream s) code"

definition Stream_StreamID :: "('w, 'h, 'e, 64 word) stream_lib \<Rightarrow> 'h Stream \<Rightarrow> uint64" where
  "Stream_StreamID lib s = lib_StreamID lib (st_stream s)"

definition ReceiveStream_Read ::
  "('w, 'h, 'e, 'i) stream_lib \<Rightarrow> 'h ReceiveStream \<Rightarrow> nat \<Rightarrow> 'w \<Rightarrow> (bytes \<times> go_error option) \<times> 'w" where
  "ReceiveStream_Read lib r p = lib_Read lib (rs_stream r) p"

definition quic_ReceiveStream_Stop :: "('w, 'h) quic_stream_lib \<Rightarrow> 'h ReceiveStream \<Rightarrow> 32 word \<Rightarrow> 'w \<Rightarrow> 'w" where
  "quic_ReceiveStream_Stop lib r code = lib_CancelRead lib (rs_stream r) (ucast code)"

definition wt_ReceiveStream_Stop :: "('w, 'h) wt_stream_lib \<Rightarrow> 'h ReceiveStream \<Rightarrow> 32 word \<Rightarrow> 'w \<Rightarrow> 'w" where
  "wt_ReceiveStream_Stop lib r code = lib_CancelRead lib (rs_stream r) code"

definition ReceiveStream_StreamID :: "('w, 'h, 'e, 64 word) stream_lib \<Rightarrow> 'h ReceiveStream \<Rightarrow> uint64" where
  "ReceiveStream_StreamID lib r = lib_StreamID lib (rs_stream r)"

definition SendStream_Write ::
  "('w, 'h, 'e, 'i) stream_lib \<Rightarrow> 'h SendStream \<Rightarrow> bytes \<Rightarrow> 'w \<Rightarrow> (nat \<times> go_error option) \<times> 'w" where
  "SendStream_Write lib s p = lib_Write lib (ss_stream s) p"

definition SendStream_Close :: "('w, 'h, 'e, 'i) stream_lib \<Rightarrow> 'h SendStream \<Rightarrow> ('w, unit) st" where
  "SendStream_Close lib s = lib_CloseStream lib (ss_stream s)"

definition quic_SendStream_Reset :: "('w, 'h) quic_stream_lib \<Rightarrow> 'h SendStream \<Rightarrow> 32 word \<Rightarrow> 'w \<Rightarrow> 'w" where
  "quic_SendStream_Reset lib s code = lib_CancelWrite lib (ss_stream s) (ucast code)"

definition wt_SendStream_Reset :: "('w, 'h) wt_stream_lib \<Rightarrow> 'h SendStream \<Rightarrow> 32 word \<Rightarrow> 'w \<Rightarrow> 'w" where
  "wt_SendStream_Reset lib s code = lib_CancelWrite lib (ss_stream s) code"

definition SendStream_StreamID :: "('w, 'h, 'e, 64 word) stream_lib \<Rightarrow> 'h SendStream \<Rightarrow> uint64" where
  "SendStream_StreamID lib s = lib_StreamID lib (ss_stream s)"

section \<open>Connections\<close>

text \<open>The interface \<^verbatim>\<open>Connection\<close>, and its two implementations.\<close>

record ('w, 'h, 'ctx) moq_connection =
  mc_AcceptStream :: "'ctx \<Rightarrow> ('w, 'h Stream) st"
  mc_AcceptUniStream :: "'ctx \<Rightarrow> ('w, 'h ReceiveStream) st"
  mc_OpenStream :: "('w, 'h Stream) st"
  mc_OpenStreamSync :: "'ctx \<Rightarrow> ('w, 'h Stream) st"
  mc_OpenUniStream :: "('w, 'h SendStream) st"
  mc_OpenUniStreamSync :: "'ctx \<Rightarrow> ('w, 'h SendStream) st"
  mc_SendDatagram :: "bytes \<Rightarrow> ('w, unit) st"
  mc_ReceiveDatagram :: "'ctx \<Rightarrow> ('w, bytes) st"
  mc_CloseWithError :: "uint64 \<Rightarrow> gostring \<Rightarrow> ('w, unit) st"
  mc_Context :: 'ctx
  mc_Protocol :: Protocol
  mc_Perspective :: Perspective

definition quicmoq_AcceptStream :: "('w, 'h, 'ctx) quic_lib \<Rightarrow> 'ctx \<Rightarrow> ('w, 'h Stream) st" where
  "quicmoq_AcceptStream lib ctx = bindS (lib_AcceptStream lib ctx) (\<lambda>s. returnS \<lparr>st_stream = s\<rparr>)"

definition quicmoq_AcceptUniStream :: "('w, 'h, 'ctx) quic_lib \<Rightarrow> 'ctx \<Rightarrow> ('w, 'h ReceiveStream) st" where
  "quicmoq_AcceptUniStream lib ctx = bindS (lib_AcceptUniStream lib ctx) (\<lambda>s. returnS \<lparr>rs_stream = s\<rparr>)"

definition quicmoq_OpenStream :: "('w, 'h, 'ctx) quic_lib \<Rightarrow> ('w, 'h Stream) st" where
  "quicmoq_OpenStream lib = bindS (lib_OpenStream lib) (\<lambda>s. returnS \<lparr>st_stream = s\<rparr>)"

definition quicmoq_OpenStreamSync :: "('w, 'h, 'ctx) quic_lib \<Rightarrow> 'ctx \<Rightarrow> ('w, 'h Stream) st" where
  "quicmoq_OpenStreamSync lib ctx = bindS (lib_OpenStreamSync lib ctx) (\<lambda>s. returnS \<lparr>st_stream = s\<rparr>)"

definition quicmoq_OpenUniStream :: "('w, 'h, 'ctx) quic_lib \<Rightarrow> ('w, 'h SendStream) st" where
  "quicmoq_OpenUniStream lib = bindS (lib_OpenUniStream lib) (\<lambda>s. returnS \<lparr>ss_stream = s\<rparr>)"

definition quicmoq_OpenUniStreamSync :: "('w, 'h, 'ctx) quic_lib \<Rightarrow> 'ctx \<Rightarrow> ('w, 'h SendStream) st" where
  "quicmoq_OpenUniStreamSync lib ctx = bindS (lib_OpenUniStreamSync lib ctx) (\<lambda>s. returnS \<lparr>ss_stream = s\<rparr>)"

definition quicmoq_SendDatagram :: "('w, 'h, 'ctx) quic_lib \<Rightarrow> bytes \<Rightarrow> ('w, unit) st" where
  "quicmoq_SendDatagram lib b = lib_SendDatagram lib b"

definition quicmoq_ReceiveDatagram :: "('w, 'h, 'ctx) quic_lib \<Rightarrow> 'ctx \<Rightarrow> ('w, bytes) st" where
  "quicmoq_ReceiveDatagram lib ctx = lib_ReceiveDatagram lib ctx"

definition quicmoq_CloseWithError :: "('w, 'h, 'ctx) quic_lib \<Rightarrow> uint64 \<Rightarrow> gostring \<Rightarrow> ('w, unit) st" where
  "quicmoq_CloseWithError lib e msg = lib_CloseWithError lib e msg"

definition quicmoq_New :: "('w, 'h, 'ctx) quic_lib \<Rightarrow> Perspective \<Rightarrow> ('w, 'h, 'ctx) moq_connection" where
  "quicmoq_New lib perspective =
     \<lparr>mc_AcceptStream = quicmoq_AcceptStream lib, mc_AcceptUniStream = quicmoq_AcceptUniStream lib,
      mc_OpenStream = quicmoq_OpenStream lib, mc_OpenStreamSync = quicmoq_OpenStreamSync lib,
      mc_OpenUniStream = quicmoq_OpenUniStream lib, mc_OpenUniStreamSync = quicmoq_OpenUniStreamSync lib,
      mc_SendDatagram = quicmoq_SendDatagram lib, mc_ReceiveDatagram = quicmoq_ReceiveDatagram lib,
      mc_CloseWithError = quicmoq_CloseWithError lib, mc_Context = lib_Context lib,
      mc_Protocol = ProtocolQUIC, mc_Perspective = perspective\<rparr>"

definition quicmoq_NewServer :: "('w, 'h, 'ctx) quic_lib \<Rightarrow> ('w, 'h, 'ctx) moq_connection" where
  "quicmoq_NewServer lib = quicmoq_New lib PerspectiveServer"

definition quicmoq_NewClient :: "('w, 'h, 'ctx) quic_lib \<Rightarrow> ('w, 'h, 'ctx) moq_connection" where
  "quicmoq_NewClient lib = quicmoq_New lib PerspectiveClient"

definition webtransportmoq_AcceptStream :: "('w, 'h, 'ctx) wt_lib \<Rightarrow> 'ctx \<Rightarrow> ('w, 'h Stream) st" where
  "webtransportmoq_AcceptStream lib ctx = bindS (lib_AcceptStream lib ctx) (\<lambda>s. returnS \<lparr>st_stream = s\<rparr>)"

definition webtransportmoq_AcceptUniStream :: "('w, 'h, 'ctx) wt_lib \<Rightarrow> 'ctx \<Rightarrow> ('w, 'h ReceiveStream) st" where
  "webtransportmoq_AcceptUniStream lib ctx = bindS (lib_AcceptUniStream lib ctx) (\<lambda>s. returnS \<lparr>rs_stream = s\<rparr>)"

definition webtransportmoq_OpenStream :: "('w, 'h, 'ctx) wt_lib \<Rightarrow> ('w, 'h Stream) st" where
  "webtransportmoq_OpenStream lib = bindS (lib_OpenStream lib) (\<lambda>s. returnS \<lparr>st_stream = s\<rparr>)"

definition webtransportmoq_OpenStreamSync :: "('w, 'h, 'ctx) wt_lib \<Rightarrow> 'ctx \<Rightarrow> ('w, 'h Stream) st" where
  "webtransportmoq_OpenStreamSync lib ctx = bindS (lib_OpenStreamSync lib ctx) (\<lambda>s. returnS \<lparr>st_stream = s\<rparr>)"

definition webtransportmoq_OpenUniStream :: "('w, 'h, 'ctx) wt_lib \<Rightarrow> ('w, 'h SendStream) st" where
  "webtransportmoq_OpenUniStream lib = bindS (lib_OpenUniStream lib) (\<lambda>s. returnS \<lparr>ss_stream = s\<rparr>)"

definition webtransportmoq_OpenUniStreamSync :: "('w, 'h, 'ctx) wt_lib \<Rightarrow> 'ctx \<Rightarrow> ('w, 'h SendStream) st" where
  "webtransportmoq_OpenUniStreamSync lib ctx = bindS (lib_OpenUniStreamSync lib ctx) (\<lambda>s. returnS \<lparr>ss_stream = s\<rparr>)"

definition webtransportmoq_SendDatagram :: "('w, 'h, 'ctx) wt_lib \<Rightarrow> bytes \<Rightarrow> ('w, unit) st" where
  "webtransportmoq_SendDatagram lib b = lib_SendDatagram lib b"

definition webtransportmoq_ReceiveDatagram :: "('w, 'h, 'ctx) wt_lib \<Rightarrow> 'ctx \<Rightarrow> ('w, bytes) st" where
  "webtransportmoq_ReceiveDatagram lib ctx = lib_ReceiveDatagram lib ctx"

definition webtransportmoq_CloseWithError :: "('w, 'h, 'ctx) wt_lib \<Rightarrow> uint64 \<Rightarrow> gostring \<Rightarrow> ('w, unit) st" where
  "webtransportmoq_CloseWithError lib e msg = lib_CloseWithError lib (ucast e) msg"

definition webtransportmoq_New :: "('w, 'h, 'ctx) wt_lib \<Rightarrow> Perspective \<Rightarrow> ('w, 'h, 'ctx) moq_connection" where
  "webtransportmoq_New lib perspective =
     \<lparr>mc_AcceptStream = webtransportmoq_AcceptStream lib, mc_AcceptUniStream = webtransportmoq_AcceptUniStream lib,
      mc_OpenStream = webtransportmoq_OpenStream lib, mc_OpenStreamSync = webtransportmoq_OpenStreamSync lib,
      mc_OpenUniStream = webtransportmoq_OpenUniStream lib, mc_OpenUniStreamSync = webtransportmoq_OpenUniStreamSync lib,
      mc_SendDatagram = webtransportmoq_SendDatagram lib, mc_ReceiveDatagram = webtransportmoq_ReceiveDatagram lib,
      mc_CloseWithError = webtransportmoq_CloseWithError lib, mc_Context = lib_Context lib,
      mc_Protocol = ProtocolWebTransport, mc_Perspective = perspective\<rparr>"

definition webtransportmoq_NewServer :: "('w, 'h, 'ctx) wt_lib \<Rightarrow> ('w, 'h, 'ctx) moq_connection" where
  "webtransportmoq_NewServer lib = webtransportmoq_New lib PerspectiveServer"

definition webtransportmoq_NewClient :: "('w, 'h, 'ctx) wt_lib \<Rightarrow> ('w, 'h, 'ctx) moq_connection" where
  "webtransportmoq_NewClient lib = webtransportmoq_New lib PerspectiveClient"

section \<open>The contract of an adapter\<close>

text \<open>
  \<open>passes_on wrap m n\<close>: the adapter's \<open>m\<close> does what the library's \<open>n\<close> does, and gives its result
  with the handle wrapped, or its error.
\<close>

definition passes_on :: "('a \<Rightarrow> 'b) \<Rightarrow> ('w, 'b) st \<Rightarrow> ('w, 'a) st \<Rightarrow> bool" where
  "passes_on wrap m n \<longleftrightarrow> (\<forall>w. m w = map_prod (map_sum id wrap) id (n w))"

locale adapter =
  fixes lib :: "('w, 'h, 'q, 'ctx) conn_lib"
    and c :: "('w, 'h, 'ctx) moq_connection"
    and code :: "uint64 \<Rightarrow> 'q"
  assumes accept: "passes_on (\<lambda>s. \<lparr>st_stream = s\<rparr>) (mc_AcceptStream c ctx) (lib_AcceptStream lib ctx)"
    and accept_uni: "passes_on (\<lambda>s. \<lparr>rs_stream = s\<rparr>) (mc_AcceptUniStream c ctx) (lib_AcceptUniStream lib ctx)"
    and opened: "passes_on (\<lambda>s. \<lparr>st_stream = s\<rparr>) (mc_OpenStream c) (lib_OpenStream lib)"
    and opened_sync: "passes_on (\<lambda>s. \<lparr>st_stream = s\<rparr>) (mc_OpenStreamSync c ctx) (lib_OpenStreamSync lib ctx)"
    and opened_uni: "passes_on (\<lambda>s. \<lparr>ss_stream = s\<rparr>) (mc_OpenUniStream c) (lib_OpenUniStream lib)"
    and opened_uni_sync: "passes_on (\<lambda>s. \<lparr>ss_stream = s\<rparr>) (mc_OpenUniStreamSync c ctx) (lib_OpenUniStreamSync lib ctx)"
    and datagrams: "mc_SendDatagram c b = lib_SendDatagram lib b" "mc_ReceiveDatagram c ctx = lib_ReceiveDatagram lib ctx"
    and closing: "mc_CloseWithError c e msg = lib_CloseWithError lib (code e) msg"
begin

text \<open>An operation fails exactly when the library fails, with the same error.\<close>

lemma same_errors:
  "fst (mc_AcceptStream c ctx w) = Inl e \<longleftrightarrow> fst (lib_AcceptStream lib ctx w) = Inl e"
  "fst (mc_AcceptUniStream c ctx w) = Inl e \<longleftrightarrow> fst (lib_AcceptUniStream lib ctx w) = Inl e"
  "fst (mc_OpenStream c w) = Inl e \<longleftrightarrow> fst (lib_OpenStream lib w) = Inl e"
  "fst (mc_OpenStreamSync c ctx w) = Inl e \<longleftrightarrow> fst (lib_OpenStreamSync lib ctx w) = Inl e"
  "fst (mc_OpenUniStream c w) = Inl e \<longleftrightarrow> fst (lib_OpenUniStream lib w) = Inl e"
  "fst (mc_OpenUniStreamSync c ctx w) = Inl e \<longleftrightarrow> fst (lib_OpenUniStreamSync lib ctx w) = Inl e"
  using accept accept_uni opened opened_sync opened_uni opened_uni_sync
  by (simp_all add: passes_on_def map_sum_def split: sum.split)

end

interpretation quicmoq: adapter lib "quicmoq_New lib perspective" id for lib perspective
  by unfold_locales
    (auto simp: passes_on_def quicmoq_New_def quicmoq_AcceptStream_def quicmoq_AcceptUniStream_def
      quicmoq_OpenStream_def quicmoq_OpenStreamSync_def quicmoq_OpenUniStream_def
      quicmoq_OpenUniStreamSync_def quicmoq_SendDatagram_def quicmoq_ReceiveDatagram_def
      quicmoq_CloseWithError_def bindS_def returnS_def split: prod.splits sum.splits)

interpretation webtransportmoq: adapter lib "webtransportmoq_New lib perspective" ucast for lib perspective
  by unfold_locales
    (auto simp: passes_on_def webtransportmoq_New_def webtransportmoq_AcceptStream_def
      webtransportmoq_AcceptUniStream_def webtransportmoq_OpenStream_def webtransportmoq_OpenStreamSync_def
      webtransportmoq_OpenUniStream_def webtransportmoq_OpenUniStreamSync_def
      webtransportmoq_SendDatagram_def webtransportmoq_ReceiveDatagram_def
      webtransportmoq_CloseWithError_def bindS_def returnS_def split: prod.splits sum.splits)

text \<open>
  A session error code of 32 bits reaches the peer over both transports. Over WebTransport a wider
  one is cut to its low 32 bits, so that a code can arrive as the code for no error.
\<close>

lemma session_code_kept: "unat e < 2 ^ 32 \<Longrightarrow> unat (ucast (e :: uint64) :: 32 word) = unat e"
  by (simp add: unsigned_ucast_eq take_bit_nat_eq_self)

lemma session_code_cut: "mc_CloseWithError (webtransportmoq_New lib p) (2 ^ 32) msg = lib_CloseWithError lib 0 msg"
proof -
  have "unat (ucast (2 ^ 32 :: uint64) :: 32 word) = 0"
    unfolding unsigned_ucast_eq by (simp add: take_bit_eq_mod)
  then have "(ucast (2 ^ 32 :: uint64) :: 32 word) = 0" by (simp only: unat_eq_0)
  then show ?thesis by (simp only: webtransportmoq.closing)
qed

end
