(* ===== verification/Cmd_Line.thy ===== *)
theory Cmd_Line
  imports Fec_App Date_App Adapters
begin

text \<open>
  The command lines of the three example programs: \<^verbatim>\<open>parseOptions\<close>, \<^verbatim>\<open>run\<close>, \<^verbatim>\<open>runServer\<close> and
  \<^verbatim>\<open>runClient\<close> of \<^verbatim>\<open>examples/counter/main.go\<close>, \<^verbatim>\<open>fec/xor/example/main.go\<close> and
  \<^verbatim>\<open>examples/date/main.go\<close>, over a model of what they use of Go's package \<^verbatim>\<open>flag\<close>. The lemmas show
  that every set of options can be given on the command line, and which handlers the programs start
  with. Certificates and dialling are parameters; the usage text that \<^verbatim>\<open>-h\<close> prints is left out.
\<close>

section \<open>Package flag\<close>

datatype flag_error =
    ErrHelp
  | BadSyntax gostring
  | NotDefined gostring
  | InvalidBool gostring gostring
  | NeedsArgument gostring

datatype 'o flag = StringVar "gostring \<Rightarrow> 'o \<Rightarrow> 'o" | BoolVar "bool \<Rightarrow> 'o \<Rightarrow> 'o"

type_synonym 'o flagset = "(gostring \<times> 'o flag) list"

definition ParseBool :: "gostring \<Rightarrow> bool option" where
  "ParseBool str =
     (if str \<in> {ascii ''1'', ascii ''t'', ascii ''T'', ascii ''true'', ascii ''TRUE'', ascii ''True''} then Some True
      else if str \<in> {ascii ''0'', ascii ''f'', ascii ''F'', ascii ''false'', ascii ''FALSE'', ascii ''False''} then Some False
      else None)"

definition dash :: byte where "dash = 0x2d"
definition equals_sign :: byte where "equals_sign = 0x3d"

text \<open>The name and the value of \<^verbatim>\<open>name=value\<close>, cut at the first equals sign.\<close>

fun cut :: "gostring \<Rightarrow> gostring \<times> gostring option" where
  "cut [] = ([], None)"
| "cut (c # cs) = (if c = equals_sign then ([], Some cs) else (case cut cs of (a, v) \<Rightarrow> (c # a, v)))"

text \<open>
  \<^verbatim>\<open>FlagSet.parseOne\<close>: whether a flag was seen and the error, the rest of the arguments, and the
  variables. A boolean that does not parse sets its variable to false.
\<close>

definition set_bool :: "(bool \<Rightarrow> 'o \<Rightarrow> 'o) \<Rightarrow> gostring \<Rightarrow> gostring \<Rightarrow> gostring list \<Rightarrow> 'o \<Rightarrow>
    (bool \<times> flag_error option) \<times> gostring list \<times> 'o" where
  "set_bool put name value args o' =
     (case ParseBool value of
        None \<Rightarrow> ((False, Some (InvalidBool value name)), args, put False o')
      | Some b \<Rightarrow> ((True, None), args, put b o'))"

definition parseFlag :: "'o flagset \<Rightarrow> gostring \<Rightarrow> gostring option \<Rightarrow> gostring list \<Rightarrow> 'o \<Rightarrow>
    (bool \<times> flag_error option) \<times> gostring list \<times> 'o" where
  "parseFlag fs name value args o' =
     (case map_of fs name of
        None \<Rightarrow>
          if name = ascii ''help'' \<or> name = ascii ''h'' then ((False, Some ErrHelp), args, o')
          else ((False, Some (NotDefined name)), args, o')
      | Some (BoolVar put) \<Rightarrow>
          set_bool put name (case value of None \<Rightarrow> ascii ''true'' | Some v \<Rightarrow> v) args o'
      | Some (StringVar put) \<Rightarrow>
          (case value of
             Some v \<Rightarrow> ((True, None), args, put v o')
           | None \<Rightarrow>
               (case args of
                  [] \<Rightarrow> ((False, Some (NeedsArgument name)), args, o')
                | v # args \<Rightarrow> ((True, None), args, put v o'))))"

fun parseOne :: "'o flagset \<Rightarrow> gostring list \<Rightarrow> 'o \<Rightarrow> (bool \<times> flag_error option) \<times> gostring list \<times> 'o" where
  "parseOne fs [] o' = ((False, None), [], o')"
| "parseOne fs (s # args) o' =
     (if length s < 2 \<or> s ! 0 \<noteq> dash then ((False, None), s # args, o')
      else if s = [dash, dash] then ((False, None), args, o')
      else let name = drop (if s ! 1 = dash then 2 else 1) s
           in if name = [] \<or> name ! 0 = dash \<or> name ! 0 = equals_sign
              then ((False, Some (BadSyntax s)), s # args, o')
              else case cut (tl name) of (rest, value) \<Rightarrow> parseFlag fs (hd name # rest) value args o')"

lemma parseOne_shorter: "parseOne fs args o' = ((True, err), args', o'') \<Longrightarrow> length args' < length args"
  by (cases args)
    (auto simp: Let_def parseFlag_def set_bool_def split: if_splits option.splits flag.splits prod.splits list.splits)

text \<open>\<^verbatim>\<open>FlagSet.Parse\<close> with \<^verbatim>\<open>ContinueOnError\<close>.\<close>

function flag_Parse :: "'o flagset \<Rightarrow> gostring list \<Rightarrow> 'o \<Rightarrow> flag_error option \<times> 'o" where
  "flag_Parse fs args o' =
     (case parseOne fs args o' of
        ((seen, err), args', o'') \<Rightarrow>
          if seen then flag_Parse fs args' o'' else (err, o''))"
  by pat_completeness auto
termination
  by (relation "measure (\<lambda>(_, args, _). length args)") (auto dest: parseOne_shorter [OF sym])

declare flag_Parse.simps [simp del]

section \<open>Certificates, dialling and the outcome of a program\<close>

text \<open>
  The parameters: reading a certificate and its key from files, the three steps that make a
  certificate in memory, and dialling an address with a TLS configuration.
\<close>

record 'c tlsConfig =
  tls_Certificates :: "'c list"
  tls_NextProtos :: "gostring list"
  tls_InsecureSkipVerify :: bool

record ('k, 'd, 'c) crypto =
  cr_LoadX509KeyPair :: "gostring \<Rightarrow> gostring \<Rightarrow> 'c result"
  cr_GenerateKey :: "'k result"
  cr_CreateCertificate :: "'k \<Rightarrow> 'd result"
  cr_X509KeyPair :: "'d \<Rightarrow> 'k \<Rightarrow> 'c result"

definition moq_00 :: gostring where "moq_00 = ascii ''moq-00''"
definition h3 :: gostring where "h3 = ascii ''h3''"

definition generateTLSConfigWithCertAndKey ::
  "('k, 'd, 'c) crypto \<Rightarrow> gostring \<Rightarrow> gostring \<Rightarrow> 'c tlsConfig result" where
  "generateTLSConfigWithCertAndKey cr certFile keyFile =
     bindR (cr_LoadX509KeyPair cr certFile keyFile) (\<lambda>cert.
     Inr \<lparr>tls_Certificates = [cert], tls_NextProtos = [moq_00], tls_InsecureSkipVerify = False\<rparr>)"

definition generateTLSConfig :: "('k, 'd, 'c) crypto \<Rightarrow> 'c tlsConfig result" where
  "generateTLSConfig cr =
     bindR (cr_GenerateKey cr) (\<lambda>key.
     bindR (cr_CreateCertificate cr key) (\<lambda>certDER.
     bindR (cr_X509KeyPair cr certDER key) (\<lambda>tlsCert.
     Inr \<lparr>tls_Certificates = [tlsCert], tls_NextProtos = [moq_00], tls_InsecureSkipVerify = False\<rparr>)))"

text \<open>
  The copies of this code in the other two programs; the date program also speaks HTTP/3.
\<close>

definition xor_generateTLSConfigWithCertAndKey ::
  "('k, 'd, 'c) crypto \<Rightarrow> gostring \<Rightarrow> gostring \<Rightarrow> 'c tlsConfig result" where
  "xor_generateTLSConfigWithCertAndKey cr certFile keyFile =
     bindR (cr_LoadX509KeyPair cr certFile keyFile) (\<lambda>cert.
     Inr \<lparr>tls_Certificates = [cert], tls_NextProtos = [moq_00], tls_InsecureSkipVerify = False\<rparr>)"

definition xor_generateTLSConfig :: "('k, 'd, 'c) crypto \<Rightarrow> 'c tlsConfig result" where
  "xor_generateTLSConfig cr =
     bindR (cr_GenerateKey cr) (\<lambda>key.
     bindR (cr_CreateCertificate cr key) (\<lambda>certDER.
     bindR (cr_X509KeyPair cr certDER key) (\<lambda>tlsCert.
     Inr \<lparr>tls_Certificates = [tlsCert], tls_NextProtos = [moq_00], tls_InsecureSkipVerify = False\<rparr>)))"

definition date_generateTLSConfigWithCertAndKey ::
  "('k, 'd, 'c) crypto \<Rightarrow> gostring \<Rightarrow> gostring \<Rightarrow> 'c tlsConfig result" where
  "date_generateTLSConfigWithCertAndKey cr certFile keyFile =
     bindR (cr_LoadX509KeyPair cr certFile keyFile) (\<lambda>cert.
     Inr \<lparr>tls_Certificates = [cert], tls_NextProtos = [moq_00, h3], tls_InsecureSkipVerify = False\<rparr>)"

definition date_generateTLSConfig :: "('k, 'd, 'c) crypto \<Rightarrow> 'c tlsConfig result" where
  "date_generateTLSConfig cr =
     bindR (cr_GenerateKey cr) (\<lambda>key.
     bindR (cr_CreateCertificate cr key) (\<lambda>certDER.
     bindR (cr_X509KeyPair cr certDER key) (\<lambda>tlsCert.
     Inr \<lparr>tls_Certificates = [tlsCert], tls_NextProtos = [moq_00, h3], tls_InsecureSkipVerify = False\<rparr>)))"

text \<open>
  The first half of \<^verbatim>\<open>runServer\<close>: the certificate of the files, else one made in memory; \<^term>\<open>None\<close> when
  both ways fail and \<^verbatim>\<open>log.Fatal\<close> ends the program.
\<close>

definition server_tls :: "'c tlsConfig result \<Rightarrow> 'c tlsConfig result \<Rightarrow> 'c tlsConfig option" where
  "server_tls from_files in_memory =
     (case from_files of
        Inr cfg \<Rightarrow> Some cfg
      | Inl _ \<Rightarrow> (case in_memory of Inr cfg \<Rightarrow> Some cfg | Inl _ \<Rightarrow> None))"

text \<open>
  What a program does: it ends with an exit code, or it listens or dials with the handler it made.
  The handler of the Go code also holds the address and the TLS configuration.
\<close>

datatype ('h, 'c) program =
    Exits nat
  | Listens gostring "'c tlsConfig" 'h
  | Dials gostring Protocol 'h
  | Crashes

text \<open>
  \<^verbatim>\<open>main\<close> and \<^verbatim>\<open>run\<close>, common to the three programs: a request for help ends the program without an
  error, any other error of the options ends it with exit code 1.
\<close>

definition run_main ::
  "('o \<times> flag_error option) result \<Rightarrow> ('o \<Rightarrow> bool) \<Rightarrow> ('o \<Rightarrow> ('h, 'c) program) \<Rightarrow> ('o \<Rightarrow> ('h, 'c) program) \<Rightarrow>
     ('h, 'c) program" where
  "run_main parsed server runServer runClient =
     (case parsed of
        Inl _ \<Rightarrow> Crashes
      | Inr (opts, Some err) \<Rightarrow> if err = ErrHelp then Exits 0 else Exits 1
      | Inr (opts, None) \<Rightarrow> if server opts then runServer opts else runClient opts)"

section \<open>examples/counter\<close>

record options =
  opt_certFile :: gostring
  opt_keyFile :: gostring
  opt_addr :: gostring
  opt_server :: bool
  opt_publish :: bool
  opt_subscribe :: bool
  opt_namespace :: gostring
  opt_trackname :: gostring

definition counter_flags :: "options flagset" where
  "counter_flags =
     [(ascii ''cert'', StringVar (\<lambda>v opts. opts\<lparr>opt_certFile := v\<rparr>)),
      (ascii ''key'', StringVar (\<lambda>v opts. opts\<lparr>opt_keyFile := v\<rparr>)),
      (ascii ''addr'', StringVar (\<lambda>v opts. opts\<lparr>opt_addr := v\<rparr>)),
      (ascii ''server'', BoolVar (\<lambda>v opts. opts\<lparr>opt_server := v\<rparr>)),
      (ascii ''publish'', BoolVar (\<lambda>v opts. opts\<lparr>opt_publish := v\<rparr>)),
      (ascii ''subscribe'', BoolVar (\<lambda>v opts. opts\<lparr>opt_subscribe := v\<rparr>)),
      (ascii ''namespace'', StringVar (\<lambda>v opts. opts\<lparr>opt_namespace := v\<rparr>)),
      (ascii ''trackname'', StringVar (\<lambda>v opts. opts\<lparr>opt_trackname := v\<rparr>))]"

definition counter_defaults :: options where
  "counter_defaults =
     \<lparr>opt_certFile = ascii ''localhost.pem'', opt_keyFile = ascii ''localhost-key.pem'',
      opt_addr = ascii ''localhost:8080'', opt_server = False, opt_publish = False,
      opt_subscribe = False, opt_namespace = ascii ''counter'', opt_trackname = ascii ''count''\<rparr>"

text \<open>\<^verbatim>\<open>args[1:]\<close> panics without a program name.\<close>

definition parseOptions :: "gostring list \<Rightarrow> (options \<times> flag_error option) result" where
  "parseOptions args =
     bindR (slice_from args 1) (\<lambda>args.
     case flag_Parse counter_flags args counter_defaults of (err, opts) \<Rightarrow> Inr (opts, err))"

definition runServer :: "('k, 'd, 'c) crypto \<Rightarrow> options \<Rightarrow> (counterHandler, 'c) program" where
  "runServer cr opts =
     (case server_tls (generateTLSConfigWithCertAndKey cr (opt_certFile opts) (opt_keyFile opts))
             (generateTLSConfig cr) of
        None \<Rightarrow> Exits 1
      | Some tlsConfig \<Rightarrow>
          Listens (opt_addr opts) tlsConfig
            \<lparr>ch_namespace = [opt_namespace opts], ch_trackname = opt_trackname opts,
             ch_publish = opt_publish opts, ch_subscribe = False, ch_nextSessionID = 0,
             ch_publishers = []\<rparr>)"

definition runClient :: "options \<Rightarrow> (counterHandler, 'c) program" where
  "runClient opts =
     Dials (opt_addr opts) ProtocolQUIC
       \<lparr>ch_namespace = [opt_namespace opts], ch_trackname = opt_trackname opts,
        ch_publish = False, ch_subscribe = opt_subscribe opts, ch_nextSessionID = 0,
        ch_publishers = []\<rparr>"

definition counter_run :: "('k, 'd, 'c) crypto \<Rightarrow> gostring list \<Rightarrow> (counterHandler, 'c) program" where
  "counter_run cr args = run_main (parseOptions args) opt_server (runServer cr) runClient"

text \<open>
  A client dials with QUIC and handles the connection; a server handles the connections that have
  negotiated \<^verbatim>\<open>moq-00\<close>, until \<^verbatim>\<open>Accept\<close> fails.
\<close>

definition dialQUIC ::
  "(gostring \<Rightarrow> 'c tlsConfig \<Rightarrow> ('w, 'h, 'ctx) quic_lib result) \<Rightarrow> gostring \<Rightarrow> ('w, 'h, 'ctx) moq_connection result" where
  "dialQUIC DialAddr addr =
     bindR (DialAddr addr \<lparr>tls_Certificates = [], tls_NextProtos = [moq_00], tls_InsecureSkipVerify = True\<rparr>) (\<lambda>conn.
     Inr (quicmoq_NewClient conn))"

fun counter_runServer_loop ::
  "(('w, 'h, 'ctx) quic_lib \<times> gostring) list \<Rightarrow> ('w, 'h, 'ctx) moq_connection list" where
  "counter_runServer_loop [] = []"
| "counter_runServer_loop ((conn, NegotiatedProtocol) # conns) =
     (if NegotiatedProtocol = moq_00 then quicmoq_NewServer conn # counter_runServer_loop conns
      else counter_runServer_loop conns)"

section \<open>fec/xor/example\<close>

text \<open>
  The flags, their defaults and \<^verbatim>\<open>run\<close> are those of \<^verbatim>\<open>examples/counter\<close>, in a copy of the code; the
  handler is the one of this program.
\<close>

definition xor_parseOptions :: "gostring list \<Rightarrow> (options \<times> flag_error option) result" where
  "xor_parseOptions args =
     bindR (slice_from args 1) (\<lambda>args.
     case flag_Parse counter_flags args counter_defaults of (err, opts) \<Rightarrow> Inr (opts, err))"

definition xor_runServer :: "('k, 'd, 'c) crypto \<Rightarrow> options \<Rightarrow> (xorHandler, 'c) program" where
  "xor_runServer cr opts =
     (case server_tls (xor_generateTLSConfigWithCertAndKey cr (opt_certFile opts) (opt_keyFile opts))
             (xor_generateTLSConfig cr) of
        None \<Rightarrow> Exits 1
      | Some tlsConfig \<Rightarrow>
          Listens (opt_addr opts) tlsConfig
            \<lparr>xh_namespace = [opt_namespace opts], xh_trackname = opt_trackname opts,
             xh_publish = opt_publish opts, xh_subscribe = False, xh_nextSessionID = 0,
             xh_publishers = []\<rparr>)"

definition xor_runClient :: "options \<Rightarrow> (xorHandler, 'c) program" where
  "xor_runClient opts =
     Dials (opt_addr opts) ProtocolQUIC
       \<lparr>xh_namespace = [opt_namespace opts], xh_trackname = opt_trackname opts,
        xh_publish = False, xh_subscribe = opt_subscribe opts, xh_nextSessionID = 0,
        xh_publishers = []\<rparr>"

definition xor_run :: "('k, 'd, 'c) crypto \<Rightarrow> gostring list \<Rightarrow> (xorHandler, 'c) program" where
  "xor_run cr args = run_main (xor_parseOptions args) opt_server (xor_runServer cr) xor_runClient"

definition xor_dialQUIC ::
  "(gostring \<Rightarrow> 'c tlsConfig \<Rightarrow> ('w, 'h, 'ctx) quic_lib result) \<Rightarrow> gostring \<Rightarrow> ('w, 'h, 'ctx) moq_connection result" where
  "xor_dialQUIC DialAddr addr =
     bindR (DialAddr addr \<lparr>tls_Certificates = [], tls_NextProtos = [moq_00], tls_InsecureSkipVerify = True\<rparr>) (\<lambda>conn.
     Inr (quicmoq_NewClient conn))"

fun xor_runServer_loop ::
  "(('w, 'h, 'ctx) quic_lib \<times> gostring) list \<Rightarrow> ('w, 'h, 'ctx) moq_connection list" where
  "xor_runServer_loop [] = []"
| "xor_runServer_loop ((conn, NegotiatedProtocol) # conns) =
     (if NegotiatedProtocol = moq_00 then quicmoq_NewServer conn # xor_runServer_loop conns
      else xor_runServer_loop conns)"

section \<open>examples/date\<close>

record date_options = options +
  opt_webtransport :: bool

definition date_flags :: "date_options flagset" where
  "date_flags =
     [(ascii ''cert'', StringVar (\<lambda>v opts. opts\<lparr>opt_certFile := v\<rparr>)),
      (ascii ''key'', StringVar (\<lambda>v opts. opts\<lparr>opt_keyFile := v\<rparr>)),
      (ascii ''addr'', StringVar (\<lambda>v opts. opts\<lparr>opt_addr := v\<rparr>)),
      (ascii ''server'', BoolVar (\<lambda>v opts. opts\<lparr>opt_server := v\<rparr>)),
      (ascii ''publish'', BoolVar (\<lambda>v opts. opts\<lparr>opt_publish := v\<rparr>)),
      (ascii ''subscribe'', BoolVar (\<lambda>v opts. opts\<lparr>opt_subscribe := v\<rparr>)),
      (ascii ''webtransport'', BoolVar (\<lambda>v opts. opts\<lparr>opt_webtransport := v\<rparr>)),
      (ascii ''namespace'', StringVar (\<lambda>v opts. opts\<lparr>opt_namespace := v\<rparr>)),
      (ascii ''trackname'', StringVar (\<lambda>v opts. opts\<lparr>opt_trackname := v\<rparr>))]"

definition date_defaults :: date_options where
  "date_defaults =
     \<lparr>opt_certFile = ascii ''localhost.pem'', opt_keyFile = ascii ''localhost-key.pem'',
      opt_addr = ascii ''localhost:8080'', opt_server = False, opt_publish = False,
      opt_subscribe = False, opt_namespace = ascii ''clock'', opt_trackname = ascii ''second'',
      opt_webtransport = False\<rparr>"

definition date_parseOptions :: "gostring list \<Rightarrow> (date_options \<times> flag_error option) result" where
  "date_parseOptions args =
     bindR (slice_from args 1) (\<lambda>args.
     case flag_Parse date_flags args date_defaults of (err, opts) \<Rightarrow> Inr (opts, err))"

definition date_handler :: "date_options \<Rightarrow> moqHandler" where
  "date_handler opts =
     \<lparr>mh_namespace = [opt_namespace opts], mh_trackname = opt_trackname opts,
      mh_publish = opt_publish opts, mh_subscribe = opt_subscribe opts, mh_nextSessionID = 0,
      mh_publishers = Map.empty, mh_next = 0, mh_largestGroup = 0\<rparr>"

definition date_runServer :: "('k, 'd, 'c) crypto \<Rightarrow> date_options \<Rightarrow> (moqHandler, 'c) program" where
  "date_runServer cr opts =
     (case server_tls (date_generateTLSConfigWithCertAndKey cr (opt_certFile opts) (opt_keyFile opts))
             (date_generateTLSConfig cr) of
        None \<Rightarrow> Exits 1
      | Some tlsConfig \<Rightarrow> Listens (opt_addr opts) tlsConfig (date_handler opts))"

definition date_runClient :: "date_options \<Rightarrow> (moqHandler, 'c) program" where
  "date_runClient opts =
     Dials (opt_addr opts) (if opt_webtransport opts then ProtocolWebTransport else ProtocolQUIC) (date_handler opts)"

definition date_run :: "('k, 'd, 'c) crypto \<Rightarrow> gostring list \<Rightarrow> (moqHandler, 'c) program" where
  "date_run cr args = run_main (date_parseOptions args) opt_server (date_runServer cr) date_runClient"

text \<open>
  The client of the date program dials over one of the two transports; the server also serves
  WebTransport sessions, on the connections that have negotiated HTTP/3.
\<close>

definition dialWebTransport ::
  "(gostring \<Rightarrow> 'c tlsConfig \<Rightarrow> ('w, 'h, 'ctx) wt_lib result) \<Rightarrow> gostring \<Rightarrow> ('w, 'h, 'ctx) moq_connection result" where
  "dialWebTransport Dial addr =
     bindR (Dial addr \<lparr>tls_Certificates = [], tls_NextProtos = [], tls_InsecureSkipVerify = True\<rparr>) (\<lambda>session.
     Inr (webtransportmoq_NewClient session))"

definition date_dialQUIC ::
  "(gostring \<Rightarrow> 'c tlsConfig \<Rightarrow> ('w, 'h, 'ctx) quic_lib result) \<Rightarrow> gostring \<Rightarrow> ('w, 'h, 'ctx) moq_connection result" where
  "date_dialQUIC DialAddr addr =
     bindR (DialAddr addr \<lparr>tls_Certificates = [], tls_NextProtos = [moq_00], tls_InsecureSkipVerify = True\<rparr>) (\<lambda>conn.
     Inr (quicmoq_NewClient conn))"

definition moqHandler_runClient_dial ::
  "(gostring \<Rightarrow> 'c tlsConfig \<Rightarrow> ('w, 'h, 'ctx) quic_lib result) \<Rightarrow>
   (gostring \<Rightarrow> 'c tlsConfig \<Rightarrow> ('w, 'h, 'ctx) wt_lib result) \<Rightarrow> gostring \<Rightarrow> bool \<Rightarrow> ('w, 'h, 'ctx) moq_connection result" where
  "moqHandler_runClient_dial DialAddr Dial addr wt =
     (if wt then dialWebTransport Dial addr else date_dialQUIC DialAddr addr)"

datatype ('w, 'h, 'ctx) served = HandleMoq "('w, 'h, 'ctx) moq_connection" | ServeQUICConn "('w, 'h, 'ctx) quic_lib"

fun moqHandler_runServer_loop ::
  "(('w, 'h, 'ctx) quic_lib \<times> gostring) list \<Rightarrow> ('w, 'h, 'ctx) served list" where
  "moqHandler_runServer_loop [] = []"
| "moqHandler_runServer_loop ((conn, NegotiatedProtocol) # conns) =
     (if NegotiatedProtocol = h3 then [ServeQUICConn conn] else []) @
     (if NegotiatedProtocol = moq_00 then [HandleMoq (quicmoq_NewServer conn)] else []) @
     moqHandler_runServer_loop conns"

section \<open>Settings on a command line\<close>

text \<open>
  The ways to give a flag a value: with one or two dashes, the value after an equals sign or, for a
  string, as the next argument; a boolean flag alone is set to true.
\<close>

datatype setting =
    StringEq bool gostring gostring
  | StringNext bool gostring gostring
  | BoolEq bool gostring bool
  | BoolAlone bool gostring

definition dashes :: "bool \<Rightarrow> gostring" where
  "dashes two = (if two then [dash, dash] else [dash])"

definition bool_text :: "bool \<Rightarrow> gostring" where
  "bool_text b = (if b then ascii ''true'' else ascii ''false'')"

fun args_of :: "setting \<Rightarrow> gostring list" where
  "args_of (StringEq two n v) = [dashes two @ n @ equals_sign # v]"
| "args_of (StringNext two n v) = [dashes two @ n, v]"
| "args_of (BoolEq two n b) = [dashes two @ n @ equals_sign # bool_text b]"
| "args_of (BoolAlone two n) = [dashes two @ n]"

definition flag_name :: "gostring \<Rightarrow> bool" where
  "flag_name n \<longleftrightarrow> (case n of [] \<Rightarrow> False | c # cs \<Rightarrow> c \<noteq> dash \<and> c \<noteq> equals_sign \<and> equals_sign \<notin> set cs)"

definition string_flag :: "'o flagset \<Rightarrow> gostring \<Rightarrow> bool" where
  "string_flag fs n \<longleftrightarrow> flag_name n \<and> (case map_of fs n of Some (StringVar _) \<Rightarrow> True | _ \<Rightarrow> False)"

definition bool_flag :: "'o flagset \<Rightarrow> gostring \<Rightarrow> bool" where
  "bool_flag fs n \<longleftrightarrow> flag_name n \<and> (case map_of fs n of Some (BoolVar _) \<Rightarrow> True | _ \<Rightarrow> False)"

fun valid_setting :: "'o flagset \<Rightarrow> setting \<Rightarrow> bool" where
  "valid_setting fs (StringEq two n v) \<longleftrightarrow> string_flag fs n"
| "valid_setting fs (StringNext two n v) \<longleftrightarrow> string_flag fs n"
| "valid_setting fs (BoolEq two n b) \<longleftrightarrow> bool_flag fs n"
| "valid_setting fs (BoolAlone two n) \<longleftrightarrow> bool_flag fs n"

definition put_string :: "'o flagset \<Rightarrow> gostring \<Rightarrow> gostring \<Rightarrow> 'o \<Rightarrow> 'o" where
  "put_string fs n v = (case map_of fs n of Some (StringVar put) \<Rightarrow> put v | _ \<Rightarrow> id)"

definition put_bool :: "'o flagset \<Rightarrow> gostring \<Rightarrow> bool \<Rightarrow> 'o \<Rightarrow> 'o" where
  "put_bool fs n b = (case map_of fs n of Some (BoolVar put) \<Rightarrow> put b | _ \<Rightarrow> id)"

fun apply_setting :: "'o flagset \<Rightarrow> setting \<Rightarrow> 'o \<Rightarrow> 'o" where
  "apply_setting fs (StringEq two n v) = put_string fs n v"
| "apply_setting fs (StringNext two n v) = put_string fs n v"
| "apply_setting fs (BoolEq two n b) = put_bool fs n b"
| "apply_setting fs (BoolAlone two n) = put_bool fs n True"

lemma cut_value: "equals_sign \<notin> set n \<Longrightarrow> cut (n @ equals_sign # v) = (n, Some v)"
  by (induction n) auto

lemma cut_plain: "equals_sign \<notin> set n \<Longrightarrow> cut n = (n, None)"
  by (induction n) auto

lemma ParseBool_text: "ParseBool (bool_text b) = Some b"
  by (cases b) (simp_all add: ParseBool_def bool_text_def ascii_def)

lemma ParseBool_true: "ParseBool (ascii ''true'') = Some True"
  using ParseBool_text [of True] by (simp add: bool_text_def)

lemma parseOne_named:
  assumes "c \<noteq> dash" and "c \<noteq> equals_sign"
  shows "parseOne fs ((dashes two @ c # cs) # args) o' =
    (case cut cs of (rest, value) \<Rightarrow> parseFlag fs (c # rest) value args o')"
  using assms by (cases two) (simp_all add: dashes_def)

lemma parseOne_setting:
  assumes "valid_setting fs st"
  shows "parseOne fs (args_of st @ rest) o' = ((True, None), rest, apply_setting fs st o')"
proof -
  have "flag_name n \<Longrightarrow> \<exists>c cs. n = c # cs \<and> c \<noteq> dash \<and> c \<noteq> equals_sign \<and> equals_sign \<notin> set cs" for n
    by (simp add: flag_name_def split: list.splits)
  note name = this
  show ?thesis
  proof (cases st)
    case (StringEq two n v)
    with assms name [of n] show ?thesis
      by (auto simp: string_flag_def parseOne_named cut_value parseFlag_def put_string_def
          simp del: parseOne.simps split: option.splits flag.splits)
  next
    case (StringNext two n v)
    with assms name [of n] show ?thesis
      by (auto simp: string_flag_def parseOne_named cut_plain parseFlag_def put_string_def
          simp del: parseOne.simps split: option.splits flag.splits)
  next
    case (BoolEq two n b)
    with assms name [of n] show ?thesis
      by (auto simp: bool_flag_def parseOne_named cut_value parseFlag_def set_bool_def put_bool_def ParseBool_text
          simp del: parseOne.simps split: option.splits flag.splits)
  next
    case (BoolAlone two n)
    with assms name [of n] show ?thesis
      by (auto simp: bool_flag_def parseOne_named cut_plain parseFlag_def set_bool_def put_bool_def ParseBool_true
          simp del: parseOne.simps split: option.splits flag.splits)
  qed
qed

lemma parseOne_Nil: "flag_Parse fs [] o' = (None, o')"
  by (subst flag_Parse.simps) simp

text \<open>The settings are applied in order, so that the last one for a flag counts.\<close>

lemma flag_Parse_settings:
  "list_all (valid_setting fs) sts \<Longrightarrow>
     flag_Parse fs (concat (map args_of sts)) o' = (None, foldl (\<lambda>o' st. apply_setting fs st o') o' sts)"
proof (induction sts arbitrary: o')
  case Nil
  then show ?case by (simp add: parseOne_Nil)
next
  case (Cons st sts)
  then show ?case
    by (subst flag_Parse.simps) (simp add: parseOne_setting del: parseOne.simps args_of.simps)
qed

text \<open>A flag that is not defined stops the program, unless it asks for help.\<close>

lemma flag_Parse_undefined:
  assumes "flag_name n" and "map_of fs n = None"
  shows "fst (flag_Parse fs ((dashes two @ n) # rest) o') =
    Some (if n = ascii ''help'' \<or> n = ascii ''h'' then ErrHelp else NotDefined n)"
proof (cases n)
  case (Cons c cs)
  with assms have "c \<noteq> dash" "c \<noteq> equals_sign" "cut cs = (cs, None)"
    by (simp_all add: flag_name_def cut_plain)
  then show ?thesis
    using assms(2) by (subst flag_Parse.simps) (simp add: Cons parseOne_named parseFlag_def del: parseOne.simps)
qed (use assms(1) in \<open>simp add: flag_name_def\<close>)

section \<open>The programs\<close>

text \<open>The copies of code in the programs do what the code of \<^verbatim>\<open>examples/counter\<close> does.\<close>

lemma xor_runServer_loop_copy: "xor_runServer_loop conns = counter_runServer_loop conns"
  by (induction conns rule: xor_runServer_loop.induct) simp_all

lemma xor_copies:
  "xor_generateTLSConfigWithCertAndKey = generateTLSConfigWithCertAndKey"
  "xor_generateTLSConfig = generateTLSConfig" "xor_dialQUIC = dialQUIC" "date_dialQUIC = dialQUIC"
  "xor_parseOptions = parseOptions"
  by (simp_all add: fun_eq_iff xor_generateTLSConfigWithCertAndKey_def generateTLSConfigWithCertAndKey_def
      xor_generateTLSConfig_def generateTLSConfig_def xor_dialQUIC_def dialQUIC_def date_dialQUIC_def
      xor_parseOptions_def parseOptions_def)

text \<open>Settings for given options.\<close>

definition counter_settings :: "options \<Rightarrow> setting list" where
  "counter_settings opts =
     [StringEq False (ascii ''cert'') (opt_certFile opts), StringEq False (ascii ''key'') (opt_keyFile opts),
      StringEq False (ascii ''addr'') (opt_addr opts), BoolEq False (ascii ''server'') (opt_server opts),
      BoolEq False (ascii ''publish'') (opt_publish opts), BoolEq False (ascii ''subscribe'') (opt_subscribe opts),
      StringEq False (ascii ''namespace'') (opt_namespace opts),
      StringEq False (ascii ''trackname'') (opt_trackname opts)]"

lemmas flag_eval = string_flag_def bool_flag_def flag_name_def put_string_def put_bool_def ascii_def
  dash_def equals_sign_def

lemma counter_settings_valid: "list_all (valid_setting counter_flags) (counter_settings opts)"
  by (simp add: counter_settings_def counter_flags_def flag_eval)

lemma counter_settings_apply:
  "foldl (\<lambda>o' st. apply_setting counter_flags st o') o' (counter_settings opts) = opts"
  by (cases opts) (simp add: counter_settings_def counter_flags_def flag_eval)

lemma parseOptions_settings:
  "list_all (valid_setting counter_flags) sts \<Longrightarrow>
     parseOptions (prog # concat (map args_of sts)) =
       Inr (foldl (\<lambda>o' st. apply_setting counter_flags st o') counter_defaults sts, None)"
  by (simp add: parseOptions_def slice_from_def flag_Parse_settings)

text \<open>Settings for all options, after any others, run the program with these options.\<close>

lemma parseOptions_all:
  "list_all (valid_setting counter_flags) sts \<Longrightarrow>
     parseOptions (prog # concat (map args_of (sts @ counter_settings opts))) = Inr (opts, None)"
  by (simp only: parseOptions_settings list_all_append counter_settings_valid foldl_append counter_settings_apply simp_thms)

lemma counter_run_settings:
  "list_all (valid_setting counter_flags) sts \<Longrightarrow>
     counter_run cr (prog # concat (map args_of (sts @ counter_settings opts))) =
       (if opt_server opts then runServer cr opts else runClient opts)"
  unfolding counter_run_def parseOptions_all by (simp add: run_main_def)

text \<open>The roles that the two commands of a program take from the boolean flags.\<close>

lemma counter_roles:
  assumes "server_tls (generateTLSConfigWithCertAndKey cr (opt_certFile opts) (opt_keyFile opts))
    (generateTLSConfig cr) = Some cfg"
  shows "\<exists>h. runServer cr opts = Listens (opt_addr opts) cfg h \<and> ch_namespace h = [opt_namespace opts] \<and>
      ch_trackname h = opt_trackname opts \<and> (ch_publish h \<longleftrightarrow> opt_publish opts) \<and> \<not> ch_subscribe h"
    and "\<exists>h. runClient opts = Dials (opt_addr opts) ProtocolQUIC h \<and> ch_namespace h = [opt_namespace opts] \<and>
      ch_trackname h = opt_trackname opts \<and> \<not> ch_publish h \<and> (ch_subscribe h \<longleftrightarrow> opt_subscribe opts)"
  using assms by (simp_all add: runServer_def runClient_def)

definition date_settings :: "date_options \<Rightarrow> setting list" where
  "date_settings opts =
     [StringEq False (ascii ''cert'') (opt_certFile opts), StringEq False (ascii ''key'') (opt_keyFile opts),
      StringEq False (ascii ''addr'') (opt_addr opts), BoolEq False (ascii ''server'') (opt_server opts),
      BoolEq False (ascii ''publish'') (opt_publish opts), BoolEq False (ascii ''subscribe'') (opt_subscribe opts),
      BoolEq False (ascii ''webtransport'') (opt_webtransport opts),
      StringEq False (ascii ''namespace'') (opt_namespace opts),
      StringEq False (ascii ''trackname'') (opt_trackname opts)]"

lemma date_settings_valid: "list_all (valid_setting date_flags) (date_settings opts)"
  by (simp add: date_settings_def date_flags_def flag_eval)

lemma date_settings_apply:
  "foldl (\<lambda>o' st. apply_setting date_flags st o') o' (date_settings opts) = opts"
  by (cases opts) (simp add: date_settings_def date_flags_def flag_eval)

lemma date_parseOptions_settings:
  "list_all (valid_setting date_flags) sts \<Longrightarrow>
     date_parseOptions (prog # concat (map args_of sts)) =
       Inr (foldl (\<lambda>o' st. apply_setting date_flags st o') date_defaults sts, None)"
  by (simp add: date_parseOptions_def slice_from_def flag_Parse_settings)

end
