(* ===== verification/Session_Dialogues.thy ===== *)
theory Session_Dialogues
  imports End_To_End
begin

text \<open>
  The other dialogues between two sessions, each from the call of the application at one endpoint
  to the return of that call: announcements, subscriptions to announcements, fetches, the end of a
  subscription from either side and its update. What an endpoint writes is followed as bytes: the
  frame that a step appends to the control stream is the one that the peer parses.
\<close>

section \<open>What a step writes\<close>

text \<open>The step from \<open>c\<close> to \<open>c'\<close> appends one frame to the control stream, which parses to \<open>m\<close>.\<close>

definition writes :: "quicvarint \<Rightarrow> Session \<Rightarrow> Session \<Rightarrow> ControlMessage \<Rightarrow> bool" where
  "writes qv s s' m \<longleftrightarrow>
     (\<exists>frame. cn_control (ses_conn s') = cn_control (ses_conn s) @ frame \<and>
        ControlMessageParser_Parse qv frame = Inr (m, []))"

text \<open>The last frame of the control stream parses to \<open>m\<close>.\<close>

definition ends_with :: "quicvarint \<Rightarrow> Session \<Rightarrow> ControlMessage \<Rightarrow> bool" where
  "ends_with qv s m \<longleftrightarrow>
     (\<exists>before frame. cn_control (ses_conn s) = before @ frame \<and>
        ControlMessageParser_Parse qv frame = Inr (m, []))"

text \<open>A handler that gives one answer to a message.\<close>

definition answers :: "Env \<Rightarrow> Message \<Rightarrow> rw_call \<Rightarrow> bool" where
  "answers env m a \<longleftrightarrow> (\<exists>h. env_Handler env = Some h \<and> h m = Call a (\<lambda>_. Done))"

lemma Handle_answers:
  assumes "answers env m a"
  shows "Handle env exec w m s =
    with_writer w (bindS (tryS (exec a)) (\<lambda>_. returnS ())) (s\<lparr>ses_app := ses_app s @ [Handled m]\<rparr>)"
  using assms unfolding answers_def
  by (auto simp: Handle_def bindS_def log_app_def modifyS_def returnS_def [abs_def])

text \<open>The result of a call that was answered with \<open>Accept\<close> or \<open>Reject\<close>.\<close>

fun answer_error :: "rw_call \<Rightarrow> go_error option" where
  "answer_error (Reject code reason) = Some (ProtocolError code reason)"
| "answer_error _ = None"

fun is_answer :: "rw_call \<Rightarrow> bool" where
  "is_answer Accept = True"
| "is_answer (Reject _ _) = True"
| "is_answer _ = False"

definition result_of :: "go_error option \<Rightarrow> unit result" where
  "result_of e = (case e of None \<Rightarrow> Inr () | Some e \<Rightarrow> Inl (Fail e))"

fun announce_answer :: "uint64 \<Rightarrow> rw_call \<Rightarrow> ControlMessage" where
  "announce_answer k (Reject code reason) =
     AnnounceError \<lparr>aem_RequestID = k, aem_ErrorCode = code, aem_ReasonPhrase = reason\<rparr>"
| "announce_answer k _ = AnnounceOk \<lparr>aom_RequestID = k\<rparr>"

fun announces_answer :: "uint64 \<Rightarrow> rw_call \<Rightarrow> ControlMessage" where
  "announces_answer k (Reject code reason) =
     SubscribeAnnouncesError \<lparr>saem_RequestID = k, saem_ErrorCode = code, saem_ReasonPhrase = reason\<rparr>"
| "announces_answer k _ = SubscribeAnnouncesOk \<lparr>saom_RequestID = k\<rparr>"

fun fetch_answer :: "uint64 \<Rightarrow> rw_call \<Rightarrow> ControlMessage" where
  "fetch_answer k (Reject code reason) =
     FetchError \<lparr>fem_RequestID = k, fem_ErrorCode = code, fem_ReasonPhrase = reason\<rparr>"
| "fetch_answer k _ = FetchOk \<lparr>fom_RequestID = k, fom_GroupOrder = 1, fom_EndOfTrack = 0,
     fom_EndLocation = zeroLocation, fom_SubscribeParameters = []\<rparr>"

definition announce_message :: "uint64 \<Rightarrow> Tuple \<Rightarrow> AnnounceMessage" where
  "announce_message k ns = \<lparr>am_RequestID = k, am_TrackNamespace = ns, am_Parameters = []\<rparr>"

definition announced :: "uint64 \<Rightarrow> Tuple \<Rightarrow> Message" where
  "announced k ns = (newMessage MessageAnnounce)\<lparr>msg_RequestID := k, msg_Namespace := ns\<rparr>"

definition announces_message :: "uint64 \<Rightarrow> Tuple \<Rightarrow> SubscribeAnnouncesMessage" where
  "announces_message k ns = \<lparr>sam_RequestID = k, sam_TrackNamespacePrefix = ns, sam_Parameters = []\<rparr>"

definition announces_asked :: "uint64 \<Rightarrow> Tuple \<Rightarrow> Message" where
  "announces_asked k ns = (newMessage MessageSubscribeAnnounces)\<lparr>msg_RequestID := k, msg_Namespace := ns\<rparr>"

definition fetch_message :: "uint64 \<Rightarrow> Tuple \<Rightarrow> gostring \<Rightarrow> FetchMessage" where
  "fetch_message k ns name =
     \<lparr>fm_RequestID = k, fm_SubscriberPriority = 0, fm_GroupOrder = 0,
      fm_FetchType = FetchTypeStandalone, fm_TrackNamespace = ns, fm_TrackName = name,
      fm_StartGroup = 0, fm_StartObject = 0, fm_EndGroup = 0, fm_EndObject = 0,
      fm_JoiningSubscribeID = 0, fm_JoiningStart = 0, fm_Parameters = []\<rparr>"

definition fetch_asked :: "uint64 \<Rightarrow> Tuple \<Rightarrow> gostring \<Rightarrow> Message" where
  "fetch_asked k ns name =
     (newMessage MessageFetch)\<lparr>msg_Namespace := ns, msg_Track := name, msg_RequestID := k\<rparr>"

definition done_message :: "Session \<Rightarrow> ref \<Rightarrow> uint64 \<Rightarrow> gostring \<Rightarrow> SubscribeDoneMessage" where
  "done_message s lt code reason =
     \<lparr>sdm_RequestID = lt_requestID (ses_lt s lt), sdm_StatusCode = code,
      sdm_StreamCount = lt_subgroupCount (ses_lt s lt), sdm_ReasonPhrase = reason\<rparr>"

definition update_message :: "uint64 \<Rightarrow> SubscribeUpdateOption list \<Rightarrow> SubscribeUpdateMessage" where
  "update_message k options =
     (let opts = apply_options options defaultSubscribeUpdateOptions
      in \<lparr>sum_RequestID = k, sum_StartLocation = suo_StartLocation opts, sum_EndGroup = suo_EndGroup opts,
          sum_SubscriberPriority = suo_SubscriberPriority opts,
          sum_Forward = boolToUint8 (suo_Forward opts), sum_Parameters = suo_Parameters opts\<rparr>)"

definition update_delivered_message ::
  "uint64 \<Rightarrow> SubscribeUpdateOption list \<Rightarrow> AppSubscribeUpdateMessage" where
  "update_delivered_message k options =
     (let opts = apply_options options defaultSubscribeUpdateOptions
      in \<lparr>aum_RequestID = k, aum_StartLocation = suo_StartLocation opts, aum_EndGroup = suo_EndGroup opts,
          aum_SubscriberPriority = suo_SubscriberPriority opts,
          aum_Forward = boolToUint8 (suo_Forward opts), aum_Parameters = suo_Parameters opts\<rparr>)"

text \<open>What an announcement leaves alone at its two ends.\<close>

definition server_part :: "Session \<Rightarrow> localTrackMap \<times> sequence \<times> uint64 \<times> bool \<times> bool" where
  "server_part s = (ses_localTracks s, ses_trackAliases s, ses_localMaxRequestID s, ses_handshakeDone s,
     ses_handshakeDoneCh s)"

definition client_part :: "Session \<Rightarrow> requestIDGenerator \<times> remoteTrackMap \<times> bool \<times> bool" where
  "client_part s = (ses_requestIDs s, ses_remoteTracks s, ses_handshakeDone s, ses_handshakeDoneCh s)"

text \<open>
  Between two states of a publisher: the subgroups that were open in the first can be written to in the
  second, and what is written is appended to their streams.
\<close>

definition subgroups_go_on :: "quicvarint \<Rightarrow> Session \<Rightarrow> Session \<Rightarrow> bool" where
  "subgroups_go_on qv s s' \<longleftrightarrow>
     (\<forall>sub i payload. sg_stream sub < length (cn_streams (ses_conn s)) \<longrightarrow> sendable (i, payload) \<longrightarrow>
       (case Subgroup_WriteObject qv (\<lambda>_. NetOk) sub i payload (ses_conn s') of
          (r, conn) \<Rightarrow> r = Inr (length payload) \<and>
            cn_streams conn = (cn_streams (ses_conn s))[sg_stream sub :=
              cn_streams (ses_conn s) ! sg_stream sub @ enc_subgroup_object qv (plain_object (i, payload))]))"

context varint_codec
begin

lemma writesI:
  "ses_conn s' = conn_sent qv m (ses_conn s) \<Longrightarrow> wire_ok qv m \<Longrightarrow> writes qv s s' m"
  using Parse_sent [of m "[]"] by (auto simp: writes_def)

lemma ends_withI:
  "ses_conn s = conn_sent qv m c \<Longrightarrow> wire_ok qv m \<Longrightarrow> ends_with qv s m"
  using Parse_sent [of m "[]"] by (auto simp: ends_with_def)

section \<open>Announcements\<close>

lemma Announce_send_ok:
  assumes "reliable qv env" and "rg_id (ses_requestIDs c) = k" and "k < rg_max (ses_requestIDs c)"
    and "wire_ok qv (Announce (announce_message k ns))"
  shows "\<exists>c'. Announce_send env ns c = (Inr (ses_next c), c') \<and>
    am_pending (ses_outgoingAnnouncements c') k =
      Some \<lparr>an_requestID = k, an_namespace = ns, an_parameters = [], an_response = ses_next c\<rparr> \<and>
    ses_errCh c' (ses_next c) = [] \<and> ses_handshakeDone c' = ses_handshakeDone c \<and>
    ses_conn c' = conn_sent qv (Announce (announce_message k ns)) (ses_conn c) \<and>
    server_part c' = server_part c"
  using assms(2,3) ses_write_ok [OF assms(1,4)]
  by (simp add: server_part_def Announce_send_def bindS_def newRequestID_ok alloc_errCh_def upd_outgoingAnnouncements_def
      updS_def announcementMap_add_def tryS_def returnS_def Let_def announce_message_def)

lemma onAnnounce_answer:
  assumes "reliable qv env" and "answers env (announced k ns) a" and "is_answer a"
    and "\<not> bad_namespace ns" and "wire_ok qv (announce_answer k a)"
  shows "\<exists>s'. onAnnounce env (announce_message k ns) s = (Inr (), s') \<and>
    ses_app s' = ses_app s @ [Handled (announced k ns)] \<and>
    (am_announcements (ses_incomingAnnouncements s') k \<noteq> None \<longleftrightarrow>
       a = Accept \<or> am_announcements (ses_incomingAnnouncements s) k \<noteq> None) \<and>
    ses_conn s' = conn_sent qv (announce_answer k a) (ses_conn s) \<and> client_part s' = client_part s"
  using assms(3,4) ses_write_ok [OF assms(1,5)]
  by (cases a)
    (simp_all add: client_part_def onAnnounce_def announce_message_def effects alloc_errCh_def Let_def
      upd_incomingAnnouncements_def announcementMap_add_def
      Handle_answers [OF assms(2)[unfolded announced_def]] announced_def with_writer_def
      announcementResponseWriter_Accept_def announcementResponseWriter_Reject_def set_writer_def
      on_session_def acceptAnnouncement_def rejectAnnouncement_def announcementMap_confirmAndGet_def)

lemma answer_delivered:
  assumes "am_pending (ses_outgoingAnnouncements c) k = Some a" and "ses_errCh c (an_response a) = []"
    and "is_answer r" and "ses_handshakeDone c"
  shows "\<exists>c' c''. receive env (announce_answer k r) c = (Inr (), c') \<and>
    Announce_wait Response (an_response a) c' = Some (result_of (answer_error r), c'') \<and>
    ses_conn c' = ses_conn c \<and> ses_conn c'' = ses_conn c \<and> server_part c'' = server_part c"
  using assms
  by (cases r)
    (simp_all add: server_part_def receive_def onAnnounceOk_def onAnnounceError_def effects upd_outgoingAnnouncements_def
      announcementMap_confirmAndGet_def announcementMap_reject_def send_errCh_def try_send_def
      Announce_wait_def wait_errCh_def result_of_def)

lemma announcement:
  assumes rel: "reliable qv envc" "reliable qv envs" and ans: "answers envs (announced k ns) a" "is_answer a"
    and k: "rg_id (ses_requestIDs c) = k" "k < rg_max (ses_requestIDs c)" and ns: "\<not> bad_namespace ns"
    and wire: "wire_ok qv (Announce (announce_message k ns))" "wire_ok qv (announce_answer k a)"
    and ready: "ses_handshakeDone c" "ses_handshakeDone s"
  shows "\<exists>ch c' s' c'' c3. Announce_send envc ns c = (Inr ch, c') \<and>
    writes qv c c' (Announce (announce_message k ns)) \<and>
    receive envs (Announce (announce_message k ns)) s = (Inr (), s') \<and>
    ses_app s' = ses_app s @ [Handled (announced k ns)] \<and> writes qv s s' (announce_answer k a) \<and>
    receive envc (announce_answer k a) c' = (Inr (), c'') \<and>
    Announce_wait Response ch c'' = Some (result_of (answer_error a), c3)"
proof -
  obtain c' where c': "Announce_send envc ns c = (Inr (ses_next c), c')" "ses_errCh c' (ses_next c) = []"
    "am_pending (ses_outgoingAnnouncements c') k =
      Some \<lparr>an_requestID = k, an_namespace = ns, an_parameters = [], an_response = ses_next c\<rparr>"
    "ses_handshakeDone c'" "ses_conn c' = conn_sent qv (Announce (announce_message k ns)) (ses_conn c)"
    using Announce_send_ok [OF rel(1) k wire(1)] ready by auto
  obtain s' where s': "onAnnounce envs (announce_message k ns) s = (Inr (), s')"
    "ses_app s' = ses_app s @ [Handled (announced k ns)]"
    "ses_conn s' = conn_sent qv (announce_answer k a) (ses_conn s)"
    using onAnnounce_answer [OF rel(2) ans ns wire(2), of s] by blast
  have "receive envs (Announce (announce_message k ns)) s = (Inr (), s')"
    using s'(1) ready by (simp add: receive_def bindS_def getsS_def)
  then show ?thesis
    using answer_delivered [OF c'(3) _ ans(2) c'(4), of envc] c'(1,2) s'(2)
      writesI [OF c'(5) wire(1)] writesI [OF s'(3) wire(2)] by auto
qed

section \<open>Subscriptions to announcements\<close>

lemma announcement_subscription:
  assumes rel: "reliable qv envc" "reliable qv envs" and ans: "answers envs (announces_asked k ns) a" "is_answer a"
    and k: "rg_id (ses_requestIDs c) = k" "k < rg_max (ses_requestIDs c)"
    and wire: "wire_ok qv (SubscribeAnnounces (announces_message k ns))" "wire_ok qv (announces_answer k a)"
    and ready: "ses_handshakeDone c" "ses_handshakeDone s"
  shows "\<exists>ch c' s' c'' c3. SubscribeAnnouncements_send envc ns c = (Inr ch, c') \<and>
    writes qv c c' (SubscribeAnnounces (announces_message k ns)) \<and>
    receive envs (SubscribeAnnounces (announces_message k ns)) s = (Inr (), s') \<and>
    ses_app s' = ses_app s @ [Handled (announces_asked k ns)] \<and> writes qv s s' (announces_answer k a) \<and>
    receive envc (announces_answer k a) c' = (Inr (), c'') \<and>
    SubscribeAnnouncements_wait Response ch c'' = Some (result_of (answer_error a), c3)"
proof -
  obtain c' where c': "SubscribeAnnouncements_send envc ns c = (Inr (ses_next c), c')"
    "ses_errCh c' (ses_next c) = []"
    "ses_pendingOutgointAnnouncementSubscriptions c' k =
      Some \<lparr>as_requestID = k, as_namespace = ns, as_response = Some (ses_next c)\<rparr>"
    "ses_handshakeDone c'"
    "ses_conn c' = conn_sent qv (SubscribeAnnounces (announces_message k ns)) (ses_conn c)"
    using k ses_write_ok [OF rel(1) wire(1)] ready(1)
    by (simp add: SubscribeAnnouncements_send_def bindS_def newRequestID_ok alloc_errCh_def
        upd_outgoingSubscriptions_def updS_def announcementSubscriptionMap_add_def tryS_def returnS_def
        Let_def announces_message_def)
  obtain s' where s': "receive envs (SubscribeAnnounces (announces_message k ns)) s = (Inr (), s')"
    "ses_app s' = ses_app s @ [Handled (announces_asked k ns)]"
    "ses_conn s' = conn_sent qv (announces_answer k a) (ses_conn s)"
    using ans(2) ready(2) ses_write_ok [OF rel(2) wire(2)]
    by (cases a)
      (simp_all add: receive_def onSubscribeAnnounces_def announces_message_def effects
        Handle_answers [OF ans(1)[unfolded announces_asked_def]] announces_asked_def with_writer_def
        announcementSubscriptionResponseWriter_Accept_def announcementSubscriptionResponseWriter_Reject_def
        set_writer_def on_session_def acceptAnnouncementSubscription_def rejectAnnouncementSubscription_def)
  have "\<exists>c'' c3. receive envc (announces_answer k a) c' = (Inr (), c'') \<and>
      SubscribeAnnouncements_wait Response (ses_next c) c'' = Some (result_of (answer_error a), c3)"
    using c'(2-4) ans(2)
    by (cases a)
      (simp_all add: receive_def onSubscribeAnnouncesOk_def onSubscribeAnnouncesError_def effects
        upd_outgoingSubscriptions_def announcementSubscriptionMap_deleteByID_def send_subscription_def
        ignore_def send_errCh_def try_send_def SubscribeAnnouncements_wait_def wait_errCh_def result_of_def)
  then show ?thesis
    using c'(1) s'(1,2) writesI [OF c'(5) wire(1)] writesI [OF s'(3) wire(2)] by blast
qed

section \<open>Fetches\<close>

lemma Fetch_send_ok:
  assumes "reliable qv env" and "rg_id (ses_requestIDs c) = k" and "k < rg_max (ses_requestIDs c)"
    and "wire_ok qv (Fetch (fetch_message k ns name))"
    and "rtm_pending (ses_remoteTracks c) k = None" and "rtm_open (ses_remoteTracks c) k = None"
  shows "\<exists>c'. Fetch_send env ns name c = (Inr (ses_next c), c') \<and>
    rtm_pending (ses_remoteTracks c') k = Some (ses_next c) \<and>
    ses_rt c' (ses_next c) = newRemoteTrack k (Some (CallFetchCancel k)) None \<and>
    ses_handshakeDone c' = ses_handshakeDone c \<and>
    ses_conn c' = conn_sent qv (Fetch (fetch_message k ns name)) (ses_conn c)"
  using assms(2,3,5,6) ses_write_ok [OF assms(1,4)]
  by (simp add: Fetch_send_def bindS_def newRequestID_ok alloc_rt_def upd_remoteTracks_def updS_def
      remoteTrackMap_addPending_def throwS_def tryS_def returnS_def fetch_message_def)

lemma onFetch_answer:
  assumes rel: "reliable qv env" and ans: "answers env (fetch_asked k ns name) a" "is_answer a"
    and ns: "\<not> bad_namespace ns" and wire: "wire_ok qv (fetch_answer k a)"
    and max: "k < ses_localMaxRequestID s" "fits (2 * ses_localMaxRequestID s)"
    and new: "ltm_pending (ses_localTracks s) k = None" "ltm_open (ses_localTracks s) k = None"
  shows "\<exists>conn s'. onFetch env (fetch_message k ns name) s = (Inr (), s') \<and>
    ses_app s' = ses_app s @ [Handled (fetch_asked k ns name)] \<and>
    ses_handshakeDone s' = ses_handshakeDone s \<and>
    ltm_pending (ses_localTracks s') k = None \<and>
    ltm_open (ses_localTracks s') k = (if a = Accept then Some (ses_next s) else None) \<and>
    ses_lt s' (ses_next s) = newLocalTrack k (seq_last (ses_trackAliases s)) False \<and>
    ses_conn s' = conn_sent qv (fetch_answer k a) conn"
proof -
  let ?r = "ses_next s"
  let ?t = "s\<lparr>ses_trackAliases := snd (sequence_next (ses_trackAliases s)), ses_next := Suc ?r,
      ses_lt := (ses_lt s)(?r := newLocalTrack k (seq_last (ses_trackAliases s)) False)\<rparr>"
  obtain conn mx where "addLocalTrack env ?r ?t =
    (Inr (), ?t\<lparr>ses_localMaxRequestID := mx, ses_conn := conn,
       ses_localTracks := (ses_localTracks ?t)\<lparr>ltm_pending :=
          (ltm_pending (ses_localTracks ?t))(k \<mapsto> ?r)\<rparr>\<rparr>)"
    using addLocalTrack_ok [OF rel, of ?t ?r k] max new by (auto simp: newLocalTrack_def)
  then show ?thesis
    using ans(2) ns new ses_write_ok [OF rel wire]
    by (intro exI [of _ conn], cases a)
      (simp_all add: onFetch_def fetch_message_def effects alloc_lt_def Let_def
        Handle_answers [OF ans(1)[unfolded fetch_asked_def]] fetch_asked_def with_writer_def
        fetchResponseWriter_Accept_def fetchResponseWriter_Reject_def set_writer_def on_session_def
        acceptFetch_def rejectFetch_def upd_localTracks_def localTrackMap_confirm_def
        localTrackMap_reject_def newLocalTrack_def)
qed

text \<open>
  A fetch that is accepted gives the track. One that is rejected gives the error, and the client
  cancels it, although the publisher has already dropped it: the FETCH\_CANCEL is an error that
  ends the session of the publisher.
\<close>

lemma fetch_accepted:
  assumes rel: "reliable qv envc" "reliable qv envs" and ans: "answers envs (fetch_asked k ns name) Accept"
    and inv: "inv_session c" and k: "rg_id (ses_requestIDs c) = k" "k < rg_max (ses_requestIDs c)"
    and wire: "wire_ok qv (Fetch (fetch_message k ns name))" "wire_ok qv (fetch_answer k Accept)"
    and ns: "\<not> bad_namespace ns" and ready: "ses_handshakeDone c" "ses_handshakeDone s"
    and max: "k < ses_localMaxRequestID s" "fits (2 * ses_localMaxRequestID s)"
    and new: "ltm_pending (ses_localTracks s) k = None" "ltm_open (ses_localTracks s) k = None"
  shows "\<exists>rt lt c' s' c'' c3. Fetch_send envc ns name c = (Inr rt, c') \<and>
    writes qv c c' (Fetch (fetch_message k ns name)) \<and>
    receive envs (Fetch (fetch_message k ns name)) s = (Inr (), s') \<and>
    ses_app s' = ses_app s @ [Handled (fetch_asked k ns name)] \<and>
    ends_with qv s' (fetch_answer k Accept) \<and>
    ltm_open (ses_localTracks s') k = Some lt \<and> lt_done (ses_lt s' lt) = None \<and>
    receive envc (fetch_answer k Accept) c' = (Inr (), c'') \<and>
    Fetch_wait envc Response rt c'' = Some (Inr rt, c3) \<and>
    remoteTrackMap_findByRequestID (ses_remoteTracks c3) k = Some rt"
proof -
  obtain c' where c': "Fetch_send envc ns name c = (Inr (ses_next c), c')"
    "rtm_pending (ses_remoteTracks c') k = Some (ses_next c)"
    "rt_responseChan (ses_rt c' (ses_next c)) = []" "ses_handshakeDone c'"
    "ses_conn c' = conn_sent qv (Fetch (fetch_message k ns name)) (ses_conn c)"
    using Fetch_send_ok [OF rel(1) k wire(1) next_id_free [OF inv k(1)]] ready by (auto simp: newRemoteTrack_def)
  obtain s' conn where s': "onFetch envs (fetch_message k ns name) s = (Inr (), s')"
    "ses_app s' = ses_app s @ [Handled (fetch_asked k ns name)]"
    "ltm_open (ses_localTracks s') k = Some (ses_next s)" "lt_done (ses_lt s' (ses_next s)) = None"
    "ses_conn s' = conn_sent qv (fetch_answer k Accept) conn"
    using onFetch_answer [OF rel(2) ans _ ns wire(2) max new] by (auto simp: newLocalTrack_def)
  have "receive envs (Fetch (fetch_message k ns name)) s = (Inr (), s')"
    using s'(1) ready by (simp add: receive_def bindS_def getsS_def)
  moreover have "\<exists>c'' c3. receive envc (fetch_answer k Accept) c' = (Inr (), c'') \<and>
      Fetch_wait envc Response (ses_next c) c'' = Some (Inr (ses_next c), c3) \<and>
      remoteTrackMap_findByRequestID (ses_remoteTracks c3) k = Some (ses_next c)"
    using c'(2-4)
    by (simp add: receive_def onFetchOk_def effects upd_remoteTracks_def remoteTrackMap_confirm_def
        send_rt_response_def try_send_def Fetch_wait_def wait_rt_response_def
        remoteTrackMap_findByRequestID_def)
  ultimately show ?thesis
    using c'(1) s'(2-4) writesI [OF c'(5) wire(1)] ends_withI [OF s'(5) wire(2)] by blast
qed

lemma fetch_rejected:
  assumes rel: "reliable qv envc" "reliable qv envs"
    and ans: "answers envs (fetch_asked k ns name) (Reject code reason)"
    and inv: "inv_session c" and k: "rg_id (ses_requestIDs c) = k" "k < rg_max (ses_requestIDs c)"
    and wire: "wire_ok qv (Fetch (fetch_message k ns name))" "wire_ok qv (fetch_answer k (Reject code reason))"
    and ns: "\<not> bad_namespace ns" and ready: "ses_handshakeDone c" "ses_handshakeDone s"
    and max: "k < ses_localMaxRequestID s" "fits (2 * ses_localMaxRequestID s)"
    and new: "ltm_pending (ses_localTracks s) k = None" "ltm_open (ses_localTracks s) k = None"
  shows "\<exists>rt c' s' c'' c3. Fetch_send envc ns name c = (Inr rt, c') \<and>
    writes qv c c' (Fetch (fetch_message k ns name)) \<and>
    receive envs (Fetch (fetch_message k ns name)) s = (Inr (), s') \<and>
    ends_with qv s' (fetch_answer k (Reject code reason)) \<and>
    receive envc (fetch_answer k (Reject code reason)) c' = (Inr (), c'') \<and>
    Fetch_wait envc Response rt c'' = Some (Inl (Fail (ProtocolError code reason)), c3) \<and>
    writes qv c'' c3 (FetchCancel \<lparr>fcm_RequestID = k\<rparr>) \<and>
    receive envs (FetchCancel \<lparr>fcm_RequestID = k\<rparr>) s' = (Inl (Fail errUnknownRequestID), s')"
proof -
  have cancel: "wire_ok qv (FetchCancel \<lparr>fcm_RequestID = k\<rparr>)"
    using wire(2) by (intro wire_ok_ids(4)) (simp add: wire_ok_def wf_FetchError_def)
  obtain c' where c': "Fetch_send envc ns name c = (Inr (ses_next c), c')"
    "rtm_pending (ses_remoteTracks c') k = Some (ses_next c)"
    "ses_rt c' (ses_next c) = newRemoteTrack k (Some (CallFetchCancel k)) None" "ses_handshakeDone c'"
    "ses_conn c' = conn_sent qv (Fetch (fetch_message k ns name)) (ses_conn c)"
    using Fetch_send_ok [OF rel(1) k wire(1) next_id_free [OF inv k(1)]] ready by auto
  obtain s' conn where s': "onFetch envs (fetch_message k ns name) s = (Inr (), s')"
    "ltm_pending (ses_localTracks s') k = None" "ltm_open (ses_localTracks s') k = None"
    "ses_handshakeDone s'" "ses_conn s' = conn_sent qv (fetch_answer k (Reject code reason)) conn"
    using onFetch_answer [OF rel(2) ans _ ns wire(2) max new] ready by auto
  have s'': "receive envs (Fetch (fetch_message k ns name)) s = (Inr (), s')"
    "receive envs (FetchCancel \<lparr>fcm_RequestID = k\<rparr>) s' = (Inl (Fail errUnknownRequestID), s')"
    using s' ready by (simp_all add: receive_def onFetchCancel_def effects upd_localTracks_def localTrackMap_delete_def)
  have "\<exists>c'' c3. receive envc (fetch_answer k (Reject code reason)) c' = (Inr (), c'') \<and>
      Fetch_wait envc Response (ses_next c) c'' = Some (Inl (Fail (ProtocolError code reason)), c3) \<and>
      ses_conn c3 = conn_sent qv (FetchCancel \<lparr>fcm_RequestID = k\<rparr>) (ses_conn c'')"
    using c'(2-4) ses_write_ok [OF rel(1) cancel]
    by (simp add: receive_def onFetchError_def effects upd_remoteTracks_def remoteTrackMap_reject_def
        send_rt_response_def try_send_def Fetch_wait_def wait_rt_response_def newRemoteTrack_def
        RemoteTrack_Close_def fetchCancel_def)
  then show ?thesis
    using c'(1) s'' writesI [OF c'(5) wire(1)] ends_withI [OF s'(5) wire(2)] writesI [OF _ cancel] by blast
qed

section \<open>The end of a subscription\<close>

lemma done_track_publishes_nothing:
  assumes "lt_done (ses_lt s lt) = Some e"
  shows "on_track lt (localTrack_sendDatagram qv net ob) s = (Inl (Fail e), s)"
    "on_track lt (openSubgroup qv net g sg p) s = (Inl (Fail e), s)"
  using assms
  by (simp_all add: on_track_def onS_def localTrack_sendDatagram_def openSubgroup_def
      localTrack_closed_def throwS_def failS_def bindS_def)

lemma subgroups_go_onI:
  "cn_streams (ses_conn s') = cn_streams (ses_conn s) \<Longrightarrow> subgroups_go_on qv s s'"
  unfolding subgroups_go_on_def
  using WriteObject_ok [where net = "\<lambda>_. NetOk" and c = "ses_conn s'"] by (auto simp: split_beta)

lemma publisher_ends:
  assumes rel: "reliable qv envs" "reliable qv envc" and wire: "wire_ok qv (SubscribeDone (done_message s lt code reason))"
    and lt: "ltm_open (ses_localTracks s) k = Some lt" "ltm_pending (ses_localTracks s) k = None"
      "lt_requestID (ses_lt s lt) = k" "lt_subscribeDone (ses_lt s lt)" "lt_done (ses_lt s lt) = None"
    and rt: "remoteTrackMap_findByRequestID (ses_remoteTracks c) k = Some rt" "rt_done (ses_rt c rt) = None"
      "rt_unsubscribeFunc (ses_rt c rt) = Some (CallUnsubscribe k)"
    and ready: "ses_handshakeDone c" "ses_handshakeDone s"
  shows "\<exists>s' c' c''. localTrack_close envs lt code reason s = (Inr (), s') \<and>
    writes qv s s' (SubscribeDone (done_message s lt code reason)) \<and>
    on_track lt (localTrack_sendDatagram qv net ob) s' = (Inl (Fail ErrSubscriptionDone), s') \<and>
    on_track lt (openSubgroup qv net g sg p) s' = (Inl (Fail ErrSubscriptionDone), s') \<and>
    subgroups_go_on qv s s' \<and>
    receive envc (SubscribeDone (done_message s lt code reason)) c = (Inr (), c') \<and>
    ReadObject TrackDone (ses_rt c' rt) = Some ((None, Some (ErrSubscribeDone code reason)), ses_rt c' rt) \<and>
    ReadObject FromBuffer (ses_rt c' rt) =
      (case rt_buffer (ses_rt c rt) of
         [] \<Rightarrow> None
       | x # xs \<Rightarrow> Some ((Some x, Some Canceled), (ses_rt c' rt)\<lparr>rt_buffer := xs\<rparr>)) \<and>
    RemoteTrack_Close envc rt c' = (Inr (), c'') \<and> writes qv c' c'' (Unsubscribe \<lparr>usm_RequestID = k\<rparr>) \<and>
    receive envs (Unsubscribe \<lparr>usm_RequestID = k\<rparr>) s' = (Inl (Fail errUnknownRequestID), s')"
proof -
  have unsub: "wire_ok qv (Unsubscribe \<lparr>usm_RequestID = k\<rparr>)"
    using wire lt(3) by (intro wire_ok_ids(3)) (simp add: wire_ok_def wf_SubscribeDone_def done_message_def)
  obtain s' where s': "localTrack_close envs lt code reason s = (Inr (), s')"
    "ses_conn s' = conn_sent qv (SubscribeDone (done_message s lt code reason)) (ses_conn s)"
    "lt_done (ses_lt s' lt) = Some ErrSubscriptionDone" "ses_handshakeDone s'"
    "localTrackMap_findByID (ses_localTracks s') k = None"
    using lt ready(2) ses_write_ok [OF rel(1) wire]
    by (simp add: localTrack_close_def effects modify_lt_def subscriptionDone_def upd_localTracks_def
        localTrackMap_delete_def localTrackMap_findByID_def done_message_def cancel_def)
  obtain c' where c': "receive envc (SubscribeDone (done_message s lt code reason)) c = (Inr (), c')"
    "ses_rt c' rt = RemoteTrack_done (ses_rt c rt) code reason" "ses_conn c' = ses_conn c"
    using rt(1) ready(1) lt(3)
    by (simp add: receive_def onSubscribeDone_def effects remoteTrackByRequestID_def modify_rt_def done_message_def)
  have "receive envs (Unsubscribe \<lparr>usm_RequestID = k\<rparr>) s' = (Inl (Fail errUnknownRequestID), s')"
    using s'(4,5) by (simp add: receive_def onUnsubscribe_def effects)
  moreover have "\<exists>c''. RemoteTrack_Close envc rt c' = (Inr (), c'') \<and>
      ses_conn c'' = conn_sent qv (Unsubscribe \<lparr>usm_RequestID = k\<rparr>) (ses_conn c')"
    using rt(3) c'(2) ses_write_ok [OF rel(2) unsub]
    by (simp add: RemoteTrack_Close_def effects RemoteTrack_done_def Session_unsubscribe_def)
  moreover have "ReadObject TrackDone (ses_rt c' rt) =
      Some ((None, Some (ErrSubscribeDone code reason)), ses_rt c' rt)"
    "ReadObject FromBuffer (ses_rt c' rt) =
      (case rt_buffer (ses_rt c rt) of
         [] \<Rightarrow> None
       | x # xs \<Rightarrow> Some ((Some x, Some Canceled), (ses_rt c' rt)\<lparr>rt_buffer := xs\<rparr>))"
    using rt(2) by (simp_all add: c'(2) ReadObject_def RemoteTrack_done_def cancel_def split: list.split)
  ultimately show ?thesis
    using s'(1) c'(1) done_track_publishes_nothing [OF s'(3)] writesI [OF s'(2) wire] writesI [OF _ unsub]
      subgroups_go_onI [of s' s] s'(2) by (simp add: conn_sent_def) blast
qed

lemma subscriber_ends:
  assumes rel: "reliable qv envc" and k: "fits k"
    and lt: "localTrackMap_findByID (ses_localTracks s) k = Some lt" "lt_done (ses_lt s lt) = None"
    and rt: "rt_done (ses_rt c rt) = None" "rt_unsubscribeFunc (ses_rt c rt) = Some (CallUnsubscribe k)"
    and ready: "ses_handshakeDone s"
  shows "\<exists>c' s'. RemoteTrack_Close envc rt c = (Inr (), c') \<and>
    writes qv c c' (Unsubscribe \<lparr>usm_RequestID = k\<rparr>) \<and> ses_rt c' = ses_rt c \<and>
    ses_remoteTracks c' = ses_remoteTracks c \<and> ReadObject TrackDone (ses_rt c' rt) = None \<and>
    receive envs (Unsubscribe \<lparr>usm_RequestID = k\<rparr>) s = (Inr (), s') \<and>
    on_track lt (localTrack_sendDatagram qv net ob) s' = (Inl (Fail ErrUnsusbcribed), s') \<and>
    on_track lt (openSubgroup qv net g sg p) s' = (Inl (Fail ErrUnsusbcribed), s') \<and>
    subgroups_go_on qv s s' \<and>
    localTrackMap_findByID (ses_localTracks s') k = Some lt"
proof -
  have unsub: "wire_ok qv (Unsubscribe \<lparr>usm_RequestID = k\<rparr>)" using k by (rule wire_ok_ids(3))
  obtain c' where c': "RemoteTrack_Close envc rt c = (Inr (), c')" "ses_rt c' = ses_rt c"
    "ses_conn c' = conn_sent qv (Unsubscribe \<lparr>usm_RequestID = k\<rparr>) (ses_conn c)"
    "ses_remoteTracks c' = ses_remoteTracks c"
    using rt(2) ses_write_ok [OF rel unsub]
    by (simp add: RemoteTrack_Close_def effects Session_unsubscribe_def)
  obtain s' where s': "receive envs (Unsubscribe \<lparr>usm_RequestID = k\<rparr>) s = (Inr (), s')"
    "lt_done (ses_lt s' lt) = Some ErrUnsusbcribed" "ses_localTracks s' = ses_localTracks s" "ses_conn s' = ses_conn s"
    using lt ready
    by (simp add: receive_def onUnsubscribe_def effects modify_lt_def localTrack_unsubscribe_def cancel_def)
  show ?thesis
    using c' s' lt(1) rt(1) done_track_publishes_nothing [OF s'(2)] writesI [OF c'(3) unsub]
      subgroups_go_onI [of s' s] by (auto simp: ReadObject_def)
qed

text \<open>The update of a subscription reaches the handler with the options it was called with.\<close>

lemma update_delivered:
  assumes rel: "reliable qv envc" and wire: "wire_ok qv (SubscribeUpdate (update_message k options))"
    and rt: "rt_updateFunc (ses_rt c rt) = Some k" "remoteTrackMap_findByRequestID (ses_remoteTracks c) k = Some rt"
    and lt: "localTrackMap_findByID (ses_localTracks s) k = Some lt"
    and hnd: "env_SubscribeUpdateHandler envs" and ready: "ses_handshakeDone s"
  shows "\<exists>c' s'. RemoteTrack_UpdateSubscription envc rt options c = (Inr (), c') \<and>
    writes qv c c' (SubscribeUpdate (update_message k options)) \<and>
    receive envs (SubscribeUpdate (update_message k options)) s = (Inr (), s') \<and>
    ses_app s' = ses_app s @ [HandledSubscribeUpdate (update_delivered_message k options)]"
proof -
  have "\<exists>c'. RemoteTrack_UpdateSubscription envc rt options c = (Inr (), c') \<and>
      ses_conn c' = conn_sent qv (SubscribeUpdate (update_message k options)) (ses_conn c)"
    using rt ses_write_ok [OF rel wire]
    by (simp add: RemoteTrack_UpdateSubscription_def effects UpdateSubscription_def remoteTrackByRequestID_def
        update_message_def Let_def)
  moreover have "\<exists>s'. receive envs (SubscribeUpdate (update_message k options)) s = (Inr (), s') \<and>
      ses_app s' = ses_app s @ [HandledSubscribeUpdate (update_delivered_message k options)]"
    using lt hnd ready
    by (simp add: receive_def onSubscribeUpdate_def effects log_app_def update_message_def
        update_delivered_message_def Let_def)
  ultimately show ?thesis using writesI [OF _ wire] by blast
qed

end

end
