(* ===== verification/Quic_Logger.thy ===== *)
theory Quic_Logger
  imports Go_Base Complex_Main
begin

text \<open>
  The statistics of a QUIC connection (\<^verbatim>\<open>quicmoq/logging.go\<close>): counts of packets and bytes in a
  window of time, or the fate of the last packets in a ring buffer, loss, rates and round-trip
  time. The lemmas show that the ring buffer is the list of the last packets, that pruning keeps
  the samples of the window, and that no event makes the logger panic.

  Times are integers, nanoseconds from the zero time of Go; \<^verbatim>\<open>time.Now()\<close> is an argument of the
  operation that calls it, one for each call. Packet numbers and sizes, \<^verbatim>\<open>int64\<close> in quic-go, are
  words. Printing to the terminal is left out.
\<close>

section \<open>Numbers of the Go language\<close>

type_synonym int64 = "64 word"
type_synonym Time = int
type_synonym Nanos = int

definition Second :: Nanos where "Second = 1000000000"

text \<open>\<^verbatim>\<open>t.Sub(u)\<close> saturates at the limits of a \<^verbatim>\<open>Duration\<close>; \<^verbatim>\<open>%\<close> has the sign of the dividend.\<close>

definition Time_Sub :: "Time \<Rightarrow> Time \<Rightarrow> Nanos" where
  "Time_Sub t u = max (- (2 ^ 63)) (min (2 ^ 63 - 1) (t - u))"

definition go_rem :: "int \<Rightarrow> int \<Rightarrow> int result" where
  "go_rem a b = (if b = 0 then Inl Panic else Inr (sgn a * (\<bar>a\<bar> mod \<bar>b\<bar>)))"

lemma go_rem_pos [simp]: "0 \<le> a \<Longrightarrow> 0 < b \<Longrightarrow> go_rem a b = Inr (a mod b)"
  by (cases "a = 0") (simp_all add: go_rem_def)

definition index_int :: "'a list \<Rightarrow> int \<Rightarrow> 'a result" where
  "index_int xs i = (if 0 \<le> i \<and> i < int (length xs) then Inr (xs ! nat i) else Inl Panic)"

definition update_int :: "'a list \<Rightarrow> int \<Rightarrow> 'a \<Rightarrow> 'a list result" where
  "update_int xs i x = (if 0 \<le> i \<and> i < int (length xs) then Inr (xs[nat i := x]) else Inl Panic)"

text \<open>The value of an \<^verbatim>\<open>int\<close> computation, wrapped to 64 bits.\<close>

definition go_int :: "int \<Rightarrow> int" where
  "go_int x = sint (word_of_int x :: int64)"

text \<open>
  The operations of \<^verbatim>\<open>float64\<close> that the code uses, over an arbitrary type of floating-point
  numbers: conversion of an integer, the literals of the source as fractions, arithmetic, tests
  and the conversion to \<^verbatim>\<open>uint64\<close>.
\<close>

record 'f float64 =
  fl_of_int :: "int \<Rightarrow> 'f"
  fl_lit :: "int \<Rightarrow> int \<Rightarrow> 'f"
  fl_add :: "'f \<Rightarrow> 'f \<Rightarrow> 'f"
  fl_sub :: "'f \<Rightarrow> 'f \<Rightarrow> 'f"
  fl_mul :: "'f \<Rightarrow> 'f \<Rightarrow> 'f"
  fl_div :: "'f \<Rightarrow> 'f \<Rightarrow> 'f"
  fl_less :: "'f \<Rightarrow> 'f \<Rightarrow> bool"
  fl_eq :: "'f \<Rightarrow> 'f \<Rightarrow> bool"
  fl_uint64 :: "'f \<Rightarrow> uint64"

definition Duration_Seconds :: "'f float64 \<Rightarrow> Nanos \<Rightarrow> 'f" where
  "Duration_Seconds fl d =
     fl_add fl (fl_of_int fl (sgn d * (\<bar>d\<bar> div Second)))
       (fl_div fl (fl_of_int fl (sgn d * (\<bar>d\<bar> mod Second))) (fl_lit fl 1000000000 1))"

section \<open>The state\<close>

datatype WindowMode = ByTime | ByPackets

definition LogLevelInfo :: int where "LogLevelInfo = 3"
definition LogLevelDebug :: int where "LogLevelDebug = 4"
definition defaultWindow :: Nanos where "defaultWindow = 10 * Second"

record LoggerConfig =
  lc_LogLevel :: int
  lc_MaxEventsPerType :: int
  lc_EnableTerminalLog :: bool
  lc_Window :: Nanos
  lc_WindowMode :: WindowMode
  lc_WindowPackets :: int

record ConnectionEvent =
  ce_Timestamp :: Time
  ce_EventType :: gostring
  ce_Local :: "gostring option"
  ce_Remote :: "gostring option"
  ce_Error :: "go_error option"

record MOQObjectEvent =
  me_Timestamp :: Time
  me_GroupID :: uint64
  me_SubGroupID :: uint64
  me_ObjectID :: uint64
  me_Size :: int
  me_Direction :: gostring
  me_TrackName :: gostring
  me_Namespace :: "gostring list"

record stampCount =
  sc_t :: Time
  sc_n :: int64

record byteSample =
  bs_t :: Time
  bs_b :: int64

datatype pktState = psUnknown | psAcked | psLost

record pktSample =
  ps_t :: Time
  ps_num :: int64
  ps_size :: int64
  ps_st :: pktState

definition zero_sample :: pktSample where
  "zero_sample = \<lparr>ps_t = 0, ps_num = 0, ps_size = 0, ps_st = psUnknown\<rparr>"

text \<open>
  The slices of acknowledgement and loss events are allocated and never used again; only their
  allocation is modelled. The ring is \<^term>\<open>None\<close> until it is allocated.
\<close>

record 'f QuicLogger =
  ql_sessionID :: gostring
  ql_perspective :: int
  ql_logLevel :: int
  ql_window :: Nanos
  ql_windowMode :: WindowMode
  ql_winPkts :: int
  ql_connectionEvents :: "ConnectionEvent list"
  ql_moqObjectEvents :: "MOQObjectEvent list"
  ql_sentPkts :: "stampCount list"
  ql_rcvdPkts :: "stampCount list"
  ql_ackedPkts :: "stampCount list"
  ql_lostPkts :: "stampCount list"
  ql_sentBytes :: "byteSample list"
  ql_rcvdBytes :: "byteSample list"
  ql_ring :: "pktSample list option"
  ql_ringHead :: int
  ql_ringCount :: int
  ql_byNum :: "int64 \<rightharpoonup> int"
  ql_latestRTT :: Nanos
  ql_smoothedLoss :: 'f
  ql_smoothedRTT :: 'f
  ql_start :: Time

text \<open>
  The default for \<^verbatim>\<open>WindowPackets\<close> is also written to the configuration of the caller, which is not
  part of the result here.
\<close>

definition NewQuicLogger ::
  "'f float64 \<Rightarrow> Time \<Rightarrow> gostring \<Rightarrow> int \<Rightarrow> LoggerConfig option \<Rightarrow> 'f QuicLogger result" where
  "NewQuicLogger fl now sessionID perspective cfg =
     (let cfg = (case cfg of
            None \<Rightarrow> \<lparr>lc_LogLevel = LogLevelInfo, lc_MaxEventsPerType = 1000, lc_EnableTerminalLog = True,
                     lc_Window = defaultWindow, lc_WindowMode = ByPackets, lc_WindowPackets = 100\<rparr>
          | Some cfg \<Rightarrow> cfg);
          w = (if lc_Window cfg \<le> 0 then defaultWindow else lc_Window cfg);
          pkts = (if lc_WindowPackets cfg \<le> 0 then 100 else lc_WindowPackets cfg)
      in if lc_MaxEventsPerType cfg < 0 then Inl Panic
         else bindR (make_slice 112 (nat (lc_MaxEventsPerType cfg))) (\<lambda>_. Inr
           \<lparr>ql_sessionID = sessionID, ql_perspective = perspective, ql_logLevel = lc_LogLevel cfg,
            ql_window = w, ql_windowMode = lc_WindowMode cfg, ql_winPkts = pkts,
            ql_connectionEvents = [], ql_moqObjectEvents = [], ql_sentPkts = [], ql_rcvdPkts = [],
            ql_ackedPkts = [], ql_lostPkts = [], ql_sentBytes = [], ql_rcvdBytes = [],
            ql_ring = None, ql_ringHead = 0, ql_ringCount = 0, ql_byNum = Map.empty,
            ql_latestRTT = 0, ql_smoothedLoss = fl_lit fl 0 1, ql_smoothedRTT = fl_lit fl 0 1,
            ql_start = now\<rparr>))"

section \<open>Pruning\<close>

definition trimBytesN :: "byteSample list \<Rightarrow> int \<Rightarrow> byteSample list" where
  "trimBytesN s n =
     (if n \<le> 0 then [] else if int (length s) \<le> n then s else drop (nat (int (length s) - n)) s)"

text \<open>The two loops of \<^verbatim>\<open>prune\<close>: the samples from the first that is not before the cut.\<close>

fun pruneStamps :: "Time \<Rightarrow> stampCount list \<Rightarrow> stampCount list" where
  "pruneStamps since [] = []"
| "pruneStamps since (x # s) = (if sc_t x < since then pruneStamps since s else x # s)"

fun pruneBytes :: "Time \<Rightarrow> byteSample list \<Rightarrow> byteSample list" where
  "pruneBytes since [] = []"
| "pruneBytes since (x # s) = (if bs_t x < since then pruneBytes since s else x # s)"

definition prune :: "Time \<Rightarrow> 'f QuicLogger \<Rightarrow> 'f QuicLogger" where
  "prune now q =
     (let since = now - ql_window q;
          q = q\<lparr>ql_sentPkts := pruneStamps since (ql_sentPkts q),
                ql_rcvdPkts := pruneStamps since (ql_rcvdPkts q),
                ql_ackedPkts := pruneStamps since (ql_ackedPkts q),
                ql_lostPkts := pruneStamps since (ql_lostPkts q),
                ql_sentBytes := pruneBytes since (ql_sentBytes q),
                ql_rcvdBytes := pruneBytes since (ql_rcvdBytes q)\<rparr>
      in if ql_windowMode q = ByPackets \<and> int (length (ql_rcvdBytes q)) > go_int (2 * ql_winPkts q)
         then q\<lparr>ql_rcvdBytes := trimBytesN (ql_rcvdBytes q) (go_int (2 * ql_winPkts q))\<rparr> else q)"

definition addSent :: "Time \<Rightarrow> int64 \<Rightarrow> 'f QuicLogger \<Rightarrow> 'f QuicLogger" where
  "addSent now sz q =
     prune now (q\<lparr>ql_sentPkts := ql_sentPkts q @ [\<lparr>sc_t = now, sc_n = 1\<rparr>],
                  ql_sentBytes := ql_sentBytes q @ [\<lparr>bs_t = now, bs_b = sz\<rparr>]\<rparr>)"

definition addRcvd :: "Time \<Rightarrow> int64 \<Rightarrow> 'f QuicLogger \<Rightarrow> 'f QuicLogger" where
  "addRcvd now sz q =
     prune now (q\<lparr>ql_rcvdPkts := ql_rcvdPkts q @ [\<lparr>sc_t = now, sc_n = 1\<rparr>],
                  ql_rcvdBytes := ql_rcvdBytes q @ [\<lparr>bs_t = now, bs_b = sz\<rparr>]\<rparr>)"

section \<open>Events of packets\<close>

definition ringEnsure :: "'f QuicLogger \<Rightarrow> 'f QuicLogger result" where
  "ringEnsure q =
     (case ql_ring q of
        Some _ \<Rightarrow> Inr q
      | None \<Rightarrow>
          if ql_winPkts q < 0 then Inl Panic
          else bindR (make_slice 48 (nat (ql_winPkts q))) (\<lambda>_.
                 Inr (q\<lparr>ql_ring := Some (replicate (nat (ql_winPkts q)) zero_sample),
                        ql_byNum := Map.empty\<rparr>)))"

abbreviation ring_of :: "'f QuicLogger \<Rightarrow> pktSample list" where
  "ring_of q \<equiv> (case ql_ring q of None \<Rightarrow> [] | Some r \<Rightarrow> r)"

definition onSent :: "Time \<Rightarrow> Time \<Rightarrow> int64 \<Rightarrow> int64 \<Rightarrow> 'f QuicLogger \<Rightarrow> 'f QuicLogger result" where
  "onSent now now' number sz q =
     (if ql_windowMode q = ByPackets
      then bindR (ringEnsure q) (\<lambda>q.
           let idx = ql_ringHead q
           in bindR (if ql_ringCount q = ql_winPkts q
                     then bindR (index_int (ring_of q) idx) (\<lambda>old.
                            Inr (q\<lparr>ql_byNum := (ql_byNum q)(ps_num old := None)\<rparr>))
                     else Inr (q\<lparr>ql_ringCount := ql_ringCount q + 1\<rparr>)) (\<lambda>q.
              bindR (update_int (ring_of q) idx
                       \<lparr>ps_t = now, ps_num = number, ps_size = sz, ps_st = psUnknown\<rparr>) (\<lambda>ring.
              bindR (go_rem (ql_ringHead q + 1) (ql_winPkts q)) (\<lambda>head.
              Inr (prune now' (q\<lparr>ql_ring := Some ring, ql_byNum := (ql_byNum q)(number \<mapsto> idx),
                                 ql_ringHead := head\<rparr>))))))
      else Inr (addSent now sz q))"

definition onRcvd :: "Time \<Rightarrow> int64 \<Rightarrow> 'f QuicLogger \<Rightarrow> 'f QuicLogger" where
  "onRcvd now sz q = addRcvd now sz q"

definition set_state :: "int \<Rightarrow> pktState \<Rightarrow> 'f QuicLogger \<Rightarrow> 'f QuicLogger result" where
  "set_state idx st q =
     bindR (index_int (ring_of q) idx) (\<lambda>s.
     bindR (update_int (ring_of q) idx (s\<lparr>ps_st := st\<rparr>)) (\<lambda>ring.
     Inr (q\<lparr>ql_ring := Some ring\<rparr>)))"

definition onAck :: "Time \<Rightarrow> Time \<Rightarrow> int64 \<Rightarrow> 'f QuicLogger \<Rightarrow> 'f QuicLogger result" where
  "onAck now now' number q =
     (if ql_windowMode q = ByPackets
      then (case ql_byNum q number of
              Some idx \<Rightarrow> set_state idx psAcked q
            | None \<Rightarrow> Inr q)
      else Inr (prune now' (q\<lparr>ql_ackedPkts := ql_ackedPkts q @ [\<lparr>sc_t = now, sc_n = 1\<rparr>]\<rparr>)))"

definition onLoss :: "Time \<Rightarrow> Time \<Rightarrow> int64 \<Rightarrow> 'f QuicLogger \<Rightarrow> 'f QuicLogger result" where
  "onLoss now now' number q =
     (if ql_windowMode q = ByPackets
      then (case ql_byNum q number of
              Some idx \<Rightarrow>
                bindR (index_int (ring_of q) idx) (\<lambda>s.
                  if ps_st s = psUnknown then set_state idx psLost q else Inr q)
            | None \<Rightarrow> Inr q)
      else Inr (prune now' (q\<lparr>ql_lostPkts := ql_lostPkts q @ [\<lparr>sc_t = now, sc_n = 1\<rparr>]\<rparr>)))"

section \<open>Metrics\<close>

record 'f RollingMetrics =
  rm_Window :: Nanos
  rm_PktWindow :: int
  rm_SentPackets :: int64
  rm_AckedPackets :: int64
  rm_LostPackets :: int64
  rm_RecvPackets :: int64
  rm_SentBytes :: int64
  rm_RecvBytes :: int64
  rm_LossPercent :: 'f
  rm_SendRateBps :: 'f
  rm_RecvRateBps :: 'f
  rm_SmoothedRTT :: Nanos
  rm_AsOf :: Time

fun sumStamps_from :: "int64 \<Rightarrow> stampCount list \<Rightarrow> int64" where
  "sumStamps_from n [] = n"
| "sumStamps_from n (x # s) = sumStamps_from (n + sc_n x) s"

definition sumStamps :: "stampCount list \<Rightarrow> int64" where
  "sumStamps s = sumStamps_from 0 s"

fun sumBytes_from :: "int64 \<Rightarrow> byteSample list \<Rightarrow> int64" where
  "sumBytes_from n [] = n"
| "sumBytes_from n (x # s) = sumBytes_from (n + bs_b x) s"

definition sumBytes :: "byteSample list \<Rightarrow> int64" where
  "sumBytes s = sumBytes_from 0 s"

text \<open>The variables of the loop in \<^verbatim>\<open>packetWindowMetrics\<close>.\<close>

record window_counts =
  wc_sent :: int64
  wc_acked :: int64
  wc_lost :: int64
  wc_bytes :: int64
  wc_firstIdx :: int
  wc_lastIdx :: int

definition count_sample :: "int \<Rightarrow> pktSample \<Rightarrow> window_counts \<Rightarrow> window_counts" where
  "count_sample idx s c =
     (if ps_num s = 0 \<and> ps_size s = 0 \<and> ps_t s = 0 then c
      else c\<lparr>wc_firstIdx := (if wc_firstIdx c = -1 then idx else wc_firstIdx c),
             wc_lastIdx := idx, wc_sent := wc_sent c + 1, wc_bytes := wc_bytes c + ps_size s,
             wc_acked := (if ps_st s = psAcked then wc_acked c + 1 else wc_acked c),
             wc_lost := (if ps_st s = psLost then wc_lost c + 1 else wc_lost c)\<rparr>)"

fun window_loop :: "'f QuicLogger \<Rightarrow> int list \<Rightarrow> window_counts \<Rightarrow> window_counts result" where
  "window_loop q [] c = Inr c"
| "window_loop q (i # is) c =
     bindR (go_rem (ql_ringHead q - ql_ringCount q + i + ql_winPkts q) (ql_winPkts q)) (\<lambda>idx.
     bindR (index_int (ring_of q) idx) (\<lambda>s.
     window_loop q is (count_sample idx s c)))"

definition packetWindowMetrics ::
  "'f QuicLogger \<Rightarrow> (int64 \<times> int64 \<times> int64 \<times> int64 \<times> Nanos) result" where
  "packetWindowMetrics q =
     (if ql_ringCount q = 0 then Inr (0, 0, 0, 0, 0)
      else bindR (window_loop q [0..ql_ringCount q - 1]
             \<lparr>wc_sent = 0, wc_acked = 0, wc_lost = 0, wc_bytes = 0, wc_firstIdx = -1, wc_lastIdx = -1\<rparr>) (\<lambda>c.
           if wc_firstIdx c \<ge> 0 \<and> wc_lastIdx c \<ge> 0
           then bindR (index_int (ring_of q) (wc_firstIdx c)) (\<lambda>first.
                bindR (index_int (ring_of q) (wc_lastIdx c)) (\<lambda>last.
                Inr (wc_sent c, wc_acked c, wc_lost c, wc_bytes c,
                     if ps_t first < ps_t last then Time_Sub (ps_t last) (ps_t first) else Second)))
           else Inr (wc_sent c, wc_acked c, wc_lost c, wc_bytes c, Second)))"

definition recvBytesWithin :: "Time \<Rightarrow> Nanos \<Rightarrow> 'f QuicLogger \<Rightarrow> int64 \<times> int64" where
  "recvBytesWithin now spn q =
     (if spn \<le> 0 then (0, 0)
      else (sumBytes (filter (\<lambda>s. now - spn < bs_t s \<or> bs_t s = now - spn) (ql_rcvdBytes q)),
            sumStamps (filter (\<lambda>s. now - spn < sc_t s \<or> sc_t s = now - spn) (ql_rcvdPkts q))))"

text \<open>The loss in percent and its exponentially weighted average, the same code in both modes.\<close>

definition loss_percent :: "'f float64 \<Rightarrow> int64 \<Rightarrow> int64 \<Rightarrow> 'f" where
  "loss_percent fl sent lost =
     (if 0 < sint sent
      then fl_div fl (fl_mul fl (fl_of_int fl (sint lost)) (fl_lit fl 100 1)) (fl_of_int fl (sint sent))
      else fl_lit fl 0 1)"

definition ewma :: "'f float64 \<Rightarrow> 'f \<Rightarrow> 'f \<Rightarrow> 'f \<Rightarrow> 'f" where
  "ewma fl alpha x old =
     (if fl_eq fl old (fl_lit fl 0 1) then x
      else fl_add fl (fl_mul fl alpha x) (fl_mul fl (fl_sub fl (fl_lit fl 1 1) alpha) old))"

definition rate :: "'f float64 \<Rightarrow> int64 \<Rightarrow> Nanos \<Rightarrow> 'f" where
  "rate fl n spn = fl_div fl (fl_mul fl (fl_of_int fl (sint n)) (fl_lit fl 8 1)) (Duration_Seconds fl spn)"

definition GetRollingMetrics ::
  "'f float64 \<Rightarrow> Time \<Rightarrow> Time \<Rightarrow> 'f QuicLogger \<Rightarrow> ('f RollingMetrics \<times> 'f QuicLogger) result" where
  "GetRollingMetrics fl now now' q =
     (let outRTT = (if fl_less fl (fl_lit fl 0 1) (ql_smoothedRTT q)
                    then sint (fl_uint64 fl (ql_smoothedRTT q)) else ql_latestRTT q)
      in if ql_windowMode q = ByPackets
         then bindR (packetWindowMetrics q) (\<lambda>(sentPk, ackPk, lostPk, sentBy, spn).
              let spn = (if spn \<le> 0 then Second else spn);
                  loss = loss_percent fl sentPk lostPk;
                  q = q\<lparr>ql_smoothedLoss := ewma fl (fl_lit fl 1 2) loss (ql_smoothedLoss q)\<rparr>;
                  (rxBytes, rxPkts) = recvBytesWithin now' spn q
              in Inr (\<lparr>rm_Window = spn, rm_PktWindow = ql_winPkts q, rm_SentPackets = sentPk,
                       rm_AckedPackets = ackPk, rm_LostPackets = lostPk, rm_RecvPackets = rxPkts,
                       rm_SentBytes = sentBy, rm_RecvBytes = rxBytes,
                       rm_LossPercent = ql_smoothedLoss q, rm_SendRateBps = rate fl sentBy spn,
                       rm_RecvRateBps = rate fl rxBytes spn, rm_SmoothedRTT = outRTT,
                       rm_AsOf = now\<rparr>, q))
         else let sentPk = sumStamps (ql_sentPkts q);
                  ackPk = sumStamps (ql_ackedPkts q);
                  lostPk = sumStamps (ql_lostPkts q);
                  rcvPk = sumStamps (ql_rcvdPkts q);
                  sentBy = sumBytes (ql_sentBytes q);
                  rcvBy = sumBytes (ql_rcvdBytes q);
                  loss = loss_percent fl sentPk lostPk;
                  q = q\<lparr>ql_smoothedLoss := ewma fl (fl_lit fl 1 5) loss (ql_smoothedLoss q)\<rparr>
              in Inr (\<lparr>rm_Window = ql_window q, rm_PktWindow = 0, rm_SentPackets = sentPk,
                       rm_AckedPackets = ackPk, rm_LostPackets = lostPk, rm_RecvPackets = rcvPk,
                       rm_SentBytes = sentBy, rm_RecvBytes = rcvBy,
                       rm_LossPercent = ql_smoothedLoss q, rm_SendRateBps = rate fl sentBy (ql_window q),
                       rm_RecvRateBps = rate fl rcvBy (ql_window q), rm_SmoothedRTT = outRTT,
                       rm_AsOf = now\<rparr>, q))"

definition GetRTT :: "'f QuicLogger \<Rightarrow> Nanos" where
  "GetRTT q = ql_latestRTT q"

definition RecordMOQObject ::
  "Time \<Rightarrow> uint64 \<Rightarrow> uint64 \<Rightarrow> uint64 \<Rightarrow> int \<Rightarrow> gostring \<Rightarrow> gostring \<Rightarrow> gostring list \<Rightarrow>
     'f QuicLogger \<Rightarrow> 'f QuicLogger" where
  "RecordMOQObject now groupID subGroupID objectID sz direction trackName namespace q =
     q\<lparr>ql_moqObjectEvents := ql_moqObjectEvents q @
         [\<lparr>me_Timestamp = now, me_GroupID = groupID, me_SubGroupID = subGroupID, me_ObjectID = objectID,
           me_Size = sz, me_Direction = direction, me_TrackName = trackName, me_Namespace = namespace\<rparr>]\<rparr>"

definition SetLogLevel :: "int \<Rightarrow> 'f QuicLogger \<Rightarrow> 'f QuicLogger" where
  "SetLogLevel level q = q\<lparr>ql_logLevel := level\<rparr>"

definition LogSummary :: "'f float64 \<Rightarrow> Time \<Rightarrow> Time \<Rightarrow> 'f QuicLogger \<Rightarrow> 'f QuicLogger result" where
  "LogSummary fl now now' q = bindR (GetRollingMetrics fl now now' q) (\<lambda>(m, q). Inr q)"

definition LogDetailedStats :: "'f float64 \<Rightarrow> Time \<Rightarrow> Time \<Rightarrow> 'f QuicLogger \<Rightarrow> 'f QuicLogger result" where
  "LogDetailedStats fl now now' q = LogSummary fl now now' q"

section \<open>The connection tracer\<close>

text \<open>
  The callbacks of the tracer that \<^verbatim>\<open>CreateConnectionTracer\<close> installs, as events of the connection;
  the first is the creation of the tracer. The callback \<^verbatim>\<open>Close\<close> does nothing.
  Times are those of the calls of \<^verbatim>\<open>time.Now()\<close> in the callback.
\<close>

datatype tracer_event =
    CreatedTracer int
  | StartedConnection Time gostring gostring
  | ClosedConnection Time "go_error option"
  | SentLongHeaderPacket Time Time int64 int64
  | SentShortHeaderPacket Time Time int64 int64
  | ReceivedLongHeaderPacket Time int64
  | ReceivedShortHeaderPacket Time int64
  | AcknowledgedPacket Time Time nat int64
  | LostPacket Time Time nat int64
  | UpdatedMetrics Time Nanos

fun CreateConnectionTracer :: "'f float64 \<Rightarrow> tracer_event \<Rightarrow> 'f QuicLogger \<Rightarrow> 'f QuicLogger result" where
  "CreateConnectionTracer fl (CreatedTracer p) q = Inr (q\<lparr>ql_perspective := p\<rparr>)"
| "CreateConnectionTracer fl (StartedConnection now local remote) q =
     Inr (q\<lparr>ql_connectionEvents := ql_connectionEvents q @
              [\<lparr>ce_Timestamp = now, ce_EventType = map of_char ''started'', ce_Local = Some local,
                ce_Remote = Some remote, ce_Error = None\<rparr>]\<rparr>)"
| "CreateConnectionTracer fl (ClosedConnection now err) q =
     Inr (q\<lparr>ql_connectionEvents := ql_connectionEvents q @
              [\<lparr>ce_Timestamp = now, ce_EventType = map of_char ''closed'', ce_Local = None,
                ce_Remote = None, ce_Error = err\<rparr>]\<rparr>)"
| "CreateConnectionTracer fl (SentLongHeaderPacket now now' number sz) q = onSent now now' number sz q"
| "CreateConnectionTracer fl (SentShortHeaderPacket now now' number sz) q = onSent now now' number sz q"
| "CreateConnectionTracer fl (ReceivedLongHeaderPacket now sz) q = Inr (onRcvd now sz q)"
| "CreateConnectionTracer fl (ReceivedShortHeaderPacket now sz) q = Inr (onRcvd now sz q)"
| "CreateConnectionTracer fl (AcknowledgedPacket now now' level number) q = onAck now now' number q"
| "CreateConnectionTracer fl (LostPacket now now' level number) q = onLoss now now' number q"
| "CreateConnectionTracer fl (UpdatedMetrics now rtt) q =
     Inr (prune now (q\<lparr>ql_latestRTT := rtt,
            ql_smoothedRTT := ewma fl (fl_lit fl 1 5) (fl_of_int fl rtt) (ql_smoothedRTT q)\<rparr>))"

fun trace :: "'f float64 \<Rightarrow> tracer_event list \<Rightarrow> 'f QuicLogger \<Rightarrow> 'f QuicLogger result" where
  "trace fl [] q = Inr q"
| "trace fl (e # es) q = bindR (CreateConnectionTracer fl e q) (trace fl es)"

section \<open>The ring buffer\<close>

text \<open>
  The ring holds the packets in slots \<open>0, ..., N - 1\<close>. The next packet goes to the slot
  \<^const>\<open>ql_ringHead\<close>, which is also the number of packets as long as the ring is not full. The map
  \<^const>\<open>ql_byNum\<close> sends a packet number to a slot that is in use and holds that number.
\<close>

definition ring_ok :: "int \<Rightarrow> pktSample list \<Rightarrow> int \<Rightarrow> int \<Rightarrow> (int64 \<rightharpoonup> int) \<Rightarrow> bool" where
  "ring_ok N r head count m \<longleftrightarrow>
     int (length r) = N \<and> 0 \<le> head \<and> head < N \<and> 0 \<le> count \<and> count \<le> N \<and>
     (count < N \<longrightarrow> head = count) \<and>
     (\<forall>n i. m n = Some i \<longrightarrow> 0 \<le> i \<and> i < count \<and> ps_num (r ! nat i) = n)"

definition logger_ok :: "'f QuicLogger \<Rightarrow> bool" where
  "logger_ok q \<longleftrightarrow> 0 < ql_winPkts q \<and> 48 * ql_winPkts q \<le> int maxAlloc \<and>
     (case ql_ring q of
        None \<Rightarrow> ql_ringHead q = 0 \<and> ql_ringCount q = 0 \<and> ql_byNum q = Map.empty
      | Some r \<Rightarrow> ring_ok (ql_winPkts q) r (ql_ringHead q) (ql_ringCount q) (ql_byNum q))"

definition ring_put :: "pktSample \<Rightarrow> int \<Rightarrow> (pktSample list \<times> int \<times> int \<times> (int64 \<rightharpoonup> int)) \<Rightarrow>
    (pktSample list \<times> int \<times> int \<times> (int64 \<rightharpoonup> int))" where
  "ring_put x N = (\<lambda>(r, head, count, m).
     (r[nat head := x], (head + 1) mod N, (if count = N then N else count + 1),
      (if count = N then m(ps_num (r ! nat head) := None) else m)(ps_num x \<mapsto> head)))"

lemma ring_put_ok:
  assumes "ring_ok N r head count m" and "ring_put x N (r, head, count, m) = (r', head', count', m')"
  shows "ring_ok N r' head' count' m'"
proof -
  have rot: "(head + 1) mod N = (if head + 1 = N then 0 else head + 1)"
    and bounds: "int (length r) = N" "0 \<le> head" "head < N" "0 \<le> count" "count \<le> N"
    and fill: "count < N \<longrightarrow> head = count"
    and slot: "\<And>n i. m n = Some i \<Longrightarrow> 0 \<le> i \<and> i < count \<and> ps_num (r ! nat i) = n"
    using assms(1) by (auto simp: ring_ok_def)
  have put: "r' = r[nat head := x]" "head' = (head + 1) mod N" "count' = (if count = N then N else count + 1)"
    "m' = (if count = N then m(ps_num (r ! nat head) := None) else m)(ps_num x \<mapsto> head)"
    using assms(2) by (simp_all add: ring_put_def)
  have "0 \<le> i \<and> i < count' \<and> ps_num (r' ! nat i) = n" if "m' n = Some i" for n i
  proof (cases "n = ps_num x")
    case True
    then have "i = head" using that by (simp add: put)
    then show ?thesis using True bounds fill by (auto simp: put)
  next
    case False
    then have "m n = Some i" "count = N \<Longrightarrow> n \<noteq> ps_num (r ! nat head)"
      using that by (auto simp: put split: if_splits)
    moreover from this have "i \<noteq> head"
      using slot [of n i] fill bounds by auto
    ultimately show ?thesis
      using slot [of n i] bounds by (auto simp: put nth_list_update nat_eq_iff)
  qed
  moreover have "0 \<le> head'" "head' < N" "0 \<le> count'" "count' \<le> N" "count' < N \<longrightarrow> head' = count'"
    using bounds fill by (auto simp: put rot)
  ultimately show ?thesis
    using bounds by (simp add: ring_ok_def put(1))
qed

lemma prune_ring [simp]:
  "ql_ring (prune t q) = ql_ring q" "ql_ringHead (prune t q) = ql_ringHead q"
  "ql_ringCount (prune t q) = ql_ringCount q" "ql_byNum (prune t q) = ql_byNum q"
  "ql_winPkts (prune t q) = ql_winPkts q" "ql_windowMode (prune t q) = ql_windowMode q"
  "ql_window (prune t q) = ql_window q"
  by (simp_all add: prune_def Let_def)

lemma logger_ok_same:
  assumes "logger_ok q"
    and "ql_ring q' = ql_ring q" "ql_ringHead q' = ql_ringHead q" "ql_ringCount q' = ql_ringCount q"
      "ql_byNum q' = ql_byNum q" "ql_winPkts q' = ql_winPkts q"
  shows "logger_ok q'"
  using assms by (simp add: logger_ok_def cong: option.case_cong)

text \<open>The ring after \<^const>\<open>ringEnsure\<close>.\<close>

definition ensured :: "'f QuicLogger \<Rightarrow> pktSample list" where
  "ensured q = (case ql_ring q of None \<Rightarrow> replicate (nat (ql_winPkts q)) zero_sample | Some r \<Rightarrow> r)"

lemma ensured_ok:
  assumes "logger_ok q"
  shows "ring_ok (ql_winPkts q) (ensured q) (ql_ringHead q) (ql_ringCount q) (ql_byNum q)"
  using assms by (auto simp: logger_ok_def ensured_def ring_ok_def split: option.splits)

lemma ringEnsure_ok:
  assumes "logger_ok q"
  shows "ringEnsure q = Inr (q\<lparr>ql_ring := Some (ensured q)\<rparr>)"
proof (cases "ql_ring q")
  case None
  have "nat (ql_winPkts q) * 48 \<le> maxAlloc"
    using assms by (auto simp: logger_ok_def)
  then show ?thesis
    using assms None by (simp add: ringEnsure_def make_slice_def logger_ok_def ensured_def)
next
  case (Some r)
  then show ?thesis by (simp add: ringEnsure_def ensured_def)
qed

lemma onSent_packets:
  assumes ok: "logger_ok q" and mode: "ql_windowMode q = ByPackets"
    and put: "ring_put \<lparr>ps_t = now, ps_num = number, ps_size = sz, ps_st = psUnknown\<rparr> (ql_winPkts q)
      (ensured q, ql_ringHead q, ql_ringCount q, ql_byNum q) = (r, head, count, m)"
  shows "onSent now now' number sz q =
    Inr (prune now' (q\<lparr>ql_ring := Some r, ql_ringHead := head, ql_ringCount := count, ql_byNum := m\<rparr>))"
proof -
  have r: "ring_ok (ql_winPkts q) (ensured q) (ql_ringHead q) (ql_ringCount q) (ql_byNum q)"
    by (rule ensured_ok [OF ok])
  have rem: "go_rem (ql_ringHead q + 1) (ql_winPkts q) = Inr ((ql_ringHead q + 1) mod ql_winPkts q)"
    using r by (auto simp: ring_ok_def)
  have idx: "0 \<le> ql_ringHead q" "ql_ringHead q < int (length (ensured q))"
    using r by (auto simp: ring_ok_def)
  show ?thesis
  proof (cases "ql_ringCount q = ql_winPkts q")
    case True
    then have "onSent now now' number sz q =
      Inr (prune now' (q\<lparr>ql_ring := Some r, ql_byNum := m, ql_ringHead := head\<rparr>))"
      using put mode idx rem
      by (auto simp: onSent_def ringEnsure_ok [OF ok] index_int_def update_int_def ring_put_def Let_def)
    also have "q\<lparr>ql_ring := Some r, ql_byNum := m, ql_ringHead := head\<rparr> =
      q\<lparr>ql_ring := Some r, ql_ringHead := head, ql_ringCount := count, ql_byNum := m\<rparr>"
      using True put by (intro QuicLogger.equality) (auto simp: ring_put_def)
    finally show ?thesis .
  next
    case False
    then have "onSent now now' number sz q =
      Inr (prune now' (q\<lparr>ql_ringCount := count, ql_ring := Some r, ql_byNum := m, ql_ringHead := head\<rparr>))"
      using put mode idx rem
      by (auto simp: onSent_def ringEnsure_ok [OF ok] index_int_def update_int_def ring_put_def Let_def)
    also have "q\<lparr>ql_ringCount := count, ql_ring := Some r, ql_byNum := m, ql_ringHead := head\<rparr> =
      q\<lparr>ql_ring := Some r, ql_ringHead := head, ql_ringCount := count, ql_byNum := m\<rparr>"
      by (intro QuicLogger.equality) auto
    finally show ?thesis .
  qed
qed

lemma byNum_slot:
  assumes "logger_ok q" and "ql_byNum q n = Some i"
  obtains r where "ql_ring q = Some r" "0 \<le> i" "i < ql_ringCount q" "nat i < length r" "ps_num (r ! nat i) = n"
  using assms by (fastforce simp: logger_ok_def ring_ok_def split: option.splits)

lemma set_state_slot:
  assumes "ql_ring q = Some r" "0 \<le> i" "nat i < length r"
  shows "set_state i st q = Inr (q\<lparr>ql_ring := Some (r[nat i := (r ! nat i)\<lparr>ps_st := st\<rparr>])\<rparr>)"
  using assms by (simp add: set_state_def index_int_def update_int_def)

lemma logger_ok_set_state:
  assumes "logger_ok q" and "ql_ring q = Some r"
  shows "logger_ok (q\<lparr>ql_ring := Some (r[j := (r ! j)\<lparr>ps_st := st\<rparr>])\<rparr>)"
proof -
  have "ps_num (r[j := (r ! j)\<lparr>ps_st := st\<rparr>] ! k) = ps_num (r ! k)" for k
    by (cases "j < length r") (auto simp: nth_list_update list_update_beyond)
  then show ?thesis using assms by (auto simp: logger_ok_def ring_ok_def)
qed

text \<open>Every event succeeds and keeps the invariant.\<close>

lemma onSent_ok:
  assumes "logger_ok q"
  shows "\<exists>q'. onSent now now' number sz q = Inr q' \<and> logger_ok q'"
proof (cases "ql_windowMode q")
  case ByTime
  then show ?thesis
    by (simp add: onSent_def addSent_def) (rule logger_ok_same [OF assms], simp_all)
next
  case ByPackets
  obtain r head count m where put:
    "ring_put \<lparr>ps_t = now, ps_num = number, ps_size = sz, ps_st = psUnknown\<rparr> (ql_winPkts q)
      (ensured q, ql_ringHead q, ql_ringCount q, ql_byNum q) = (r, head, count, m)"
    by (metis prod_cases4)
  show ?thesis
    using ring_put_ok [OF ensured_ok [OF assms] put] assms
    by (simp add: onSent_packets [OF assms ByPackets put]) (simp add: logger_ok_def)
qed

lemma onAck_ok:
  assumes "logger_ok q"
  shows "\<exists>q'. onAck now now' number q = Inr q' \<and> logger_ok q'"
proof (cases "ql_windowMode q = ByPackets \<and> ql_byNum q number \<noteq> None")
  case True
  then obtain i where i: "ql_byNum q number = Some i" by auto
  obtain r where r: "ql_ring q = Some r" "0 \<le> i" "i < ql_ringCount q" "nat i < length r" "ps_num (r ! nat i) = number"
    by (rule byNum_slot [OF assms i])
  show ?thesis
    using True i logger_ok_set_state [OF assms r(1)]
    by (auto simp: onAck_def set_state_slot [OF r(1,2,4)])
next
  case False
  then show ?thesis
    using assms by (auto simp: onAck_def intro: logger_ok_same [OF assms])
qed

lemma onLoss_ok:
  assumes "logger_ok q"
  shows "\<exists>q'. onLoss now now' number q = Inr q' \<and> logger_ok q'"
proof (cases "ql_windowMode q = ByPackets \<and> ql_byNum q number \<noteq> None")
  case True
  then obtain i where i: "ql_byNum q number = Some i" by auto
  obtain r where r: "ql_ring q = Some r" "0 \<le> i" "i < ql_ringCount q" "nat i < length r" "ps_num (r ! nat i) = number"
    by (rule byNum_slot [OF assms i])
  show ?thesis
    using True i r assms logger_ok_set_state [OF assms r(1)]
    by (auto simp: onLoss_def set_state_slot [OF r(1,2,4)] index_int_def)
next
  case False
  then show ?thesis
    using assms by (auto simp: onLoss_def intro: logger_ok_same [OF assms])
qed

lemma event_ok:
  assumes "logger_ok q"
  shows "\<exists>q'. CreateConnectionTracer fl e q = Inr q' \<and> logger_ok q'"
  using onSent_ok [OF assms] onAck_ok [OF assms] onLoss_ok [OF assms]
  by (cases e) (simp_all add: onRcvd_def addRcvd_def logger_ok_same [OF assms])

lemma trace_ok:
  assumes "logger_ok q"
  shows "\<exists>q'. trace fl es q = Inr q' \<and> logger_ok q'"
  using assms
proof (induction es arbitrary: q)
  case (Cons e es)
  obtain q' where "CreateConnectionTracer fl e q = Inr q'" "logger_ok q'"
    using event_ok [OF Cons.prems] by blast
  then show ?case using Cons.IH by simp
qed simp

lemma NewQuicLogger_ok:
  assumes "NewQuicLogger fl now sid p cfg = Inr q" and "48 * ql_winPkts q \<le> int maxAlloc"
  shows "logger_ok q"
  using assms
  by (auto simp: NewQuicLogger_def Let_def logger_ok_def bindR_eq_Inr split: if_splits option.splits)

section \<open>The window of packets\<close>

text \<open>
  What the ring stands for: the last packets that were sent, oldest first. The slots in use are
  those below the count, since the ring wraps around only when it is full.
\<close>

definition ring_list :: "int \<Rightarrow> pktSample list \<Rightarrow> int \<Rightarrow> int \<Rightarrow> pktSample list" where
  "ring_list N r head count =
     (if count < N then take (nat count) r else drop (nat head) r @ take (nat head) r)"

definition window_of :: "'f QuicLogger \<Rightarrow> pktSample list" where
  "window_of q = ring_list (ql_winPkts q) (ensured q) (ql_ringHead q) (ql_ringCount q)"

lemma length_ring_list:
  "ring_ok N r head count m \<Longrightarrow> length (ring_list N r head count) = nat count"
  by (auto simp: ring_ok_def ring_list_def)

lemma mod_once: "0 \<le> a \<Longrightarrow> a < 2 * N \<Longrightarrow> a mod N = (if a < N then a else a - N)" for a N :: int
  using mod_pos_pos_trivial [of a N] mod_pos_pos_trivial [of "a - N" N] by auto

lemma ring_index:
  assumes "ring_ok N r head count m" and "i < nat count"
  shows "(head - count + int i + N) mod N =
      (if count < N then int i else if head + int i < N then head + int i else head + int i - N)"
    and "go_rem (head - count + int i + N) N = Inr ((head - count + int i + N) mod N)"
proof -
  show "(head - count + int i + N) mod N =
      (if count < N then int i else if head + int i < N then head + int i else head + int i - N)"
  proof (cases "count < N")
    case True
    then show ?thesis using assms by (auto simp: ring_ok_def)
  next
    case False
    then have "head - count + int i + N = head + int i" "0 \<le> head + int i" "head + int i < 2 * N"
      using assms by (auto simp: ring_ok_def)
    then show ?thesis using False by (simp add: mod_once)
  qed
  show "go_rem (head - count + int i + N) N = Inr ((head - count + int i + N) mod N)"
    using assms by (intro go_rem_pos) (auto simp: ring_ok_def)
qed

lemma ring_list_nth:
  assumes "ring_ok N r head count m" and "i < nat count"
  shows "ring_list N r head count ! i = r ! nat ((head - count + int i + N) mod N)"
  unfolding ring_index(1) [OF assms] using assms
  by (auto simp: ring_ok_def ring_list_def nth_append nat_add_distrib nat_diff_distrib add.commute)

lemma ring_list_put:
  assumes "ring_ok N r head count m" and "ring_put x N (r, head, count, m) = (r', head', count', m')"
  shows "ring_list N r' head' count' =
    drop (length (ring_list N r head count) + 1 - nat N) (ring_list N r head count @ [x])"
proof -
  have b: "int (length r) = N" "0 \<le> head" "head < N" "0 \<le> count" "count \<le> N" "count < N \<longrightarrow> head = count"
    using assms(1) by (auto simp: ring_ok_def)
  have rot: "(head + 1) mod N = (if head + 1 = N then 0 else head + 1)"
    using b by auto
  have "nat (head + 1) = Suc (nat head)" and "nat head < length r"
    using b by auto
  have put: "r' = r[nat head := x]" "head' = (if head + 1 = N then 0 else head + 1)"
    "count' = (if count = N then N else count + 1)"
    using assms(2) by (simp_all add: ring_put_def rot)
  show ?thesis
  proof (cases "count < N")
    case True
    then show ?thesis
      using b \<open>nat (head + 1) = Suc (nat head)\<close> \<open>nat head < length r\<close>
      by (auto simp: put ring_list_def take_Suc_conv_app_nth list_update_append1 upd_conv_take_nth_drop)
  next
    case False
    then have "drop (Suc (nat head)) r @ take (nat head) r = tl (drop (nat head) r @ take (nat head) r)"
      using \<open>nat head < length r\<close> by (simp add: tl_drop tl_append2 drop_Suc)
    then show ?thesis
      using b False \<open>nat (head + 1) = Suc (nat head)\<close> \<open>nat head < length r\<close>
      by (auto simp: put ring_list_def take_Suc_conv_app_nth drop_Suc upd_conv_take_nth_drop)
  qed
qed

text \<open>
  The numbers of the packets in use identify their slots, as long as no number is sent twice. Then
  an acknowledgement or a loss changes the packet of the window that has its number.
\<close>

definition numbered :: "pktSample list \<Rightarrow> int \<Rightarrow> (int64 \<rightharpoonup> int) \<Rightarrow> bool" where
  "numbered r count m \<longleftrightarrow> (\<forall>j < nat count. m (ps_num (r ! j)) = Some (int j))"

definition logger_numbered :: "'f QuicLogger \<Rightarrow> bool" where
  "logger_numbered q \<longleftrightarrow> numbered (ensured q) (ql_ringCount q) (ql_byNum q)"

lemma set_ring_list:
  "ring_ok N r head count m \<Longrightarrow> set (ring_list N r head count) = set (take (nat count) r)"
  by (auto simp: ring_ok_def ring_list_def set_append [symmetric] Un_commute simp del: set_append)
     (metis append_take_drop_id Un_iff set_append)+

lemma numbered_put:
  assumes "ring_ok N r head count m" and "numbered r count m"
    and "ring_put x N (r, head, count, m) = (r', head', count', m')"
    and "ps_num x \<notin> ps_num ` set (take (nat count) r)"
  shows "numbered r' count' m'"
proof -
  have b: "int (length r) = N" "0 \<le> head" "head < N" "0 \<le> count" "count \<le> N" "count < N \<longrightarrow> head = count"
    using assms(1) by (auto simp: ring_ok_def)
  have put: "r' = r[nat head := x]" "count' = (if count = N then N else count + 1)"
    "m' = (if count = N then m(ps_num (r ! nat head) := None) else m)(ps_num x \<mapsto> head)"
    using assms(3) by (simp_all add: ring_put_def)
  have "m' (ps_num (r' ! j)) = Some (int j)" if j: "j < nat count'" for j
  proof (cases "j = nat head")
    case True
    then show ?thesis using b by (auto simp: put)
  next
    case False
    have "j < nat count"
      using j False b by (auto simp: put split: if_splits)
    then have "r ! j \<in> set (take (nat count) r)"
      using b by (auto simp: in_set_conv_nth)
    then have "ps_num (r ! j) \<noteq> ps_num x"
      using assms(4) by (metis image_eqI)
    moreover have "m (ps_num (r ! j)) = Some (int j)"
      using assms(2) \<open>j < nat count\<close> by (simp add: numbered_def)
    moreover have "ps_num (r ! j) \<noteq> ps_num (r ! nat head)" if "count = N"
    proof -
      have "m (ps_num (r ! j)) = Some (int j)" "m (ps_num (r ! nat head)) = Some (int (nat head))"
        using assms(2) b \<open>j < nat count\<close> that by (simp_all add: numbered_def)
      then show ?thesis using False by (metis option.inject of_nat_eq_iff)
    qed
    ultimately show ?thesis using False b by (auto simp: put)
  qed
  then show ?thesis by (simp add: numbered_def)
qed

lemma ring_list_cong:
  assumes "int (length r) = N" "length r' = length r" "take (nat count) r' = take (nat count) r" "count \<le> N"
  shows "ring_list N r' head count = ring_list N r head count"
  using assms by (auto simp: ring_list_def)

lemma ring_list_map: "ring_list N (map f r) head count = map f (ring_list N r head count)"
  by (simp add: ring_list_def take_map drop_map)

text \<open>Changing the packet with a given number, in the slot that the map has for it.\<close>

lemma ring_list_mark:
  assumes "ring_ok N r head count m" and "numbered r count m"
    and f: "\<And>s. ps_num s \<noteq> n \<Longrightarrow> f s = s" "\<And>s. ps_num (f s) = ps_num s"
  shows "m n = None \<Longrightarrow> map f (ring_list N r head count) = ring_list N r head count"
    and "m n = Some i \<Longrightarrow>
      ring_list N (r[nat i := f (r ! nat i)]) head count = map f (ring_list N r head count) \<and>
      numbered (r[nat i := f (r ! nat i)]) count m"
proof -
  assume none: "m n = None"
  have "ps_num s \<noteq> n" if "s \<in> set (ring_list N r head count)" for s
    using that assms(2) none by (auto simp: set_ring_list [OF assms(1)] numbered_def in_set_conv_nth)
  then show "map f (ring_list N r head count) = ring_list N r head count"
    using f(1) by (intro map_idI) blast
next
  assume i: "m n = Some i"
  have b: "int (length r) = N" "0 \<le> i" "i < count" "count \<le> N" "ps_num (r ! nat i) = n"
    using assms(1) i by (auto simp: ring_ok_def)
  have other: "f (r ! j) = r ! j" if "j < nat count" "j \<noteq> nat i" for j
  proof -
    have "ps_num (r ! j) \<noteq> n" using assms(2) that i by (force simp: numbered_def)
    then show ?thesis by (rule f(1))
  qed
  have "take (nat count) (r[nat i := f (r ! nat i)]) = take (nat count) (map f r)"
    using b other by (auto intro!: nth_equalityI simp: nth_list_update)
  then have "ring_list N (r[nat i := f (r ! nat i)]) head count = ring_list N (map f r) head count"
    using b by (intro ring_list_cong) auto
  moreover have "numbered (r[nat i := f (r ! nat i)]) count m"
    using assms(2) b f(2) by (auto simp: numbered_def nth_list_update)
  ultimately show "ring_list N (r[nat i := f (r ! nat i)]) head count = map f (ring_list N r head count) \<and>
      numbered (r[nat i := f (r ! nat i)]) count m"
    by (simp add: ring_list_map)
qed

text \<open>The reference: the last \<open>N\<close> packets, a list that the events of the connection change.\<close>

definition mark :: "int64 \<Rightarrow> (pktState \<Rightarrow> pktState) \<Rightarrow> pktSample \<Rightarrow> pktSample" where
  "mark n f s = (if ps_num s = n then s\<lparr>ps_st := f (ps_st s)\<rparr> else s)"

fun cohort :: "nat \<Rightarrow> tracer_event \<Rightarrow> pktSample list \<Rightarrow> pktSample list" where
  "cohort N (SentLongHeaderPacket now now' number sz) l =
     drop (length l + 1 - N) (l @ [\<lparr>ps_t = now, ps_num = number, ps_size = sz, ps_st = psUnknown\<rparr>])"
| "cohort N (SentShortHeaderPacket now now' number sz) l =
     drop (length l + 1 - N) (l @ [\<lparr>ps_t = now, ps_num = number, ps_size = sz, ps_st = psUnknown\<rparr>])"
| "cohort N (AcknowledgedPacket now now' level number) l = map (mark number (\<lambda>_. psAcked)) l"
| "cohort N (LostPacket now now' level number) l =
     map (mark number (\<lambda>st. if st = psUnknown then psLost else st)) l"
| "cohort N e l = l"

fun sent_number :: "tracer_event \<Rightarrow> int64 list" where
  "sent_number (SentLongHeaderPacket now now' number sz) = [number]"
| "sent_number (SentShortHeaderPacket now now' number sz) = [number]"
| "sent_number e = []"

lemma mark_num [simp]: "ps_num (mark n f s) = ps_num s"
  by (simp add: mark_def)

lemma mark_other: "ps_num s \<noteq> n \<Longrightarrow> mark n f s = s"
  by (simp add: mark_def)

lemma window_of_same:
  assumes "ql_ring q' = ql_ring q" "ql_ringHead q' = ql_ringHead q" "ql_ringCount q' = ql_ringCount q"
    "ql_winPkts q' = ql_winPkts q"
  shows "window_of q' = window_of q"
  using assms by (cases "ql_ring q") (simp_all add: window_of_def ensured_def)

lemma onSent_window:
  assumes "logger_ok q" "logger_numbered q" "ql_windowMode q = ByPackets"
    and "number \<notin> ps_num ` set (window_of q)"
  shows "\<exists>q'. onSent now now' number sz q = Inr q' \<and> logger_numbered q' \<and>
    ql_windowMode q' = ByPackets \<and> ql_winPkts q' = ql_winPkts q \<and>
    window_of q' = cohort (nat (ql_winPkts q)) (SentShortHeaderPacket now now' number sz) (window_of q)"
proof -
  let ?x = "\<lparr>ps_t = now, ps_num = number, ps_size = sz, ps_st = psUnknown\<rparr>"
  obtain r head count m where put:
    "ring_put ?x (ql_winPkts q) (ensured q, ql_ringHead q, ql_ringCount q, ql_byNum q) = (r, head, count, m)"
    by (metis prod_cases4)
  note ring = ensured_ok [OF assms(1)]
  have "numbered r count m"
    using assms(2,4) set_ring_list [OF ring]
    by (intro numbered_put [OF ring _ put]) (simp_all add: logger_numbered_def window_of_def)
  then show ?thesis
    using assms(3) ring_list_put [OF ring put]
    by (simp add: onSent_packets [OF assms(1,3) put] logger_numbered_def window_of_def) (simp add: ensured_def)
qed

lemma set_state_window:
  assumes "logger_ok q" "logger_numbered q" "ql_byNum q n = Some i"
    and "ql_ring q = Some r" "0 \<le> i" "nat i < length r" "ps_num (r ! nat i) = n"
    and "f (ps_st (r ! nat i)) = st"
  shows "\<exists>q'. set_state i st q = Inr q' \<and> logger_numbered q' \<and> ql_windowMode q' = ql_windowMode q \<and>
    ql_winPkts q' = ql_winPkts q \<and> window_of q' = map (mark n f) (window_of q)"
proof -
  have e: "ensured q = r"
    using assms(4) by (simp add: ensured_def)
  have "(r ! nat i)\<lparr>ps_st := st\<rparr> = mark n f (r ! nat i)"
    using assms(7,8) by (simp add: mark_def)
  then show ?thesis
    using ring_list_mark(2) [OF ensured_ok [OF assms(1)], of n "mark n f" i] assms(2,3)
    by (simp add: set_state_slot [OF assms(4,5,6)] logger_numbered_def window_of_def e mark_other)
       (simp add: ensured_def)
qed

lemma mark_none:
  assumes "logger_ok q" "logger_numbered q" "ql_byNum q n = None"
  shows "map (mark n f) (window_of q) = window_of q"
  using ring_list_mark(1) [OF ensured_ok [OF assms(1)], of n "mark n f"] assms(2,3)
  by (simp add: logger_numbered_def window_of_def mark_other)

lemma onAck_window:
  assumes "logger_ok q" "logger_numbered q" "ql_windowMode q = ByPackets"
  shows "\<exists>q'. onAck now now' n q = Inr q' \<and> logger_numbered q' \<and> ql_windowMode q' = ByPackets \<and>
    ql_winPkts q' = ql_winPkts q \<and> window_of q' = map (mark n (\<lambda>_. psAcked)) (window_of q)"
proof (cases "ql_byNum q n")
  case None
  then show ?thesis using assms by (simp add: onAck_def mark_none)
next
  case (Some i)
  obtain r where "ql_ring q = Some r" "0 \<le> i" "i < ql_ringCount q" "nat i < length r" "ps_num (r ! nat i) = n"
    by (rule byNum_slot [OF assms(1) Some])
  then show ?thesis
    using set_state_window [OF assms(1,2) Some, of r "\<lambda>_. psAcked"] assms(3) Some by (simp add: onAck_def)
qed

lemma onLoss_window:
  assumes "logger_ok q" "logger_numbered q" "ql_windowMode q = ByPackets"
  shows "\<exists>q'. onLoss now now' n q = Inr q' \<and> logger_numbered q' \<and> ql_windowMode q' = ByPackets \<and>
    ql_winPkts q' = ql_winPkts q \<and>
    window_of q' = map (mark n (\<lambda>st. if st = psUnknown then psLost else st)) (window_of q)"
proof (cases "ql_byNum q n")
  case None
  then show ?thesis using assms by (simp add: onLoss_def mark_none)
next
  case (Some i)
  let ?f = "\<lambda>st. if st = psUnknown then psLost else st"
  obtain r where r: "ql_ring q = Some r" "0 \<le> i" "i < ql_ringCount q" "nat i < length r" "ps_num (r ! nat i) = n"
    by (rule byNum_slot [OF assms(1) Some])
  have at: "index_int r i = Inr (r ! nat i)"
    using r(2,4) by (simp add: index_int_def)
  note marked = set_state_window [OF assms(1,2) Some r(1,2,4,5), of ?f, OF refl]
  show ?thesis
  proof (cases "ps_st (r ! nat i) = psUnknown")
    case True
    then show ?thesis using marked assms(3) Some r(1) at by (simp add: onLoss_def)
  next
    case False
    then have "set_state i (?f (ps_st (r ! nat i))) q = Inr q"
      by (simp add: set_state_slot [OF r(1,2,4)]) (simp add: r(1) [symmetric])
    then show ?thesis using marked False assms Some r(1) at by (simp add: onLoss_def)
  qed
qed

lemma numbered_same:
  assumes "logger_numbered q" "ql_ring q' = ql_ring q" "ql_ringCount q' = ql_ringCount q"
    "ql_byNum q' = ql_byNum q" "ql_winPkts q' = ql_winPkts q"
  shows "logger_numbered q'"
  using assms by (cases "ql_ring q") (simp_all add: logger_numbered_def ensured_def)

lemma event_window:
  assumes "logger_ok q" "logger_numbered q" "ql_windowMode q = ByPackets"
    and "set (sent_number e) \<inter> ps_num ` set (window_of q) = {}"
  shows "\<exists>q'. CreateConnectionTracer fl e q = Inr q' \<and> logger_numbered q' \<and>
    ql_windowMode q' = ByPackets \<and> ql_winPkts q' = ql_winPkts q \<and>
    window_of q' = cohort (nat (ql_winPkts q)) e (window_of q)"
proof -
  have same: "logger_numbered q' \<and> window_of q' = window_of q"
    if "ql_ring q' = ql_ring q" "ql_ringHead q' = ql_ringHead q" "ql_ringCount q' = ql_ringCount q"
      "ql_byNum q' = ql_byNum q" "ql_winPkts q' = ql_winPkts q" for q' :: "'a QuicLogger"
    using that assms(2) by (blast intro: numbered_same window_of_same)
  show ?thesis
    using onSent_window [OF assms(1-3)] onAck_window [OF assms(1-3)] onLoss_window [OF assms(1-3)] assms(3,4)
    by (cases e) (simp_all add: onRcvd_def addRcvd_def, (rule same; simp)+)
qed

lemma cohort_numbers:
  "set (map ps_num (cohort N e l)) \<subseteq> set (map ps_num l) \<union> set (sent_number e)"
  by (cases "(N, e, l)" rule: cohort.cases) (auto dest: in_set_dropD)

lemma trace_window:
  assumes "logger_ok q" "logger_numbered q" "ql_windowMode q = ByPackets"
    and "distinct (concat (map sent_number es))"
    and "set (concat (map sent_number es)) \<inter> ps_num ` set (window_of q) = {}"
  shows "\<exists>q'. trace fl es q = Inr q' \<and> logger_ok q' \<and> ql_windowMode q' = ByPackets \<and>
    ql_winPkts q' = ql_winPkts q \<and>
    window_of q' = fold (cohort (nat (ql_winPkts q))) es (window_of q)"
  using assms
proof (induction es arbitrary: q)
  case (Cons e es)
  obtain q1 where q1: "CreateConnectionTracer fl e q = Inr q1" "logger_numbered q1"
      "ql_windowMode q1 = ByPackets" "ql_winPkts q1 = ql_winPkts q"
      "window_of q1 = cohort (nat (ql_winPkts q)) e (window_of q)"
    using event_window [OF Cons.prems(1-3), of e fl] Cons.prems(5) by auto
  have "logger_ok q1"
    using event_ok [OF Cons.prems(1), of fl e] q1(1) by simp
  moreover have "set (concat (map sent_number es)) \<inter> ps_num ` set (window_of q1) = {}"
    using cohort_numbers [of "nat (ql_winPkts q)" e "window_of q"] Cons.prems(4,5) q1(5) by (auto 4 3)
  ultimately show ?case
    using Cons.IH [OF _ q1(2,3)] Cons.prems(4) q1 by simp
qed simp

text \<open>
  Packet numbers are counted separately for Initial, Handshake and application packets, but share
  the map. When the oldest packet leaves a full ring, the map forgets its number even if it stands
  for a newer packet with that number, whose acknowledgement is then ignored.
\<close>

lemma reused_number_forgotten:
  assumes "ring_put x N (r, head, N, m) = (r', head', count', m')"
    and "ps_num (r ! nat head) = n" and "j \<noteq> nat head" and "ps_num (r ! j) = n" and "ps_num x \<noteq> n"
  shows "ps_num (r' ! j) = n" and "m' n = None"
  using assms by (auto simp: ring_put_def)

lemma ack_forgotten:
  assumes "ql_windowMode q = ByPackets" "ql_byNum q n = None"
  shows "onAck now now' n q = Inr q"
  using assms by (simp add: onAck_def)

section \<open>The metrics of the window\<close>

definition live :: "pktSample \<Rightarrow> bool" where
  "live s \<longleftrightarrow> \<not> (ps_num s = 0 \<and> ps_size s = 0 \<and> ps_t s = 0)"

definition in_state :: "pktState \<Rightarrow> pktSample list \<Rightarrow> nat" where
  "in_state st l = length (filter (\<lambda>s. ps_st s = st) l)"

definition window_span :: "pktSample list \<Rightarrow> Nanos" where
  "window_span l = (if l \<noteq> [] \<and> ps_t (hd l) < ps_t (last l)
     then Time_Sub (ps_t (last l)) (ps_t (hd l)) else Second)"

text \<open>The samples that the loop reads, with their slots.\<close>

definition slots :: "'f QuicLogger \<Rightarrow> (int \<times> pktSample) list" where
  "slots q = map (\<lambda>i. let idx = (ql_ringHead q - ql_ringCount q + int i + ql_winPkts q) mod ql_winPkts q
     in (idx, ring_of q ! nat idx)) [0..<nat (ql_ringCount q)]"

lemma window_loop_fold:
  assumes "\<forall>i\<in>set is. i < nat (ql_ringCount q)" and ok: "ql_ring q = Some r"
    "ring_ok (ql_winPkts q) r (ql_ringHead q) (ql_ringCount q) (ql_byNum q)"
  shows "window_loop q (map int is) c = Inr (fold (\<lambda>i. let idx =
      (ql_ringHead q - ql_ringCount q + int i + ql_winPkts q) mod ql_winPkts q
     in count_sample idx (r ! nat idx)) is c)"
  using assms(1)
proof (induction "is" arbitrary: c)
  case (Cons i "is")
  let ?idx = "(ql_ringHead q - ql_ringCount q + int i + ql_winPkts q) mod ql_winPkts q"
  have "0 < ql_winPkts q" "int (length r) = ql_winPkts q"
    using ok(2) by (auto simp: ring_ok_def)
  then have "index_int r ?idx = Inr (r ! nat ?idx)"
    by (simp add: index_int_def)
  then show ?case
    using Cons ring_index(2) [OF ok(2), of i] by (simp add: ok(1) Let_def)
qed simp

lemma count_fold:
  assumes "\<forall>p\<in>set ps. 0 \<le> fst p"
  shows "fold (\<lambda>p. count_sample (fst p) (snd p)) ps c =
    (let l = filter (live \<circ> snd) ps in
     c\<lparr>wc_sent := wc_sent c + of_nat (length l),
       wc_acked := wc_acked c + of_nat (in_state psAcked (map snd l)),
       wc_lost := wc_lost c + of_nat (in_state psLost (map snd l)),
       wc_bytes := wc_bytes c + sum_list (map (ps_size \<circ> snd) l),
       wc_firstIdx := (if wc_firstIdx c = -1 \<and> l \<noteq> [] then fst (hd l) else wc_firstIdx c),
       wc_lastIdx := (if l \<noteq> [] then fst (last l) else wc_lastIdx c)\<rparr>)"
  using assms
proof (induction ps arbitrary: c)
  case (Cons p ps)
  then show ?case
    by (auto simp: Let_def count_sample_def live_def in_state_def algebra_simps)
qed (simp add: Let_def in_state_def)

lemma upto_upt: "[0..int n - 1] = map int [0..<n]"
  by (induction n) (simp_all add: upto_rec2)

text \<open>The loop over the ring computes the counts of the window.\<close>

lemma packetWindowMetrics_window:
  assumes "logger_ok q"
  shows "packetWindowMetrics q = Inr (let l = filter live (window_of q) in
    (of_nat (length l), of_nat (in_state psAcked l), of_nat (in_state psLost l),
     sum_list (map ps_size l), if window_of q = [] then 0 else window_span l))"
proof (cases "ql_ringCount q = 0")
  case True
  then have "window_of q = []"
    using length_ring_list [OF ensured_ok [OF assms]] by (simp add: window_of_def)
  then show ?thesis using True by (simp add: packetWindowMetrics_def in_state_def)
next
  case False
  then obtain r where r: "ql_ring q = Some r"
    "ring_ok (ql_winPkts q) r (ql_ringHead q) (ql_ringCount q) (ql_byNum q)"
    using assms by (auto simp: logger_ok_def split: option.splits)
  have b: "0 < ql_ringCount q" "0 < ql_winPkts q" "int (length r) = ql_winPkts q"
    using r(2) False by (auto simp: ring_ok_def)
  let ?ps = "slots q" and ?l = "filter (live \<circ> snd) (slots q)"
  have slot: "0 \<le> fst p \<and> fst p < int (length r) \<and> snd p = r ! nat (fst p)" if "p \<in> set ?ps" for p
    using that b r(1) by (auto simp: slots_def Let_def)
  have w: "window_of q = map snd ?ps"
    using length_ring_list [OF r(2)] ring_list_nth [OF r(2)] r(1)
    by (intro nth_equalityI) (simp_all add: window_of_def ensured_def slots_def Let_def)
  then have l: "filter live (window_of q) = map snd ?l"
    by (simp add: filter_map)
  have "window_loop q [0..ql_ringCount q - 1] c = Inr (fold (\<lambda>p. count_sample (fst p) (snd p)) ?ps c)" for c
  proof -
    have "[0..ql_ringCount q - 1] = map int [0..<nat (ql_ringCount q)]"
      using b(1) upto_upt [of "nat (ql_ringCount q)"] by simp
    then show ?thesis
      using window_loop_fold [OF _ r, of "[0..<nat (ql_ringCount q)]" c] r(1)
      by (simp add: slots_def fold_map comp_def Let_def)
  qed
  moreover have "window_of q \<noteq> []"
    using b(1) by (simp add: w slots_def)
  moreover have "fst (hd ?l) \<ge> 0" "fst (last ?l) \<ge> 0" "index_int r (fst (hd ?l)) = Inr (snd (hd ?l))"
    "index_int r (fst (last ?l)) = Inr (snd (last ?l))" if "?l \<noteq> []"
    using slot [of "hd ?l"] slot [of "last ?l"] hd_in_set [OF that] last_in_set [OF that]
    by (auto simp: index_int_def)
  ultimately show ?thesis
    using False r(1)
    by (simp add: packetWindowMetrics_def count_fold slot l Let_def window_span_def hd_map last_map)
qed

lemma in_state_le: "in_state psAcked l + in_state psLost l \<le> length l"
  by (induction l) (auto simp: in_state_def)

text \<open>A logger that was just created has an empty window.\<close>

lemma NewQuicLogger_window:
  assumes "NewQuicLogger fl now sid p cfg = Inr q"
  shows "window_of q = []" "logger_numbered q"
  using assms
  by (auto simp: NewQuicLogger_def Let_def bindR_eq_Inr window_of_def ring_list_def logger_numbered_def
      numbered_def split: if_splits option.splits)

text \<open>The times of the packets that were sent are those of the events.\<close>

fun sent_time :: "tracer_event \<Rightarrow> Time list" where
  "sent_time (SentLongHeaderPacket now now' number sz) = [now]"
| "sent_time (SentShortHeaderPacket now now' number sz) = [now]"
| "sent_time e = []"

lemma cohort_times:
  "ps_t ` set (cohort N e l) \<subseteq> ps_t ` set l \<union> set (sent_time e)"
  by (cases "(N, e, l)" rule: cohort.cases) (auto simp: mark_def dest: in_set_dropD)

lemma cohorts_live:
  assumes "0 \<notin> set (concat (map sent_time es))" "0 \<notin> ps_t ` set l"
  shows "filter live (fold (cohort N) es l) = fold (cohort N) es l"
  using assms
proof (induction es arbitrary: l)
  case Nil
  then show ?case by (auto simp: live_def filter_id_conv image_iff)
next
  case (Cons e es)
  then show ?case using cohort_times [of N e l] by auto
qed

text \<open>The metrics in the packet mode report the counts of the window, and never fail.\<close>

definition reports :: "'f RollingMetrics \<Rightarrow> pktSample list \<Rightarrow> bool" where
  "reports m l \<longleftrightarrow> rm_SentPackets m = of_nat (length l) \<and> rm_AckedPackets m = of_nat (in_state psAcked l) \<and>
     rm_LostPackets m = of_nat (in_state psLost l) \<and> rm_SentBytes m = sum_list (map ps_size l)"

lemma metrics_report:
  assumes "logger_ok q" "ql_windowMode q = ByPackets"
  shows "\<exists>m q'. GetRollingMetrics fl now now' q = Inr (m, q') \<and> logger_ok q' \<and> window_of q' = window_of q \<and>
    reports m (filter live (window_of q)) \<and> 0 < rm_Window m \<and> rm_PktWindow m = ql_winPkts q"
proof -
  have pos: "0 < (if s \<le> 0 then Second else s)" for s
    by (simp add: Second_def)
  have "logger_ok (q\<lparr>ql_smoothedLoss := x\<rparr>) \<and> window_of (q\<lparr>ql_smoothedLoss := x\<rparr>) = window_of q" for x
    by (intro conjI logger_ok_same [OF assms(1)] window_of_same) simp_all
  then show ?thesis
    using assms(2) packetWindowMetrics_window [OF assms(1)] pos
    by (simp add: GetRollingMetrics_def reports_def Let_def split_beta)
qed

lemma window_bound:
  assumes "logger_ok q"
  shows "length (window_of q) \<le> nat (ql_winPkts q)"
  using ensured_ok [OF assms] length_ring_list [OF ensured_ok [OF assms]]
  by (auto simp: window_of_def ring_ok_def)

lemma reports_bounds:
  assumes "logger_ok q" "reports m (filter live (window_of q))" "rm_PktWindow m = ql_winPkts q"
  shows "unat (rm_AckedPackets m) + unat (rm_LostPackets m) \<le> unat (rm_SentPackets m)"
    and "int (unat (rm_SentPackets m)) \<le> rm_PktWindow m"
proof -
  let ?l = "filter live (window_of q)"
  have len: "length ?l \<le> nat (ql_winPkts q)"
    using window_bound [OF assms(1)] length_filter_le [of live "window_of q"] by linarith
  moreover have pos: "0 < ql_winPkts q" and "nat (ql_winPkts q) < 2 ^ 64"
    using assms(1) by (auto simp: logger_ok_def maxAlloc_def)
  ultimately have "unat (of_nat k :: int64) = k" if "k \<le> length ?l" for k
    using that by (intro unat_of_nat_uint64) linarith
  then show "unat (rm_AckedPackets m) + unat (rm_LostPackets m) \<le> unat (rm_SentPackets m)"
    and "int (unat (rm_SentPackets m)) \<le> rm_PktWindow m"
    using assms(2,3) in_state_le [of ?l] len pos by (simp_all add: reports_def)
qed

lemma metrics_returned: "logger_ok q \<Longrightarrow> \<exists>m q'. GetRollingMetrics fl now now' q = Inr (m, q') \<and>
    (ql_windowMode q = ByPackets \<longrightarrow>
      unat (rm_AckedPackets m) + unat (rm_LostPackets m) \<le> unat (rm_SentPackets m) \<and>
      int (unat (rm_SentPackets m)) \<le> rm_PktWindow m)"
proof (cases "ql_windowMode q")
  case ByTime
  then show ?thesis by (simp add: GetRollingMetrics_def Let_def)
next
  case ByPackets
  assume ok: "logger_ok q"
  then show ?thesis
    using metrics_report [OF ok ByPackets, of fl now now'] reports_bounds [OF ok] by blast
qed

section \<open>The window of time\<close>

text \<open>
  Under a clock that does not go back, pruning keeps the samples of the window: those that are not
  older than the window at the time of the last event.
\<close>

definition timed :: "('x \<Rightarrow> Time) \<Rightarrow> Nanos \<Rightarrow> Time \<Rightarrow> 'x list \<Rightarrow> 'x list \<Rightarrow> bool" where
  "timed time W T s h \<longleftrightarrow>
     s = filter (\<lambda>x. T - W \<le> time x) h \<and> sorted (map time h) \<and> (\<forall>x\<in>set h. time x \<le> T)"

lemma pruneStamps_dropWhile: "pruneStamps since s = dropWhile (\<lambda>x. sc_t x < since) s"
  by (induction s) auto

lemma pruneBytes_dropWhile: "pruneBytes since s = dropWhile (\<lambda>x. bs_t x < since) s"
  by (induction s) auto

lemma dropWhile_sorted:
  "sorted (map time s) \<Longrightarrow> dropWhile (\<lambda>x. time x < since) s = filter (\<lambda>x. since \<le> time x) s"
  for since :: "'t::linorder"
proof (induction s)
  case (Cons x s)
  then have "filter (\<lambda>y. since \<le> time y) s = s" if "since \<le> time x"
    using that by (auto simp: filter_id_conv)
  then show ?case using Cons by auto
qed simp

lemma timed_step:
  assumes "timed time W T s h" "T \<le> T'" "sorted (map time xs)" "\<forall>x\<in>set xs. T \<le> time x \<and> time x \<le> T'"
  shows "timed time W T' (dropWhile (\<lambda>x. time x < T' - W) (s @ xs)) (h @ xs)"
proof -
  have h: "s = filter (\<lambda>x. T - W \<le> time x) h" "sorted (map time h)" "\<forall>x\<in>set h. time x \<le> T"
    using assms(1) by (auto simp: timed_def)
  have sorted_h: "sorted (map time (h @ xs))"
    using h(2,3) assms(3,4) by (fastforce simp: sorted_append)
  moreover have "sorted (map time (s @ xs))"
    using h sorted_h by (fastforce simp: sorted_append intro: sorted_filter)
  moreover have "filter (\<lambda>x. T' - W \<le> time x) s = filter (\<lambda>x. T' - W \<le> time x) h"
    using h(1) assms(2) by (auto intro!: filter_cong)
  ultimately show ?thesis
    using h(3) assms(2,4) by (fastforce simp: timed_def dropWhile_sorted)
qed

text \<open>The history of a connection: what happened when, and to how many bytes.\<close>

datatype activity = Sent | Received | Acked | Lost

fun activity_of :: "tracer_event \<Rightarrow> (activity \<times> Time \<times> int64) list" where
  "activity_of (SentLongHeaderPacket now now' number sz) = [(Sent, now, sz)]"
| "activity_of (SentShortHeaderPacket now now' number sz) = [(Sent, now, sz)]"
| "activity_of (ReceivedLongHeaderPacket now sz) = [(Received, now, sz)]"
| "activity_of (ReceivedShortHeaderPacket now sz) = [(Received, now, sz)]"
| "activity_of (AcknowledgedPacket now now' level number) = [(Acked, now, 0)]"
| "activity_of (LostPacket now now' level number) = [(Lost, now, 0)]"
| "activity_of e = []"

text \<open>The readings of the clock that the time mode uses.\<close>

fun clock :: "tracer_event \<Rightarrow> Time list" where
  "clock (AcknowledgedPacket now now' level number) = [now, now']"
| "clock (LostPacket now now' level number) = [now, now']"
| "clock (UpdatedMetrics now rtt) = [now]"
| "clock e = map (fst \<circ> snd) (activity_of e)"

definition stamps :: "activity \<Rightarrow> (activity \<times> Time \<times> int64) list \<Rightarrow> stampCount list" where
  "stamps k as = map (\<lambda>(_, t, _). \<lparr>sc_t = t, sc_n = 1\<rparr>) (filter (\<lambda>a. fst a = k) as)"

definition samples :: "activity \<Rightarrow> (activity \<times> Time \<times> int64) list \<Rightarrow> byteSample list" where
  "samples k as = map (\<lambda>(_, t, n). \<lparr>bs_t = t, bs_b = n\<rparr>) (filter (\<lambda>a. fst a = k) as)"

lemma stamps_simps [simp]:
  "stamps k [] = []" "stamps k (as @ bs) = stamps k as @ stamps k bs"
  "stamps k [(k', t, n)] = (if k' = k then [\<lparr>sc_t = t, sc_n = 1\<rparr>] else [])"
  by (simp_all add: stamps_def)

lemma samples_simps [simp]:
  "samples k [] = []" "samples k (as @ bs) = samples k as @ samples k bs"
  "samples k [(k', t, n)] = (if k' = k then [\<lparr>bs_t = t, bs_b = n\<rparr>] else [])"
  by (simp_all add: samples_def)

definition time_ok :: "Nanos \<Rightarrow> Time \<Rightarrow> (activity \<times> Time \<times> int64) list \<Rightarrow> 'f QuicLogger \<Rightarrow> bool" where
  "time_ok W T as q \<longleftrightarrow> ql_windowMode q = ByTime \<and> ql_window q = W \<and>
     timed sc_t W T (ql_sentPkts q) (stamps Sent as) \<and> timed sc_t W T (ql_rcvdPkts q) (stamps Received as) \<and>
     timed sc_t W T (ql_ackedPkts q) (stamps Acked as) \<and> timed sc_t W T (ql_lostPkts q) (stamps Lost as) \<and>
     timed bs_t W T (ql_sentBytes q) (samples Sent as) \<and> timed bs_t W T (ql_rcvdBytes q) (samples Received as)"

lemma prune_time [simp]:
  assumes "ql_windowMode q = ByTime"
  shows "prune now q = (let since = now - ql_window q in
    q\<lparr>ql_sentPkts := dropWhile (\<lambda>x. sc_t x < since) (ql_sentPkts q),
      ql_rcvdPkts := dropWhile (\<lambda>x. sc_t x < since) (ql_rcvdPkts q),
      ql_ackedPkts := dropWhile (\<lambda>x. sc_t x < since) (ql_ackedPkts q),
      ql_lostPkts := dropWhile (\<lambda>x. sc_t x < since) (ql_lostPkts q),
      ql_sentBytes := dropWhile (\<lambda>x. bs_t x < since) (ql_sentBytes q),
      ql_rcvdBytes := dropWhile (\<lambda>x. bs_t x < since) (ql_rcvdBytes q)\<rparr>)"
  using assms by (simp add: prune_def Let_def pruneStamps_dropWhile pruneBytes_dropWhile)

lemmas timed_keep = timed_step [where xs = "[]", simplified]
lemmas timed_new = timed_step [where xs = "[x]" for x, simplified]

lemma event_time:
  assumes "time_ok W T as q" "sorted (T # clock e)"
  shows "\<exists>q'. CreateConnectionTracer fl e q = Inr q' \<and> time_ok W (last (T # clock e)) (as @ activity_of e) q'"
  using assms
  by (cases e) (auto simp: time_ok_def Let_def onSent_def addSent_def onRcvd_def addRcvd_def onAck_def onLoss_def
      intro: timed_keep timed_new order_trans)

lemma trace_time:
  assumes "time_ok W T as q" "sorted (T # concat (map clock es))"
  shows "\<exists>q'. trace fl es q = Inr q' \<and>
    time_ok W (last (T # concat (map clock es))) (as @ concat (map activity_of es)) q'"
  using assms
proof (induction es arbitrary: T as q)
  case (Cons e es)
  let ?T = "last (T # clock e)"
  have "sorted (T # clock e)" "sorted (?T # concat (map clock es))"
    using Cons.prems(2) by (auto simp: sorted_append)
  moreover from this obtain q' where
    "CreateConnectionTracer fl e q = Inr q'" "time_ok W ?T (as @ activity_of e) q'"
    using event_time [OF Cons.prems(1)] by blast
  moreover have "last (?T # concat (map clock es)) = last (T # concat (map clock (e # es)))"
    by (cases "concat (map clock es) = []") auto
  ultimately show ?case
    using Cons.IH [of ?T "as @ activity_of e" q'] by simp
qed simp

lemma NewQuicLogger_time:
  assumes "NewQuicLogger fl now sid p cfg = Inr q" "ql_windowMode q = ByTime"
  shows "time_ok (ql_window q) T [] q"
  using assms
  by (auto simp: NewQuicLogger_def Let_def bindR_eq_Inr time_ok_def timed_def split: if_splits option.splits)

lemma sumStamps_stamps: "sumStamps_from n (filter P (stamps k as)) = n + of_nat (length (filter P (stamps k as)))"
  by (induction as arbitrary: n) (auto simp: stamps_def)

lemma sumBytes_sum: "sumBytes_from n s = n + sum_list (map bs_b s)"
  by (induction s arbitrary: n) (auto simp: add.assoc)

text \<open>The activities of a kind in the window that ends at a given time.\<close>

definition recent :: "activity \<Rightarrow> Nanos \<Rightarrow> Time \<Rightarrow> (activity \<times> Time \<times> int64) list \<Rightarrow>
    (activity \<times> Time \<times> int64) list" where
  "recent k W T as = filter (\<lambda>(k', t, n). k' = k \<and> T - W \<le> t) as"

lemma recent_stamps: "length (filter (\<lambda>x. T - W \<le> sc_t x) (stamps k as)) = length (recent k W T as)"
  by (induction as) (auto simp: stamps_def recent_def)

lemma recent_samples:
  "sum_list (map bs_b (filter (\<lambda>x. T - W \<le> bs_t x) (samples k as))) =
   sum_list (map (snd \<circ> snd) (recent k W T as))"
  by (induction as) (auto simp: samples_def recent_def)

lemma metrics_time:
  assumes "time_ok W T as q"
  shows "\<exists>m q'. GetRollingMetrics fl now now' q = Inr (m, q') \<and> rm_AsOf m = now \<and> rm_Window m = W \<and>
    rm_SentPackets m = of_nat (length (recent Sent W T as)) \<and>
    rm_RecvPackets m = of_nat (length (recent Received W T as)) \<and>
    rm_AckedPackets m = of_nat (length (recent Acked W T as)) \<and>
    rm_LostPackets m = of_nat (length (recent Lost W T as)) \<and>
    rm_SentBytes m = sum_list (map (snd \<circ> snd) (recent Sent W T as)) \<and>
    rm_RecvBytes m = sum_list (map (snd \<circ> snd) (recent Received W T as))"
  using assms
  by (simp add: GetRollingMetrics_def Let_def time_ok_def timed_def sumStamps_def sumBytes_def
      sumStamps_stamps sumBytes_sum recent_stamps recent_samples)

end
