(* ===== verification/Programs.thy ===== *)
theory Programs
  imports Cmd_Line Session_Dialogues Quic_Logger
begin

text \<open>
  The three example programs from their connections on: \<^verbatim>\<open>handle\<close> as a whole, a sequence of calls
  that wait for the peer (\<^verbatim>\<open>Run\<close>, \<^verbatim>\<open>Announce\<close>, \<^verbatim>\<open>Subscribe\<close>), and the methods \<^verbatim>\<open>runClient\<close> and
  \<^verbatim>\<open>runServer\<close> that dial or accept and call it. A client and a server of the counter program are
  then composed: each reads the control stream of the other and goes on with \<^verbatim>\<open>handle\<close> when it can.
  The lemmas follow them from their command lines to the counters that arrive, or to the exit of the
  client.
\<close>

section \<open>handle\<close>

text \<open>
  Where the goroutine of \<^verbatim>\<open>handle\<close> waits: in \<^verbatim>\<open>Run\<close> for the handshake, in \<^verbatim>\<open>Announce\<close>, in \<^verbatim>\<open>Subscribe\<close>,
  or it has returned, with what it reads from if it has subscribed. The programs pass the background
  context and never close a session, so that a wait ends only with the response. The code is the same
  in the three programs; what they announce, subscribe to and do with a subscription are parameters.
\<close>

datatype 'r handle_state = InRun | InAnnounce ref | InSubscribe ref | HandleReturned "'r option result"

definition handle_start :: "unit result \<times> Session \<Rightarrow> 'r handle_state \<times> Session" where
  "handle_start run =
     (case run of (Inl e, s) \<Rightarrow> (HandleReturned (Inl e), s) | (Inr _, s) \<Rightarrow> (InRun, s))"

definition handle_after_announce :: "(Session, ref option) st \<Rightarrow> Session \<Rightarrow> 'r handle_state \<times> Session" where
  "handle_after_announce subscribe s =
     (case subscribe s of
        (Inl e, s) \<Rightarrow> (HandleReturned (Inl e), s)
      | (Inr None, s) \<Rightarrow> (HandleReturned (Inr None), s)
      | (Inr (Some rs), s) \<Rightarrow> (InSubscribe rs, s))"

definition handle_after_run ::
  "(Session, ref option) st \<Rightarrow> (Session, ref option) st \<Rightarrow> Session \<Rightarrow> 'r handle_state \<times> Session" where
  "handle_after_run announce subscribe s =
     (case announce s of
        (Inl e, s) \<Rightarrow> (HandleReturned (Inl e), s)
      | (Inr None, s) \<Rightarrow> handle_after_announce subscribe s
      | (Inr (Some ch), s) \<Rightarrow> (InAnnounce ch, s))"

text \<open>\<^term>\<open>None\<close> while the goroutine waits.\<close>

fun handle_resume ::
  "(Session, ref option) st \<Rightarrow> (Session, ref option) st \<Rightarrow>
   (ref \<Rightarrow> Session \<Rightarrow> ('r result \<times> Session) option) \<Rightarrow> 'r handle_state \<times> Session \<Rightarrow> ('r handle_state \<times> Session) option" where
  "handle_resume announce subscribe subscribed (InRun, s) =
     (if ses_handshakeDoneCh s then Some (handle_after_run announce subscribe s) else None)"
| "handle_resume announce subscribe subscribed (InAnnounce ch, s) =
     (case Announce_wait Response ch s of
        None \<Rightarrow> None
      | Some (_, s) \<Rightarrow> Some (handle_after_announce subscribe s))"
| "handle_resume announce subscribe subscribed (InSubscribe rt, s) =
     (case subscribed rt s of
        None \<Rightarrow> None
      | Some (Inl e, s) \<Rightarrow> Some (HandleReturned (Inl e), s)
      | Some (Inr r, s) \<Rightarrow> Some (HandleReturned (Inr (Some r)), s))"
| "handle_resume announce subscribe subscribed (HandleReturned r, s) = None"

definition counter_handle ::
  "Env \<Rightarrow> counterHandler \<Rightarrow> (ref \<times> CounterSubscriber subscriber) handle_state \<times> Session \<Rightarrow>
     ((ref \<times> CounterSubscriber subscriber) handle_state \<times> Session) option" where
  "counter_handle env h = handle_resume (handle_announce env h) (handle_subscribe env h) (subscribeAndRead Response)"

definition xor_handle ::
  "Env \<Rightarrow> xorHandler \<Rightarrow> (ref \<times> XORCounterSubscriber subscriber) handle_state \<times> Session \<Rightarrow>
     ((ref \<times> XORCounterSubscriber subscriber) handle_state \<times> Session) option" where
  "xor_handle env h =
     handle_resume (xor_handle_announce env h) (xor_handle_subscribe env h) (xor_subscribeAndRead Response)"

text \<open>In the date program the goroutine that prints the objects starts when \<^verbatim>\<open>Subscribe\<close> has returned.\<close>

definition date_subscribeAndRead :: "wait_case \<Rightarrow> ref \<Rightarrow> Session \<Rightarrow> (ref result \<times> Session) option" where
  "date_subscribeAndRead w rt s =
     (case Subscribe_wait w rt s of
        None \<Rightarrow> None
      | Some (Inl e, s) \<Rightarrow> Some (Inl e, s)
      | Some (Inr rs, s) \<Rightarrow> Some (Inr rs, s))"

definition date_handle :: "Env \<Rightarrow> moqHandler \<Rightarrow> ref handle_state \<times> Session \<Rightarrow> (ref handle_state \<times> Session) option" where
  "date_handle env h =
     handle_resume (date_handle_announce env h) (date_handle_subscribe env h) (date_subscribeAndRead Response)"

section \<open>runClient and runServer\<close>

text \<open>
  The session sees the perspective and the protocol of the connection that it is given; the rest of a
  connection is its network. \<^verbatim>\<open>runClient\<close> returns the error of dialling or of \<^verbatim>\<open>handle\<close>, with which
  \<^verbatim>\<open>main\<close> exits, and otherwise never.
\<close>

definition session_conn :: "('w, 'h, 'ctx) moq_connection \<Rightarrow> Connection" where
  "session_conn conn = newConnection (mc_Perspective conn) (mc_Protocol conn)"

datatype ending = ExitCode nat | Crash

definition client_ends :: "'r handle_state \<Rightarrow> ending option" where
  "client_ends st =
     (case st of
        HandleReturned (Inl (Fail e)) \<Rightarrow> Some (ExitCode 1)
      | HandleReturned (Inl Panic) \<Rightarrow> Some Crash
      | _ \<Rightarrow> None)"

lemma client_ends_simps [simp]:
  "client_ends (HandleReturned (Inl (Fail e))) = Some (ExitCode 1)"
  "client_ends (HandleReturned (Inl Panic)) = Some Crash"
  "client_ends (HandleReturned (Inr r)) = None"
  by (simp_all add: client_ends_def)

definition counterHandler_runClient ::
  "(gostring \<Rightarrow> 'c tlsConfig \<Rightarrow> ('w, 'h, 'ctx) quic_lib result) \<Rightarrow> Env \<Rightarrow> gostring \<Rightarrow> counterHandler \<Rightarrow>
     (((ref \<times> CounterSubscriber subscriber) handle_state \<times> Session) \<times> counterHandler) result" where
  "counterHandler_runClient DialAddr env addr h =
     bindR (dialQUIC DialAddr addr) (\<lambda>conn.
     case handle_Run env (session_conn conn) h of (run, h) \<Rightarrow> Inr (handle_start run, h))"

text \<open>
  What \<^verbatim>\<open>Accept\<close> returned so far, with the error that ended the loop. Each connection is handled in a
  goroutine of its own; the result is where these goroutines wait. The goroutine that the server of
  the counter program starts for its metrics is \<^verbatim>\<open>logServerMetrics\<close> below.
\<close>

fun accepted :: "'a result list \<Rightarrow> 'a list \<times> failure option" where
  "accepted [] = ([], None)"
| "accepted (Inl e # rs) = ([], Some e)"
| "accepted (Inr c # rs) = (case accepted rs of (cs, e) \<Rightarrow> (c # cs, e))"

fun handle_each ::
  "(Connection \<Rightarrow> 'p \<Rightarrow> (unit result \<times> Session) \<times> 'p) \<Rightarrow> ('w, 'h, 'ctx) moq_connection list \<Rightarrow> 'p \<Rightarrow>
     ('r handle_state \<times> Session) list \<times> 'p" where
  "handle_each run [] h = ([], h)"
| "handle_each run (conn # conns) h =
     (case run (session_conn conn) h of
        (started, h) \<Rightarrow> (case handle_each run conns h of (hs, h) \<Rightarrow> (handle_start started # hs, h)))"

definition counterHandler_runServer ::
  "(gostring \<Rightarrow> 'c tlsConfig \<Rightarrow> unit result) \<Rightarrow> (('w, 'h, 'ctx) quic_lib \<times> gostring) result list \<Rightarrow>
   Env \<Rightarrow> gostring \<Rightarrow> 'c tlsConfig \<Rightarrow> counterHandler \<Rightarrow>
     ((((ref \<times> CounterSubscriber subscriber) handle_state \<times> Session) list \<times> counterHandler) \<times> failure option) result" where
  "counterHandler_runServer ListenAddr accepts' env addr tlsConfig h =
     bindR (ListenAddr addr tlsConfig) (\<lambda>_.
     case accepted accepts' of (conns, err) \<Rightarrow> Inr (handle_each (handle_Run env) (counter_runServer_loop conns) h, err))"

definition xorHandler_runClient ::
  "(gostring \<Rightarrow> 'c tlsConfig \<Rightarrow> ('w, 'h, 'ctx) quic_lib result) \<Rightarrow> Env \<Rightarrow> gostring \<Rightarrow> xorHandler \<Rightarrow>
     (((ref \<times> XORCounterSubscriber subscriber) handle_state \<times> Session) \<times> xorHandler) result" where
  "xorHandler_runClient DialAddr env addr h =
     bindR (xor_dialQUIC DialAddr addr) (\<lambda>conn.
     case xor_handle_Run env (session_conn conn) h of (run, h) \<Rightarrow> Inr (handle_start run, h))"

definition xorHandler_runServer ::
  "(gostring \<Rightarrow> 'c tlsConfig \<Rightarrow> unit result) \<Rightarrow> (('w, 'h, 'ctx) quic_lib \<times> gostring) result list \<Rightarrow>
   Env \<Rightarrow> gostring \<Rightarrow> 'c tlsConfig \<Rightarrow> xorHandler \<Rightarrow>
     ((((ref \<times> XORCounterSubscriber subscriber) handle_state \<times> Session) list \<times> xorHandler) \<times> failure option) result" where
  "xorHandler_runServer ListenAddr accepts' env addr tlsConfig h =
     bindR (ListenAddr addr tlsConfig) (\<lambda>_.
     case accepted accepts' of (conns, err) \<Rightarrow> Inr (handle_each (xor_handle_Run env) (xor_runServer_loop conns) h, err))"

text \<open>
  The date program also starts the loop of its track when it publishes, before it handles a
  connection; the first component of the result says so. Its server handles a WebTransport session
  in the handler of an HTTP request, which answers with an error when the upgrade fails.
\<close>

definition moqHandler_runClient ::
  "(gostring \<Rightarrow> 'c tlsConfig \<Rightarrow> ('w, 'h, 'ctx) quic_lib result) \<Rightarrow>
   (gostring \<Rightarrow> 'c tlsConfig \<Rightarrow> ('w, 'h, 'ctx) wt_lib result) \<Rightarrow> Env \<Rightarrow> gostring \<Rightarrow> bool \<Rightarrow> moqHandler \<Rightarrow>
     (bool \<times> (ref handle_state \<times> Session) \<times> moqHandler) result" where
  "moqHandler_runClient DialAddr Dial env addr wt h =
     bindR (moqHandler_runClient_dial DialAddr Dial addr wt) (\<lambda>conn.
     case date_handle_Run env (session_conn conn) h of (run, h') \<Rightarrow> Inr (mh_publish h, handle_start run, h'))"

definition http_moq ::
  "('w, 'h, 'ctx) wt_lib result \<Rightarrow> Env \<Rightarrow> moqHandler \<Rightarrow> nat + (ref handle_state \<times> Session) \<times> moqHandler" where
  "http_moq upgraded env h =
     (case upgraded of
        Inl _ \<Rightarrow> Inl 500
      | Inr session \<Rightarrow>
          (case date_handle_Run env (session_conn (webtransportmoq_NewServer session)) h of
             (run, h) \<Rightarrow> Inr (handle_start run, h)))"

definition moq_connections :: "('w, 'h, 'ctx) served list \<Rightarrow> ('w, 'h, 'ctx) moq_connection list" where
  "moq_connections conns = concat (map (\<lambda>c. case c of HandleMoq conn \<Rightarrow> [conn] | ServeQUICConn _ \<Rightarrow> []) conns)"

definition moqHandler_runServer ::
  "(gostring \<Rightarrow> 'c tlsConfig \<Rightarrow> unit result) \<Rightarrow> (('w, 'h, 'ctx) quic_lib \<times> gostring) result list \<Rightarrow>
   Env \<Rightarrow> gostring \<Rightarrow> 'c tlsConfig \<Rightarrow> moqHandler \<Rightarrow>
     (bool \<times> ((ref handle_state \<times> Session) list \<times> moqHandler) \<times> failure option) result" where
  "moqHandler_runServer ListenAddr accepts' env addr tlsConfig h =
     bindR (ListenAddr addr tlsConfig) (\<lambda>_.
     case accepted accepts' of (conns, err) \<Rightarrow>
       Inr (mh_publish h, handle_each (date_handle_Run env) (moq_connections (moqHandler_runServer_loop conns)) h, err))"

text \<open>
  The metrics that the server of the counter program logs at the ticks of a timer, until the context
  is done (\<^term>\<open>None\<close>). The two times of a tick are the readings of the clock by \<^verbatim>\<open>GetRollingMetrics\<close>.
\<close>

definition loggerCfg :: LoggerConfig where
  "loggerCfg = \<lparr>lc_LogLevel = LogLevelInfo, lc_MaxEventsPerType = 1000, lc_EnableTerminalLog = True,
     lc_Window = 0, lc_WindowMode = ByPackets, lc_WindowPackets = 100\<rparr>"

definition serverQuicLogger :: "'f float64 \<Rightarrow> Time \<Rightarrow> int \<Rightarrow> 'f QuicLogger result" where
  "serverQuicLogger fl now perspective =
     NewQuicLogger fl now (ascii ''counter-server'') perspective (Some loggerCfg)"

fun logServerMetrics ::
  "'f float64 \<Rightarrow> (Time \<times> Time) option list \<Rightarrow> 'f QuicLogger \<Rightarrow> ('f RollingMetrics list \<times> 'f QuicLogger) result" where
  "logServerMetrics fl [] q = Inr ([], q)"
| "logServerMetrics fl (None # ticks) q = Inr ([], q)"
| "logServerMetrics fl (Some (now, now') # ticks) q =
     bindR (GetRollingMetrics fl now now' q) (\<lambda>(m, q).
     bindR (logServerMetrics fl ticks q) (\<lambda>(ms, q). Inr (m # ms, q)))"

section \<open>Two endpoints\<close>

text \<open>
  An endpoint of a connection: where its goroutine of \<^verbatim>\<open>handle\<close> is, its session, and how much of the
  control stream of the peer it has read.
\<close>

record 'r endpoint =
  ep_state :: "'r handle_state"
  ep_session :: Session
  ep_read :: nat

definition start_endpoint :: "'r handle_state \<times> Session \<Rightarrow> 'r endpoint" where
  "start_endpoint st = \<lparr>ep_state = fst st, ep_session = snd st, ep_read = 0\<rparr>"

text \<open>One message; \<^term>\<open>None\<close> when none is there or when it is an error that ends the session.\<close>

definition endpoint_reads :: "Env \<Rightarrow> 'r endpoint \<Rightarrow> Session \<Rightarrow> 'r endpoint option" where
  "endpoint_reads env e peer =
     (let sent = cn_control (ses_conn peer)
      in case ControlMessageParser_Parse (env_qv env) (drop (ep_read e) sent) of
           Inl _ \<Rightarrow> None
         | Inr (m, rest) \<Rightarrow>
             (case receive env m (ep_session e) of
                (Inl _, _) \<Rightarrow> None
              | (Inr _, s) \<Rightarrow> Some (e\<lparr>ep_session := s, ep_read := length sent - length rest\<rparr>)))"

definition endpoint_resumes ::
  "('r handle_state \<times> Session \<Rightarrow> ('r handle_state \<times> Session) option) \<Rightarrow> 'r endpoint \<Rightarrow> 'r endpoint option" where
  "endpoint_resumes resume e =
     map_option (\<lambda>(st, s). e\<lparr>ep_state := st, ep_session := s\<rparr>) (resume (ep_state e, ep_session e))"

datatype action = ClientReads | ClientResumes | ServerReads | ServerResumes

type_synonym counter_endpoint = "(ref \<times> CounterSubscriber subscriber) endpoint"

fun counter_act ::
  "Env \<Rightarrow> counterHandler \<Rightarrow> Env \<Rightarrow> counterHandler \<Rightarrow> action \<Rightarrow> counter_endpoint \<times> counter_endpoint \<Rightarrow>
     (counter_endpoint \<times> counter_endpoint) option" where
  "counter_act envc hc envs hs ClientReads (c, s) =
     map_option (\<lambda>c. (c, s)) (endpoint_reads (handle_env hc envc) c (ep_session s))"
| "counter_act envc hc envs hs ClientResumes (c, s) =
     map_option (\<lambda>c. (c, s)) (endpoint_resumes (counter_handle envc hc) c)"
| "counter_act envc hc envs hs ServerReads (c, s) =
     map_option (Pair c) (endpoint_reads (handle_env hs envs) s (ep_session c))"
| "counter_act envc hc envs hs ServerResumes (c, s) =
     map_option (Pair c) (endpoint_resumes (counter_handle envs hs) s)"

fun counter_acts ::
  "Env \<Rightarrow> counterHandler \<Rightarrow> Env \<Rightarrow> counterHandler \<Rightarrow> action list \<Rightarrow> counter_endpoint \<times> counter_endpoint \<Rightarrow>
     (counter_endpoint \<times> counter_endpoint) option" where
  "counter_acts envc hc envs hs [] st = Some st"
| "counter_acts envc hc envs hs (a # as) st =
     Option.bind (counter_act envc hc envs hs a st) (counter_acts envc hc envs hs as)"

section \<open>Accepting connections\<close>

text \<open>
  The servers handle the connections that have negotiated \<^verbatim>\<open>moq-00\<close>, each as a server of QUIC and
  under a session number of its own; the date program picks the same connections as the others.
\<close>

lemma moq_connections_loop: "moq_connections (moqHandler_runServer_loop conns) = counter_runServer_loop conns"
  by (induction conns rule: counter_runServer_loop.induct) (simp_all add: moq_connections_def moq_00_def h3_def ascii_def)

lemma counter_runServer_loop_filter:
  "counter_runServer_loop conns = map (quicmoq_NewServer \<circ> fst) (filter (\<lambda>c. snd c = moq_00) conns)"
  by (induction conns rule: counter_runServer_loop.induct) simp_all

lemma session_conn_quic:
  "session_conn (quicmoq_NewServer lib) = newConnection PerspectiveServer ProtocolQUIC"
  "session_conn (quicmoq_NewClient lib) = newConnection PerspectiveClient ProtocolQUIC"
  by (simp_all add: session_conn_def quicmoq_NewServer_def quicmoq_NewClient_def quicmoq_New_def)

lemma handle_each_numbers:
  "length (fst (handle_each (handle_Run env) conns h)) = length conns \<and>
   ch_nextSessionID (snd (handle_each (handle_Run env) conns h)) = ch_nextSessionID h + of_nat (length conns)"
  by (induction conns arbitrary: h) (auto simp: handle_Run_def Let_def split_beta)

section \<open>The metrics of the counter server\<close>

text \<open>The logger of the server starts, and its metrics can be printed at every tick, whatever it has logged.\<close>

lemma serverQuicLogger_starts:
  "\<exists>q. serverQuicLogger fl now perspective = Inr q \<and> logger_ok q \<and> ql_windowMode q = ByPackets"
proof -
  obtain q where q: "serverQuicLogger fl now perspective = Inr q" "ql_winPkts q = 100" "ql_windowMode q = ByPackets"
    by (simp add: serverQuicLogger_def NewQuicLogger_def loggerCfg_def make_slice_def maxAlloc_def)
  moreover have "logger_ok q"
    by (rule NewQuicLogger_ok [OF q(1) [unfolded serverQuicLogger_def]]) (simp add: q(2) maxAlloc_def)
  ultimately show ?thesis by blast
qed

lemma metrics_keep_mode:
  "GetRollingMetrics fl now now' q = Inr (m, q') \<Longrightarrow> ql_windowMode q' = ql_windowMode q"
  by (auto simp: GetRollingMetrics_def Let_def bindR_eq_Inr split_beta split: if_splits)

lemma logServerMetrics_returns:
  assumes "logger_ok q" and "ql_windowMode q = ByPackets"
  shows "\<exists>ms q'. logServerMetrics fl ticks q = Inr (ms, q') \<and> length ms = length (takeWhile (\<lambda>t. t \<noteq> None) ticks)"
  using assms
proof (induction fl ticks q rule: logServerMetrics.induct)
  case (3 fl now now' ticks q)
  from metrics_report [OF 3(2,3), of fl now now'] obtain m q' where
    m: "GetRollingMetrics fl now now' q = Inr (m, q')" "logger_ok q'" by blast
  with metrics_keep_mode [OF m(1)] 3(1) [of "(m, q')" m q'] 3(3) show ?case by auto
qed simp_all

section \<open>The endpoints of a connection\<close>

text \<open>
  A client and a server after the handshake that have made no request and answered no subscription;
  they have read everything that the other has written.
\<close>

definition fresh_client :: "Session \<Rightarrow> bool" where
  "fresh_client c \<longleftrightarrow> ses_handshakeDone c \<and> ses_handshakeDoneCh c \<and>
     ses_requestIDs c = \<lparr>rg_id = 0, rg_max = 100, rg_interval = 2\<rparr> \<and> ses_remoteTracks c = newRemoteTrackMap"

definition fresh_server :: "Session \<Rightarrow> bool" where
  "fresh_server s \<longleftrightarrow> ses_handshakeDone s \<and> ses_handshakeDoneCh s \<and> ses_localMaxRequestID s = 100 \<and>
     ses_localTracks s = newLocalTrackMap \<and> seq_last (ses_trackAliases s) = 0"

definition caught_up :: "'r endpoint \<Rightarrow> 'r endpoint \<Rightarrow> bool" where
  "caught_up c s \<longleftrightarrow> ep_read c = length (cn_control (ses_conn (ep_session s))) \<and>
     ep_read s = length (cn_control (ses_conn (ep_session c)))"

lemma handle_env_simps [simp]:
  "env_qv (handle_env h env) = env_qv env" "reliable qv (handle_env h env) \<longleftrightarrow> reliable qv env"
  by (simp_all add: handle_env_def reliable_def)

lemma counter_acts_append:
  "counter_acts envc hc envs hs (as @ bs) st =
     Option.bind (counter_acts envc hc envs hs as st) (counter_acts envc hc envs hs bs)"
  by (induction as arbitrary: st) (simp_all add: bind_split)

text \<open>Names that leave room in a message.\<close>

definition short_names :: "gostring \<Rightarrow> gostring \<Rightarrow> bool" where
  "short_names ns name \<longleftrightarrow> length ns \<le> 10000 \<and> length name \<le> 10000"

text \<open>
  The whole of a connection between two counter programs, of which the client subscribes: either the
  server publishes that track, and every counter of its publisher arrives in order, or the client
  program exits.
\<close>

definition serves :: "counterHandler \<Rightarrow> counterHandler \<Rightarrow> bool" where
  "serves hs hc \<longleftrightarrow> ch_publish hs \<and> ch_namespace hs = ch_namespace hc \<and> ch_trackname hs = ch_trackname hc"

definition delivers ::
  "Env \<Rightarrow> counterHandler \<Rightarrow> Env \<Rightarrow> counterHandler \<Rightarrow> counter_endpoint \<Rightarrow> counter_endpoint \<Rightarrow> nat \<Rightarrow> bool" where
  "delivers envc hc envs hs c s n \<longleftrightarrow>
     (\<exists>rt lt. ep_state c = HandleReturned (Inr (Some (rt, Subscriber_Start (new_subscriber NewCounterSubscriber)))) \<and>
        ltm_open (ses_localTracks (ep_session s)) 0 = Some lt \<and>
        (\<forall>w m sid. srw_localTrack w = lt \<longrightarrow>
          (\<exists>cp s2 ds c4.
             CounterPublisher_Start_loop (handle_env hs envs) (replicate n TickCase)
               (fst (getSubscribeHandler_accepted sid w m hs), ep_session s) = (None, (cp, s2)) \<and>
             cn_datagrams (ses_conn s2) = cn_datagrams (ses_conn (ep_session s)) @ ds \<and> length ds = n \<and>
             receive_datagrams (handle_env hc envc) CounterSubscriber_processObject rt ds
               (ep_session c, NewCounterSubscriber) = Some (c4, received_counters n NewCounterSubscriber))))"

text \<open>A program that does not subscribe has nothing left to do when its announcement is answered.\<close>

lemma counter_announced:
  assumes "counter_handle env h (InAnnounce ch, s) = Some (st, s')" and "\<not> ch_subscribe h"
  shows "st = HandleReturned (Inr None) \<and> ses_conn s' = ses_conn s"
  using assms
  by (auto simp: counter_handle_def handle_after_announce_def handle_subscribe_def returnS_def Announce_wait_def wait_errCh_def throwS_def failS_def
      split: option.splits list.splits wait_case.splits)

text \<open>
  The schedule in which a message is read as soon as it has been written: the handshake, what the
  server does after it, the subscription of the client.
\<close>

definition opening_schedule :: "bool \<Rightarrow> action list" where
  "opening_schedule publish =
     [ServerReads, ClientReads] @
     (if publish then [ServerResumes, ClientReads, ServerReads, ServerResumes] else [ServerResumes])"

definition prompt_schedule :: "bool \<Rightarrow> action list" where
  "prompt_schedule publish = opening_schedule publish @ [ClientResumes, ServerReads, ClientReads, ClientResumes]"

context varint_codec
begin

lemma length_vbytes: "length (enc_vbytes qv bs) \<le> 8 + length bs"
  using enc_len by (simp add: enc_vbytes_def)

lemma wire_ok_names:
  assumes "short_names ns name"
  shows "fits k \<Longrightarrow> wire_ok qv (Subscribe (subscribe_message k [ns] name []))"
    and "fits k \<Longrightarrow> wire_ok qv (Announce (announce_message k [ns]))"
proof -
  have len: "length ns \<le> 10000" "length name \<le> 10000" using assms by (simp_all add: short_names_def)
  have t: "length (enc_tuple qv [ns]) \<le> 10016"
    using enc_len [of 1] length_vbytes [of ns] len(1) by (simp add: enc_tuple_def)
  have wf: "wf_tuple [ns]" using len(1) by (simp add: wf_tuple_def fits_def maxVarInt_def maxAlloc_def)
  show "wire_ok qv (Announce (announce_message k [ns]))" if "fits k"
    using that wf t enc_len [of k] enc_len [of 0]
    by (simp add: wire_ok_def announce_message_def wf_Announce_def wf_kvps_def enc_Announce_def enc_kvps_def)
  show "wire_ok qv (Subscribe (subscribe_message k [ns] name []))" if "fits k"
    using that wf t enc_len [of k] enc_len [of 0] enc_len [of 2] length_vbytes [of name] len(2)
    by (simp add: wire_ok_def subscribe_message_def apply_options_def defaultSubscribeOptions_def Let_def
        wf_Subscribe_def wf_kvps_def enc_Subscribe_def enc_kvps_def FilterTypeLatestObject_def
        GroupOrderAscending_def boolToUint8_def maxVarInt_def)
qed

text \<open>Reading the one frame that the peer has written since.\<close>

lemma endpoint_reads_frame:
  assumes "env_qv env = qv" and "wire_ok qv m" and "cn_control (ses_conn peer) = before @ enc_frame qv m"
    and "ep_read e = length before" and "receive env m (ep_session e) = (Inr (), s)"
  shows "endpoint_reads env e peer =
    Some (e\<lparr>ep_session := s, ep_read := length (cn_control (ses_conn peer))\<rparr>)"
  using assms Parse_sent [OF assms(2), of "[]"] by (simp add: endpoint_reads_def)

text \<open>What a program sends when its handshake is done: an announcement or a subscription.\<close>

lemma counter_begins:
  assumes rel: "reliable qv env" and h: "ch_namespace h = [ns]" "ch_trackname h = name" "\<not> (ch_publish h \<and> ch_subscribe h)"
    and names: "short_names ns name" and inv: "inv_session s" "ses_handshakeDoneCh s"
    and k: "rg_id (ses_requestIDs s) = k" "k < rg_max (ses_requestIDs s)"
  shows "\<exists>st s'. counter_handle env h (InRun, s) = Some (st, s') \<and>
    cn_sent (ses_conn s') = cn_sent (ses_conn s) @
      (if ch_publish h then [Announce (announce_message k [ns])]
       else if ch_subscribe h then [Subscribe (subscribe_message k [ns] name [])] else [])"
proof -
  note unf = counter_handle_def handle_after_run_def handle_announce_def handle_after_announce_def
    handle_subscribe_def returnS_def bindS_def
  have fits: "fits k"
    using inv(1) k by (simp add: inv_defs fits_def maxVarInt_def word_less_nat_alt)
  have new: "rtm_pending (ses_remoteTracks s) k = None" "rtm_open (ses_remoteTracks s) k = None"
    using fresh_next [OF inv(1)] k(1) by simp_all
  have rel': "reliable qv (handle_env h env)" using rel by simp
  note wire = wire_ok_names [OF names fits]
  obtain c where "Announce_send (handle_env h env) [ns] s = (Inr (ses_next s), c)"
    "ses_conn c = conn_sent qv (Announce (announce_message k [ns])) (ses_conn s)"
    using Announce_send_ok [OF rel' k wire(2)] by blast
  moreover obtain c where "Subscribe_send (handle_env h env) [ns] name [] s = (Inr (ses_next s), c)"
    "ses_conn c = conn_sent qv (Subscribe (subscribe_message k [ns] name [])) (ses_conn s)"
    using Subscribe_send_ok [OF rel' k wire(1) new] by blast
  ultimately show ?thesis using h inv(2) by (auto simp: unf)
qed

text \<open>The handshake.\<close>

lemma handshake_acts:
  assumes rel: "reliable qv envc" "reliable qv envs"
    and c: "handle_Run envc (newConnection PerspectiveClient ProtocolQUIC) hc = (rc, hc')"
    and s: "handle_Run envs (newConnection PerspectiveServer ProtocolQUIC) hs = (rs, hs')"
  shows "\<exists>c s. counter_acts envc hc' envs hs' [ServerReads, ClientReads]
      (start_endpoint (handle_start rc), start_endpoint (handle_start rs)) = Some (c, s) \<and>
    ep_state c = InRun \<and> ep_state s = InRun \<and> caught_up c s \<and>
    fresh_client (ep_session c) \<and> fresh_server (ep_session s) \<and>
    ses_requestIDs (ep_session s) = \<lparr>rg_id = 1, rg_max = 100, rg_interval = 2\<rparr>"
proof -
  let ?C = "newConnection PerspectiveClient ProtocolQUIC" and ?S = "newConnection PerspectiveServer ProtocolQUIC"
  let ?m = "client_setup_message 100 ProtocolQUIC"
  define c1 where "c1 = (newSession 100 ?C)\<lparr>ses_conn := conn_sent qv (ClientSetup ?m) ?C\<rparr>"
  have fits: "fits 100" by (simp add: fits_def maxVarInt_def)
  have run: "rc = (Inr (), c1)" "rs = (Inr (), newSession 100 ?S)"
    using c s rel Run_client [OF _ fits, of "handle_env hc' envc" ProtocolQUIC]
    by (auto simp: handle_Run_def Let_def c1_def Session_Run_def newConnection_def)
  have new: "\<not> ses_handshakeDone (newSession 100 x)" "\<not> ses_handshakeDoneCh (newSession 100 x)"
    "ses_conn (newSession 100 x) = x" "rg_max (ses_requestIDs (newSession 100 x)) = 0" for x
    by (simp_all add: newSession_def newRequestIDGenerator_def)
  have conn: "cn_Perspective ?C = PerspectiveClient" "cn_Perspective ?S = PerspectiveServer"
    "cn_Protocol ?S = ProtocolQUIC" "cn_control ?C = []" "cn_control ?S = []"
    by (simp_all add: newConnection_def)
  define s2 where "s2 = snd (receive (handle_env hs' envs) (ClientSetup ?m) (newSession 100 ?S))"
  define c2 where "c2 = snd (receive (handle_env hc' envc) (ServerSetup server_setup_message) c1)"
  have s2: "receive (handle_env hs' envs) (ClientSetup ?m) (newSession 100 ?S) = (Inr (), s2)" "fresh_server s2"
    "ses_conn s2 = conn_sent qv (ServerSetup server_setup_message) ?S"
    "ses_requestIDs s2 = \<lparr>rg_id = 1, rg_max = 100, rg_interval = 2\<rparr>"
    unfolding s2_def using receive_client_setup [of "handle_env hs' envs" "newSession 100 ?S" ProtocolQUIC 100] rel
    by (simp_all add: new conn fresh_server_def newSession_def newSequence_def newRequestIDGenerator_def perspective_id_def)
  have c2: "receive (handle_env hc' envc) (ServerSetup server_setup_message) c1 = (Inr (), c2)" "fresh_client c2"
    "ses_conn c2 = conn_sent qv (ClientSetup ?m) ?C"
    unfolding c2_def using receive_server_setup [of c1 "handle_env hc' envc"]
    by (simp_all add: c1_def new conn fresh_client_def newSession_def newRequestIDGenerator_def perspective_id_def)
  have q: "env_qv envc = qv" "env_qv envs = qv" using rel by (simp_all add: reliable_def)
  let ?c1 = "start_endpoint (handle_start rc) :: counter_endpoint"
    and ?s1 = "start_endpoint (handle_start rs) :: counter_endpoint"
  have start: "ep_session ?c1 = c1" "ep_session ?s1 = newSession 100 ?S" "ep_read ?c1 = 0" "ep_read ?s1 = 0"
    "ep_state ?c1 = InRun" "ep_state ?s1 = InRun"
    by (simp_all add: run start_endpoint_def handle_start_def)
  have "endpoint_reads (handle_env hs' envs) ?s1 c1 =
      Some (?s1\<lparr>ep_session := s2, ep_read := length (cn_control (ses_conn c1))\<rparr>)"
    by (rule endpoint_reads_frame [where before = "[]", OF _ wire_ok_client_setup [OF fits]])
      (simp_all add: q start c1_def conn, rule s2(1))
  moreover have "endpoint_reads (handle_env hc' envc) ?c1 s2 =
      Some (?c1\<lparr>ep_session := c2, ep_read := length (cn_control (ses_conn s2))\<rparr>)"
    by (rule endpoint_reads_frame [where before = "[]", OF _ wire_ok_server_setup]) (simp_all add: q start s2 c2 conn)
  ultimately show ?thesis
    using s2 c2 by (simp add: start caught_up_def) (simp add: c1_def)
qed

text \<open>The answer of a client of the program to an announcement.\<close>

lemma counter_answers:
  assumes "fits k"
  shows "\<exists>a. answers (handle_env h env) (announced k ns) a \<and> is_answer a \<and> wire_ok qv (announce_answer k a)"
proof -
  define a where "a = (if \<not> ch_subscribe h then Reject 0 (ascii ''counter doesn't take announcements'')
    else if ns \<noteq> ch_namespace h then Reject 0 (ascii ''non-matching namespace'') else Accept)"
  have "answers (handle_env h env) (announced k ns) a"
    by (simp add: answers_def handle_env_def getHandler_def announced_def newMessage_def tupleEqual_eq a_def)
  moreover have "wire_ok qv (AnnounceError \<lparr>aem_RequestID = k, aem_ErrorCode = 0, aem_ReasonPhrase = reason\<rparr>)"
    if "length reason \<le> 100" for reason
    using that assms enc_len [of k] enc_len [of 0] length_vbytes [of reason]
    by (simp add: wire_ok_def wf_AnnounceError_def enc_AnnounceError_def maxVarInt_def)
  then have "is_answer a \<and> wire_ok qv (announce_answer k a)"
    using wire_ok_ids(5) [OF assms] by (simp add: a_def ascii_def)
  ultimately show ?thesis by blast
qed

text \<open>The announcement: the server returns from \<^verbatim>\<open>handle\<close> when it was answered.\<close>

lemma announce_acts:
  assumes rel: "reliable qv envc" "reliable qv envs" and up: "caught_up c s"
    and c: "fresh_client (ep_session c)" and s: "fresh_server (ep_session s)"
    and server: "ep_state s = InRun" "\<not> ch_subscribe hs" "ch_publish hs" "ch_namespace hs = [ns]" "short_names ns name"
    and ids: "ses_requestIDs (ep_session s) = \<lparr>rg_id = 1, rg_max = 100, rg_interval = 2\<rparr>"
  shows "\<exists>c' s'. counter_acts envc hc envs hs [ServerResumes, ClientReads, ServerReads, ServerResumes] (c, s) = Some (c', s') \<and>
    ep_state c' = ep_state c \<and> ep_state s' = HandleReturned (Inr None) \<and> caught_up c' s' \<and>
    fresh_client (ep_session c') \<and> fresh_server (ep_session s')"
proof -
  let ?ec = "handle_env hc envc" and ?es = "handle_env hs envs" and ?m = "Announce (announce_message 1 [ns])"
  have fits: "fits 1" by (simp add: fits_def maxVarInt_def)
  note wire = wire_ok_names(2) [OF server(5) fits]
  obtain a where a: "answers ?ec (announced 1 [ns]) a" "is_answer a" "wire_ok qv (announce_answer 1 a)"
    using counter_answers [OF fits] by blast
  have hsk: "ses_handshakeDone (ep_session c)" "ses_handshakeDone (ep_session s)" "ses_handshakeDoneCh (ep_session s)"
    using c s by (simp_all add: fresh_client_def fresh_server_def)
  obtain s1 where s1: "Announce_send ?es [ns] (ep_session s) = (Inr (ses_next (ep_session s)), s1)"
    "am_pending (ses_outgoingAnnouncements s1) 1 =
      Some \<lparr>an_requestID = 1, an_namespace = [ns], an_parameters = [], an_response = ses_next (ep_session s)\<rparr>"
    "ses_errCh s1 (ses_next (ep_session s)) = []" "ses_handshakeDone s1"
    "ses_conn s1 = conn_sent qv ?m (ses_conn (ep_session s))" "server_part s1 = server_part (ep_session s)"
    using Announce_send_ok [of ?es "ep_session s" 1 "[ns]"] rel ids wire hsk by auto
  obtain c1 where c1: "receive ?ec ?m (ep_session c) = (Inr (), c1)"
    "ses_conn c1 = conn_sent qv (announce_answer 1 a) (ses_conn (ep_session c))"
    "client_part c1 = client_part (ep_session c)"
    using onAnnounce_answer [of ?ec 1 "[ns]" a "ep_session c"] rel a hsk
    by (auto simp: bad_namespace_def receive_def bindS_def getsS_def)
  obtain s2 s3 where s2: "receive ?es (announce_answer 1 a) s1 = (Inr (), s2)"
    "Announce_wait Response (ses_next (ep_session s)) s2 = Some (result_of (answer_error a), s3)"
    "ses_conn s2 = ses_conn s1" "ses_conn s3 = ses_conn s1" "server_part s3 = server_part s1"
    using answer_delivered [OF s1(2) _ a(2) s1(4), of ?es] s1(3) by auto
  have q: "env_qv envc = qv" "env_qv envs = qv" using rel by (simp_all add: reliable_def)
  let ?S1 = "s\<lparr>ep_state := InAnnounce (ses_next (ep_session s)), ep_session := s1\<rparr>"
  let ?C1 = "c\<lparr>ep_session := c1, ep_read := length (cn_control (ses_conn s1))\<rparr>"
  let ?S2 = "?S1\<lparr>ep_session := s2, ep_read := length (cn_control (ses_conn c1))\<rparr>"
  let ?S3 = "?S2\<lparr>ep_state := HandleReturned (Inr None), ep_session := s3\<rparr>"
  have "endpoint_resumes (counter_handle envs hs) s = Some ?S1"
    using server hsk s1(1)
    by (simp add: endpoint_resumes_def counter_handle_def handle_after_run_def handle_announce_def)
  moreover have "endpoint_reads ?ec c s1 = Some ?C1"
    by (rule endpoint_reads_frame [OF _ wire])
      (use up in \<open>simp_all add: q s1(5) c1(1) caught_up_def\<close>)
  moreover have "endpoint_reads ?es ?S1 c1 = Some ?S2"
    by (rule endpoint_reads_frame [OF _ a(3)])
      (use up in \<open>simp_all add: q c1(2) s2(1) caught_up_def\<close>)
  moreover have "endpoint_resumes (counter_handle envs hs) ?S2 = Some ?S3"
    using server(2) s2(2)
    by (simp add: endpoint_resumes_def counter_handle_def handle_after_announce_def handle_subscribe_def returnS_def)
  ultimately have "counter_acts envc hc envs hs [ServerResumes, ClientReads, ServerReads, ServerResumes] (c, s) = Some (?C1, ?S3)"
    by simp
  moreover have "caught_up ?C1 ?S3" by (simp add: caught_up_def s2(4))
  moreover have "fresh_client c1" using c c1(3) by (simp add: fresh_client_def client_part_def)
  moreover have "fresh_server s3" using s s2(5) s1(6) by (simp add: fresh_server_def server_part_def)
  ultimately show ?thesis by (intro exI [of _ ?C1] exI [of _ ?S3]) simp
qed

text \<open>A server that does not publish announces nothing.\<close>

lemma quiet_acts:
  assumes "fresh_server (ep_session s)" and "ep_state s = InRun" "\<not> ch_subscribe hs" "\<not> ch_publish hs"
  shows "counter_acts envc hc envs hs [ServerResumes] (c, s) = Some (c, s\<lparr>ep_state := HandleReturned (Inr None)\<rparr>)"
  using assms
  by (simp add: fresh_server_def endpoint_resumes_def counter_handle_def handle_after_run_def handle_announce_def
      handle_after_announce_def handle_subscribe_def returnS_def)

text \<open>The subscription, up to the answer of the server.\<close>

lemma subscribe_sent:
  assumes rel: "reliable qv envc" and c: "fresh_client (ep_session c)"
    and client: "ep_state c = InRun" "ch_subscribe hc" "\<not> ch_publish hc" "ch_namespace hc = [ns]" "ch_trackname hc = name"
      "short_names ns name"
  shows "\<exists>rt c1. endpoint_resumes (counter_handle envc hc) c = Some (c\<lparr>ep_state := InSubscribe rt, ep_session := c1\<rparr>) \<and>
    ses_handshakeDone c1 \<and> rtm_pending (ses_remoteTracks c1) 0 = Some rt \<and> rtm_open (ses_remoteTracks c1) 0 = None \<and>
    rtm_trackAliasToRequestID (ses_remoteTracks c1) 0 = None \<and>
    ses_rt c1 rt = newRemoteTrack 0 (Some (CallUnsubscribe 0)) (Some 0) \<and>
    ses_conn c1 = conn_sent qv (Subscribe (subscribe_message 0 [ns] name [])) (ses_conn (ep_session c))"
proof -
  have fits: "fits 0" by (simp add: fits_def)
  have fresh: "rg_id (ses_requestIDs (ep_session c)) = 0" "0 < rg_max (ses_requestIDs (ep_session c))"
    "rtm_pending (ses_remoteTracks (ep_session c)) 0 = None" "rtm_open (ses_remoteTracks (ep_session c)) 0 = None"
    "rtm_trackAliasToRequestID (ses_remoteTracks (ep_session c)) 0 = None"
    "ses_handshakeDone (ep_session c)" "ses_handshakeDoneCh (ep_session c)"
    using c by (simp_all add: fresh_client_def newRemoteTrackMap_def)
  obtain c1 where c1: "Subscribe_send (handle_env hc envc) [ns] name [] (ep_session c) = (Inr (ses_next (ep_session c)), c1)"
    "rtm_pending (ses_remoteTracks c1) 0 = Some (ses_next (ep_session c))"
    "rtm_open (ses_remoteTracks c1) 0 = None" "rtm_trackAliasToRequestID (ses_remoteTracks c1) 0 = None"
    "ses_rt c1 (ses_next (ep_session c)) = newRemoteTrack 0 (Some (CallUnsubscribe 0)) (Some 0)"
    "ses_handshakeDone c1"
    "ses_conn c1 = conn_sent qv (Subscribe (subscribe_message 0 [ns] name [])) (ses_conn (ep_session c))"
    using Subscribe_send_ok [OF _ fresh(1,2) wire_ok_names(1) [OF client(6) fits] fresh(3,4), of "handle_env hc envc"]
      fresh rel by auto
  then show ?thesis
    using client fresh
    by (auto simp: endpoint_resumes_def counter_handle_def handle_after_run_def handle_announce_def
        handle_after_announce_def handle_subscribe_def returnS_def bindS_def)
qed

lemma subscribe_answered:
  assumes q: "env_qv envc = qv" "env_qv envs = qv" and up: "caught_up c s"
    and names: "short_names ns name" and m: "m = subscribe_message 0 [ns] name []" and wire: "wire_ok qv answer"
    and c1: "endpoint_resumes (counter_handle envc hc) c = Some (c\<lparr>ep_state := InSubscribe rt, ep_session := c1\<rparr>)"
      "ses_conn c1 = conn_sent qv (Subscribe m) (ses_conn (ep_session c))"
    and s1: "receive (handle_env hs envs) (Subscribe m) (ep_session s) = (Inr (), s1)"
      "ses_conn s1 = conn_sent qv answer (ses_conn (ep_session s))"
    and c2: "receive (handle_env hc envc) answer c1 = (Inr (), c2)"
      "counter_handle envc hc (InSubscribe rt, c2) = Some (st, c3)"
  shows "\<exists>c' s'. counter_acts envc hc envs hs [ClientResumes, ServerReads, ClientReads, ClientResumes] (c, s) = Some (c', s') \<and>
    ep_state c' = st \<and> ep_session c' = c3 \<and> ep_state s' = ep_state s \<and> ep_session s' = s1"
proof -
  let ?C1 = "c\<lparr>ep_state := InSubscribe rt, ep_session := c1\<rparr>"
  let ?S1 = "s\<lparr>ep_session := s1, ep_read := length (cn_control (ses_conn c1))\<rparr>"
  let ?C2 = "?C1\<lparr>ep_session := c2, ep_read := length (cn_control (ses_conn s1))\<rparr>"
  have fits: "fits 0" by (simp add: fits_def)
  have "endpoint_reads (handle_env hs envs) s c1 = Some ?S1"
    by (rule endpoint_reads_frame [OF _ wire_ok_names(1) [OF names fits]])
      (use up in \<open>simp_all add: q c1(2) s1(1) m [symmetric] caught_up_def\<close>)
  moreover have "endpoint_reads (handle_env hc envc) ?C1 s1 = Some ?C2"
    by (rule endpoint_reads_frame [OF _ wire]) (use up in \<open>simp_all add: q s1(2) c2(1) caught_up_def\<close>)
  moreover have "endpoint_resumes (counter_handle envc hc) ?C2 = Some (?C2\<lparr>ep_state := st, ep_session := c3\<rparr>)"
    by (simp add: endpoint_resumes_def c2(2))
  ultimately show ?thesis using c1(1) by simp
qed

lemma accepted_acts:
  assumes rel: "reliable qv envc" "reliable qv envs" and up: "caught_up c s"
    and c: "fresh_client (ep_session c)" and s: "fresh_server (ep_session s)"
    and client: "ep_state c = InRun" "ch_subscribe hc" "\<not> ch_publish hc" "ch_namespace hc = [ns]" "ch_trackname hc = name"
      "short_names ns name"
    and server: "ch_publish hs" "ch_namespace hs = [ns]" "ch_trackname hs = name"
  shows "\<exists>c' s' rt lt. counter_acts envc hc envs hs [ClientResumes, ServerReads, ClientReads, ClientResumes] (c, s) = Some (c', s') \<and>
    ep_state c' = HandleReturned (Inr (Some (rt, Subscriber_Start (new_subscriber NewCounterSubscriber)))) \<and>
    ep_state s' = ep_state s \<and> reading (ep_session c') 0 rt \<and>
    ltm_open (ses_localTracks (ep_session s')) 0 = Some lt \<and> lt_done (ses_lt (ep_session s') lt) = None \<and>
    lt_trackAlias (ses_lt (ep_session s') lt) = 0"
proof -
  let ?ec = "handle_env hc envc" and ?es = "handle_env hs envs" and ?m = "subscribe_message 0 [ns] name []"
  have fits: "fits 0" "fits (2 * 100)" by (simp_all add: fits_def maxVarInt_def)
  have m: "sm_RequestID ?m = 0" "sm_TrackNamespace ?m = [ns]" "sm_TrackName ?m = name"
    by (simp_all add: subscribe_message_def Let_def)
  obtain rt c1 where c1: "endpoint_resumes (counter_handle envc hc) c = Some (c\<lparr>ep_state := InSubscribe rt, ep_session := c1\<rparr>)"
    "ses_handshakeDone c1" "rtm_pending (ses_remoteTracks c1) 0 = Some rt"
    "rtm_trackAliasToRequestID (ses_remoteTracks c1) 0 = None"
    "ses_rt c1 rt = newRemoteTrack 0 (Some (CallUnsubscribe 0)) (Some 0)"
    "ses_conn c1 = conn_sent qv (Subscribe ?m) (ses_conn (ep_session c))"
    using subscribe_sent [OF rel(1) c client] by blast
  have fresh: "ses_handshakeDone (ep_session s)" "ses_localMaxRequestID (ep_session s) = 100"
    "ltm_pending (ses_localTracks (ep_session s)) 0 = None" "ltm_open (ses_localTracks (ep_session s)) 0 = None"
    "seq_last (ses_trackAliases (ep_session s)) = 0"
    using s by (simp_all add: fresh_server_def newLocalTrackMap_def)
  have acc: "accepts ?es [ns] name" using handle_accepts [of hs envs] server by simp
  obtain s1 where s1: "receive ?es (Subscribe ?m) (ep_session s) = (Inr (), s1)"
    "ltm_open (ses_localTracks s1) 0 = Some (ses_next (ep_session s))"
    "ses_lt s1 (ses_next (ep_session s)) = newLocalTrack 0 0 True"
    "ses_conn s1 = conn_sent qv (SubscribeOk (subscribe_ok_message 0)) (ses_conn (ep_session s))"
    using onSubscribe_accept [where env = ?es and m = ?m and s = "ep_session s" and options = "[]", unfolded ok_options_Nil]
      rel acc fresh fits(2) wire_ok_subscribe_ok [OF fits(1)]
    unfolding accepts_with_def m subscribe_ok_message_def
    by (auto simp: bad_namespace_def receive_def bindS_def getsS_def)
  obtain c2 where c2: "receive ?ec (SubscribeOk (subscribe_ok_message 0)) c1 = (Inr (), c2)"
    "remoteTrackMap_findByTrackAlias (ses_remoteTracks c2) 0 = Some rt" "rt_buffer (ses_rt c2 rt) = []"
    "rt_done (ses_rt c2 rt) = None" "rt_responseChan (ses_rt c2 rt) = [None]"
    using onSubscribeOk_delivers [where s = c1 and m = "subscribe_ok_message 0" and env = ?ec, unfolded subscribe_ok_simps] c1
    by (auto simp: newRemoteTrack_def receive_def bindS_def getsS_def)
  define c3 where "c3 = c2\<lparr>ses_rt := (ses_rt c2)(rt := (ses_rt c2 rt)\<lparr>rt_responseChan := []\<rparr>)\<rparr>"
  have q: "env_qv envc = qv" "env_qv envs = qv" using rel by (simp_all add: reliable_def)
  have "counter_handle envc hc (InSubscribe rt, c2) =
      Some (HandleReturned (Inr (Some (rt, Subscriber_Start (new_subscriber NewCounterSubscriber)))), c3)"
    by (simp add: counter_handle_def subscribeAndRead_def Subscribe_wait_def wait_rt_response_def c2(5) returnS_def c3_def)
  from subscribe_answered [OF q up client(6) refl
      wire_ok_subscribe_ok [OF fits(1), folded subscribe_ok_message_def] c1(1,6) s1(1,4) c2(1) this]
  obtain c' s' where "counter_acts envc hc envs hs [ClientResumes, ServerReads, ClientReads, ClientResumes] (c, s) = Some (c', s')"
    "ep_state c' = HandleReturned (Inr (Some (rt, Subscriber_Start (new_subscriber NewCounterSubscriber))))"
    "ep_session c' = c3" "ep_state s' = ep_state s" "ep_session s' = s1" by blast
  moreover have "reading c3 0 rt" using c2(2-4) by (simp add: reading_def c3_def)
  ultimately show ?thesis
    using s1(2,3) by - (rule exI [of _ c'], rule exI [of _ s'], rule exI [of _ rt],
        rule exI [of _ "ses_next (ep_session s)"], simp add: newLocalTrack_def del: counter_acts.simps)
qed

lemma rejected_acts:
  assumes rel: "reliable qv envc" "reliable qv envs" and up: "caught_up c s"
    and c: "fresh_client (ep_session c)" and s: "fresh_server (ep_session s)"
    and client: "ep_state c = InRun" "ch_subscribe hc" "\<not> ch_publish hc" "ch_namespace hc = [ns]" "ch_trackname hc = name"
      "short_names ns name"
    and server: "\<not> (ch_publish hs \<and> ch_namespace hs = [ns] \<and> ch_trackname hs = name)"
  shows "\<exists>c' s' reason. counter_acts envc hc envs hs [ClientResumes, ServerReads, ClientReads, ClientResumes] (c, s) = Some (c', s') \<and>
    ep_state c' = HandleReturned (Inl (Fail (ProtocolError ErrorCodeSubscribeTrackDoesNotExist reason))) \<and>
    ep_state s' = ep_state s \<and> remoteTrackMap_findByRequestID (ses_remoteTracks (ep_session c')) 0 = None \<and>
    localTrackMap_findByID (ses_localTracks (ep_session s')) 0 = None"
proof -
  let ?ec = "handle_env hc envc" and ?es = "handle_env hs envs" and ?m = "subscribe_message 0 [ns] name []"
  define reason where "reason = (if ch_publish hs then ascii ''unknown track''
    else ascii ''endpoint does not publish any tracks'')"
  let ?e = "\<lparr>sem_RequestID = 0, sem_ErrorCode = ErrorCodeSubscribeTrackDoesNotExist, sem_ReasonPhrase = reason\<rparr>"
  have fits: "fits 0" "fits (2 * 100)" "fits ErrorCodeSubscribeTrackDoesNotExist"
    by (simp_all add: fits_def maxVarInt_def ErrorCodeSubscribeTrackDoesNotExist_def)
  have len: "length reason \<le> 100" by (simp add: reason_def ascii_def)
  then have wire: "wire_ok qv (SubscribeError ?e)"
    using fits enc_len [of 0] enc_len [of ErrorCodeSubscribeTrackDoesNotExist] length_vbytes [of reason]
    by (simp add: wire_ok_def wf_SubscribeError_def enc_SubscribeError_def maxVarInt_def)
  have m: "sm_RequestID ?m = 0" "sm_TrackNamespace ?m = [ns]" "sm_TrackName ?m = name"
    by (simp_all add: subscribe_message_def Let_def)
  obtain rt c1 where c1: "endpoint_resumes (counter_handle envc hc) c = Some (c\<lparr>ep_state := InSubscribe rt, ep_session := c1\<rparr>)"
    "ses_handshakeDone c1" "rtm_pending (ses_remoteTracks c1) 0 = Some rt" "rtm_open (ses_remoteTracks c1) 0 = None"
    "ses_rt c1 rt = newRemoteTrack 0 (Some (CallUnsubscribe 0)) (Some 0)"
    "ses_conn c1 = conn_sent qv (Subscribe ?m) (ses_conn (ep_session c))"
    using subscribe_sent [OF rel(1) c client] by blast
  have fresh: "ses_handshakeDone (ep_session s)" "ses_localMaxRequestID (ep_session s) = 100"
    "ltm_pending (ses_localTracks (ep_session s)) 0 = None" "ltm_open (ses_localTracks (ep_session s)) 0 = None"
    using s by (simp_all add: fresh_server_def newLocalTrackMap_def)
  have rej: "getSubscribeHandler hs a = Call (SubscribeReject ErrorCodeSubscribeTrackDoesNotExist reason) (\<lambda>_. Done)"
    if "asm_Namespace a = [ns]" "asm_Track a = name" for a
    using that server by (auto simp: getSubscribeHandler_def tupleEqual_eq reason_def)
  have hnd: "env_SubscribeHandler ?es = Some (getSubscribeHandler hs)" by (simp add: handle_env_def)
  obtain s1 where s1: "receive ?es (Subscribe ?m) (ep_session s) = (Inr (), s1)"
    "localTrackMap_findByID (ses_localTracks s1) 0 = None"
    "ses_conn s1 = conn_sent qv (SubscribeError ?e) (ses_conn (ep_session s))"
    using onSubscribe_reject [OF _ hnd, of ?m ErrorCodeSubscribeTrackDoesNotExist reason "ep_session s", unfolded m]
      rej rel fresh fits wire
    by (auto simp: bad_namespace_def receive_def bindS_def getsS_def)
  obtain c2 c3 where c2: "receive ?ec (SubscribeError ?e) c1 = (Inr (), c2)"
    "Subscribe_wait Response rt c2 = Some (Inl (Fail (ProtocolError ErrorCodeSubscribeTrackDoesNotExist reason)), c3)"
    "remoteTrackMap_findByRequestID (ses_remoteTracks c3) 0 = None"
    using onSubscribeError_delivers [of c1 ?e rt] c1
    by (auto simp: newRemoteTrack_def receive_def bindS_def getsS_def)
  have q: "env_qv envc = qv" "env_qv envs = qv" using rel by (simp_all add: reliable_def)
  have "counter_handle envc hc (InSubscribe rt, c2) =
      Some (HandleReturned (Inl (Fail (ProtocolError ErrorCodeSubscribeTrackDoesNotExist reason))), c3)"
    by (simp add: counter_handle_def subscribeAndRead_def c2(2))
  from subscribe_answered [OF q up client(6) refl wire c1(1,6) s1(1,3) c2(1) this] show ?thesis
    using s1(2) c2(3) by blast
qed

text \<open>Both programs up to the point where the client may subscribe.\<close>

lemma connection_ready:
  assumes rel: "reliable qv envc" "reliable qv envs"
    and run: "handle_Run envc (newConnection PerspectiveClient ProtocolQUIC) hc = (rc, hc')"
      "handle_Run envs (newConnection PerspectiveServer ProtocolQUIC) hs = (rs, hs')"
    and server: "\<not> ch_subscribe hs'" "ch_namespace hs' = [sns]" "short_names sns name"
  shows "\<exists>c s. counter_acts envc hc' envs hs' (opening_schedule (ch_publish hs'))
      (start_endpoint (handle_start rc), start_endpoint (handle_start rs)) = Some (c, s) \<and>
    ep_state c = InRun \<and> ep_state s = HandleReturned (Inr None) \<and> caught_up c s \<and>
    fresh_client (ep_session c) \<and> fresh_server (ep_session s)"
proof -
  obtain c1 s1 where 1: "counter_acts envc hc' envs hs' [ServerReads, ClientReads]
      (start_endpoint (handle_start rc), start_endpoint (handle_start rs)) = Some (c1, s1)"
    "ep_state c1 = InRun" "ep_state s1 = InRun" "caught_up c1 s1" "fresh_client (ep_session c1)" "fresh_server (ep_session s1)"
    "ses_requestIDs (ep_session s1) = \<lparr>rg_id = 1, rg_max = 100, rg_interval = 2\<rparr>"
    using handshake_acts [OF rel run] by blast
  let ?as = "if ch_publish hs' then [ServerResumes, ClientReads, ServerReads, ServerResumes] else [ServerResumes]"
  obtain c2 s2 where "counter_acts envc hc' envs hs' ?as (c1, s1) = Some (c2, s2)" "ep_state c2 = InRun"
    "ep_state s2 = HandleReturned (Inr None)" "caught_up c2 s2" "fresh_client (ep_session c2)" "fresh_server (ep_session s2)"
  proof (cases "ch_publish hs'")
    case True
    from announce_acts [OF rel 1(4,5,6,3) server(1) True server(2,3) 1(7), of hc'] obtain c2 s2 where
      "counter_acts envc hc' envs hs' [ServerResumes, ClientReads, ServerReads, ServerResumes] (c1, s1) = Some (c2, s2)"
      "ep_state c2 = ep_state c1" "ep_state s2 = HandleReturned (Inr None)" "caught_up c2 s2"
      "fresh_client (ep_session c2)" "fresh_server (ep_session s2)" by blast
    then show thesis
      by (intro that [of c2 s2]) (use 1(2) True in \<open>simp_all del: counter_acts.simps\<close>)
  next
    case False
    from quiet_acts [OF 1(6,3) server(1) False, of envc hc' envs c1] show thesis
      by (intro that [of c1 "s1\<lparr>ep_state := HandleReturned (Inr None)\<rparr>"])
        (use 1 False in \<open>simp_all add: caught_up_def del: counter_acts.simps\<close>)
  qed
  then show ?thesis
    unfolding opening_schedule_def counter_acts_append 1(1) Option.bind.bind_lunit by blast
qed

text \<open>An open track at the server and a reader at the client are what it takes to deliver.\<close>

lemma open_delivers:
  assumes "reliable qv envc" "reliable qv envs"
    and "ep_state c = HandleReturned (Inr (Some (rt, Subscriber_Start (new_subscriber NewCounterSubscriber))))"
    and "reading (ep_session c) 0 rt" and "ltm_open (ses_localTracks (ep_session s)) 0 = Some lt"
    and "lt_done (ses_lt (ep_session s) lt) = None" and "lt_trackAlias (ses_lt (ep_session s) lt) = 0"
    and "n \<le> maxVarInt"
  shows "delivers envc hc envs hs c s n"
  unfolding delivers_def
proof (rule exI [of _ rt], rule exI [of _ lt], intro conjI allI impI)
  fix w :: SubscribeResponseWriter and m sid
  assume w: "srw_localTrack w = lt"
  have cp: "publishing 0 (fst (getSubscribeHandler_accepted sid w m hs))"
    "cp_publisher (fst (getSubscribeHandler_accepted sid w m hs)) = w"
    by (simp_all add: getSubscribeHandler_accepted_def publishing_def NewCounterPublisher_def
        CounterPublisher_Start_begin_def)
  show "\<exists>cp s2 ds c4.
         CounterPublisher_Start_loop (handle_env hs envs) (replicate n TickCase)
           (fst (getSubscribeHandler_accepted sid w m hs), ep_session s) = (None, (cp, s2)) \<and>
         cn_datagrams (ses_conn s2) = cn_datagrams (ses_conn (ep_session s)) @ ds \<and> length ds = n \<and>
         receive_datagrams (handle_env hc envc) CounterSubscriber_processObject rt ds
           (ep_session c, NewCounterSubscriber) = Some (c4, received_counters n NewCounterSubscriber)"
    by (rule publisher_delivers [OF _ _ cp _ _ assms(4)])
      (use assms(1,2,8) in \<open>simp_all add: w assms(6,7) reliable_def [of qv envc]\<close>)
qed (use assms in simp_all)

lemma connection_served:
  assumes rel: "reliable qv envc" "reliable qv envs"
    and run: "handle_Run envc (newConnection PerspectiveClient ProtocolQUIC) hc = (rc, hc')"
      "handle_Run envs (newConnection PerspectiveServer ProtocolQUIC) hs = (rs, hs')"
    and client: "ch_subscribe hc" "\<not> ch_publish hc" "ch_namespace hc = [ns]" "short_names ns (ch_trackname hc)"
    and server: "\<not> ch_subscribe hs" "ch_namespace hs = [sns]" "short_names sns (ch_trackname hs)"
  shows "\<exists>c s. counter_acts envc hc' envs hs' (prompt_schedule (ch_publish hs))
      (start_endpoint (handle_start rc), start_endpoint (handle_start rs)) = Some (c, s) \<and>
    ep_state s = HandleReturned (Inr None) \<and>
    (if serves hs hc then \<forall>n \<le> maxVarInt. delivers envc hc' envs hs' c s n
     else client_ends (ep_state c) = Some (ExitCode 1))"
proof -
  note same = run [unfolded handle_Run_def Let_def]
  have hc': "ch_subscribe hc'" "\<not> ch_publish hc'" "ch_namespace hc' = [ns]" "ch_trackname hc' = ch_trackname hc"
    using same(1) client by auto
  have hs': "\<not> ch_subscribe hs'" "ch_publish hs' = ch_publish hs" "ch_namespace hs' = [sns]" "ch_trackname hs' = ch_trackname hs"
    using same(2) server by auto
  let ?acts = "counter_acts envc hc' envs hs'" and ?sub = "[ClientResumes, ServerReads, ClientReads, ClientResumes]"
  let ?start = "(start_endpoint (handle_start rc), start_endpoint (handle_start rs))"
  obtain c2 s2 where 2: "?acts (opening_schedule (ch_publish hs')) ?start = Some (c2, s2)" "ep_state c2 = InRun"
    "ep_state s2 = HandleReturned (Inr None)" "caught_up c2 s2" "fresh_client (ep_session c2)" "fresh_server (ep_session s2)"
    using connection_ready [OF rel run hs'(1,3) server(3)] by blast
  have all: "?acts (prompt_schedule (ch_publish hs)) ?start = ?acts ?sub (c2, s2)"
    unfolding prompt_schedule_def counter_acts_append using 2(1) hs'(2) by (simp del: counter_acts.simps)
  note ready = rel 2(4-6,2) hc'(1-4) client(4)
  show ?thesis
  proof (cases "serves hs hc")
    case True
    then have "ch_publish hs'" "ch_namespace hs' = [ns]" "ch_trackname hs' = ch_trackname hc"
      using hs' server client by (simp_all add: serves_def)
    then obtain c3 s3 rt lt where 3: "?acts ?sub (c2, s2) = Some (c3, s3)"
      "ep_state c3 = HandleReturned (Inr (Some (rt, Subscriber_Start (new_subscriber NewCounterSubscriber))))"
      "ep_state s3 = ep_state s2" "reading (ep_session c3) 0 rt" "ltm_open (ses_localTracks (ep_session s3)) 0 = Some lt"
      "lt_done (ses_lt (ep_session s3) lt) = None" "lt_trackAlias (ses_lt (ep_session s3) lt) = 0"
      using accepted_acts [OF ready, of hs'] by blast
    note open_delivers [OF rel 3(2,4-7)]
    with 2(3) 3(1,3) True all show ?thesis
      by (intro exI [of _ c3] exI [of _ s3]) (simp del: counter_acts.simps)
  next
    case False
    then have "\<not> (ch_publish hs' \<and> ch_namespace hs' = [ns] \<and> ch_trackname hs' = ch_trackname hc)"
      using hs' server client by (simp add: serves_def)
    then obtain c3 s3 reason where "?acts ?sub (c2, s2) = Some (c3, s3)"
      "ep_state c3 = HandleReturned (Inl (Fail (ProtocolError ErrorCodeSubscribeTrackDoesNotExist reason)))"
      "ep_state s3 = ep_state s2"
      using rejected_acts [OF ready, of hs'] by blast
    with 2(3) False all show ?thesis
      by (intro exI [of _ c3] exI [of _ s3]) (simp del: counter_acts.simps)
  qed
qed

end

end
