(* ===== verification/Wire_Parsed.thy ===== *)
theory Wire_Parsed
  imports Control_Stream
begin

text \<open>
  What the parsers of control messages return on any input: values that the wire grammar can
  carry. Every message that an endpoint reads can therefore be written again, with the exception
  of SUBSCRIBE\_OK, whose expiry is scaled while it is read, and of ANNOUNCE\_CANCEL, which is
  written with the type of another message. The last section is about input that makes a parser
  panic.
\<close>

section \<open>Fields\<close>

named_theorems parsed \<open>what a parser returned is well-formed\<close>

lemma advance_Inr: "advance p data = Inr (x, data') \<Longrightarrow> \<exists>n. p data = Inr (x, n)"
  by (auto simp: advance_def bindR_eq_Inr)

lemma make_slice_Inr: "make_slice e n = Inr u \<longleftrightarrow> n * e \<le> maxAlloc"
  by (simp add: make_slice_def)

lemma slice_to_Inr: "slice_to xs n = Inr ys \<longleftrightarrow> n \<le> length xs \<and> ys = take n xs"
  by (auto simp: slice_to_def)

lemma slice_from_Inr: "slice_from xs n = Inr ys \<longleftrightarrow> n \<le> length xs \<and> ys = drop n xs"
  by (auto simp: slice_from_def)

lemmas parse_eqs = bindR_eq_Inr make_slice_Inr slice_to_Inr slice_from_Inr

lemma unat_numeral_4: "unat (4 :: uint64) = 4"
  by simp

lemma uint64_small:
  fixes x :: uint64
  shows "x \<noteq> 0 \<Longrightarrow> \<not> 3 < x \<Longrightarrow> x \<in> {1, 2, 3}" and "x \<noteq> 0 \<Longrightarrow> x \<le> 4 \<Longrightarrow> x \<in> {1, 2, 3, 4}"
proof -
  have "x = of_nat (unat x)" by simp
  moreover have "unat x \<in> {1, 2, 3, 4}" if "x \<noteq> 0" "unat x \<le> 4"
  proof -
    have "unat x \<noteq> 0" using that(1) by (simp add: unat_eq_0)
    then show ?thesis using that(2) by auto
  qed
  ultimately have "x \<in> {1, 2, 3, 4}" if "x \<noteq> 0" "x \<le> 4"
    using that by (metis insert_iff of_nat_1 of_nat_numeral singletonD unat_numeral_4 word_le_nat_alt)
  moreover have "x \<le> 4" "x \<noteq> 4" if "\<not> 3 < x"
    using that order_trans [of x 3 4] by (auto simp: not_less)
  ultimately show "x \<noteq> 0 \<Longrightarrow> \<not> 3 < x \<Longrightarrow> x \<in> {1, 2, 3}" and "x \<noteq> 0 \<Longrightarrow> x \<le> 4 \<Longrightarrow> x \<in> {1, 2, 3, 4}"
    by blast+
qed

context varint_codec
begin

lemma parsed_varint [parsed]: "qv_Parse qv data = Inr (v, n) \<Longrightarrow> fits v"
  using Parse_ok by blast

lemma parsed_vbytes [parsed]: "parseVarIntBytes qv data = Inr (b, n) \<Longrightarrow> length b \<le> maxVarInt"
  by (auto simp: parseVarIntBytes_def parse_eqs fits_def dest: parsed_varint split: if_splits)

lemma parsed_location [parsed]: "Location_parse qv v data = Inr (l, n) \<Longrightarrow> wf_location l"
  by (auto simp: Location_parse_def parse_eqs wf_location_def dest: parsed_varint)

lemma parsed_tuple_loop:
  "parseTuple_loop qv k data t n = Inr (t', n') \<Longrightarrow> list_all (\<lambda>s. length s \<le> maxVarInt) t \<Longrightarrow>
    list_all (\<lambda>s. length s \<le> maxVarInt) t' \<and> length t' = length t + k"
proof (induction k arbitrary: data t n)
  case (Suc k)
  then obtain l m where "qv_Parse qv data = Inr (l, m)"
    and rec: "parseTuple_loop qv k (drop (unat l + m) data) (t @ [take (unat l) (drop m data)]) (n + m + unat l) =
      Inr (t', n')"
    by (auto simp: parse_eqs split: if_splits)
  then have "unat l \<le> maxVarInt" using parsed_varint fits_def by blast
  then show ?case using Suc.IH [OF rec] Suc.prems(2) by simp
qed simp

lemma parsed_tuple [parsed]: "parseTuple qv data = Inr (t, n) \<Longrightarrow> wf_tuple t"
  by (auto simp: parseTuple_def parse_eqs wf_tuple_def dest!: parsed_tuple_loop)

lemma parsed_versions_loop:
  "versions_parse_loop qv k data vs n = Inr (vs', n') \<Longrightarrow> list_all fits vs \<Longrightarrow>
    list_all fits vs' \<and> length vs' = length vs + k"
proof (induction k arbitrary: data vs n)
  case (Suc k)
  then obtain v m where "fits v" and rec: "versions_parse_loop qv k (drop m data) (vs @ [v]) (n + m) = Inr (vs', n')"
    by (auto simp: parse_eqs dest: parsed_varint)
  then show ?case using Suc.IH [OF rec] Suc.prems(2) by simp
qed simp

lemma parsed_versions [parsed]: "versions_parse qv [] data = Inr (vs, n) \<Longrightarrow> wf_versions vs"
proof -
  assume "versions_parse qv [] data = Inr (vs, n)"
  then obtain k m where "qv_Parse qv data = Inr (k, m)"
    "versions_parse_loop qv (nat (int_of_uint64 k)) (drop m data) [] m = Inr (vs, n)"
    by (auto simp: versions_parse_def parse_eqs)
  moreover from this(1) have "nat (int_of_uint64 k) \<le> maxVarInt"
    using parsed_varint [of data k m] sint_fits [of k] by (simp add: fits_def)
  ultimately show ?thesis
    by (auto simp: wf_versions_def dest!: parsed_versions_loop)
qed

lemma parsed_kvp [parsed]: "KeyValuePair_parse qv data = Inr (p, n) \<Longrightarrow> wf_kvp p"
  by (auto simp: KeyValuePair_parse_def parse_eqs wf_kvp_def odd_iff_mod_2_eq_one [symmetric] dest: parsed_varint split: if_splits)

lemma parsed_kvps_loop:
  "parseNum_loop qv k data pp = Inr pp' \<Longrightarrow> list_all wf_kvp pp \<Longrightarrow>
    list_all wf_kvp pp' \<and> length pp' = length pp + k"
proof (induction k arbitrary: data pp)
  case (Suc k)
  then obtain p m where "wf_kvp p" and rec: "parseNum_loop qv k (drop m data) (pp @ [p]) = Inr pp'"
    by (auto simp: parse_eqs dest: parsed_kvp)
  then show ?case using Suc.IH [OF rec] Suc.prems(2) by simp
qed simp

lemma parsed_kvps [parsed]: "KVPList_parseNum qv [] data = Inr pp \<Longrightarrow> wf_kvps pp"
  by (auto simp: KVPList_parseNum_def parse_eqs wf_kvps_def fits_def dest!: parsed_kvps_loop parsed_varint)

section \<open>Messages\<close>

lemma parsed_ClientSetup: "ClientSetupMessage_parse qv v data = Inr m \<Longrightarrow> wf_ClientSetup m"
  by (auto simp: ClientSetupMessage_parse_def wf_ClientSetup_def parse_eqs dest!: advance_Inr dest: parsed split: if_splits)

lemma parsed_ServerSetup: "ServerSetupMessage_parse qv v data = Inr m \<Longrightarrow> wf_ServerSetup m"
  by (auto simp: ServerSetupMessage_parse_def wf_ServerSetup_def parse_eqs dest!: advance_Inr dest: parsed split: if_splits)

lemma parsed_Subscribe: "SubscribeMessage_parse qv v data = Inr m \<Longrightarrow> wf_Subscribe m"
  by (clarsimp simp: SubscribeMessage_parse_def parse_eqs filter_defs not_less dest!: advance_Inr,
      frule (1) uint64_small(2), auto simp: wf_Subscribe_def dest: parsed dest!: advance_Inr split: if_splits)

lemma parsed_SubscribeError: "SubscribeErrorMessage_parse qv v data = Inr m \<Longrightarrow> wf_SubscribeError m"
  by (auto simp: SubscribeErrorMessage_parse_def wf_SubscribeError_def parse_eqs dest!: advance_Inr dest: parsed split: if_splits)

lemma parsed_SubscribeUpdate: "SubscribeUpdateMessage_parse qv v data = Inr m \<Longrightarrow> wf_SubscribeUpdate m"
  by (auto simp: SubscribeUpdateMessage_parse_def wf_SubscribeUpdate_def parse_eqs dest!: advance_Inr dest: parsed split: if_splits)

lemma parsed_SubscribeDone: "SubscribeDoneMessage_parse qv v data = Inr m \<Longrightarrow> wf_SubscribeDone m"
  by (auto simp: SubscribeDoneMessage_parse_def wf_SubscribeDone_def parse_eqs dest!: advance_Inr dest: parsed split: if_splits)

lemma parsed_Fetch: "FetchMessage_parse qv v data = Inr m \<Longrightarrow> wf_Fetch m"
  by (auto simp: FetchMessage_parse_def wf_Fetch_def parse_eqs Let_def FetchTypeStandalone_def FetchTypeAbsoluteJoining_def dest!: advance_Inr dest: parsed uint64_small(1) split: if_splits)

lemma parsed_FetchOk: "FetchOkMessage_parse qv v data = Inr m \<Longrightarrow> wf_FetchOk m"
  by (auto simp: FetchOkMessage_parse_def wf_FetchOk_def parse_eqs dest!: advance_Inr dest: parsed split: if_splits)

lemma parsed_FetchError: "FetchErrorMessage_parse qv v data = Inr m \<Longrightarrow> wf_FetchError m"
  by (auto simp: FetchErrorMessage_parse_def wf_FetchError_def parse_eqs dest!: advance_Inr dest: parsed split: if_splits)

lemma parsed_TrackStatusRequest: "TrackStatusRequestMessage_parse qv v data = Inr m \<Longrightarrow> wf_TrackStatusRequest m"
  by (auto simp: TrackStatusRequestMessage_parse_def wf_TrackStatusRequest_def parse_eqs dest!: advance_Inr dest: parsed split: if_splits)

lemma parsed_TrackStatus: "TrackStatusMessage_parse qv v data = Inr m \<Longrightarrow> wf_TrackStatus m"
  by (auto simp: TrackStatusMessage_parse_def wf_TrackStatus_def parse_eqs dest!: advance_Inr dest: parsed split: if_splits)

lemma parsed_Announce: "AnnounceMessage_parse qv v data = Inr m \<Longrightarrow> wf_Announce m"
  by (auto simp: AnnounceMessage_parse_def wf_Announce_def parse_eqs dest!: advance_Inr dest: parsed split: if_splits)

lemma parsed_AnnounceError: "AnnounceErrorMessage_parse qv v data = Inr m \<Longrightarrow> wf_AnnounceError m"
  by (auto simp: AnnounceErrorMessage_parse_def wf_AnnounceError_def parse_eqs dest!: advance_Inr dest: parsed split: if_splits)

lemma parsed_AnnounceCancel: "AnnounceCancelMessage_parse qv v data = Inr m \<Longrightarrow> wf_AnnounceCancel m"
  by (auto simp: AnnounceCancelMessage_parse_def wf_AnnounceCancel_def parse_eqs dest!: advance_Inr dest: parsed split: if_splits)

lemma parsed_SubscribeAnnounces: "SubscribeAnnouncesMessage_parse qv v data = Inr m \<Longrightarrow> wf_SubscribeAnnounces m"
  by (auto simp: SubscribeAnnouncesMessage_parse_def wf_SubscribeAnnounces_def parse_eqs dest!: advance_Inr dest: parsed split: if_splits)

lemma parsed_SubscribeAnnouncesError: "SubscribeAnnouncesErrorMessage_parse qv v data = Inr m \<Longrightarrow> wf_SubscribeAnnouncesError m"
  by (auto simp: SubscribeAnnouncesErrorMessage_parse_def wf_SubscribeAnnouncesError_def parse_eqs dest!: advance_Inr dest: parsed split: if_splits)

lemma parsed_SubscribeOk:
  assumes "SubscribeOkMessage_parse qv v data = Inr m"
  shows "\<exists>e. fits e \<and> som_Expires m = e * Millisecond \<and> wf_SubscribeOk (m\<lparr>som_Expires := e\<rparr>)"
  using assms
  by (clarsimp simp: SubscribeOkMessage_parse_def wf_SubscribeOk_def parse_eqs not_less dest!: advance_Inr)
     (auto dest: parsed dest!: advance_Inr split: if_splits)

lemmas parsed_messages = parsed_ClientSetup parsed_ServerSetup parsed_Subscribe parsed_SubscribeError
  parsed_SubscribeUpdate parsed_SubscribeDone parsed_Fetch parsed_FetchOk parsed_FetchError
  parsed_TrackStatusRequest parsed_TrackStatus parsed_Announce parsed_AnnounceError
  parsed_SubscribeAnnounces parsed_SubscribeAnnouncesError

lemmas small_parsers = GoAwayMessage_parse_def MaxRequestIDMessage_parse_def RequestsBlockedMessage_parse_def
  UnsubscribeMessage_parse_def FetchCancelMessage_parse_def AnnounceOkMessage_parse_def
  UnannounceMessage_parse_def SubscribeAnnouncesOkMessage_parse_def UnsubscribeAnnouncesMessage_parse_def

lemma parsed_by_type:
  assumes "parse_by_type qv mt msg = Inr m"
  shows "wf_control m \<or> (\<exists>k. m = SubscribeOk k) \<or> (\<exists>k. m = AnnounceCancel k \<and> wf_AnnounceCancel k)"
  using assms unfolding parse_by_type_def
  by (auto simp: bindR_eq_Inr small_parsers dest: parsed_messages parsed_AnnounceCancel parsed
      split: if_splits)

lemma Parse_by_type:
  assumes "ControlMessageParser_Parse qv r = Inr (m, r')"
  shows "\<exists>mt msg. parse_by_type qv mt msg = Inr m"
  using assms by (auto simp: ControlMessageParser_Parse_def bindR_eq_Inr Let_def split: if_splits)

lemma parsed_forwarded:
  assumes "ControlMessageParser_Parse qv r = Inr (m, r')"
    and "\<nexists>k. m = SubscribeOk k" and "\<nexists>k. m = AnnounceCancel k"
  shows "compileMessage qv m = Inl (Fail errControlMessageTooLarge) \<or>
    (\<exists>f. compileMessage qv m = Inr f \<and> ControlMessageParser_Parse qv (f @ rest) = Inr (m, rest))"
proof -
  have "wf_control m"
    using Parse_by_type [OF assms(1)] parsed_by_type assms(2,3) by blast
  then show ?thesis
    using compileMessage_enc [of m] compileMessage_too_large [of m] Parse_frame [of m]
    by (cases "length (enc_body qv m) \<le> 65535") auto
qed

text \<open>ANNOUNCE\_CANCEL is written with the type of ANNOUNCE, so no peer reads it as what it is.\<close>

lemma announce_cancel_misread:
  assumes "wf_AnnounceCancel k" and "length (enc_AnnounceCancel qv k) \<le> 65535"
  obtains f where "compileMessage qv (AnnounceCancel k) = Inr f"
    and "\<And>rest m r'. ControlMessageParser_Parse qv (f @ rest) = Inr (m, r') \<Longrightarrow> \<exists>a. m = Announce a"
proof -
  let ?n = "length (enc_AnnounceCancel qv k)"
  let ?f = "qv_enc qv messageTypeAnnounce @ of_nat (?n div 256) # of_nat ?n # enc_AnnounceCancel qv k"
  have fit: "fits messageTypeAnnounce"
    by (simp add: messageTypeAnnounce_def fits_def maxVarInt_def)
  have "ControlMessage_Append qv (AnnounceCancel k) (qv_enc qv messageTypeAnnounce @ [0, 0])
      = Inr (qv_enc qv messageTypeAnnounce @ [0, 0] @ enc_AnnounceCancel qv k)"
    using assms(1) by (simp add: announce_cancel.app_enc)
  then have "compileMessage qv (AnnounceCancel k) = Inr ?f"
    using assms(2) fit by (simp add: compileMessage_def slice_from_def PutUint16_frame [simplified] ucast_of_nat_16)
  moreover have "\<exists>a. m = Announce a" if "ControlMessageParser_Parse qv (?f @ rest) = Inr (m, r')" for rest m r'
    using that assms(2) fit
    by (auto simp: ControlMessageParser_Parse_def uint16_of_bytes_of_nat Let_def bindR_eq_Inr parse_by_type_def
        messageType_defs split: if_splits)
  ultimately show thesis by (rule that)
qed

section \<open>Input that panics\<close>

text \<open>
  \<^verbatim>\<open>KeyValuePair.parse\<close> slices the rest of the message up to the announced length without
  comparing the two, so a parameter that announces more bytes than the message has panics.
\<close>

lemma kvp_panics:
  assumes "fits t" "t mod 2 = 1" "fits l" "length data < unat l"
  shows "KeyValuePair_parse qv (qv_enc qv t @ qv_enc qv l @ data) = Inl Panic"
  using assms by (auto simp: KeyValuePair_parse_def make_slice_def slice_to_def)

text \<open>A tuple that announces more elements than fit into memory panics when the slice is allocated.\<close>

lemma tuple_panics:
  assumes "fits l" "maxAlloc < unat l * 16"
  shows "parseTuple qv (qv_enc qv l @ data) = Inl Panic"
  using assms by (simp add: parseTuple_def make_slice_def)

text \<open>A CLIENT\_SETUP with such a parameter, after any versions and parameters that are well-formed.\<close>

lemma parseNum_loop_panics:
  assumes "list_all wf_kvp ps" and "KeyValuePair_parse qv data = Inl Panic" and "length ps < n"
  shows "parseNum_loop qv n (concat (map (enc_kvp qv) ps) @ data) acc = Inl Panic"
  using assms
proof (induction ps arbitrary: n acc)
  case Nil
  then show ?case by (cases n) simp_all
next
  case (Cons p ps)
  then show ?case by (cases n) simp_all
qed

lemma setup_panics:
  assumes "wf_versions vs" and "list_all wf_kvp ps" and "fits n" and "length ps < unat n"
    and "fits t" and "t mod 2 = 1" and "fits l" and "length v < unat l"
    and body: "body = enc_versions qv vs @ qv_enc qv n @ concat (map (enc_kvp qv) ps) @ qv_enc qv t @ qv_enc qv l @ v"
    and len: "length body \<le> 65535"
  shows "ControlMessageParser_Parse qv (qv_enc qv messageTypeClientSetup @
    of_nat (length body div 256) # of_nat (length body) # body @ rest) = Inl Panic"
proof -
  have "fits messageTypeClientSetup"
    by (simp add: messageTypeClientSetup_def fits_def maxVarInt_def)
  moreover have "KeyValuePair_parse qv (qv_enc qv t @ qv_enc qv l @ v) = Inl Panic"
    using assms(5-8) by (rule kvp_panics)
  from parseNum_loop_panics [OF assms(2) this assms(4)]
  have "ClientSetupMessage_parse qv CurrentVersion body = Inl Panic"
    using assms(1,3) by (simp add: ClientSetupMessage_parse_def advance_def KVPList_parseNum_def body)
  ultimately show ?thesis
    using len by (simp add: ControlMessageParser_Parse_def uint16_of_bytes_of_nat parse_by_type_def)
qed

end

end
