(* ===== verification/Session_Safety.thy ===== *)
theory Session_Safety
  imports Session_Behaviour Wire_Parsed
begin

text \<open>
  When a session can panic while it handles what the peer sends. A varint above 62 bits panics in
  the varint library, a nil handler or a method that a response writer does not have panics in the
  application, and closing a channel twice panics. The theory gives a calculus for panics, with one
  rule per combinator, and follows it through the response writers and the handlers: with a
  handler that uses its writers as they are, the only panic left is the one of \<^verbatim>\<open>addLocalTrack\<close>,
  which doubles the maximum request ID until it does not fit a varint.
\<close>

section \<open>A calculus for panics\<close>

text \<open>
  \<open>safe E P m V Q\<close>: from a state with \<open>P\<close>, a panic of \<open>m\<close> leaves a state with \<open>E\<close>; without a panic
  the state has \<open>Q\<close>, and a returned value has \<open>V\<close>.
\<close>

definition safe ::
  "('s \<Rightarrow> bool) \<Rightarrow> ('s \<Rightarrow> bool) \<Rightarrow> ('s, 'a) st \<Rightarrow> ('a \<Rightarrow> bool) \<Rightarrow> ('s \<Rightarrow> bool) \<Rightarrow> bool" where
  "safe E P m V Q \<longleftrightarrow>
     (\<forall>s. P s \<longrightarrow>
        (if fst (m s) = Inl Panic then E (snd (m s)) else Q (snd (m s))) \<and>
        (\<forall>x. fst (m s) = Inr x \<longrightarrow> V x))"

abbreviation anything :: "'a \<Rightarrow> bool" where
  "anything \<equiv> \<lambda>_. True"

named_theorems safety \<open>computations that do not panic, and keep a property of the state\<close>

lemma safe_bind:
  assumes "safe E P m V R" and "\<And>x. V x \<Longrightarrow> safe E R (f x) W Q" and "\<And>s. R s \<Longrightarrow> Q s"
  shows "safe E P (bindS m f) W Q"
  using assms unfolding safe_def bindS_def
  by (fastforce split: prod.splits sum.splits if_splits)

text \<open>The rules for computations that keep \<open>P\<close>, and for values of which nothing is claimed.\<close>

lemma safe_seq [safety]:
  "safe E P m anything P \<Longrightarrow> (\<And>x. safe E P (f x) W P) \<Longrightarrow> safe E P (bindS m f) W P"
  by (rule safe_bind)

lemma safe_return [safety]: "V x \<Longrightarrow> safe E P (returnS x) V P"
  by (simp add: safe_def returnS_def)

lemma safe_fail [safety]: "safe E P (failS e) V P"
  by (simp add: safe_def failS_def)

lemma safe_throw [safety]: "safe E P (throwS e) anything P"
  by (cases e) (simp_all add: throwS_def safe_return safe_fail)

lemma safe_lift: "r \<noteq> Inl Panic \<Longrightarrow> (\<And>x. r = Inr x \<Longrightarrow> V x) \<Longrightarrow> safe E P (liftR r) V P"
  by (simp add: safe_def liftR_def)

lemma safe_gets: "(\<And>s. P s \<Longrightarrow> V (f s)) \<Longrightarrow> safe E P (getsS f) V P"
  by (simp add: safe_def getsS_def)

lemma safe_gets_any [safety]: "safe E P (getsS f) anything P"
  by (simp add: safe_gets)

lemma safe_modify: "(\<And>s. P s \<Longrightarrow> Q (f s)) \<Longrightarrow> safe E P (modifyS f) anything Q"
  by (simp add: safe_def modifyS_def)

lemma safe_upd:
  "(\<And>s. P s \<Longrightarrow> V (fst (f (get s))) \<and> Q (put (snd (f (get s))) s)) \<Longrightarrow> safe E P (updS get put f) V Q"
  by (simp add: safe_def updS_def split_beta)

lemma safe_try [safety]: "safe E P m anything Q \<Longrightarrow> safe E P (tryS m) anything Q"
  by (fastforce simp: safe_def tryS_def split: prod.splits sum.splits failure.splits)

lemma safe_ignore [safety]: "safe E P m anything P \<Longrightarrow> safe E P (ignore m) anything P"
  by (simp add: ignore_def safe_seq safe_return)

lemma safe_if [safety]:
  "(b \<Longrightarrow> safe E P m V Q) \<Longrightarrow> (\<not> b \<Longrightarrow> safe E P n V Q) \<Longrightarrow> safe E P (if b then m else n) V Q"
  by simp

lemma safe_case_option [safety]:
  "(v = None \<Longrightarrow> safe E P m V Q) \<Longrightarrow> (\<And>x. v = Some x \<Longrightarrow> safe E P (f x) V Q) \<Longrightarrow>
     safe E P (case v of None \<Rightarrow> m | Some x \<Rightarrow> f x) V Q"
  by (cases v) simp_all

lemma safe_case_sum [safety]:
  "(\<And>x. safe E P (f x) V Q) \<Longrightarrow> (\<And>x. safe E P (g x) V Q) \<Longrightarrow>
     safe E P (case v of Inl x \<Rightarrow> f x | Inr x \<Rightarrow> g x) V Q"
  by (cases v) simp_all

lemma safe_Let [safety]: "safe E P (f v) V Q \<Longrightarrow> safe E P (let x = v in f x) V Q"
  by simp

lemma safe_weaken:
  "safe E P m V Q \<Longrightarrow> (\<And>s. P' s \<Longrightarrow> P s) \<Longrightarrow> (\<And>x. V x \<Longrightarrow> V' x) \<Longrightarrow> (\<And>s. Q s \<Longrightarrow> Q' s) \<Longrightarrow>
     safe E P' m V' Q'"
  unfolding safe_def by (metis (full_types))

lemma safe_frame:
  "safe E P m V Q \<Longrightarrow> keeps R m \<Longrightarrow> safe E (\<lambda>s. P s \<and> R s) m V (\<lambda>s. Q s \<and> R s)"
  by (auto simp: safe_def keeps_def)

lemma safe_fail_weak: "(\<And>s. P s \<Longrightarrow> Q s) \<Longrightarrow> safe E P (failS e) V Q"
  by (simp add: safe_def failS_def)

lemma safe_get_cases:
  assumes "\<And>x. safe E (\<lambda>s. P s \<and> f s = x) (g x) V Q"
  shows "safe E P (bindS (getsS f) g) V Q"
  unfolding safe_def
proof (intro allI impI)
  fix s
  assume "P s"
  with assms [of "f s"] show "(if fst (bindS (getsS f) g s) = Inl Panic then E (snd (bindS (getsS f) g s))
      else Q (snd (bindS (getsS f) g s))) \<and> (\<forall>x. fst (bindS (getsS f) g s) = Inr x \<longrightarrow> V x)"
    by (simp add: safe_def bindS_def getsS_def)
qed

lemma safe_result:
  "safe E P m V Q \<Longrightarrow> P s \<Longrightarrow> fst (m s) = Inl Panic \<Longrightarrow> E (snd (m s))"
  "safe E P m V Q \<Longrightarrow> P s \<Longrightarrow> fst (m s) \<noteq> Inl Panic \<Longrightarrow> Q (snd (m s))"
  by (simp_all add: safe_def)

section \<open>Sessions that are ready\<close>

text \<open>
  \<open>ready b s\<close>: the handshake channel is open until the handshake is done, the numbers that the
  session writes fit a varint, and \<open>b\<close> more track aliases, or \<open>b\<close> more subgroups of one track, will.
\<close>

fun func_id :: "unsubscribe_func \<Rightarrow> uint64" where
  "func_id (CallUnsubscribe i) = i"
| "func_id (CallFetchCancel i) = i"

definition rt_fits :: "RemoteTrack \<Rightarrow> bool" where
  "rt_fits t \<longleftrightarrow> (case rt_unsubscribeFunc t of None \<Rightarrow> True | Some g \<Rightarrow> fits (func_id g))"

definition lt_fits :: "nat \<Rightarrow> localTrack \<Rightarrow> bool" where
  "lt_fits b t \<longleftrightarrow>
     fits (lt_requestID t) \<and> fits (lt_trackAlias t) \<and> unat (lt_subgroupCount t) + b \<le> maxVarInt"

definition ready :: "nat \<Rightarrow> Session \<Rightarrow> bool" where
  "ready b s \<longleftrightarrow>
     (ses_handshakeDone s \<longleftrightarrow> ses_handshakeDoneCh s) \<and> fits (ses_localMaxRequestID s) \<and>
     (\<forall>r. rt_fits (ses_rt s r)) \<and> (\<forall>r. lt_fits b (ses_lt s r)) \<and>
     seq_interval (ses_trackAliases s) = 1 \<and> unat (seq_last (ses_trackAliases s)) + b \<le> maxVarInt"

text \<open>The session has doubled its maximum request ID beyond the range of varints.\<close>

definition exhausted :: "Session \<Rightarrow> bool" where
  "exhausted s \<longleftrightarrow> \<not> fits (ses_localMaxRequestID s)"

lemma ready_mono: "ready b s \<Longrightarrow> c \<le> b \<Longrightarrow> ready c s"
  by (fastforce simp: ready_def lt_fits_def dest: spec intro: order_trans [OF add_left_mono])

lemma ready_not_exhausted: "ready b s \<Longrightarrow> \<not> exhausted s"
  by (simp add: ready_def exhausted_def)

lemma ready_fits:
  "ready b s \<Longrightarrow> fits (lt_requestID (ses_lt s r))"
  "ready b s \<Longrightarrow> fits (lt_trackAlias (ses_lt s r))"
  "ready b s \<Longrightarrow> fits (lt_subgroupCount (ses_lt s r))"
  by (auto simp: ready_def lt_fits_def fits_def intro: add_leD1)

lemma ready_new:
  "fits i \<Longrightarrow> b \<le> maxVarInt \<Longrightarrow> ready b (newSession i conn)"
  by (simp add: ready_def newSession_def rt_fits_def lt_fits_def newRemoteTrack_def newLocalTrack_def
      newSequence_def fits_def)

lemma safe_add_lt_count: "lt_fits (Suc b) t \<Longrightarrow> lt_fits b (t\<lparr>lt_subgroupCount := lt_subgroupCount t + 1\<rparr>)"
  by (simp add: lt_fits_def unat_plus_if' maxVarInt_def)

lemma safe_alloc_lt [safety]:
  "fits i \<Longrightarrow> fits a \<Longrightarrow> b \<le> maxVarInt \<Longrightarrow>
     safe E (ready b) (alloc_lt (newLocalTrack i a c)) anything (ready b)"
  by (simp add: safe_def alloc_lt_def ready_def lt_fits_def newLocalTrack_def)

lemma safe_tables [safety]:
  "safe E (ready b) (upd_localTracks f1) anything (ready b)"
  "safe E (ready b) (upd_remoteTracks f2) anything (ready b)"
  "safe E (ready b) (upd_requestIDs f3) anything (ready b)"
  "safe E (ready b) (upd_outgoingAnnouncements f4) anything (ready b)"
  "safe E (ready b) (upd_incomingAnnouncements f5) anything (ready b)"
  "safe E (ready b) (upd_outgoingSubscriptions f6) anything (ready b)"
  "safe E (ready b) (upd_trackStatusRequests f7) anything (ready b)"
  unfolding upd_localTracks_def upd_remoteTracks_def upd_requestIDs_def upd_outgoingAnnouncements_def
    upd_incomingAnnouncements_def upd_outgoingSubscriptions_def upd_trackStatusRequests_def
  by (rule safe_upd; simp add: ready_def)+

lemma safe_fields [safety]:
  "safe E (ready b) (log_app ev) anything (ready b)"
  "safe E (ready b) (modifyS (\<lambda>s. s\<lparr>ses_version := v\<rparr>)) anything (ready b)"
  "safe E (ready b) (modifyS (\<lambda>s. s\<lparr>ses_path := p\<rparr>)) anything (ready b)"
  "safe E (ready b) (modifyS (\<lambda>s. s\<lparr>ses_pendingIncomingAnnouncementSubscriptions := f s\<rparr>)) anything (ready b)"
  unfolding log_app_def by (rule safe_modify; simp add: ready_def)+

lemma safe_channels [safety]:
  "safe E (ready b) alloc_errCh anything (ready b)"
  "safe E (ready b) (send_errCh r e) anything (ready b)"
  "safe E (ready b) (send_statusCh r x) anything (ready b)"
  "safe E (ready b) (send_rt_response r e) anything (ready b)"
  by (auto simp: safe_def alloc_errCh_def send_errCh_def send_statusCh_def send_rt_response_def
      ready_def rt_fits_def try_send_def)

lemma safe_modify_rt:
  "(\<And>t. rt_unsubscribeFunc (f t) = rt_unsubscribeFunc t) \<Longrightarrow> safe E (ready b) (modify_rt r f) anything (ready b)"
  unfolding modify_rt_def by (rule safe_modify) (simp add: ready_def rt_fits_def)

lemma safe_modify_lt:
  "(\<And>t. lt_fits b t \<Longrightarrow> lt_fits b (f t)) \<Longrightarrow> safe E (ready b) (modify_lt r f) anything (ready b)"
  unfolding modify_lt_def by (rule safe_modify) (simp add: ready_def)

lemma safe_cancel_lt [safety]:
  "safe E (ready b) (modify_lt r localTrack_unsubscribe) anything (ready b)"
  "safe E (ready b) (modify_lt r (\<lambda>t. t\<lparr>lt_done := cancel (lt_done t) e\<rparr>)) anything (ready b)"
  by (rule safe_modify_lt; simp add: localTrack_unsubscribe_def lt_fits_def)+

lemma finish_handshake_safe: 
  "safe E (\<lambda>s. ready b s \<and> \<not> ses_handshakeDone s) finish_handshake anything (ready b)"
  by (auto simp: safe_def finish_handshake_def close_handshakeDoneCh_def ready_def effects)

section \<open>The connection and local tracks\<close>

abbreviation no_state :: "'s \<Rightarrow> bool" where
  "no_state \<equiv> \<lambda>_. False"

text \<open>Operations of the connection fail, but do not panic.\<close>

lemma safe_net [safety]:
  "safe no_state anything (net_op net bs f) anything anything"
  "safe no_state anything (write_stream net i bs) anything anything"
  "safe no_state anything (OpenUniStream net) anything anything"
  "safe no_state anything (SendDatagram net bs) anything anything"
  by (auto simp: safe_def write_stream_def OpenUniStream_def SendDatagram_def net_op_def effects
      split: net_outcome.splits)

abbreviation track_ready :: "nat \<Rightarrow> localTrack \<times> Connection \<Rightarrow> bool" where
  "track_ready b \<equiv> \<lambda>x. lt_fits b (fst x)"

lemma safe_on_conn [safety]:
  "safe no_state anything m anything anything \<Longrightarrow> safe no_state (track_ready b) (on_conn m) anything (track_ready b)"
  by (auto simp: safe_def on_conn_def onS_def split_beta split: if_splits)

lemma safe_closed [safety]: "safe no_state (track_ready b) localTrack_closed anything (track_ready b)"
  by (simp add: safe_def localTrack_closed_def effects split: option.split)

lemma safe_on_track:
  assumes "safe no_state (track_ready b) op anything (track_ready c)" and "c \<le> b"
  shows "safe E (ready b) (on_track r op) anything (ready c)"
proof -
  have "fst (op (ses_lt s r, ses_conn s)) \<noteq> Inl Panic \<and> lt_fits c (fst (snd (op (ses_lt s r, ses_conn s))))"
    if "ready b s" for s
    using assms(1) that by (auto simp: safe_def ready_def split: if_splits)
  then show ?thesis
    using ready_mono [OF _ assms(2)]
    by (fastforce simp: safe_def on_track_def onS_def ready_def split: prod.splits)
qed

section \<open>Handlers that use their writers as they are\<close>

text \<open>An error code and a reason phrase that can be written.\<close>

definition wf_reason :: "uint64 \<Rightarrow> gostring \<Rightarrow> bool" where
  "wf_reason code reason \<longleftrightarrow> fits code \<and> length reason \<le> maxVarInt"

lemma wf_reason_small:
  "length reason \<le> 255 \<Longrightarrow> wf_reason 0 (ascii reason)" "wf_reason 0 []" 
  by (simp_all add: wf_reason_def ascii_def fits_def maxVarInt_def)

text \<open>
  The calls that a response writer has, with arguments that can be written. \<open>within ok n sc\<close>: the
  script makes at most \<open>n\<close> calls, each allowed by \<open>ok\<close>, whatever errors they return.
\<close>

fun announcement_call_ok :: "rw_call \<Rightarrow> bool" where
  "announcement_call_ok Accept \<longleftrightarrow> True"
| "announcement_call_ok (Reject code reason) \<longleftrightarrow> wf_reason code reason"
| "announcement_call_ok _ \<longleftrightarrow> False"

fun fetch_call_ok :: "rw_call \<Rightarrow> bool" where
  "fetch_call_ok Accept \<longleftrightarrow> True"
| "fetch_call_ok (Reject code reason) \<longleftrightarrow> wf_reason code reason"
| "fetch_call_ok OpenFetchStream \<longleftrightarrow> True"
| "fetch_call_ok _ \<longleftrightarrow> False"

fun status_call_ok :: "rw_call \<Rightarrow> bool" where
  "status_call_ok Accept \<longleftrightarrow> True"
| "status_call_ok (Reject _ _) \<longleftrightarrow> True"
| "status_call_ok (SetStatus code _ _) \<longleftrightarrow> fits code"
| "status_call_ok _ \<longleftrightarrow> False"

definition ok_options_fit :: "SubscribeOkOptions \<Rightarrow> bool" where
  "ok_options_fit opts \<longleftrightarrow>
     fits (soo_Expires opts) \<and> soo_GroupOrder opts \<le> 2 \<and>
     (case soo_LargestLocation opts of None \<Rightarrow> True | Some l \<Rightarrow> wf_location l) \<and>
     wf_kvps (soo_Parameters opts)"

fun subscribe_call_ok :: "srw_call \<Rightarrow> bool" where
  "subscribe_call_ok (SubscribeAccept options) \<longleftrightarrow>
     ok_options_fit (apply_options options defaultSubscribeOkOptions)"
| "subscribe_call_ok (SubscribeReject code reason) \<longleftrightarrow> wf_reason code reason"
| "subscribe_call_ok (PublishDatagram ob) \<longleftrightarrow> fits (obj_GroupID ob) \<and> fits (obj_ObjectID ob)"
| "subscribe_call_ok (PublishSubgroup g sg p) \<longleftrightarrow> fits g \<and> fits sg"
| "subscribe_call_ok (PublishClose code reason) \<longleftrightarrow> wf_reason code reason"

primrec within :: "('c \<Rightarrow> bool) \<Rightarrow> nat \<Rightarrow> 'c script \<Rightarrow> bool" where
  "within ok 0 sc \<longleftrightarrow> (case sc of Done \<Rightarrow> True | Call _ _ \<Rightarrow> False)"
| "within ok (Suc n) sc \<longleftrightarrow> (case sc of Done \<Rightarrow> True | Call c k \<Rightarrow> ok c \<and> (\<forall>e. within ok n (k e)))"

text \<open>The messages without a response writer come with a nil one, on which nothing can be called.\<close>

definition method_call_ok :: "Method \<Rightarrow> rw_call \<Rightarrow> bool" where
  "method_call_ok method c \<longleftrightarrow>
     (case method of
        MessageAnnounce \<Rightarrow> announcement_call_ok c
      | MessageSubscribeAnnounces \<Rightarrow> announcement_call_ok c
      | MessageFetch \<Rightarrow> fetch_call_ok c
      | MessageTrackStatusRequest \<Rightarrow> status_call_ok c
      | _ \<Rightarrow> False)"

definition well_behaved :: "nat \<Rightarrow> Env \<Rightarrow> bool" where
  "well_behaved n env \<longleftrightarrow>
     (case env_Handler env of
        None \<Rightarrow> False
      | Some h \<Rightarrow> (\<forall>m. within (method_call_ok (msg_Method m)) n (h m))) \<and>
     (case env_SubscribeHandler env of
        None \<Rightarrow> True
      | Some h \<Rightarrow> (\<forall>m. within subscribe_call_ok n (h m)))"

lemma run_script_safe:
  assumes exec: "\<And>c b. ok c \<Longrightarrow> safe E (P (Suc b)) (exec c) anything (P b)"
    and mono: "\<And>b s. P (Suc b) s \<Longrightarrow> P b s"
  shows "within ok n sc \<Longrightarrow> safe E (P (n + b)) (run_script exec sc) anything (P b)"
proof (induction n arbitrary: sc)
  case 0
  then show ?case by (cases sc) (simp_all add: safe_return)
next
  case (Suc n)
  have mono_n: "P (k + b) s \<Longrightarrow> P b s" for k s
    by (induction k) (auto dest: mono)
  show ?case
  proof (cases sc)
    case Done
    then show ?thesis
      using mono_n by (auto simp: safe_def returnS_def simp del: add_Suc)
  next
    case (Call c k)
    with Suc.prems have "ok c" "\<And>e. within ok n (k e)" by auto
    with Suc.IH exec [OF this(1), of "n + b"] show ?thesis
      by (auto simp: Call intro!: safe_bind [OF safe_try] mono_n)
  qed
qed

text \<open>The state of a call on a writer: the writer has \<open>W\<close>, the session is ready.\<close>

abbreviation writer_ready :: "('w \<Rightarrow> bool) \<Rightarrow> nat \<Rightarrow> 'w \<times> Session \<Rightarrow> bool" where
  "writer_ready W b \<equiv> \<lambda>x. W (fst x) \<and> ready b (snd x)"

abbreviation writer_exhausted :: "'w \<times> Session \<Rightarrow> bool" where
  "writer_exhausted \<equiv> \<lambda>x. exhausted (snd x)"

lemma safe_on_session [safety]:
  "safe exhausted (ready b) m anything (ready c) \<Longrightarrow>
     safe writer_exhausted (writer_ready W b) (on_session m) anything (writer_ready W c)"
  by (auto simp: safe_def on_session_def onS_def split_beta)

lemma safe_set_writer [safety]:
  "(\<And>w. W w \<Longrightarrow> W (f w)) \<Longrightarrow> safe E (writer_ready W b) (set_writer f) anything (writer_ready W b)"
  unfolding set_writer_def by (rule safe_modify) auto

lemma safe_with_writer:
  "safe writer_exhausted (writer_ready W b) m anything (writer_ready W c) \<Longrightarrow> W w \<Longrightarrow>
     safe exhausted (ready b) (with_writer w m) W (ready c)"
  by (fastforce simp: safe_def with_writer_def split: prod.splits sum.splits if_splits)

text \<open>A method that marks the writer as handled and calls the session with a field of the writer.\<close>

lemma safe_method:
  assumes "\<And>w. W w \<Longrightarrow> W (f w)" and "\<And>w. W w \<Longrightarrow> safe exhausted (ready b) (g w) anything (ready b)"
  shows "safe writer_exhausted (writer_ready W b)
    (thenS (set_writer f) (bindS (getsS fst) (\<lambda>w. on_session (g w)))) anything (writer_ready W b)"
  by (rule safe_seq [OF safe_set_writer], rule assms(1), assumption)
    (rule safe_bind [OF safe_gets [where V = W]], auto intro: safe_on_session assms(2))

section \<open>Writing messages\<close>

context varint_codec
begin

lemma compile_wf: "wf_control m \<Longrightarrow> compileMessage qv m \<noteq> Inl Panic"
  using compileMessage_enc [of m] compileMessage_too_large [of m] by (cases "length (enc_body qv m) \<le> 65535") auto

lemma compile_subscribe_ok:
  assumes "wf_SubscribeOk m"
  shows "compileMessage qv (SubscribeOk m) \<noteq> Inl Panic"
proof -
  have "qv_Append qv [] messageTypeSubscribeOk = Inr ([] @ qv_enc qv messageTypeSubscribeOk)"
    using Append_fits [of messageTypeSubscribeOk "[]"] fits_Type [of "SubscribeOk m"] by simp
  then show ?thesis
    using assms by (simp add: compileMessage_def SubscribeOk_app slice_from_def)
qed

lemma safe_compiled:
  assumes "env_qv env = qv" and "compileMessage qv m \<noteq> Inl Panic"
  shows "safe E (ready b) (ses_write env m) anything (ready b)"
  using assms
  by (auto simp: safe_def ses_write_def controlStream_write_def write_control_def net_op_def ready_def effects
      split: sum.splits net_outcome.splits)

lemma safe_write:
  "env_qv env = qv \<Longrightarrow> wf_control m \<Longrightarrow> safe E (ready b) (ses_write env m) anything (ready b)"
  by (simp add: safe_compiled compile_wf)

section \<open>What the writers of responses call\<close>

lemma Close_safe [safety]:
  assumes "env_qv env = qv"
  shows "safe E (ready b) (RemoteTrack_Close env r) anything (ready b)"
  unfolding RemoteTrack_Close_def
proof (rule safe_bind [where V = "\<lambda>g. \<forall>h. g = Some h \<longrightarrow> fits (func_id h)" and R = "ready b"])
  show "safe E (ready b) (getsS (\<lambda>s. rt_unsubscribeFunc (ses_rt s r)))
      (\<lambda>g. \<forall>h. g = Some h \<longrightarrow> fits (func_id h)) (ready b)"
    by (rule safe_gets) (auto simp: ready_def rt_fits_def split: option.splits)
  show "safe E (ready b) (case f of None \<Rightarrow> returnS ()
      | Some g \<Rightarrow> (case g of CallUnsubscribe i \<Rightarrow> Session_unsubscribe env i
                             | CallFetchCancel i \<Rightarrow> fetchCancel env i)) anything (ready b)"
    if "\<forall>h. f = Some h \<longrightarrow> fits (func_id h)" for f
    using that assms
    by (auto simp: Session_unsubscribe_def fetchCancel_def intro: safe_return safe_write
        split: option.split unsubscribe_func.split)
qed

lemma answers_safe [safety]:
  assumes "env_qv env = qv" and "fits i"
  shows "safe E (ready b) (acceptFetch env i) anything (ready b)"
    and "safe E (ready b) (acceptAnnouncement env i) anything (ready b)"
    and "safe E (ready b) (acceptAnnouncementSubscription env i) anything (ready b)"
  unfolding acceptFetch_def acceptAnnouncement_def acceptAnnouncementSubscription_def
  using assms by (auto intro!: safety safe_write simp: wf_FetchOk_def wf_location_def zeroLocation_def wf_kvps_def)

lemma rejections_safe [safety]:
  assumes "env_qv env = qv" and "wf_reason code reason"
  shows "safe E (ready b) (rejectSubscription env i code reason) anything (ready b)"
    and "safe E (ready b) (rejectFetch env i code reason) anything (ready b)"
    and "fits i \<Longrightarrow> safe E (ready b) (rejectAnnouncement env i code reason) anything (ready b)"
    and "fits i \<Longrightarrow> safe E (ready b) (rejectAnnouncementSubscription env i code reason) anything (ready b)"
  unfolding rejectSubscription_def rejectFetch_def rejectAnnouncement_def rejectAnnouncementSubscription_def
  using assms
  by (auto intro!: safe_bind [OF safe_tables(1)] safe_case_option safe_fail safe_write
      safe_bind [OF safe_gets [where V = fits]]
      simp: ready_fits wf_reason_def wf_SubscribeError_def wf_FetchError_def wf_AnnounceError_def
        wf_SubscribeAnnouncesError_def)

lemma subscriptionDone_safe [safety]:
  assumes "env_qv env = qv" and "wf_reason code reason" and "fits n"
  shows "safe E (ready b) (subscriptionDone env i code n reason) anything (ready b)"
  unfolding subscriptionDone_def
  using assms
  by (auto intro!: safe_bind [OF safe_tables(1)] safe_case_option safe_fail safe_write
      safe_bind [OF safe_gets [where V = fits]]
      simp: ready_fits wf_reason_def wf_SubscribeDone_def)

lemma localTrack_close_safe [safety]:
  assumes "env_qv env = qv" and "wf_reason code reason"
  shows "safe E (ready b) (localTrack_close env r code reason) anything (ready b)"
  unfolding localTrack_close_def
  using assms
  by (auto intro!: safe_bind [OF safe_cancel_lt(2)] safe_bind [OF safe_gets [where V = "\<lambda>t. fits (lt_subgroupCount t)"]]
      safe_return subscriptionDone_safe simp: ready_fits)

lemma sendTrackStatus_safe [safety]:
  "env_qv env = qv \<Longrightarrow> fits (ts_StatusCode ts) \<Longrightarrow> safe E (ready b) (sendTrackStatus env ts) anything (ready b)"
  unfolding sendTrackStatus_def
  by (rule safe_write) (simp_all add: wf_TrackStatus_def wf_location_def zeroLocation_def wf_kvps_def)

lemma acceptSubscription_safe [safety]:
  assumes "env_qv env = qv" and "fits i" and "fits (soo_Expires opts)" and "soo_GroupOrder opts \<le> 2"
    and "\<And>l. soo_LargestLocation opts = Some l \<Longrightarrow> wf_location l" and "wf_kvps (soo_Parameters opts)"
  shows "safe E (ready b) (acceptSubscriptionWithOptions env i (Some opts)) anything (ready b)"
  unfolding acceptSubscriptionWithOptions_def option.case Let_def
  by (intro safety safe_compiled [OF assms(1)] compile_subscribe_ok)
    (use assms in \<open>auto simp: wf_SubscribeOk_def wf_location_def zeroLocation_def split: option.split\<close>)

text \<open>The methods of a local track.\<close>

lemma sendDatagram_safe [safety]:
  assumes "fits (obj_GroupID ob)" "fits (obj_ObjectID ob)"
  shows "safe E (ready b) (on_track r (localTrack_sendDatagram qv net ob)) anything (ready b)"
  unfolding localTrack_sendDatagram_def
  using assms
  by (auto intro!: safe_on_track safe_bind [OF safe_closed] safe_bind [OF safe_gets [where V = fits]]
      safe_bind [OF safe_lift [where V = anything]] safe_on_conn safe_net
      simp: AppendDatagram_enc wf_datagram_def lt_fits_def)

lemma openSubgroup_safe:
  assumes "fits g" "fits sg"
  shows "safe E (ready (Suc b)) (on_track r (openSubgroup qv net g sg p)) anything (ready b)"
proof -
  have header: "safe no_state (track_ready b)
      (on_conn (newSubgroup qv net stream a g sg p)) anything (track_ready b)" if "fits a" for stream a
    unfolding newSubgroup_def
    using assms that
    by (intro safe_on_conn safe_bind [OF safe_lift [where V = anything]] safe_seq safe_net safe_return)
      (simp_all add: SubgroupHeader_Append_enc wf_subgroup_header_def)
  have "safe no_state (track_ready (Suc b)) (openSubgroup qv net g sg p) anything (track_ready b)"
    unfolding openSubgroup_def
    by (intro safe_bind [OF safe_closed] safe_bind [OF safe_on_conn [OF safe_net(3)]]
        safe_bind [OF safe_modify [where Q = "track_ready b"]]
        safe_bind [OF safe_gets [where V = fits]] header)
      (auto dest: safe_add_lt_count, auto simp: lt_fits_def)
  then show ?thesis by (rule safe_on_track) simp
qed

lemma getFetchStream_safe [safety]:
  "safe E (ready b) (on_track r (getFetchStream qv net)) anything (ready b)"
proof -
  have header: "safe no_state (track_ready b) (on_conn (newFetchStream qv net stream i)) anything (track_ready b)"
    if "fits i" for stream i
    unfolding newFetchStream_def
    using that
    by (intro safe_on_conn safe_bind [OF safe_lift [where V = anything]] safe_seq safe_net safe_return)
      (simp_all add: FetchHeader_Append_enc)
  have "safe no_state (track_ready b) (getFetchStream qv net) anything (track_ready b)"
    unfolding getFetchStream_def
    by (rule safe_bind [OF safe_closed], rule safe_bind [OF safe_gets_any],
        intro safe_case_option safe_return safe_bind [OF safe_on_conn [OF safe_net(3)]]
          safe_bind [OF safe_gets [where V = fits]] safe_bind [OF header] safe_bind [OF safe_modify [where Q = "track_ready b"]])
      (auto simp: lt_fits_def)
  then show ?thesis by (rule safe_on_track) simp
qed

section \<open>Calls on response writers\<close>

lemma exec_arw_safe:
  assumes "env_qv env = qv" and "announcement_call_ok c"
  shows "safe writer_exhausted (writer_ready (\<lambda>w. fits (arw_requestID w)) b) (exec_arw env c) anything
    (writer_ready (\<lambda>w. fits (arw_requestID w)) b)"
  using assms
  by (cases c) (auto simp: announcementResponseWriter_Accept_def announcementResponseWriter_Reject_def
      intro!: safe_method answers_safe rejections_safe)

lemma exec_asrw_safe:
  assumes "env_qv env = qv" and "announcement_call_ok c"
  shows "safe writer_exhausted (writer_ready (\<lambda>w. fits (asrw_requestID w)) b) (exec_asrw env c) anything
    (writer_ready (\<lambda>w. fits (asrw_requestID w)) b)"
  using assms
  by (cases c) (auto simp: announcementSubscriptionResponseWriter_Accept_def
      announcementSubscriptionResponseWriter_Reject_def intro!: safe_method answers_safe rejections_safe)

lemma exec_frw_safe:
  assumes "env_qv env = qv" and "fetch_call_ok c"
  shows "safe writer_exhausted (writer_ready (\<lambda>w. fits (frw_id w)) b) (exec_frw env c) anything
    (writer_ready (\<lambda>w. fits (frw_id w)) b)"
  using assms(2)
  by (cases c) (auto simp: fetchResponseWriter_Accept_def fetchResponseWriter_Reject_def
      fetchResponseWriter_FetchStream_def assms(1)
      intro!: safe_method answers_safe rejections_safe safe_ignore safe_bind [OF safe_gets_any]
        safe_on_session getFetchStream_safe)

lemma exec_tsrw_safe:
  assumes "env_qv env = qv" and "status_call_ok c"
  shows "safe writer_exhausted (writer_ready (\<lambda>w. fits (ts_StatusCode (tsrw_status w))) b) (exec_tsrw env c)
    anything (writer_ready (\<lambda>w. fits (ts_StatusCode (tsrw_status w))) b)"
  using assms
  by (cases c) (auto simp: trackStatusResponseWriter_Accept_def trackStatusResponseWriter_Reject_def
      trackStatusResponseWriter_SetStatus_def TrackStatusDoesNotExist_def
      intro!: safe_seq safe_set_writer safe_method sendTrackStatus_safe)

lemma exec_srw_safe:
  assumes "env_qv env = qv" and "subscribe_call_ok c"
  shows "safe writer_exhausted (writer_ready (\<lambda>w. fits (srw_id w)) (Suc b)) (exec_srw env c) anything
    (writer_ready (\<lambda>w. fits (srw_id w)) b)"
proof -
  have weaker: "safe writer_exhausted (writer_ready W (Suc b)) m anything (writer_ready W (Suc b)) \<Longrightarrow>
      safe writer_exhausted (writer_ready W (Suc b)) m anything (writer_ready W b)" for W :: "SubscribeResponseWriter \<Rightarrow> bool" and m :: "(SubscribeResponseWriter \<times> Session, unit) st"
    by (erule safe_weaken) (auto intro: ready_mono)
  show ?thesis
  proof (cases c)
    case (SubscribeAccept options)
    have "safe writer_exhausted (writer_ready (\<lambda>w. fits (srw_id w)) (Suc b))
        (SubscribeResponseWriter_Accept env options) anything (writer_ready (\<lambda>w. fits (srw_id w)) (Suc b))"
      unfolding SubscribeResponseWriter_Accept_def Let_def
      using assms(2) by (intro safe_method acceptSubscription_safe assms(1))
        (auto simp: SubscribeAccept ok_options_fit_def)
    then show ?thesis unfolding SubscribeAccept exec_srw.simps by (rule weaker)
  next
    case (SubscribeReject code reason)
    have "safe writer_exhausted (writer_ready (\<lambda>w. fits (srw_id w)) (Suc b))
        (SubscribeResponseWriter_Reject env code reason) anything (writer_ready (\<lambda>w. fits (srw_id w)) (Suc b))"
      unfolding SubscribeResponseWriter_Reject_def
      using assms(2) by (intro safe_method rejections_safe assms(1)) (auto simp: SubscribeReject)
    then show ?thesis unfolding SubscribeReject exec_srw.simps by (rule weaker)
  next
    case (PublishDatagram ob)
    have "safe writer_exhausted (writer_ready (\<lambda>w. fits (srw_id w)) (Suc b))
        (SubscribeResponseWriter_SendDatagram env ob) anything (writer_ready (\<lambda>w. fits (srw_id w)) (Suc b))"
      unfolding SubscribeResponseWriter_SendDatagram_def assms(1)
      using assms(2) by (intro safe_bind [OF safe_gets_any] safe_on_session sendDatagram_safe) (auto simp: PublishDatagram)
    then show ?thesis unfolding PublishDatagram exec_srw.simps by (rule weaker)
  next
    case (PublishSubgroup g sg p)
    have "safe writer_exhausted (writer_ready (\<lambda>w. fits (srw_id w)) (Suc b))
        (SubscribeResponseWriter_OpenSubgroup env g sg p) anything (writer_ready (\<lambda>w. fits (srw_id w)) b)"
      unfolding SubscribeResponseWriter_OpenSubgroup_def assms(1)
      using assms(2) by (intro safe_bind [OF safe_gets_any] safe_on_session openSubgroup_safe)
        (auto simp: PublishSubgroup intro: ready_mono)
    then show ?thesis
      by (simp add: PublishSubgroup ignore_def safe_bind [OF _ safe_return])
  next
    case (PublishClose code reason)
    have "safe writer_exhausted (writer_ready (\<lambda>w. fits (srw_id w)) (Suc b))
        (SubscribeResponseWriter_CloseWithError env code reason) anything (writer_ready (\<lambda>w. fits (srw_id w)) (Suc b))"
      unfolding SubscribeResponseWriter_CloseWithError_def
      using assms(2) by (intro safe_bind [OF safe_gets_any] safe_on_session localTrack_close_safe assms(1)) (auto simp: PublishClose)
    then show ?thesis unfolding PublishClose exec_srw.simps by (rule weaker)
  qed
qed

section \<open>The handlers\<close>

lemma compile_max: "\<not> fits k \<Longrightarrow> compileMessage qv (MaxRequestID \<lparr>mrm_RequestID = k\<rparr>) = Inl Panic"
  using Append_fits [of messageTypeMaxRequestID "[]"] fits_Type [of "MaxRequestID undefined"]
  by (simp add: compileMessage_def MaxRequestIDMessage_Append_def Append_big)

lemma doubling_safe:
  assumes "env_qv env = qv"
  shows "safe exhausted (ready b)
    (thenS (modifyS (\<lambda>s. s\<lparr>ses_localMaxRequestID := k\<rparr>))
      (bindS (tryS (ses_write env (MaxRequestID \<lparr>mrm_RequestID = k\<rparr>))) (\<lambda>_. returnS ()))) anything (ready b)"
proof (cases "fits k")
  case True
  then have "ready b s \<Longrightarrow> ready b (s\<lparr>ses_localMaxRequestID := k\<rparr>)" for s
    by (simp add: ready_def)
  with True show ?thesis
    by (intro safe_seq safe_modify safe_try safe_write assms safe_return) simp_all
next
  case False
  then show ?thesis
    by (simp add: safe_def ses_write_def controlStream_write_def compile_max assms exhausted_def effects)
qed

lemma addLocalTrack_safe:
  assumes "env_qv env = qv"
  shows "safe exhausted (ready b) (addLocalTrack env lt) anything (ready b)"
  unfolding addLocalTrack_def Let_def case_prod_unfold
  by (intro safety doubling_safe assms) simp_all

lemma Handle_safe:
  assumes "well_behaved n env" and "W w"
    and "\<And>c b. method_call_ok (msg_Method m) c \<Longrightarrow>
      safe writer_exhausted (writer_ready W b) (exec c) anything (writer_ready W b)"
  shows "safe exhausted (ready (n + b)) (Handle env exec w m) W (ready b)"
proof -
  obtain h where h: "env_Handler env = Some h" "within (method_call_ok (msg_Method m)) n (h m)"
    using assms(1) by (auto simp: well_behaved_def split: option.splits)
  have "safe writer_exhausted (writer_ready W (Suc b)) (exec c) anything (writer_ready W b)"
    if "method_call_ok (msg_Method m) c" for c b
    using assms(3) [OF that] by (rule safe_weaken) (auto intro: ready_mono)
  then have "safe writer_exhausted (writer_ready W (n + b)) (run_script exec (h m)) anything (writer_ready W b)"
    by (rule run_script_safe [OF _ _ h(2)]) (auto intro: ready_mono)
  then have "safe exhausted (ready (n + b)) (with_writer w (run_script exec (h m))) W (ready b)"
    by (rule safe_with_writer) (rule assms(2))
  then show ?thesis
    unfolding Handle_def h(1) option.case
    by (rule safe_bind [OF safe_fields(1)]) (auto intro: ready_mono)
qed

lemma Handle_nil_safe:
  assumes "well_behaved n env" and "\<And>c. \<not> method_call_ok (msg_Method m) c"
  shows "safe E (ready b) (Handle_nil env m) anything (ready b)"
proof -
  obtain h where h: "env_Handler env = Some h" "within (method_call_ok (msg_Method m)) n (h m)"
    using assms(1) by (auto simp: well_behaved_def split: option.splits)
  then have "h m = Done" using assms(2) by (cases n) (auto split: script.splits)
  then show ?thesis by (simp add: Handle_nil_def h(1) safety)
qed

text \<open>While the handshake runs.\<close>

abbreviation unfinished :: "Session \<Rightarrow> bool" where
  "unfinished \<equiv> \<lambda>s. \<not> ses_handshakeDone s"

lemma unfinished_kept:
  "keeps unfinished (ses_write env m)" "keeps unfinished (upd_requestIDs f)"
  "keeps unfinished (modifyS (\<lambda>s. s\<lparr>ses_version := v\<rparr>))" "keeps unfinished (modifyS (\<lambda>s. s\<lparr>ses_path := p\<rparr>))"
  by (auto simp: keeps_def ses_write_def upd_requestIDs_def effects split_beta)

lemmas setup_steps = safe_frame [OF safe_fields(2) unfinished_kept(3)]
  safe_frame [OF safe_fields(3) unfinished_kept(4)] safe_frame [OF safe_tables(3) unfinished_kept(2)]

lemma onClientSetup_safe:
  assumes "env_qv env = qv"
  shows "safe E (\<lambda>s. ready b s \<and> unfinished s) (onClientSetup env m) anything (ready b)"
proof -
  have version: "fits v" if "select_version (rev SupportedVersions) vs = Some v" for v vs
    using that by (auto simp: SupportedVersions_def CurrentVersion_def Draft_ietf_moq_transport_11_def fits_def maxVarInt_def split: if_splits)
  have sent: "safe E (\<lambda>s. ready b s \<and> unfinished s) (ses_write env (ServerSetup
      \<lparr>ssm_SelectedVersion = v, ssm_SetupParameters = [zeroKVP\<lparr>kvp_Type := MaxRequestIDParameterKey,
         kvp_ValueVarInt := 100\<rparr>]\<rparr>)) anything (\<lambda>s. ready b s \<and> unfinished s)" if "fits v" for v
    using that
    by (intro safe_frame unfinished_kept safe_write assms)
      (simp add: wf_ServerSetup_def wf_kvps_def wf_kvp_def zeroKVP_def MaxRequestIDParameterKey_def fits_def maxVarInt_def)
  have limit: "safe E (\<lambda>s. ready b s \<and> unfinished s)
      (if c then bindS (upd_requestIDs f) throwS else returnS ()) anything (\<lambda>s. ready b s \<and> unfinished s)" for c f
    by (intro safe_if safe_seq setup_steps(3) safe_throw safe_return) simp
  show ?thesis
    unfolding onClientSetup_def Let_def
    by (intro safe_bind [OF safe_gets_any] safe_if safe_case_option safe_fail_weak
        safe_bind [OF setup_steps(1)] safe_bind [OF safe_lift [where V = anything]] safe_bind [OF setup_steps(2)]
        safe_bind [OF limit] safe_bind [OF sent [OF version]] finish_handshake_safe)
      (auto simp: validatePathParameter_def split: option.splits if_splits)
qed

lemma onServerSetup_safe:
  "safe E (\<lambda>s. ready b s \<and> unfinished s) (onServerSetup m) anything (ready b)"
  unfolding onServerSetup_def
  by (intro safe_bind [OF safe_gets_any] safe_if safe_fail_weak safe_bind [OF setup_steps(1)]
      safe_bind [OF setup_steps(3)] safe_bind [OF safe_throw] finish_handshake_safe) auto

lemma receive_setup_safe:
  assumes "env_qv env = qv"
  shows "safe E (\<lambda>s. ready b s \<and> unfinished s) (receive_setup env m) anything (ready b)"
  by (cases m) (auto intro: onClientSetup_safe [OF assms] onServerSetup_safe safe_fail_weak)

text \<open>Handlers that take nothing from the budget.\<close>

lemma plain_handlers_safe:
  assumes "env_qv env = qv" and "well_behaved n env"
  shows "safe E (ready b) (onGoAway env m1) anything (ready b)"
    and "safe E (ready b) (onMaxRequestID m2) anything (ready b)"
    and "safe E (ready b) (onRequestsBlocked m3) anything (ready b)"
    and "safe E (ready b) (onSubscribeOk env m4) anything (ready b)"
    and "safe E (ready b) (onSubscribeError m5) anything (ready b)"
    and "safe E (ready b) (onSubscribeUpdate env m6) anything (ready b)"
    and "safe E (ready b) (onUnsubscribe m7) anything (ready b)"
    and "safe E (ready b) (onSubscribeDone m8) anything (ready b)"
    and "safe E (ready b) (onFetchOk env m9) anything (ready b)"
    and "safe E (ready b) (onFetchError m10) anything (ready b)"
    and "safe E (ready b) (onFetchCancel m11) anything (ready b)"
    and "safe E (ready b) (onTrackStatus m12) anything (ready b)"
    and "safe E (ready b) (onAnnounceOk m13) anything (ready b)"
    and "safe E (ready b) (onAnnounceError m14) anything (ready b)"
    and "safe E (ready b) (onUnannounce env m15) anything (ready b)"
    and "safe E (ready b) (onAnnounceCancel env m16) anything (ready b)"
    and "safe E (ready b) (onSubscribeAnnouncesOk m17) anything (ready b)"
    and "safe E (ready b) (onSubscribeAnnouncesError m18) anything (ready b)"
    and "safe E (ready b) (onUnsubscribeAnnounces env m19) anything (ready b)"
  unfolding onGoAway_def onMaxRequestID_def onRequestsBlocked_def onSubscribeOk_def onSubscribeError_def
    onSubscribeUpdate_def onUnsubscribe_def onSubscribeDone_def onFetchOk_def onFetchError_def
    onFetchCancel_def onTrackStatus_def onAnnounceOk_def onAnnounceError_def onUnannounce_def
    onAnnounceCancel_def onSubscribeAnnouncesOk_def onSubscribeAnnouncesError_def
    onUnsubscribeAnnounces_def send_subscription_def remoteTrackByRequestID_def Let_def
  by (intro safety safe_modify_rt assms(1) Handle_nil_safe [OF assms(2)];
      simp add: RemoteTrack_done_def newMessage_def method_call_ok_def)+

text \<open>The end of a handler whose application did not answer.\<close>

lemma unanswered_safe:
  assumes "safe writer_exhausted (writer_ready W b) m anything (writer_ready W b)" and "W w"
  shows "safe exhausted (ready b) (if c then ignore (with_writer w m) else returnS ()) anything (ready b)"
proof -
  have "safe exhausted (ready b) (with_writer w m) anything (ready b)"
    by (rule safe_weaken [OF safe_with_writer [where W = W, OF assms]]) simp_all
  then show ?thesis by (simp add: safe_ignore safe_return)
qed

lemma Handle_then_safe:
  assumes "well_behaved n env" and "W w"
    and "\<And>c b. method_call_ok (msg_Method m) c \<Longrightarrow>
      safe writer_exhausted (writer_ready W b) (exec c) anything (writer_ready W b)"
    and "method_call_ok (msg_Method m) r"
  shows "safe exhausted (ready (n + b))
    (bindS (Handle env exec w m) (\<lambda>w. if answered w then ignore (with_writer w (exec r)) else returnS ()))
    anything (ready b)"
  by (rule safe_bind [OF Handle_safe [where W = W, OF assms(1-3)]], assumption)
    (rule unanswered_safe [where W = W, OF assms(3) [OF assms(4)]])

lemma onAnnounce_safe:
  assumes "env_qv env = qv" and "well_behaved n env" and "fits (am_RequestID m)"
  shows "safe exhausted (ready (n + b)) (onAnnounce env m) anything (ready b)"
proof -
  have handle: "safe exhausted (ready (n + b)) (bindS (Handle env (exec_arw env) w k) (\<lambda>arw.
      if \<not> arw_handled arw then ignore (with_writer arw (exec_arw env (Reject 0 (ascii ''unhandlded announcement''))))
      else returnS ())) anything (ready b)"
    if "msg_Method k = MessageAnnounce" "arw_requestID w = am_RequestID m" for w k
    by (rule Handle_then_safe [where W = "\<lambda>w. fits (arw_requestID w)"])
      (auto intro!: exec_arw_safe [OF assms(1)] wf_reason_small simp: that assms method_call_ok_def simp del: exec_arw.simps)
  show ?thesis
    unfolding onAnnounce_def Let_def
    by (intro safe_if safe_fail_weak safe_bind [OF safe_channels(1)] safe_bind [OF safe_tables(5)]
        handle [unfolded exec_arw.simps]) (auto simp: newMessage_def intro: ready_mono)
qed

lemma onSubscribeAnnounces_safe:
  assumes "env_qv env = qv" and "well_behaved n env" and "fits (sam_RequestID m)"
  shows "safe exhausted (ready (n + b)) (onSubscribeAnnounces env m) anything (ready b)"
proof -
  have handle: "safe exhausted (ready (n + b)) (bindS (Handle env (exec_asrw env) w k) (\<lambda>asrw.
      if \<not> asrw_handled asrw
      then ignore (with_writer asrw (exec_asrw env (Reject 0 (ascii ''unhandled announcement subscription''))))
      else returnS ())) anything (ready b)"
    if "msg_Method k = MessageSubscribeAnnounces" "asrw_requestID w = sam_RequestID m" for w k
    by (rule Handle_then_safe [where W = "\<lambda>w. fits (asrw_requestID w)"])
      (auto intro!: exec_asrw_safe [OF assms(1)] wf_reason_small simp: that assms method_call_ok_def simp del: exec_asrw.simps)
  show ?thesis
    unfolding onSubscribeAnnounces_def
    by (intro safe_bind [OF safe_fields(4)] handle [unfolded exec_asrw.simps])
      (auto simp: newMessage_def intro: ready_mono)
qed

lemma onTrackStatusRequest_safe:
  assumes "env_qv env = qv" and "well_behaved n env"
  shows "safe exhausted (ready (n + b)) (onTrackStatusRequest env m) anything (ready b)"
proof -
  have handle: "safe exhausted (ready (n + b)) (bindS (Handle env (exec_tsrw env) w k) (\<lambda>tsrw.
      if \<not> tsrw_handled tsrw then ignore (with_writer tsrw (exec_tsrw env (Reject 0 []))) else returnS ()))
      anything (ready b)"
    if "msg_Method k = MessageTrackStatusRequest" "ts_StatusCode (tsrw_status w) = 0" for w k
    by (rule Handle_then_safe [where W = "\<lambda>w. fits (ts_StatusCode (tsrw_status w))"])
      (auto intro!: exec_tsrw_safe [OF assms(1)] wf_reason_small simp: that assms method_call_ok_def simp del: exec_tsrw.simps)
  show ?thesis
    unfolding onTrackStatusRequest_def
    by (intro safe_if safe_fail_weak handle [unfolded exec_tsrw.simps]) (auto simp: newMessage_def intro: ready_mono)
qed

text \<open>A subscription and a fetch take a track alias from the budget.\<close>

lemma next_alias_safe:
  "safe E (ready (Suc b)) (updS ses_trackAliases (\<lambda>x s. s\<lparr>ses_trackAliases := x\<rparr>) sequence_next)
     (\<lambda>a. fits a \<and> b \<le> maxVarInt) (ready b)"
  by (rule safe_upd)
    (auto simp: ready_def lt_fits_def fits_def unat_plus_if' maxVarInt_def dest: spec intro: Suc_leD)

lemma onFetch_safe:
  assumes "env_qv env = qv" and "well_behaved n env" and "fits (fm_RequestID m)"
  shows "safe exhausted (ready (Suc (n + b))) (onFetch env m) anything (ready b)"
proof -
  have handle: "safe exhausted (ready (n + b)) (bindS (Handle env (exec_frw env) w k) (\<lambda>frw.
      if \<not> frw_handled frw then ignore (with_writer frw (exec_frw env (Reject 0 (ascii ''unhandled fetch''))))
      else returnS ())) anything (ready b)"
    if "msg_Method k = MessageFetch" "frw_id w = fm_RequestID m" for w k
    by (rule Handle_then_safe [where W = "\<lambda>w. fits (frw_id w)"])
      (auto intro!: exec_frw_safe [OF assms(1)] wf_reason_small simp: that assms method_call_ok_def simp del: exec_frw.simps)
  show ?thesis
    unfolding onFetch_def Let_def
    by (intro safe_if safe_fail_weak safe_bind [OF next_alias_safe] safe_bind [OF safe_alloc_lt]
        safe_bind [OF safe_try [OF addLocalTrack_safe [OF assms(1)]]] safe_case_option
        safe_bind [OF rejections_safe(2) [OF assms(1)]] handle [unfolded exec_frw.simps])
      (use assms(3) in \<open>auto simp: newMessage_def wf_reason_small ErrorCodeSubscribeInternal_def intro: ready_mono\<close>)
qed

lemma onSubscribe_safe:
  assumes "env_qv env = qv" and "well_behaved n env" and "fits (sm_RequestID m)"
  shows "safe exhausted (ready (Suc (n + b))) (onSubscribe env m) anything (ready b)"
proof -
  let ?W = "\<lambda>w. fits (srw_id w)"
  have script: "safe exhausted (ready (n + b)) (case env_SubscribeHandler env of
        None \<Rightarrow> returnS w
      | Some h \<Rightarrow> thenS (log_app ev) (with_writer w (run_script (exec_srw env) (h k)))) ?W (ready b)"
    if "?W w" for w ev k
  proof (cases "env_SubscribeHandler env")
    case None
    then show ?thesis
      by (simp, intro safe_weaken [OF safe_return [where V = ?W, OF that]]) (auto intro: ready_mono)
  next
    case (Some h)
    then have "within subscribe_call_ok n (h k)"
      using assms(2) by (simp add: well_behaved_def split: option.splits)
    then have "safe writer_exhausted (writer_ready ?W (n + b)) (run_script (exec_srw env) (h k)) anything
        (writer_ready ?W b)"
      by (rule run_script_safe [where P = "writer_ready ?W", rotated -1])
        (auto intro: exec_srw_safe [OF assms(1)] ready_mono)
    then have "safe exhausted (ready (n + b)) (with_writer w (run_script (exec_srw env) (h k))) ?W (ready b)"
      by (rule safe_with_writer) (rule that)
    then show ?thesis
      unfolding Some option.case by (rule safe_bind [OF safe_fields(1)]) (auto intro: ready_mono)
  qed
  have reject: "safe writer_exhausted (writer_ready ?W b)
      (SubscribeResponseWriter_Reject env 0 (ascii ''unhandled subscription'')) anything (writer_ready ?W b)"
    unfolding SubscribeResponseWriter_Reject_def
    by (intro safe_method rejections_safe(1) assms(1)) (auto simp: wf_reason_small)
  have error: "safe exhausted (ready (n + b)) (ses_write env (SubscribeError
      \<lparr>sem_RequestID = sm_RequestID m, sem_ErrorCode = (if c then ErrorCodeTooManyRequests else ErrorCodeInternal),
       sem_ReasonPhrase = (if c then ascii ''too many subscribes'' else ascii ''internal'')\<rparr>)) anything (ready b)" for c
    by (rule safe_weaken [OF safe_write [OF assms(1)]])
      (use assms(3) in \<open>auto simp: wf_SubscribeError_def ErrorCodeTooManyRequests_def ErrorCodeInternal_def
        fits_def maxVarInt_def ascii_def intro: ready_mono\<close>)
  show ?thesis
    unfolding onSubscribe_def Let_def
    by (intro safe_if safe_fail_weak safe_bind [OF safe_lift [where V = anything]] safe_bind [OF next_alias_safe]
        safe_bind [OF safe_alloc_lt] safe_bind [OF safe_try [OF addLocalTrack_safe [OF assms(1)]]] safe_case_option
        safe_bind [OF script] unanswered_safe [where W = ?W, OF reject] error)
      (auto simp: validateAuthParameter_def assms(3) intro: ready_mono split: option.splits)
qed

text \<open>The messages that the parser delivers carry request IDs that fit.\<close>

lemma receive_message_safe:
  assumes "env_qv env = qv" and "well_behaved n env" and "ControlMessageParser_Parse qv input = Inr (m, rest)"
  shows "safe exhausted (ready (Suc (n + b))) (receive_message env m) anything (ready b)"
proof -
  have wf: "wf_control m \<or> (\<exists>k. m = SubscribeOk k) \<or> (\<exists>k. m = AnnounceCancel k)"
    using Parse_by_type [OF assms(3)] parsed_by_type by blast
  have budget: "safe exhausted (ready (Suc (n + b))) c anything (ready (Suc (n + b))) \<Longrightarrow>
      safe exhausted (ready (Suc (n + b))) c anything (ready b)" for c :: "(Session, unit) st"
    by (erule safe_weaken) (auto intro: ready_mono)
  have small: "safe exhausted (ready (n + b)) c anything (ready b) \<Longrightarrow>
      safe exhausted (ready (Suc (n + b))) c anything (ready b)" for c :: "(Session, unit) st"
    by (erule safe_weaken) (auto intro: ready_mono)
  note plain = plain_handlers_safe [OF assms(1,2), THEN budget]
  show ?thesis
    using wf
    by (cases m) (simp_all add: plain safe_fail [THEN budget] onSubscribe_safe [OF assms(1,2)]
        onFetch_safe [OF assms(1,2)] onAnnounce_safe [OF assms(1,2), THEN small]
        onSubscribeAnnounces_safe [OF assms(1,2), THEN small] onTrackStatusRequest_safe [OF assms(1,2), THEN small]
        wf_Subscribe_def wf_Fetch_def wf_Announce_def wf_SubscribeAnnounces_def)
qed

lemma receive_safe:
  assumes "env_qv env = qv" and "well_behaved n env" and "ControlMessageParser_Parse qv input = Inr (m, rest)"
  shows "safe exhausted (ready (Suc (n + b))) (receive env m) anything (ready b)"
proof -
  have "safe exhausted (\<lambda>s. ready (Suc (n + b)) s \<and> ses_handshakeDone s = x)
      (if \<not> x then receive_setup env m else receive_message env m) anything (ready b)" for x
  proof (cases x)
    case True
    have "safe exhausted (\<lambda>s. ready (Suc (n + b)) s \<and> ses_handshakeDone s = x) (receive_message env m)
        anything (ready b)"
      by (rule safe_weaken [OF receive_message_safe [OF assms]]) auto
    with True show ?thesis by simp
  next
    case False
    have "safe exhausted (\<lambda>s. ready (Suc (n + b)) s \<and> ses_handshakeDone s = x) (receive_setup env m)
        anything (ready b)"
      by (rule safe_weaken [OF receive_setup_safe [OF assms(1), of _ b]]) (auto simp: False intro: ready_mono)
    with False show ?thesis by simp
  qed
  then show ?thesis unfolding receive_def by (rule safe_get_cases)
qed

lemma receive_all_safe:
  assumes "env_qv env = qv" and "well_behaved n env"
    and "\<forall>m \<in> set msgs. \<exists>input rest. ControlMessageParser_Parse qv input = Inr (m, rest)"
  shows "safe exhausted (ready (length msgs * Suc n + b)) (receive_all env msgs) anything (ready b)"
  using assms(3)
proof (induction msgs)
  case Nil
  then show ?case by (simp add: safe_return)
next
  case (Cons m msgs)
  then obtain input rest where "ControlMessageParser_Parse qv input = Inr (m, rest)" by auto
  from receive_safe [OF assms(1,2) this, of "length msgs * Suc n + b"] Cons
  show ?case
    by (auto simp: ac_simps intro!: safe_bind [where R = "ready (length msgs * Suc n + b)"] intro: ready_mono)
qed

end

lemma ready_Run:
  assumes "fits i" and "b \<le> maxVarInt"
  shows "ready b (snd (Session_Run env i conn))"
proof -
  have conn: "ready b (snd (ses_write env m (newSession i conn)))" for m
    using ready_new [OF assms, of conn] by (simp add: ses_write_def onS_def split_beta ready_def)
  show ?thesis
    using conn ready_new [OF assms, of conn]
    by (simp add: Session_Run_def sendClientSetup_def bindS_def getsS_def Let_def)
qed

text \<open>
  From the start of a session, whatever the peer sends: the session panics exactly when it has
  doubled its maximum request ID beyond the varints.
\<close>

lemma session_panics:
  assumes "varint_codec (env_qv env)" and "well_behaved n env" and "fits i" and "length msgs * Suc n \<le> maxVarInt"
    and "\<forall>m \<in> set msgs. \<exists>input rest. ControlMessageParser_Parse (env_qv env) input = Inr (m, rest)"
    and "Session_Run env i conn = (Inr (), s)" and "receive_all env msgs s = (res, s')"
  shows "res = Inl Panic \<longleftrightarrow> \<not> fits (ses_localMaxRequestID s')"
proof -
  have "ready (length msgs * Suc n + 0) s"
    using ready_Run [OF assms(3), of "length msgs * Suc n + 0" env conn] assms(4,6) by simp
  note ends = safe_result [OF varint_codec.receive_all_safe [OF assms(1) refl assms(2,5)] this]
  show ?thesis
    using ends assms(7) ready_not_exhausted [of 0 s'] by (auto simp: exhausted_def)
qed

end
