(* ===== verification/Session_Life.thy ===== *)
theory Session_Life
  imports Session_Steps "HOL-Library.Sublist"
begin

text \<open>
  The life of a session: \<^verbatim>\<open>Run\<close> starts three goroutines in an \<^verbatim>\<open>errgroup\<close>, which read the control
  stream, unidirectional streams and datagrams until one of their loops returns an error; \<^verbatim>\<open>Close\<close>
  cancels the context, closes the connection and waits for them. The group comes from a third-party
  package and is a parameter with its documented laws. The lemmas say which error \<^verbatim>\<open>Run\<close> and
  \<^verbatim>\<open>Close\<close> return, and what becomes of calls that wait for an answer when the reader of the control
  stream has ended.
\<close>

section \<open>What only the reader of the control stream does\<close>

text \<open>
  \<open>drained s s'\<close>: the response channels that exist in \<open>s\<close> have received nothing on the way to \<open>s'\<close>,
  and the handshake has not moved.
\<close>

definition drained :: "Session \<Rightarrow> Session \<Rightarrow> bool" where
  "drained s s' \<longleftrightarrow>
     ses_next s \<le> ses_next s' \<and>
     ses_handshakeDone s' = ses_handshakeDone s \<and>
     (\<forall>r < ses_next s. suffix (rt_responseChan (ses_rt s' r)) (rt_responseChan (ses_rt s r)) \<and>
        suffix (ses_errCh s' r) (ses_errCh s r) \<and> suffix (ses_statusCh s' r) (ses_statusCh s r))"

lemma drained_refl: "drained s s"
  by (simp add: drained_def)

lemma drained_trans: "drained s t \<Longrightarrow> drained t u \<Longrightarrow> drained s u"
  unfolding drained_def by (meson le_trans less_le_trans suffix_order.order_trans)

lemma drained_allocs [keeping]:
  "keeps (drained s0) (alloc_rt t)" "keeps (drained s0) alloc_errCh" "keeps (drained s0) alloc_statusCh"
  by (auto simp: keeps_def drained_def alloc_rt_def alloc_errCh_def alloc_statusCh_def)

lemma drained_write [keeping]: "keeps (drained s0) (ses_write env m)"
  by (simp add: keeps_def ses_write_def onS_def split_beta drained_def)

lemma drained_tables [keeping]:
  "keeps (drained s0) (upd_localTracks f)" "keeps (drained s0) (upd_remoteTracks g)"
  "keeps (drained s0) (upd_requestIDs h)"
  by (simp_all add: keeps_def upd_localTracks_def upd_remoteTracks_def upd_requestIDs_def updS_def split_beta
      drained_def)

lemma drained_local [keeping]:
  "keeps (drained s0) (on_track r m)" "keeps (drained s0) (modify_lt r f)"
  by (simp_all add: keeps_def on_track_def modify_lt_def onS_def modifyS_def split_beta drained_def)

lemma drained_requestID [keeping]: "keeps (drained s0) (newRequestID env)"
  unfolding newRequestID_def getRequestID_def by (intro keeping)

interpretation ses_drain: session_property "drained s0" for s0
  by unfold_locales ((intro keeping) | simp add: drained_def)+

lemma drained_requests [keeping]:
  "keeps (drained s0) (Subscribe_send env ns name opts)" "keeps (drained s0) (Fetch_send env ns name)"
  unfolding Subscribe_send_def Fetch_send_def by (intro keeping)+

lemma drained_rt:
  "drained s0 s \<Longrightarrow> suffix (rt_responseChan t) (rt_responseChan (ses_rt s r)) \<Longrightarrow>
     drained s0 (s\<lparr>ses_rt := (ses_rt s)(r := t)\<rparr>)"
  by (auto simp: drained_def intro: suffix_order.order_trans)

lemma drained_same_track:
  "drained s0 s \<Longrightarrow> same_track (ses_rt s r) t \<Longrightarrow> drained s0 (s\<lparr>ses_rt := (ses_rt s)(r := t)\<rparr>)"
  by (simp add: drained_rt same_track_def)

lemma drained_stream: "readStreams_stream env input s = Some (res, s') \<Longrightarrow> drained s s'"
  by (auto simp: readStreams_stream_def handleUniStream_def Session_readFetchStream_def
      Session_readSubgroupStream_def on_rt_def
      split: sum.splits failure.splits option.splits if_splits
      intro!: drained_refl drained_same_track dest: stream_reads_same_track)

lemma drained_datagram:
  assumes "readDatagrams_datagram env d s = Some (res, s')"
  shows "drained s s'"
proof -
  have "keeps (drained s) (receiveDatagram m)" for m
    unfolding receiveDatagram_def remoteTrackByTrackAlias_def modify_rt_def
    by (intro keeping keeps_modify drained_same_track push_same_track)
  then have "drained s (snd (receiveDatagram m s))" for m
    by (rule keepsD) (rule drained_refl)
  then show ?thesis
    using assms
    by (auto simp: readDatagrams_datagram_def drained_refl split: option.splits sum.splits) (metis snd_conv)
qed

lemma drained_wait: "wait_rt_response w r s = Some (e, s') \<Longrightarrow> drained s s'"
  by (auto simp: wait_rt_response_def drained_refl suffix_def intro!: drained_rt
      split: wait_case.splits list.splits)

lemma drained_calls: "(\<And>s0. keeps (drained s0) m) \<Longrightarrow> drained s (snd (m s))"
  by (rule keepsD) (assumption, rule drained_refl)

lemma drained_track_waits:
  assumes "Subscribe_wait w r s = Some (res, s') \<or> Fetch_wait env w r s = Some (res, s')"
  shows "drained s s'"
proof -
  from assms obtain err t m where w: "wait_rt_response w r s = Some (err, t)"
    and m: "m t = (res, s')" "\<And>s0. keeps (drained s0) m"
  proof
    assume "Subscribe_wait w r s = Some (res, s')"
    then obtain err t where "wait_rt_response w r s = Some (err, t)"
      "(case err of None \<Rightarrow> returnS r | Some e \<Rightarrow>
         bindS (upd_remoteTracks (\<lambda>m. remoteTrackMap_reject m (rt_requestID (ses_rt t r)))) (\<lambda>_. failS e)) t
       = (res, s')"
      by (auto simp: Subscribe_wait_def split: option.splits)
    then show thesis by (rule that) (intro keeping)
  next
    assume "Fetch_wait env w r s = Some (res, s')"
    then obtain err t where "wait_rt_response w r s = Some (err, t)"
      "(case err of None \<Rightarrow> returnS r | Some e \<Rightarrow>
         bindS (upd_remoteTracks (\<lambda>m. remoteTrackMap_reject m (rt_requestID (ses_rt t r)))) (\<lambda>_.
         bindS (tryS (RemoteTrack_Close env r)) (\<lambda>closeErr.
           case closeErr of None \<Rightarrow> failS e | Some e' \<Rightarrow> failS (JoinError e e')))) t = (res, s')"
      by (auto simp: Fetch_wait_def split: option.splits)
    then show thesis by (rule that) (intro keeping)
  qed
  have "drained t s'" using drained_calls [of m t, OF m(2)] m(1) by simp
  with drained_wait [OF w] show ?thesis by (rule drained_trans)
qed

lemma drained_waits:
  "Announce_wait w r s = Some (res1, s') \<Longrightarrow> drained s s'"
  "SubscribeAnnouncements_wait w r s = Some (res2, s') \<Longrightarrow> drained s s'"
  "RequestTrackStatus_wait w r s = Some (res3, s') \<Longrightarrow> drained s s'"
  by (auto simp: Announce_wait_def SubscribeAnnouncements_wait_def RequestTrackStatus_wait_def wait_errCh_def
      drained_def suffix_def throwS_def effects split: wait_case.splits list.splits option.splits)

lemma other_step_drains: "other_step env s s' \<Longrightarrow> drained s s'"
proof (induction rule: other_step.induct)
  case (step_ReadObject c s rt x t)
  then show ?case
    using drained_same_track [OF drained_refl] ReadObject_same_track by blast
qed ((rule drained_stream drained_datagram drained_waits drained_track_waits [OF disjI1]
      drained_track_waits [OF disjI2], assumption) | (rule drained_calls, intro keeping))+

section \<open>The group of goroutines\<close>

text \<open>
  \<^verbatim>\<open>errgroup.Group\<close> with \<^verbatim>\<open>WithContext\<close>: a new group, one of its functions has returned, the parent
  context was cancelled, the cause of the group's context, and the result of \<^verbatim>\<open>Wait\<close> when all functions
  have returned.
\<close>

record 'g errgroup =
  eg_new :: 'g
  eg_return :: "go_error option \<Rightarrow> 'g \<Rightarrow> 'g"
  eg_cancel :: "'g \<Rightarrow> 'g"
  eg_cause :: "'g \<Rightarrow> go_error option"
  eg_wait :: "'g \<Rightarrow> go_error option"

text \<open>
  The documentation: the first non-nil error cancels the context with that error and is the one
  that \<^verbatim>\<open>Wait\<close> returns; the first cause of a context stays.
\<close>

locale error_group =
  fixes G :: "'g errgroup"
  assumes new_cause: "eg_cause G (eg_new G) = None"
    and new_wait: "eg_wait G (eg_new G) = None"
    and return_nil: "eg_return G None g = g"
    and return_wait: "eg_wait G (eg_return G (Some e) g) = cancel (eg_wait G g) e"
    and return_cause: "eg_cause G (eg_return G (Some e) g) = cancel (eg_cause G g) e"
    and cancel_wait: "eg_wait G (eg_cancel G g) = eg_wait G g"
    and cancel_cause: "eg_cause G (eg_cancel G g) = cancel (eg_cause G g) Canceled"

text \<open>A group that does what the documentation says: the cause and the first error.\<close>

definition simple_group :: "(go_error option \<times> go_error option) errgroup" where
  "simple_group =
     \<lparr>eg_new = (None, None),
      eg_return = (\<lambda>err g. case err of None \<Rightarrow> g | Some e \<Rightarrow> (cancel (fst g) e, cancel (snd g) e)),
      eg_cancel = (\<lambda>g. (cancel (fst g) Canceled, snd g)),
      eg_cause = fst, eg_wait = snd\<rparr>"

interpretation simple_eg: error_group simple_group
  by unfold_locales (simp_all add: simple_group_def)

section \<open>The life of a session\<close>

datatype goroutine = Running | Returned "go_error option"

text \<open>Where the call of \<^verbatim>\<open>Run\<close> is: before the CLIENT\_SETUP, in its \<^verbatim>\<open>select\<close>, or returned.\<close>

datatype run_state = RunSetup | RunWaiting | RunReturned "go_error option"

text \<open>
  \<open>lf_closed\<close> tells whether \<^verbatim>\<open>Close\<close> was called; \<open>lf_errors\<close> lists what the three loops returned, in
  order.
\<close>

record 'g Life =
  lf_session :: Session
  lf_group :: 'g
  lf_run :: run_state
  lf_control :: goroutine
  lf_streams :: goroutine
  lf_datagrams :: goroutine
  lf_closed :: bool
  lf_errors :: "go_error list"

definition Run_start :: "'g errgroup \<Rightarrow> uint64 \<Rightarrow> Connection \<Rightarrow> 'g Life" where
  "Run_start G InitialMaxRequestID conn =
     \<lparr>lf_session = newSession InitialMaxRequestID conn, lf_group = eg_new G, lf_run = RunSetup,
      lf_control = Running, lf_streams = Running, lf_datagrams = Running, lf_closed = False,
      lf_errors = []\<rparr>"

text \<open>A loop returns an error: the errgroup sees it.\<close>

definition loop_returns :: "'g errgroup \<Rightarrow> go_error \<Rightarrow> 'g Life \<Rightarrow> 'g Life" where
  "loop_returns G e L =
     L\<lparr>lf_group := eg_return G (Some e) (lf_group L), lf_errors := lf_errors L @ [e]\<rparr>"

text \<open>
  The steps. The error of a failed read, of \<^verbatim>\<open>AcceptUniStream\<close> or of \<^verbatim>\<open>ReceiveDatagram\<close> is the
  connection's choice. A stream that was accepted is handled in a goroutine of its own, at any
  time: that is one of the other steps of the session, like a call of the API.
\<close>

inductive life_step :: "'g errgroup \<Rightarrow> Env \<Rightarrow> 'g Life \<Rightarrow> 'g Life \<Rightarrow> bool" for G :: "'g errgroup" and env :: Env where
  run_setup: "lf_run L = RunSetup \<Longrightarrow> cn_Perspective (ses_conn (lf_session L)) = PerspectiveClient \<Longrightarrow>
    sendClientSetup env (lf_session L) = (Inr (), s') \<Longrightarrow>
    life_step G env L (L\<lparr>lf_session := s', lf_run := RunWaiting\<rparr>)"
| run_setup_error: "lf_run L = RunSetup \<Longrightarrow> cn_Perspective (ses_conn (lf_session L)) = PerspectiveClient \<Longrightarrow>
    sendClientSetup env (lf_session L) = (Inl (Fail e), s') \<Longrightarrow>
    life_step G env L (L\<lparr>lf_session := s', lf_run := RunReturned (Some e)\<rparr>)"
| run_server: "lf_run L = RunSetup \<Longrightarrow> cn_Perspective (ses_conn (lf_session L)) \<noteq> PerspectiveClient \<Longrightarrow>
    life_step G env L (L\<lparr>lf_run := RunWaiting\<rparr>)"
| run_cancelled: "lf_run L = RunWaiting \<Longrightarrow> eg_cause G (lf_group L) = Some c \<Longrightarrow>
    life_step G env L (L\<lparr>lf_run := RunReturned (Some c)\<rparr>)"
| run_done: "lf_run L = RunWaiting \<Longrightarrow> ses_handshakeDoneCh (lf_session L) \<Longrightarrow>
    life_step G env L (L\<lparr>lf_run := RunReturned None\<rparr>)"
| control_message: "lf_control L = Running \<Longrightarrow>
    ControlMessageParser_Parse (env_qv env) input = Inr (m, rest) \<Longrightarrow>
    receive env m (lf_session L) = (Inr (), s') \<Longrightarrow> life_step G env L (L\<lparr>lf_session := s'\<rparr>)"
| control_error: "lf_control L = Running \<Longrightarrow>
    ControlMessageParser_Parse (env_qv env) input = Inr (m, rest) \<Longrightarrow>
    receive env m (lf_session L) = (Inl (Fail e), s') \<Longrightarrow>
    life_step G env L (loop_returns G e (L\<lparr>lf_session := s', lf_control := Returned (Some e)\<rparr>))"
| control_end: "lf_control L = Running \<Longrightarrow>
    life_step G env L (loop_returns G e (L\<lparr>lf_control := Returned (Some e)\<rparr>))"
| streams_end: "lf_streams L = Running \<Longrightarrow>
    life_step G env L (loop_returns G e (L\<lparr>lf_streams := Returned (Some e)\<rparr>))"
| datagrams_error: "lf_datagrams L = Running \<Longrightarrow>
    readDatagrams_datagram env dgram (lf_session L) = Some (Inl (Fail e), s') \<Longrightarrow>
    life_step G env L (loop_returns G e (L\<lparr>lf_session := s', lf_datagrams := Returned (Some e)\<rparr>))"
| datagrams_end: "lf_datagrams L = Running \<Longrightarrow>
    life_step G env L (loop_returns G e (L\<lparr>lf_datagrams := Returned (Some e)\<rparr>))"
| other: "other_step env (lf_session L) s' \<Longrightarrow> life_step G env L (L\<lparr>lf_session := s'\<rparr>)"
| close: "life_step G env L (L\<lparr>lf_group := eg_cancel G (lf_group L), lf_closed := True\<rparr>)"

text \<open>\<^verbatim>\<open>Close\<close> returns what \<^verbatim>\<open>Wait\<close> gives, once the three loops have returned.\<close>

definition Session_Close_result :: "'g errgroup \<Rightarrow> 'g Life \<Rightarrow> go_error option option" where
  "Session_Close_result G L =
     (if lf_closed L \<and> lf_control L \<noteq> Running \<and> lf_streams L \<noteq> Running \<and> lf_datagrams L \<noteq> Running
      then Some (eg_wait G (lf_group L)) else None)"

text \<open>
  The beginning of \<^verbatim>\<open>Run\<close>: the server accepts the control stream, the client opens it; when that fails,
  \<^verbatim>\<open>Run\<close> returns before the fields of the session are set. \<^verbatim>\<open>Close\<close> cancels the context and closes the
  connection, which is nil after such a \<^verbatim>\<open>Run\<close>.
\<close>

definition Run_begin ::
  "'g errgroup \<Rightarrow> unit result \<Rightarrow> unit result \<Rightarrow> uint64 \<Rightarrow> Connection \<Rightarrow> 'g Life result" where
  "Run_begin G AcceptStream OpenStreamSync InitialMaxRequestID conn =
     bindR (case cn_Perspective conn of PerspectiveServer \<Rightarrow> AcceptStream | PerspectiveClient \<Rightarrow> OpenStreamSync) (\<lambda>_.
     Inr (Run_start G InitialMaxRequestID conn))"

definition Session_Close_begin :: "'g errgroup \<Rightarrow> 'g Life option \<Rightarrow> 'g Life result" where
  "Session_Close_begin G session =
     (case session of
        None \<Rightarrow> Inl Panic
      | Some L \<Rightarrow> Inr (L\<lparr>lf_group := eg_cancel G (lf_group L), lf_closed := True\<rparr>))"

lemma Close_begin_step: "Session_Close_begin G (Some L) = Inr L' \<Longrightarrow> life_step G env L L'"
  using close by (auto simp: Session_Close_begin_def)

lemma Close_after_failed_Run:
  assumes "cn_Perspective conn = PerspectiveServer \<longrightarrow> accept = Inl (Fail e)"
    and "cn_Perspective conn = PerspectiveClient \<longrightarrow> open_stream = Inl (Fail e)"
  shows "Run_begin G accept open_stream i conn = Inl (Fail e)" and "Session_Close_begin G None = Inl Panic"
  using assms by (cases "cn_Perspective conn"; simp add: Run_begin_def Session_Close_begin_def)+

inductive lives :: "'g errgroup \<Rightarrow> Env \<Rightarrow> 'g Life \<Rightarrow> 'g Life \<Rightarrow> bool" for G :: "'g errgroup" and env :: Env where
  lives_refl: "lives G env L L"
| lives_step: "lives G env L L' \<Longrightarrow> life_step G env L' L'' \<Longrightarrow> lives G env L L''"

inductive_cases life_stepE: "life_step G env L L'"

section \<open>Which errors are returned\<close>

definition inv_life :: "'g errgroup \<Rightarrow> 'g Life \<Rightarrow> bool" where
  "inv_life G L \<longleftrightarrow>
     eg_wait G (lf_group L) = (case lf_errors L of [] \<Rightarrow> None | e # _ \<Rightarrow> Some e) \<and>
     (lf_closed L \<longrightarrow> eg_cause G (lf_group L) \<noteq> None) \<and>
     (\<not> lf_closed L \<longrightarrow> eg_cause G (lf_group L) = eg_wait G (lf_group L)) \<and>
     (lf_control L \<noteq> Running \<longrightarrow> lf_errors L \<noteq> [])"

context error_group
begin

lemma inv_life_start: "inv_life G (Run_start G i conn)"
  by (simp add: inv_life_def Run_start_def new_cause new_wait)

lemma life_step_inv: "life_step G env L L' \<Longrightarrow> inv_life G L \<Longrightarrow> inv_life G L'"
  by (erule life_stepE)
    (auto simp: inv_life_def loop_returns_def return_wait return_cause cancel_wait cancel_cause cancel_def
      split: list.splits option.splits)

lemma lives_inv: "lives G env L L' \<Longrightarrow> inv_life G L \<Longrightarrow> inv_life G L'"
  by (induction rule: lives.induct) (auto intro: life_step_inv)

text \<open>
  \<^verbatim>\<open>Close\<close> returns the error of the loop that returned first. The loops return nothing but errors,
  so it never returns nil.
\<close>

lemma Close_first_error:
  assumes "lives G env (Run_start G i conn) L" and "Session_Close_result G L = Some res"
  shows "\<exists>e es. lf_errors L = e # es \<and> res = Some e"
proof -
  have "inv_life G L" using assms(1) inv_life_start by (rule lives_inv)
  with assms(2) show ?thesis
    by (auto simp: Session_Close_result_def inv_life_def neq_Nil_conv split: if_splits)
qed

text \<open>While \<^verbatim>\<open>Close\<close> was not called, \<^verbatim>\<open>Run\<close> is cancelled by the first error of a loop.\<close>

lemma Run_first_error:
  assumes "lives G env (Run_start G i conn) L" and "\<not> lf_closed L"
    and "eg_cause G (lf_group L) = Some c"
  shows "\<exists>es. lf_errors L = c # es"
proof -
  have "inv_life G L" using assms(1) inv_life_start by (rule lives_inv)
  with assms(2,3) show ?thesis by (auto simp: inv_life_def split: list.splits)
qed

end

section \<open>After the reader of the control stream\<close>

lemma life_step_drains: "life_step G env L L' \<Longrightarrow> lf_control L \<noteq> Running \<Longrightarrow>
    drained (lf_session L) (lf_session L') \<and> lf_control L' = lf_control L"
  by (erule life_stepE)
    (auto simp: loop_returns_def drained_refl dest: other_step_drains drained_datagram
      intro: drained_calls [OF ses_drain.senders_keep(1), of _ env, THEN back_subst [where P = "drained _"]])

lemma lives_drains: "lives G env L L' \<Longrightarrow> lf_control L \<noteq> Running \<Longrightarrow>
    drained (lf_session L) (lf_session L') \<and> lf_control L' = lf_control L"
  by (induction rule: lives.induct) (auto simp: drained_refl dest: life_step_drains intro: drained_trans)

text \<open>
  The waits of the API have two cases, the context of the caller and the response channel. When
  the reader of the control stream has ended, an empty channel stays empty: a call that waits there
  with a context that is never done does not return, not even after \<^verbatim>\<open>Close\<close>.
\<close>

lemma abandoned_calls:
  assumes "lives G env L L'" and "lf_control L \<noteq> Running" and "r < ses_next (lf_session L)"
  shows "rt_responseChan (ses_rt (lf_session L) r) = [] \<Longrightarrow>
           Subscribe_wait Response r (lf_session L') = None \<and> Fetch_wait env Response r (lf_session L') = None"
    and "ses_errCh (lf_session L) r = [] \<Longrightarrow>
           Announce_wait Response r (lf_session L') = None \<and>
           SubscribeAnnouncements_wait Response r (lf_session L') = None"
    and "ses_statusCh (lf_session L) r = [] \<Longrightarrow> RequestTrackStatus_wait Response r (lf_session L') = None"
proof -
  have "suffix (rt_responseChan (ses_rt (lf_session L') r)) (rt_responseChan (ses_rt (lf_session L) r))"
    "suffix (ses_errCh (lf_session L') r) (ses_errCh (lf_session L) r)"
    "suffix (ses_statusCh (lf_session L') r) (ses_statusCh (lf_session L) r)"
    using lives_drains [OF assms(1,2)] assms(3) unfolding drained_def by blast+
  then show "rt_responseChan (ses_rt (lf_session L) r) = [] \<Longrightarrow>
      Subscribe_wait Response r (lf_session L') = None \<and> Fetch_wait env Response r (lf_session L') = None"
    and "ses_errCh (lf_session L) r = [] \<Longrightarrow>
      Announce_wait Response r (lf_session L') = None \<and> SubscribeAnnouncements_wait Response r (lf_session L') = None"
    and "ses_statusCh (lf_session L) r = [] \<Longrightarrow> RequestTrackStatus_wait Response r (lf_session L') = None"
    by (simp_all add: Subscribe_wait_def Fetch_wait_def wait_rt_response_def Announce_wait_def
        SubscribeAnnouncements_wait_def wait_errCh_def RequestTrackStatus_wait_def)
qed

text \<open>A handshake that was not finished stays so: \<^verbatim>\<open>Run\<close> does not return nil any more.\<close>

lemma abandoned_handshake:
  assumes "lives G env L L'" and "lf_control L \<noteq> Running"
  shows "ses_handshakeDone (lf_session L') = ses_handshakeDone (lf_session L)"
  using lives_drains [OF assms] by (simp add: drained_def)

end
