(* ===== verification/Session_Failures.thy ===== *)
theory Session_Failures
  imports Session_Dialogues
begin

text \<open>
  Requests of the API whose control message cannot be written. Each takes a request ID and enters
  the request into its table before it writes; the theory says what is left of that afterwards.
\<close>

text \<open>
  \<open>write_fails env m s e\<close>: writing \<open>m\<close> in state \<open>s\<close> fails with \<open>e\<close>, since the message is too large or
  since the connection fails.
\<close>

definition write_fails :: "Env \<Rightarrow> ControlMessage \<Rightarrow> Session \<Rightarrow> go_error \<Rightarrow> bool" where
  "write_fails env m s e \<longleftrightarrow> fst (ses_write env m s) = Inl (Fail e)"

text \<open>Whether a write fails depends on the connection only.\<close>

lemma write_fails_conn:
  assumes "write_fails env m s e"
  obtains c where "\<And>s'. ses_conn s' = ses_conn s \<Longrightarrow> ses_write env m s' = (Inl (Fail e), s'\<lparr>ses_conn := c\<rparr>)"
  using assms by (auto simp: write_fails_def ses_write_def onS_def split: prod.splits)

lemma too_large_fails:
  assumes "varint_codec (env_qv env)" and "wf_control m" and "65535 < length (enc_body (env_qv env) m)"
  shows "write_fails env m s errControlMessageTooLarge"
  using varint_codec.compileMessage_too_large [OF assms]
  by (simp add: write_fails_def ses_write_def controlStream_write_def effects)

text \<open>
  \<^verbatim>\<open>Subscribe\<close> leaves the track in the table of pending requests, where nothing removes it: its ID is
  never used again, and the peer has not seen it.
\<close>

lemma Subscribe_write_fails:
  assumes "rg_id (ses_requestIDs s) = k" and "k < rg_max (ses_requestIDs s)"
    and "rtm_pending (ses_remoteTracks s) k = None" and "rtm_open (ses_remoteTracks s) k = None"
    and "write_fails env (Subscribe (subscribe_message k ns name options)) s e"
  shows "\<exists>s'. Subscribe_send env ns name options s = (Inl (Fail e), s') \<and>
    rtm_pending (ses_remoteTracks s') = (rtm_pending (ses_remoteTracks s))(k \<mapsto> ses_next s) \<and>
    rg_id (ses_requestIDs s') = k + rg_interval (ses_requestIDs s)"
proof -
  obtain c where w: "\<And>s'. ses_conn s' = ses_conn s \<Longrightarrow>
      ses_write env (Subscribe (subscribe_message k ns name options)) s' = (Inl (Fail e), s'\<lparr>ses_conn := c\<rparr>)"
    using write_fails_conn [OF assms(5)] by blast
  show ?thesis
    using assms(1-4)
    by (simp add: Subscribe_send_def bindS_def newRequestID_ok alloc_rt_def upd_remoteTracks_def updS_def
        remoteTrackMap_addPendingWithAlias_def throwS_def returnS_def Let_def
        w [unfolded subscribe_message_def Let_def])
qed

text \<open>The other requests take their entry out of the table again.\<close>

lemma Fetch_write_fails:
  assumes "rg_id (ses_requestIDs s) = k" and "k < rg_max (ses_requestIDs s)"
    and "rtm_pending (ses_remoteTracks s) k = None" and "rtm_open (ses_remoteTracks s) k = None"
    and "write_fails env (Fetch (fetch_message k ns name)) s e"
  shows "\<exists>s'. Fetch_send env ns name s = (Inl (Fail e), s') \<and>
    ses_remoteTracks s' = ses_remoteTracks s \<and>
    rg_id (ses_requestIDs s') = k + rg_interval (ses_requestIDs s)"
proof -
  obtain c where w: "\<And>s'. ses_conn s' = ses_conn s \<Longrightarrow>
      ses_write env (Fetch (fetch_message k ns name)) s' = (Inl (Fail e), s'\<lparr>ses_conn := c\<rparr>)"
    using write_fails_conn [OF assms(5)] by blast
  show ?thesis
    using assms(1-4)
    by (cases "ses_remoteTracks s")
      (simp add: Fetch_send_def bindS_def newRequestID_ok alloc_rt_def upd_remoteTracks_def updS_def
        remoteTrackMap_addPending_def remoteTrackMap_reject_def throwS_def returnS_def tryS_def failS_def
        w [unfolded fetch_message_def] fun_upd_idem)
qed

lemma Announce_write_fails:
  assumes "rg_id (ses_requestIDs s) = k" and "k < rg_max (ses_requestIDs s)"
    and "write_fails env (Announce (announce_message k ns)) s e"
  shows "\<exists>s'. Announce_send env ns s = (Inl (Fail e), s') \<and>
    am_pending (ses_outgoingAnnouncements s') = (am_pending (ses_outgoingAnnouncements s))(k := None) \<and>
    rg_id (ses_requestIDs s') = k + rg_interval (ses_requestIDs s)"
proof -
  obtain c where w: "\<And>s'. ses_conn s' = ses_conn s \<Longrightarrow>
      ses_write env (Announce (announce_message k ns)) s' = (Inl (Fail e), s'\<lparr>ses_conn := c\<rparr>)"
    using write_fails_conn [OF assms(3)] by blast
  show ?thesis
    using assms(1,2)
    by (simp add: Announce_send_def bindS_def newRequestID_ok alloc_errCh_def upd_outgoingAnnouncements_def
        updS_def announcementMap_add_def announcementMap_reject_def tryS_def failS_def Let_def
        w [unfolded announce_message_def])
qed

lemma SubscribeAnnouncements_write_fails:
  assumes "rg_id (ses_requestIDs s) = k" and "k < rg_max (ses_requestIDs s)"
    and "write_fails env (SubscribeAnnounces (announces_message k ns)) s e"
  shows "\<exists>s'. SubscribeAnnouncements_send env ns s = (Inl (Fail e), s') \<and>
    ses_pendingOutgointAnnouncementSubscriptions s' =
      (ses_pendingOutgointAnnouncementSubscriptions s)(k := None) \<and>
    rg_id (ses_requestIDs s') = k + rg_interval (ses_requestIDs s)"
proof -
  obtain c where w: "\<And>s'. ses_conn s' = ses_conn s \<Longrightarrow>
      ses_write env (SubscribeAnnounces (announces_message k ns)) s' = (Inl (Fail e), s'\<lparr>ses_conn := c\<rparr>)"
    using write_fails_conn [OF assms(3)] by blast
  show ?thesis
    using assms(1,2)
    by (simp add: SubscribeAnnouncements_send_def bindS_def newRequestID_ok alloc_errCh_def
        upd_outgoingSubscriptions_def updS_def announcementSubscriptionMap_add_def
        announcementSubscriptionMap_deleteByID_def tryS_def failS_def Let_def
        w [unfolded announces_message_def])
qed

end
