(* ===== verification/Session_Requests.thy ===== *)
theory Session_Requests
  imports Session_Steps
begin

text \<open>
  What a session promises about the subscriptions and fetches it asks for, as an abstract machine
  with four steps, and the refinement: every step of a session, whatever the application and the
  peer do, is a sequence of steps of that machine. The lives of the requests follow from the
  machine alone.
\<close>

section \<open>The abstract machine\<close>

text \<open>
  A request ID has no request, a request that waits for its answer, or one that was answered. The
  request is the remote track that the call returns.
\<close>

datatype phase = Absent | Asked ref | Live ref

record requests =
  rq_phase :: "uint64 \<Rightarrow> phase"
  rq_next :: uint64

text \<open>
  The next ID goes to a request (\<open>ask\<close>) or to a message of another kind, or its request cannot be
  written (\<open>skip\<close>); an answer settles a request, an error drops it.
\<close>

inductive request_step :: "requests \<Rightarrow> requests \<Rightarrow> bool" where
  ask: "unat (rq_next a) < 2 ^ 62 \<Longrightarrow>
    request_step a (a\<lparr>rq_next := rq_next a + 2, rq_phase := (rq_phase a)(rq_next a := Asked r)\<rparr>)"
| skip: "unat (rq_next a) < 2 ^ 62 \<Longrightarrow> request_step a (a\<lparr>rq_next := rq_next a + 2\<rparr>)"
| settle: "rq_phase a k = Asked r \<Longrightarrow> request_step a (a\<lparr>rq_phase := (rq_phase a)(k := Live r)\<rparr>)"
| drop_request: "rq_phase a k = Asked r \<Longrightarrow> request_step a (a\<lparr>rq_phase := (rq_phase a)(k := Absent)\<rparr>)"

inductive_cases request_stepE: "request_step a b"

abbreviation request_steps :: "requests \<Rightarrow> requests \<Rightarrow> bool" where
  "request_steps \<equiv> request_step\<^sup>*\<^sup>*"

text \<open>IDs that were not handed out have no request.\<close>

definition fresh_above :: "requests \<Rightarrow> bool" where
  "fresh_above a \<longleftrightarrow> (\<forall>k. rq_next a \<le> k \<longrightarrow> rq_phase a k = Absent)"

text \<open>The phases that may follow a phase of an ID that was handed out.\<close>

definition later :: "phase \<Rightarrow> phase \<Rightarrow> bool" where
  "later p q \<longleftrightarrow> q = p \<or> (\<exists>r. p = Asked r \<and> (q = Live r \<or> q = Absent))"

lemma later_trans: "later p q \<Longrightarrow> later q u \<Longrightarrow> later p u"
  by (auto simp: later_def)

lemma request_step_life:
  assumes "request_step a b" and "fresh_above a"
  shows "fresh_above b \<and> rq_next a \<le> rq_next b \<and>
         (\<forall>k < rq_next a. later (rq_phase a k) (rq_phase b k))"
  using assms
proof cases
  case (ask r)
  with assms(2) id_advances(1) [OF ask(2)] show ?thesis
    by (auto simp: fresh_above_def later_def order.strict_iff_order [of "rq_next a"])
next
  case skip
  with assms(2) id_advances(1) [OF skip(2)] show ?thesis
    by (auto simp: fresh_above_def later_def)
qed (use assms(2) in \<open>auto simp: fresh_above_def later_def\<close>)

lemma request_steps_life:
  assumes "request_steps a b" and "fresh_above a"
  shows "fresh_above b \<and> rq_next a \<le> rq_next b \<and>
         (\<forall>k < rq_next a. later (rq_phase a k) (rq_phase b k))"
  using assms(1)
proof induction
  case base
  then show ?case using assms(2) by (simp add: later_def)
next
  case (step b c)
  with request_step_life [OF step(2)] show ?case by (auto intro: later_trans dest: less_le_trans)
qed

section \<open>The machine in a session\<close>

definition phase_of :: "remoteTrackMap \<Rightarrow> uint64 \<Rightarrow> phase" where
  "phase_of m k = (case rtm_open m k of Some r \<Rightarrow> Live r
     | None \<Rightarrow> (case rtm_pending m k of Some r \<Rightarrow> Asked r | None \<Rightarrow> Absent))"

definition requests_of :: "Session \<Rightarrow> requests" where
  "requests_of s = \<lparr>rq_phase = phase_of (ses_remoteTracks s), rq_next = rg_id (ses_requestIDs s)\<rparr>"

lemma phase_of_iff:
  "phase_of m k = Live r \<longleftrightarrow> rtm_open m k = Some r"
  "phase_of m k = Asked r \<longleftrightarrow> rtm_open m k = None \<and> rtm_pending m k = Some r"
  "phase_of m k = Absent \<longleftrightarrow> rtm_open m k = None \<and> rtm_pending m k = None"
  by (auto simp: phase_of_def split: option.splits)

lemma requests_fresh:
  assumes "inv_session s"
  shows "fresh_above (requests_of s)"
proof -
  have "rtm_pending (ses_remoteTracks s) k = None \<and> rtm_open (ses_remoteTracks s) k = None"
    if "rg_id (ses_requestIDs s) \<le> k" for k
    using assms that by (auto simp: inv_defs) (meson leD option.exhaust)+
  then show ?thesis by (simp add: fresh_above_def requests_of_def phase_of_iff)
qed

text \<open>The property that every operation keeps: the machine has come from \<open>a\<close> to the session.\<close>

definition follows :: "requests \<Rightarrow> Session \<Rightarrow> bool" where
  "follows a s \<longleftrightarrow> inv_session s \<and> request_steps a (requests_of s)"

lemma follows_trans: "follows a s \<Longrightarrow> inv_session s' \<Longrightarrow> request_steps (requests_of s) (requests_of s') \<Longrightarrow> follows a s'"
  by (auto simp: follows_def intro: rtranclp_trans)

text \<open>Operations that the machine does not see.\<close>

abbreviation unseen :: "(Session, 'a) st \<Rightarrow> bool" where
  "unseen m \<equiv> (\<forall>a. keeps (\<lambda>s. requests_of s = a) m)"

lemma unseen_keeps: "keeps inv_session m \<Longrightarrow> unseen m \<Longrightarrow> keeps (follows a) m"
  by (auto simp: keeps_def follows_def)

lemma unseen_triple: "triple inv_session P m Q \<Longrightarrow> unseen m \<Longrightarrow> triple (follows a) P m Q"
  by (auto simp: triple_def keeps_def follows_def)

lemma unseen_state: "follows a s \<Longrightarrow> inv_session s' \<Longrightarrow> requests_of s' = requests_of s \<Longrightarrow> follows a s'"
  by (simp add: follows_def)

section \<open>Operations\<close>

lemma unseen_session [keeping]:
  "keeps (\<lambda>s. requests_of s = a) (ses_write env m)"
  "keeps (\<lambda>s. requests_of s = a) (on_track r lm)"
  "keeps (\<lambda>s. requests_of s = a) (upd_localTracks f)"
  "keeps (\<lambda>s. requests_of s = a) (upd_requestIDs (\<lambda>g. requestIDGenerator_setMax g v))"
  "keeps (\<lambda>s. requests_of s = a) (updS ses_trackAliases (\<lambda>x s. s\<lparr>ses_trackAliases := x\<rparr>) q)"
  by (auto simp: keeps_def requests_of_def ses_write_def on_track_def onS_def updS_def
      upd_localTracks_def upd_requestIDs_def requestIDGenerator_setMax_def split_beta)

lemma unseen_alias [keeping]:
  "keeps (\<lambda>s. requests_of s = a) (upd_remoteTracks (\<lambda>m. remoteTrackMap_setAlias m k al))"
  by (auto simp: keeps_def requests_of_def upd_remoteTracks_def updS_def remoteTrackMap_setAlias_def
      phase_of_def fun_eq_iff cong: option.case_cong)

lemma unseen_store [keeping]:
  "keeps (\<lambda>s. requests_of s = a) (alloc_lt lt)"
  "keeps (\<lambda>s. requests_of s = a) (alloc_rt rt)"
  "keeps (\<lambda>s. requests_of s = a) alloc_errCh"
  "keeps (\<lambda>s. requests_of s = a) alloc_statusCh"
  "keeps (\<lambda>s. requests_of s = a) (send_errCh r e)"
  "keeps (\<lambda>s. requests_of s = a) (send_statusCh r st)"
  "keeps (\<lambda>s. requests_of s = a) (send_rt_response r e)"
  "keeps (\<lambda>s. requests_of s = a) (modify_rt r f)"
  "keeps (\<lambda>s. requests_of s = a) (modify_lt r g)"
  "keeps (\<lambda>s. requests_of s = a) (log_app ev)"
  by (auto simp: keeps_def requests_of_def alloc_lt_def alloc_rt_def alloc_errCh_def alloc_statusCh_def
      send_errCh_def send_statusCh_def send_rt_response_def modify_rt_def modify_lt_def log_app_def
      modifyS_def split_beta)

lemma unseen_fields [keeping]:
  "keeps (\<lambda>s. requests_of s = a) (modifyS (\<lambda>s. s\<lparr>ses_version := v\<rparr>))"
  "keeps (\<lambda>s. requests_of s = a) (modifyS (\<lambda>s. s\<lparr>ses_path := p\<rparr>))"
  "keeps (\<lambda>s. requests_of s = a) (modifyS (\<lambda>s. s\<lparr>ses_localMaxRequestID := mx\<rparr>))"
  "keeps (\<lambda>s. requests_of s = a) (modifyS (\<lambda>s. s\<lparr>ses_pendingIncomingAnnouncementSubscriptions := f s\<rparr>))"
  "keeps (\<lambda>s. requests_of s = a) finish_handshake"
  by (auto simp: keeps_def requests_of_def modifyS_def finish_handshake_def close_handshakeDoneCh_def
      bindS_def)

lemma unseen_addLocalTrack: "keeps (\<lambda>s. requests_of s = a) (tryS (addLocalTrack env r))"
  unfolding addLocalTrack_def by (intro keeping)

text \<open>An answer settles the request that was asked for, or finds none; an error drops it.\<close>

lemma pending_asked:
  "inv_session s \<Longrightarrow> rtm_pending (ses_remoteTracks s) k = Some r \<Longrightarrow> rq_phase (requests_of s) k = Asked r"
  by (simp add: requests_of_def phase_of_iff inv_session_def inv_remote_def) (metis option.distinct(1))

lemma settles:
  assumes "inv_session s"
  shows "request_steps (requests_of s)
    (requests_of (s\<lparr>ses_remoteTracks := snd (remoteTrackMap_confirm (ses_remoteTracks s) k)\<rparr>))"
proof (cases "rtm_pending (ses_remoteTracks s) k")
  case None
  then show ?thesis by (simp add: remoteTrackMap_confirm_def requests_of_def)
next
  case (Some r)
  note settle [OF pending_asked [OF assms Some]]
  moreover have "phase_of (snd (remoteTrackMap_confirm (ses_remoteTracks s) k))
      = (phase_of (ses_remoteTracks s))(k := Live r)"
    using Some by (auto simp: remoteTrackMap_confirm_def phase_of_def fun_eq_iff split: option.split)
  ultimately show ?thesis by (simp add: requests_of_def r_into_rtranclp)
qed

lemma drops:
  assumes "inv_session s"
  shows "request_steps (requests_of s)
    (requests_of (s\<lparr>ses_remoteTracks := snd (remoteTrackMap_reject (ses_remoteTracks s) k)\<rparr>))"
proof (cases "rtm_pending (ses_remoteTracks s) k")
  case None
  then show ?thesis by (simp add: remoteTrackMap_reject_def requests_of_def)
next
  case (Some r)
  note asked = pending_asked [OF assms this]
  then have "phase_of (snd (remoteTrackMap_reject (ses_remoteTracks s) k))
      = (phase_of (ses_remoteTracks s))(k := Absent)"
    using Some by (auto simp: remoteTrackMap_reject_def requests_of_def phase_of_def fun_eq_iff split: option.split)
  with drop_request [OF asked] show ?thesis by (simp add: requests_of_def r_into_rtranclp)
qed

lemma follows_answers [keeping]:
  "keeps (follows a) (upd_remoteTracks (\<lambda>m. remoteTrackMap_confirm m k))"
  "keeps (follows a) (upd_remoteTracks (\<lambda>m. remoteTrackMap_reject m k))"
  unfolding upd_remoteTracks_def
  by (rule keeps_upd, rule follows_trans, assumption,
      simp_all add: follows_def remote_tables_inv settles drops)+

section \<open>New requests\<close>

text \<open>The ID \<open>k\<close> was taken, and the machine was just about to use it.\<close>

definition numbered :: "requests \<Rightarrow> uint64 \<Rightarrow> Session \<Rightarrow> bool" where
  "numbered a k s \<longleftrightarrow> (\<exists>b. request_steps a b \<and> rq_next b = k \<and> unat k < 2 ^ 62 \<and>
     requests_of s = b\<lparr>rq_next := k + 2\<rparr>)"

lemma newRequestID_blocked_result:
  assumes "\<not> rg_id (ses_requestIDs s) < rg_max (ses_requestIDs s)"
  shows "requests_of (snd (newRequestID env s)) = requests_of s" and "fst (newRequestID env s) \<noteq> Inr k"
proof -
  let ?m = "bindS (tryS (ses_write env (RequestsBlocked
      \<lparr>rbm_MaximumRequestID = rg_max (ses_requestIDs s)\<rparr>))) (\<lambda>_. failS errRequestIDblocked)"
  have "keeps (\<lambda>t. requests_of t = requests_of s) ?m" by (intro keeping)
  from keepsD [OF this refl] show "requests_of (snd (newRequestID env s)) = requests_of s"
    by (simp add: newRequestID_blocked [OF assms])
  show "fst (newRequestID env s) \<noteq> Inr k"
    by (auto simp: newRequestID_blocked [OF assms] bindS_def failS_def split: prod.splits sum.splits)
qed

lemma newRequestID_takes:
  assumes "inv_session s" and lt: "rg_id (ses_requestIDs s) < rg_max (ses_requestIDs s)"
  shows "unat (rq_next (requests_of s)) < 2 ^ 62"
    and "requests_of (snd (newRequestID env s)) = (requests_of s)\<lparr>rq_next := rq_next (requests_of s) + 2\<rparr>"
    and "fst (newRequestID env s) = Inr (rq_next (requests_of s))"
  using assms by (simp_all add: inv_defs word_less_nat_alt newRequestID_ok [OF lt] requests_of_def)

lemma newRequestID_numbers:
  "triple (follows a) (\<lambda>_. True) (newRequestID env) (\<lambda>k s. fresh_id k s \<and> numbered a k s)"
proof (rule tripleI)
  fix s
  assume f: "follows a s"
  then have inv: "inv_session s" by (simp add: follows_def)
  have "request_steps (requests_of s) (requests_of (snd (newRequestID env s)))"
  proof (cases "rg_id (ses_requestIDs s) < rg_max (ses_requestIDs s)")
    case True
    from skip [OF newRequestID_takes(1) [OF inv True]] show ?thesis
      by (simp add: newRequestID_takes(2) [OF inv True] r_into_rtranclp)
  qed (simp add: newRequestID_blocked_result(1))
  with f keepsD [OF newRequestID_keeps inv] show "follows a (snd (newRequestID env s))"
    by (rule follows_trans)
next
  fix s k
  assume f: "follows a s" and k: "fst (newRequestID env s) = Inr k"
  then have inv: "inv_session s" and lt: "rg_id (ses_requestIDs s) < rg_max (ses_requestIDs s)"
    using newRequestID_blocked_result(2) by (auto simp: follows_def)
  from newRequestID_triple [of env] inv k have "fresh_id k (snd (newRequestID env s))"
    by (simp add: triple_def)
  moreover have "numbered a k (snd (newRequestID env s))"
    unfolding numbered_def using f k newRequestID_takes(1) [OF inv lt] newRequestID_takes(2,3) [OF inv lt, of env]
    by (intro exI [of _ "requests_of s"]) (simp add: follows_def)
  ultimately show "fresh_id k (snd (newRequestID env s)) \<and> numbered a k (snd (newRequestID env s))" ..
qed

lemma follows_requestID [keeping]: "keeps (follows a) (newRequestID env)"
  using newRequestID_numbers by (rule keeps_triple)

lemma alloc_rt_numbers:
  assumes "rt_requestID t = k" and "within_capacity t"
  shows "triple (follows a) (\<lambda>s. fresh_id k s \<and> numbered a k s) (alloc_rt t)
           (\<lambda>r s. new_rt k r s \<and> numbered a k s)"
proof -
  have "unseen (alloc_rt t)" by (intro allI keeping)
  from unseen_triple [OF alloc_rt_triple [OF assms] this, of a] show ?thesis
    by (auto simp: triple_def numbered_def alloc_rt_def requests_of_def)
qed

lemma addPending_asks:
  "triple (follows a) (\<lambda>s. new_rt k r s \<and> numbered a k s)
     (upd_remoteTracks (\<lambda>m. remoteTrackMap_addPending m k r)) (\<lambda>err _. err = None)"
proof (rule tripleI)
  fix s
  let ?m = "upd_remoteTracks (\<lambda>m. remoteTrackMap_addPending m k r)"
  assume f: "follows a s" and n: "new_rt k r s \<and> numbered a k s"
  then have "inv_session (snd (?m s))"
    using addPending_triple [of k r] by (simp add: triple_def follows_def)
  moreover from n obtain b where b: "request_steps a b" "rq_next b = k" "unat k < 2 ^ 62"
    and s: "requests_of s = b\<lparr>rq_next := k + 2\<rparr>"
    by (auto simp: numbered_def)
  have "requests_of (snd (?m s)) = (requests_of s)\<lparr>rq_phase := (rq_phase (requests_of s))(k := Asked r)\<rparr>"
    using n by (auto simp: upd_remoteTracks_def updS_def remoteTrackMap_addPending_def new_rt_def
        fresh_id_def requests_of_def phase_of_def fun_eq_iff split: option.split)
  with ask [of b r] b s have "request_step b (requests_of (snd (?m s)))" by simp
  with b(1) have "request_steps a (requests_of (snd (?m s)))" by (rule rtranclp.rtrancl_into_rtrancl)
  ultimately show "follows a (snd (?m s))" by (simp add: follows_def)
next
  fix s err
  assume "follows a s" and "new_rt k r s \<and> numbered a k s"
    and "fst (upd_remoteTracks (\<lambda>m. remoteTrackMap_addPending m k r) s) = Inr err"
  then show "err = None" using addPending_triple [of k r] by (auto simp: triple_def follows_def)
qed

lemma add_remote_follows:
  assumes "\<And>k r err. keeps (follows a) (cont k r err)"
  shows "keeps (follows a)
    (bindS (newRequestID env) (\<lambda>k.
     bindS (alloc_rt (newRemoteTrack k (f k) (g k))) (\<lambda>r.
     bindS (upd_remoteTracks (\<lambda>m. remoteTrackMap_addPending m k r)) (cont k r))))"
  by (rule keepsI_bind_triple [OF newRequestID_numbers])
    (rule triple_bind [OF alloc_rt_numbers [OF newRemoteTrack_ok]],
      rule triple_bind [OF addPending_asks], rule triple_keeps, rule assms)

lemma add_local_follows:
  assumes "\<And>r err. keeps (follows a) (cont r err)"
  shows "keeps (follows a) (bindS (alloc_lt t) (\<lambda>r. bindS (tryS (addLocalTrack env r)) (cont r)))"
proof (rule keepsI_bind_triple)
  show "triple (follows a) (\<lambda>_. True) (alloc_lt t) known_lt"
    by (intro unseen_triple alloc_lt_triple allI keeping)
  show "triple (follows a) (known_lt r) (bindS (tryS (addLocalTrack env r)) (cont r)) (\<lambda>_ _. True)" for r
    by (rule triple_bind, rule unseen_triple [OF try_addLocalTrack_triple], intro allI unseen_addLocalTrack,
        rule triple_keeps, rule assms)
qed

section \<open>The refinement\<close>

interpretation req_session: session_property "follows a" for a
  by unfold_locales
    ((rule follows_requestID
      | (rule unseen_keeps, (intro keeping modify_lt_keeps; simp), (intro allI keeping)))
     | (rule unseen_state, assumption, simp add: follows_def inv_defs, simp add: requests_of_def))+

interpretation req_handlers: handler_property "follows a" for a
  by unfold_locales
    ((rule follows_answers
      | (rule unseen_keeps, (intro keeping modify_lt_keeps modify_rt_keeps; simp), (intro allI keeping)))
     | (rule add_local_follows, assumption))+

lemma follows_sends:
  "keeps (follows a) (Subscribe_send env ns name opts)" "keeps (follows a) (Fetch_send env ns name)"
  unfolding Subscribe_send_def Fetch_send_def addPendingWithAlias_eq
  by (rule add_remote_follows, intro keeping)+

interpretation req_steps: step_property "follows a" for a
  by unfold_locales
    (rule follows_sends
     | (rule unseen_state, assumption, rule channel_update_inv; simp add: follows_def requests_of_def)+)+

lemma follows_start: "inv_session s \<Longrightarrow> follows (requests_of s) s"
  by (simp add: follows_def)

text \<open>Every step of a session is a sequence of steps of the machine.\<close>

lemma step_refines:
  "varint_codec (env_qv env) \<Longrightarrow> inv_session s \<Longrightarrow> (step env)\<^sup>*\<^sup>* s s' \<Longrightarrow>
     request_steps (requests_of s) (requests_of s')"
  using req_steps.steps_keep [OF _ _ follows_start] by (auto simp: follows_def)

text \<open>What the lives of the requests are for the table of remote tracks.\<close>

lemma findByRequestID_phase:
  "remoteTrackMap_findByRequestID m k =
     (case phase_of m k of Absent \<Rightarrow> None | Asked r \<Rightarrow> Some r | Live r \<Rightarrow> Some r)"
  by (simp add: remoteTrackMap_findByRequestID_def phase_of_def split: option.split)

lemma request_life_tables:
  assumes "inv_session s" and "request_steps (requests_of s) (requests_of s')"
  shows "rtm_open (ses_remoteTracks s) k = Some r \<Longrightarrow> rtm_open (ses_remoteTracks s') k = Some r"
    and "rtm_pending (ses_remoteTracks s) k = Some r \<Longrightarrow>
      remoteTrackMap_findByRequestID (ses_remoteTracks s') k \<in> {Some r, None}"
    and "k < rg_id (ses_requestIDs s) \<Longrightarrow> remoteTrackMap_findByRequestID (ses_remoteTracks s) k = None \<Longrightarrow>
      remoteTrackMap_findByRequestID (ses_remoteTracks s') k = None"
proof -
  let ?p = "phase_of (ses_remoteTracks s) k" and ?q = "phase_of (ses_remoteTracks s') k"
  have later: "later ?p ?q" if "k < rg_id (ses_requestIDs s)"
    using request_steps_life [OF assms(2) requests_fresh [OF assms(1)]] that by (simp add: requests_of_def)
  have known: "?p \<noteq> Absent \<Longrightarrow> k < rg_id (ses_requestIDs s)"
    using requests_fresh [OF assms(1)] by (auto simp: fresh_above_def requests_of_def simp flip: not_le)
  show "rtm_open (ses_remoteTracks s') k = Some r" if "rtm_open (ses_remoteTracks s) k = Some r"
    using that later known by (auto simp: later_def phase_of_iff(1) [symmetric])
  show "remoteTrackMap_findByRequestID (ses_remoteTracks s') k \<in> {Some r, None}"
    if "rtm_pending (ses_remoteTracks s) k = Some r"
    using pending_asked [OF assms(1) that] later known
    by (auto simp: later_def requests_of_def findByRequestID_phase)
  show "remoteTrackMap_findByRequestID (ses_remoteTracks s') k = None"
    if "k < rg_id (ses_requestIDs s)" "remoteTrackMap_findByRequestID (ses_remoteTracks s) k = None"
    using later [OF that(1)] that(2) by (auto simp: later_def findByRequestID_phase split: phase.splits)
qed

end
