(* ===== verification/Wire_Log.thy ===== *)
theory Wire_Log
  imports Control_Stream Go_Strings
begin

text \<open>
  What the program writes to its logs about the messages it sends and receives: the \<^verbatim>\<open>LogValue\<close> of
  every control message in \<^verbatim>\<open>internal/wire\<close>, the names of message types, filters, orders and
  versions (\<^verbatim>\<open>String\<close> methods), the JSON form of a tuple, and the level of \<^verbatim>\<open>logging.go\<close>. The lemmas
  say what a log tells about a message: which messages are told apart, which numbers can be read
  back, and what two different messages have in common.
\<close>

section \<open>Values of the package slog\<close>

text \<open>
  The Go values handed to \<^verbatim>\<open>slog.Any\<close>, with their types. \<^verbatim>\<open>slog\<close> keeps an \<^verbatim>\<open>uint8\<close> as a number and the
  other ones as they are. \<^verbatim>\<open>qlog.RawInfo\<close> has a length, a payload length and the data.
\<close>

datatype go_any =
    AnyUint8 byte
  | AnyBytes bytes
  | AnyRawInfo uint64 uint64 bytes
  | AnyGroupOrder GroupOrder
  | AnyFilterType FilterType
  | AnyVersions "Version list"
  | AnyTuple Tuple
  | AnyKVPList KVPList

datatype slog_Value =
    StringValue gostring
  | Uint64Value uint64
  | Int64Value int
  | AnyValue go_any

type_synonym slog_Attr = "string \<times> slog_Value"

definition slog_String :: "string \<Rightarrow> gostring \<Rightarrow> slog_Attr" where
  "slog_String key v = (key, StringValue v)"

definition slog_Uint64 :: "string \<Rightarrow> uint64 \<Rightarrow> slog_Attr" where
  "slog_Uint64 key v = (key, Uint64Value v)"

definition slog_Int :: "string \<Rightarrow> int \<Rightarrow> slog_Attr" where
  "slog_Int key v = (key, Int64Value v)"

fun slog_Any :: "string \<Rightarrow> go_any \<Rightarrow> slog_Attr" where
  "slog_Any key (AnyUint8 b) = (key, Uint64Value (ucast b))"
| "slog_Any key v = (key, AnyValue v)"

text \<open>Raw bytes with their length, and the parameters that most messages end with.\<close>

definition RawInfo :: "bytes \<Rightarrow> go_any" where
  "RawInfo data = AnyRawInfo (of_nat (length data)) (of_nat (length data)) data"

definition log_parameters :: "string \<Rightarrow> KVPList \<Rightarrow> slog_Attr list" where
  "log_parameters key params =
     slog_Uint64 ''number_of_parameters'' (of_nat (length params)) #
     (if length params > 0 then [slog_Any key (AnyKVPList params)] else [])"

section \<open>LogValue of the messages\<close>

definition ClientSetupMessage_LogValue :: "ClientSetupMessage \<Rightarrow> slog_Attr list" where
  "ClientSetupMessage_LogValue m =
       [slog_String ''type'' (ascii ''client_setup''),
        slog_Uint64 ''number_of_supported_versions'' (of_nat (length (csm_SupportedVersions m))),
        slog_Any ''supported_versions'' (AnyVersions (csm_SupportedVersions m))] @
       log_parameters ''setup_parameters'' (csm_SetupParameters m)"

definition ServerSetupMessage_LogValue :: "ServerSetupMessage \<Rightarrow> slog_Attr list" where
  "ServerSetupMessage_LogValue m =
       [slog_String ''type'' (ascii ''server_setup''),
        slog_Uint64 ''selected_version'' (ssm_SelectedVersion m)] @
       log_parameters ''setup_parameters'' (ssm_SetupParameters m)"

definition GoAwayMessage_LogValue :: "GoAwayMessage \<Rightarrow> slog_Attr list" where
  "GoAwayMessage_LogValue m =
       [slog_String ''type'' (ascii ''goaway''),
        slog_Any ''new_session_uri'' (RawInfo (gam_NewSessionURI m))]"

definition MaxRequestIDMessage_LogValue :: "MaxRequestIDMessage \<Rightarrow> slog_Attr list" where
  "MaxRequestIDMessage_LogValue m =
       [slog_String ''type'' (ascii ''max_request_id''),
        slog_Uint64 ''max_request_id'' (mrm_RequestID m)]"

definition RequestsBlockedMessage_LogValue :: "RequestsBlockedMessage \<Rightarrow> slog_Attr list" where
  "RequestsBlockedMessage_LogValue m =
       [slog_String ''type'' (ascii ''requests_blocked''),
        slog_Uint64 ''max_request_id'' (rbm_MaximumRequestID m)]"

definition SubscribeMessage_LogValue :: "SubscribeMessage \<Rightarrow> slog_Attr list" where
  "SubscribeMessage_LogValue m =
       [slog_String ''type'' (ascii ''subscribe''),
        slog_Uint64 ''request_id'' (sm_RequestID m),
        slog_Any ''track_namespace'' (AnyTuple (sm_TrackNamespace m)),
        slog_Any ''track_name'' (RawInfo (sm_TrackName m)),
        slog_Any ''subscriber_priority'' (AnyUint8 (sm_SubscriberPriority m)),
        slog_Any ''group_order'' (AnyGroupOrder (sm_GroupOrder m)),
        slog_Any ''forward'' (AnyUint8 (sm_Forward m)),
        slog_Any ''filter_type'' (AnyFilterType (sm_FilterType m))] @
       (if sm_FilterType m = FilterTypeAbsoluteStart \<or> sm_FilterType m = FilterTypeAbsoluteRange
        then [slog_Uint64 ''start_group'' (loc_Group (sm_StartLocation m)),
              slog_Uint64 ''start_object'' (loc_Object (sm_StartLocation m))] else []) @
       (if sm_FilterType m = FilterTypeAbsoluteRange then [slog_Uint64 ''end_group'' (sm_EndGroup m)] else []) @
       log_parameters ''subscribe_parameters'' (sm_Parameters m)"

text \<open>\<^verbatim>\<open>Duration.Milliseconds\<close> divides the signed number of nanoseconds, rounding towards zero.\<close>

definition Duration_Milliseconds :: "Duration \<Rightarrow> int" where
  "Duration_Milliseconds d =
     (if 0 \<le> sint d then sint d div sint Millisecond else - ((- sint d) div sint Millisecond))"

definition SubscribeOkMessage_LogValue :: "SubscribeOkMessage \<Rightarrow> slog_Attr list" where
  "SubscribeOkMessage_LogValue m =
     (let ce = (if som_ContentExists m then 1 else 0)
      in [slog_String ''type'' (ascii ''subscribe_ok''),
          slog_Uint64 ''track_alias'' (som_TrackAlias m),
          slog_Uint64 ''request_id'' (som_RequestID m),
          slog_Uint64 ''expires'' (of_int (Duration_Milliseconds (som_Expires m))),
          slog_Any ''group_order'' (AnyUint8 (som_GroupOrder m)),
          slog_Int ''content_exists'' ce] @
         (if som_ContentExists m
          then [slog_Uint64 ''largest_group_id'' (loc_Group (som_LargestLocation m)),
                slog_Uint64 ''largest_object_id'' (loc_Object (som_LargestLocation m))] else []) @
         log_parameters ''subscribe_parameters'' (som_Parameters m))"

definition SubscribeErrorMessage_LogValue :: "SubscribeErrorMessage \<Rightarrow> slog_Attr list" where
  "SubscribeErrorMessage_LogValue m =
       [slog_String ''type'' (ascii ''subscribe_error''),
        slog_Uint64 ''request_id'' (sem_RequestID m),
        slog_Uint64 ''error_code'' (sem_ErrorCode m),
        slog_String ''reason'' (sem_ReasonPhrase m),
        slog_Any ''reason_bytes'' (AnyBytes (sem_ReasonPhrase m))]"

definition SubscribeUpdateMessage_LogValue :: "SubscribeUpdateMessage \<Rightarrow> slog_Attr list" where
  "SubscribeUpdateMessage_LogValue m =
       [slog_String ''type'' (ascii ''subscribe_update''),
        slog_Uint64 ''request_id'' (sum_RequestID m),
        slog_Uint64 ''start_group'' (loc_Group (sum_StartLocation m)),
        slog_Uint64 ''start_object'' (loc_Object (sum_StartLocation m)),
        slog_Uint64 ''end_group'' (sum_EndGroup m),
        slog_Any ''subscriber_priority'' (AnyUint8 (sum_SubscriberPriority m))] @
       log_parameters ''setup_parameters'' (sum_Parameters m)"

definition UnsubscribeMessage_LogValue :: "UnsubscribeMessage \<Rightarrow> slog_Attr list" where
  "UnsubscribeMessage_LogValue m =
       [slog_String ''type'' (ascii ''unsubscribe''),
        slog_Uint64 ''request_id'' (usm_RequestID m)]"

definition SubscribeDoneMessage_LogValue :: "SubscribeDoneMessage \<Rightarrow> slog_Attr list" where
  "SubscribeDoneMessage_LogValue m =
       [slog_String ''type'' (ascii ''subscribe_done''),
        slog_Uint64 ''request_id'' (sdm_RequestID m),
        slog_Uint64 ''status_code'' (sdm_StatusCode m),
        slog_Uint64 ''stream_count'' (sdm_StreamCount m),
        slog_String ''reason'' (sdm_ReasonPhrase m)]"

definition FetchMessage_LogValue :: "FetchMessage \<Rightarrow> slog_Attr list" where
  "FetchMessage_LogValue m =
       [slog_String ''type'' (ascii ''fetch''),
        slog_Uint64 ''request_id'' (fm_RequestID m),
        slog_Any ''subscriber_priority'' (AnyUint8 (fm_SubscriberPriority m)),
        slog_Any ''group_order'' (AnyUint8 (fm_GroupOrder m)),
        slog_Uint64 ''fetch_type'' (fm_FetchType m)] @
       (if fm_FetchType m = FetchTypeStandalone
        then [slog_Any ''track_namespace'' (AnyTuple (fm_TrackNamespace m)),
              slog_Any ''track_name'' (RawInfo (fm_TrackName m)),
              slog_Uint64 ''start_group'' (fm_StartGroup m),
              slog_Uint64 ''start_object'' (fm_StartObject m),
              slog_Uint64 ''end_group'' (fm_EndGroup m),
              slog_Uint64 ''end_object'' (fm_EndObject m)] else []) @
       (if fm_FetchType m = FetchTypeAbsoluteJoining \<or> fm_FetchType m = FetchTypeRelativeJoining
        then [slog_Uint64 ''joining_subscribe_id'' (fm_JoiningSubscribeID m),
              slog_Uint64 ''preceding_group_offset'' (fm_JoiningStart m)] else []) @
       log_parameters ''setup_parameters'' (fm_Parameters m)"

definition FetchOkMessage_LogValue :: "FetchOkMessage \<Rightarrow> slog_Attr list" where
  "FetchOkMessage_LogValue m =
       [slog_String ''type'' (ascii ''fetch_ok''),
        slog_Uint64 ''request_id'' (fom_RequestID m),
        slog_Any ''group_order'' (AnyUint8 (fom_GroupOrder m)),
        slog_Any ''end_of_track'' (AnyUint8 (fom_EndOfTrack m)),
        slog_Uint64 ''largest_group_id'' (loc_Group (fom_EndLocation m)),
        slog_Uint64 ''largest_object_id'' (loc_Object (fom_EndLocation m))] @
       log_parameters ''subscribe_parameters'' (fom_SubscribeParameters m)"

definition FetchErrorMessage_LogValue :: "FetchErrorMessage \<Rightarrow> slog_Attr list" where
  "FetchErrorMessage_LogValue m =
       [slog_String ''type'' (ascii ''fetch_error''),
        slog_Uint64 ''request_id'' (fem_RequestID m),
        slog_Uint64 ''error_code'' (fem_ErrorCode m),
        slog_String ''reason'' (fem_ReasonPhrase m)]"

definition FetchCancelMessage_LogValue :: "FetchCancelMessage \<Rightarrow> slog_Attr list" where
  "FetchCancelMessage_LogValue m =
       [slog_String ''type'' (ascii ''fetch_cancel''),
        slog_Uint64 ''request_id'' (fcm_RequestID m)]"

definition TrackStatusRequestMessage_LogValue :: "TrackStatusRequestMessage \<Rightarrow> slog_Attr list" where
  "TrackStatusRequestMessage_LogValue m =
       [slog_String ''type'' (ascii ''track_status_request''),
        slog_Any ''track_namespace'' (AnyTuple (tsrm_TrackNamespace m)),
        slog_Any ''track_name'' (RawInfo (tsrm_TrackName m))]"

definition TrackStatusMessage_LogValue :: "TrackStatusMessage \<Rightarrow> slog_Attr list" where
  "TrackStatusMessage_LogValue m =
       [slog_String ''type'' (ascii ''track_status''),
        slog_Uint64 ''status_code'' (tsm_StatusCode m),
        slog_Uint64 ''last_group_id'' (loc_Group (tsm_LargestLocation m)),
        slog_Uint64 ''last_object_id'' (loc_Object (tsm_LargestLocation m))]"

definition AnnounceMessage_LogValue :: "AnnounceMessage \<Rightarrow> slog_Attr list" where
  "AnnounceMessage_LogValue m =
       [slog_String ''type'' (ascii ''announce''),
        slog_Any ''track_namespace'' (AnyTuple (am_TrackNamespace m))] @
       log_parameters ''parameters'' (am_Parameters m)"

definition AnnounceOkMessage_LogValue :: "AnnounceOkMessage \<Rightarrow> slog_Attr list" where
  "AnnounceOkMessage_LogValue m =
       [slog_String ''type'' (ascii ''announce_ok'')]"

definition AnnounceErrorMessage_LogValue :: "AnnounceErrorMessage \<Rightarrow> slog_Attr list" where
  "AnnounceErrorMessage_LogValue m =
       [slog_String ''type'' (ascii ''announce_error''),
        slog_Uint64 ''error_code'' (aem_ErrorCode m),
        slog_String ''reason'' (aem_ReasonPhrase m)]"

definition UnannounceMessage_LogValue :: "UnannounceMessage \<Rightarrow> slog_Attr list" where
  "UnannounceMessage_LogValue m =
       [slog_String ''type'' (ascii ''unannounce''),
        slog_Any ''track_namespace'' (AnyTuple (uam_TrackNamespace m))]"

definition AnnounceCancelMessage_LogValue :: "AnnounceCancelMessage \<Rightarrow> slog_Attr list" where
  "AnnounceCancelMessage_LogValue m =
       [slog_String ''type'' (ascii ''announce_cancel''),
        slog_Any ''track_namespace'' (AnyTuple (acm_TrackNamespace m)),
        slog_Uint64 ''error_code'' (acm_ErrorCode m),
        slog_String ''reason'' (acm_ReasonPhrase m)]"

definition SubscribeAnnouncesMessage_LogValue :: "SubscribeAnnouncesMessage \<Rightarrow> slog_Attr list" where
  "SubscribeAnnouncesMessage_LogValue m =
       [slog_String ''type'' (ascii ''subscribe_announces''),
        slog_Any ''track_namespace_prefix'' (AnyTuple (sam_TrackNamespacePrefix m))] @
       log_parameters ''parameters'' (sam_Parameters m)"

definition SubscribeAnnouncesOkMessage_LogValue :: "SubscribeAnnouncesOkMessage \<Rightarrow> slog_Attr list" where
  "SubscribeAnnouncesOkMessage_LogValue m =
       [slog_String ''type'' (ascii ''subscribe_announces_ok'')]"

definition SubscribeAnnouncesErrorMessage_LogValue :: "SubscribeAnnouncesErrorMessage \<Rightarrow> slog_Attr list" where
  "SubscribeAnnouncesErrorMessage_LogValue m =
       [slog_String ''type'' (ascii ''subscribe_announces_error''),
        slog_Uint64 ''error_code'' (saem_ErrorCode m),
        slog_String ''reason'' (saem_ReasonPhrase m)]"

definition UnsubscribeAnnouncesMessage_LogValue :: "UnsubscribeAnnouncesMessage \<Rightarrow> slog_Attr list" where
  "UnsubscribeAnnouncesMessage_LogValue m =
       [slog_String ''type'' (ascii ''unsubscribe_announces''),
        slog_Any ''track_namespace_prefix'' (AnyTuple (usam_TrackNamespacePrefix m))]"

definition PublishMessage_LogValue :: "PublishMessage \<Rightarrow> slog_Attr list" where
  "PublishMessage_LogValue m =
       []"

definition PublishOkMessage_LogValue :: "PublishOkMessage \<Rightarrow> slog_Attr list" where
  "PublishOkMessage_LogValue m =
       []"

definition PublishErrorMessage_LogValue :: "PublishErrorMessage \<Rightarrow> slog_Attr list" where
  "PublishErrorMessage_LogValue m =
       [slog_String ''type'' (ascii ''subscribe_error''),
        slog_Uint64 ''request_id'' (pem_RequestID m),
        slog_Uint64 ''error_code'' (pem_ErrorCode m),
        slog_String ''reason'' (pem_ReasonPhrase m),
        slog_Any ''reason_bytes'' (AnyBytes (pem_ReasonPhrase m))]"

text \<open>The call through the interface \<^verbatim>\<open>slog.LogValuer\<close>.\<close>

fun LogValue :: "ControlMessage \<Rightarrow> slog_Attr list" where
  "LogValue (ClientSetup m) = ClientSetupMessage_LogValue m"
| "LogValue (ServerSetup m) = ServerSetupMessage_LogValue m"
| "LogValue (GoAway m) = GoAwayMessage_LogValue m"
| "LogValue (MaxRequestID m) = MaxRequestIDMessage_LogValue m"
| "LogValue (RequestsBlocked m) = RequestsBlockedMessage_LogValue m"
| "LogValue (Subscribe m) = SubscribeMessage_LogValue m"
| "LogValue (SubscribeOk m) = SubscribeOkMessage_LogValue m"
| "LogValue (SubscribeError m) = SubscribeErrorMessage_LogValue m"
| "LogValue (Unsubscribe m) = UnsubscribeMessage_LogValue m"
| "LogValue (SubscribeUpdate m) = SubscribeUpdateMessage_LogValue m"
| "LogValue (SubscribeDone m) = SubscribeDoneMessage_LogValue m"
| "LogValue (Fetch m) = FetchMessage_LogValue m"
| "LogValue (FetchOk m) = FetchOkMessage_LogValue m"
| "LogValue (FetchError m) = FetchErrorMessage_LogValue m"
| "LogValue (FetchCancel m) = FetchCancelMessage_LogValue m"
| "LogValue (TrackStatusRequest m) = TrackStatusRequestMessage_LogValue m"
| "LogValue (TrackStatus m) = TrackStatusMessage_LogValue m"
| "LogValue (Announce m) = AnnounceMessage_LogValue m"
| "LogValue (AnnounceOk m) = AnnounceOkMessage_LogValue m"
| "LogValue (AnnounceError m) = AnnounceErrorMessage_LogValue m"
| "LogValue (Unannounce m) = UnannounceMessage_LogValue m"
| "LogValue (AnnounceCancel m) = AnnounceCancelMessage_LogValue m"
| "LogValue (SubscribeAnnounces m) = SubscribeAnnouncesMessage_LogValue m"
| "LogValue (SubscribeAnnouncesOk m) = SubscribeAnnouncesOkMessage_LogValue m"
| "LogValue (SubscribeAnnouncesError m) = SubscribeAnnouncesErrorMessage_LogValue m"
| "LogValue (UnsubscribeAnnounces m) = UnsubscribeAnnouncesMessage_LogValue m"
| "LogValue (Publish m) = PublishMessage_LogValue m"
| "LogValue (PublishOk m) = PublishOkMessage_LogValue m"
| "LogValue (PublishError m) = PublishErrorMessage_LogValue m"

lemmas LogValue_defs =
  ClientSetupMessage_LogValue_def
  ServerSetupMessage_LogValue_def
  GoAwayMessage_LogValue_def
  MaxRequestIDMessage_LogValue_def
  RequestsBlockedMessage_LogValue_def
  SubscribeMessage_LogValue_def
  SubscribeOkMessage_LogValue_def
  SubscribeErrorMessage_LogValue_def
  UnsubscribeMessage_LogValue_def
  SubscribeUpdateMessage_LogValue_def
  SubscribeDoneMessage_LogValue_def
  FetchMessage_LogValue_def
  FetchOkMessage_LogValue_def
  FetchErrorMessage_LogValue_def
  FetchCancelMessage_LogValue_def
  TrackStatusRequestMessage_LogValue_def
  TrackStatusMessage_LogValue_def
  AnnounceMessage_LogValue_def
  AnnounceOkMessage_LogValue_def
  AnnounceErrorMessage_LogValue_def
  UnannounceMessage_LogValue_def
  AnnounceCancelMessage_LogValue_def
  SubscribeAnnouncesMessage_LogValue_def
  SubscribeAnnouncesOkMessage_LogValue_def
  SubscribeAnnouncesErrorMessage_LogValue_def
  UnsubscribeAnnouncesMessage_LogValue_def
  PublishMessage_LogValue_def
  PublishOkMessage_LogValue_def
  PublishErrorMessage_LogValue_def

section \<open>Names and formats\<close>

definition unknown_message_type :: string where
  "unknown_message_type = ''unknown message type''"

definition FilterType_String :: "FilterType \<Rightarrow> gostring" where
  "FilterType_String f =
     (if f = FilterTypeLatestObject then ascii ''LatestObject''
      else if f = FilterTypeNextGroupStart then ascii ''NextGroupStart''
      else if f = FilterTypeAbsoluteStart then ascii ''AbsoluteStart''
      else if f = FilterTypeAbsoluteRange then ascii ''AbsoluteRange''
      else ascii ''Unknown('' @ FormatUint f @ ascii '')'')"

definition GroupOrder_String :: "GroupOrder \<Rightarrow> gostring" where
  "GroupOrder_String g =
     (if g = GroupOrderNone then ascii ''None''
      else if g = GroupOrderAscending then ascii ''Ascending''
      else if g = GroupOrderDescending then ascii ''Descending''
      else ascii ''Invalid('' @ decimal (unat g) @ ascii '')'')"

definition Version_String :: "Version \<Rightarrow> gostring" where
  "Version_String v = ascii ''0x'' @ hexadecimal (unat v)"

text \<open>The loop over the elements of a list, with a comma after all but the last of them.\<close>

fun list_String :: "('a \<Rightarrow> gostring) \<Rightarrow> nat \<Rightarrow> nat \<Rightarrow> 'a list \<Rightarrow> gostring \<Rightarrow> gostring" where
  "list_String fmt n i [] res = res"
| "list_String fmt n i (v # vs) res =
     list_String fmt n (Suc i) vs (if int i < int n - 1 then res @ fmt v @ ascii '', '' else res @ fmt v)"

definition versions_String :: "Version list \<Rightarrow> gostring" where
  "versions_String v = list_String Version_String (length v) 0 v (ascii ''['') @ ascii '']''"

text \<open>\<^verbatim>\<open>strings.Join\<close>, and the format \<^verbatim>\<open>%v\<close> of a slice of bytes and of a \<^verbatim>\<open>KeyValuePair\<close>.\<close>

fun Join :: "gostring list \<Rightarrow> gostring \<Rightarrow> gostring" where
  "Join [] sep = []"
| "Join [x] sep = x"
| "Join (x # xs) sep = x @ sep @ Join xs sep"

definition fmt_bytes :: "bytes \<Rightarrow> gostring" where
  "fmt_bytes bs = ascii ''['' @ Join (map (\<lambda>b. decimal (unat b)) bs) (ascii '' '') @ ascii '']''"

definition fmt_KeyValuePair :: "KeyValuePair \<Rightarrow> gostring" where
  "fmt_KeyValuePair p =
     ascii ''{'' @ FormatUint (kvp_Type p) @ ascii '' '' @ fmt_bytes (kvp_ValueBytes p) @ ascii '' '' @
     FormatUint (kvp_ValueVarInt p) @ ascii ''}''"

definition KeyValuePair_String :: "KeyValuePair \<Rightarrow> gostring" where
  "KeyValuePair_String p =
     (if kvp_Type p mod 2 = 1
      then ascii ''{key: '' @ FormatUint (kvp_Type p) @ ascii '', value: '' @ [39] @ fmt_bytes (kvp_ValueBytes p) @
           [39] @ ascii ''}''
      else ascii ''{key: '' @ FormatUint (kvp_Type p) @ ascii '', value: '' @ [39] @
           FormatUint (kvp_ValueVarInt p) @ [39] @ ascii ''}'')"

text \<open>
  \<^verbatim>\<open>KVPList.String\<close> formats the elements as values, and only pointers have the method
  \<^verbatim>\<open>KeyValuePair.String\<close>: the elements get the format of a struct.
\<close>

definition KVPList_String :: "KVPList \<Rightarrow> gostring" where
  "KVPList_String pp = list_String fmt_KeyValuePair (length pp) 0 pp (ascii ''['') @ ascii '']''"

text \<open>\<^verbatim>\<open>slices.Map\<close> and \<^verbatim>\<open>slices.Collect\<close> of \<^verbatim>\<open>internal/slices\<close>, an iterator that is run to its end.\<close>

fun slices_Map :: "'k list \<Rightarrow> ('k \<Rightarrow> 'v) \<Rightarrow> 'v list" where
  "slices_Map [] f = []"
| "slices_Map (v # ee) f = f v # slices_Map ee f"

definition json_element :: "gostring \<Rightarrow> gostring" where
  "json_element s = ascii ''{\"value\": \"'' @ s @ ascii ''\"}''"

definition Tuple_MarshalJSON :: "Tuple \<Rightarrow> bytes" where
  "Tuple_MarshalJSON t = ascii ''['' @ Join (slices_Map t json_element) (ascii '','') @ ascii '']''"

section \<open>Levels\<close>

text \<open>
  A level of \<^verbatim>\<open>slog\<close> is an integer. \<open>env\<close> is the value of the environment variable \<^verbatim>\<open>MOQ_LOG_LEVEL\<close>,
  empty when it is not set; a record is written when its level is not below the one of the handler.
\<close>

definition LevelDebug :: int where "LevelDebug = - 4"
definition LevelInfo :: int where "LevelInfo = 0"
definition LevelWarn :: int where "LevelWarn = 4"
definition LevelError :: int where "LevelError = 8"
definition LogLevelNone :: int where "LogLevelNone = 2 ^ 63 - 1"

definition readLoggingEnv :: "(gostring \<Rightarrow> gostring) \<Rightarrow> gostring \<Rightarrow> int" where
  "readLoggingEnv unicode env =
     (let level = ToLower unicode env
      in if level = [] then LogLevelNone
         else if level = ascii ''debug'' then LevelDebug
         else if level = ascii ''info'' then LevelInfo
         else if level = ascii ''warn'' then LevelWarn
         else if level = ascii ''error'' then LevelError
         else LogLevelNone)"

definition log_Enabled :: "int \<Rightarrow> int \<Rightarrow> bool" where
  "log_Enabled handler level \<longleftrightarrow> level \<ge> handler"

section \<open>What a log tells about a message\<close>

text \<open>
  The kinds of messages by number, and the type names that the logs use for those before
  \<^verbatim>\<open>Publish\<close>.
\<close>

fun kind :: "ControlMessage \<Rightarrow> nat" where
  "kind (ClientSetup m) = 0"
| "kind (ServerSetup m) = 1"
| "kind (GoAway m) = 2"
| "kind (MaxRequestID m) = 3"
| "kind (RequestsBlocked m) = 4"
| "kind (Subscribe m) = 5"
| "kind (SubscribeOk m) = 6"
| "kind (SubscribeError m) = 7"
| "kind (Unsubscribe m) = 8"
| "kind (SubscribeUpdate m) = 9"
| "kind (SubscribeDone m) = 10"
| "kind (Fetch m) = 11"
| "kind (FetchOk m) = 12"
| "kind (FetchError m) = 13"
| "kind (FetchCancel m) = 14"
| "kind (TrackStatusRequest m) = 15"
| "kind (TrackStatus m) = 16"
| "kind (Announce m) = 17"
| "kind (AnnounceOk m) = 18"
| "kind (AnnounceError m) = 19"
| "kind (Unannounce m) = 20"
| "kind (AnnounceCancel m) = 21"
| "kind (SubscribeAnnounces m) = 22"
| "kind (SubscribeAnnouncesOk m) = 23"
| "kind (SubscribeAnnouncesError m) = 24"
| "kind (UnsubscribeAnnounces m) = 25"
| "kind (Publish m) = 26"
| "kind (PublishOk m) = 27"
| "kind (PublishError m) = 28"

definition type_names :: "string list" where
  "type_names = [''client_setup'', ''server_setup'', ''goaway'', ''max_request_id'', ''requests_blocked'', ''subscribe'', ''subscribe_ok'', ''subscribe_error'', ''unsubscribe'', ''subscribe_update'', ''subscribe_done'', ''fetch'', ''fetch_ok'', ''fetch_error'', ''fetch_cancel'', ''track_status_request'', ''track_status'', ''announce'', ''announce_ok'', ''announce_error'', ''unannounce'', ''announce_cancel'', ''subscribe_announces'', ''subscribe_announces_ok'', ''subscribe_announces_error'', ''unsubscribe_announces'']"

definition log_type :: "ControlMessage \<Rightarrow> slog_Value option" where
  "log_type m = map_of (LogValue m) ''type''"

lemma first_attribute: "map_of (slog_String key v # attrs) key = Some (StringValue v)"
  by (simp add: slog_String_def)

lemma log_type_named:
  "kind m < length type_names \<Longrightarrow> log_type m = Some (StringValue (ascii (type_names ! kind m)))"
  unfolding log_type_def
  by (cases m; simp only: LogValue.simps LogValue_defs append_Cons Let_def first_attribute kind.simps)
    (simp_all add: type_names_def)

lemma log_type_Publish:
  "log_type (Publish p) = None" "log_type (PublishOk po) = None"
  "log_type (PublishError pe) = log_type (SubscribeError se)"
  by (simp_all add: log_type_def LogValue_defs slog_String_def)

lemma log_tells_kind:
  assumes "kind m < length type_names" "kind m' < length type_names"
  shows "log_type m = log_type m' \<longleftrightarrow> kind m = kind m'"
proof -
  have "distinct type_names" by (simp add: type_names_def)
  with assms show ?thesis
    by (simp add: log_type_named ascii_inject nth_eq_iff_index_eq)
qed

text \<open>The logs of these messages do not show the request they belong to.\<close>

lemma log_forgets_request:
  "LogValue (Announce (m1\<lparr>am_RequestID := i\<rparr>)) = LogValue (Announce m1)"
  "LogValue (AnnounceOk (m2\<lparr>aom_RequestID := i\<rparr>)) = LogValue (AnnounceOk m2)"
  "LogValue (AnnounceError (m3\<lparr>aem_RequestID := i\<rparr>)) = LogValue (AnnounceError m3)"
  "LogValue (SubscribeAnnounces (m4\<lparr>sam_RequestID := i\<rparr>)) = LogValue (SubscribeAnnounces m4)"
  "LogValue (SubscribeAnnouncesOk (m5\<lparr>saom_RequestID := i\<rparr>)) = LogValue (SubscribeAnnouncesOk m5)"
  "LogValue (SubscribeAnnouncesError (m6\<lparr>saem_RequestID := i\<rparr>)) = LogValue (SubscribeAnnouncesError m6)"
  "LogValue (TrackStatusRequest (m7\<lparr>tsrm_RequestID := i\<rparr>)) = LogValue (TrackStatusRequest m7)"
  "LogValue (TrackStatus (m8\<lparr>tsm_RequestID := i\<rparr>)) = LogValue (TrackStatus m8)"
  by (simp_all add: LogValue_defs)

text \<open>The expiry of a subscription is logged as the number of milliseconds that was received.\<close>

lemma expires_logged:
  assumes "unat e * 1000000 < 2 ^ 63"
  shows "Duration_Milliseconds (e * Millisecond) = int (unat e)"
proof -
  have "unat e * unat (1000000 :: Duration) < 2 ^ LENGTH(64)" using assms by simp
  then have u: "unat (e * Millisecond) = unat e * 1000000"
    using unat_mult_lem [of e "1000000"] by (simp add: Millisecond_def)
  then have "sint (e * Millisecond) = int (unat e * 1000000)" using assms by (simp only: sint_small)
  moreover have "sint Millisecond = 1000000" by (simp add: Millisecond_def)
  ultimately show ?thesis by (simp add: Duration_Milliseconds_def)
qed

lemma received_expires_logged:
  assumes "SubscribeOkMessage_parse qv v data = Inr m"
    and "bindR (advance (qv_Parse qv) data) (\<lambda>(_, data). bindR (advance (qv_Parse qv) data) (\<lambda>(_, data).
           bindR (advance (qv_Parse qv) data) (\<lambda>(e, _). Inr e))) = Inr e"
    and "unat e * 1000000 < 2 ^ 63"
  shows "(''expires'', Uint64Value e) \<in> set (SubscribeOkMessage_LogValue m)"
proof -
  have "som_Expires m = e * Millisecond"
    using assms(1, 2) by (auto simp: SubscribeOkMessage_parse_def bindR_eq_Inr split: prod.splits if_splits)
  then have "of_int (Duration_Milliseconds (som_Expires m)) = e"
    by (simp only: expires_logged [OF assms(3)] of_int_of_nat_eq) simp
  then show ?thesis
    by (simp add: SubscribeOkMessage_LogValue_def slog_Uint64_def Let_def)
qed

section \<open>Names\<close>

text \<open>
  Every type that the parser accepts has a name. One type with a name, \<^verbatim>\<open>TrackStatusError\<close>, has no
  parser.
\<close>

lemma named_types:
  "controlMessageType_String t = unknown_message_type \<or> t = messageTypeTrackStatusError \<Longrightarrow>
   parse_by_type qv t msg = Inl (Fail (errInvalidMessageType t))"
  by (auto simp: controlMessageType_String_def unknown_message_type_def parse_by_type_def messageType_defs split: if_splits)

definition type_table :: "(controlMessageType \<times> string) list" where
  "type_table =
     [(messageTypeClientSetup, ''ClientSetup''),
      (messageTypeServerSetup, ''ServerSetup''),
      (messageTypeGoAway, ''GoAway''),
      (messageTypeMaxRequestID, ''MaxRequestID''),
      (messageTypeRequestsBlocked, ''RequestsBlocked''),
      (messageTypeSubscribe, ''Subscribe''),
      (messageTypeSubscribeOk, ''SubscribeOk''),
      (messageTypeSubscribeError, ''SubscribeError''),
      (messageTypeUnsubscribe, ''Unsubscribe''),
      (messageTypeSubscribeUpdate, ''SubscribeUpdate''),
      (messageTypeSubscribeDone, ''SubscribeDone''),
      (messageTypePublish, ''Publish''),
      (messageTypePublishOk, ''PublishOk''),
      (messageTypePublishError, ''PublishError''),
      (messageTypeFetch, ''Fetch''),
      (messageTypeFetchOk, ''FetchOk''),
      (messageTypeFetchError, ''FetchError''),
      (messageTypeFetchCancel, ''FetchCancel''),
      (messageTypeTrackStatus, ''TrackStatus''),
      (messageTypeTrackStatusOk, ''TrackStatusOk''),
      (messageTypeTrackStatusError, ''TrackStatusError''),
      (messageTypeAnnounce, ''Announce''),
      (messageTypeAnnounceOk, ''AnnounceOk''),
      (messageTypeAnnounceError, ''AnnounceError''),
      (messageTypeUnannounce, ''Unannounce''),
      (messageTypeAnnounceCancel, ''AnnounceCancel''),
      (messageTypeSubscribeNamespace, ''SubscribeNamespace''),
      (messageTypeSubscribeNamespaceOk, ''SubscribeNamespaceOk''),
      (messageTypeSubscribeNamespaceError, ''SubscribeNamespaceError''),
      (messageTypeUnsubscribeNamespace, ''UnsubscribeNamespace'')]"

lemma type_table_String:
  "controlMessageType_String t =
     (case map_of type_table t of Some s \<Rightarrow> s | None \<Rightarrow> unknown_message_type)"
  unfolding type_table_def controlMessageType_String_def unknown_message_type_def map_of.simps fun_upd_apply
  by (simp only: if_distrib [where f = "case_option ''unknown message type'' (\<lambda>s. s)"] option.case fst_conv snd_conv eq_commute [of t])

lemma type_name_inject:
  assumes "controlMessageType_String t = controlMessageType_String t'"
    and "controlMessageType_String t \<noteq> unknown_message_type"
  shows "t = t'"
proof -
  obtain s where s: "map_of type_table t = Some s"
    using assms(2) by (auto simp: type_table_String split: option.splits)
  then have "map_of type_table t' = Some s"
    using assms by (auto simp: type_table_String split: option.splits)
  with s have "(t, s) \<in> set type_table" "(t', s) \<in> set type_table" by (simp_all add: map_of_SomeD)
  moreover have "distinct (map snd type_table)" by (simp add: type_table_def)
  ultimately show ?thesis
    using inj_onD [of snd "set type_table" "(t, s)" "(t', s)"] by (simp add: distinct_map)
qed

lemma ascii_prefix: "take (length p) s \<noteq> p \<Longrightarrow> ascii s \<noteq> ascii p @ x"
  by (metis append_eq_conv_conj ascii_def ascii_inject length_map take_map)

lemma FilterType_String_inject: "FilterType_String f = FilterType_String g \<longleftrightarrow> f = g"
proof -
  have u: "ascii s \<noteq> ascii ''Unknown('' @ x" "ascii ''Unknown('' @ x \<noteq> ascii s"
    if "s \<in> {''LatestObject'', ''NextGroupStart'', ''AbsoluteStart'', ''AbsoluteRange''}" for s x
    using that ascii_prefix [of "''Unknown(''" s x] by (auto simp: eq_commute [of "ascii s"])
  show ?thesis
    unfolding FilterType_String_def by (simp add: ascii_inject FormatUint_inject u)
qed

lemma GroupOrder_String_inject: "GroupOrder_String f = GroupOrder_String g \<longleftrightarrow> f = g"
proof -
  have u: "ascii s \<noteq> ascii ''Invalid('' @ x" "ascii ''Invalid('' @ x \<noteq> ascii s"
    if "s \<in> {''None'', ''Ascending'', ''Descending''}" for s x
    using that ascii_prefix [of "''Invalid(''" s x] by (auto simp: eq_commute [of "ascii s"])
  show ?thesis
    unfolding GroupOrder_String_def
    by (simp add: ascii_inject decimal_inject word_unat_eq_iff u del: decimal.simps)
qed

lemma Version_String_inject: "Version_String v = Version_String w \<longleftrightarrow> v = w"
  by (simp add: Version_String_def hexadecimal_inject word_unat_eq_iff del: hexadecimal.simps)

lemma list_String_Join:
  "i + length xs = n \<Longrightarrow> list_String fmt n i xs res = res @ Join (map fmt xs) (ascii '', '')"
proof (induction xs arbitrary: i res)
  case (Cons x xs)
  then show ?case using Cons.IH [of "Suc i"] by (cases xs) simp_all
qed simp

text \<open>
  A tuple cannot be read from its string, and an element with a quote passes for two elements in
  the JSON form.
\<close>

lemma Tuple_String_concat: "Tuple_String t = concat t"
proof -
  have "foldl (@) res t = res @ concat t" for res by (induction t arbitrary: res) simp_all
  then show ?thesis by (simp add: Tuple_String_def)
qed

lemma slices_Map_map: "slices_Map ee f = map f ee"
  by (induction ee) simp_all

lemma Tuple_MarshalJSON_quotes:
  "Tuple_MarshalJSON [a @ ascii ''\"},{\"value\": \"'' @ b] = Tuple_MarshalJSON [a, b]"
  by (simp add: Tuple_MarshalJSON_def slices_Map_map json_element_def ascii_def)

section \<open>Levels\<close>

lemma log_level_unset:
  assumes "level < LogLevelNone"
  shows "\<not> log_Enabled (readLoggingEnv unicode []) level"
  using assms by (simp add: readLoggingEnv_def ToLower_def log_Enabled_def)

lemma log_level_case:
  assumes "\<forall>c \<in> set s. c < 128"
  shows "readLoggingEnv unicode (map lower_byte s) = readLoggingEnv unicode s"
proof -
  have "lower_byte (lower_byte c) = lower_byte c" if "c < 128" for c
    unfolding lower_byte_def
    by (auto simp: word_le_nat_alt word_less_nat_alt unat_word_ariths)
  moreover have "lower_byte c < 128" if "c < 128" for c
    using that unfolding lower_byte_def
    by (auto simp: word_le_nat_alt word_less_nat_alt unat_word_ariths)
  ultimately show ?thesis using assms by (simp add: readLoggingEnv_def ToLower_def o_def cong: map_cong)
qed

end
