(* ===== verification/Fec_ReedSolomon.thy ===== *)
theory Fec_ReedSolomon
  imports Fec_Xor
begin

text \<open>
  The block encoder and decoder over a Reed-Solomon library
  (\<^verbatim>\<open>fec/reed-solomon/reed-solomon.go\<close>). The library (\<^verbatim>\<open>github.com/klauspost/reedsolomon\<close>) is
  a parameter, the record of its four methods the code calls, and the locale \<^verbatim>\<open>erasure_code\<close>
  states what its documentation promises of them. The lemmas show which state the encoder is in
  after any number of payloads and that a block of which at most as many shards are lost as
  there are parity shards comes out of the decoder as it left the encoder.
\<close>

section \<open>The library\<close>

text \<open>
  \<^verbatim>\<open>Encode\<close> and \<^verbatim>\<open>Reconstruct\<close> write into the slice of shards they are given: the second
  component is the slice after the call. A nil shard is the empty list.
\<close>

record reedsolomon =
  rs_Split :: "bytes \<Rightarrow> bytes list result"
  rs_Encode :: "bytes list \<Rightarrow> go_error option \<times> bytes list"
  rs_Verify :: "bytes list \<Rightarrow> bool result"
  rs_Reconstruct :: "bytes list \<Rightarrow> go_error option \<times> bytes list"

section \<open>Encoder\<close>

record RSConfig =
  rsc_DataShards :: int
  rsc_ParityShards :: int

record RSEncoder =
  rse_rsEncoder :: reedsolomon
  rse_config :: RSConfig
  rse_blockID :: int
  rse_seqID :: int
  rse_buffer :: "bytes list"

definition RS_NewEncoder :: "(int \<Rightarrow> int \<Rightarrow> reedsolomon result) \<Rightarrow> RSConfig \<Rightarrow> RSEncoder option" where
  "RS_NewEncoder New config =
     (case New (rsc_DataShards config) (rsc_ParityShards config) of
        Inl err \<Rightarrow> None
      | Inr enc \<Rightarrow> Some \<lparr>rse_rsEncoder = enc, rse_config = config, rse_blockID = 0, rse_seqID = 0,
                         rse_buffer = []\<rparr>)"

definition RS_flushEncoder :: "RSEncoder \<Rightarrow> RSEncoder" where
  "RS_flushEncoder e = e\<lparr>rse_buffer := [], rse_blockID := rse_blockID e + 1, rse_seqID := 0\<rparr>"

text \<open>
  The slice expressions \<^verbatim>\<open>xs[:k]\<close> and \<^verbatim>\<open>xs[k:]\<close> of the return statements, which panic for an
  index out of range.
\<close>

definition slice_at :: "int \<Rightarrow> 'a list \<Rightarrow> ('a list \<times> 'a list) result" where
  "slice_at k xs = (if k < 0 \<or> int (length xs) < k then Inl Panic
                    else Inr (take (nat k) xs, drop (nat k) xs))"

text \<open>
  \<^verbatim>\<open>TryEncode\<close> returns \<^verbatim>\<open>nil, nil\<close> (here \<^term>\<open>None\<close>) until the block is full. The errors of the
  three library calls are ignored; after a failed \<^verbatim>\<open>Split\<close> the slice of shards is nil.
\<close>

definition RS_TryEncode ::
  "RSEncoder \<Rightarrow> bytes \<Rightarrow> (bytes list \<times> bytes list) option result \<times> RSEncoder" where
  "RS_TryEncode e payload =
     (let e = e\<lparr>rse_buffer := rse_buffer e @ [payload], rse_seqID := rse_seqID e + 1\<rparr>
      in if rse_seqID e < rsc_DataShards (rse_config e) then (Inr None, e)
         else let data = concat (rse_buffer e);
                  shards = (case rs_Split (rse_rsEncoder e) data of Inr s \<Rightarrow> s | Inl _ \<Rightarrow> []);
                  shards = snd (rs_Encode (rse_rsEncoder e) shards);
                  e = RS_flushEncoder e
              in (bindR (slice_at (rsc_DataShards (rse_config e)) shards) (\<lambda>r. Inr (Some r)), e))"

section \<open>Decoder\<close>

record RSDecoder =
  rsd_rsDecoder :: reedsolomon
  rsd_config :: RSConfig
  rsd_blockID :: int
  rsd_seqID :: int
  rsd_buffer :: "bytes list"

definition RS_NewDecoder :: "(int \<Rightarrow> int \<Rightarrow> reedsolomon result) \<Rightarrow> RSConfig \<Rightarrow> RSDecoder option" where
  "RS_NewDecoder New config =
     (case New (rsc_DataShards config) (rsc_ParityShards config) of
        Inl err \<Rightarrow> None
      | Inr dec \<Rightarrow> Some \<lparr>rsd_rsDecoder = dec, rsd_config = config, rsd_blockID = 0, rsd_seqID = 0,
                         rsd_buffer = []\<rparr>)"

definition RS_flushDecoder :: "RSDecoder \<Rightarrow> RSDecoder" where
  "RS_flushDecoder d = d\<lparr>rsd_buffer := [], rsd_blockID := rsd_blockID d + 1, rsd_seqID := 0\<rparr>"

definition RS_TryDecode ::
  "RSDecoder \<Rightarrow> bytes \<Rightarrow> (bytes list \<times> bytes list) option result \<times> RSDecoder" where
  "RS_TryDecode d payload =
     (let d = d\<lparr>rsd_buffer := rsd_buffer d @ [payload], rsd_seqID := rsd_seqID d + 1\<rparr>
      in if rsd_seqID d < rsc_DataShards (rsd_config d) + rsc_ParityShards (rsd_config d)
         then (Inr None, d)
         else let dataPackets = snd (rs_Reconstruct (rsd_rsDecoder d) (rsd_buffer d));
                  d = RS_flushDecoder d
              in (bindR (slice_at (rsc_DataShards (rsd_config d)) dataPackets) (\<lambda>r. Inr (Some r)), d))"

section \<open>Runs of both over the packets of a block\<close>

text \<open>The result of the last call and the state after all of them.\<close>

fun RS_encode_all :: "RSEncoder \<Rightarrow> bytes list \<Rightarrow> (bytes list \<times> bytes list) option result \<times> RSEncoder" where
  "RS_encode_all e [] = (Inr None, e)"
| "RS_encode_all e [p] = RS_TryEncode e p"
| "RS_encode_all e (p # q # ps) = RS_encode_all (snd (RS_TryEncode e p)) (q # ps)"

fun RS_decode_all :: "RSDecoder \<Rightarrow> bytes list \<Rightarrow> (bytes list \<times> bytes list) option result \<times> RSDecoder" where
  "RS_decode_all d [] = (Inr None, d)"
| "RS_decode_all d [p] = RS_TryDecode d p"
| "RS_decode_all d (p # q # ps) = RS_decode_all (snd (RS_TryDecode d p)) (q # ps)"

lemma RS_encode_all_block:
  assumes "rse_seqID e = int (length (rse_buffer e))" and "ps \<noteq> []"
    and "int (length (rse_buffer e) + length ps) = rsc_DataShards (rse_config e)"
  shows "RS_encode_all e ps =
    (bindR (slice_at (rsc_DataShards (rse_config e))
       (snd (rs_Encode (rse_rsEncoder e)
         (case rs_Split (rse_rsEncoder e) (concat (rse_buffer e @ ps)) of Inr s \<Rightarrow> s | Inl _ \<Rightarrow> []))))
       (\<lambda>r. Inr (Some r)),
     e\<lparr>rse_buffer := [], rse_blockID := rse_blockID e + 1, rse_seqID := 0\<rparr>)"
  using assms
proof (induction e ps rule: RS_encode_all.induct)
  case (2 e p)
  then show ?case by (simp add: RS_TryEncode_def RS_flushEncoder_def Let_def)
next
  case (3 e p q ps)
  have "snd (RS_TryEncode e p) = e\<lparr>rse_buffer := rse_buffer e @ [p], rse_seqID := rse_seqID e + 1\<rparr>"
    using 3(2,4) by (simp add: RS_TryEncode_def Let_def)
  then show ?case using 3 by (simp add: algebra_simps)
qed simp

lemma RS_decode_all_block:
  assumes "rsd_seqID d = int (length (rsd_buffer d))" and "ps \<noteq> []"
    and "int (length (rsd_buffer d) + length ps) =
      rsc_DataShards (rsd_config d) + rsc_ParityShards (rsd_config d)"
  shows "RS_decode_all d ps =
    (bindR (slice_at (rsc_DataShards (rsd_config d))
       (snd (rs_Reconstruct (rsd_rsDecoder d) (rsd_buffer d @ ps)))) (\<lambda>r. Inr (Some r)),
     d\<lparr>rsd_buffer := [], rsd_blockID := rsd_blockID d + 1, rsd_seqID := 0\<rparr>)"
  using assms
proof (induction d ps rule: RS_decode_all.induct)
  case (2 d p)
  then show ?case by (simp add: RS_TryDecode_def RS_flushDecoder_def Let_def)
next
  case (3 d p q ps)
  have "snd (RS_TryDecode d p) = d\<lparr>rsd_buffer := rsd_buffer d @ [p], rsd_seqID := rsd_seqID d + 1\<rparr>"
    using 3(2,4) by (simp add: RS_TryDecode_def Let_def)
  then show ?case using 3 by (simp add: algebra_simps)
qed simp

section \<open>What the library promises\<close>

text \<open>A slice of shards of one positive length, and the slice with the shards of a set lost.\<close>

definition shards_of :: "nat \<Rightarrow> nat \<Rightarrow> bytes list \<Rightarrow> bool" where
  "shards_of k w shards \<longleftrightarrow> length shards = k \<and> 0 < w \<and> (\<forall>s \<in> set shards. length s = w)"

definition lose :: "nat set \<Rightarrow> bytes list \<Rightarrow> bytes list" where
  "lose L shards = map (\<lambda>i. if i \<in> L then [] else shards ! i) [0..<length shards]"

locale erasure_code =
  fixes rs :: reedsolomon and n :: nat and k :: nat
  assumes some_data: "0 < n"
    and Split_short: "\<exists>err. rs_Split rs [] = Inl (Fail err)"
    and Split_ok: "data \<noteq> [] \<Longrightarrow> \<exists>shards w pad. rs_Split rs data = Inr shards \<and>
      shards_of (n + k) w shards \<and> concat (take n shards) = data @ replicate pad 0"
    and Encode_short: "snd (rs_Encode rs []) = []"
    and Encode_data: "shards_of (n + k) w shards \<Longrightarrow>
      shards_of (n + k) w (snd (rs_Encode rs shards)) \<and>
      take n (snd (rs_Encode rs shards)) = take n shards"
    and Reconstruct_ok: "shards_of (n + k) w shards \<Longrightarrow> finite L \<Longrightarrow> card L \<le> k \<Longrightarrow>
      rs_Reconstruct rs (lose L (snd (rs_Encode rs shards))) = (None, snd (rs_Encode rs shards))"
begin

lemma block_roundtrip:
  assumes "rse_rsEncoder e = rs" and "rse_config e = \<lparr>rsc_DataShards = int n, rsc_ParityShards = int k\<rparr>"
    and "rse_seqID e = 0" and "rse_buffer e = []"
    and "rsd_rsDecoder d = rs" and "rsd_config d = \<lparr>rsc_DataShards = int n, rsc_ParityShards = int k\<rparr>"
    and "rsd_seqID d = 0" and "rsd_buffer d = []"
    and "length payloads = n" and "concat payloads \<noteq> []" and "finite L" and "card L \<le> k"
  shows "\<exists>data parity pad.
    RS_encode_all e payloads = (Inr (Some (data, parity)), e\<lparr>rse_blockID := rse_blockID e + 1\<rparr>) \<and>
    length data = n \<and> length parity = k \<and> concat data = concat payloads @ replicate pad 0 \<and>
    RS_decode_all d (lose L (data @ parity)) = (Inr (Some (data, parity)), d\<lparr>rsd_blockID := rsd_blockID d + 1\<rparr>)"
proof -
  obtain shards w pad where split: "rs_Split rs (concat payloads) = Inr shards"
    and sh: "shards_of (n + k) w shards" and data: "concat (take n shards) = concat payloads @ replicate pad 0"
    using Split_ok [OF assms(10)] by blast
  define enc where "enc = snd (rs_Encode rs shards)"
  have enc: "shards_of (n + k) w enc" "take n enc = take n shards"
    using Encode_data [OF sh] by (auto simp: enc_def)
  have len: "length enc = n + k" using enc(1) by (simp add: shards_of_def)
  have "payloads \<noteq> []" using assms(10) by auto
  then have e: "RS_encode_all e payloads =
      (Inr (Some (take n enc, drop n enc)), e\<lparr>rse_blockID := rse_blockID e + 1\<rparr>)"
    using assms(1-4,9) len split
    by (simp add: RS_encode_all_block slice_at_def enc_def [symmetric])
  have "lose L enc \<noteq> []" using len some_data by (simp add: lose_def)
  then have "RS_decode_all d (lose L enc) =
      (Inr (Some (take n enc, drop n enc)), d\<lparr>rsd_blockID := rsd_blockID d + 1\<rparr>)"
    using assms(5-8,11,12) len Reconstruct_ok [OF sh assms(11,12)]
    by (simp add: RS_decode_all_block slice_at_def enc_def [symmetric] lose_def)
  moreover have "concat (take n enc) = concat payloads @ replicate pad 0" using data enc(2) by simp
  moreover have "length (take n enc) = n" "length (drop n enc) = k" "take n enc @ drop n enc = enc"
    using len by simp_all
  ultimately show ?thesis using e by metis
qed

lemma empty_block_panics:
  assumes "rse_rsEncoder e = rs" and "rsc_DataShards (rse_config e) = int n"
    and "rse_seqID e = int (length (rse_buffer e))" and "int (length (rse_buffer e)) + 1 = int n"
    and "concat (rse_buffer e) = []"
  shows "fst (RS_TryEncode e []) = Inl Panic"
proof -
  obtain err where "rs_Split rs [] = Inl (Fail err)" using Split_short by blast
  then show ?thesis using assms some_data Encode_short
    by (simp add: RS_TryEncode_def Let_def RS_flushEncoder_def slice_at_def del: concat_eq_Nil_conv)
qed

end

section \<open>The demonstration\<close>

text \<open>
  \<^verbatim>\<open>main\<close> of \<^verbatim>\<open>fec/reed-solomon/main.go\<close>: seven payloads of one byte, three shards lost. The result is
  what it prints: data and parity, the shards with the missing ones, what comes back. A nil encoder
  or decoder makes the first call panic.
\<close>

definition rs_main ::
  "(int \<Rightarrow> int \<Rightarrow> reedsolomon result) \<Rightarrow>
     ((bytes list \<times> bytes list) \<times> bytes list \<times> (bytes list \<times> bytes list)) result" where
  "rs_main New =
     (let conf = \<lparr>rsc_DataShards = 7, rsc_ParityShards = 3\<rparr>
      in case RS_NewEncoder New conf of
           None \<Rightarrow> Inl Panic
         | Some enc \<Rightarrow>
             bindR (fst (RS_encode_all enc (map (\<lambda>i. [of_nat i]) [0..<7]))) (\<lambda>r.
             let (data, parity) = (case r of None \<Rightarrow> ([], []) | Some p \<Rightarrow> p);
                 shards = data @ parity
             in if length shards < 3 then Inl Panic
                else let shards = shards[1 := [], 2 := [], 0 := []]
                     in case RS_NewDecoder New conf of
                          None \<Rightarrow> Inl Panic
                        | Some dec \<Rightarrow>
                            bindR (fst (RS_decode_all dec shards)) (\<lambda>r.
                            Inr ((data, parity), shards, case r of None \<Rightarrow> ([], []) | Some p \<Rightarrow> p))))"

lemma lose_first: "3 \<le> length xs \<Longrightarrow> lose {0, 1, 2} xs = xs[1 := [], 2 := [], 0 := []]"
  by (rule nth_equalityI) (auto simp: lose_def nth_list_update)

lemma demonstration_recovers:
  assumes "erasure_code rs 7 3" and "New 7 3 = Inr rs"
  shows "\<exists>data parity missing pad. rs_main New = Inr ((data, parity), missing, (data, parity)) \<and>
    take 3 missing = [[], [], []] \<and> concat data = [0, 1, 2, 3, 4, 5, 6] @ replicate pad 0"
proof -
  let ?conf = "\<lparr>rsc_DataShards = 7, rsc_ParityShards = 3\<rparr>"
  let ?e = "\<lparr>rse_rsEncoder = rs, rse_config = ?conf, rse_blockID = 0, rse_seqID = 0, rse_buffer = []\<rparr>"
  let ?d = "\<lparr>rsd_rsDecoder = rs, rsd_config = ?conf, rsd_blockID = 0, rsd_seqID = 0, rsd_buffer = []\<rparr>"
  let ?p = "map (\<lambda>i. [of_nat i]) [0..<7] :: bytes list"
  have p: "concat ?p = [0, 1, 2, 3, 4, 5, 6]" by (simp add: upt_rec)
  obtain data parity pad where b: "fst (RS_encode_all ?e ?p) = Inr (Some (data, parity))"
      "length data = 7" "length parity = 3" "concat data = concat ?p @ replicate pad 0"
      "fst (RS_decode_all ?d (lose {0, 1, 2} (data @ parity))) = Inr (Some (data, parity))"
    using erasure_code.block_roundtrip [OF assms(1), of ?e ?d ?p "{0, 1, 2}"] p by auto
  have m: "lose {0, 1, 2} (data @ parity) = (data @ parity)[1 := [], 2 := [], 0 := []]"
    using b(2) by (intro lose_first) simp
  have "take 3 (lose {0, 1, 2} (data @ parity)) = [[], [], []]"
    using b(2) by (simp add: lose_def upt_rec take_map)
  moreover have "rs_main New = Inr ((data, parity), lose {0, 1, 2} (data @ parity), (data, parity))"
    using b m assms(2) by (simp add: rs_main_def RS_NewEncoder_def RS_NewDecoder_def)
  ultimately show ?thesis using b(4) p by metis
qed

section \<open>The XOR code as an erasure code\<close>

text \<open>
  The parity packet of \<^verbatim>\<open>fec/xor\<close> is such a code with one parity shard: it shows that the laws
  can hold together and that the two packages agree on what they promise.
\<close>

definition xor_code :: "nat \<Rightarrow> reedsolomon" where
  "xor_code n =
     \<lparr>rs_Split = (\<lambda>data.
        if data = [] then Inl (Fail (OtherError 0))
        else let w = (length data + n - 1) div n;
                 padded = data @ replicate (n * w - length data) 0
             in Inr (map (\<lambda>i. take w (drop (i * w) padded)) [0..<n] @ [replicate w 0])),
      rs_Encode = (\<lambda>shards.
        if length shards \<noteq> n + 1 then (Some (OtherError 1), shards)
        else (None, take n shards @ [foldl xor_into (replicate (max_len shards 0) 0) (take n shards)])),
      rs_Verify = (\<lambda>shards. Inr (foldl xor_into (replicate (max_len shards 0) 0) shards
                                = replicate (max_len shards 0) 0)),
      rs_Reconstruct = (\<lambda>shards.
        case [i \<leftarrow> [0..<length shards]. shards ! i = []] of
          [] \<Rightarrow> (None, shards)
        | [i] \<Rightarrow> (None, shards[i := foldl xor_into (replicate (max_len shards 0) 0) shards])
        | _ \<Rightarrow> (Some (OtherError 2), shards))\<rparr>"

lemma concat_chunks:
  "length xs = n * w \<Longrightarrow> concat (map (\<lambda>i. take w (drop (i * w) xs)) [0..<n]) = xs"
proof (induction n arbitrary: xs)
  case (Suc n)
  have "concat (map (\<lambda>i. take w (drop (i * w) xs)) [0..<Suc n])
      = take w xs @ concat (map (\<lambda>i. take w (drop (i * w) (drop w xs))) [0..<n])"
    by (simp add: upt_conv_Cons map_Suc_upt [symmetric] comp_def add.commute del: upt_Suc map_Suc_upt)
  also have "\<dots> = take w xs @ drop w xs" using Suc.IH [of "drop w xs"] Suc.prems by (simp only: length_drop) simp
  finally show ?case by simp
qed simp

lemma max_len_shards:
  assumes "\<forall>s \<in> set shards. length s = w \<or> s = []" and "\<exists>s \<in> set shards. length s = w"
  shows "max_len shards 0 = w"
proof (rule antisym)
  have "m \<le> w \<Longrightarrow> max_len xs m \<le> w" if "set xs \<subseteq> set shards" for xs m
    using that assms(1) by (induction xs arbitrary: m) auto
  then show "max_len shards 0 \<le> w" by simp
  show "w \<le> max_len shards 0" using assms(2) max_len_ge by blast
qed

lemma xor_all_but:
  assumes "foldl xor_into (replicate w 0) xs = replicate w 0" and "i < length xs" and "length (xs ! i) = w"
  shows "foldl xor_into (replicate w 0) (xs[i := []]) = xs ! i"
proof -
  have "mset xs = mset (xs ! i # take i xs @ drop (Suc i) xs)"
    using assms(2) by (metis id_take_nth_drop union_code mset.simps(2) mset_append union_mset_add_mset_right)
  then have "replicate w 0 = xor_into (foldl xor_into (replicate w 0) (take i xs @ drop (Suc i) xs)) (xs ! i)"
    using assms(1) by (metis foldl_Cons foldl_xor_mset foldl_xor_step)
  then have "foldl xor_into (replicate w 0) (take i xs @ drop (Suc i) xs) = xor_into (replicate w 0) (xs ! i)"
    by (metis xor_into_cancel)
  moreover have "xor_into a [] = a" for a by (cases a) auto
  ultimately show ?thesis using assms(2,3) by (simp add: upd_conv_take_nth_drop xor_zeros)
qed

lemma shards_nonempty: "shards_of m w xs \<Longrightarrow> j < m \<Longrightarrow> xs ! j \<noteq> []"
  unfolding shards_of_def by (metis length_greater_0_conv nth_mem)

lemma lose_one:
  assumes "shards_of m w xs" and "i < m" and "L \<inter> {..<m} = {i}"
  shows "lose L xs = xs[i := []]" and "[j \<leftarrow> [0..<m]. xs[i := []] ! j = []] = [i]"
proof -
  have len: "length xs = m" using assms(1) by (simp add: shards_of_def)
  note ne = shards_nonempty [OF assms(1)]
  have "j \<in> L \<longleftrightarrow> j = i" if "j < m" for j using assms(3) that by blast
  then show "lose L xs = xs[i := []]"
    using assms(2) len by (intro nth_equalityI) (simp_all add: lose_def nth_list_update)
  have "[j \<leftarrow> [0..<m]. xs[i := []] ! j = []] = [j \<leftarrow> [0..<m]. j = i]"
    using len ne assms(2) by (intro filter_cong) (auto simp: nth_list_update)
  also have "\<dots> = [i]" using assms(2)
    by (induction m) (auto simp: less_Suc_eq)
  finally show "[j \<leftarrow> [0..<m]. xs[i := []] ! j = []] = [i]" .
qed

lemma lose_none:
  assumes "shards_of m w xs" and "L \<inter> {..<m} = {}"
  shows "lose L xs = xs" and "[j \<leftarrow> [0..<m]. xs ! j = []] = []"
proof -
  have "length xs = m" using assms(1) by (simp add: shards_of_def)
  then show "lose L xs = xs" using assms(2) by (intro nth_equalityI) (auto simp: lose_def disjoint_iff)
  show "[j \<leftarrow> [0..<m]. xs ! j = []] = []"
    using shards_nonempty [OF assms(1)] by (simp add: filter_empty_conv)
qed

lemma xor_code_Encode:
  assumes "shards_of (n + 1) w shards"
  defines "enc \<equiv> snd (rs_Encode (xor_code n) shards)"
  shows "shards_of (n + 1) w enc" and "take n enc = take n shards"
    and "foldl xor_into (replicate w 0) enc = replicate w 0"
proof -
  have ml: "max_len shards 0 = w"
  proof (rule max_len_shards)
    show "\<exists>s\<in>set shards. length s = w" using assms(1) by (cases shards) (auto simp: shards_of_def)
  qed (use assms(1) in \<open>auto simp: shards_of_def\<close>)
  have enc: "enc = take n shards @ [foldl xor_into (replicate w 0) (take n shards)]"
    using assms(1) by (simp add: enc_def xor_code_def shards_of_def ml)
  show "shards_of (n + 1) w enc" "take n enc = take n shards"
    using assms(1) by (auto simp: enc shards_of_def dest: in_set_takeD)
  have "xor_into a a = replicate (length a) 0" for a by (rule nth_equalityI) (auto simp: nth_xor_into)
  then show "foldl xor_into (replicate w 0) enc = replicate w 0" by (simp add: enc)
qed

lemma xor_code_Reconstruct:
  assumes "shards_of (n + 1) w xs" and "0 < n" and "foldl xor_into (replicate w 0) xs = replicate w 0"
    and "finite L" and "card L \<le> 1"
  shows "rs_Reconstruct (xor_code n) (lose L xs) = (None, xs)"
proof (cases "L \<inter> {..<n + 1} = {}")
  case True
  then show ?thesis using lose_none [OF assms(1)] assms(1) by (simp add: xor_code_def shards_of_def)
next
  case False
  then obtain i where i: "i \<in> L" "i < n + 1" by auto
  then have L: "L \<inter> {..<n + 1} = {i}" using assms(4,5) card_le_Suc0_iff_eq [of L] by auto
  have len: "length xs = n + 1" and all: "\<forall>s \<in> set xs. length s = w" using assms(1) by (auto simp: shards_of_def)
  let ?j = "if i = 0 then 1 else 0"
  have "?j < length (xs[i := []]) \<and> length (xs[i := []] ! ?j) = w"
    using len all assms(2) by (auto simp: nth_list_update)
  then have "\<exists>s \<in> set (xs[i := []]). length s = w" by (metis nth_mem)
  then have ml: "max_len (xs[i := []]) 0 = w"
    using all by (intro max_len_shards) (auto dest!: subsetD [OF set_update_subset_insert])
  have "length (xs ! i) = w" using i(2) len all by auto
  then show ?thesis
    using lose_one [OF assms(1) i(2) L] len i(2) ml xor_all_but [OF assms(3), of i]
    by (simp add: xor_code_def)
qed

interpretation xor_erasure: erasure_code "xor_code (Suc n)" "Suc n" 1 for n
proof
  show "0 < Suc n" by simp
  show "\<exists>err. rs_Split (xor_code (Suc n)) [] = Inl (Fail err)" by (simp add: xor_code_def)
  show "snd (rs_Encode (xor_code (Suc n)) []) = []" by (simp add: xor_code_def)
next
  fix w shards and L :: "nat set"
  assume *: "shards_of (Suc n + 1) w shards"
  show "shards_of (Suc n + 1) w (snd (rs_Encode (xor_code (Suc n)) shards)) \<and>
      take (Suc n) (snd (rs_Encode (xor_code (Suc n)) shards)) = take (Suc n) shards"
    using xor_code_Encode [OF *] by simp
  assume "finite L" "card L \<le> 1"
  then show "rs_Reconstruct (xor_code (Suc n)) (lose L (snd (rs_Encode (xor_code (Suc n)) shards)))
      = (None, snd (rs_Encode (xor_code (Suc n)) shards))"
    using xor_code_Encode [OF *] by (intro xor_code_Reconstruct) auto
next
  fix data :: bytes
  assume "data \<noteq> []"
  let ?w = "(length data + Suc n - 1) div Suc n"
  let ?pad = "Suc n * ?w - length data"
  let ?shards = "map (\<lambda>i. take ?w (drop (i * ?w) (data @ replicate ?pad 0))) [0..<Suc n] @ [replicate ?w 0]"
  have w: "0 < ?w" using \<open>data \<noteq> []\<close> by (simp add: div_greater_zero_iff Suc_leI)
  have "(length data + n) div Suc n * Suc n + (length data + n) mod Suc n = length data + n"
    "(length data + n) mod Suc n < Suc n"
    by (rule div_mult_mod_eq, rule mod_less_divisor) simp
  then have "length data \<le> (length data + n) div Suc n * Suc n" by linarith
  then have "length data \<le> Suc n * ?w" by (simp only: mult.commute [of "Suc n"]) simp
  then have len: "length (data @ replicate ?pad 0) = Suc n * ?w" by simp
  have "length (take ?w (drop (i * ?w) (data @ replicate ?pad 0))) = ?w" if "i < Suc n" for i
  proof -
    have "i * ?w + ?w \<le> Suc n * ?w" using that mult_le_mono1 [of "i + 1" "Suc n" ?w] by (simp add: add.commute)
    then show ?thesis by (simp only: length_take length_drop len) linarith
  qed
  then have "shards_of (Suc n + 1) ?w ?shards"
    using w unfolding shards_of_def by (auto simp del: take_append drop_append length_take)
  moreover have "concat (take (Suc n) ?shards) = data @ replicate ?pad 0"
  proof -
    have "take (Suc n) (map f [0..<Suc n] @ ys) = map f [0..<Suc n]" for f and ys :: "bytes list"
      by (simp del: upt_Suc)
    then show ?thesis using concat_chunks [OF len] by (simp only:)
  qed
  ultimately show "\<exists>shards w pad. rs_Split (xor_code (Suc n)) data = Inr shards \<and>
      shards_of (Suc n + 1) w shards \<and> concat (take (Suc n) shards) = data @ replicate pad 0"
    using \<open>data \<noteq> []\<close> by (auto simp: xor_code_def Let_def simp del: take_append drop_append upt_Suc)
qed

end
