(* ===== verification/Spec2Isabelle.thy ===== *)
theory Spec2Isabelle
  imports Programs Session_Safety Session_Life Session_Failures Session_Requests Wire_Log Fec_ReedSolomon
begin

text \<open>
  Verification of moqtransport, a Go implementation of Media over QUIC Transport (draft 11) with
  two forward error correction packages.

  \<^bold>\<open>The program.\<close> \<^verbatim>\<open>internal/wire\<close> serialises and parses control messages, object stream headers,
  objects and datagrams over QUIC variable-length integers. \<^verbatim>\<open>session.go\<close> is one endpoint of a
  session: it sends requests (subscribe, fetch, track status, announce, subscribe to announcements),
  waits for their responses, dispatches the control messages of the peer to handlers and hands
  incoming streams and datagrams to tracks. Requests are numbered by \<^verbatim>\<open>request_id.go\<close> and kept in
  the maps of \<^verbatim>\<open>announcement_map.go\<close>, \<^verbatim>\<open>announcement_subscription_map.go\<close>, \<^verbatim>\<open>local_track_map.go\<close>,
  \<^verbatim>\<open>remote_track_map.go\<close> and \<^verbatim>\<open>track_status_request_map.go\<close>. The application answers requests
  through response writers (\<^verbatim>\<open>*_response_writer.go\<close>) and publishes through \<^verbatim>\<open>local_track.go\<close>,
  \<^verbatim>\<open>subgroup.go\<close> and \<^verbatim>\<open>fetch_stream.go\<close>; it reads from a \<^verbatim>\<open>RemoteTrack\<close> (\<^verbatim>\<open>remote_track.go\<close>).
  \<^verbatim>\<open>fec/xor\<close> adds a parity packet to each block of packets and rebuilds one lost packet,
  \<^verbatim>\<open>fec/xor/example\<close> uses it for a counter sent in datagrams, \<^verbatim>\<open>fec/reed-solomon\<close> wraps a library.
  \<^verbatim>\<open>quicmoq\<close> and \<^verbatim>\<open>webtransportmoq\<close> connect a session to a transport library, \<^verbatim>\<open>quicmoq/logging.go\<close>
  keeps statistics of a QUIC connection, \<^verbatim>\<open>examples/counter\<close> and \<^verbatim>\<open>examples/date\<close> are applications
  that publish a counter in datagrams and the time in streams.

  \<^bold>\<open>The theories\<close>, each with the code it models:
  \<^item> \<^verbatim>\<open>Go_Base\<close>: machine types, errors, results (value, error or panic), slices and readers of Go.
  \<^item> \<^verbatim>\<open>Go_Strings\<close>, \<^verbatim>\<open>Error_Codes\<close>: literals, decimal and hexadecimal numbers, lower case; \<^verbatim>\<open>errors.go\<close> and
    \<^verbatim>\<open>constants.go\<close>: codes are distinct, a protocol error can be read from its text.
  \<^item> \<^verbatim>\<open>Quic_Varint\<close>: the third-party package \<^verbatim>\<open>quicvarint\<close> as a record of functions; the locale
    \<^verbatim>\<open>varint_codec\<close> states its documented behaviour, and the encoding of RFC 9000 is an instance.
  \<^item> \<^verbatim>\<open>Wire_Fields\<close>, \<^verbatim>\<open>Wire_Subscribe\<close>, \<^verbatim>\<open>Wire_Requests\<close>: the fields and the 28 messages of
    \<^verbatim>\<open>internal/wire\<close>, an \<open>Append\<close> and a \<open>parse\<close> function per message, each refining a grammar
    (\<open>enc_X\<close>, \<open>wf_X\<close>) through the locale of wire messages: appending writes the grammar's bytes,
    parsing them gives the message back.
  \<^item> \<^verbatim>\<open>Control_Stream\<close>: \<^verbatim>\<open>control_message_type.go\<close>, \<^verbatim>\<open>control_message_parser.go\<close>,
    \<^verbatim>\<open>compileMessage\<close> and the reading loop: framing, round trip, termination.
  \<^item> \<^verbatim>\<open>Wire_Parsed\<close>: what the parsers return on any input is well-formed, and input that panics.
  \<^item> \<^verbatim>\<open>Wire_Log\<close>: the \<^verbatim>\<open>LogValue\<close> and \<^verbatim>\<open>String\<close> methods of \<^verbatim>\<open>internal/wire\<close> and \<^verbatim>\<open>logging.go\<close>: which messages
    a log tells apart and what it leaves out.
  \<^item> \<^verbatim>\<open>Object_Wire\<close>: objects, stream headers, \<^verbatim>\<open>object_stream_parser.go\<close>, datagrams.
  \<^item> \<^verbatim>\<open>Request_IDs\<close>, \<^verbatim>\<open>Track_Maps\<close>: the generators and the maps; the locales \<^verbatim>\<open>request_table\<close> and
    \<^verbatim>\<open>request_index\<close> state what the session relies on and are interpreted on the maps.
  \<^item> \<^verbatim>\<open>Go_State\<close>: computations over a state, which is returned on every path, and rules for
    properties that computations keep.
  \<^item> \<^verbatim>\<open>Connection\<close>, \<^verbatim>\<open>Tracks\<close>: the connection of a session, writing to the control stream,
    remote and local tracks, subgroups and fetch streams.
  \<^item> \<^verbatim>\<open>Session_Messages\<close>: \<^verbatim>\<open>messages.go\<close>, the functional options, \<^verbatim>\<open>handler.go\<close>,
    \<^verbatim>\<open>session_helpers.go\<close>.
  \<^item> \<^verbatim>\<open>Session\<close>, \<^verbatim>\<open>Session_Handlers\<close>: the record of \<^verbatim>\<open>session.go\<close> with every method that sends,
    every handler, the response writers, the dispatch and the reading of streams and datagrams.
  \<^item> \<^verbatim>\<open>Session_Invariants\<close>, \<^verbatim>\<open>Session_Steps\<close>: the locales \<^verbatim>\<open>session_property\<close>, \<^verbatim>\<open>handler_property\<close> and
    \<^verbatim>\<open>step_property\<close> lift a property of the primitive operations to every call of the API, to every
    message of the peer and to every step of a session; the invariant is one instance. The
    transition system has those operations as its steps, in any order.
  \<^item> \<^verbatim>\<open>Session_Requests\<close>: an abstract machine for the life of requests, which every step of a session
    refines; another instance of the three locales.
  \<^item> \<^verbatim>\<open>Session_Safety\<close>: a calculus for panics; from its start a session with a well-behaved application
    panics exactly when its request limit has left the range of the wire format.
  \<^item> \<^verbatim>\<open>Session_Life\<close>: \<^verbatim>\<open>Run\<close>, \<^verbatim>\<open>Close\<close> and the three reading loops as a step relation over an error group
    (the third-party \<^verbatim>\<open>errgroup\<close>, the locale \<^verbatim>\<open>error_group\<close>): what \<^verbatim>\<open>Close\<close> returns, and the calls
    that nothing releases; a third instance of \<^verbatim>\<open>session_property\<close>.
  \<^item> \<^verbatim>\<open>Session_Failures\<close>: requests whose message cannot be written.
  \<^item> \<^verbatim>\<open>Session_Behaviour\<close>, \<^verbatim>\<open>End_To_End\<close>: what operations do on the wire and at the peer: the
    handshake, subscriptions, objects and fetches from one endpoint to the other, limits, errors.
  \<^item> \<^verbatim>\<open>Session_Dialogues\<close>: announcements, subscriptions to announcements, fetches, the update and the
    end of a subscription, each from the call of one application to its return.
  \<^item> \<^verbatim>\<open>Fec_Xor\<close>, \<^verbatim>\<open>Fec_Counter\<close>, \<^verbatim>\<open>Fec_ReedSolomon\<close>: the three FEC parts; the Reed-Solomon library
    is a record of functions with the locale \<^verbatim>\<open>erasure_code\<close>, of which the XOR code is an instance.
  \<^item> \<^verbatim>\<open>Counter_App\<close>: the counter application, with the life of publisher and subscriber as a step
    relation (any number of calls of \<^verbatim>\<open>Start\<close> and \<^verbatim>\<open>Stop\<close>), and its counters from one endpoint to the other.
  \<^item> \<^verbatim>\<open>Fec_App\<close>: the application of \<^verbatim>\<open>fec/xor/example\<close> over sessions, a block of counters with one
    datagram lost from the ticks of the publisher to the decoder of the subscriber.
  \<^item> \<^verbatim>\<open>Date_App\<close>: the date application, a tick for the publishers of all sessions.
  \<^item> \<^verbatim>\<open>Adapters\<close>: \<^verbatim>\<open>quicmoq\<close> and \<^verbatim>\<open>webtransportmoq\<close> over the transport libraries as records of
    functions; the locale \<^verbatim>\<open>adapter\<close> states that both pass every call on.
  \<^item> \<^verbatim>\<open>Cmd_Line\<close>: the package \<^verbatim>\<open>flag\<close> as far as the programs use it, the \<^verbatim>\<open>main.go\<close> of the three
    applications, certificates, dialling and accepting: the options are what the command line says.
  \<^item> \<^verbatim>\<open>Programs\<close>: \<^verbatim>\<open>handle\<close>, \<^verbatim>\<open>runClient\<close> and \<^verbatim>\<open>runServer\<close> of the three applications as a whole, and a
    client and a server of the counter application from their command lines to the counters that
    arrive, or to the exit of the client.
  \<^item> \<^verbatim>\<open>Quic_Logger\<close>: the statistics; the ring buffer refines a list of the last packets, pruning
    keeps the window of time. Floating-point numbers are a record of operations on any type.
  This theory states the properties of the whole, with an instance of each that has hypotheses.

  \<^bold>\<open>How the code is modelled.\<close> A struct is a record, an enumeration of cases a datatype,
  \<^verbatim>\<open>uint64\<close> and \<^verbatim>\<open>byte\<close> are words with their wrap-around, \<^verbatim>\<open>int\<close> (FEC and logger) is an integer. A call
  gives a value, an error or a panic. Pointers that the code shares (tracks, response channels) are
  references into the store of the session record. A loop over input that is not structural is a
  \<^theory_text>\<open>partial_function\<close> into options, and that it returns (or hangs) is a theorem; there is no fuel.
  \<^item> A method that blocks in a \<^verbatim>\<open>select\<close> is split at that point; each part is one atomic step. The
    interleavings of goroutines inside a part are not modelled.
  \<^item> The handlers of the application are parameters, finite scripts of calls on the response
    writer. The order in which Go visits a map and the outcome of each network operation are
    parameters as well; a stream delivers bytes and then EOF.
  \<^item> A slice has no spare capacity; \<^verbatim>\<open>make\<close> panics above 2 to the power 48 bytes. Nil and empty
    slices are told apart only where the code does.
  \<^item> That a log is written is left out of the operations, so are qlog events, time stamps and the
    numbers of bytes that a parser returns beside an error.

  \<^bold>\<open>What is not modelled\<close>: the writing of logs to the terminal and to qlog, the tickers and the
  printing of the applications, the HTTP/3 server that carries WebTransport sessions (a library), the
  helpers of the integration tests, which set up connections for tests. Two programs are composed for
  the schedule that delivers every control message at once; other schedules and the schedules of the
  goroutines inside one step are not considered, nor are panics of the calls that an application makes
  outside its handlers.
\<close>

lemmas wf_eval = wf_Subscribe_def wf_tuple_def wf_location_def wf_kvps_def wf_kvp_def fits_def
  maxVarInt_def maxAlloc_def

lemmas enc_eval = enc_vbytes_def enc_tuple_def enc_location_def enc_kvps_def enc_kvp_def
  qv_enc_def rfc9000_def rfc_Append_def length_rfc_enc rfc_len_def fits_def maxVarInt_def

section \<open>Parameters of the examples\<close>

text \<open>
  A client and a server over a network without failures, with the codec of RFC 9000; the server
  accepts every subscription. The states are those after a handshake, and one more with an open
  subscription to a track with alias 0. The messages are arbitrary.
\<close>

definition example_env :: Env where
  "example_env =
     \<lparr>env_qv = rfc9000, env_net = (\<lambda>_. NetOk), env_order = (\<lambda>ks. sorted_list_of_set ks),
      env_Handler = None, env_SubscribeHandler = Some (\<lambda>_. Call (SubscribeAccept []) (\<lambda>_. Done)),
      env_SubscribeUpdateHandler = False\<rparr>"

definition example_session :: "Perspective \<Rightarrow> Session" where
  "example_session p =
     (newSession 100 (newConnection p ProtocolQUIC))\<lparr>ses_handshakeDone := True, ses_handshakeDoneCh := True,
       ses_requestIDs := \<lparr>rg_id = perspective_id p, rg_max = 100, rg_interval = 2\<rparr>\<rparr>"

definition example_subscribed :: Session where
  "example_subscribed =
     (example_session PerspectiveClient)\<lparr>
       ses_requestIDs := \<lparr>rg_id = 2, rg_max = 100, rg_interval = 2\<rparr>, ses_next := 1,
       ses_rt := (\<lambda>_. newRemoteTrack 0 None None),
       ses_remoteTracks := newRemoteTrackMap\<lparr>rtm_open := [0 \<mapsto> 0], rtm_trackAliasToRequestID := [0 \<mapsto> 0]\<rparr>\<rparr>"

definition example_subscribe :: SubscribeMessage where
  "example_subscribe =
     \<lparr>sm_RequestID = 2, sm_TrackNamespace = [[99, 111], [1]], sm_TrackName = [7, 8],
      sm_SubscriberPriority = 128, sm_GroupOrder = 1, sm_Forward = 1, sm_FilterType = 4,
      sm_StartLocation = \<lparr>loc_Group = 100, loc_Object = 3\<rparr>, sm_EndGroup = 20000,
      sm_Parameters = [\<lparr>kvp_Type = 3, kvp_ValueBytes = [1, 2], kvp_ValueVarInt = 0\<rparr>,
                       \<lparr>kvp_Type = 2, kvp_ValueBytes = [], kvp_ValueVarInt = 500\<rparr>]\<rparr>"

definition example_datagram :: ObjectDatagramMessage where
  "example_datagram =
     \<lparr>odm_TrackAlias = 0, odm_GroupID = 300, odm_ObjectID = 1, odm_PublisherPriority = 4,
      odm_ObjectExtensionHeaders = None, odm_ObjectPayload = [9, 9], odm_ObjectStatus = 3\<rparr>"

definition example_headers :: KVPList where
  "example_headers = [\<lparr>kvp_Type = 2, kvp_ValueBytes = [], kvp_ValueVarInt = 7\<rparr>]"

definition example_fetch :: FetchMessage where
  "example_fetch =
     \<lparr>fm_RequestID = 100, fm_SubscriberPriority = 0, fm_GroupOrder = 0, fm_FetchType = 1,
      fm_TrackNamespace = [[1]], fm_TrackName = [2], fm_StartGroup = 0, fm_StartObject = 0, fm_EndGroup = 0,
      fm_EndObject = 0, fm_JoiningSubscribeID = 0, fm_JoiningStart = 0, fm_Parameters = []\<rparr>"

definition example_new :: "int \<Rightarrow> int \<Rightarrow> reedsolomon result" where
  "example_new n k = Inr (xor_code (nat n))"

text \<open>Floating-point numbers as real numbers, and a logger with a window of 2 packets or 20 ns.\<close>

definition example_float :: "real float64" where
  "example_float = \<lparr>fl_of_int = of_int, fl_lit = (\<lambda>a b. of_int a / of_int b), fl_add = (+), fl_sub = (-),
     fl_mul = (*), fl_div = (/), fl_less = (<), fl_eq = (=), fl_uint64 = (\<lambda>x. of_int \<lfloor>x\<rfloor>)\<rparr>"

definition example_config :: "WindowMode \<Rightarrow> LoggerConfig" where
  "example_config mode = \<lparr>lc_LogLevel = 0, lc_MaxEventsPerType = 10, lc_EnableTerminalLog = False,
     lc_Window = 20, lc_WindowMode = mode, lc_WindowPackets = 2\<rparr>"

lemma example_logger:
  obtains q where "NewQuicLogger example_float 1 [] 0 (Some (example_config mode)) = Inr q"
    "ql_windowMode q = mode" "ql_window q = 20" "ql_winPkts q = 2" "48 * ql_winPkts q \<le> int maxAlloc"
  by (simp add: NewQuicLogger_def example_config_def make_slice_def maxAlloc_def)

lemma example_env_simps [simp]:
  "env_qv example_env = rfc9000" "env_Handler example_env = None"
  "reliable rfc9000 example_env" "accepts example_env ns name"
  by (simp_all add: example_env_def reliable_def accepts_with_def)

lemma example_session_simps [simp]:
  "ses_handshakeDone (example_session p)" "ses_localMaxRequestID (example_session p) = 100"
  "ses_requestIDs (example_session p) = \<lparr>rg_id = perspective_id p, rg_max = 100, rg_interval = 2\<rparr>"
  "ses_remoteTracks (example_session p) = newRemoteTrackMap"
  "ses_localTracks (example_session p) = newLocalTrackMap"
  "ses_outgoingTrackStatusRequests (example_session p) = newTrackStatusRequestMap"
  "ses_outgoingAnnouncements (example_session p) = newAnnouncementMap"
  "ses_rt (example_session p) = (\<lambda>_. newRemoteTrack 0 None None)"
  by (simp_all add: example_session_def newSession_def)

lemma inv_example_session: "inv_session (example_session p)"
  by (cases p) (simp_all add: inv_defs example_session_def newSession_def newConnection_def perspective_id_def
      newLocalTrackMap_def newRemoteTrackMap_def within_capacity_def newRemoteTrack_def)

lemma inv_example_subscribed: "inv_session example_subscribed"
  by (simp add: inv_defs example_subscribed_def example_session_def newSession_def newConnection_def
      newLocalTrackMap_def newRemoteTrackMap_def within_capacity_def newRemoteTrack_def)

lemma example_subscribed_simps [simp]:
  "ses_handshakeDone example_subscribed"
  "ses_requestIDs example_subscribed = \<lparr>rg_id = 2, rg_max = 100, rg_interval = 2\<rparr>"
  "remoteTrackMap_findByTrackAlias (ses_remoteTracks example_subscribed) 0 = Some 0"
  "remoteTrackMap_findByRequestID (ses_remoteTracks example_subscribed) 0 = Some 0"
  "rtm_trackAliasToRequestID (ses_remoteTracks example_subscribed) 0 = Some 0"
  "rtm_pending (ses_remoteTracks example_subscribed) = Map.empty"
  "ses_rt example_subscribed = (\<lambda>_. newRemoteTrack 0 None None)"
  by (simp_all add: example_subscribed_def remoteTrackMap_findByTrackAlias_def remoteTrackMap_findByRequestID_def
      newRemoteTrackMap_def)

lemmas tables_new = newRemoteTrackMap_def newLocalTrackMap_def newAnnouncementMap_def newTrackStatusRequestMap_def

lemma rfc_codec: "varint_codec rfc9000"
  by (rule rfc9000.varint_codec_axioms)

lemma fits_million: "v \<le> 1000000 \<Longrightarrow> fits v"
  by (simp add: fits_def maxVarInt_def word_le_nat_alt)

section \<open>Control messages\<close>

text \<open>
  C1: Every well-formed control message that fits the 16-bit length field is compiled without
  a failure, and the parser reads exactly that message back and leaves the rest of the stream.
  Not among the well-formed messages are those that the code does not carry as they are (a
  SUBSCRIBE\_OK with an expiry, ANNOUNCE\_CANCEL) and those that the parser does not know (the
  PUBLISH messages).
\<close>

theorem control_frame_roundtrip:
  assumes "varint_codec qv" and "wf_control m" and "length (enc_body qv m) \<le> 65535"
  shows "\<exists>frame. compileMessage qv m = Inr frame \<and>
           ControlMessageParser_Parse qv (frame @ rest) = Inr (m, rest)"
proof -
  from assms have "compileMessage qv m = Inr (enc_frame qv m)"
    by (rule varint_codec.compileMessage_enc)
  moreover from assms have "ControlMessageParser_Parse qv (enc_frame qv m @ rest) = Inr (m, rest)"
    by (rule varint_codec.Parse_frame)
  ultimately show ?thesis by blast
qed

lemma wire_ok_example: "wire_ok rfc9000 (Subscribe example_subscribe)"
proof -
  have "wf_control (Subscribe example_subscribe)"
    by (simp add: example_subscribe_def wf_eval)
  moreover have "length (enc_body rfc9000 (Subscribe example_subscribe)) \<le> 65535"
    by (simp add: example_subscribe_def enc_Subscribe_def enc_eval)
  ultimately show ?thesis by (simp add: wire_ok_def)
qed

theorem control_frame_roundtrip_witness:
  "\<exists>frame. compileMessage rfc9000 (Subscribe example_subscribe) = Inr frame \<and>
     ControlMessageParser_Parse rfc9000 (frame @ [1, 2, 3]) = Inr (Subscribe example_subscribe, [1, 2, 3])"
  using control_frame_roundtrip [OF rfc_codec, of "Subscribe example_subscribe" "[1, 2, 3]"]
    wire_ok_example by (simp add: wire_ok_def)

text \<open>
  C2: Over a network without failures, the well-formed messages that one endpoint writes to the
  control stream, each with a body that fits the length field, are the messages that the other
  endpoint reads from it, all of them and in order; then reading ends with EOF. Only the expiry of a
  SUBSCRIBE\_OK changes on the way: it arrives multiplied by the nanoseconds of a millisecond. An
  ANNOUNCE\_CANCEL is not carried: whatever the parser makes of its bytes is an ANNOUNCE.
\<close>

theorem control_stream_delivers:
  assumes "varint_codec qv" and "list_all (carried qv) ms"
  shows "(\<exists>c. write_messages qv (\<lambda>_. NetOk) ms (newConnection p proto) = (Inr (), c) \<and>
      controlStream_read qv (cn_control c) = Some (map as_read ms, Fail EOF)) \<and>
    (\<forall>m k. m \<in> set ms \<and> as_read m = SubscribeOk k \<longrightarrow>
      (\<exists>k'. m = SubscribeOk k' \<and> k = k'\<lparr>som_Expires := som_Expires k' * 1000000\<rparr>)) \<and>
    (\<forall>m. m \<in> set ms \<and> (\<nexists>k. m = SubscribeOk k) \<longrightarrow> as_read m = m) \<and>
    (\<forall>k. wf_AnnounceCancel k \<and> length (enc_AnnounceCancel qv k) \<le> 65535 \<longrightarrow>
      (\<exists>f. compileMessage qv (AnnounceCancel k) = Inr f \<and>
        (\<forall>rest m r'. ControlMessageParser_Parse qv (f @ rest) = Inr (m, r') \<longrightarrow> (\<exists>a. m = Announce a))))"
proof (intro conjI allI impI)
  show "\<exists>c. write_messages qv (\<lambda>_. NetOk) ms (newConnection p proto) = (Inr (), c) \<and>
      controlStream_read qv (cn_control c) = Some (map as_read ms, Fail EOF)"
    using assms by (rule varint_codec.stream_carried)
next
  fix m k assume "m \<in> set ms \<and> as_read m = SubscribeOk k"
  then show "\<exists>k'. m = SubscribeOk k' \<and> k = k'\<lparr>som_Expires := som_Expires k' * 1000000\<rparr>"
    by (cases m) (simp_all add: Millisecond_def)
next
  fix m assume "m \<in> set ms \<and> (\<nexists>k. m = SubscribeOk k)"
  then show "as_read m = m" by (cases m) simp_all
next
  fix k assume "wf_AnnounceCancel k \<and> length (enc_AnnounceCancel qv k) \<le> 65535"
  then show "\<exists>f. compileMessage qv (AnnounceCancel k) = Inr f \<and>
      (\<forall>rest m r'. ControlMessageParser_Parse qv (f @ rest) = Inr (m, r') \<longrightarrow> (\<exists>a. m = Announce a))"
    using varint_codec.announce_cancel_misread [OF assms(1), of k] by metis
qed

definition example_ok :: SubscribeOkMessage where
  "example_ok = \<lparr>som_RequestID = 2, som_TrackAlias = 0, som_Expires = 5, som_GroupOrder = 1, som_ContentExists = False,
     som_LargestLocation = \<lparr>loc_Group = 0, loc_Object = 0\<rparr>, som_Parameters = []\<rparr>"

theorem control_stream_delivers_witness:
  "\<exists>c. write_messages rfc9000 (\<lambda>_. NetOk) [Subscribe example_subscribe, SubscribeOk example_ok]
        (newConnection PerspectiveClient ProtocolQUIC) = (Inr (), c) \<and>
    controlStream_read rfc9000 (cn_control c) =
      Some ([Subscribe example_subscribe, SubscribeOk (example_ok\<lparr>som_Expires := 5000000\<rparr>)], Fail EOF)"
proof -
  have "carried rfc9000 (SubscribeOk example_ok)"
    by (simp add: carried_def example_ok_def wf_SubscribeOk_def enc_SubscribeOk_def wf_eval enc_eval zeroLocation_def)
  moreover have "carried rfc9000 (Subscribe example_subscribe)"
    using wire_ok_example unfolding carried_def wire_ok_def by blast
  ultimately have "list_all (carried rfc9000) [Subscribe example_subscribe, SubscribeOk example_ok]" by simp
  moreover have "as_read (SubscribeOk example_ok) = SubscribeOk (example_ok\<lparr>som_Expires := 5000000\<rparr>)"
    by (simp add: example_ok_def Millisecond_def)
  ultimately show ?thesis
    using control_stream_delivers [OF rfc_codec, of "[Subscribe example_subscribe, SubscribeOk example_ok]"
        PerspectiveClient ProtocolQUIC] by simp
qed

text \<open>
  C3: Reading the control stream ends for every sequence of bytes, whatever the peer sends.
\<close>

theorem control_read_terminates:
  assumes "varint_codec qv"
  shows "\<exists>msgs e. controlStream_read qv input = Some (msgs, e)"
  using varint_codec.read_loop_returns [OF assms] by (fastforce simp: controlStream_read_def)

theorem control_read_terminates_witness:
  "\<exists>msgs e. controlStream_read rfc9000 [64, 3, 0, 255, 17, 0] = Some (msgs, e)"
  by (rule control_read_terminates [OF rfc_codec])

text \<open>
  A well-formed message whose body does not fit the length field is refused with
  \<^verbatim>\<open>errControlMessageTooLarge\<close>; nothing is written for it.
\<close>

lemma message_too_large:
  assumes "varint_codec qv" and "wf_control m" and "65535 < length (enc_body qv m)"
  shows "controlStream_write qv net m c = (Inl (Fail errControlMessageTooLarge), c)"
  using varint_codec.compileMessage_too_large [OF assms]
  by (simp add: controlStream_write_def effects)

text \<open>
  C4: Whatever bytes the peer sends, a message that the parser returns is well-formed: it can be
  written again, unless it became too long for the length field, and is then read back as the same
  message. The exceptions are SUBSCRIBE\_OK and ANNOUNCE\_CANCEL.
\<close>

theorem parsed_messages_well_formed:
  assumes "varint_codec qv" and "ControlMessageParser_Parse qv r = Inr (m, r')"
    and "\<nexists>k. m = SubscribeOk k" and "\<nexists>k. m = AnnounceCancel k"
  shows "compileMessage qv m = Inl (Fail errControlMessageTooLarge) \<or>
    (\<exists>f. compileMessage qv m = Inr f \<and> ControlMessageParser_Parse qv (f @ rest) = Inr (m, rest))"
  using assms by (rule varint_codec.parsed_forwarded)

theorem parsed_messages_well_formed_witness:
  "compileMessage rfc9000 (Subscribe example_subscribe) = Inl (Fail errControlMessageTooLarge) \<or>
    (\<exists>f. compileMessage rfc9000 (Subscribe example_subscribe) = Inr f \<and>
      ControlMessageParser_Parse rfc9000 (f @ [1]) = Inr (Subscribe example_subscribe, [1]))"
  by (rule parsed_messages_well_formed [OF rfc_codec varint_codec.Parse_sent [OF rfc_codec wire_ok_example, of "[]"]])
    simp_all

text \<open>
  C5: A CLIENT\_SETUP with any versions and any well-formed parameters, followed by a further
  parameter of an odd type that announces more value bytes than are left in the message, makes the
  parser panic: a peer can end the process with its first message.
\<close>

theorem malformed_setup_panics:
  assumes "varint_codec qv" and "wf_versions vs" and "list_all wf_kvp ps"
    and "fits n" and "length ps < unat n" and "fits t" and "t mod 2 = 1" and "fits l" and "length v < unat l"
    and "body = enc_versions qv vs @ qv_enc qv n @ concat (map (enc_kvp qv) ps) @ qv_enc qv t @ qv_enc qv l @ v"
    and "length body \<le> 65535"
  shows "ControlMessageParser_Parse qv (qv_enc qv messageTypeClientSetup @
    of_nat (length body div 256) # of_nat (length body) # body @ rest) = Inl Panic"
  using assms by (rule varint_codec.setup_panics)

theorem malformed_setup_panics_witness:
  "ControlMessageParser_Parse rfc9000 [32, 0, 8, 0, 2, 2, 7, 1, 5, 9, 9, 1, 2, 3, 4] = Inl Panic"
proof -
  have "qv_enc rfc9000 messageTypeClientSetup = [32]" "qv_enc rfc9000 0 = [0]" "qv_enc rfc9000 1 = [1]"
    "qv_enc rfc9000 2 = [2]" "qv_enc rfc9000 5 = [5]" "qv_enc rfc9000 7 = [7]"
    by (simp_all add: qv_enc_def rfc9000_def rfc_Append_def rfc_enc_def rfc_len_def rfc_tag_def fits_def maxVarInt_def
        messageTypeClientSetup_def)
  then show ?thesis
    using malformed_setup_panics [OF rfc_codec, of "[]" "[\<lparr>kvp_Type = 2, kvp_ValueBytes = [], kvp_ValueVarInt = 7\<rparr>]"
        2 1 5 "[9, 9]" "[0, 2, 2, 7, 1, 5, 9, 9]" "[1, 2, 3, 4]"]
    by (simp add: fits_million wf_versions_def enc_versions_def wf_kvp_def enc_kvp_def)
qed

text \<open>
  The expiry of a SUBSCRIBE\_OK does not survive the wire: it is written in nanoseconds and
  multiplied by the nanoseconds of a millisecond when it is read.
\<close>

lemma expires_scaled:
  assumes "varint_codec qv" and "wf_SubscribeOk m"
  shows "\<exists>body. SubscribeOkMessage_Append qv m [] = Inr body \<and>
    SubscribeOkMessage_parse qv v body = Inr (m\<lparr>som_Expires := som_Expires m * 1000000\<rparr>)"
  using varint_codec.SubscribeOk_app [OF assms, of "[]"] varint_codec.SubscribeOk_prs [OF assms]
  by (simp add: Millisecond_def)

section \<open>Sessions\<close>

text \<open>
  C6: Over a network without failures the handshake of a client, with a limit that the wire format can
  carry, and a server completes: the server understands what the client wrote and answers, the client understands the answer, and both
  end with the version of the draft the program implements. The server may use the request IDs that
  the client has allowed. The client may always use the IDs below 100, whatever limit the server was
  configured with and enforces.
\<close>

theorem handshake_completes:
  assumes "varint_codec qv" and "reliable qv envc" and "reliable qv envs" and "fits i"
    and "Session_Run envc i (newConnection PerspectiveClient proto) = (rc, cl)"
    and "Session_Run envs j (newConnection PerspectiveServer proto) = (rs, sv)"
  shows "\<exists>m sv' m' cl'. rc = Inr () \<and> rs = Inr () \<and>
    ControlMessageParser_Parse qv (cn_control (ses_conn cl)) = Inr (m, []) \<and>
    receive envs m sv = (Inr (), sv') \<and>
    ControlMessageParser_Parse qv (cn_control (ses_conn sv')) = Inr (m', []) \<and>
    receive envc m' cl = (Inr (), cl') \<and>
    ses_handshakeDone sv' \<and> ses_handshakeDone cl' \<and>
    ses_version sv' = CurrentVersion \<and> ses_version cl' = CurrentVersion \<and>
    rg_max (ses_requestIDs sv') = i \<and> rg_max (ses_requestIDs cl') = 100 \<and> ses_localMaxRequestID sv' = j"
  using assms by (rule varint_codec.handshake)

theorem handshake_completes_witness:
  "\<exists>m sv' m' cl'. fst (Session_Run example_env 64 (newConnection PerspectiveClient ProtocolQUIC)) = Inr () \<and>
    fst (Session_Run example_env 10 (newConnection PerspectiveServer ProtocolQUIC)) = Inr () \<and>
    ControlMessageParser_Parse rfc9000 (cn_control (ses_conn
      (snd (Session_Run example_env 64 (newConnection PerspectiveClient ProtocolQUIC))))) = Inr (m, []) \<and>
    receive example_env m (snd (Session_Run example_env 10 (newConnection PerspectiveServer ProtocolQUIC))) = (Inr (), sv') \<and>
    ControlMessageParser_Parse rfc9000 (cn_control (ses_conn sv')) = Inr (m', []) \<and>
    receive example_env m' (snd (Session_Run example_env 64 (newConnection PerspectiveClient ProtocolQUIC))) = (Inr (), cl') \<and>
    ses_handshakeDone sv' \<and> ses_handshakeDone cl' \<and>
    ses_version sv' = CurrentVersion \<and> ses_version cl' = CurrentVersion \<and>
    rg_max (ses_requestIDs sv') = 64 \<and> rg_max (ses_requestIDs cl') = 100 \<and> ses_localMaxRequestID sv' = 10"
  by (rule handshake_completes [OF rfc_codec]) (simp_all add: fits_million)

text \<open>
  C7: Whatever the peer and the application do, in every interleaving of their operations: a
  request ID is never both pending and open, every entry of a table is a track with that request
  ID, the IDs a session takes have the parity of its side and stay below the limits of the wire
  format, and no channel holds more than its capacity.
\<close>

theorem session_invariant:
  assumes "varint_codec (env_qv env)" and "reachable env s"
  shows "(ltm_pending (ses_localTracks s) k = None \<or> ltm_open (ses_localTracks s) k = None) \<and>
    (rtm_pending (ses_remoteTracks s) k = None \<or> rtm_open (ses_remoteTracks s) k = None) \<and>
    (localTrackMap_findByID (ses_localTracks s) k = Some lt \<longrightarrow> lt_requestID (ses_lt s lt) = k) \<and>
    (remoteTrackMap_findByRequestID (ses_remoteTracks s) k = Some rt \<longrightarrow>
       rt_requestID (ses_rt s rt) = k \<and> k < rg_id (ses_requestIDs s)) \<and>
    (odd (rg_id (ses_requestIDs s)) \<longleftrightarrow> cn_Perspective (ses_conn s) = PerspectiveServer) \<and>
    unat (rg_id (ses_requestIDs s)) < 2 ^ 62 + 2 \<and>
    length (rt_buffer (ses_rt s rt)) \<le> buffer_capacity \<and> length (rt_responseChan (ses_rt s rt)) \<le> 1 \<and>
    (ses_handshakeDone s \<longleftrightarrow> ses_handshakeDoneCh s)"
  using reachable_inv [OF assms] ltm.find_iff [of "ses_localTracks s" k lt] rtm.find_iff [of "ses_remoteTracks s" k rt]
  by (auto simp: inv_defs within_capacity_def)

theorem session_invariant_witness:
  "\<exists>s. reachable example_env s \<and>
    (rtm_pending (ses_remoteTracks s) 0 = None \<or> rtm_open (ses_remoteTracks s) 0 = None) \<and>
    (odd (rg_id (ses_requestIDs s)) \<longleftrightarrow> cn_Perspective (ses_conn s) = PerspectiveServer)"
proof -
  let ?s = "snd (Subscribe_send example_env [[1]] [2] []
    (snd (Session_Run example_env 64 (newConnection PerspectiveClient ProtocolQUIC))))"
  have r: "reachable example_env ?s" by (rule reach_step [OF reach_Run step_other [OF step_Subscribe]])
  with session_invariant [OF _ r, of 0] show ?thesis by (auto simp: rfc_codec)
qed

text \<open>
  C8: The life of the requests of a session refines a machine with four steps, whatever the peer and
  the application do: an ID is handed out once, for a subscription or fetch or for another message;
  an answer settles the request, an error drops it, once. So a track that was answered stays in the
  table under its ID for the rest of the session, a request that was dropped and an ID that was spent
  never come back, and the ID that comes next is unknown to the table: adding the track of a new
  request does not fail, the error \<^verbatim>\<open>errDuplicateRequestIDBug\<close> does not occur.
\<close>

theorem request_lives:
  assumes "varint_codec (env_qv env)" and "reachable env s" and "(step env)\<^sup>*\<^sup>* s s'"
  shows "request_steps (requests_of s) (requests_of s') \<and>
    (rtm_open (ses_remoteTracks s) k = Some r \<longrightarrow> rtm_open (ses_remoteTracks s') k = Some r) \<and>
    (rtm_pending (ses_remoteTracks s) k = Some r \<longrightarrow>
       remoteTrackMap_findByRequestID (ses_remoteTracks s') k \<in> {Some r, None}) \<and>
    (k < rg_id (ses_requestIDs s) \<and> remoteTrackMap_findByRequestID (ses_remoteTracks s) k = None \<longrightarrow>
       remoteTrackMap_findByRequestID (ses_remoteTracks s') k = None) \<and>
    fst (remoteTrackMap_addPendingWithAlias (ses_remoteTracks s') (rg_id (ses_requestIDs s')) rt) = None \<and>
    fst (remoteTrackMap_addPending (ses_remoteTracks s') (rg_id (ses_requestIDs s')) rt) = None"
proof -
  note inv = reachable_inv [OF assms(1,2)]
  note refines = step_refines [OF assms(1) inv assms(3)]
  note life = request_life_tables [OF inv refines]
  have "inv_session s'" by (rule reachable_inv [OF assms(1) reachable_steps [OF assms(3,2)]])
  from fresh_next [OF this]
  have "fst (remoteTrackMap_addPendingWithAlias (ses_remoteTracks s') (rg_id (ses_requestIDs s')) rt) = None"
    "fst (remoteTrackMap_addPending (ses_remoteTracks s') (rg_id (ses_requestIDs s')) rt) = None"
    by (simp_all add: remoteTrackMap_addPendingWithAlias_def remoteTrackMap_addPending_def)
  then show ?thesis using refines life by blast
qed

text \<open>A client that has been through its handshake is reachable.\<close>

lemma example_reachable:
  "\<exists>s. reachable example_env s \<and> ses_requestIDs s = \<lparr>rg_id = 0, rg_max = 100, rg_interval = 2\<rparr>"
proof -
  let ?c = "snd (Session_Run example_env 64 (newConnection PerspectiveClient ProtocolQUIC))"
  have fits_64: "fits 64" by (simp add: fits_million)
  have c: "ses_requestIDs ?c = \<lparr>rg_id = 0, rg_max = 0, rg_interval = 2\<rparr>" "\<not> ses_handshakeDone ?c"
    "\<not> ses_handshakeDoneCh ?c" "cn_Perspective (ses_conn ?c) = PerspectiveClient"
    unfolding varint_codec.Run_client [OF rfc_codec example_env_simps(3) fits_64]
    by (simp_all add: newSession_def newConnection_def newRequestIDGenerator_def perspective_id_def)
  have p: "ControlMessageParser_Parse (env_qv example_env) (enc_frame rfc9000 (ServerSetup server_setup_message) @ [])
      = Inr (ServerSetup server_setup_message, [])"
    using varint_codec.Parse_sent [OF rfc_codec varint_codec.wire_ok_server_setup [OF rfc_codec], of "[]"] by simp
  have "reachable example_env (snd (receive example_env (ServerSetup server_setup_message) ?c))"
    by (rule reach_step [OF reach_Run step_receive [OF p]])
  then show ?thesis
    using c by (intro exI conjI) (auto simp: varint_codec.receive_server_setup [OF rfc_codec])
qed

theorem request_lives_witness:
  "\<exists>s. reachable example_env s \<and> ses_requestIDs s = \<lparr>rg_id = 0, rg_max = 100, rg_interval = 2\<rparr> \<and>
    request_steps (requests_of s) (requests_of (snd (Subscribe_send example_env [[1]] [2] [] s)))"
proof -
  obtain s where s: "reachable example_env s" "ses_requestIDs s = \<lparr>rg_id = 0, rg_max = 100, rg_interval = 2\<rparr>"
    using example_reachable by blast
  moreover have "(step example_env)\<^sup>*\<^sup>* s (snd (Subscribe_send example_env [[1]] [2] [] s))"
    by (intro r_into_rtranclp step_other step_Subscribe)
  ultimately show ?thesis using request_lives [of example_env s] by (auto simp: rfc_codec)
qed

text \<open>
  C9: From the start of a session with a well-behaved application and a limit that the wire format can
  carry, whatever control messages the peer sends after the parser has accepted them (fewer than the
  wire format can number calls of the application for), receiving them panics exactly when the limit that the
  session grants to the peer has been doubled beyond what the wire format can carry. Well-behaved
  means that a \<^verbatim>\<open>Handler\<close> is set (without one a GOAWAY panics, \<^verbatim>\<open>goaway_without_handler_panics\<close>), that
  the handlers make at most \<^verbatim>\<open>n\<close> calls for each message, only those that the response writer of the
  message has, and pass arguments that the wire format can carry.
\<close>

theorem session_panics_exactly:
  assumes "varint_codec (env_qv env)" and "well_behaved n env" and "fits i" and "length msgs * Suc n \<le> maxVarInt"
    and "\<forall>m \<in> set msgs. \<exists>input rest. ControlMessageParser_Parse (env_qv env) input = Inr (m, rest)"
    and "Session_Run env i conn = (Inr (), s)" and "receive_all env msgs s = (res, s')"
  shows "res = Inl Panic \<longleftrightarrow> \<not> fits (ses_localMaxRequestID s')"
  using assms by (rule session_panics)

definition example_handling :: Env where
  "example_handling = example_env\<lparr>env_Handler := Some (\<lambda>_. Done)\<rparr>"

theorem session_panics_exactly_witness:
  "fst (receive_all example_handling [Subscribe example_subscribe]
       (newSession 100 (newConnection PerspectiveServer ProtocolQUIC))) = Inl Panic \<longleftrightarrow>
   \<not> fits (ses_localMaxRequestID (snd (receive_all example_handling [Subscribe example_subscribe]
       (newSession 100 (newConnection PerspectiveServer ProtocolQUIC)))))"
proof (rule session_panics_exactly [where n = 1 and i = 100 and conn = "newConnection PerspectiveServer ProtocolQUIC"
      and env = example_handling and msgs = "[Subscribe example_subscribe]"])
  have qv: "env_qv example_handling = rfc9000" by (simp add: example_handling_def)
  show "varint_codec (env_qv example_handling)" by (simp add: qv rfc_codec)
  show "well_behaved 1 example_handling"
    by (simp add: well_behaved_def example_handling_def example_env_def ok_options_fit_def defaultSubscribeOkOptions_def
        wf_kvps_def fits_def GroupOrderAscending_def apply_options_def)
  show "\<forall>m \<in> set [Subscribe example_subscribe].
      \<exists>input rest. ControlMessageParser_Parse (env_qv example_handling) input = Inr (m, rest)"
    using varint_codec.Parse_sent [OF rfc_codec wire_ok_example, of "[]"] by (auto simp: qv)
  show "Session_Run example_handling 100 (newConnection PerspectiveServer ProtocolQUIC) =
      (Inr (), newSession 100 (newConnection PerspectiveServer ProtocolQUIC))"
    by (simp add: Session_Run_def newConnection_def)
qed (simp_all add: fits_million maxVarInt_def)

section \<open>The life of a session\<close>

text \<open>
  C10: \<^verbatim>\<open>Close\<close>, called after any life of a session with any documented error group, returns the error
  with which the first of the three reading loops ended: it never returns nil, not even when the
  session was closed without a failure.
\<close>

theorem close_returns_first_error:
  assumes "error_group G" and "lives G env (Run_start G i conn) L" and "Session_Close_result G L = Some res"
  shows "\<exists>e es. lf_errors L = e # es \<and> res = Some e"
  using error_group.Close_first_error [OF assms] .

theorem close_returns_first_error_witness:
  "\<exists>L e es. lives simple_group example_env (Run_start simple_group 100 (newConnection PerspectiveServer ProtocolQUIC)) L \<and>
     Session_Close_result simple_group L = Some (Some e) \<and> lf_errors L = e # es"
proof -
  let ?L0 = "Run_start simple_group 100 (newConnection PerspectiveServer ProtocolQUIC)"
  let ?L1 = "?L0\<lparr>lf_group := eg_cancel simple_group (lf_group ?L0), lf_closed := True\<rparr>"
  let ?L2 = "loop_returns simple_group Canceled (?L1\<lparr>lf_control := Returned (Some Canceled)\<rparr>)"
  let ?L3 = "loop_returns simple_group Canceled (?L2\<lparr>lf_streams := Returned (Some Canceled)\<rparr>)"
  let ?L4 = "loop_returns simple_group Canceled (?L3\<lparr>lf_datagrams := Returned (Some Canceled)\<rparr>)"
  have run: "lf_control ?L1 = Running" "lf_streams ?L2 = Running" "lf_datagrams ?L3 = Running"
    by (simp_all add: Run_start_def loop_returns_def)
  have lives: "lives simple_group example_env ?L0 ?L4"
    by (rule lives_step [OF lives_step [OF lives_step [OF lives_step [OF lives_refl close]
          control_end [OF run(1)]] streams_end [OF run(2)]] datagrams_end [OF run(3)]])
  moreover have "Session_Close_result simple_group ?L4 = Some (eg_wait simple_group (lf_group ?L4))"
    by (simp add: Session_Close_result_def loop_returns_def)
  ultimately show ?thesis
    using close_returns_first_error [OF simple_eg.error_group_axioms lives] by metis
qed

text \<open>
  C11: After the loop that reads the control stream has ended, a call that waits for a response
  that has not arrived is never released by one, whatever else happens: subscriptions, fetches,
  announcements, subscriptions to announcements and track status requests wait until their own
  context ends.
\<close>

theorem abandoned_calls_wait:
  assumes "lives G env L L'" and "lf_control L \<noteq> Running" and "r < ses_next (lf_session L)"
  shows "(rt_responseChan (ses_rt (lf_session L) r) = [] \<longrightarrow>
            Subscribe_wait Response r (lf_session L') = None \<and> Fetch_wait env Response r (lf_session L') = None) \<and>
         (ses_errCh (lf_session L) r = [] \<longrightarrow>
            Announce_wait Response r (lf_session L') = None \<and>
            SubscribeAnnouncements_wait Response r (lf_session L') = None) \<and>
         (ses_statusCh (lf_session L) r = [] \<longrightarrow> RequestTrackStatus_wait Response r (lf_session L') = None)"
  using abandoned_calls [OF assms] by blast

theorem abandoned_calls_wait_witness:
  "\<exists>L L'. life_step simple_group example_env L L' \<and> Subscribe_wait Response 0 (lf_session L') = None"
proof -
  let ?L = "(Run_start simple_group 100 (newConnection PerspectiveClient ProtocolQUIC))\<lparr>
      lf_session := example_subscribed, lf_control := Returned (Some EOF)\<rparr>"
  let ?L' = "?L\<lparr>lf_group := eg_cancel simple_group (lf_group ?L), lf_closed := True\<rparr>"
  have step: "life_step simple_group example_env ?L ?L'" by (rule close)
  moreover have "Subscribe_wait Response 0 (lf_session ?L') = None"
    using abandoned_calls_wait [OF lives_step [OF lives_refl step], of 0]
    by (simp add: Run_start_def example_subscribed_def newRemoteTrack_def)
  ultimately show ?thesis by blast
qed

text \<open>
  C12: A subscription over a network without failures, to a server that accepts it with any options
  that the wire format can carry, while no track of the client has the alias 0: the client's SUBSCRIBE
  opens a local track at the server, the last message the server sends is the SUBSCRIBE\_OK for it,
  with which the client's call returns its remote track, known by its alias from then on, open and
  with an empty buffer. The track shows the group order, the largest location and the parameters that
  the server has passed to \<^verbatim>\<open>Accept\<close>. (An expiry other than 0 is not one of these options, see
  \<^verbatim>\<open>expires_scaled\<close>.)
\<close>

theorem subscription_established:
  assumes "varint_codec qv" and "reliable qv envc" and "reliable qv envs" and "accepts_with oks envs ns name"
    and "wire_ok qv (SubscribeOk (subscribe_ok_with k (ok_options oks)))"
    and "inv_session c" and "rg_id (ses_requestIDs c) = k" and "k < rg_max (ses_requestIDs c)"
    and "wire_ok qv (Subscribe (subscribe_message k ns name options))" and "\<not> bad_namespace ns"
    and "rtm_trackAliasToRequestID (ses_remoteTracks c) 0 = None"
    and "ses_handshakeDone c" and "ses_handshakeDone s"
    and "k < ses_localMaxRequestID s" and "fits (2 * ses_localMaxRequestID s)"
    and "ltm_pending (ses_localTracks s) k = None" and "ltm_open (ses_localTracks s) k = None"
  shows "\<exists>rt lt c' s' c'' c3. Subscribe_send envc ns name options c = (Inr rt, c') \<and>
    cn_sent (ses_conn c') = cn_sent (ses_conn c) @ [Subscribe (subscribe_message k ns name options)] \<and>
    receive envs (Subscribe (subscribe_message k ns name options)) s = (Inr (), s') \<and>
    ltm_open (ses_localTracks s') k = Some lt \<and> lt_done (ses_lt s' lt) = None \<and>
    lt_trackAlias (ses_lt s' lt) = seq_last (ses_trackAliases s) \<and>
    last (cn_sent (ses_conn s')) = SubscribeOk (subscribe_ok_with k (ok_options oks)) \<and>
    receive envc (SubscribeOk (subscribe_ok_with k (ok_options oks))) c' = (Inr (), c'') \<and>
    Subscribe_wait Response rt c'' = Some (Inr rt, c3) \<and>
    remoteTrackMap_findByTrackAlias (ses_remoteTracks c'') 0 = Some rt \<and>
    rt_buffer (ses_rt c'' rt) = [] \<and> rt_done (ses_rt c'' rt) = None \<and>
    RemoteTrack_RequestID (ses_rt c'' rt) = k \<and> shows_options (ok_options oks) (ses_rt c'' rt)"
  using assms by (rule varint_codec.subscription_with)

lemma wire_ok_example_options:
  "k \<le> 1000 \<Longrightarrow> wire_ok rfc9000 (Subscribe (subscribe_message k [[1, 2]] [7] []))"
  by (simp add: wire_ok_def subscribe_message_def apply_options_def defaultSubscribeOptions_def Let_def wf_eval
      enc_Subscribe_def enc_eval boolToUint8_def GroupOrderAscending_def FilterTypeLatestObject_def
      FilterTypeAbsoluteStart_def FilterTypeAbsoluteRange_def word_le_nat_alt)

definition example_oks :: "SubscribeOKOption list" where
  "example_oks = [WithGroupOrder 2, WithLargestLocation (Some \<lparr>loc_Group = 5, loc_Object = 0\<rparr>)]"

definition example_publisher :: Env where
  "example_publisher = example_env\<lparr>env_SubscribeHandler := Some (\<lambda>_. Call (SubscribeAccept example_oks) (\<lambda>_. Done))\<rparr>"

lemma example_publisher_simps:
  "reliable rfc9000 example_publisher" "accepts_with example_oks example_publisher ns name"
  "ok_options example_oks = \<lparr>soo_Expires = 0, soo_GroupOrder = 2, soo_ContentExists = True,
     soo_LargestLocation = Some \<lparr>loc_Group = 5, loc_Object = 0\<rparr>, soo_Parameters = []\<rparr>"
  by (simp_all add: example_publisher_def accepts_with_def example_env_def reliable_def example_oks_def
      apply_options_def defaultSubscribeOkOptions_def WithGroupOrder_def WithLargestLocation_def)

lemma wire_ok_example_oks: "wire_ok rfc9000 (SubscribeOk (subscribe_ok_with 0 (ok_options example_oks)))"
  by (simp add: wire_ok_def example_publisher_simps subscribe_ok_with_def wf_SubscribeOk_def enc_SubscribeOk_def wf_eval
      enc_eval)

theorem subscription_established_witness:
  "\<exists>rt c' s' c'' c3. Subscribe_send example_env [[1, 2]] [7] [] (example_session PerspectiveClient) = (Inr rt, c') \<and>
    receive example_publisher (Subscribe (subscribe_message 0 [[1, 2]] [7] [])) (example_session PerspectiveServer) = (Inr (), s') \<and>
    receive example_env (SubscribeOk (subscribe_ok_with 0 (ok_options example_oks))) c' = (Inr (), c'') \<and>
    Subscribe_wait Response rt c'' = Some (Inr rt, c3) \<and>
    RemoteTrack_GroupOrder (ses_rt c'' rt) = 2 \<and>
    RemoteTrack_LargestLocation (ses_rt c'' rt) = (\<lparr>loc_Group = 5, loc_Object = 0\<rparr>, True)"
proof -
  note sub = subscription_established [OF rfc_codec _ example_publisher_simps(1,2) wire_ok_example_oks, of example_env
      "example_session PerspectiveClient" "[[1, 2]]" "[7]" "[]" "example_session PerspectiveServer"]
  from sub show ?thesis
    using inv_example_session [of PerspectiveClient] wire_ok_example_options [of 0]
    by (auto simp: perspective_id_def tables_new bad_namespace_def fits_million shows_options_def example_publisher_simps(3))
qed

text \<open>
  C13: A second subscription of a client that knows a track by the alias 0 already, over a network
  without failures, for a valid namespace and within the limits of request IDs, to a server that
  accepts it with any options that the wire format can carry: whatever alias the server has given to
  its track, its SUBSCRIBE\_OK carries the alias 0. At the client that message is an error that ends
  the session, and the waiting call does not get an answer.
\<close>

theorem second_subscription_fails:
  assumes "varint_codec qv" and "reliable qv envc" and "reliable qv envs" and "accepts_with oks envs ns name"
    and "wire_ok qv (SubscribeOk (subscribe_ok_with k (ok_options oks)))"
    and "inv_session c" and "rg_id (ses_requestIDs c) = k" and "k < rg_max (ses_requestIDs c)"
    and "wire_ok qv (Subscribe (subscribe_message k ns name options))" and "\<not> bad_namespace ns"
    and "rtm_trackAliasToRequestID (ses_remoteTracks c) 0 = Some j"
    and "ses_handshakeDone c" and "ses_handshakeDone s"
    and "k < ses_localMaxRequestID s" and "fits (2 * ses_localMaxRequestID s)"
    and "ltm_pending (ses_localTracks s) k = None" and "ltm_open (ses_localTracks s) k = None"
  shows "\<exists>rt lt c' s' m c''. Subscribe_send envc ns name options c = (Inr rt, c') \<and>
    receive envs (Subscribe (subscribe_message k ns name options)) s = (Inr (), s') \<and>
    ltm_open (ses_localTracks s') k = Some lt \<and>
    lt_trackAlias (ses_lt s' lt) = seq_last (ses_trackAliases s) \<and>
    last (cn_sent (ses_conn s')) = SubscribeOk m \<and> som_RequestID m = k \<and> som_TrackAlias m = 0 \<and>
    receive envc (SubscribeOk m) c' = (Inl (Fail errDuplicateTrackAliasBug), c'') \<and>
    Subscribe_wait Response rt c'' = None"
  using assms by (rule varint_codec.second_subscription)

definition example_serving :: Session where
  "example_serving = (example_session PerspectiveServer)\<lparr>ses_trackAliases := \<lparr>seq_last = 1, seq_interval = 1\<rparr>\<rparr>"

lemma example_serving_simps:
  "ses_handshakeDone example_serving" "ses_localMaxRequestID example_serving = 100"
  "ses_localTracks example_serving = newLocalTrackMap" "seq_last (ses_trackAliases example_serving) = 1"
  by (simp_all add: example_serving_def)

theorem second_subscription_fails_witness:
  "\<exists>rt lt c' s' m c''. Subscribe_send example_env [[1, 2]] [7] [] example_subscribed = (Inr rt, c') \<and>
    receive example_env (Subscribe (subscribe_message 2 [[1, 2]] [7] [])) example_serving = (Inr (), s') \<and>
    ltm_open (ses_localTracks s') 2 = Some lt \<and> lt_trackAlias (ses_lt s' lt) = 1 \<and>
    last (cn_sent (ses_conn s')) = SubscribeOk m \<and> som_RequestID m = 2 \<and> som_TrackAlias m = 0 \<and>
    receive example_env (SubscribeOk m) c' = (Inl (Fail errDuplicateTrackAliasBug), c'') \<and>
    Subscribe_wait Response rt c'' = None"
proof -
  have "wire_ok rfc9000 (SubscribeOk (subscribe_ok_with 2 (ok_options [])))"
    using varint_codec.wire_ok_subscribe_ok [OF rfc_codec, of 2] by (simp add: ok_options_Nil fits_million)
  from second_subscription_fails [OF rfc_codec example_env_simps(3,3,4) this inv_example_subscribed,
      of "[[1, 2]]" "[7]" "[]" 0 example_serving]
  show ?thesis
    using wire_ok_example_options [of 2]
    by (simp add: example_serving_simps tables_new bad_namespace_def fits_million)
qed

text \<open>
  C14: A SUBSCRIBE\_ERROR for a pending subscription is the error that the waiting call returns,
  with its code and reason, and the subscription is forgotten.
\<close>

theorem subscribe_error_delivered:
  assumes "rtm_pending (ses_remoteTracks s) (sem_RequestID m) = Some rt"
    and "rt_responseChan (ses_rt s rt) = []" and "rt_requestID (ses_rt s rt) = sem_RequestID m"
    and "rtm_open (ses_remoteTracks s) (sem_RequestID m) = None"
  shows "\<exists>s' t. onSubscribeError m s = (Inr (), s') \<and>
    Subscribe_wait Response rt s' =
      Some (Inl (Fail (ProtocolError (sem_ErrorCode m) (sem_ReasonPhrase m))), t) \<and>
    remoteTrackMap_findByRequestID (ses_remoteTracks t) (sem_RequestID m) = None"
  using assms by (rule varint_codec.onSubscribeError_delivers [OF rfc_codec])

theorem subscribe_error_delivered_witness:
  "\<exists>s' t. onSubscribeError \<lparr>sem_RequestID = 0, sem_ErrorCode = 4, sem_ReasonPhrase = [110, 111]\<rparr>
      ((example_session PerspectiveClient)\<lparr>ses_remoteTracks := newRemoteTrackMap\<lparr>rtm_pending := [0 \<mapsto> 3]\<rparr>\<rparr>) = (Inr (), s') \<and>
    Subscribe_wait Response 3 s' = Some (Inl (Fail (ProtocolError 4 [110, 111])), t) \<and>
    remoteTrackMap_findByRequestID (ses_remoteTracks t) 0 = None"
  using subscribe_error_delivered [of "(example_session PerspectiveClient)\<lparr>ses_remoteTracks :=
      newRemoteTrackMap\<lparr>rtm_pending := [0 \<mapsto> 3]\<rparr>\<rparr>" "\<lparr>sem_RequestID = 0, sem_ErrorCode = 4, sem_ReasonPhrase = [110, 111]\<rparr>" 3]
  by (simp add: newRemoteTrackMap_def newRemoteTrack_def)

section \<open>Dialogues\<close>

definition example_answering :: "rw_call \<Rightarrow> Env" where
  "example_answering a = example_env\<lparr>env_Handler := Some (\<lambda>_. Call a (\<lambda>_. Done))\<rparr>"

lemma example_answering_simps [simp]:
  "reliable rfc9000 (example_answering a)" "answers (example_answering a) m a"
  by (simp_all add: example_answering_def example_env_def reliable_def answers_def)

lemma wire_ok_dialogues:
  "k \<le> 1000 \<Longrightarrow> wire_ok rfc9000 (Announce (announce_message k [[1, 2]]))"
  "k \<le> 1000 \<Longrightarrow> wire_ok rfc9000 (Fetch (fetch_message k [[1, 2]] [7]))"
  "k \<le> 1000 \<Longrightarrow> wire_ok rfc9000 (announce_answer k (Reject 4 [110, 111]))"
  "k \<le> 1000 \<Longrightarrow> wire_ok rfc9000 (fetch_answer k Accept)"
  "k \<le> 1000 \<Longrightarrow> wire_ok rfc9000 (fetch_answer k (Reject 4 [110, 111]))"
  by (simp_all add: wire_ok_def announce_message_def fetch_message_def wf_eval enc_eval wf_Announce_def
      enc_Announce_def wf_Fetch_def enc_Fetch_def wf_AnnounceError_def enc_AnnounceError_def wf_FetchOk_def
      enc_FetchOk_def wf_FetchError_def enc_FetchError_def FetchTypeStandalone_def zeroLocation_def word_le_nat_alt)

text \<open>
  C15: An announcement over a network without failures: the ANNOUNCE that the call writes reaches the
  handler of the peer, and the call returns with the answer of that handler, without an error when
  it accepts and with the code and reason of the rejection otherwise.
\<close>

theorem announcement_answered:
  assumes "varint_codec qv" and "reliable qv envc" and "reliable qv envs"
    and "answers envs (announced k ns) a" and "is_answer a"
    and "rg_id (ses_requestIDs c) = k" and "k < rg_max (ses_requestIDs c)" and "\<not> bad_namespace ns"
    and "wire_ok qv (Announce (announce_message k ns))" and "wire_ok qv (announce_answer k a)"
    and "ses_handshakeDone c" and "ses_handshakeDone s"
  shows "\<exists>ch c' s' c'' c3. Announce_send envc ns c = (Inr ch, c') \<and>
    writes qv c c' (Announce (announce_message k ns)) \<and>
    receive envs (Announce (announce_message k ns)) s = (Inr (), s') \<and>
    ses_app s' = ses_app s @ [Handled (announced k ns)] \<and> writes qv s s' (announce_answer k a) \<and>
    receive envc (announce_answer k a) c' = (Inr (), c'') \<and>
    Announce_wait Response ch c'' = Some (result_of (answer_error a), c3)"
  using assms by (rule varint_codec.announcement)

theorem announcement_answered_witness:
  "\<exists>ch c' s' c'' c3. Announce_send example_env [[1, 2]] (example_session PerspectiveClient) = (Inr ch, c') \<and>
    receive (example_answering (Reject 4 [110, 111])) (Announce (announce_message 0 [[1, 2]]))
      (example_session PerspectiveServer) = (Inr (), s') \<and>
    receive example_env (announce_answer 0 (Reject 4 [110, 111])) c' = (Inr (), c'') \<and>
    Announce_wait Response ch c'' = Some (Inl (Fail (ProtocolError 4 [110, 111])), c3)"
  using announcement_answered [OF rfc_codec, of example_env "example_answering (Reject 4 [110, 111])" 0 "[[1, 2]]"
      "Reject 4 [110, 111]" "example_session PerspectiveClient" "example_session PerspectiveServer"]
    wire_ok_dialogues(1,3) [of 0]
  by (auto simp: perspective_id_def bad_namespace_def result_of_def)

text \<open>
  C16: A fetch over a network without failures, to a server whose handler accepts it: the handler is
  called with the track of the FETCH, the last frame the server writes is the FETCH\_OK, and with it
  the call returns a remote track that is known by the request ID from then on.
\<close>

theorem fetch_established:
  assumes "varint_codec qv" and "reliable qv envc" and "reliable qv envs"
    and "answers envs (fetch_asked k ns name) Accept"
    and "inv_session c" and "rg_id (ses_requestIDs c) = k" and "k < rg_max (ses_requestIDs c)"
    and "wire_ok qv (Fetch (fetch_message k ns name))" and "wire_ok qv (fetch_answer k Accept)"
    and "\<not> bad_namespace ns" and "ses_handshakeDone c" and "ses_handshakeDone s"
    and "k < ses_localMaxRequestID s" and "fits (2 * ses_localMaxRequestID s)"
    and "ltm_pending (ses_localTracks s) k = None" and "ltm_open (ses_localTracks s) k = None"
  shows "\<exists>rt lt c' s' c'' c3. Fetch_send envc ns name c = (Inr rt, c') \<and>
    writes qv c c' (Fetch (fetch_message k ns name)) \<and>
    receive envs (Fetch (fetch_message k ns name)) s = (Inr (), s') \<and>
    ses_app s' = ses_app s @ [Handled (fetch_asked k ns name)] \<and>
    ends_with qv s' (fetch_answer k Accept) \<and>
    ltm_open (ses_localTracks s') k = Some lt \<and> lt_done (ses_lt s' lt) = None \<and>
    receive envc (fetch_answer k Accept) c' = (Inr (), c'') \<and>
    Fetch_wait envc Response rt c'' = Some (Inr rt, c3) \<and>
    remoteTrackMap_findByRequestID (ses_remoteTracks c3) k = Some rt"
  using assms by (rule varint_codec.fetch_accepted)

theorem fetch_established_witness:
  "\<exists>rt c' s' c'' c3. Fetch_send example_env [[1, 2]] [7] (example_session PerspectiveClient) = (Inr rt, c') \<and>
    receive (example_answering Accept) (Fetch (fetch_message 0 [[1, 2]] [7]))
      (example_session PerspectiveServer) = (Inr (), s') \<and>
    receive example_env (fetch_answer 0 Accept) c' = (Inr (), c'') \<and>
    Fetch_wait example_env Response rt c'' = Some (Inr rt, c3)"
proof -
  note fetch = fetch_established [OF rfc_codec, of example_env "example_answering Accept" 0 "[[1, 2]]" "[7]"
      "example_session PerspectiveClient" "example_session PerspectiveServer"]
  from fetch show ?thesis
    using inv_example_session [of PerspectiveClient] wire_ok_dialogues(2,4) [of 0]
    by (auto simp: perspective_id_def tables_new bad_namespace_def fits_million)
qed

text \<open>
  C17: A fetch that the handler rejects: the call returns the code and the reason, but it also sends
  a FETCH\_CANCEL for the request that the publisher has already dropped. For the publisher that is
  an unknown request ID, and the error ends its session.
\<close>

theorem rejected_fetch_ends_session:
  assumes "varint_codec qv" and "reliable qv envc" and "reliable qv envs"
    and "answers envs (fetch_asked k ns name) (Reject code reason)"
    and "inv_session c" and "rg_id (ses_requestIDs c) = k" and "k < rg_max (ses_requestIDs c)"
    and "wire_ok qv (Fetch (fetch_message k ns name))" and "wire_ok qv (fetch_answer k (Reject code reason))"
    and "\<not> bad_namespace ns" and "ses_handshakeDone c" and "ses_handshakeDone s"
    and "k < ses_localMaxRequestID s" and "fits (2 * ses_localMaxRequestID s)"
    and "ltm_pending (ses_localTracks s) k = None" and "ltm_open (ses_localTracks s) k = None"
  shows "\<exists>rt c' s' c'' c3. Fetch_send envc ns name c = (Inr rt, c') \<and>
    writes qv c c' (Fetch (fetch_message k ns name)) \<and>
    receive envs (Fetch (fetch_message k ns name)) s = (Inr (), s') \<and>
    ends_with qv s' (fetch_answer k (Reject code reason)) \<and>
    receive envc (fetch_answer k (Reject code reason)) c' = (Inr (), c'') \<and>
    Fetch_wait envc Response rt c'' = Some (Inl (Fail (ProtocolError code reason)), c3) \<and>
    writes qv c'' c3 (FetchCancel \<lparr>fcm_RequestID = k\<rparr>) \<and>
    receive envs (FetchCancel \<lparr>fcm_RequestID = k\<rparr>) s' = (Inl (Fail errUnknownRequestID), s')"
  using assms by (rule varint_codec.fetch_rejected)

theorem rejected_fetch_ends_session_witness:
  "\<exists>rt c' s' c'' c3. Fetch_send example_env [[1, 2]] [7] (example_session PerspectiveClient) = (Inr rt, c') \<and>
    receive (example_answering (Reject 4 [110, 111])) (Fetch (fetch_message 0 [[1, 2]] [7]))
      (example_session PerspectiveServer) = (Inr (), s') \<and>
    Fetch_wait example_env Response rt c'' = Some (Inl (Fail (ProtocolError 4 [110, 111])), c3) \<and>
    receive (example_answering (Reject 4 [110, 111])) (FetchCancel \<lparr>fcm_RequestID = 0\<rparr>) s' =
      (Inl (Fail errUnknownRequestID), s')"
proof -
  note fetch = rejected_fetch_ends_session [OF rfc_codec, of example_env "example_answering (Reject 4 [110, 111])"
      0 "[[1, 2]]" "[7]" 4 "[110, 111]" "example_session PerspectiveClient" "example_session PerspectiveServer"]
  from fetch show ?thesis
    using inv_example_session [of PerspectiveClient] wire_ok_dialogues(2,5) [of 0]
    by (simp add: perspective_id_def tables_new bad_namespace_def fits_million) blast
qed

text \<open>
  C18: A publisher closes an open track, over a network without failures. From then on no datagram can be sent on it and no subgroup opened,
  but a subgroup that is open already goes on: its writes are not refused. SUBSCRIBE\_DONE reaches
  the subscriber, and a read that finds the track done returns its code and reason; an object still in
  the buffer comes with the error of a cancelled context. Closing the track at the subscriber then
  sends an UNSUBSCRIBE that the publisher does not know: that error ends its session.
\<close>

theorem publisher_ends_subscription:
  assumes "varint_codec qv" and "reliable qv envs" and "reliable qv envc"
    and "wire_ok qv (SubscribeDone (done_message s lt code reason))"
    and "ltm_open (ses_localTracks s) k = Some lt" and "ltm_pending (ses_localTracks s) k = None"
    and "lt_requestID (ses_lt s lt) = k" and "lt_subscribeDone (ses_lt s lt)" and "lt_done (ses_lt s lt) = None"
    and "remoteTrackMap_findByRequestID (ses_remoteTracks c) k = Some rt" and "rt_done (ses_rt c rt) = None"
    and "rt_unsubscribeFunc (ses_rt c rt) = Some (CallUnsubscribe k)"
    and "ses_handshakeDone c" and "ses_handshakeDone s"
  shows "\<exists>s' c' c''. localTrack_close envs lt code reason s = (Inr (), s') \<and>
    writes qv s s' (SubscribeDone (done_message s lt code reason)) \<and>
    on_track lt (localTrack_sendDatagram qv net ob) s' = (Inl (Fail ErrSubscriptionDone), s') \<and>
    on_track lt (openSubgroup qv net g sg p) s' = (Inl (Fail ErrSubscriptionDone), s') \<and>
    subgroups_go_on qv s s' \<and>
    receive envc (SubscribeDone (done_message s lt code reason)) c = (Inr (), c') \<and>
    ReadObject TrackDone (ses_rt c' rt) = Some ((None, Some (ErrSubscribeDone code reason)), ses_rt c' rt) \<and>
    ReadObject FromBuffer (ses_rt c' rt) =
      (case rt_buffer (ses_rt c rt) of
         [] \<Rightarrow> None
       | x # xs \<Rightarrow> Some ((Some x, Some Canceled), (ses_rt c' rt)\<lparr>rt_buffer := xs\<rparr>)) \<and>
    RemoteTrack_Close envc rt c' = (Inr (), c'') \<and> writes qv c' c'' (Unsubscribe \<lparr>usm_RequestID = k\<rparr>) \<and>
    receive envs (Unsubscribe \<lparr>usm_RequestID = k\<rparr>) s' = (Inl (Fail errUnknownRequestID), s')"
  using assms by (rule varint_codec.publisher_ends)

definition example_published :: Session where
  "example_published = (example_session PerspectiveServer)\<lparr>ses_next := 1,
     ses_conn := (newConnection PerspectiveServer ProtocolQUIC)\<lparr>cn_streams := [[4, 0, 5, 6, 7]]\<rparr>,
     ses_lt := (\<lambda>_. newLocalTrack 0 0 True), ses_localTracks := newLocalTrackMap\<lparr>ltm_open := [0 \<mapsto> 0]\<rparr>\<rparr>"

definition example_reading :: Session where
  "example_reading = example_subscribed\<lparr>ses_rt := (\<lambda>_. newRemoteTrack 0 (Some (CallUnsubscribe 0)) (Some 0))\<rparr>"

definition example_subgroup :: Subgroup where
  "example_subgroup = \<lparr>sg_stream = 0, sg_groupID = 5, sg_subgroupID = 6\<rparr>"

lemma example_write:
  assumes "subgroups_go_on rfc9000 example_published s'"
  shows "fst (Subgroup_WriteObject rfc9000 (\<lambda>_. NetOk) example_subgroup 1 [65, 66] (ses_conn s')) = Inr 2"
proof -
  have open0: "sg_stream example_subgroup < length (cn_streams (ses_conn example_published))"
    by (simp add: example_subgroup_def example_published_def)
  have ok: "sendable (1, [65, 66])" by (simp add: sendable_def fits_million maxAlloc_def)
  show ?thesis using assms open0 ok unfolding subgroups_go_on_def by (fastforce split: prod.splits)
qed

lemma example_open_simps [simp]:
  "ltm_open (ses_localTracks example_published) 0 = Some 0" "ltm_pending (ses_localTracks example_published) 0 = None"
  "ses_lt example_published = (\<lambda>_. newLocalTrack 0 0 True)" "ses_handshakeDone example_published"
  "ses_rt example_reading = (\<lambda>_. newRemoteTrack 0 (Some (CallUnsubscribe 0)) (Some 0))"
  "ses_remoteTracks example_reading = ses_remoteTracks example_subscribed" "ses_handshakeDone example_reading"
  by (simp_all add: example_published_def example_reading_def newLocalTrackMap_def)

theorem publisher_ends_subscription_witness:
  "\<exists>s' c'. localTrack_close example_env 0 3 [98] example_published = (Inr (), s') \<and>
    receive example_env (SubscribeDone (done_message example_published 0 3 [98])) example_reading = (Inr (), c') \<and>
    fst (Subgroup_WriteObject rfc9000 (\<lambda>_. NetOk) example_subgroup 1 [65, 66] (ses_conn s')) = Inr 2 \<and>
    ReadObject TrackDone (ses_rt c' 0) = Some ((None, Some (ErrSubscribeDone 3 [98])), ses_rt c' 0) \<and>
    receive example_env (Unsubscribe \<lparr>usm_RequestID = 0\<rparr>) s' = (Inl (Fail errUnknownRequestID), s')"
proof -
  have "wire_ok rfc9000 (SubscribeDone (done_message example_published 0 3 [98]))"
    by (simp add: done_message_def newLocalTrack_def wire_ok_def wf_SubscribeDone_def enc_SubscribeDone_def wf_eval enc_eval)
  with publisher_ends_subscription [OF rfc_codec, of example_env example_env example_published 0 3 "[98]" 0 example_reading 0]
  show ?thesis by (simp add: newLocalTrack_def newRemoteTrack_def) (blast intro: example_write)
qed

text \<open>
  C19: A subscriber closes a track, over a network without failures. The UNSUBSCRIBE reaches the publisher, which from then on can send
  no datagram on the track and open no subgroup, each attempt failing with \<^verbatim>\<open>ErrUnsusbcribed\<close>; writes
  to a subgroup that is open already are not refused. Neither side forgets the track: it stays in the
  tables of both, and at the subscriber it is not done, so a read waits on.
\<close>

theorem subscriber_ends_subscription:
  assumes "varint_codec qv" and "reliable qv envc" and "fits k"
    and "localTrackMap_findByID (ses_localTracks s) k = Some lt" and "lt_done (ses_lt s lt) = None"
    and "rt_done (ses_rt c rt) = None" and "rt_unsubscribeFunc (ses_rt c rt) = Some (CallUnsubscribe k)"
    and "ses_handshakeDone s"
  shows "\<exists>c' s'. RemoteTrack_Close envc rt c = (Inr (), c') \<and>
    writes qv c c' (Unsubscribe \<lparr>usm_RequestID = k\<rparr>) \<and> ses_rt c' = ses_rt c \<and>
    ses_remoteTracks c' = ses_remoteTracks c \<and> ReadObject TrackDone (ses_rt c' rt) = None \<and>
    receive envs (Unsubscribe \<lparr>usm_RequestID = k\<rparr>) s = (Inr (), s') \<and>
    on_track lt (localTrack_sendDatagram qv net ob) s' = (Inl (Fail ErrUnsusbcribed), s') \<and>
    on_track lt (openSubgroup qv net g sg p) s' = (Inl (Fail ErrUnsusbcribed), s') \<and>
    subgroups_go_on qv s s' \<and>
    localTrackMap_findByID (ses_localTracks s') k = Some lt"
  using assms by (rule varint_codec.subscriber_ends)

theorem subscriber_ends_subscription_witness:
  "\<exists>c' s'. RemoteTrack_Close example_env 0 example_reading = (Inr (), c') \<and>
    receive example_env (Unsubscribe \<lparr>usm_RequestID = 0\<rparr>) example_published = (Inr (), s') \<and>
    on_track 0 (openSubgroup rfc9000 (\<lambda>_. NetOk) 1 2 3) s' = (Inl (Fail ErrUnsusbcribed), s') \<and>
    fst (Subgroup_WriteObject rfc9000 (\<lambda>_. NetOk) example_subgroup 1 [65, 66] (ses_conn s')) = Inr 2"
  using subscriber_ends_subscription [OF rfc_codec, of example_env 0 example_published 0 example_reading 0]
  by (simp add: newLocalTrack_def newRemoteTrack_def localTrackMap_findByID_def fits_million) (blast intro: example_write)

section \<open>Objects\<close>

text \<open>
  C20: The objects that a publisher writes to a subgroup of an open track arrive at the
  subscriber in the buffer of the remote track with that alias, in the order of writing and with
  their group, subgroup, ID and payload; beyond the capacity of the buffer they are dropped.
\<close>

theorem objects_delivered:
  assumes "varint_codec qv" and "\<And>n. net n = NetOk" and "env_qv env = qv"
    and "lt_done lt = None" and "lt_trackAlias lt = a" and "fits a" and "fits g" and "fits sg"
    and "list_all sendable objs"
    and "openSubgroup qv net g sg prio (lt, conn) = (Inr sub, (lt', conn'))"
    and "write_objects qv net sub objs conn' = (res, conn'')"
    and "remoteTrackMap_findByTrackAlias (ses_remoteTracks s) a = Some rt"
    and "length (rt_buffer (ses_rt s rt)) \<le> buffer_capacity"
  shows "res = Inr () \<and> readStreams_stream env (cn_streams conn'' ! sg_stream sub) s =
    Some (Inr (), s\<lparr>ses_rt := (ses_rt s)(rt := (ses_rt s rt)\<lparr>
      rt_subGroupCount := rt_subGroupCount (ses_rt s rt) + 1,
      rt_buffer := take buffer_capacity (rt_buffer (ses_rt s rt) @
        map (\<lambda>(i, payload). \<lparr>obj_GroupID = g, obj_ObjectID = i, obj_ForwardingPreference = 0,
                              obj_SubGroupID = sg, obj_Payload = payload\<rparr>) objs)\<rparr>)\<rparr>)"
  using assms by (rule varint_codec.subgroup_delivered)

theorem objects_delivered_witness:
  "\<exists>stream s'. readStreams_stream example_env stream example_subscribed = Some (Inr (), s') \<and>
    map obj_Payload (rt_buffer (ses_rt s' 0)) = [[65], [], [66, 67]]"
proof -
  let ?lt = "newLocalTrack 0 0 True" and ?conn = "newConnection PerspectiveServer ProtocolQUIC"
  let ?objs = "[(0, [65]), (1, []), (2, [66, 67])]"
  obtain sub lt' conn' where o: "openSubgroup rfc9000 (\<lambda>_. NetOk) 5 6 7 (?lt, ?conn) = (Inr sub, (lt', conn'))"
    using varint_codec.openSubgroup_ok [OF rfc_codec, of "\<lambda>_. NetOk" ?lt "\<lparr>shm_TrackAlias = 0, shm_GroupID = 5,
      shm_SubgroupID = 6, shm_PublisherPriority = 7\<rparr>" ?conn]
    by (auto simp: newLocalTrack_def wf_subgroup_header_def fits_million)
  obtain res conn'' where w: "write_objects rfc9000 (\<lambda>_. NetOk) sub ?objs conn' = (res, conn'')"
    by (cases "write_objects rfc9000 (\<lambda>_. NetOk) sub ?objs conn'")
  have "list_all sendable ?objs" by (simp add: sendable_def fits_million maxAlloc_def)
  note objs = this
  have "lt_done ?lt = None" "lt_trackAlias ?lt = 0" "fits 0" "fits 5" "fits 6"
    "length (rt_buffer (ses_rt example_subscribed 0)) \<le> buffer_capacity"
    by (simp_all add: newLocalTrack_def newRemoteTrack_def fits_million)
  from objects_delivered [OF rfc_codec refl example_env_simps(1) this(1-5) objs o w
      example_subscribed_simps(3) this(6)]
  show ?thesis
    by (elim conjE) (rule exI, rule exI, rule conjI, assumption,
        simp add: newRemoteTrack_def buffer_capacity_def)
qed

text \<open>
  C21: Over a network without failures, the objects that a publisher writes to the fetch stream of an
  accepted fetch (with numbers that the wire format can carry) arrive in the buffer of the fetching
  track, in order, with group, subgroup, ID and payload, as far as the buffer has room for them. The first call of \<^verbatim>\<open>getFetchStream\<close> opens one stream; every later call returns
  the same stream and opens none.
\<close>

theorem fetched_objects_delivered:
  assumes "varint_codec qv" and "\<And>n. net n = NetOk" and "env_qv env = qv"
    and "lt_done lt = None" and "lt_fetchStream lt = None" and "fits (lt_requestID lt)"
    and "list_all (wf_object \<circ> fetched_message) objs"
    and "getFetchStream qv net (lt, conn) = (r, (lt', conn'))"
    and "remoteTrackMap_findByRequestID (ses_remoteTracks s) (lt_requestID lt) = Some rt"
    and "length (rt_buffer (ses_rt s rt)) \<le> buffer_capacity" and "rt_fetchCount (ses_rt s rt) = 0"
  shows "\<exists>f conn''. r = Inr f \<and> lt' = lt\<lparr>lt_fetchStream := Some f\<rparr> \<and>
    length (cn_streams conn') = Suc (length (cn_streams conn)) \<and>
    (\<forall>c. getFetchStream qv net (lt', c) = (Inr f, (lt', c))) \<and>
    write_fetched qv net f objs conn' = (Inr (), conn'') \<and>
    readStreams_stream env (cn_streams conn'' ! fs_stream f) s =
    Some (Inr (), s\<lparr>ses_rt := (ses_rt s)(rt := (ses_rt s rt)\<lparr>rt_fetchCount := 1,
      rt_buffer := take buffer_capacity (rt_buffer (ses_rt s rt) @ map (object_of \<circ> fetched_message) objs)\<rparr>)\<rparr>)"
  using assms by (rule varint_codec.fetch_delivered)

theorem fetched_objects_delivered_witness:
  "\<exists>stream s'. readStreams_stream example_env stream example_subscribed = Some (Inr (), s') \<and>
    map obj_Payload (rt_buffer (ses_rt s' 0)) = [[65], [66, 67]]"
proof -
  let ?lt = "newLocalTrack 0 0 False" and ?conn = "newConnection PerspectiveServer ProtocolQUIC"
  let ?objs = "[(1, 2, 3, 4, [65]), (1, 2, 4, 4, [66, 67])]"
  obtain r lt' conn' where g: "getFetchStream rfc9000 (\<lambda>_. NetOk) (?lt, ?conn) = (r, (lt', conn'))"
    by (cases "getFetchStream rfc9000 (\<lambda>_. NetOk) (?lt, ?conn)") auto
  have "list_all (wf_object \<circ> fetched_message) ?objs" by (simp add: wf_object_def fits_million maxAlloc_def)
  note wf = this
  have "lt_done ?lt = None" "lt_fetchStream ?lt = None" "fits (lt_requestID ?lt)"
    "remoteTrackMap_findByRequestID (ses_remoteTracks example_subscribed) (lt_requestID ?lt) = Some 0"
    "length (rt_buffer (ses_rt example_subscribed 0)) \<le> buffer_capacity" "rt_fetchCount (ses_rt example_subscribed 0) = 0"
    by (simp_all add: newLocalTrack_def newRemoteTrack_def)
  from fetched_objects_delivered [OF rfc_codec refl example_env_simps(1) this(1-3) wf g this(4-6)]
  show ?thesis
    by (elim exE conjE) (rule exI, rule exI, rule conjI, assumption,
        simp add: newRemoteTrack_def buffer_capacity_def object_of_def)
qed

text \<open>
  C22: An object that a publisher sends as a datagram is pushed to the remote track with its
  alias, with group, ID and payload.
\<close>

theorem datagram_objects_delivered:
  assumes "varint_codec qv" and "\<And>n. net n = NetOk" and "env_qv env = qv" and "lt_done lt = None"
    and "fits (lt_trackAlias lt)" and "fits (obj_GroupID ob)" and "fits (obj_ObjectID ob)"
    and "remoteTrackMap_findByTrackAlias (ses_remoteTracks s) (lt_trackAlias lt) = Some rt"
  shows "\<exists>d conn'. localTrack_sendDatagram qv net ob (lt, conn) = (Inr (), (lt, conn')) \<and>
    cn_datagrams conn' = cn_datagrams conn @ [d] \<and>
    readDatagrams_datagram env d s = Some (Inr (), s\<lparr>ses_rt := (ses_rt s)(rt := RemoteTrack_push (ses_rt s rt)
      \<lparr>obj_GroupID = obj_GroupID ob, obj_ObjectID = obj_ObjectID ob,
       obj_ForwardingPreference = ObjectForwardingPreferenceDatagram, obj_SubGroupID = 0,
       obj_Payload = obj_Payload ob\<rparr>)\<rparr>)"
  using assms by (rule varint_codec.datagram_delivered)

theorem datagram_objects_delivered_witness:
  "\<exists>d s'. readDatagrams_datagram example_env d example_subscribed = Some (Inr (), s') \<and>
    map obj_Payload (rt_buffer (ses_rt s' 0)) = [[1, 2, 3]]"
proof -
  let ?ob = "\<lparr>obj_GroupID = 9, obj_ObjectID = 1, obj_ForwardingPreference = 0, obj_SubGroupID = 0,
      obj_Payload = [1, 2, 3]\<rparr>"
  let ?lt = "newLocalTrack 0 0 True"
  have "lt_done ?lt = None" "fits (lt_trackAlias ?lt)" "fits (obj_GroupID ?ob)" "fits (obj_ObjectID ?ob)"
    "remoteTrackMap_findByTrackAlias (ses_remoteTracks example_subscribed) (lt_trackAlias ?lt) = Some 0"
    by (simp_all add: newLocalTrack_def fits_million)
  from datagram_objects_delivered [OF rfc_codec refl example_env_simps(1) this,
      of "newConnection PerspectiveServer ProtocolQUIC"]
  show ?thesis
    by (elim exE conjE) (rule exI, rule exI, rule conjI, assumption,
        simp add: RemoteTrack_push_buffer newRemoteTrack_def buffer_capacity_def)
qed

text \<open>
  C23: Handling a unidirectional stream ends for every sequence of bytes that the peer sends on it.
\<close>

theorem object_streams_terminate:
  assumes "varint_codec (env_qv env)"
  shows "\<exists>res s'. readStreams_stream env input s = Some (res, s')"
proof -
  have "\<exists>r. RemoteTrack_readStream (env_qv env) p t = Some r" for p t
    by (rule varint_codec.readStream_returns [OF assms])
  then have "\<exists>r. handleUniStream env p s = Some r" for p
    by (fastforce simp: handleUniStream_def Session_readFetchStream_def Session_readSubgroupStream_def on_rt_def
        RemoteTrack_readFetchStream_def RemoteTrack_readSubgroupStream_def Let_def split: option.splits)
  then show ?thesis
    by (fastforce simp: readStreams_stream_def split: sum.splits failure.splits)
qed

theorem object_streams_terminate_witness:
  "\<exists>res s'. readStreams_stream example_env [13, 0, 5, 6, 7, 1, 2, 255] example_subscribed = Some (res, s')"
  by (rule object_streams_terminate) (simp add: rfc_codec)

text \<open>
  A datagram with a status instead of a payload is parsed back to its fields.
\<close>

lemma datagram_status_roundtrip:
  assumes "varint_codec qv" and "wf_datagram m" and "odm_ObjectExtensionHeaders m = None"
  shows "\<exists>buf n. AppendDatagramStatus qv m [] = Inr buf \<and>
    ObjectDatagramMessage_Parse qv newObjectDatagramMessage buf = Some (Inr (m\<lparr>odm_ObjectPayload := []\<rparr>, n)) \<and>
    n = length buf"
  using varint_codec.AppendDatagramStatus_enc [OF assms(1,2), of "[]"]
    varint_codec.datagram_roundtrip_status [OF assms] assms(3)
  by simp

lemma example_headers_ok:
  "list_all wf_kvp example_headers" "example_headers \<noteq> []"
  "length (concat (map (enc_kvp rfc9000) example_headers)) \<le> maxVarInt"
  by (simp_all add: example_headers_def wf_kvp_def fits_million enc_eval)

text \<open>
  C24: A datagram that carries extension headers, as \<^verbatim>\<open>AppendDatagram\<close> writes them, makes the
  receiving session hang: parsing it never returns.
\<close>

theorem datagram_headers_hang:
  assumes "varint_codec (env_qv env)" and "wf_datagram m"
    and "odm_ObjectExtensionHeaders m = Some headers" and "headers \<noteq> []"
    and "length (concat (map (enc_kvp (env_qv env)) headers)) \<le> maxVarInt"
  shows "\<exists>dgram. AppendDatagram (env_qv env) m [] = Inr dgram \<and> readDatagrams_datagram env dgram s = None"
  using varint_codec.AppendDatagram_ext_enc [OF assms(1-3,5), of "[]"]
    varint_codec.datagram_with_headers_diverges [OF assms]
  by (simp add: readDatagrams_datagram_def)

theorem datagram_headers_hang_witness:
  "\<exists>dgram. AppendDatagram rfc9000 (example_datagram\<lparr>odm_ObjectExtensionHeaders := Some example_headers\<rparr>) [] = Inr dgram \<and>
    readDatagrams_datagram example_env dgram example_subscribed = None"
  using datagram_headers_hang [of example_env "example_datagram\<lparr>odm_ObjectExtensionHeaders := Some example_headers\<rparr>"
      example_headers example_subscribed] example_headers_ok
  by (simp add: rfc_codec example_datagram_def wf_datagram_def fits_million)

text \<open>
  With an empty list of extension headers the datagram is parsed, but the payload starts
  with the byte of the length of that list.
\<close>

lemma datagram_empty_headers_in_payload:
  assumes "varint_codec qv" and "wf_datagram m" and "odm_ObjectExtensionHeaders m = Some []"
  shows "\<exists>buf n. AppendDatagram qv m [] = Inr buf \<and>
    ObjectDatagramMessage_Parse qv newObjectDatagramMessage buf = Some (Inr
      (m\<lparr>odm_ObjectStatus := 0, odm_ObjectPayload := qv_enc qv 0 @ odm_ObjectPayload m\<rparr>, n))"
proof -
  have "m\<lparr>odm_ObjectExtensionHeaders := Some []\<rparr> = m" using assms(3) by (cases m) simp
  then show ?thesis
    using varint_codec.AppendDatagram_ext_enc [OF assms, of "[]"] varint_codec.datagram_empty_headers [OF assms(1,2)]
    by (cases m) (simp add: enc_vbytes_def maxVarInt_def assms(3))
qed

text \<open>
  C25: An object with extension headers on a subgroup stream is taken for the end of the stream:
  reading returns without an error and neither this object nor any after it reaches the track.
\<close>

theorem stream_headers_end_reading:
  assumes "varint_codec qv" and "fits i" and "list_all wf_kvp headers" and "headers \<noteq> []"
    and "length (concat (map (enc_kvp qv) headers)) \<le> maxVarInt"
  shows "RemoteTrack_readStream qv (subgroup_parser h
      (qv_enc qv i @ enc_vbytes qv (concat (map (enc_kvp qv) headers)) @ rest)) t = Some (Inr (), t)"
  using assms by (rule varint_codec.headers_end_stream)

theorem stream_headers_end_reading_witness:
  "RemoteTrack_readStream rfc9000 (subgroup_parser \<lparr>shm_TrackAlias = 0, shm_GroupID = 0, shm_SubgroupID = 0,
      shm_PublisherPriority = 0\<rparr>
      (qv_enc rfc9000 4 @ enc_vbytes rfc9000
        (concat (map (enc_kvp rfc9000) example_headers)) @ [1, 65]))
    (newRemoteTrack 0 None None) = Some (Inr (), newRemoteTrack 0 None None)"
  by (rule stream_headers_end_reading [OF rfc_codec _ example_headers_ok]) (simp add: fits_million)

text \<open>
  A status datagram never contains the extension headers of its message, although its type
  says that they follow.
\<close>

lemma status_headers_not_written:
  assumes "varint_codec qv" and "wf_datagram m" and "odm_ObjectExtensionHeaders m = Some headers"
  shows "AppendDatagramStatus qv m [] =
    Inr (enc_datagram_head qv objectTypeDatagramStatusExtension m @ qv_enc qv (odm_ObjectStatus m))"
  using varint_codec.AppendDatagramStatus_enc [OF assms(1,2), of "[]"] assms(3) by simp

section \<open>Request IDs and tables\<close>

text \<open>
  C26: Over any sequence of calls of \<^verbatim>\<open>next\<close> and \<^verbatim>\<open>setMax\<close>, as long as the limit stays in the
  range of the wire format, the request IDs that a generator hands out are strictly increasing
  (so never repeated), the \<open>n\<close>-th is the start plus \<open>n\<close> steps, and all are below the limit.
\<close>

theorem request_ids_issued:
  assumes "unat (rg_id g) + unat (rg_interval g) \<le> 2 ^ 63 - 1" and "0 < rg_interval g"
    and "unat (rg_interval g) \<le> 2 ^ 61" and "unat (rg_max (after g calls)) \<le> 2 ^ 62 - 1"
  shows "sorted_wrt (<) (issued g calls) \<and>
    (\<forall>n < length (issued g calls). issued g calls ! n = rg_id g + of_nat n * rg_interval g \<and>
       issued g calls ! n < rg_max (after g calls))"
  using issued_sorted [OF assms] issued_nth [of _ g calls] issued_below_max [of _ g calls] nth_mem by metis

theorem request_ids_issued_witness:
  "issued (newRequestIDGenerator 1 0 2) [None, Some 6, None, None, Some 2, None, None] = [1, 3, 5] \<and>
   sorted_wrt (<) (issued (newRequestIDGenerator 1 0 2) [None, Some 6, None, None, Some 2, None, None])"
proof -
  let ?g = "newRequestIDGenerator 1 0 2" and ?calls = "[None, Some 6, None, None, Some 2, None, None]"
  have "issued ?g ?calls = [1, 3, 5]" "rg_max (after ?g ?calls) = 6" "rg_id ?g = 1" "rg_interval ?g = 2"
    by code_simp+
  with request_ids_issued [of ?g ?calls] show ?thesis by simp
qed

text \<open>
  A request is settled once: after its confirmation or its rejection, the table of remote
  tracks does not know it as pending, a second response is an error, and the entries of other
  requests are as before.
\<close>

lemma response_settles_once:
  "(\<forall>m'. m' \<in> {snd (remoteTrackMap_confirm m k), snd (remoteTrackMap_reject m k)} \<longrightarrow>
      fst (remoteTrackMap_confirm m' k) = Inl errUnknownRequestID \<and> fst (remoteTrackMap_reject m' k) = None \<and>
      (\<forall>k'. k' \<noteq> k \<longrightarrow> rtm_pending m' k' = rtm_pending m k' \<and> rtm_open m' k' = rtm_open m k'))"
  by (auto simp: remoteTrackMap_confirm_def remoteTrackMap_reject_def split: option.splits)

text \<open>
  A local track that was added under a new request ID is found by that ID, before and after
  it is confirmed, until it is deleted; the ID cannot be added again meanwhile.
\<close>

lemma local_track_lookup:
  assumes "ltm_pending m k = None" and "ltm_open m k = None"
  shows "\<exists>m1 m2 m3. localTrackMap_addPending m k lt = (True, m1) \<and> localTrackMap_findByID m1 k = Some lt \<and>
    localTrackMap_confirm m1 k = (Some lt, m2) \<and> localTrackMap_findByID m2 k = Some lt \<and>
    fst (localTrackMap_addPending m1 k lt') = False \<and> fst (localTrackMap_addPending m2 k lt') = False \<and>
    localTrackMap_delete m2 k = (Some lt, m3) \<and> localTrackMap_findByID m3 k = None"
  using assms
  by (simp add: localTrackMap_addPending_def localTrackMap_findByID_def localTrackMap_confirm_def
      localTrackMap_delete_def)

section \<open>Limits and errors\<close>

text \<open>
  Before the handshake a session accepts setup messages only: any other message is an error
  and changes nothing.
\<close>

lemma setup_comes_first:
  assumes "\<not> ses_handshakeDone s" and "\<forall>x. m \<noteq> ClientSetup x" and "\<forall>x. m \<noteq> ServerSetup x"
  shows "receive env m s = (Inl (Fail errUnexpectedMessageTypeBeforeSetup), s)"
  using assms by (cases m) (simp_all add: receive_def effects)

text \<open>
  C27: A request whose message cannot be written, since it is too large or since the network fails,
  returns that error. \<^verbatim>\<open>Fetch\<close> takes its entry out of the table again; \<^verbatim>\<open>Subscribe\<close> leaves it
  pending, for a request that the peer has never seen.
\<close>

theorem failed_requests:
  assumes "rg_id (ses_requestIDs s) = k" and "k < rg_max (ses_requestIDs s)"
    and "rtm_pending (ses_remoteTracks s) k = None" and "rtm_open (ses_remoteTracks s) k = None"
    and "write_fails env (Subscribe (subscribe_message k ns name options)) s e"
    and "write_fails env (Fetch (fetch_message k ns name)) s e'"
  shows "(\<exists>s'. Subscribe_send env ns name options s = (Inl (Fail e), s') \<and>
            rtm_pending (ses_remoteTracks s') = (rtm_pending (ses_remoteTracks s))(k \<mapsto> ses_next s)) \<and>
         (\<exists>s'. Fetch_send env ns name s = (Inl (Fail e'), s') \<and> ses_remoteTracks s' = ses_remoteTracks s)"
  using Subscribe_write_fails [OF assms(1-5)] Fetch_write_fails [OF assms(1-4,6)] by blast

theorem failed_requests_witness:
  "(\<exists>s'. Subscribe_send (example_env\<lparr>env_net := (\<lambda>_. NetErr EOF 0)\<rparr>) [[1, 2]] [7] [] (example_session PerspectiveClient)
        = (Inl (Fail EOF), s') \<and> rtm_pending (ses_remoteTracks s') = [0 \<mapsto> 0]) \<and>
   (\<exists>s'. Fetch_send (example_env\<lparr>env_net := (\<lambda>_. NetErr EOF 0)\<rparr>) [[1, 2]] [7] (example_session PerspectiveClient)
        = (Inl (Fail EOF), s') \<and> ses_remoteTracks s' = newRemoteTrackMap)"
proof -
  let ?env = "example_env\<lparr>env_net := (\<lambda>_. NetErr EOF 0)\<rparr>"
  have w: "write_fails ?env m (example_session PerspectiveClient) EOF" if "wire_ok rfc9000 m" for m
    using varint_codec.compileMessage_enc [OF rfc_codec, of m] that
    by (simp add: write_fails_def ses_write_def onS_def controlStream_write_def write_control_def net_op_def wire_ok_def effects split_beta)
  have m: "wire_ok rfc9000 (Subscribe (subscribe_message 0 [[1, 2]] [7] []))" "wire_ok rfc9000 (Fetch (fetch_message 0 [[1, 2]] [7]))"
    using wire_ok_example_options [of 0] wire_ok_dialogues(2) [of 0] by simp_all
  have n: "ses_next (example_session PerspectiveClient) = 0" by (simp add: example_session_def newSession_def)
  show ?thesis
    using failed_requests [of "example_session PerspectiveClient" 0 ?env "[[1, 2]]" "[7]" "[]" EOF EOF] w [OF m(1)] w [OF m(2)] n
    by (simp add: tables_new perspective_id_def)
qed

text \<open>
  C28: Over a network without failures, a SUBSCRIBE for a valid namespace with a request ID at or
  above the limit is answered with SUBSCRIBE\_ERROR, code \<^verbatim>\<open>ErrorCodeTooManyRequests\<close>; no track is
  added and the application is not called.
\<close>

theorem subscribe_limit:
  assumes "varint_codec qv" and "reliable qv env" and "\<not> bad_namespace (sm_TrackNamespace m)"
    and "fits (sm_RequestID m)" and "ses_localMaxRequestID s \<le> sm_RequestID m"
  shows "\<exists>s'. onSubscribe env m s = (Inr (), s') \<and> ses_localTracks s' = ses_localTracks s \<and>
    ses_app s' = ses_app s \<and>
    cn_sent (ses_conn s') = cn_sent (ses_conn s) @ [SubscribeError
      \<lparr>sem_RequestID = sm_RequestID m, sem_ErrorCode = ErrorCodeTooManyRequests,
       sem_ReasonPhrase = ascii ''too many subscribes''\<rparr>]"
  using assms by (rule varint_codec.onSubscribe_too_many)

theorem subscribe_limit_witness:
  "\<exists>s'. onSubscribe example_env (example_subscribe\<lparr>sm_RequestID := 100\<rparr>) (example_session PerspectiveServer) = (Inr (), s') \<and>
    ses_localTracks s' = newLocalTrackMap \<and>
    cn_sent (ses_conn s') = cn_sent (ses_conn (example_session PerspectiveServer)) @ [SubscribeError
      \<lparr>sem_RequestID = 100, sem_ErrorCode = ErrorCodeTooManyRequests, sem_ReasonPhrase = ascii ''too many subscribes''\<rparr>]"
  using subscribe_limit [OF rfc_codec, of example_env "example_subscribe\<lparr>sm_RequestID := 100\<rparr>" "example_session PerspectiveServer"]
  by (auto simp: example_subscribe_def bad_namespace_def fits_million)

text \<open>
  When the request IDs of a session are used up, \<^verbatim>\<open>Subscribe\<close> fails with
  \<^verbatim>\<open>errRequestIDblocked\<close> after it sent REQUESTS\_BLOCKED with the limit, and nothing else changes.
\<close>

lemma subscribe_blocked:
  assumes "varint_codec qv" and "reliable qv env" and "fits (rg_max (ses_requestIDs s))"
    and "rg_max (ses_requestIDs s) \<le> rg_id (ses_requestIDs s)"
  shows "\<exists>conn. Subscribe_send env ns name opts s = (Inl (Fail errRequestIDblocked), s\<lparr>ses_conn := conn\<rparr>) \<and>
    cn_sent conn = cn_sent (ses_conn s) @ [RequestsBlocked \<lparr>rbm_MaximumRequestID = rg_max (ses_requestIDs s)\<rparr>]"
  using varint_codec.Subscribe_blocked [OF assms]
  by (intro exI [where x = "conn_sent qv (RequestsBlocked \<lparr>rbm_MaximumRequestID = rg_max (ses_requestIDs s)\<rparr>) (ses_conn s)"])
    simp

text \<open>
  A FETCH at or above the limit is not answered: the attempt to reject it fails because the
  track was not added, and that error ends the session.
\<close>

lemma fetch_limit_ends_session:
  assumes "\<not> bad_namespace (fm_TrackNamespace m)" and "ses_localMaxRequestID s \<le> fm_RequestID m"
    and "ltm_pending (ses_localTracks s) (fm_RequestID m) = None"
  shows "\<exists>s'. onFetch env m s = (Inl (Fail errUnknownRequestID), s') \<and>
    ses_conn s' = ses_conn s \<and> ses_app s' = ses_app s"
  using assms by (rule onFetch_too_many)

text \<open>
  The limit for the peer's request IDs doubles without a bound. Once twice the limit does
  not fit the wire format, the next request in the upper half of the range makes the process
  panic.
\<close>

lemma request_limit_panics:
  assumes "varint_codec (env_qv env)" and "lt_requestID (ses_lt s lt) < ses_localMaxRequestID s"
    and "ses_localMaxRequestID s div 2 \<le> lt_requestID (ses_lt s lt)"
    and "\<not> fits (2 * ses_localMaxRequestID s)"
  shows "fst (addLocalTrack env lt s) = Inl Panic"
  using assms by (rule addLocalTrack_panics)

text \<open>
  \<^verbatim>\<open>Unannounce\<close> of a namespace that is announced, or whose announcement is pending, returns
  an error and sends nothing: its test is inverted.
\<close>

lemma unannounce_inverted:
  assumes "findAnnouncement (env_order env (dom (am_announcements (ses_outgoingAnnouncements s))))
             (am_announcements (ses_outgoingAnnouncements s)) ns = Some a \<or>
           findAnnouncement (env_order env (dom (am_pending (ses_outgoingAnnouncements s))))
             (am_pending (ses_outgoingAnnouncements s)) ns = Some a"
  shows "\<exists>s'. Session_Unannounce env ns s = (Inl (Fail errUnknownAnnouncementNamespace), s') \<and>
    ses_conn s' = ses_conn s"
  using assms by (rule Unannounce_announced)

text \<open>
  The answer to a track status request is not found by the requester unless the request was
  numbered 0: request and answer carry the ID 0, and the answer ends the session with an error.
\<close>

lemma track_status_lost:
  assumes "varint_codec qv" and "reliable qv envc" and "reliable qv envs"
    and "rg_id (ses_requestIDs c) = k" and "k < rg_max (ses_requestIDs c)" and "k \<noteq> 0"
    and "ses_outgoingTrackStatusRequests c 0 = None" and "fits (ts_StatusCode ts)"
    and "wire_ok qv (TrackStatusRequest \<lparr>tsrm_RequestID = 0, tsrm_TrackNamespace = ns,
      tsrm_TrackName = name, tsrm_Parameters = []\<rparr>)"
  shows "\<exists>ch c' s' m c''. RequestTrackStatus_send envc ns name c = (Inr ch, c') \<and>
    sendTrackStatus envs ts s = (Inr (), s') \<and> last (cn_sent (ses_conn s')) = TrackStatus m \<and>
    onTrackStatus m c' = (Inl (Fail errUnknownTrackStatusRequest), c'')"
  using assms by (rule varint_codec.track_status_unanswered)

text \<open>
  With no \<^verbatim>\<open>Handler\<close> set, a GOAWAY of the peer makes the process panic.
\<close>

lemma goaway_without_handler_panics:
  assumes "ses_handshakeDone s" and "env_Handler env = None"
  shows "fst (receive env (GoAway g) s) = Inl Panic"
  using assms by (rule nil_handler_panics)

text \<open>
  The token that \<^verbatim>\<open>WithAuthorizationToken\<close> puts into the options of a subscription, over any
  options before it, is the one that the receiver validates and that the application reads.
\<close>

lemma authorization_token:
  assumes "token \<noteq> []"
  shows "validateAuthParameter (ToWire (so_Parameters (WithAuthorizationToken token opts))) = Inr token \<and>
    GetAuthorizationToken (FromWire (ToWire (so_Parameters (WithAuthorizationToken token opts)))) = (token, True)"
  using WithAuthorizationToken_validate [OF assms] WithAuthorizationToken_get [OF assms] by simp

text \<open>
  A path parameter on WebTransport is an error only when it is not the first parameter: in
  the first place it is accepted as the path of the session.
\<close>

lemma path_parameter:
  assumes "kvp_Type p = PathParameterKey" and "kvp_Type q \<noteq> PathParameterKey"
  shows "validatePathParameter (p # ps) False = Inr (kvp_ValueBytes p) \<and>
    validatePathParameter (q # p # ps) False = Inl (Fail errUnexpectedPathParameter)"
  using path_first_accepted [OF assms(1)] path_later_rejected [OF assms(2), of p "p # ps"] assms(1) by simp

section \<open>Applications\<close>

text \<open>
  Certificates that are made in memory, and libraries of the transport; the sessions see of a
  connection only who dialled.
\<close>

definition example_crypto :: "(nat, nat, nat) crypto" where
  "example_crypto = \<lparr>cr_LoadX509KeyPair = (\<lambda>_ _. Inl (Fail EOF)), cr_GenerateKey = Inr 1,
     cr_CreateCertificate = (\<lambda>k. Inr k), cr_X509KeyPair = (\<lambda>_ k. Inr k)\<rparr>"

definition example_tls :: "nat tlsConfig" where
  "example_tls = \<lparr>tls_Certificates = [1], tls_NextProtos = [moq_00], tls_InsecureSkipVerify = False\<rparr>"

lemma example_server_tls:
  "server_tls (generateTLSConfigWithCertAndKey example_crypto cert key) (generateTLSConfig example_crypto) = Some example_tls"
  by (simp add: server_tls_def generateTLSConfigWithCertAndKey_def generateTLSConfig_def example_crypto_def example_tls_def)

text \<open>
  C29: Two counter programs from their command lines on, over a network without failures: a server
  that has a certificate, and a client that was told to subscribe, with names that fit a message, in
  the schedule in which a control message is read as soon
  as it has been written. The server accepts the connection of the client, both complete the
  handshake, the server announces if it publishes, and the client subscribes. If the server publishes
  the track of that name then the counters of any number of ticks, up to the largest number of the
  wire format, all arrive at the subscriber, in order, when the client handles their datagrams after
  the SUBSCRIBE\_OK, one by one, and reads each object before the next; otherwise the client exits with
  code 1. Either way the server goes on. (In a schedule with a datagram before the SUBSCRIBE\_OK the
  client loses the counters, \<^verbatim>\<open>early_datagram_fails\<close>.)
\<close>

theorem counter_programs:
  assumes "varint_codec qv" and rel: "reliable qv envc" "reliable qv envs"
    and roles: "opt_server so" "\<not> opt_server co" "opt_subscribe co"
    and names: "short_names (opt_namespace so) (opt_trackname so)" "short_names (opt_namespace co) (opt_trackname co)"
    and tls: "server_tls (generateTLSConfigWithCertAndKey cr (opt_certFile so) (opt_keyFile so)) (generateTLSConfig cr) = Some cfg"
    and net: "ListenAddr (opt_addr so) cfg = Inr ()"
      "DialAddr (opt_addr co) \<lparr>tls_Certificates = [], tls_NextProtos = [moq_00], tls_InsecureSkipVerify = True\<rparr> = Inr client_lib"
  shows "\<exists>hs hc hs' hc' c0 s0 c s.
    counter_run cr (prog # concat (map args_of (counter_settings so))) = Listens (opt_addr so) cfg hs \<and>
    counter_run cr (prog # concat (map args_of (counter_settings co))) = Dials (opt_addr co) ProtocolQUIC hc \<and>
    counterHandler_runServer ListenAddr [Inr (server_lib, moq_00)] envs (opt_addr so) cfg hs = Inr (([s0], hs'), None) \<and>
    counterHandler_runClient DialAddr envc (opt_addr co) hc = Inr (c0, hc') \<and>
    counter_acts envc hc' envs hs' (prompt_schedule (opt_publish so)) (start_endpoint c0, start_endpoint s0) = Some (c, s) \<and>
    ep_state s = HandleReturned (Inr None) \<and>
    (if opt_publish so \<and> opt_namespace so = opt_namespace co \<and> opt_trackname so = opt_trackname co
     then \<forall>n \<le> maxVarInt. delivers envc hc' envs hs' c s n
     else client_ends (ep_state c) = Some (ExitCode 1))"
proof -
  obtain hs where hs: "runServer cr so = Listens (opt_addr so) cfg hs" "ch_namespace hs = [opt_namespace so]"
    "ch_trackname hs = opt_trackname so" "ch_publish hs \<longleftrightarrow> opt_publish so" "\<not> ch_subscribe hs"
    using counter_roles(1) [OF tls] by blast
  obtain hc where hc: "counter_run cr (prog # concat (map args_of (counter_settings co))) = Dials (opt_addr co) ProtocolQUIC hc"
    "ch_namespace hc = [opt_namespace co]" "ch_trackname hc = opt_trackname co" "\<not> ch_publish hc" "ch_subscribe hc"
    using roles(2,3) counter_run_settings [of "[]" cr prog co] by (simp add: runClient_def)
  obtain rc hc' where rc: "handle_Run envc (newConnection PerspectiveClient ProtocolQUIC) hc = (rc, hc')" by fastforce
  obtain rs hs' where rs: "handle_Run envs (newConnection PerspectiveServer ProtocolQUIC) hs = (rs, hs')" by fastforce
  have "counter_run cr (prog # concat (map args_of (counter_settings so))) = Listens (opt_addr so) cfg hs"
    using counter_run_settings [of "[]" cr prog so] roles(1) hs(1) by simp
  moreover have "counterHandler_runServer ListenAddr [Inr (server_lib, moq_00)] envs (opt_addr so) cfg hs =
      Inr (([handle_start rs], hs'), None)"
    using net(1) rs by (simp add: counterHandler_runServer_def session_conn_quic)
  moreover have "counterHandler_runClient DialAddr envc (opt_addr co) hc = Inr (handle_start rc, hc')"
    using net(2) rc by (simp add: counterHandler_runClient_def dialQUIC_def session_conn_quic)
  moreover have "serves hs hc \<longleftrightarrow>
      opt_publish so \<and> opt_namespace so = opt_namespace co \<and> opt_trackname so = opt_trackname co"
    using hs hc by (simp add: serves_def)
  moreover obtain c s where "counter_acts envc hc' envs hs' (prompt_schedule (opt_publish so))
      (start_endpoint (handle_start rc), start_endpoint (handle_start rs)) = Some (c, s)"
    "ep_state s = HandleReturned (Inr None)"
    "if serves hs hc then \<forall>n \<le> maxVarInt. delivers envc hc' envs hs' c s n else client_ends (ep_state c) = Some (ExitCode 1)"
    using varint_codec.connection_served [OF assms(1) rel rc rs hc(5,4,2) _ hs(5,2)] names
    unfolding hs(3,4) hc(3) by blast
  ultimately show ?thesis
    using hc(1) by - (rule exI [of _ hs], rule exI [of _ hc], rule exI [of _ hs'], rule exI [of _ hc'],
      rule exI [of _ "handle_start rc"], rule exI [of _ "handle_start rs"],
      rule exI [of _ c], rule exI [of _ s], simp del: counter_acts.simps)
qed

definition example_lib :: "(unit, unit, unit) quic_lib" where
  "example_lib = \<lparr>lib_AcceptStream = (\<lambda>_. returnS ()), lib_AcceptUniStream = (\<lambda>_. returnS ()), lib_OpenStream = returnS (),
     lib_OpenStreamSync = (\<lambda>_. returnS ()), lib_OpenUniStream = returnS (), lib_OpenUniStreamSync = (\<lambda>_. returnS ()),
     lib_SendDatagram = (\<lambda>_. returnS ()), lib_ReceiveDatagram = (\<lambda>_. returnS []),
     lib_CloseWithError = (\<lambda>_ _. returnS ()), lib_Context = ()\<rparr>"

definition example_server :: "bool \<Rightarrow> options" where
  "example_server publishes = counter_defaults\<lparr>opt_server := True, opt_publish := publishes\<rparr>"

definition example_client :: options where
  "example_client = counter_defaults\<lparr>opt_subscribe := True\<rparr>"

lemma example_options:
  "opt_server (example_server publishes)" "opt_publish (example_server publishes) = publishes"
  "\<not> opt_server example_client" "opt_subscribe example_client"
  "opt_namespace (example_server publishes) = opt_namespace example_client"
  "opt_trackname (example_server publishes) = opt_trackname example_client"
  "short_names (opt_namespace example_client) (opt_trackname example_client)"
  by (simp_all add: example_server_def example_client_def counter_defaults_def short_names_def ascii_def)

theorem counter_programs_witness:
  "\<forall>publishes. \<exists>hs hc hs' hc' c0 s0 c s.
    counter_run example_crypto ([99] # concat (map args_of (counter_settings (example_server publishes)))) =
      Listens (opt_addr (example_server publishes)) example_tls hs \<and>
    counter_run example_crypto ([99] # concat (map args_of (counter_settings example_client))) =
      Dials (opt_addr example_client) ProtocolQUIC hc \<and>
    counterHandler_runServer (\<lambda>_ _. Inr ()) [Inr (example_lib, moq_00)] example_env
      (opt_addr (example_server publishes)) example_tls hs = Inr (([s0], hs'), None) \<and>
    counterHandler_runClient (\<lambda>_ (_ :: nat tlsConfig). Inr example_lib) example_env (opt_addr example_client) hc = Inr (c0, hc') \<and>
    counter_acts example_env hc' example_env hs' (prompt_schedule publishes) (start_endpoint c0, start_endpoint s0) = Some (c, s) \<and>
    ep_state s = HandleReturned (Inr None) \<and>
    (if publishes then \<forall>n \<le> maxVarInt. delivers example_env hc' example_env hs' c s n
     else client_ends (ep_state c) = Some (ExitCode 1))"
  by (intro allI, rule counter_programs [where qv = rfc9000 and co = example_client
        and so = "example_server publishes" for publishes,
        unfolded example_options simp_thms])
    (simp_all add: rfc_codec example_server_tls example_options)

text \<open>
  A datagram that the client handles before it knows the alias of the track is an error, which ends
  the loop that reads datagrams: no later counter arrives.
\<close>

lemma early_datagram_fails:
  assumes "varint_codec qv" and "env_qv env = qv" and "wf_datagram m" and "odm_ObjectExtensionHeaders m = None"
    and "remoteTrackMap_findByTrackAlias (ses_remoteTracks s) (odm_TrackAlias m) = None"
  shows "\<exists>dgram. AppendDatagram qv m [] = Inr dgram \<and>
    readDatagrams_datagram env dgram s = Some (Inl (Fail errUnknownTrackAlias), s)"
  using varint_codec.AppendDatagram_enc [OF assms(1,3,4), of "[]"]
    varint_codec.datagram_roundtrip_payload [OF assms(1,3,4)] assms(2,5)
  by (simp add: readDatagrams_datagram_def receiveDatagram_def remoteTrackByTrackAlias_def effects)



text \<open>
  C31: A tick of the date application, with publishers in any number of sessions over networks
  without failures and visited in any order: each session gets one more stream for every open
  subscription, with the time as the object 0 of the new group, which a subscriber reads as such;
  publishers whose subscription has ended are dropped, the others stay, and the group becomes the
  largest one.
\<close>

theorem date_tick_published:
  assumes "varint_codec qv" and "\<And>i. reliable qv (envs i)" and "fits groupID" and "length ts \<le> maxAlloc"
    and "distinct (order (dom (mh_publishers h)))" and "set (order (dom (mh_publishers h))) = dom (mh_publishers h)"
    and "registered ses h"
  shows "(\<exists>ses'. setupDateTrack_tick envs order groupID ts (h, ses) =
      (Inr (), (h\<lparr>mh_publishers := (\<lambda>r. case mh_publishers h r of None \<Rightarrow> None
          | Some p \<Rightarrow> if lt_done (track_of ses p) = None then Some p else None), mh_largestGroup := groupID\<rparr>, ses')) \<and>
    (\<forall>i. cn_streams (ses_conn (ses' i)) = cn_streams (ses_conn (ses i)) @
       map (\<lambda>p. date_stream qv (lt_trackAlias (track_of ses p)) groupID ts)
         (filter (\<lambda>p. dp_sessionID p = i \<and> lt_done (track_of ses p) = None)
           (map (\<lambda>r. the (mh_publishers h r)) (order (dom (mh_publishers h))))))) \<and>
    (\<forall>env a s rt. env_qv env = qv \<and> fits a \<and>
       remoteTrackMap_findByTrackAlias (ses_remoteTracks s) a = Some rt \<and>
       length (rt_buffer (ses_rt s rt)) < buffer_capacity \<longrightarrow>
       (\<exists>s'. readStreams_stream env (date_stream qv a groupID ts) s = Some (Inr (), s') \<and>
         rt_buffer (ses_rt s' rt) = rt_buffer (ses_rt s rt) @ [\<lparr>obj_GroupID = groupID, obj_ObjectID = 0,
           obj_ForwardingPreference = 0, obj_SubGroupID = 0, obj_Payload = ts\<rparr>]))"
  using varint_codec.date_tick [of qv envs groupID ts order h ses, OF assms]
    varint_codec.date_stream_delivered [OF assms(1) _ _ assms(3,4)] by blast

text \<open>
  Two subscriptions in one session, one of them ended by its subscriber, and one in another
  session.
\<close>

definition example_date :: moqHandler where
  "example_date = \<lparr>mh_namespace = [[1, 2]], mh_trackname = [7], mh_publish = True, mh_subscribe = False,
     mh_nextSessionID = 2, mh_publishers = (\<lambda>r. if r < 3 then Some \<lparr>dp_p = \<lparr>srw_id = of_nat r, srw_trackAlias = of_nat r,
         srw_localTrack = r, srw_handled = True\<rparr>, dp_sessionID = (if r = 2 then 2 else 1), dp_requestID = of_nat r\<rparr>
       else None), mh_next = 3, mh_largestGroup = 8\<rparr>"

definition example_dated :: "uint64 \<Rightarrow> Session" where
  "example_dated i = (example_session PerspectiveServer)\<lparr>ses_lt := (\<lambda>r.
     (newLocalTrack (of_nat r) (of_nat r) True)\<lparr>lt_done := (if r = 1 then Some ErrUnsusbcribed else None)\<rparr>)\<rparr>"

lemma example_date_publisher:
  assumes "mh_publishers example_date r = Some p"
  shows "r < 3" "srw_localTrack (dp_p p) = r" "dp_sessionID p = (if r = 2 then 2 else 1)"
    "lt_done (track_of example_dated p) = (if r = 1 then Some ErrUnsusbcribed else None)"
    "lt_trackAlias (track_of example_dated p) = of_nat r"
    "track_fits (track_of example_dated p)" "own_track (example_dated (dp_sessionID p)) p"
proof -
  show r: "r < 3" "srw_localTrack (dp_p p) = r" "dp_sessionID p = (if r = 2 then 2 else 1)"
    using assms by (auto simp: example_date_def split: if_splits)
  then have "r \<le> maxVarInt" by (simp add: maxVarInt_def)
  with r show "lt_done (track_of example_dated p) = (if r = 1 then Some ErrUnsusbcribed else None)"
    "lt_trackAlias (track_of example_dated p) = of_nat r"
    "track_fits (track_of example_dated p)" "own_track (example_dated (dp_sessionID p)) p"
    by (simp_all add: track_of_def example_dated_def newLocalTrack_def track_fits_def own_track_def newLocalTrackMap_def
        localTrackMap_findByID_def)
qed

lemma dom_example_date: "dom (mh_publishers example_date) = {..<3}"
  by (auto simp: example_date_def split: if_splits)

theorem date_tick_published_witness:
  "\<exists>h' ses'. setupDateTrack_tick (\<lambda>_. example_env) sorted_list_of_set 9 [49, 50] (example_date, example_dated) =
      (Inr (), (h', ses')) \<and> mh_publishers h' 0 \<noteq> None \<and> mh_publishers h' 1 = None \<and>
    cn_streams (ses_conn (ses' 1)) = [date_stream rfc9000 0 9 [49, 50]] \<and>
    cn_streams (ses_conn (ses' 2)) = [date_stream rfc9000 2 9 [49, 50]]"
proof -
  have rs: "sorted_list_of_set {..<3} = [0, 1, 2 :: nat]" by (simp add: lessThan_nat_numeral lessThan_Suc)
  obtain p0 p1 p2 where p: "mh_publishers example_date 0 = Some p0" "mh_publishers example_date 1 = Some p1"
    "mh_publishers example_date 2 = Some p2" by (simp add: example_date_def)
  have streams: "cn_streams (ses_conn (example_dated i)) = []" for i
    by (simp add: example_dated_def example_session_def newSession_def newConnection_def)
  have reg: "registered example_dated example_date"
    using example_date_publisher unfolding registered_def by metis
  have ord: "distinct (sorted_list_of_set (dom (mh_publishers example_date)))"
    "set (sorted_list_of_set (dom (mh_publishers example_date))) = dom (mh_publishers example_date)"
    by (simp_all add: dom_example_date)
  note tick = date_tick_published [where envs = "\<lambda>_. example_env" and groupID = 9 and ts = "[49, 50]" and
      order = sorted_list_of_set and h = example_date and ses = example_dated, OF rfc_codec _ _ _ ord reg]
  from tick show ?thesis
    using example_date_publisher [OF p(1)] example_date_publisher [OF p(2)] example_date_publisher [OF p(3)]
    by (auto simp: p [simplified] streams rs fits_million maxAlloc_def dom_example_date)
qed

text \<open>
  C32: The subscriber of the counter application and that of the XOR application (they differ in how
  they process an object): when the last receiving loop ends because \<^verbatim>\<open>ReadObject\<close> has returned an
  error, as it does when the track is done, a call of \<^verbatim>\<open>Start\<close> that waits with the background context
  is not released by any step of anyone, calls of \<^verbatim>\<open>Stop\<close> included, as long as \<^verbatim>\<open>Start\<close> is not called
  again: \<^verbatim>\<open>Stop\<close> does nothing. After another call of \<^verbatim>\<open>Start\<close> it can be released.
\<close>

theorem subscriber_never_released:
  assumes "i < length (su_starts su)" and "su_starts su ! i = StartWaiting"
    and "j < length (su_loops su)" and "su_loops su ! j = LoopReading"
    and "set (take j (su_loops su) @ drop (Suc j) (su_loops su)) \<subseteq> {LoopEnded}" and "\<not> su_stopped su"
    and "receiveLoop_read process j (obj, Some e) su = Some su'"
    and "(subscriber_step process None)\<^sup>*\<^sup>* su' su''"
  shows "subscriber_step process None su su' \<and> Subscriber_Stop su' = Some su' \<and>
    (length (su_starts su'') = length (su_starts su) \<longrightarrow> su_starts su'' ! i = StartWaiting) \<and>
    (\<exists>u. (subscriber_step process None)\<^sup>*\<^sup>* su' u \<and> su_starts u ! i = StartReturned None)"
proof -
  note ended = track_done_abandons [OF assms(5,3,6,7)]
  have "Subscriber_Stop su' = Some su'" using ended by (simp add: abandoned_def Subscriber_Stop_def)
  then show ?thesis
    using subscriber_step.loop_read [OF assms(3,4,7)] abandoned_forever [OF assms(8)] abandoned_released [of su' i] assms(1,2) ended
    by auto
qed

theorem subscriber_never_released_witness:
  "(\<exists>su su'. (CounterSubscriber_step None)\<^sup>*\<^sup>* (new_subscriber NewCounterSubscriber) su \<and>
     CounterSubscriber_step None su su' \<and> Subscriber_Stop su' = Some su' \<and> su_starts su' ! 0 = StartWaiting) \<and>
   (\<exists>su su'. (XORCounterSubscriber_step sorted_list_of_set None)\<^sup>*\<^sup>* (new_subscriber NewXORSubscriber) su \<and>
     XORCounterSubscriber_step sorted_list_of_set None su su' \<and> Subscriber_Stop su' = Some su' \<and>
     su_starts su' ! 0 = StartWaiting)"
proof -
  have ends: "\<exists>su su'. (subscriber_step process None)\<^sup>*\<^sup>* (new_subscriber c) su \<and>
      subscriber_step process None su su' \<and> Subscriber_Stop su' = Some su' \<and> su_starts su' ! 0 = StartWaiting"
    for process and c :: 'a
  proof -
    let ?s0 = "new_subscriber c"
    let ?s1 = "Subscriber_Start ?s0"
    let ?s2 = "?s1\<lparr>su_loops := [LoopReading]\<rparr>"
    let ?s3 = "receiveLoop_end 0 ?s2"
    have s1: "su_starts ?s1 = [StartWaiting]" "su_loops ?s1 = [LoopSelect]" "\<not> su_stopped ?s1"
      by (simp_all add: new_subscriber_def Subscriber_Start_def)
    have "subscriber_step process None ?s0 ?s1" by (rule subscriber_step.start)
    moreover have "subscriber_step process None ?s1 ?s2"
      using subscriber_step.loop_default [of 0 ?s1 None process] s1 by simp
    ultimately have "(subscriber_step process None)\<^sup>*\<^sup>* ?s0 ?s2" by simp
    moreover have "subscriber_step process None ?s2 ?s3 \<and> Subscriber_Stop ?s3 = Some ?s3 \<and> su_starts ?s3 ! 0 = StartWaiting"
      using subscriber_never_released [of 0 ?s2 0 process None EOF ?s3 ?s3] s1
      by (simp add: receiveLoop_read_def receiveLoop_end_def)
    ultimately show ?thesis by blast
  qed
  show ?thesis
    using ends [of CounterSubscriber_processObject NewCounterSubscriber]
      ends [of "processObject sorted_list_of_set" NewXORSubscriber]
    unfolding CounterSubscriber_step_def XORCounterSubscriber_step_def by blast
qed

section \<open>Forward error correction\<close>

text \<open>
  C33: The XOR encoder with a positive block size over any sequence of payloads: each call returns the number of the block,
  counted from 0, and the place in it, counted from 1, and a parity packet exactly when the payload
  completes a block. That packet has the length of the longest payload of the block, and its byte at
  each place is the exclusive or of the bytes that the payloads of the block have there.
\<close>

theorem xor_encoder_blocks:
  assumes "0 < b"
  shows "TryEncode (encode_all (NewEncoder \<lparr>cfg_BlockSize = int b\<rparr>) ps) p =
    ((if Suc (length ps) mod b = 0 then Some (parity_of (last_block b (ps @ [p]))) else None,
      int (length ps div b), int (length ps mod b) + 1),
     encode_all (NewEncoder \<lparr>cfg_BlockSize = int b\<rparr>) (ps @ [p]))"
proof -
  have "last_block b (ps @ [p]) \<noteq> []" by (simp add: last_block_def)
  note parity = generateParity_eq [OF this]
  show ?thesis
    unfolding parity [symmetric]
    by (simp only: NewEncoder_state encode_all_state [OF assms] append_Nil TryEncode_state [OF assms])
qed

theorem xor_encoder_blocks_witness:
  "fst (TryEncode (encode_all (NewEncoder \<lparr>cfg_BlockSize = 2\<rparr>) [[1], [2], [7]]) [9, 9]) = (Some [14, 9], 1, 2)"
proof -
  have "parity_of (last_block 2 [[1], [2], [7], [9, 9]]) = [14, 9]" by code_simp
  with xor_encoder_blocks [of 2 "[[1], [2], [7]]" "[9, 9]"] show ?thesis by (simp del: encode_all.simps)
qed

text \<open>
  C34: When all packets of a block but one and the parity packet arrive, the data in any order,
  the XOR decoder gives the missing packet, padded with zeros to the length of the longest packet
  of the block, and forgets the block.
\<close>

theorem xor_block_recovered:
  assumes "visits_all order" and "dec_config d = \<lparr>cfg_BlockSize = int n\<rparr>" and "dec_blocks d b = None"
    and "length pkts = n" and "distinct (map fst pkts)" and "mset pkts = add_mset (k, p) (mset rs)"
    and "generateParity (map snd pkts) = Some parity"
  shows "\<exists>d'. TryDecode order (feed order d b rs) b s parity True =
    ((Some (p @ replicate (max_len (map snd pkts) 0 - length p) 0), True), d') \<and> dec_blocks d' b = None"
  using assms by (rule block_recovered)

lemma visits_sorted: "visits_all (\<lambda>ks. sorted_list_of_set ks)"
  by (simp add: visits_all_def)

theorem xor_block_recovered_witness:
  "\<exists>d'. TryDecode (\<lambda>ks. sorted_list_of_set ks)
      (feed (\<lambda>ks. sorted_list_of_set ks) (NewDecoder \<lparr>cfg_BlockSize = 3\<rparr>) 0 [(3, [7, 8]), (1, [1])]) 0 (-1) [4, 8] True =
    ((Some [2, 0], True), d') \<and> dec_blocks d' 0 = None"
proof -
  have "generateParity (map snd [(1 :: int, [1]), (2, [2]), (3, [7, 8])]) = Some [4, 8]" by code_simp
  from xor_block_recovered [OF visits_sorted _ _ _ _ _ this, of "NewDecoder \<lparr>cfg_BlockSize = 3\<rparr>" 3 0 2 "[2]"
      "[(3, [7, 8]), (1, [1])]" "-1"]
  show ?thesis by (simp add: NewDecoder_def eval_nat_numeral)
qed

text \<open>
  C35: The counter application: when the subscriber gets three of the four datagrams of a block,
  in any order, and then the parity datagram, it recovers the missing counter if that has as many
  digits as the longest counter of the block; a shorter one is recovered with padding that the
  parser of counters refuses, so it is lost.
\<close>

theorem counter_recovered:
  assumes "visits_all order" and "q < 2 ^ 29" and "collecting (int q) Map.empty 0 4 fcs"
    and "distinct (j # is)" and "set (j # is) = {0..<4}"
    and "generateParity (counters (4 * q) (4 * q + 4)) = Some parity"
    and "final = processObject order (parity_object (4 * q + 3) parity)
      (process_all order (map (\<lambda>i. data_object (4 * q + i)) is) fcs)"
    and "x = of_nat (4 * q + j)"
  shows "if length (FormatUint x) = max_len (counters (4 * q) (4 * q + 4)) 0
    then fst final = Inr () \<and> fcs_lastReceived (snd final) = x \<and>
      fcs_recoveredCount (snd final) = fcs_recoveredCount fcs + 1
    else fst final = Inl (Fail (OtherError 3))"
  using counter_block [OF assms(1-6)] unfolding assms(7,8) by simp

theorem counter_recovered_witness:
  "\<exists>parity. fst (processObject (\<lambda>ks. sorted_list_of_set ks) (parity_object 11 parity)
      (process_all (\<lambda>ks. sorted_list_of_set ks) (map data_object [11, 8, 10]) NewXORSubscriber)) = Inl (Fail (OtherError 3))"
proof -
  have g: "generateParity (counters (4 * 2) (4 * 2 + 4)) = Some [1, 1]" by code_simp
  have "length (FormatUint (of_nat (4 * 2 + 1))) \<noteq> max_len (counters (4 * 2) (4 * 2 + 4)) 0" by code_simp
  moreover have "distinct [1, 3, 0, 2 :: nat]" "set [1, 3, 0, 2 :: nat] = {0..<4}" by auto
  moreover have "collecting (int 2) Map.empty 0 4 NewXORSubscriber"
    by (simp add: collecting_def NewXORSubscriber_def NewDecoder_def current_block_def newBlock_def)
  moreover have "2 < (2 :: nat) ^ 29" by simp
  ultimately have "fst (processObject (\<lambda>ks. sorted_list_of_set ks) (parity_object (4 * 2 + 3) [1, 1])
      (process_all (\<lambda>ks. sorted_list_of_set ks) (map (\<lambda>i. data_object (4 * 2 + i)) [3, 0, 2]) NewXORSubscriber))
    = Inl (Fail (OtherError 3))"
    using counter_recovered [OF visits_sorted _ _ _ _ g refl refl, of NewXORSubscriber 1 "[3, 0, 2]"] by (simp only: if_False simp_thms)
  then show ?thesis by (intro exI [where x = "[1, 1]"]) simp
qed





text \<open>
  The objects that the counter publisher sends at its ticks: the data object carries the
  counter with its block and place, and the last tick of a block also sends the parity of the
  counters of the block; the subscriber unpacks from each the block, place and payload.
\<close>

lemma counter_published:
  assumes "publisher_state n fcp" and "n div 4 < 2 ^ 31"
  shows "\<exists>objs fcp'. publishNext (\<lambda>_. None) fcp = ((Inr (), data_object n # objs), fcp') \<and>
    publisher_state (Suc n) fcp' \<and> (objs = [] \<longleftrightarrow> Suc n mod 4 \<noteq> 0) \<and>
    unwrapMetadata (obj_Payload (data_object n)) =
      Inr (int (n div 4), int (n mod 4) + 1, False, FormatUint (of_nat n))"
proof -
  have "unwrapMetadata (obj_Payload (data_object n)) =
      Inr (int (n div 4), int (n mod 4) + 1, False, FormatUint (of_nat n))"
    using assms(2) unfolding data_object_def by (simp add: unwrap_wrap)
  with publishNext_state [OF assms(1)] show ?thesis
    by (cases "publishNext (\<lambda>_. None) fcp") (auto split: if_splits)
qed

text \<open>
  C37: A block of payloads that the Reed-Solomon encoder has split and encoded, of which at most
  as many shards are lost as there are parity shards (a lost shard is passed on as nil), leaves
  the decoder as the encoder returned it; the data shards are the payloads joined, padded with
  zeros. Both are then at the start of the next block.
\<close>

theorem rs_block_roundtrip:
  assumes "erasure_code rs n k"
    and "rse_rsEncoder e = rs" and "rse_config e = \<lparr>rsc_DataShards = int n, rsc_ParityShards = int k\<rparr>"
    and "rse_seqID e = 0" and "rse_buffer e = []"
    and "rsd_rsDecoder d = rs" and "rsd_config d = \<lparr>rsc_DataShards = int n, rsc_ParityShards = int k\<rparr>"
    and "rsd_seqID d = 0" and "rsd_buffer d = []"
    and "length payloads = n" and "concat payloads \<noteq> []" and "finite L" and "card L \<le> k"
  shows "\<exists>data parity pad.
    RS_encode_all e payloads = (Inr (Some (data, parity)), e\<lparr>rse_blockID := rse_blockID e + 1\<rparr>) \<and>
    length data = n \<and> length parity = k \<and> concat data = concat payloads @ replicate pad 0 \<and>
    RS_decode_all d (lose L (data @ parity)) = (Inr (Some (data, parity)), d\<lparr>rsd_blockID := rsd_blockID d + 1\<rparr>)"
  using assms by (rule erasure_code.block_roundtrip)

theorem rs_block_roundtrip_witness:
  "\<exists>e d data parity pad. RS_NewEncoder example_new \<lparr>rsc_DataShards = 3, rsc_ParityShards = 1\<rparr> = Some e \<and>
    RS_NewDecoder example_new \<lparr>rsc_DataShards = 3, rsc_ParityShards = 1\<rparr> = Some d \<and>
    fst (RS_encode_all e [[1, 2], [], [3]]) = Inr (Some (data, parity)) \<and>
    concat data = [1, 2, 3] @ replicate pad 0 \<and>
    fst (RS_decode_all d (lose {1} (data @ parity))) = Inr (Some (data, parity))"
proof -
  let ?cfg = "\<lparr>rsc_DataShards = 3, rsc_ParityShards = 1\<rparr>"
  let ?e = "\<lparr>rse_rsEncoder = xor_code 3, rse_config = ?cfg, rse_blockID = 0, rse_seqID = 0, rse_buffer = []\<rparr>"
  let ?d = "\<lparr>rsd_rsDecoder = xor_code 3, rsd_config = ?cfg, rsd_blockID = 0, rsd_seqID = 0, rsd_buffer = []\<rparr>"
  have "erasure_code (xor_code 3) 3 1"
    using xor_erasure.erasure_code_axioms [of 2] by (simp add: eval_nat_numeral)
  from rs_block_roundtrip [OF this, of ?e ?d "[[1, 2], [], [3]]" "{1}"]
  obtain data parity pad where "fst (RS_encode_all ?e [[1, 2], [], [3]]) = Inr (Some (data, parity))"
    "concat data = [1, 2, 3] @ replicate pad 0"
    "fst (RS_decode_all ?d (lose {1} (data @ parity))) = Inr (Some (data, parity))" by auto
  then show ?thesis
    by (intro exI [where x = ?e], intro exI [where x = ?d])
      (auto simp: RS_NewEncoder_def RS_NewDecoder_def example_new_def)
qed

text \<open>
  A block of empty payloads makes the Reed-Solomon encoder panic: the library cannot split
  it, the error is ignored and the slice of no shards is cut.
\<close>

lemma rs_empty_block_panics:
  assumes "erasure_code rs n k" and "rse_rsEncoder e = rs" and "rsc_DataShards (rse_config e) = int n"
    and "rse_seqID e = int (length (rse_buffer e))" and "int (length (rse_buffer e)) + 1 = int n"
    and "concat (rse_buffer e) = []"
  shows "fst (RS_TryEncode e []) = Inl Panic"
  using assms by (rule erasure_code.empty_block_panics)

section \<open>The statistics of a connection\<close>

text \<open>
  C38: With a window for which memory can be allocated (2 to the power 48 bytes at most), no event of a
  connection makes the logger panic, in any order and with any packet numbers, and the metrics are
  always reported. In the packet mode no more packets are reported as
  acknowledged or lost than as sent, and no more as sent than the window holds.
\<close>

theorem logger_never_panics:
  assumes "NewQuicLogger fl start sid p cfg = Inr q" and "48 * ql_winPkts q \<le> int maxAlloc"
  shows "\<exists>q' m q''. trace fl es q = Inr q' \<and> GetRollingMetrics fl now now' q' = Inr (m, q'') \<and>
    (ql_windowMode q' = ByPackets \<longrightarrow>
      unat (rm_AckedPackets m) + unat (rm_LostPackets m) \<le> unat (rm_SentPackets m) \<and>
      int (unat (rm_SentPackets m)) \<le> rm_PktWindow m)"
  using trace_ok [OF NewQuicLogger_ok [OF assms], of fl es] metrics_returned by blast

theorem logger_never_panics_witness:
  "\<exists>q q' m q''. NewQuicLogger example_float 1 [] 0 (Some (example_config ByPackets)) = Inr q \<and>
    trace example_float [SentShortHeaderPacket 5 5 1 10, SentLongHeaderPacket 5 5 1 10,
      SentShortHeaderPacket 5 5 7 10, LostPacket 6 6 0 1] q = Inr q' \<and>
    GetRollingMetrics example_float 10 10 q' = Inr (m, q'')"
proof -
  obtain q where q: "NewQuicLogger example_float 1 [] 0 (Some (example_config ByPackets)) = Inr q"
    "48 * ql_winPkts q \<le> int maxAlloc"
    by (rule example_logger)
  show ?thesis using logger_never_panics [OF q] q(1) by blast
qed

text \<open>
  C39: The packet mode refines a list of the last packets that were sent. As long as no packet
  number is sent twice, the ring buffer with its index reports after any events of the connection
  the packets that are the last to be sent, how many of them were acknowledged, how many were
  lost and not acknowledged, and their bytes.
\<close>

theorem logger_packet_window:
  assumes "NewQuicLogger fl start sid p cfg = Inr q" and "48 * ql_winPkts q \<le> int maxAlloc"
    and "ql_windowMode q = ByPackets" and "distinct (concat (map sent_number es))"
    and "0 \<notin> set (concat (map sent_time es))" and "l = fold (cohort (nat (ql_winPkts q))) es []"
  shows "\<exists>q' m q''. trace fl es q = Inr q' \<and> GetRollingMetrics fl now now' q' = Inr (m, q'') \<and>
    rm_SentPackets m = of_nat (length l) \<and> rm_AckedPackets m = of_nat (in_state psAcked l) \<and>
    rm_LostPackets m = of_nat (in_state psLost l) \<and> rm_SentBytes m = sum_list (map ps_size l)"
proof -
  note new = NewQuicLogger_window [OF assms(1)]
  obtain q' where q': "trace fl es q = Inr q'" "logger_ok q'" "ql_windowMode q' = ByPackets" "window_of q' = l"
    using trace_window [OF NewQuicLogger_ok [OF assms(1,2)] new(2) assms(3,4), of fl] assms(6)
    by (auto simp: new(1))
  have "filter live l = l"
    unfolding assms(6) using assms(5) by (intro cohorts_live) simp_all
  then show ?thesis
    using metrics_report [OF q'(2,3), of fl now now'] q'(1,4) by (auto simp: reports_def)
qed

theorem logger_packet_window_witness:
  "\<exists>q q' m q''. NewQuicLogger example_float 1 [] 0 (Some (example_config ByPackets)) = Inr q \<and>
    trace example_float [SentLongHeaderPacket 5 5 1 10, SentShortHeaderPacket 6 6 2 20,
      SentShortHeaderPacket 7 7 3 30, AcknowledgedPacket 8 8 0 2, AcknowledgedPacket 8 8 0 1,
      LostPacket 9 9 0 3] q = Inr q' \<and>
    GetRollingMetrics example_float 10 10 q' = Inr (m, q'') \<and>
    rm_SentPackets m = 2 \<and> rm_AckedPackets m = 1 \<and> rm_LostPackets m = 1 \<and> rm_SentBytes m = 50"
proof -
  obtain q where q: "NewQuicLogger example_float 1 [] 0 (Some (example_config ByPackets)) = Inr q"
    "ql_windowMode q = ByPackets" "ql_winPkts q = 2" "48 * ql_winPkts q \<le> int maxAlloc"
    by (rule example_logger)
  define es where "es = [SentLongHeaderPacket 5 5 1 10, SentShortHeaderPacket 6 6 2 20,
    SentShortHeaderPacket 7 7 3 30, AcknowledgedPacket 8 8 0 2, AcknowledgedPacket 8 8 0 1, LostPacket 9 9 0 3]"
  define l where "l = fold (cohort (nat (ql_winPkts q))) es []"
  have "distinct (concat (map sent_number es))" "0 \<notin> set (concat (map sent_time es))"
    by (simp_all add: es_def)
  from logger_packet_window [OF q(1,4,2) this l_def]
  obtain q' m q'' where "trace example_float es q = Inr q'" "GetRollingMetrics example_float 10 10 q' = Inr (m, q'')"
    "rm_SentPackets m = of_nat (length l)" "rm_AckedPackets m = of_nat (in_state psAcked l)"
    "rm_LostPackets m = of_nat (in_state psLost l)" "rm_SentBytes m = sum_list (map ps_size l)"
    by blast
  moreover have "l = [\<lparr>ps_t = 6, ps_num = 2, ps_size = 20, ps_st = psAcked\<rparr>,
      \<lparr>ps_t = 7, ps_num = 3, ps_size = 30, ps_st = psLost\<rparr>]"
    by (simp add: l_def es_def q(3) mark_def)
  then have "length l = 2" "in_state psAcked l = 1" "in_state psLost l = 1" "sum_list (map ps_size l) = 50"
    by (simp_all add: in_state_def)
  ultimately show ?thesis
    using q(1) unfolding es_def [symmetric] by (intro exI conjI) simp_all
qed

text \<open>
  C40: The time mode, with a clock that does not go back: the metrics count what happened in the
  window that ends at the last reading of the clock by an event. Asking for the metrics later
  does not move that window.
\<close>

theorem logger_time_window:
  assumes "NewQuicLogger fl start sid p cfg = Inr q" and "ql_windowMode q = ByTime"
    and "sorted (T # concat (map clock es))"
    and "last_read = last (T # concat (map clock es))" and "as = concat (map activity_of es)"
    and "W = ql_window q"
  shows "\<exists>q' m q''. trace fl es q = Inr q' \<and> GetRollingMetrics fl now now' q' = Inr (m, q'') \<and> rm_AsOf m = now \<and>
    rm_SentPackets m = of_nat (length (recent Sent W last_read as)) \<and>
    rm_RecvPackets m = of_nat (length (recent Received W last_read as)) \<and>
    rm_AckedPackets m = of_nat (length (recent Acked W last_read as)) \<and>
    rm_LostPackets m = of_nat (length (recent Lost W last_read as)) \<and>
    rm_SentBytes m = sum_list (map (snd \<circ> snd) (recent Sent W last_read as)) \<and>
    rm_RecvBytes m = sum_list (map (snd \<circ> snd) (recent Received W last_read as))"
proof -
  obtain q' where q': "trace fl es q = Inr q'" "time_ok W last_read as q'"
    using trace_time [OF NewQuicLogger_time [OF assms(1,2), of T] assms(3), of fl] assms(4-6) by auto
  then show ?thesis
    using metrics_time [OF q'(2), of fl now now'] by auto
qed

theorem logger_time_window_witness:
  "\<exists>q q' m q''. NewQuicLogger example_float 1 [] 0 (Some (example_config ByTime)) = Inr q \<and>
    trace example_float [SentShortHeaderPacket 5 5 1 10, SentShortHeaderPacket 90 90 2 20,
      LostPacket 100 101 0 1] q = Inr q' \<and>
    GetRollingMetrics example_float 1000 1000 q' = Inr (m, q'') \<and> rm_AsOf m = 1000 \<and>
    rm_SentPackets m = 1 \<and> rm_LostPackets m = 1 \<and> rm_SentBytes m = 20"
proof -
  obtain q where q: "NewQuicLogger example_float 1 [] 0 (Some (example_config ByTime)) = Inr q"
    "ql_windowMode q = ByTime" "ql_window q = 20"
    by (rule example_logger)
  define es where "es = [SentShortHeaderPacket 5 5 1 10, SentShortHeaderPacket 90 90 2 20, LostPacket 100 101 0 1]"
  have "sorted (0 # concat (map clock es))" "101 = last (0 # concat (map clock es))"
    by (simp_all add: es_def)
  from logger_time_window [OF q(1,2) this refl q(3) [symmetric]]
  obtain q' m q'' where "trace example_float es q = Inr q'"
    "GetRollingMetrics example_float 1000 1000 q' = Inr (m, q'')" "rm_AsOf m = 1000"
    "rm_SentPackets m = of_nat (length (recent Sent 20 101 (concat (map activity_of es))))"
    "rm_LostPackets m = of_nat (length (recent Lost 20 101 (concat (map activity_of es))))"
    "rm_SentBytes m = sum_list (map (snd \<circ> snd) (recent Sent 20 101 (concat (map activity_of es))))"
    by blast
  moreover have "recent Sent 20 101 (concat (map activity_of es)) = [(Sent, 90, 20)]"
    "recent Lost 20 101 (concat (map activity_of es)) = [(Lost, 100, 0)]"
    by (simp_all add: recent_def es_def)
  ultimately show ?thesis
    using q(1) unfolding es_def [symmetric] by (intro exI conjI) simp_all
qed

end
